(* ===== verification/Prelude.thy ===== *)
theory Prelude
  imports Main "HOL-Library.Word"
begin

unbundle bit_operations_syntax

text \<open>
  What every component of the development shares: the machine types of the Go sources, the
  three-way result of a Go call (a value, a returned error, a panic), the carry-chain primitives
  of the standard package \<^verbatim>\<open>math/bits\<close>, and the conversions between integers
  and byte strings of the standard package \<^verbatim>\<open>encoding/binary\<close>.
\<close>

section \<open>Machine types\<close>

type_synonym byte = "8 word"
type_synonym u8 = "8 word"
type_synonym u16 = "16 word"
type_synonym u32 = "32 word"
type_synonym u64 = "64 word"

text \<open>
  A fixed-size byte array is comparable in Go, copied on assignment and always of full length.
  It is modelled by the word of the same number of bits, the first byte being the most
  significant one, so that \<^verbatim>\<open>==\<close> is \<open>=\<close> and \<^verbatim>\<open>bytes.Compare\<close> is the order on words.
\<close>

type_synonym hash256 = "256 word"
type_synonym bytes64 = "512 word"
type_synonym bytes16 = "128 word"

named_theorems res_simps \<open>facts on the results of Go calls\<close>
named_theorems u64_simps \<open>reading 64-bit words as natural numbers\<close>

section \<open>Results of Go calls\<close>

text \<open>
  A call returns a value, returns an error (the text of the message without its formatted
  arguments), or panics.
\<close>

datatype 'a res = Ok 'a | Err string | Panic string

fun rbind :: "'a res \<Rightarrow> ('a \<Rightarrow> 'b res) \<Rightarrow> 'b res" where
  "rbind (Ok x) f = f x"
| "rbind (Err e) f = Err e"
| "rbind (Panic p) f = Panic p"

fun panics :: "'a res \<Rightarrow> bool" where
  "panics (Panic p) = True"
| "panics (Ok x) = False"
| "panics (Err e) = False"

text \<open>\<^verbatim>\<open>if cond { return errors.New(msg) }\<close>.\<close>

definition fail_if :: "bool \<Rightarrow> string \<Rightarrow> unit res" where
  "fail_if c msg = (if c then Err msg else Ok ())"

text \<open>A \<^verbatim>\<open>for range\<close> loop whose body may return early from the function.\<close>

fun for_each :: "('a \<Rightarrow> unit res) \<Rightarrow> 'a list \<Rightarrow> unit res" where
  "for_each f [] = Ok ()"
| "for_each f (x # xs) = rbind (f x) (\<lambda>_. for_each f xs)"

text \<open>The same with a loop variable that the body updates.\<close>

fun fold_res :: "('a \<Rightarrow> 's \<Rightarrow> 's res) \<Rightarrow> 'a list \<Rightarrow> 's \<Rightarrow> 's res" where
  "fold_res f [] s = Ok s"
| "fold_res f (x # xs) s = rbind (f x s) (fold_res f xs)"

lemma rbind_Ok_iff [res_simps]: "rbind m f = Ok y \<longleftrightarrow> (\<exists>x. m = Ok x \<and> f x = Ok y)"
  by (cases m) auto

lemma rbind_Err_iff [res_simps]:
  "rbind m f = Err e \<longleftrightarrow> m = Err e \<or> (\<exists>x. m = Ok x \<and> f x = Err e)"
  by (cases m) auto

lemma rbind_Panic_iff [res_simps]:
  "rbind m f = Panic e \<longleftrightarrow> m = Panic e \<or> (\<exists>x. m = Ok x \<and> f x = Panic e)"
  by (cases m) auto

lemma panics_iff: "panics m \<longleftrightarrow> (\<exists>p. m = Panic p)"
  by (cases m) auto

lemma panics_rbind [res_simps]:
  "panics (rbind m f) \<longleftrightarrow> panics m \<or> (\<exists>x. m = Ok x \<and> panics (f x))"
  by (cases m) auto

lemma rbind_assoc: "rbind (rbind m f) g = rbind m (\<lambda>x. rbind (f x) g)"
  by (cases m) auto

lemma rbind_cong [fundef_cong]:
  "m = m' \<Longrightarrow> (\<And>x. m' = Ok x \<Longrightarrow> f x = f' x) \<Longrightarrow> rbind m f = rbind m' f'"
  by (cases m') auto

lemma fail_if_Ok [res_simps]: "fail_if c msg = Ok u \<longleftrightarrow> \<not> c"
  by (simp add: fail_if_def)

lemma fail_if_simps [simp]:
  "fail_if True msg = Err msg" "fail_if False msg = Ok ()"
  by (simp_all add: fail_if_def)

lemma for_each_Ok [res_simps]: "for_each f xs = Ok u \<longleftrightarrow> (\<forall>x\<in>set xs. f x = Ok ())"
  by (induction xs) (auto simp: res_simps)

lemma fold_res_append: "fold_res f (xs @ ys) s = rbind (fold_res f xs s) (fold_res f ys)"
proof (induction xs arbitrary: s)
  case (Cons x xs)
  show ?case by (cases "f x s") (simp_all add: Cons.IH)
qed simp

lemma fold_res_invariant:
  assumes "fold_res f xs s = Ok t" and "P s"
    and "\<And>x s t. x \<in> set xs \<Longrightarrow> P s \<Longrightarrow> f x s = Ok t \<Longrightarrow> P t"
  shows "P t"
  using assms
proof (induction xs arbitrary: s)
  case Nil
  then show ?case by simp
next
  case (Cons x xs)
  from Cons.prems(1) obtain s' where s': "f x s = Ok s'" and rest: "fold_res f xs s' = Ok t"
    by (auto simp: res_simps)
  have "P s'" using Cons.prems(2,3) s' by auto
  with rest show ?case by (rule Cons.IH) (meson Cons.prems(3) list.set_intros(2))
qed

section \<open>Reading words as natural numbers\<close>

lemma unat_u64_lt [u64_simps]: "unat (x :: u64) < 2 ^ 64"
  using unsigned_less [of x, where ?'a = nat] by simp

lemma unat_u8_lt: "unat (x :: byte) < 256"
  using unsigned_less [of x, where ?'a = nat] by simp

lemma unat_of_nat_u64 [u64_simps]: "unat (word_of_nat n :: u64) = n mod 2 ^ 64"
  by (simp add: unat_of_nat)

lemma unat_of_nat_u64_less: "n < 2 ^ 64 \<Longrightarrow> unat (word_of_nat n :: u64) = n"
  by (simp add: unat_of_nat)

lemma unat_drop_bit_div: "unat (drop_bit n w) = unat w div 2 ^ n"
  by (subst unat_drop_bit_eq) (rule drop_bit_eq_div)

text \<open>The test \<^verbatim>\<open>w & (1 << i) != 0\<close>; a shift by 64 or more gives 0.\<close>

lemma and_push_bit_one: "(w :: u64) AND push_bit i 1 \<noteq> 0 \<longleftrightarrow> bit w i"
proof -
  have "bit (w AND push_bit i 1) j \<longleftrightarrow> bit w i \<and> j = i" for j
    using bit_imp_le_length [of w i] by (auto simp: bit_simps)
  then show ?thesis by (metis bit_0_eq bit_eq_iff bot_apply bot_bool_def)
qed

section \<open>Package math/bits\<close>

text \<open>
  \<^verbatim>\<open>bits.Add64\<close>, \<^verbatim>\<open>bits.Sub64\<close>, \<^verbatim>\<open>bits.Mul64\<close> and \<^verbatim>\<open>bits.Div64\<close> by their documentation:
  the sum with its carry, the difference with its borrow, the 128-bit product as
  (high, low), and quotient and remainder of a 128-bit dividend, which panics when the divisor is
  zero or the quotient does not fit.
\<close>

definition add64 :: "u64 \<Rightarrow> u64 \<Rightarrow> u64 \<Rightarrow> u64 \<times> u64" where
  "add64 x y c = (x + y + c, if 2 ^ 64 \<le> unat x + unat y + unat c then 1 else 0)"

definition sub64 :: "u64 \<Rightarrow> u64 \<Rightarrow> u64 \<Rightarrow> u64 \<times> u64" where
  "sub64 x y b = (x - y - b, if unat x < unat y + unat b then 1 else 0)"

definition mul64 :: "u64 \<Rightarrow> u64 \<Rightarrow> u64 \<times> u64" where
  "mul64 x y = (word_of_nat (unat x * unat y div 2 ^ 64), x * y)"

definition div64 :: "u64 \<Rightarrow> u64 \<Rightarrow> u64 \<Rightarrow> (u64 \<times> u64) res" where
  "div64 hi lo y =
     (if y = 0 then Panic ''integer divide by zero''
      else if y \<le> hi then Panic ''integer overflow''
      else let n = unat hi * 2 ^ 64 + unat lo
           in Ok (word_of_nat (n div unat y), word_of_nat (n mod unat y)))"

text \<open>\<^verbatim>\<open>bits.Len64\<close>: the number of bits needed, 0 for 0.\<close>

fun bit_len :: "nat \<Rightarrow> nat" where
  "bit_len n = (if n = 0 then 0 else Suc (bit_len (n div 2)))"

declare bit_len.simps [simp del]

definition len64 :: "u64 \<Rightarrow> nat" where
  "len64 x = bit_len (unat x)"

definition leading_zeros64 :: "u64 \<Rightarrow> nat" where
  "leading_zeros64 x = 64 - len64 x"

text \<open>\<^verbatim>\<open>bits.TrailingZeros64\<close>: 64 for 0.\<close>

fun trailing_zeros_from :: "nat \<Rightarrow> nat \<Rightarrow> u64 \<Rightarrow> nat" where
  "trailing_zeros_from 0 i x = i"
| "trailing_zeros_from (Suc k) i x = (if bit x i then i else trailing_zeros_from k (Suc i) x)"

definition trailing_zeros64 :: "u64 \<Rightarrow> nat" where
  "trailing_zeros64 x = trailing_zeros_from 64 0 x"

lemma unat_add64:
  assumes "add64 x y c = (s, c')" and "unat c \<le> 1"
  shows "unat s + 2 ^ 64 * unat c' = unat x + unat y + unat c" and "unat c' \<le> 1"
proof -
  have s: "unat s = (unat x + unat y + unat c) mod 2 ^ 64"
    and c': "unat c' = (if 2 ^ 64 \<le> unat x + unat y + unat c then 1 else 0)"
    using assms(1) by (auto simp: add64_def unat_word_ariths mod_simps)
  have "unat x + unat y + unat c < 2 * 2 ^ 64"
    using unat_u64_lt [of x] unat_u64_lt [of y] assms(2) by simp
  then show "unat s + 2 ^ 64 * unat c' = unat x + unat y + unat c"
    unfolding s c' by (auto simp: le_mod_geq)
  show "unat c' \<le> 1" by (simp add: c')
qed

lemma unat_sub64:
  assumes "sub64 x y b = (d, b')" and "unat b \<le> 1"
  shows "unat x + 2 ^ 64 * unat b' = unat d + unat y + unat b" and "unat b' \<le> 1"
proof -
  have b': "unat b' = (if unat x < unat y + unat b then 1 else 0)"
    using assms(1) by (auto simp: sub64_def)
  have d: "x = d + y + b" using assms(1) by (auto simp: sub64_def)
  have x: "unat x = (unat d + unat y + unat b) mod 2 ^ 64"
    unfolding d by (simp add: unat_word_ariths mod_simps)
  have "unat d + unat y + unat b < 2 * 2 ^ 64"
    using unat_u64_lt [of d] unat_u64_lt [of y] assms(2) by simp
  then show "unat x + 2 ^ 64 * unat b' = unat d + unat y + unat b"
    unfolding b' using x unat_u64_lt [of d]
    by (cases "unat d + unat y + unat b < 2 ^ 64") (auto simp: le_mod_geq)
  show "unat b' \<le> 1" by (simp add: b')
qed

lemma unat_mul64:
  assumes "mul64 x y = (hi, lo)"
  shows "unat hi * 2 ^ 64 + unat lo = unat x * unat y"
proof -
  have "unat x * unat y < 2 ^ 64 * 2 ^ 64"
    using unat_u64_lt [of x] unat_u64_lt [of y] by (intro mult_strict_mono) auto
  then have "unat x * unat y div 2 ^ 64 < 2 ^ 64"
    by (simp add: less_mult_imp_div_less)
  then have "unat hi = unat x * unat y div 2 ^ 64"
    using assms by (auto simp: mul64_def unat_of_nat_u64_less)
  moreover have "unat lo = unat x * unat y mod 2 ^ 64"
    using assms by (auto simp: mul64_def unat_word_ariths)
  ultimately show ?thesis by simp
qed

lemma div64_Ok:
  assumes "hi < y"
  shows "\<exists>q r. div64 hi lo y = Ok (q, r) \<and>
     unat q = (unat hi * 2 ^ 64 + unat lo) div unat y \<and>
     unat r = (unat hi * 2 ^ 64 + unat lo) mod unat y"
proof -
  have hi: "unat hi < unat y" using assms by (simp add: word_less_nat_alt)
  let ?n = "unat hi * 2 ^ 64 + unat lo"
  have "?n < Suc (unat hi) * 2 ^ 64" using unat_u64_lt [of lo] by simp
  also have "\<dots> \<le> unat y * 2 ^ 64" using hi by (intro mult_right_mono) auto
  finally have q: "?n div unat y < 2 ^ 64"
    by (simp add: less_mult_imp_div_less mult.commute)
  have r: "?n mod unat y < 2 ^ 64"
    using hi unat_u64_lt [of y] mod_less_divisor [of "unat y" "unat hi * 2 ^ 64 + unat lo"] by linarith
  have "y \<noteq> 0" "\<not> y \<le> hi" using assms by auto
  with q r show ?thesis by (simp add: div64_def Let_def unat_of_nat_u64_less)
qed

lemma bit_len_bounds: "0 < n \<Longrightarrow> 2 ^ (bit_len n - 1) \<le> n \<and> n < 2 ^ bit_len n"
proof (induction n rule: bit_len.induct)
  case (1 n)
  show ?case
  proof (cases "n = 1")
    case True
    then show ?thesis by (simp add: bit_len.simps)
  next
    case False
    with "1.prems" have pos: "0 < n div 2" by auto
    from "1.IH" [OF _ pos] "1.prems"
    have IH: "2 ^ (bit_len (n div 2) - 1) \<le> n div 2" "n div 2 < 2 ^ bit_len (n div 2)" by auto
    have len: "bit_len n = Suc (bit_len (n div 2))" using "1.prems" by (simp add: bit_len.simps [of n])
    have "0 < bit_len (n div 2)" using pos by (simp add: bit_len.simps [of "n div 2"])
    then obtain k where k: "bit_len (n div 2) = Suc k" by (cases "bit_len (n div 2)") auto
    show ?thesis using IH unfolding len k by auto
  qed
qed

lemma bit_len_zero [simp]: "bit_len 0 = 0"
  by (simp add: bit_len.simps)

lemma bit_len_le: "n < 2 ^ k \<Longrightarrow> bit_len n \<le> k"
proof (cases "n = 0")
  case False
  assume "n < 2 ^ k"
  with bit_len_bounds [of n] False have "(2 :: nat) ^ (bit_len n - 1) < 2 ^ k"
    by (meson le_less_trans neq0_conv)
  then have "bit_len n - 1 < k" by (rule power_less_imp_less_exp [rotated]) simp
  then show ?thesis by simp
qed simp

lemma len64_le: "len64 x \<le> 64"
  unfolding len64_def by (rule bit_len_le) (rule unat_u64_lt)

lemma len64_bounds: "x \<noteq> 0 \<Longrightarrow> 2 ^ (len64 x - 1) \<le> unat x \<and> unat x < 2 ^ len64 x \<and> 0 < len64 x"
  using bit_len_bounds [of "unat x"] by (simp add: len64_def unat_gt_0 bit_len.simps [of "unat x"])

section \<open>Package encoding/binary\<close>

text \<open>
  Little-endian and big-endian byte strings of a given length, and the numbers they denote.
\<close>

fun le_bytes :: "nat \<Rightarrow> nat \<Rightarrow> byte list" where
  "le_bytes 0 v = []"
| "le_bytes (Suc k) v = word_of_nat v # le_bytes k (v div 256)"

fun of_le_bytes :: "byte list \<Rightarrow> nat" where
  "of_le_bytes [] = 0"
| "of_le_bytes (b # bs) = unat b + 256 * of_le_bytes bs"

definition be_bytes :: "nat \<Rightarrow> nat \<Rightarrow> byte list" where
  "be_bytes k v = rev (le_bytes k v)"

definition of_be_bytes :: "byte list \<Rightarrow> nat" where
  "of_be_bytes bs = of_le_bytes (rev bs)"

lemma length_le_bytes [simp]: "length (le_bytes k v) = k"
  by (induction k arbitrary: v) auto

lemma length_be_bytes [simp]: "length (be_bytes k v) = k"
  by (simp add: be_bytes_def)

lemma le_bytes_zero: "le_bytes k 0 = replicate k 0"
  by (induction k) auto

lemma of_le_bytes_zero: "of_le_bytes (replicate k 0) = 0"
  by (induction k) auto

lemma concat_replicate_zero: "concat (replicate m (replicate k x)) = replicate (m * k) x"
  by (induction m) (simp_all add: replicate_add)

lemma of_le_bytes_le_bytes: "of_le_bytes (le_bytes k v) = v mod 256 ^ k"
proof (induction k arbitrary: v)
  case (Suc k)
  have "of_le_bytes (le_bytes (Suc k) v) = v mod 256 + 256 * (v div 256 mod 256 ^ k)"
    by (simp add: Suc.IH unat_of_nat)
  also have "\<dots> = v mod (256 * 256 ^ k)"
    by (simp only: mod_mult2_eq add.commute)
  finally show ?case by simp
qed simp

lemma of_le_bytes_less: "of_le_bytes bs < 256 ^ length bs"
proof (induction bs)
  case (Cons b bs)
  have "unat b + 256 * of_le_bytes bs < 256 + 256 * of_le_bytes bs"
    using unat_u8_lt [of b] by simp
  also have "\<dots> = 256 * Suc (of_le_bytes bs)" by simp
  also have "\<dots> \<le> 256 * 256 ^ length bs" using Cons.IH by (intro mult_left_mono) auto
  finally show ?case by simp
qed simp

lemma le_bytes_of_le_bytes: "le_bytes (length bs) (of_le_bytes bs) = bs"
proof (induction bs)
  case (Cons b bs)
  have "(unat b + 256 * of_le_bytes bs) div 256 = of_le_bytes bs"
    using unat_u8_lt [of b] by simp
  moreover have "(word_of_nat (unat b + 256 * of_le_bytes bs) :: byte) = b"
  proof -
    have "(256 :: byte) = 0" by simp
    then have "(256 :: byte) * x = 0" for x by (metis mult_zero_left)
    then show ?thesis by simp
  qed
  ultimately show ?case using Cons.IH by simp
qed simp

lemma of_be_bytes_be_bytes: "of_be_bytes (be_bytes k v) = v mod 256 ^ k"
  by (simp add: of_be_bytes_def be_bytes_def of_le_bytes_le_bytes)

lemma be_bytes_of_be_bytes: "be_bytes (length bs) (of_be_bytes bs) = bs"
  using le_bytes_of_le_bytes [of "rev bs"] by (simp add: of_be_bytes_def be_bytes_def)

lemma of_be_bytes_less: "of_be_bytes bs < 256 ^ length bs"
  using of_le_bytes_less [of "rev bs"] by (simp add: of_be_bytes_def)

definition le64 :: "u64 \<Rightarrow> byte list" where
  "le64 x = le_bytes 8 (unat x)"

definition of_le64 :: "byte list \<Rightarrow> u64" where
  "of_le64 bs = word_of_nat (of_le_bytes bs)"

definition be64 :: "u64 \<Rightarrow> byte list" where
  "be64 x = be_bytes 8 (unat x)"

definition of_be64 :: "byte list \<Rightarrow> u64" where
  "of_be64 bs = word_of_nat (of_be_bytes bs)"

lemma length_le64 [simp]: "length (le64 x) = 8"
  by (simp add: le64_def)

lemma length_be64 [simp]: "length (be64 x) = 8"
  by (simp add: be64_def)

lemma of_le64_le64 [simp]: "of_le64 (le64 x) = x"
  using unat_u64_lt [of x] by (simp add: of_le64_def le64_def of_le_bytes_le_bytes)

lemma of_be64_be64 [simp]: "of_be64 (be64 x) = x"
  using unat_u64_lt [of x] by (simp add: of_be64_def be64_def of_be_bytes_be_bytes)

lemma le64_of_le64: "length bs = 8 \<Longrightarrow> le64 (of_le64 bs) = bs"
  using of_le_bytes_less [of bs] le_bytes_of_le_bytes [of bs]
  by (simp add: of_le64_def le64_def unat_of_nat_u64_less)

lemma be64_of_be64: "length bs = 8 \<Longrightarrow> be64 (of_be64 bs) = bs"
  using of_be_bytes_less [of bs] be_bytes_of_be_bytes [of bs]
  by (simp add: of_be64_def be64_def unat_of_nat_u64_less)

text \<open>The bytes of fixed-size arrays.\<close>

definition hash_bytes :: "hash256 \<Rightarrow> byte list" where
  "hash_bytes h = be_bytes 32 (unat h)"

definition hash_of_bytes :: "byte list \<Rightarrow> hash256" where
  "hash_of_bytes bs = word_of_nat (of_be_bytes bs)"

definition bytes_of64 :: "bytes64 \<Rightarrow> byte list" where
  "bytes_of64 h = be_bytes 64 (unat h)"

definition of_bytes64 :: "byte list \<Rightarrow> bytes64" where
  "of_bytes64 bs = word_of_nat (of_be_bytes bs)"

definition bytes_of16 :: "bytes16 \<Rightarrow> byte list" where
  "bytes_of16 h = be_bytes 16 (unat h)"

definition of_bytes16 :: "byte list \<Rightarrow> bytes16" where
  "of_bytes16 bs = word_of_nat (of_be_bytes bs)"

lemma length_fixed_bytes [simp]:
  "length (hash_bytes h) = 32" "length (bytes_of64 s) = 64" "length (bytes_of16 p) = 16"
  by (simp_all add: hash_bytes_def bytes_of64_def bytes_of16_def)

lemma hash_of_bytes_hash_bytes [simp]: "hash_of_bytes (hash_bytes h) = h"
  using unsigned_less [of h, where ?'a = nat] by (simp add: hash_of_bytes_def hash_bytes_def of_be_bytes_be_bytes)

lemma of_bytes64_bytes_of64 [simp]: "of_bytes64 (bytes_of64 h) = h"
  using unsigned_less [of h, where ?'a = nat] by (simp add: of_bytes64_def bytes_of64_def of_be_bytes_be_bytes)

lemma of_bytes16_bytes_of16 [simp]: "of_bytes16 (bytes_of16 h) = h"
  using unsigned_less [of h, where ?'a = nat] by (simp add: of_bytes16_def bytes_of16_def of_be_bytes_be_bytes)

lemma hash_bytes_inject [simp]: "hash_bytes a = hash_bytes b \<longleftrightarrow> a = b"
  by (metis hash_of_bytes_hash_bytes)

lemma hash_bytes_of_bytes: "length bs = 32 \<Longrightarrow> hash_bytes (hash_of_bytes bs) = bs"
proof -
  assume len: "length bs = 32"
  have "of_be_bytes bs < 2 ^ 256" using of_be_bytes_less [of bs] len by simp
  then have "unat (hash_of_bytes bs) = of_be_bytes bs"
    by (simp add: hash_of_bytes_def unat_of_nat)
  with len be_bytes_of_be_bytes [of bs] show ?thesis by (simp add: hash_bytes_def)
qed

lemma fixed_bytes_nonempty [simp]:
  "hash_bytes h \<noteq> []" "bytes_of64 s \<noteq> []" "bytes_of16 p \<noteq> []" "le64 x \<noteq> []" "be64 x \<noteq> []"
proof -
  show "hash_bytes h \<noteq> []" using length_fixed_bytes(1) [of h] by fastforce
  show "bytes_of64 s \<noteq> []" using length_fixed_bytes(2) [of s] by fastforce
  show "bytes_of16 p \<noteq> []" using length_fixed_bytes(3) [of p] by fastforce
  show "le64 x \<noteq> []" using length_le64 [of x] by fastforce
  show "be64 x \<noteq> []" using length_be64 [of x] by fastforce
qed

section \<open>Checked arithmetic\<close>

text \<open>
  What the fixed-width number types of the program promise: values below a bound, and addition,
  subtraction and multiplication by a word that give the exact result or panic.
\<close>

locale checked_nat =
  fixes val :: "'a \<Rightarrow> nat"
    and bound :: nat
    and add sub :: "'a \<Rightarrow> 'a \<Rightarrow> 'a res"
    and mul :: "'a \<Rightarrow> u64 \<Rightarrow> 'a res"
  assumes val_less: "val a < bound"
    and val_inj: "val a = val b \<Longrightarrow> a = b"
    and add_total: "val a + val b < bound \<Longrightarrow> \<exists>c. add a b = Ok c \<and> val c = val a + val b"
    and add_panics: "bound \<le> val a + val b \<Longrightarrow> panics (add a b)"
    and sub_total: "val b \<le> val a \<Longrightarrow> \<exists>c. sub a b = Ok c \<and> val c = val a - val b"
    and sub_panics: "val a < val b \<Longrightarrow> panics (sub a b)"
    and mul_total: "val a * unat k < bound \<Longrightarrow> \<exists>c. mul a k = Ok c \<and> val c = val a * unat k"
    and mul_panics: "bound \<le> val a * unat k \<Longrightarrow> panics (mul a k)"
begin

lemma add_iff: "add a b = Ok c \<longleftrightarrow> val c = val a + val b"
proof (cases "val a + val b < bound")
  case True
  then show ?thesis using add_total [of a b] val_inj by fastforce
next
  case False
  then have "panics (add a b)" by (simp add: add_panics)
  then show ?thesis using False val_less [of c] by (auto simp: panics_iff)
qed

lemma sub_iff: "sub a b = Ok c \<longleftrightarrow> val c + val b = val a"
proof (cases "val b \<le> val a")
  case True
  then obtain d where d: "sub a b = Ok d" "val d = val a - val b" using sub_total by blast
  have "val c + val b = val a \<longleftrightarrow> val d = val c" using True d(2) by auto
  also have "\<dots> \<longleftrightarrow> d = c" using val_inj by blast
  finally show ?thesis using d(1) by simp
next
  case False
  then have "panics (sub a b)" by (simp add: sub_panics)
  then show ?thesis using False by (auto simp: panics_iff)
qed

lemma mul_iff: "mul a k = Ok c \<longleftrightarrow> val c = val a * unat k"
proof (cases "val a * unat k < bound")
  case True
  then show ?thesis using mul_total [of a k] val_inj by fastforce
next
  case False
  then have "panics (mul a k)" by (simp add: mul_panics)
  then show ?thesis using False val_less [of c] by (auto simp: panics_iff)
qed

lemma add_never_Err: "add a b \<noteq> Err e"
  using add_total [of a b] add_panics [of a b] by (cases "val a + val b < bound") (auto simp: panics_iff)

lemma sub_never_Err: "sub a b \<noteq> Err e"
  using sub_total [of b a] sub_panics [of a b] by (cases "val b \<le> val a") (auto simp: panics_iff)

lemma add_sub_cancel: "add a b = Ok c \<Longrightarrow> sub c b = Ok a"
  by (simp add: add_iff sub_iff)

text \<open>A loop that adds up the values of a list.\<close>

lemma sum_iff: "fold_res (\<lambda>x s. add s (f x)) xs z = Ok s \<longleftrightarrow> val s = val z + sum_list (map (\<lambda>x. val (f x)) xs)"
proof (induction xs arbitrary: z)
  case Nil
  then show ?case using val_inj by auto
next
  case (Cons x xs)
  show ?case
  proof (cases "val z + val (f x) < bound")
    case True
    then show ?thesis using add_total [OF True] Cons by auto
  next
    case False
    then have "panics (add z (f x))" by (simp add: add_panics)
    then show ?thesis using False val_less [of s] by (auto simp: panics_iff)
  qed
qed

lemma sum_total:
  "val z + sum_list (map (\<lambda>x. val (f x)) xs) < bound
    \<Longrightarrow> \<exists>s. fold_res (\<lambda>x s. add s (f x)) xs z = Ok s \<and> val s = val z + sum_list (map (\<lambda>x. val (f x)) xs)"
proof (induction xs arbitrary: z)
  case (Cons x xs)
  then have "val z + val (f x) < bound" by simp
  from add_total [OF this] obtain c where "add z (f x) = Ok c" "val c = val z + val (f x)" by blast
  then show ?case using Cons.IH [of c] Cons.prems by (simp add: add.assoc)
qed simp

end

end
