(* ===== verification/Currency.thy ===== *)
theory Currency
  imports Prelude
begin

text \<open>
  The 128-bit amounts of \<^verbatim>\<open>core/types/currency.go\<close>. A value is a pair of 64-bit limbs; every
  operation is the limb computation of the source, with its panics. The lemmas relate each of them to
  the natural number the limbs denote (\<open>cval\<close>), including the division of two 128-bit values through a
  trial quotient.
\<close>

section \<open>Representation\<close>

record Currency =
  Lo :: u64
  Hi :: u64

definition cval :: "Currency \<Rightarrow> nat" where
  "cval c = unat (Lo c) + 2 ^ 64 * unat (Hi c)"

definition NewCurrency :: "u64 \<Rightarrow> u64 \<Rightarrow> Currency" where
  "NewCurrency lo hi = \<lparr>Lo = lo, Hi = hi\<rparr>"

definition NewCurrency64 :: "u64 \<Rightarrow> Currency" where
  "NewCurrency64 c = \<lparr>Lo = c, Hi = 0\<rparr>"

definition ZeroCurrency :: Currency where
  "ZeroCurrency = \<lparr>Lo = 0, Hi = 0\<rparr>"

definition MaxCurrency :: Currency where
  "MaxCurrency = NewCurrency 18446744073709551615 18446744073709551615"

definition HastingsPerSiacoin :: Currency where
  "HastingsPerSiacoin = NewCurrency 2003764205206896640 54210"

definition Currency_IsZero :: "Currency \<Rightarrow> bool" where
  "Currency_IsZero c \<longleftrightarrow> c = ZeroCurrency"

definition Currency_Equals :: "Currency \<Rightarrow> Currency \<Rightarrow> bool" where
  "Currency_Equals c v \<longleftrightarrow> c = v"

definition Currency_Cmp :: "Currency \<Rightarrow> Currency \<Rightarrow> int" where
  "Currency_Cmp c v =
     (if c = v then 0
      else if Hi c < Hi v \<or> (Hi c = Hi v \<and> Lo c < Lo v) then -1
      else 1)"

section \<open>Arithmetic\<close>

definition Currency_AddWithOverflow :: "Currency \<Rightarrow> Currency \<Rightarrow> Currency \<times> bool" where
  "Currency_AddWithOverflow c v =
     (let (lo, carry) = add64 (Lo c) (Lo v) 0;
          (hi, carry) = add64 (Hi c) (Hi v) carry
      in (\<lparr>Lo = lo, Hi = hi\<rparr>, carry \<noteq> 0))"

definition Currency_Add :: "Currency \<Rightarrow> Currency \<Rightarrow> Currency res" where
  "Currency_Add c v =
     (let (s, overflow) = Currency_AddWithOverflow c v
      in if overflow then Panic ''overflow'' else Ok s)"

definition Currency_SubWithUnderflow :: "Currency \<Rightarrow> Currency \<Rightarrow> Currency \<times> bool" where
  "Currency_SubWithUnderflow c v =
     (let (lo, borrow) = sub64 (Lo c) (Lo v) 0;
          (hi, borrow) = sub64 (Hi c) (Hi v) borrow
      in (\<lparr>Lo = lo, Hi = hi\<rparr>, borrow \<noteq> 0))"

definition Currency_Sub :: "Currency \<Rightarrow> Currency \<Rightarrow> Currency res" where
  "Currency_Sub c v =
     (let (s, underflow) = Currency_SubWithUnderflow c v
      in if underflow then Panic ''underflow'' else Ok s)"

definition Currency_MulWithOverflow :: "Currency \<Rightarrow> Currency \<Rightarrow> Currency \<times> bool" where
  "Currency_MulWithOverflow c v =
     (let (hi, lo) = mul64 (Lo c) (Lo v);
          (p0, p1) = mul64 (Hi c) (Lo v);
          (p2, p3) = mul64 (Lo c) (Hi v);
          (hi, c0) = add64 hi p1 0;
          (hi, c1) = add64 hi p3 c0
      in (\<lparr>Lo = lo, Hi = hi\<rparr>, (Hi c \<noteq> 0 \<and> Hi v \<noteq> 0) \<or> p0 \<noteq> 0 \<or> p2 \<noteq> 0 \<or> c1 \<noteq> 0))"

definition Currency_Mul :: "Currency \<Rightarrow> Currency \<Rightarrow> Currency res" where
  "Currency_Mul c v =
     (let (s, overflow) = Currency_MulWithOverflow c v
      in if overflow then Panic ''overflow'' else Ok s)"

definition Currency_Mul64WithOverflow :: "Currency \<Rightarrow> u64 \<Rightarrow> Currency \<times> bool" where
  "Currency_Mul64WithOverflow c v =
     (let (hi0, lo0) = mul64 (Lo c) v;
          (hi1, lo1) = mul64 (Hi c) v;
          (hi2, c0) = add64 hi0 lo1 0
      in (\<lparr>Lo = lo0, Hi = hi2\<rparr>, hi1 \<noteq> 0 \<or> c0 \<noteq> 0))"

definition Currency_Mul64 :: "Currency \<Rightarrow> u64 \<Rightarrow> Currency res" where
  "Currency_Mul64 c v =
     (let (s, overflow) = Currency_Mul64WithOverflow c v
      in if overflow then Panic ''overflow'' else Ok s)"

definition Currency_quoRem64 :: "Currency \<Rightarrow> u64 \<Rightarrow> (Currency \<times> u64) res" where
  "Currency_quoRem64 c v =
     (if Hi c < v then
        rbind (div64 (Hi c) (Lo c) v) (\<lambda>(qlo, r). Ok (\<lparr>Lo = qlo, Hi = 0\<rparr>, r))
      else
        rbind (div64 0 (Hi c) v) (\<lambda>(qhi, r).
        rbind (div64 r (Lo c) v) (\<lambda>(qlo, r). Ok (\<lparr>Lo = qlo, Hi = qhi\<rparr>, r))))"

text \<open>The second half of \<^verbatim>\<open>quoRem\<close>: the remainder for the trial quotient, and its adjustment.\<close>

definition quoRem_adjust :: "Currency \<Rightarrow> Currency \<Rightarrow> u64 \<Rightarrow> (Currency \<times> Currency) res" where
  "quoRem_adjust c v tq =
     (let tq = (if tq \<noteq> 0 then tq - 1 else tq);
          q = NewCurrency64 tq
      in rbind (Currency_Mul64 v tq) (\<lambda>vtq.
         rbind (Currency_Sub c vtq) (\<lambda>r.
         if Currency_Cmp r v \<ge> 0 then
           let q = q\<lparr>Lo := Lo q + 1\<rparr>;
               q = (if Lo q = 0 then q\<lparr>Hi := Hi q + 1\<rparr> else q)
           in rbind (Currency_Sub r v) (\<lambda>r. Ok (q, r))
         else Ok (q, r))))"

definition Currency_quoRem :: "Currency \<Rightarrow> Currency \<Rightarrow> (Currency \<times> Currency) res" where
  "Currency_quoRem c v =
     (if Hi v = 0 then
        rbind (Currency_quoRem64 c (Lo v)) (\<lambda>(q, r64). Ok (q, NewCurrency64 r64))
      else
        let n = leading_zeros64 (Hi v);
            v1 = NewCurrency (push_bit n (Lo v)) (push_bit n (Hi v) OR drop_bit (64 - n) (Lo v));
            u1 = NewCurrency (drop_bit 1 (Lo c) OR push_bit 63 (Hi c)) (drop_bit 1 (Hi c))
        in rbind (div64 (Hi u1) (Lo u1) (Hi v1)) (\<lambda>(tq, _). quoRem_adjust c v (drop_bit (63 - n) tq)))"

definition Currency_Div :: "Currency \<Rightarrow> Currency \<Rightarrow> Currency res" where
  "Currency_Div c v = rbind (Currency_quoRem c v) (\<lambda>(q, _). Ok q)"

definition Currency_Div64 :: "Currency \<Rightarrow> u64 \<Rightarrow> Currency res" where
  "Currency_Div64 c v = rbind (Currency_quoRem64 c v) (\<lambda>(q, _). Ok q)"

definition Siacoins :: "u32 \<Rightarrow> Currency res" where
  "Siacoins n = Currency_Mul64 HastingsPerSiacoin (ucast n)"

section \<open>The numbers the limbs denote\<close>

lemma cval_less: "cval c < 2 ^ 128"
proof -
  have "cval c \<le> (2 ^ 64 - 1) + 2 ^ 64 * (2 ^ 64 - 1)"
    unfolding cval_def using unat_u64_lt [of "Lo c"] unat_u64_lt [of "Hi c"] by simp
  also have "\<dots> < 2 ^ 128" by simp
  finally show ?thesis .
qed

lemma limbs_eq:
  fixes a b c d :: nat
  assumes "a < k" "c < k" "a + k * b = c + k * d"
  shows "a = c" "b = d"
proof -
  have "(a + k * b) mod k = a" "(c + k * d) mod k = c" using assms(1,2) by auto
  then show "a = c" using assms(3) by simp
  then show "b = d" using assms by simp
qed

lemma cval_inject: "cval a = cval b \<longleftrightarrow> a = b"
proof
  assume "cval a = cval b"
  then have "unat (Lo a) = unat (Lo b)" "unat (Hi a) = unat (Hi b)"
    using limbs_eq [OF unat_u64_lt unat_u64_lt] unfolding cval_def by blast+
  then show "a = b" by (simp add: word_unat_eq_iff)
qed simp

lemma cval_simps [simp]:
  "cval ZeroCurrency = 0" "cval (NewCurrency64 x) = unat x"
  "cval (NewCurrency lo hi) = unat lo + 2 ^ 64 * unat hi"
  "cval MaxCurrency = 2 ^ 128 - 1" "cval HastingsPerSiacoin = 10 ^ 24"
  by (simp_all add: cval_def ZeroCurrency_def NewCurrency64_def NewCurrency_def MaxCurrency_def
      HastingsPerSiacoin_def)

lemma cval_zero_iff: "cval c = 0 \<longleftrightarrow> c = ZeroCurrency"
  using cval_inject [of c ZeroCurrency] by simp

lemma IsZero_iff: "Currency_IsZero c \<longleftrightarrow> cval c = 0"
  by (simp add: Currency_IsZero_def cval_zero_iff)

lemma lex_limbs:
  fixes a b c d k :: nat
  assumes "a < k" "c < k"
  shows "b < d \<or> (b = d \<and> a < c) \<longleftrightarrow> a + k * b < c + k * d"
proof (cases "b < d")
  case True
  then have "k * Suc b \<le> k * d" by (intro mult_left_mono) auto
  with True assms show ?thesis by simp
next
  case False
  show ?thesis
  proof (cases "b = d")
    case False
    with \<open>\<not> b < d\<close> have "k * Suc d \<le> k * b" by (intro mult_left_mono) auto
    with False \<open>\<not> b < d\<close> assms show ?thesis by simp
  qed simp
qed

lemma Cmp_cval:
  "Currency_Cmp c v = (if cval c = cval v then 0 else if cval c < cval v then -1 else 1)"
  using lex_limbs [OF unat_u64_lt [of "Lo c"] unat_u64_lt [of "Lo v"], of "unat (Hi c)" "unat (Hi v)"]
  by (simp add: Currency_Cmp_def word_less_nat_alt word_unat_eq_iff cval_def flip: cval_inject)

lemma Cmp_simps [simp]:
  "Currency_Cmp c v < 0 \<longleftrightarrow> cval c < cval v"
  "0 < Currency_Cmp c v \<longleftrightarrow> cval v < cval c"
  "0 \<le> Currency_Cmp c v \<longleftrightarrow> cval v \<le> cval c"
  "Currency_Cmp c v \<le> 0 \<longleftrightarrow> cval c \<le> cval v"
  "Currency_Cmp c v = 0 \<longleftrightarrow> c = v"
  by (auto simp: Cmp_cval simp flip: cval_inject)

lemma AddWithOverflow_cval:
  assumes "Currency_AddWithOverflow c v = (s, overflow)"
  shows "cval s + (if overflow then 2 ^ 128 else 0) = cval c + cval v"
proof -
  obtain lo c1 where 1: "add64 (Lo c) (Lo v) 0 = (lo, c1)" by fastforce
  obtain hi c2 where 2: "add64 (Hi c) (Hi v) c1 = (hi, c2)" by fastforce
  note a1 = unat_add64 [OF 1] and a2 = unat_add64 [OF 2]
  have s: "s = \<lparr>Lo = lo, Hi = hi\<rparr>" and ov: "overflow = (c2 \<noteq> 0)"
    using assms by (auto simp: Currency_AddWithOverflow_def 1 2)
  have "unat c2 = (if overflow then 1 else 0)"
    using a1 a2(2) ov unat_eq_zero [of c2] by auto
  moreover have "cval s + 2 ^ 128 * unat c2 = cval c + cval v"
    using a1 a2(1) by (simp add: s cval_def)
  ultimately show ?thesis by auto
qed

lemma SubWithUnderflow_cval:
  assumes "Currency_SubWithUnderflow c v = (d, underflow)"
  shows "cval c + (if underflow then 2 ^ 128 else 0) = cval d + cval v"
proof -
  obtain lo b1 where 1: "sub64 (Lo c) (Lo v) 0 = (lo, b1)" by fastforce
  obtain hi b2 where 2: "sub64 (Hi c) (Hi v) b1 = (hi, b2)" by fastforce
  note a1 = unat_sub64 [OF 1] and a2 = unat_sub64 [OF 2]
  have d: "d = \<lparr>Lo = lo, Hi = hi\<rparr>" and uf: "underflow = (b2 \<noteq> 0)"
    using assms by (auto simp: Currency_SubWithUnderflow_def 1 2)
  have "unat b2 = (if underflow then 1 else 0)"
    using a1 a2(2) uf unat_eq_zero [of b2] by auto
  moreover have "cval c + 2 ^ 128 * unat b2 = cval d + cval v"
    using a1 a2(1) by (simp add: d cval_def)
  ultimately show ?thesis by auto
qed

lemma Mul64WithOverflow_cval:
  assumes "Currency_Mul64WithOverflow c v = (p, overflow)"
  shows "\<exists>k. cval p + 2 ^ 128 * k = cval c * unat v \<and> (overflow \<longleftrightarrow> k \<noteq> 0)"
proof -
  obtain hi0 lo0 where 0: "mul64 (Lo c) v = (hi0, lo0)" by fastforce
  obtain hi1 lo1 where 1: "mul64 (Hi c) v = (hi1, lo1)" by fastforce
  obtain hi2 c0 where 2: "add64 hi0 lo1 0 = (hi2, c0)" by fastforce
  note m0 = unat_mul64 [OF 0] and m1 = unat_mul64 [OF 1] and a2 = unat_add64(1) [OF 2]
  have p: "p = \<lparr>Lo = lo0, Hi = hi2\<rparr>" and ov: "overflow = (hi1 \<noteq> 0 \<or> c0 \<noteq> 0)"
    using assms by (auto simp: Currency_Mul64WithOverflow_def 0 1 2)
  have "cval c * unat v = unat (Lo c) * unat v + 2 ^ 64 * (unat (Hi c) * unat v)"
    by (simp add: cval_def distrib_right)
  also have "\<dots> = unat lo0 + 2 ^ 64 * (unat hi0 + unat lo1) + 2 ^ 128 * unat hi1"
    unfolding m0 [symmetric] m1 [symmetric] by simp
  also have "\<dots> = cval p + 2 ^ 128 * (unat c0 + unat hi1)"
    using a2 by (simp add: p cval_def)
  finally have "cval p + 2 ^ 128 * (unat c0 + unat hi1) = cval c * unat v" by simp
  moreover have "overflow \<longleftrightarrow> unat c0 + unat hi1 \<noteq> 0"
    using ov by (auto simp: unat_eq_zero)
  ultimately show ?thesis by blast
qed

lemma Add_Ok_iff: "Currency_Add c v = Ok s \<longleftrightarrow> cval s = cval c + cval v"
proof -
  obtain t ov where 1: "Currency_AddWithOverflow c v = (t, ov)" by fastforce
  show ?thesis
    using AddWithOverflow_cval [OF 1] cval_less [of s] cval_less [of t]
    by (auto simp: Currency_Add_def 1 simp flip: cval_inject split: if_splits)
qed

lemma Add_total:
  "cval c + cval v < 2 ^ 128 \<Longrightarrow> \<exists>s. Currency_Add c v = Ok s \<and> cval s = cval c + cval v"
proof -
  assume less: "cval c + cval v < 2 ^ 128"
  obtain t ov where 1: "Currency_AddWithOverflow c v = (t, ov)" by fastforce
  show ?thesis
    using AddWithOverflow_cval [OF 1] less by (auto simp: Currency_Add_def 1 split: if_splits)
qed

lemma Add_Panic: "2 ^ 128 \<le> cval c + cval v \<Longrightarrow> Currency_Add c v = Panic ''overflow''"
proof -
  assume ge: "2 ^ 128 \<le> cval c + cval v"
  obtain t ov where 1: "Currency_AddWithOverflow c v = (t, ov)" by fastforce
  show ?thesis
    using AddWithOverflow_cval [OF 1] ge cval_less [of t]
    by (auto simp: Currency_Add_def 1 split: if_splits)
qed

lemma Sub_Ok_iff: "Currency_Sub c v = Ok d \<longleftrightarrow> cval c = cval d + cval v"
proof -
  obtain t uf where 1: "Currency_SubWithUnderflow c v = (t, uf)" by fastforce
  show ?thesis
    using SubWithUnderflow_cval [OF 1] cval_less [of c] cval_less [of t]
    by (auto simp: Currency_Sub_def 1 simp flip: cval_inject split: if_splits)
qed

lemma Sub_total:
  "cval v \<le> cval c \<Longrightarrow> \<exists>d. Currency_Sub c v = Ok d \<and> cval d = cval c - cval v"
proof -
  assume le: "cval v \<le> cval c"
  obtain t uf where 1: "Currency_SubWithUnderflow c v = (t, uf)" by fastforce
  show ?thesis
    using SubWithUnderflow_cval [OF 1] le cval_less [of t]
    by (auto simp: Currency_Sub_def 1 split: if_splits)
qed

lemma Sub_Panic: "cval c < cval v \<Longrightarrow> Currency_Sub c v = Panic ''underflow''"
proof -
  assume less: "cval c < cval v"
  obtain t uf where 1: "Currency_SubWithUnderflow c v = (t, uf)" by fastforce
  show ?thesis
    using SubWithUnderflow_cval [OF 1] less by (auto simp: Currency_Sub_def 1 split: if_splits)
qed

lemma Mul64_total:
  "cval c * unat v < 2 ^ 128 \<Longrightarrow> \<exists>p. Currency_Mul64 c v = Ok p \<and> cval p = cval c * unat v"
proof -
  assume less: "cval c * unat v < 2 ^ 128"
  obtain p ov where 1: "Currency_Mul64WithOverflow c v = (p, ov)" by fastforce
  from Mul64WithOverflow_cval [OF 1] obtain k
    where k: "cval p + 2 ^ 128 * k = cval c * unat v" "ov \<longleftrightarrow> k \<noteq> 0" by blast
  have "k = 0" using less k(1) by (cases k) auto
  then show ?thesis using k by (simp add: Currency_Mul64_def 1)
qed

lemma Mul64_Panic: "2 ^ 128 \<le> cval c * unat v \<Longrightarrow> Currency_Mul64 c v = Panic ''overflow''"
proof -
  assume ge: "2 ^ 128 \<le> cval c * unat v"
  obtain p ov where 1: "Currency_Mul64WithOverflow c v = (p, ov)" by fastforce
  from Mul64WithOverflow_cval [OF 1] obtain k
    where k: "cval p + 2 ^ 128 * k = cval c * unat v" "ov \<longleftrightarrow> k \<noteq> 0" by blast
  have "k \<noteq> 0" using ge k(1) cval_less [of p] by (cases k) auto
  then show ?thesis using k by (simp add: Currency_Mul64_def 1)
qed

lemma Mul64_Ok_iff: "Currency_Mul64 c v = Ok p \<longleftrightarrow> cval p = cval c * unat v"
proof -
  obtain t ov where 1: "Currency_Mul64WithOverflow c v = (t, ov)" by fastforce
  from Mul64WithOverflow_cval [OF 1] obtain k
    where k: "cval t + 2 ^ 128 * k = cval c * unat v" "ov \<longleftrightarrow> k \<noteq> 0" by blast
  have "cval p = cval c * unat v \<Longrightarrow> k = 0" using k(1) cval_less [of p] by (cases k) auto
  with k show ?thesis by (auto simp: Currency_Mul64_def 1 simp flip: cval_inject)
qed

interpretation cur: checked_nat cval "2 ^ 128" Currency_Add Currency_Sub Currency_Mul64
  using cval_less cval_inject Add_total Add_Panic Sub_total Sub_Panic Mul64_total Mul64_Panic
  by unfold_locales simp_all

section \<open>Division\<close>

text \<open>
  The trial quotient divides by the leading limb of the shifted divisor only. It is never too small
  and at most one too large.
\<close>

lemma trial_quotient:
  fixes c v d :: nat
  assumes n: "n \<le> 63" and d: "2 ^ 63 \<le> d"
    and lo: "d * 2 ^ (64 - n) \<le> v" and hi: "v < (d + 1) * 2 ^ (64 - n)" and c: "c < 2 ^ 128"
  shows "c div v \<le> c div (d * 2 ^ (64 - n))" and "c div (d * 2 ^ (64 - n)) \<le> c div v + 1"
proof -
  define D where "D = d * 2 ^ (64 - n)"
  define q where "q = c div v"
  define e where "e = v - D"
  have Dlow: "2 ^ (127 - n) \<le> D"
  proof -
    have "(2 :: nat) ^ (127 - n) = 2 ^ 63 * 2 ^ (64 - n)"
      using n by (simp only: power_add [symmetric]) simp
    also have "\<dots> \<le> D" unfolding D_def using d by (rule mult_right_mono) simp
    finally show ?thesis .
  qed
  then have Dpos: "0 < D" by (meson less_le_trans zero_less_power zero_less_numeral)
  have v: "v = D + e" using lo by (simp add: e_def D_def)
  have vpos: "0 < v" using v Dpos by simp
  show "c div v \<le> c div (d * 2 ^ (64 - n))"
    using Dpos lo unfolding D_def by (rule div_le_mono2)
  have e: "e + 1 \<le> 2 ^ (64 - n)" using hi v by (simp add: D_def algebra_simps)
  have "q * 2 ^ (127 - n) \<le> q * v" using Dlow v by (intro mult_left_mono) auto
  also have "\<dots> \<le> c" unfolding q_def by simp
  also have "c < 2 ^ (n + 1) * 2 ^ (127 - n)"
  proof -
    have "(2 :: nat) ^ (n + 1) * 2 ^ (127 - n) = 2 ^ 128"
      using n by (simp only: power_add [symmetric]) simp
    then show ?thesis using c by simp
  qed
  finally have q: "q + 1 \<le> 2 ^ (n + 1)" by simp
  have "(q + 1) * e + 2 ^ (n + 1) \<le> 2 ^ (n + 1) * e + 2 ^ (n + 1)"
    using q by (intro add_right_mono mult_right_mono) auto
  also have "\<dots> = 2 ^ (n + 1) * (e + 1)" by simp
  also have "\<dots> \<le> 2 ^ (n + 1) * 2 ^ (64 - n)" using e by (rule mult_left_mono) simp
  also have "\<dots> = 2 ^ 65" using n by (simp flip: power_add)
  finally have qe: "(q + 1) * e + 2 ^ (n + 1) \<le> 2 ^ 65" .
  have small: "(q + 1) * e \<le> D"
  proof (cases "n = 63")
    case True
    with qe have "(q + 1) * e \<le> 2 ^ 64" by simp
    with Dlow True show ?thesis by simp
  next
    case False
    with n have "65 \<le> 127 - n" by simp
    then have "(2 :: nat) ^ 65 \<le> 2 ^ (127 - n)" by (rule power_increasing) simp
    with qe Dlow show ?thesis by linarith
  qed
  have "c < (q + 1) * v"
    unfolding q_def using vpos by (metis Suc_eq_plus1 dividend_less_div_times mult_Suc add.commute)
  also have "\<dots> = (q + 1) * D + (q + 1) * e" by (simp add: v distrib_left)
  also have "\<dots> \<le> (q + 2) * D" using small by simp
  finally have "c div D < q + 2" using Dpos by (simp add: less_mult_imp_div_less)
  then show "c div (d * 2 ^ (64 - n)) \<le> c div v + 1" by (simp add: D_def q_def)
qed

lemma or_shifted: "y < 2 ^ n \<Longrightarrow> (x * 2 ^ n) OR y = x * 2 ^ n + (y :: nat)"
proof -
  assume "y < 2 ^ n"
  then have y: "take_bit n y = y" by (simp add: take_bit_nat_eq_self)
  have "push_bit n x AND take_bit n y = 0"
    by (rule bit_eqI) (auto simp: bit_simps)
  then show ?thesis by (simp add: y push_bit_eq_mult disjunctive_add_eq_or)
qed

lemma unat_shift_pair:
  assumes "n \<le> 64" and "unat (hi :: u64) < 2 ^ (64 - n)"
  shows "unat (push_bit n hi OR drop_bit (64 - n) (lo :: u64)) = (unat lo + 2 ^ 64 * unat hi) div 2 ^ (64 - n)"
proof -
  have 1: "unat (push_bit n hi) = unat hi * 2 ^ n"
  proof -
    have "unat hi * 2 ^ n < 2 ^ (64 - n) * 2 ^ n" using assms(2) by simp
    also have "\<dots> = 2 ^ 64" using assms(1) by (simp flip: power_add)
    finally have "take_bit 64 (push_bit n (unat hi)) = unat hi * 2 ^ n"
      by (simp add: push_bit_eq_mult take_bit_nat_eq_self)
    then show ?thesis by (simp add: unsigned_push_bit_eq)
  qed
  have 2: "unat (drop_bit (64 - n) lo) = unat lo div 2 ^ (64 - n)"
    by (simp add: unat_drop_bit_div)
  have small: "unat lo div 2 ^ (64 - n) < 2 ^ n"
  proof -
    have "unat lo < 2 ^ n * 2 ^ (64 - n)"
      using unat_u64_lt [of lo] assms(1) by (simp flip: power_add)
    then show ?thesis by (simp add: less_mult_imp_div_less)
  qed
  have "(unat lo + 2 ^ 64 * unat hi) div 2 ^ (64 - n) =
      (unat lo + unat hi * 2 ^ n * 2 ^ (64 - n)) div 2 ^ (64 - n)"
    using assms(1) by (simp flip: power_add add: mult.assoc mult.commute)
  also have "\<dots> = unat lo div 2 ^ (64 - n) + unat hi * 2 ^ n" by simp
  finally show ?thesis by (simp add: unsigned_or_eq 1 2 or_shifted [OF small])
qed

lemma quoRem64_correct:
  assumes "v \<noteq> 0"
  shows "\<exists>q r. Currency_quoRem64 c v = Ok (q, r) \<and>
    cval q = cval c div unat v \<and> unat r = cval c mod unat v"
proof -
  have vpos: "0 < unat v" using assms by (simp add: unat_gt_0)
  have dividend: "cval c = unat (Hi c) * 2 ^ 64 + unat (Lo c)" by (simp add: cval_def)
  show ?thesis
  proof (cases "Hi c < v")
    case True
    then show ?thesis
      using div64_Ok [OF True, of "Lo c"] unfolding Currency_quoRem64_def dividend
      by (auto simp: cval_def)
  next
    case False
    have "(0 :: u64) < v" using assms by (simp add: word_gt_0)
    from div64_Ok [OF this, of "Hi c"] obtain qh r1
      where 1: "div64 0 (Hi c) v = Ok (qh, r1)"
        "unat qh = unat (Hi c) div unat v" "unat r1 = unat (Hi c) mod unat v" by auto
    have "r1 < v" using 1(3) vpos by (simp add: word_less_nat_alt)
    from div64_Ok [OF this, of "Lo c"] obtain ql r2
      where 2: "div64 r1 (Lo c) v = Ok (ql, r2)"
        "unat ql = (unat r1 * 2 ^ 64 + unat (Lo c)) div unat v"
        "unat r2 = (unat r1 * 2 ^ 64 + unat (Lo c)) mod unat v" by auto
    have split: "cval c = (unat r1 * 2 ^ 64 + unat (Lo c)) + unat v * (unat qh * 2 ^ 64)"
    proof -
      have "unat (Hi c) = unat v * unat qh + unat r1" using 1(2,3) by simp
      then show ?thesis unfolding dividend by (simp add: algebra_simps)
    qed
    have "cval c div unat v = unat ql + 2 ^ 64 * unat qh"
      unfolding split using vpos 2(2) by simp
    moreover have "cval c mod unat v = unat r2" unfolding split 2(3) by simp
    ultimately show ?thesis using False 1(1) 2(1) by (simp add: Currency_quoRem64_def cval_def)
  qed
qed

text \<open>The correction after the trial quotient, on the denoted numbers.\<close>

lemma quotient_correction:
  fixes c v t q :: nat
  assumes "0 < v" "q = c div v" "q \<le> t" "t \<le> q + 1"
  defines "t' \<equiv> (if t \<noteq> 0 then t - 1 else t)"
  shows "v * t' \<le> c" and "v \<le> c - v * t' \<Longrightarrow> t' + 1 = q \<and> c - v * t' - v = c mod v"
    and "c - v * t' < v \<Longrightarrow> t' = q \<and> c - v * t' = c mod v"
proof -
  have c: "c = v * q + c mod v" using assms(2) by simp
  have m: "c mod v < v" using assms(1) by simp
  have cases: "t' = q \<or> t' + 1 = q" using assms(3,4) unfolding t'_def by auto
  then show "v * t' \<le> c"
  proof
    assume "t' = q" then show ?thesis using c by simp
  next
    assume "t' + 1 = q" then show ?thesis using c by (auto simp: algebra_simps)
  qed
  show "t' + 1 = q \<and> c - v * t' - v = c mod v" if "v \<le> c - v * t'"
    using cases
  proof
    assume "t' = q" then show ?thesis using that c m by auto
  next
    assume t: "t' + 1 = q"
    have "c = v * t' + v + c mod v" using c by (simp flip: t)
    then show ?thesis using t by linarith
  qed
  show "t' = q \<and> c - v * t' = c mod v" if "c - v * t' < v"
    using cases
  proof
    assume "t' = q" then show ?thesis using c by auto
  next
    assume t: "t' + 1 = q"
    have "c = v * t' + v + c mod v" using c by (simp flip: t)
    then show ?thesis using that by linarith
  qed
qed

lemma quoRem_adjust_correct:
  assumes "Hi v \<noteq> 0"
    and tq: "cval c div cval v \<le> unat t" "unat t \<le> cval c div cval v + 1"
  shows "\<exists>q r. quoRem_adjust c v t = Ok (q, r) \<and>
    cval q = cval c div cval v \<and> cval r = cval c mod cval v"
proof -
  have large: "2 ^ 64 \<le> cval v"
    using assms(1) unat_gt_0 [of "Hi v"] by (simp add: cval_def)
  then have vpos: "0 < cval v" by simp
  define t' where "t' = (if t \<noteq> 0 then t - 1 else t)"
  have t': "unat t' = (if unat t \<noteq> 0 then unat t - 1 else unat t)"
    by (auto simp: t'_def unat_eq_zero unat_minus_one)
  note corr = quotient_correction [OF vpos refl tq, folded t']
  obtain p where p: "Currency_Mul64 v t' = Ok p" "cval p = cval v * unat t'"
    using Mul64_total [of v t'] corr(1) cval_less [of c] by auto
  obtain r where r: "Currency_Sub c p = Ok r" "cval r = cval c - cval v * unat t'"
    using Sub_total [of p c] corr(1) p(2) by auto
  have run: "quoRem_adjust c v t =
      (if cval v \<le> cval r then
         let q = (NewCurrency64 t')\<lparr>Lo := t' + 1\<rparr>; q = (if Lo q = 0 then q\<lparr>Hi := Hi q + 1\<rparr> else q)
         in rbind (Currency_Sub r v) (\<lambda>r. Ok (q, r))
       else Ok (NewCurrency64 t', r))"
    unfolding quoRem_adjust_def t'_def [symmetric] Let_def p(1) r(1) rbind.simps
    by (simp add: NewCurrency64_def)
  show ?thesis
  proof (cases "cval v \<le> cval r")
    case True
    with corr(2) r(2) have q: "unat t' + 1 = cval c div cval v" "cval r - cval v = cval c mod cval v"
      by auto
    obtain r' where r': "Currency_Sub r v = Ok r'" "cval r' = cval r - cval v"
      using Sub_total [OF True] by auto
    have "cval c div cval v \<le> cval c div 2 ^ 64" using large by (intro div_le_mono2) auto
    also have "\<dots> < 2 ^ 64" using cval_less [of c] by (simp add: less_mult_imp_div_less)
    finally have "unat t' + 1 < 2 ^ 64" using q(1) by simp
    then have "unat (t' + 1) = unat t' + 1" by (simp add: unat_word_ariths)
    moreover from this have "t' + 1 \<noteq> 0" by (metis unat_0 add_is_0 one_neq_zero)
    ultimately show ?thesis
      using True q r' by (simp add: run NewCurrency64_def cval_def)
  next
    case False
    with corr(3) r(2) have "unat t' = cval c div cval v" "cval r = cval c mod cval v" by auto
    with False show ?thesis by (simp add: run)
  qed
qed

lemma half_limbs:
  "unat (drop_bit 1 (lo :: u64) OR push_bit 63 (hi :: u64)) + 2 ^ 64 * unat (drop_bit 1 hi)
    = (unat lo + 2 ^ 64 * unat hi) div 2"
proof -
  have hi: "unat hi = 2 * (unat hi div 2) + unat hi mod 2" by simp
  have 1: "unat (drop_bit 1 hi) = unat hi div 2" for hi :: u64
    by (simp add: unat_drop_bit_div)
  have 2: "unat (push_bit 63 hi) = unat hi mod 2 * 2 ^ 63"
  proof -
    have "unat (push_bit 63 hi) = take_bit 64 (push_bit 63 (unat hi))"
      by (simp add: unsigned_push_bit_eq)
    also have "\<dots> = push_bit 63 (take_bit 1 (unat hi))"
      by (simp add: take_bit_push_bit)
    finally show ?thesis by (simp add: push_bit_eq_mult take_bit_eq_mod)
  qed
  have "unat lo div 2 < 2 ^ 63" using unat_u64_lt [of lo] by simp
  then have "unat (drop_bit 1 lo OR push_bit 63 hi) = unat hi mod 2 * 2 ^ 63 + unat lo div 2"
    by (simp only: unsigned_or_eq 1 2 or.commute [of "unat lo div 2"] or_shifted)
  moreover have "(unat lo + 2 ^ 64 * unat hi) div 2 = unat lo div 2 + 2 ^ 63 * unat hi" by simp
  moreover have "h = 2 * d + m \<Longrightarrow> m * 2 ^ 63 + l + 2 ^ 64 * d = l + 2 ^ 63 * h" for h d m l :: nat
    by simp
  ultimately show ?thesis using hi unfolding 1 by presburger
qed

lemma quoRem_correct:
  assumes "v \<noteq> ZeroCurrency"
  shows "\<exists>q r. Currency_quoRem c v = Ok (q, r) \<and>
    cval q = cval c div cval v \<and> cval r = cval c mod cval v"
proof (cases "Hi v = 0")
  case True
  then have "Lo v \<noteq> 0" and "cval v = unat (Lo v)"
    using assms by (auto simp: ZeroCurrency_def cval_def)
  with quoRem64_correct [of "Lo v" c] True show ?thesis by (auto simp: Currency_quoRem_def)
next
  case False
  define n where "n = leading_zeros64 (Hi v)"
  define V1 where "V1 = push_bit n (Hi v) OR drop_bit (64 - n) (Lo v)"
  define ulo where "ulo = drop_bit 1 (Lo c) OR push_bit 63 (Hi c)"
  define uhi where "uhi = drop_bit 1 (Hi c)"
  note len = len64_bounds [OF False] len64_le [of "Hi v"]
  have n: "n \<le> 63" and n': "64 - n = len64 (Hi v)" "len64 (Hi v) - 1 = 63 - n"
    using len by (auto simp: n_def leading_zeros64_def)
  have vpos: "0 < cval v" using assms cval_zero_iff by auto
  have V1: "unat V1 = cval v div 2 ^ (64 - n)"
    unfolding V1_def using unat_shift_pair [of n "Hi v" "Lo v"] n len n' by (simp add: cval_def)
  have V1_large: "2 ^ 63 \<le> unat V1"
  proof -
    have "(2 :: nat) ^ 63 * 2 ^ (64 - n) = 2 ^ 64 * 2 ^ (63 - n)"
      using n by (simp only: power_add [symmetric]) simp
    also have "\<dots> \<le> 2 ^ 64 * unat (Hi v)" using len n' by (intro mult_left_mono) auto
    also have "\<dots> \<le> cval v" by (simp add: cval_def)
    finally show ?thesis unfolding V1 by (simp add: less_eq_div_iff_mult_less_eq)
  qed
  have u: "unat uhi * 2 ^ 64 + unat ulo = cval c div 2"
    using half_limbs [of "Lo c" "Hi c"] by (simp add: ulo_def uhi_def cval_def)
  have "unat uhi < 2 ^ 63"
    unfolding uhi_def using unat_u64_lt [of "Hi c"]
    by (simp add: unat_drop_bit_div)
  with V1_large have "uhi < V1" by (simp add: word_less_nat_alt)
  from div64_Ok [OF this, of ulo] obtain tq0 r0
    where div: "div64 uhi ulo V1 = Ok (tq0, r0)" and tq0: "unat tq0 = cval c div 2 div unat V1"
    unfolding u by auto
  define t where "t = drop_bit (63 - n) tq0"
  have t: "unat t = cval c div (unat V1 * 2 ^ (64 - n))"
  proof -
    have "64 - n = Suc (63 - n)" using n by simp
    then have "(2 :: nat) * unat V1 * 2 ^ (63 - n) = unat V1 * 2 ^ (64 - n)" by simp
    moreover have "unat t = unat tq0 div 2 ^ (63 - n)"
      unfolding t_def by (simp add: unat_drop_bit_div)
    ultimately show ?thesis unfolding tq0 by (simp only: div_mult2_eq [symmetric])
  qed
  have "unat V1 * 2 ^ (64 - n) \<le> cval v" unfolding V1 by simp
  moreover have "cval v < (unat V1 + 1) * 2 ^ (64 - n)"
    unfolding V1 using dividend_less_div_times [of "2 ^ (64 - n)" "cval v"] by simp
  ultimately have tq: "cval c div cval v \<le> unat t" "unat t \<le> cval c div cval v + 1"
    unfolding t using trial_quotient [OF n V1_large _ _ cval_less] by blast+
  have "Currency_quoRem c v = quoRem_adjust c v t"
    using False div by (simp add: Currency_quoRem_def NewCurrency_def t_def n_def V1_def ulo_def uhi_def)
  then show ?thesis using quoRem_adjust_correct [OF _ tq] False by simp
qed

lemma quoRem_zero: "panics (Currency_quoRem c ZeroCurrency)"
  by (simp add: Currency_quoRem_def ZeroCurrency_def Currency_quoRem64_def div64_def)

lemma Div64_total:
  "v \<noteq> 0 \<Longrightarrow> \<exists>q. Currency_Div64 c v = Ok q \<and> cval q = cval c div unat v"
  using quoRem64_correct [of v c] by (auto simp: Currency_Div64_def)

section \<open>Multiplication of two 128-bit values\<close>

lemma MulWithOverflow_exact:
  assumes less: "cval c * cval v < 2 ^ 128"
    and run: "Currency_MulWithOverflow c v = (p, overflow)"
  shows "cval p = cval c * cval v \<and> \<not> overflow"
proof -
  obtain h lo where 0: "mul64 (Lo c) (Lo v) = (h, lo)" by fastforce
  obtain p0 p1 where 1: "mul64 (Hi c) (Lo v) = (p0, p1)" by fastforce
  obtain p2 p3 where 2: "mul64 (Lo c) (Hi v) = (p2, p3)" by fastforce
  obtain h1 c0 where 3: "add64 h p1 0 = (h1, c0)" by fastforce
  obtain h2 c1 where 4: "add64 h1 p3 c0 = (h2, c1)" by fastforce
  have c0: "unat c0 \<le> 1" by (rule unat_add64(2) [OF 3]) simp
  have a3: "unat h1 + 2 ^ 64 * unat c0 = unat h + unat p1" using unat_add64(1) [OF 3] by simp
  note a4 = unat_add64(1) [OF 4 c0]
  have p: "p = \<lparr>Lo = lo, Hi = h2\<rparr>"
    and ov: "overflow \<longleftrightarrow> (Hi c \<noteq> 0 \<and> Hi v \<noteq> 0) \<or> p0 \<noteq> 0 \<or> p2 \<noteq> 0 \<or> c1 \<noteq> 0"
    using run by (auto simp: Currency_MulWithOverflow_def 0 1 2 3 4)
  define k where "k = unat (Hi c) * unat (Hi v) + unat p0 + unat p2"
  have "cval c * cval v = unat (Lo c) * unat (Lo v)
      + 2 ^ 64 * (unat (Hi c) * unat (Lo v) + unat (Lo c) * unat (Hi v))
      + 2 ^ 128 * (unat (Hi c) * unat (Hi v))"
    by (simp add: cval_def algebra_simps)
  also have "\<dots> = unat lo + 2 ^ 64 * (unat h + unat p1 + unat p3) + 2 ^ 128 * k"
    unfolding unat_mul64 [OF 0, symmetric] unat_mul64 [OF 1, symmetric] unat_mul64 [OF 2, symmetric]
    by (simp add: k_def algebra_simps)
  finally have prod: "cval c * cval v = unat lo + 2 ^ 64 * (unat h + unat p1 + unat p3) + 2 ^ 128 * k" .
  have "k = 0" using less prod by (cases k) auto
  have sum: "unat h + unat p1 + unat p3 < 2 ^ 64" using less prod by simp
  then have "unat c0 = 0" using a3 by (cases "unat c0") auto
  with a3 a4 sum have h2: "unat h2 + 2 ^ 64 * unat c1 = unat h + unat p1 + unat p3" by simp
  with sum have "unat c1 = 0" by (cases "unat c1") auto
  with h2 \<open>k = 0\<close> prod show ?thesis
    by (auto simp: p ov cval_def k_def unat_eq_zero)
qed

section \<open>Properties\<close>

text \<open>\<^verbatim>\<open>quoRem\<close> is division with remainder on 128-bit amounts: for a non-zero divisor it
  returns, without any panic of the limb arithmetic inside it (the trial quotient, its correction,
  \<^verbatim>\<open>Mul64\<close>, \<^verbatim>\<open>Sub\<close>, \<^verbatim>\<open>bits.Div64\<close>), the quotient and the remainder; for the zero divisor it
  panics.\<close>

theorem quoRem_divides:
  "case Currency_quoRem c v of
     Ok (q, r) \<Rightarrow> v \<noteq> ZeroCurrency \<and> cval c = cval q * cval v + cval r \<and> cval r < cval v
   | Err e \<Rightarrow> False
   | Panic p \<Rightarrow> v = ZeroCurrency"
proof (cases "v = ZeroCurrency")
  case True
  with quoRem_zero [of c] show ?thesis by (auto simp: panics_iff)
next
  case False
  then have "0 < cval v" using cval_zero_iff by auto
  with quoRem_correct [OF False, of c] False show ?thesis by auto
qed

text \<open>\<^verbatim>\<open>Add\<close>, \<^verbatim>\<open>Sub\<close> and \<^verbatim>\<open>Mul64\<close> compute the exact sum, difference and product of
  the 128-bit values, and panic precisely when that number is not in the range of the type.\<close>

theorem checked_arithmetic_exact:
  "(if cval a + cval b < 2 ^ 128
    then \<exists>s. Currency_Add a b = Ok s \<and> cval s = cval a + cval b
    else Currency_Add a b = Panic ''overflow'') \<and>
   (if cval b \<le> cval a
    then \<exists>d. Currency_Sub a b = Ok d \<and> cval d = cval a - cval b
    else Currency_Sub a b = Panic ''underflow'') \<and>
   (if cval a * unat n < 2 ^ 128
    then \<exists>p. Currency_Mul64 a n = Ok p \<and> cval p = cval a * unat n
    else Currency_Mul64 a n = Panic ''overflow'')"
  using Add_total Add_Panic Sub_total Sub_Panic Mul64_total Mul64_Panic by (simp add: not_less not_le)

text \<open>\<^verbatim>\<open>MulWithOverflow\<close> never raises a false alarm: whenever the product of the two values fits
  in 128 bits it is returned exactly, with the overflow flag clear.\<close>

theorem MulWithOverflow_complete:
  assumes "cval c * cval v < 2 ^ 128"
  shows "\<exists>p. Currency_MulWithOverflow c v = (p, False) \<and> cval p = cval c * cval v"
  using MulWithOverflow_exact [OF assms] by (metis surj_pair)

theorem MulWithOverflow_complete_witness:
  "cval HastingsPerSiacoin * cval (NewCurrency64 500000) < 2 ^ 128 \<and>
   (\<exists>p. Currency_MulWithOverflow HastingsPerSiacoin (NewCurrency64 500000) = (p, False) \<and>
      cval p = 500000 * 10 ^ 24)"
  using MulWithOverflow_complete [of HastingsPerSiacoin "NewCurrency64 500000"] by simp

text \<open>C37: the converse fails. The carry out of the first addition of \<^verbatim>\<open>MulWithOverflow\<close> is fed
  back as a carry into the same limb instead of being reported, so \<^verbatim>\<open>Mul\<close>, which is documented to
  panic on overflow, returns a value for a product of more than 128 bits; the value is not even the
  product reduced modulo \<open>2 ^ 128\<close>.\<close>

theorem Mul_misses_overflow:
  "\<exists>c v p. Currency_Mul c v = Ok p \<and> 2 ^ 128 \<le> cval c * cval v \<and>
     cval p \<noteq> cval c * cval v mod 2 ^ 128"
proof (intro exI conjI)
  let ?c = "NewCurrency 18446744073709551615 6148914691236517205" and ?v = "NewCurrency 3 0"
  let ?p = "NewCurrency 18446744073709551613 2"
  show "Currency_Mul ?c ?v = Ok ?p"
    by (simp add: Currency_Mul_def Currency_MulWithOverflow_def NewCurrency_def mul64_def add64_def)
  show "2 ^ 128 \<le> cval ?c * cval ?v" by simp
  show "cval ?p \<noteq> cval ?c * cval ?v mod 2 ^ 128" by simp
qed

end
