(* ===== verification/Types.thy ===== *)
theory Types
  imports Currency
begin

text \<open>
  The data of the block chain: the structs of \<^verbatim>\<open>core/types/types.go\<close>, the spend policies of
  \<^verbatim>\<open>core/types/policy.go\<close> and \<^verbatim>\<open>core/types/qday.go\<close>, as records and datatypes with the source's
  fields in the source's order (each field carries its receiver's short name as a prefix, because
  several structs share field names), and the parts of the standard package \<^verbatim>\<open>time\<close> that the rules
  use. Go slices and pointers are lists and options: values are immutable here, so the ownership
  flag of \<^verbatim>\<open>StateElement\<close> and its \<^verbatim>\<open>Move\<close>/\<^verbatim>\<open>Share\<close>/\<^verbatim>\<open>Copy\<close> methods have no counterpart.
\<close>

section \<open>Package time\<close>

text \<open>
  A \<^verbatim>\<open>time.Time\<close> without a monotonic reading counts nanoseconds from the start of year 1; the
  seconds part is a 64-bit integer. \<^verbatim>\<open>time.Unix\<close> and \<^verbatim>\<open>Unix\<close> convert with wrap-around, \<^verbatim>\<open>Add\<close> and
  \<^verbatim>\<open>Sub\<close> saturate. A \<^verbatim>\<open>time.Duration\<close> is a number of nanoseconds.
\<close>

type_synonym Time = int
type_synonym Duration = int

definition int64 :: "int \<Rightarrow> int" where
  "int64 x = (x + 2 ^ 63) mod 2 ^ 64 - 2 ^ 63"

definition uint64 :: "int \<Rightarrow> u64" where
  "uint64 x = word_of_int x"

definition second :: Duration where
  "second = 1000000000"

definition unixToInternal :: int where
  "unixToInternal = 62135596800"

definition time_Unix :: "int \<Rightarrow> Time" where
  "time_Unix sec = int64 (sec + unixToInternal) * second"

definition Time_Unix :: "Time \<Rightarrow> int" where
  "Time_Unix t = int64 (t div second - unixToInternal)"

definition Time_Add :: "Time \<Rightarrow> Duration \<Rightarrow> Time" where
  "Time_Add t d =
     (let s = t + d in
      if 2 ^ 63 \<le> s div second then (2 ^ 63 - 1) * second + s mod second
      else if s div second < - (2 ^ 63) then - (2 ^ 63 - 1) * second + s mod second
      else s)"

definition Time_Sub :: "Time \<Rightarrow> Time \<Rightarrow> Duration" where
  "Time_Sub t u =
     (if - (2 ^ 63) \<le> t - u \<and> t - u < 2 ^ 63 then t - u
      else if t < u then - (2 ^ 63) else 2 ^ 63 - 1)"

text \<open>Integer division of Go truncates towards zero.\<close>

definition go_div :: "int \<Rightarrow> int \<Rightarrow> int" where
  "go_div a b = sgn a * sgn b * (\<bar>a\<bar> div \<bar>b\<bar>)"

section \<open>Identifiers and keys\<close>

definition ascii :: "string \<Rightarrow> byte list" where
  "ascii s = map of_char s"

type_synonym PublicKey = hash256
type_synonym Signature = bytes64
type_synonym Specifier = bytes16
type_synonym Address = hash256
type_synonym BlockID = hash256
type_synonym TransactionID = hash256
type_synonym SiacoinOutputID = hash256
type_synonym SiafundOutputID = hash256
type_synonym FileContractID = hash256
type_synonym AttestationID = hash256
type_synonym ElementID = hash256

definition VoidAddress :: Address where
  "VoidAddress = 0"

definition specifier_of :: "string \<Rightarrow> Specifier" where
  "specifier_of name = of_bytes16 (take 16 (ascii name @ replicate 16 0))"

definition NewSpecifier :: "string \<Rightarrow> Specifier res" where
  "NewSpecifier name =
     (if 16 < length name then Panic ''specifier name too long'' else Ok (specifier_of name))"

definition SpecifierEd25519 :: Specifier where
  "SpecifierEd25519 = specifier_of ''ed25519''"

definition SpecifierSiacoinOutput :: Specifier where
  "SpecifierSiacoinOutput = specifier_of ''siacoin output''"

definition SpecifierSiafundOutput :: Specifier where
  "SpecifierSiafundOutput = specifier_of ''siafund output''"

definition SpecifierFileContract :: Specifier where
  "SpecifierFileContract = specifier_of ''file contract''"

definition SpecifierStorageProof :: Specifier where
  "SpecifierStorageProof = specifier_of ''storage proof''"

definition SpecifierFoundation :: Specifier where
  "SpecifierFoundation = specifier_of ''foundation''"

definition SpecifierEntropy :: Specifier where
  "SpecifierEntropy = specifier_of ''entropy''"

definition UnassignedLeafIndex :: u64 where
  "UnassignedLeafIndex = 10101010101010101010"

definition MaxRevisionNumber :: u64 where
  "MaxRevisionNumber = 18446744073709551615"

record UnlockKey =
  uk_Algorithm :: Specifier
  uk_Key :: "byte list"

record UnlockConditions =
  uc_Timelock :: u64
  uc_PublicKeys :: "UnlockKey list"
  uc_SignaturesRequired :: u64

definition PublicKey_UnlockKey :: "PublicKey \<Rightarrow> UnlockKey" where
  "PublicKey_UnlockKey pk = \<lparr>uk_Algorithm = SpecifierEd25519, uk_Key = hash_bytes pk\<rparr>"

definition StandardUnlockConditions :: "PublicKey \<Rightarrow> UnlockConditions" where
  "StandardUnlockConditions pk =
     \<lparr>uc_Timelock = 0, uc_PublicKeys = [PublicKey_UnlockKey pk], uc_SignaturesRequired = 1\<rparr>"

record ChainIndex =
  ci_Height :: u64
  ci_ID :: BlockID

text \<open>\<^verbatim>\<open>BlockID.CmpWork\<close>: the smaller identifier is the heavier one.\<close>

definition BlockID_CmpWork :: "BlockID \<Rightarrow> BlockID \<Rightarrow> int" where
  "BlockID_CmpWork bid t = (if t < bid then -1 else if t = bid then 0 else 1)"

section \<open>Outputs, inputs and contracts of version 1\<close>

record SiacoinOutput =
  sco_Value :: Currency
  sco_Address :: Address

record SiacoinInput =
  sci_ParentID :: SiacoinOutputID
  sci_UnlockConditions :: UnlockConditions

record SiafundOutput =
  sfo_Value :: u64
  sfo_Address :: Address

record SiafundInput =
  sfi_ParentID :: SiafundOutputID
  sfi_UnlockConditions :: UnlockConditions
  sfi_ClaimAddress :: Address

record FileContract =
  fc_Filesize :: u64
  fc_FileMerkleRoot :: hash256
  fc_WindowStart :: u64
  fc_WindowEnd :: u64
  fc_Payout :: Currency
  fc_ValidProofOutputs :: "SiacoinOutput list"
  fc_MissedProofOutputs :: "SiacoinOutput list"
  fc_UnlockHash :: Address
  fc_RevisionNumber :: u64

record FileContractRevision =
  rev_ParentID :: FileContractID
  rev_UnlockConditions :: UnlockConditions
  rev_FileContract :: FileContract

record StorageProof =
  sp_ParentID :: FileContractID
  sp_Leaf :: bytes64
  sp_Proof :: "hash256 list"

record FoundationAddressUpdate =
  fau_NewPrimary :: Address
  fau_NewFailsafe :: Address

record CoveredFields =
  cf_WholeTransaction :: bool
  cf_SiacoinInputs :: "u64 list"
  cf_SiacoinOutputs :: "u64 list"
  cf_FileContracts :: "u64 list"
  cf_FileContractRevisions :: "u64 list"
  cf_StorageProofs :: "u64 list"
  cf_SiafundInputs :: "u64 list"
  cf_SiafundOutputs :: "u64 list"
  cf_MinerFees :: "u64 list"
  cf_ArbitraryData :: "u64 list"
  cf_Signatures :: "u64 list"

record TransactionSignature =
  ts_ParentID :: hash256
  ts_PublicKeyIndex :: u64
  ts_Timelock :: u64
  ts_CoveredFields :: CoveredFields
  ts_Signature :: "byte list"

record Transaction =
  txn_SiacoinInputs :: "SiacoinInput list"
  txn_SiacoinOutputs :: "SiacoinOutput list"
  txn_FileContracts :: "FileContract list"
  txn_FileContractRevisions :: "FileContractRevision list"
  txn_StorageProofs :: "StorageProof list"
  txn_SiafundInputs :: "SiafundInput list"
  txn_SiafundOutputs :: "SiafundOutput list"
  txn_MinerFees :: "Currency list"
  txn_ArbitraryData :: "byte list list"
  txn_Signatures :: "TransactionSignature list"

text \<open>\<^verbatim>\<open>Transaction.TotalFees\<close>: zero when the sum overflows.\<close>

fun total_fees_loop :: "Currency list \<Rightarrow> Currency \<Rightarrow> Currency" where
  "total_fees_loop [] acc = acc"
| "total_fees_loop (fee # fees) acc =
     (let (acc, overflow) = Currency_AddWithOverflow acc fee
      in if overflow then ZeroCurrency else total_fees_loop fees acc)"

definition Transaction_TotalFees :: "Transaction \<Rightarrow> Currency" where
  "Transaction_TotalFees txn = total_fees_loop (txn_MinerFees txn) ZeroCurrency"

section \<open>Spend policies\<close>

datatype SpendPolicy =
    PolicyAbove u64
  | PolicyAfter Time
  | is_PolicyPublicKey: PolicyPublicKey PublicKey
  | is_PolicySLHDSA: PolicySLHDSA hash256
  | PolicyHash hash256
  | PolicyThreshold u8 "SpendPolicy list"
  | is_PolicyTypeOpaque: PolicyTypeOpaque Address
  | is_PolicyTypeUnlockConditions: PolicyTypeUnlockConditions UnlockConditions

definition AnyoneCanSpend :: SpendPolicy where
  "AnyoneCanSpend = PolicyThreshold 0 []"

record SatisfiedPolicy =
  sat_Policy :: SpendPolicy
  sat_Signatures :: "Signature list"
  sat_Preimages :: "hash256 list"

section \<open>State elements\<close>

record StateElement =
  se_LeafIndex :: u64
  se_MerkleProof :: "hash256 list"

record ChainIndexElement =
  cie_ID :: BlockID
  cie_StateElement :: StateElement
  cie_ChainIndex :: ChainIndex

record SiacoinElement =
  sce_ID :: SiacoinOutputID
  sce_StateElement :: StateElement
  sce_SiacoinOutput :: SiacoinOutput
  sce_MaturityHeight :: u64

record SiafundElement =
  sfe_ID :: SiafundOutputID
  sfe_StateElement :: StateElement
  sfe_SiafundOutput :: SiafundOutput
  sfe_ClaimStart :: Currency

record FileContractElement =
  fce_ID :: FileContractID
  fce_StateElement :: StateElement
  fce_FileContract :: FileContract

section \<open>Transactions and contracts of version 2\<close>

record V2FileContract =
  v2fc_Capacity :: u64
  v2fc_Filesize :: u64
  v2fc_FileMerkleRoot :: hash256
  v2fc_ProofHeight :: u64
  v2fc_ExpirationHeight :: u64
  v2fc_RenterOutput :: SiacoinOutput
  v2fc_HostOutput :: SiacoinOutput
  v2fc_MissedHostValue :: Currency
  v2fc_TotalCollateral :: Currency
  v2fc_RenterPublicKey :: PublicKey
  v2fc_HostPublicKey :: PublicKey
  v2fc_RevisionNumber :: u64
  v2fc_RenterSignature :: Signature
  v2fc_HostSignature :: Signature

definition V2FileContract_MissedHostOutput :: "V2FileContract \<Rightarrow> SiacoinOutput" where
  "V2FileContract_MissedHostOutput fc =
     \<lparr>sco_Value = v2fc_MissedHostValue fc, sco_Address = sco_Address (v2fc_HostOutput fc)\<rparr>"

definition V2FileContract_RiskedCollateral :: "V2FileContract \<Rightarrow> Currency res" where
  "V2FileContract_RiskedCollateral fc =
     Currency_Sub (v2fc_TotalCollateral fc) (v2fc_MissedHostValue fc)"

definition V2FileContract_RiskedHostRevenue :: "V2FileContract \<Rightarrow> Currency res" where
  "V2FileContract_RiskedHostRevenue fc =
     Currency_Sub (sco_Value (v2fc_HostOutput fc)) (v2fc_TotalCollateral fc)"

record V2FileContractElement =
  v2fce_ID :: FileContractID
  v2fce_StateElement :: StateElement
  v2fce_V2FileContract :: V2FileContract

record V2SiacoinInput =
  v2sci_Parent :: SiacoinElement
  v2sci_SatisfiedPolicy :: SatisfiedPolicy

record V2SiafundInput =
  v2sfi_Parent :: SiafundElement
  v2sfi_ClaimAddress :: Address
  v2sfi_SatisfiedPolicy :: SatisfiedPolicy

record V2FileContractRevision =
  v2rev_Parent :: V2FileContractElement
  v2rev_Revision :: V2FileContract

record V2FileContractRenewal =
  ren_FinalRenterOutput :: SiacoinOutput
  ren_FinalHostOutput :: SiacoinOutput
  ren_RenterRollover :: Currency
  ren_HostRollover :: Currency
  ren_NewContract :: V2FileContract
  ren_RenterSignature :: Signature
  ren_HostSignature :: Signature

record V2StorageProof =
  v2sp_ProofIndex :: ChainIndexElement
  v2sp_Leaf :: bytes64
  v2sp_Proof :: "hash256 list"

datatype V2FileContractResolutionType =
    Renewal V2FileContractRenewal
  | StorageProofRes V2StorageProof
  | Expiration

record V2FileContractResolution =
  v2res_Parent :: V2FileContractElement
  v2res_Resolution :: V2FileContractResolutionType

record Attestation =
  att_PublicKey :: PublicKey
  att_Key :: "byte list"
  att_Value :: "byte list"
  att_Signature :: Signature

record AttestationElement =
  ae_ID :: AttestationID
  ae_StateElement :: StateElement
  ae_Attestation :: Attestation

record V2Transaction =
  v2_SiacoinInputs :: "V2SiacoinInput list"
  v2_SiacoinOutputs :: "SiacoinOutput list"
  v2_SiafundInputs :: "V2SiafundInput list"
  v2_SiafundOutputs :: "SiafundOutput list"
  v2_FileContracts :: "V2FileContract list"
  v2_FileContractRevisions :: "V2FileContractRevision list"
  v2_FileContractResolutions :: "V2FileContractResolution list"
  v2_Attestations :: "Attestation list"
  v2_ArbitraryData :: "byte list"
  v2_NewFoundationAddress :: "Address option"
  v2_MinerFee :: Currency

section \<open>Blocks\<close>

record V2BlockData =
  bd_Height :: u64
  bd_Commitment :: hash256
  bd_Transactions :: "V2Transaction list"

record BlockHeader =
  bh_ParentID :: BlockID
  bh_Nonce :: u64
  bh_Timestamp :: Time
  bh_Commitment :: hash256

record Block =
  blk_ParentID :: BlockID
  blk_Nonce :: u64
  blk_Timestamp :: Time
  blk_MinerPayouts :: "SiacoinOutput list"
  blk_Transactions :: "Transaction list"
  blk_V2 :: "V2BlockData option"

definition Block_V2Transactions :: "Block \<Rightarrow> V2Transaction list" where
  "Block_V2Transactions b = (case blk_V2 b of Some d \<Rightarrow> bd_Transactions d | None \<Rightarrow> [])"

section \<open>Lemmas\<close>

lemma int64_id: "- (2 ^ 63) \<le> x \<Longrightarrow> x < 2 ^ 63 \<Longrightarrow> int64 x = x"
  by (simp add: int64_def)

lemma int64_range: "- (2 ^ 63) \<le> int64 x" "int64 x < 2 ^ 63"
  using pos_mod_bound [of "2 ^ 64" "x + 2 ^ 63"] pos_mod_sign [of "2 ^ 64" "x + 2 ^ 63"]
  by (auto simp: int64_def)

lemma int64_cong: "x mod 2 ^ 64 = y mod 2 ^ 64 \<Longrightarrow> int64 x = int64 y"
  unfolding int64_def by (metis mod_add_left_eq)

lemma int64_mod: "int64 x mod 2 ^ 64 = x mod 2 ^ 64"
  unfolding int64_def by (simp add: mod_diff_left_eq)

text \<open>A time survives the trip through its Unix seconds when it is a whole number of seconds.\<close>

definition wf_time :: "Time \<Rightarrow> bool" where
  "wf_time t \<longleftrightarrow> t mod second = 0 \<and> - (2 ^ 63) \<le> t div second \<and> t div second < 2 ^ 63"

lemma time_Unix_wrap: "int64 (int64 a + b) = int64 (a + b)"
  by (rule int64_cong) (metis int64_mod mod_add_left_eq)

lemma time_Unix_of_Unix: "wf_time t \<Longrightarrow> time_Unix (Time_Unix t) = t"
proof -
  assume t: "wf_time t"
  have "time_Unix (Time_Unix t) = int64 (t div second) * second"
    by (simp add: time_Unix_def Time_Unix_def time_Unix_wrap)
  also have "\<dots> = t div second * second" using t by (simp add: wf_time_def int64_id)
  finally show ?thesis using t by (simp add: wf_time_def mod_0_imp_dvd)
qed

lemma sint_uint64: "sint (uint64 x) = int64 x"
  by (simp add: uint64_def int64_def sint_sbintrunc' signed_take_bit_eq_take_bit_shift take_bit_eq_mod)

lemma time_Unix_uint64: "wf_time t \<Longrightarrow> time_Unix (sint (uint64 (Time_Unix t))) = t"
proof -
  have "int64 (Time_Unix t) = Time_Unix t"
    using int64_range by (simp add: Time_Unix_def int64_id)
  then show "wf_time t \<Longrightarrow> ?thesis" by (simp add: sint_uint64 time_Unix_of_Unix)
qed

end
