(* ===== verification/Codec.thy ===== *)
theory Codec
  imports Types
begin

text \<open>
  The \<^verbatim>\<open>Encoder\<close> and \<^verbatim>\<open>Decoder\<close> of \<^verbatim>\<open>core/types/encoding.go\<close>: buffered writing, reading with
  a sticky error and a byte limit, the primitive values, slices and pointers; and the interface
  \<open>codec\<close> of a pair of encoding and decoding functions, which every type of the program implements.
\<close>

section \<open>Encoder\<close>

text \<open>
  The encoder over a writer that cannot fail (a hash, a byte buffer, a counter): the bytes handed to
  the writer so far and the pending bytes \<^verbatim>\<open>buf[:n]\<close>. The guard of \<^verbatim>\<open>Write\<close>'s inner flush,
  \<^verbatim>\<open>e.n == len(e.buf)\<close>, is written as \<open>\<ge>\<close>: the two agree because \<^verbatim>\<open>n\<close> never exceeds the buffer.
\<close>

record Encoder =
  e_out :: "byte list"
  e_buf :: "byte list"

definition NewEncoder :: Encoder where
  "NewEncoder = \<lparr>e_out = [], e_buf = []\<rparr>"

definition Encoder_Flush :: "Encoder \<Rightarrow> Encoder" where
  "Encoder_Flush e =
     (if 0 < length (e_buf e) then e\<lparr>e_out := e_out e @ e_buf e, e_buf := []\<rparr> else e)"

function Encoder_Write :: "byte list \<Rightarrow> Encoder \<Rightarrow> Encoder" where
  "Encoder_Write p e =
     (if p = [] then e
      else let e = (if 1024 \<le> length (e_buf e) then Encoder_Flush e else e);
               c = min (1024 - length (e_buf e)) (length p)
           in Encoder_Write (drop c p) (e\<lparr>e_buf := e_buf e @ take c p\<rparr>))"
  by pat_completeness auto

termination
  by (relation "measure (\<lambda>(p, e). length p)") (auto simp: Encoder_Flush_def Let_def split: if_splits)

declare Encoder_Write.simps [simp del]

section \<open>Primitive encodings\<close>

definition WriteBool :: "bool \<Rightarrow> byte list" where
  "WriteBool b = [if b then 1 else 0]"

definition WriteUint8 :: "u8 \<Rightarrow> byte list" where
  "WriteUint8 u = [u]"

definition WriteUint64 :: "u64 \<Rightarrow> byte list" where
  "WriteUint64 u = le64 u"

definition WriteTime :: "Time \<Rightarrow> byte list" where
  "WriteTime t = WriteUint64 (uint64 (Time_Unix t))"

definition WriteBytes :: "byte list \<Rightarrow> byte list" where
  "WriteBytes b = WriteUint64 (word_of_nat (length b)) @ b"

definition EncodeSlice :: "('a \<Rightarrow> byte list) \<Rightarrow> 'a list \<Rightarrow> byte list" where
  "EncodeSlice fn s = WriteUint64 (word_of_nat (length s)) @ concat (map fn s)"

definition EncodePtr :: "('a \<Rightarrow> byte list) \<Rightarrow> 'a option \<Rightarrow> byte list" where
  "EncodePtr fn p = WriteBool (p \<noteq> None) @ (case p of None \<Rightarrow> [] | Some x \<Rightarrow> fn x)"

section \<open>Decoder\<close>

text \<open>
  The bytes the underlying stream still delivers, the limit \<^verbatim>\<open>lr.N\<close>, and the first error. A
  decoding function returns the decoded value (built from zero values where the stream ran dry) and
  the decoder after it.
\<close>

record Decoder =
  d_rest :: "byte list"
  d_N :: nat
  d_err :: "string option"

type_synonym 'a dec = "Decoder \<Rightarrow> 'a \<times> Decoder"

definition dret :: "'a \<Rightarrow> 'a dec" where
  "dret x = (\<lambda>d. (x, d))"

definition dbind :: "'a dec \<Rightarrow> ('a \<Rightarrow> 'b dec) \<Rightarrow> 'b dec" where
  "dbind m f = (\<lambda>d. case m d of (x, d') \<Rightarrow> f x d')"

definition Decoder_SetErr :: "string \<Rightarrow> Decoder \<Rightarrow> Decoder" where
  "Decoder_SetErr e d = (if d_err d = None then d\<lparr>d_err := Some e\<rparr> else d)"

text \<open>
  \<^verbatim>\<open>Read\<close> into a zeroed slice of \<open>k\<close> bytes. The chunks of 64 bytes only decide which of the two
  end-of-file errors \<^verbatim>\<open>io.ReadFull\<close> reports.
\<close>

definition Decoder_Read :: "nat \<Rightarrow> (byte list) dec" where
  "Decoder_Read k d =
     (if d_err d \<noteq> None then (replicate k 0, d)
      else let avail = min (d_N d) (length (d_rest d)) in
        if k \<le> avail then (take k (d_rest d), d\<lparr>d_rest := drop k (d_rest d), d_N := d_N d - k\<rparr>)
        else (take avail (d_rest d) @ replicate (k - avail) 0,
              Decoder_SetErr (if avail mod 64 = 0 then ''EOF'' else ''unexpected EOF'')
                (d\<lparr>d_rest := drop avail (d_rest d), d_N := d_N d - avail\<rparr>)))"

text \<open>Reading into \<^verbatim>\<open>d.buf\<close>, which an error clears.\<close>

definition read_buf :: "nat \<Rightarrow> (byte list) dec" where
  "read_buf k d =
     (let (bs, d') = Decoder_Read k d in (if d_err d' = None then bs else replicate k 0, d'))"

definition ReadBool :: "bool dec" where
  "ReadBool d =
     (let (bs, d) = read_buf 1 d in
      if hd bs = 0 then (False, d)
      else if hd bs = 1 then (True, d)
      else (False, Decoder_SetErr ''invalid bool value'' d))"

definition ReadUint8 :: "u8 dec" where
  "ReadUint8 d = (let (bs, d) = read_buf 1 d in (hd bs, d))"

definition ReadUint64 :: "u64 dec" where
  "ReadUint64 d = (let (bs, d) = read_buf 8 d in (of_le64 bs, d))"

definition ReadTime :: "Time dec" where
  "ReadTime = dbind ReadUint64 (\<lambda>u. dret (time_Unix (sint u)))"

definition ReadBytes :: "(byte list) dec" where
  "ReadBytes = dbind ReadUint64 (\<lambda>n d.
     if d_N d < unat n then ([], Decoder_SetErr ''encoded object contains invalid length prefix'' d)
     else Decoder_Read (unat n) d)"

text \<open>The loop of \<^verbatim>\<open>DecodeSlice\<close>: \<open>n\<close> more elements; on an error the slice is left nil.\<close>

fun decode_items :: "'a dec \<Rightarrow> nat \<Rightarrow> ('a list) dec" where
  "decode_items fn 0 d = ([], d)"
| "decode_items fn (Suc n) d =
     (let (v, d) = fn d in
      if d_err d \<noteq> None then ([], d)
      else let (vs, d) = decode_items fn n d in
        if d_err d \<noteq> None then ([], d) else (v # vs, d))"

definition DecodeSlice :: "'a dec \<Rightarrow> ('a list) dec" where
  "DecodeSlice fn = dbind ReadUint64 (\<lambda>n d.
     if d_N d < unat n then ([], Decoder_SetErr ''encoded object contains invalid length prefix'' d)
     else decode_items fn (unat n) d)"

definition DecodePtr :: "'a dec \<Rightarrow> ('a option) dec" where
  "DecodePtr fn = dbind ReadBool (\<lambda>b. if b then dbind fn (\<lambda>v. dret (Some v)) else dret None)"

definition NewBufDecoder :: "byte list \<Rightarrow> Decoder" where
  "NewBufDecoder buf = \<lparr>d_rest = buf, d_N = length buf, d_err = None\<rparr>"

section \<open>The encoder writes what it is given\<close>

lemma Flush_pending: "e_out (Encoder_Flush e) @ e_buf (Encoder_Flush e) = e_out e @ e_buf e"
  by (simp add: Encoder_Flush_def)

lemma Write_pending: "e_out (Encoder_Write p e) @ e_buf (Encoder_Write p e) = e_out e @ e_buf e @ p"
proof (induction p e rule: Encoder_Write.induct)
  case (1 p e)
  show ?case
  proof (cases "p = []")
    case False
    define e' where "e' = (if 1024 \<le> length (e_buf e) then Encoder_Flush e else e)"
    define c where "c = min (1024 - length (e_buf e')) (length p)"
    note IH = "1.IH" [OF False e'_def c_def]
    have "e_out e' @ e_buf e' = e_out e @ e_buf e" using Flush_pending by (simp add: e'_def)
    with IH show ?thesis
      using False unfolding Encoder_Write.simps [of p e]
      by (simp add: Let_def flip: e'_def c_def)
  qed (simp add: Encoder_Write.simps)
qed

lemma Flush_empty: "e_buf (Encoder_Flush e) = []"
  by (simp add: Encoder_Flush_def)

section \<open>Feeding a decoder\<close>

text \<open>\<open>feed bs d\<close>: the decoder that has the bytes \<open>bs\<close> in front of what \<open>d\<close> has.\<close>

definition feed :: "byte list \<Rightarrow> Decoder \<Rightarrow> Decoder" where
  "feed bs d = d\<lparr>d_rest := bs @ d_rest d, d_N := length bs + d_N d\<rparr>"

named_theorems codec_simps \<open>decoding what an encoder wrote\<close>

lemma feed_append [simp]: "feed (xs @ ys) d = feed xs (feed ys d)"
  by (simp add: feed_def add.assoc)

lemma feed_Nil [simp]: "feed [] d = d"
  by (simp add: feed_def)

lemma feed_sel [simp]: "d_err (feed bs d) = d_err d" "d_N (feed bs d) = length bs + d_N d"
  by (simp_all add: feed_def)

lemma dret_apply [codec_simps]: "dret x d = (x, d)"
  by (simp add: dret_def)

lemma dbind_apply [codec_simps]: "dbind m f d = (case m d of (x, d') \<Rightarrow> f x d')"
  by (simp add: dbind_def)

lemma Read_feed: "d_err d = None \<Longrightarrow> length bs = k \<Longrightarrow> Decoder_Read k (feed bs d) = (bs, d)"
  by (simp add: Decoder_Read_def feed_def)

lemma read_buf_feed: "d_err d = None \<Longrightarrow> length bs = k \<Longrightarrow> read_buf k (feed bs d) = (bs, d)"
  by (simp add: read_buf_def Read_feed)

lemma ReadBool_feed [codec_simps]: "d_err d = None \<Longrightarrow> ReadBool (feed (WriteBool b) d) = (b, d)"
  by (simp add: ReadBool_def WriteBool_def read_buf_feed)

lemma ReadUint8_feed [codec_simps]: "d_err d = None \<Longrightarrow> ReadUint8 (feed (WriteUint8 u) d) = (u, d)"
  by (simp add: ReadUint8_def WriteUint8_def read_buf_feed)

lemma ReadUint64_feed [codec_simps]: "d_err d = None \<Longrightarrow> ReadUint64 (feed (WriteUint64 u) d) = (u, d)"
  by (simp add: ReadUint64_def WriteUint64_def read_buf_feed)

lemma ReadTime_feed [codec_simps]:
  "d_err d = None \<Longrightarrow> wf_time t \<Longrightarrow> ReadTime (feed (WriteTime t) d) = (t, d)"
  by (simp add: ReadTime_def WriteTime_def codec_simps time_Unix_uint64)

definition fits :: "'a list \<Rightarrow> bool" where
  "fits xs \<longleftrightarrow> length xs < 2 ^ 64"

lemma fits_length: "fits xs \<Longrightarrow> unat (word_of_nat (length xs) :: u64) = length xs"
  by (simp add: fits_def unat_of_nat_u64_less)

lemma ReadBytes_feed [codec_simps]:
  "d_err d = None \<Longrightarrow> fits b \<Longrightarrow> ReadBytes (feed (WriteBytes b) d) = (b, d)"
  by (simp add: ReadBytes_def WriteBytes_def codec_simps fits_length Read_feed)

lemma Write_nonempty [simp]:
  "WriteBool b \<noteq> []" "WriteUint8 u \<noteq> []" "WriteUint64 w \<noteq> []" "WriteTime t \<noteq> []" "WriteBytes bs \<noteq> []"
  "EncodeSlice f s \<noteq> []"
  by (simp_all add: WriteBool_def WriteUint8_def WriteUint64_def WriteTime_def WriteBytes_def
      EncodeSlice_def)

section \<open>The interface of a codec\<close>

text \<open>
  What \<^verbatim>\<open>EncodeTo\<close> and \<^verbatim>\<open>DecodeFrom\<close> of a type promise: on the values \<open>wf\<close> that the wire format can
  carry, decoding reads back the value and leaves exactly the bytes that follow.
\<close>

locale codec =
  fixes enc :: "'a \<Rightarrow> byte list"
    and dec :: "'a dec"
    and wf :: "'a \<Rightarrow> bool"
  assumes roundtrip: "d_err d = None \<Longrightarrow> wf x \<Longrightarrow> dec (feed (enc x) d) = (x, d)"
begin

lemma buf_roundtrip: "wf x \<Longrightarrow> dec (NewBufDecoder (enc x)) = (x, NewBufDecoder [])"
  using roundtrip [of "NewBufDecoder []" x] by (simp add: feed_def NewBufDecoder_def)

text \<open>Encodings are uniquely readable: none is a proper prefix of another.\<close>

lemma unique_parse: "wf x \<Longrightarrow> wf y \<Longrightarrow> enc x @ r = enc y @ s \<Longrightarrow> x = y \<and> r = s"
proof -
  assume wf: "wf x" "wf y" and eq: "enc x @ r = enc y @ s"
  have "length (enc x) + length r = length (enc y) + length s"
    using arg_cong [OF eq, of length] by (simp only: length_append)
  with eq have "feed (enc x) (NewBufDecoder r) = feed (enc y) (NewBufDecoder s)"
    by (simp add: feed_def NewBufDecoder_def)
  then have "(x, NewBufDecoder r) = (y, NewBufDecoder s)"
    using roundtrip [OF _ wf(1), of "NewBufDecoder r"] roundtrip [OF _ wf(2), of "NewBufDecoder s"]
    by (simp add: NewBufDecoder_def)
  then show ?thesis by (simp add: NewBufDecoder_def)
qed

lemma enc_inject: "wf x \<Longrightarrow> wf y \<Longrightarrow> enc x = enc y \<Longrightarrow> x = y"
  using unique_parse [of x y "[]" "[]"] by simp

lemma ptr_roundtrip:
  "d_err d = None \<Longrightarrow> pred_option wf p \<Longrightarrow> DecodePtr dec (feed (EncodePtr enc p) d) = (p, d)"
  by (cases p) (simp_all add: DecodePtr_def EncodePtr_def codec_simps roundtrip)

lemma items_roundtrip:
  "d_err d = None \<Longrightarrow> list_all wf xs \<Longrightarrow>
    decode_items dec (length xs) (feed (concat (map enc xs)) d) = (xs, d)"
  by (induction xs) (simp_all add: roundtrip)

end

text \<open>A codec whose encodings are not empty can be the element of a slice.\<close>

locale slice_codec = codec +
  assumes nonempty: "enc x \<noteq> []"
begin

lemma length_items: "length xs \<le> length (concat (map enc xs))"
proof (induction xs)
  case (Cons x xs)
  with nonempty [of x] show ?case by (cases "enc x") simp_all
qed simp

lemma slice_roundtrip:
  "d_err d = None \<Longrightarrow> fits xs \<Longrightarrow> list_all wf xs \<Longrightarrow>
    DecodeSlice dec (feed (EncodeSlice enc xs) d) = (xs, d)"
  using length_items [of xs]
  by (simp add: DecodeSlice_def EncodeSlice_def codec_simps fits_length items_roundtrip)

end

lemmas slice_codecI = slice_codec.intro [OF codec.intro slice_codec_axioms.intro]

end
