(* ===== verification/Encoding.thy ===== *)
theory Encoding
  imports Codec
begin

text \<open>
  \<^verbatim>\<open>EncodeTo\<close> and \<^verbatim>\<open>DecodeFrom\<close> of the types of \<^verbatim>\<open>core/types\<close> (\<^verbatim>\<open>core/types/encoding.go\<close>), and
  that each pair implements the interface \<open>codec\<close> on the values its wire format can carry. All
  32-byte identifiers share the code of \<^verbatim>\<open>Hash256\<close>.
\<close>

section \<open>Fixed-size arrays and currencies\<close>

definition Hash256_EncodeTo :: "hash256 \<Rightarrow> byte list" where
  "Hash256_EncodeTo h = hash_bytes h"

definition Hash256_DecodeFrom :: "hash256 dec" where
  "Hash256_DecodeFrom = dbind (Decoder_Read 32) (\<lambda>bs. dret (hash_of_bytes bs))"

definition Signature_EncodeTo :: "Signature \<Rightarrow> byte list" where
  "Signature_EncodeTo s = bytes_of64 s"

definition Signature_DecodeFrom :: "Signature dec" where
  "Signature_DecodeFrom = dbind (Decoder_Read 64) (\<lambda>bs. dret (of_bytes64 bs))"

definition Specifier_EncodeTo :: "Specifier \<Rightarrow> byte list" where
  "Specifier_EncodeTo s = bytes_of16 s"

definition Specifier_DecodeFrom :: "Specifier dec" where
  "Specifier_DecodeFrom = dbind (Decoder_Read 16) (\<lambda>bs. dret (of_bytes16 bs))"

definition V1Currency_EncodeTo :: "Currency \<Rightarrow> byte list" where
  "V1Currency_EncodeTo c = WriteBytes (dropWhile ((=) 0) (be64 (Hi c) @ be64 (Lo c)))"

definition V1Currency_DecodeFrom :: "Currency dec" where
  "V1Currency_DecodeFrom = dbind ReadUint64 (\<lambda>n d.
     if 16 < n then (ZeroCurrency, Decoder_SetErr ''Currency too large'' d)
     else dbind (Decoder_Read (unat n)) (\<lambda>bs.
       let buf = replicate (16 - unat n) 0 @ bs
       in dret \<lparr>Lo = of_be64 (drop 8 buf), Hi = of_be64 (take 8 buf)\<rparr>) d)"

definition V2Currency_EncodeTo :: "Currency \<Rightarrow> byte list" where
  "V2Currency_EncodeTo c = WriteUint64 (Lo c) @ WriteUint64 (Hi c)"

definition V2Currency_DecodeFrom :: "Currency dec" where
  "V2Currency_DecodeFrom =
     dbind ReadUint64 (\<lambda>lo. dbind ReadUint64 (\<lambda>hi. dret \<lparr>Lo = lo, Hi = hi\<rparr>))"

section \<open>Types shared by both versions\<close>

definition UnlockKey_EncodeTo :: "UnlockKey \<Rightarrow> byte list" where
  "UnlockKey_EncodeTo uk = Specifier_EncodeTo (uk_Algorithm uk) @ WriteBytes (uk_Key uk)"

definition UnlockKey_DecodeFrom :: "UnlockKey dec" where
  "UnlockKey_DecodeFrom =
     dbind Specifier_DecodeFrom (\<lambda>a. dbind ReadBytes (\<lambda>k. dret \<lparr>uk_Algorithm = a, uk_Key = k\<rparr>))"

definition UnlockConditions_EncodeTo :: "UnlockConditions \<Rightarrow> byte list" where
  "UnlockConditions_EncodeTo uc =
     WriteUint64 (uc_Timelock uc) @ EncodeSlice UnlockKey_EncodeTo (uc_PublicKeys uc) @
     WriteUint64 (uc_SignaturesRequired uc)"

definition UnlockConditions_DecodeFrom :: "UnlockConditions dec" where
  "UnlockConditions_DecodeFrom =
     dbind ReadUint64 (\<lambda>t. dbind (DecodeSlice UnlockKey_DecodeFrom) (\<lambda>ks. dbind ReadUint64 (\<lambda>n.
     dret \<lparr>uc_Timelock = t, uc_PublicKeys = ks, uc_SignaturesRequired = n\<rparr>)))"

definition ChainIndex_EncodeTo :: "ChainIndex \<Rightarrow> byte list" where
  "ChainIndex_EncodeTo index = WriteUint64 (ci_Height index) @ Hash256_EncodeTo (ci_ID index)"

definition ChainIndex_DecodeFrom :: "ChainIndex dec" where
  "ChainIndex_DecodeFrom =
     dbind ReadUint64 (\<lambda>h. dbind Hash256_DecodeFrom (\<lambda>i. dret \<lparr>ci_Height = h, ci_ID = i\<rparr>))"

definition V1SiacoinOutput_EncodeTo :: "SiacoinOutput \<Rightarrow> byte list" where
  "V1SiacoinOutput_EncodeTo sco =
     V1Currency_EncodeTo (sco_Value sco) @ Hash256_EncodeTo (sco_Address sco)"

definition V1SiacoinOutput_DecodeFrom :: "SiacoinOutput dec" where
  "V1SiacoinOutput_DecodeFrom =
     dbind V1Currency_DecodeFrom (\<lambda>v. dbind Hash256_DecodeFrom (\<lambda>a.
     dret \<lparr>sco_Value = v, sco_Address = a\<rparr>))"

definition V2SiacoinOutput_EncodeTo :: "SiacoinOutput \<Rightarrow> byte list" where
  "V2SiacoinOutput_EncodeTo sco =
     V2Currency_EncodeTo (sco_Value sco) @ Hash256_EncodeTo (sco_Address sco)"

definition V2SiacoinOutput_DecodeFrom :: "SiacoinOutput dec" where
  "V2SiacoinOutput_DecodeFrom =
     dbind V2Currency_DecodeFrom (\<lambda>v. dbind Hash256_DecodeFrom (\<lambda>a.
     dret \<lparr>sco_Value = v, sco_Address = a\<rparr>))"

definition V1SiafundOutput_EncodeTo :: "SiafundOutput \<Rightarrow> byte list" where
  "V1SiafundOutput_EncodeTo sfo =
     V1Currency_EncodeTo (NewCurrency64 (sfo_Value sfo)) @ Hash256_EncodeTo (sfo_Address sfo) @
     V1Currency_EncodeTo ZeroCurrency"

definition V1SiafundOutput_DecodeFrom :: "SiafundOutput dec" where
  "V1SiafundOutput_DecodeFrom = dbind V1Currency_DecodeFrom (\<lambda>v d.
     if Hi v \<noteq> 0 then
       (\<lparr>sfo_Value = 0, sfo_Address = 0\<rparr>,
        Decoder_SetErr ''value overflows siafund representation'' d)
     else dbind Hash256_DecodeFrom (\<lambda>a. dbind V1Currency_DecodeFrom (\<lambda>_.
       dret \<lparr>sfo_Value = Lo v, sfo_Address = a\<rparr>)) d)"

definition V2SiafundOutput_EncodeTo :: "SiafundOutput \<Rightarrow> byte list" where
  "V2SiafundOutput_EncodeTo sfo = WriteUint64 (sfo_Value sfo) @ Hash256_EncodeTo (sfo_Address sfo)"

definition V2SiafundOutput_DecodeFrom :: "SiafundOutput dec" where
  "V2SiafundOutput_DecodeFrom =
     dbind ReadUint64 (\<lambda>v. dbind Hash256_DecodeFrom (\<lambda>a. dret \<lparr>sfo_Value = v, sfo_Address = a\<rparr>))"

section \<open>Version 1 transactions\<close>

definition SiacoinInput_EncodeTo :: "SiacoinInput \<Rightarrow> byte list" where
  "SiacoinInput_EncodeTo i =
     Hash256_EncodeTo (sci_ParentID i) @ UnlockConditions_EncodeTo (sci_UnlockConditions i)"

definition SiacoinInput_DecodeFrom :: "SiacoinInput dec" where
  "SiacoinInput_DecodeFrom =
     dbind Hash256_DecodeFrom (\<lambda>p. dbind UnlockConditions_DecodeFrom (\<lambda>uc.
     dret \<lparr>sci_ParentID = p, sci_UnlockConditions = uc\<rparr>))"

definition SiafundInput_EncodeTo :: "SiafundInput \<Rightarrow> byte list" where
  "SiafundInput_EncodeTo i =
     Hash256_EncodeTo (sfi_ParentID i) @ UnlockConditions_EncodeTo (sfi_UnlockConditions i) @
     Hash256_EncodeTo (sfi_ClaimAddress i)"

definition SiafundInput_DecodeFrom :: "SiafundInput dec" where
  "SiafundInput_DecodeFrom =
     dbind Hash256_DecodeFrom (\<lambda>p. dbind UnlockConditions_DecodeFrom (\<lambda>uc. dbind Hash256_DecodeFrom (\<lambda>a.
     dret \<lparr>sfi_ParentID = p, sfi_UnlockConditions = uc, sfi_ClaimAddress = a\<rparr>)))"

definition FileContract_EncodeTo :: "FileContract \<Rightarrow> byte list" where
  "FileContract_EncodeTo fc =
     WriteUint64 (fc_Filesize fc) @
     Hash256_EncodeTo (fc_FileMerkleRoot fc) @
     WriteUint64 (fc_WindowStart fc) @
     WriteUint64 (fc_WindowEnd fc) @
     V1Currency_EncodeTo (fc_Payout fc) @
     EncodeSlice V1SiacoinOutput_EncodeTo (fc_ValidProofOutputs fc) @
     EncodeSlice V1SiacoinOutput_EncodeTo (fc_MissedProofOutputs fc) @
     Hash256_EncodeTo (fc_UnlockHash fc) @
     WriteUint64 (fc_RevisionNumber fc)"

definition FileContract_DecodeFrom :: "FileContract dec" where
  "FileContract_DecodeFrom =
     dbind ReadUint64 (\<lambda>fs.
     dbind Hash256_DecodeFrom (\<lambda>fr.
     dbind ReadUint64 (\<lambda>ws.
     dbind ReadUint64 (\<lambda>we.
     dbind V1Currency_DecodeFrom (\<lambda>p.
     dbind (DecodeSlice V1SiacoinOutput_DecodeFrom) (\<lambda>vo.
     dbind (DecodeSlice V1SiacoinOutput_DecodeFrom) (\<lambda>mo.
     dbind Hash256_DecodeFrom (\<lambda>uh.
     dbind ReadUint64 (\<lambda>rn.
     dret \<lparr>fc_Filesize = fs, fc_FileMerkleRoot = fr, fc_WindowStart = ws, fc_WindowEnd = we,
       fc_Payout = p, fc_ValidProofOutputs = vo, fc_MissedProofOutputs = mo, fc_UnlockHash = uh,
       fc_RevisionNumber = rn\<rparr>)))))))))"

definition FileContractRevision_EncodeTo :: "FileContractRevision \<Rightarrow> byte list" where
  "FileContractRevision_EncodeTo r =
     Hash256_EncodeTo (rev_ParentID r) @
     UnlockConditions_EncodeTo (rev_UnlockConditions r) @
     WriteUint64 (fc_RevisionNumber (rev_FileContract r)) @
     WriteUint64 (fc_Filesize (rev_FileContract r)) @
     Hash256_EncodeTo (fc_FileMerkleRoot (rev_FileContract r)) @
     WriteUint64 (fc_WindowStart (rev_FileContract r)) @
     WriteUint64 (fc_WindowEnd (rev_FileContract r)) @
     EncodeSlice V1SiacoinOutput_EncodeTo (fc_ValidProofOutputs (rev_FileContract r)) @
     EncodeSlice V1SiacoinOutput_EncodeTo (fc_MissedProofOutputs (rev_FileContract r)) @
     Hash256_EncodeTo (fc_UnlockHash (rev_FileContract r))"

definition FileContractRevision_DecodeFrom :: "FileContractRevision dec" where
  "FileContractRevision_DecodeFrom =
     dbind Hash256_DecodeFrom (\<lambda>pid.
     dbind UnlockConditions_DecodeFrom (\<lambda>uc.
     dbind ReadUint64 (\<lambda>rn.
     dbind ReadUint64 (\<lambda>fs.
     dbind Hash256_DecodeFrom (\<lambda>fr.
     dbind ReadUint64 (\<lambda>ws.
     dbind ReadUint64 (\<lambda>we.
     dbind (DecodeSlice V1SiacoinOutput_DecodeFrom) (\<lambda>vo.
     dbind (DecodeSlice V1SiacoinOutput_DecodeFrom) (\<lambda>mo.
     dbind Hash256_DecodeFrom (\<lambda>uh.
     dret \<lparr>rev_ParentID = pid, rev_UnlockConditions = uc, rev_FileContract =
       \<lparr>fc_Filesize = fs, fc_FileMerkleRoot = fr, fc_WindowStart = ws, fc_WindowEnd = we,
       fc_Payout = MaxCurrency, fc_ValidProofOutputs = vo, fc_MissedProofOutputs = mo,
       fc_UnlockHash = uh, fc_RevisionNumber = rn\<rparr>\<rparr>))))))))))"

definition StorageProof_EncodeTo :: "StorageProof \<Rightarrow> byte list" where
  "StorageProof_EncodeTo sp =
     Hash256_EncodeTo (sp_ParentID sp) @ bytes_of64 (sp_Leaf sp) @
     EncodeSlice Hash256_EncodeTo (sp_Proof sp)"

definition StorageProof_DecodeFrom :: "StorageProof dec" where
  "StorageProof_DecodeFrom =
     dbind Hash256_DecodeFrom (\<lambda>p. dbind (Decoder_Read 64) (\<lambda>l.
     dbind (DecodeSlice Hash256_DecodeFrom) (\<lambda>pr.
     dret \<lparr>sp_ParentID = p, sp_Leaf = of_bytes64 l, sp_Proof = pr\<rparr>)))"

definition FoundationAddressUpdate_EncodeTo :: "FoundationAddressUpdate \<Rightarrow> byte list" where
  "FoundationAddressUpdate_EncodeTo fau =
     Hash256_EncodeTo (fau_NewPrimary fau) @ Hash256_EncodeTo (fau_NewFailsafe fau)"

definition FoundationAddressUpdate_DecodeFrom :: "FoundationAddressUpdate dec" where
  "FoundationAddressUpdate_DecodeFrom =
     dbind Hash256_DecodeFrom (\<lambda>p. dbind Hash256_DecodeFrom (\<lambda>f.
     dret \<lparr>fau_NewPrimary = p, fau_NewFailsafe = f\<rparr>))"

definition CoveredFields_EncodeTo :: "CoveredFields \<Rightarrow> byte list" where
  "CoveredFields_EncodeTo cf =
     WriteBool (cf_WholeTransaction cf) @
     EncodeSlice WriteUint64 (cf_SiacoinInputs cf) @
     EncodeSlice WriteUint64 (cf_SiacoinOutputs cf) @
     EncodeSlice WriteUint64 (cf_FileContracts cf) @
     EncodeSlice WriteUint64 (cf_FileContractRevisions cf) @
     EncodeSlice WriteUint64 (cf_StorageProofs cf) @
     EncodeSlice WriteUint64 (cf_SiafundInputs cf) @
     EncodeSlice WriteUint64 (cf_SiafundOutputs cf) @
     EncodeSlice WriteUint64 (cf_MinerFees cf) @
     EncodeSlice WriteUint64 (cf_ArbitraryData cf) @
     EncodeSlice WriteUint64 (cf_Signatures cf)"

definition CoveredFields_DecodeFrom :: "CoveredFields dec" where
  "CoveredFields_DecodeFrom =
     dbind ReadBool (\<lambda>w.
     dbind (DecodeSlice ReadUint64) (\<lambda>sci.
     dbind (DecodeSlice ReadUint64) (\<lambda>sco.
     dbind (DecodeSlice ReadUint64) (\<lambda>fc.
     dbind (DecodeSlice ReadUint64) (\<lambda>fcr.
     dbind (DecodeSlice ReadUint64) (\<lambda>sp.
     dbind (DecodeSlice ReadUint64) (\<lambda>sfi.
     dbind (DecodeSlice ReadUint64) (\<lambda>sfo.
     dbind (DecodeSlice ReadUint64) (\<lambda>mf.
     dbind (DecodeSlice ReadUint64) (\<lambda>ad.
     dbind (DecodeSlice ReadUint64) (\<lambda>sg.
     dret \<lparr>cf_WholeTransaction = w, cf_SiacoinInputs = sci, cf_SiacoinOutputs = sco,
       cf_FileContracts = fc, cf_FileContractRevisions = fcr, cf_StorageProofs = sp,
       cf_SiafundInputs = sfi, cf_SiafundOutputs = sfo, cf_MinerFees = mf, cf_ArbitraryData = ad,
       cf_Signatures = sg\<rparr>)))))))))))"

definition TransactionSignature_EncodeTo :: "TransactionSignature \<Rightarrow> byte list" where
  "TransactionSignature_EncodeTo ts =
     Hash256_EncodeTo (ts_ParentID ts) @ WriteUint64 (ts_PublicKeyIndex ts) @
     WriteUint64 (ts_Timelock ts) @ CoveredFields_EncodeTo (ts_CoveredFields ts) @
     WriteBytes (ts_Signature ts)"

definition TransactionSignature_DecodeFrom :: "TransactionSignature dec" where
  "TransactionSignature_DecodeFrom =
     dbind Hash256_DecodeFrom (\<lambda>p. dbind ReadUint64 (\<lambda>i. dbind ReadUint64 (\<lambda>t.
     dbind CoveredFields_DecodeFrom (\<lambda>cf. dbind ReadBytes (\<lambda>s.
     dret \<lparr>ts_ParentID = p, ts_PublicKeyIndex = i, ts_Timelock = t, ts_CoveredFields = cf,
       ts_Signature = s\<rparr>)))))"

definition txnSansSigs_EncodeTo :: "Transaction \<Rightarrow> byte list" where
  "txnSansSigs_EncodeTo txn =
     EncodeSlice SiacoinInput_EncodeTo (txn_SiacoinInputs txn) @
     EncodeSlice V1SiacoinOutput_EncodeTo (txn_SiacoinOutputs txn) @
     EncodeSlice FileContract_EncodeTo (txn_FileContracts txn) @
     EncodeSlice FileContractRevision_EncodeTo (txn_FileContractRevisions txn) @
     EncodeSlice StorageProof_EncodeTo (txn_StorageProofs txn) @
     EncodeSlice SiafundInput_EncodeTo (txn_SiafundInputs txn) @
     EncodeSlice V1SiafundOutput_EncodeTo (txn_SiafundOutputs txn) @
     EncodeSlice V1Currency_EncodeTo (txn_MinerFees txn) @
     EncodeSlice WriteBytes (txn_ArbitraryData txn)"

definition Transaction_EncodeTo :: "Transaction \<Rightarrow> byte list" where
  "Transaction_EncodeTo txn =
     txnSansSigs_EncodeTo txn @ EncodeSlice TransactionSignature_EncodeTo (txn_Signatures txn)"

definition Transaction_DecodeFrom :: "Transaction dec" where
  "Transaction_DecodeFrom =
     dbind (DecodeSlice SiacoinInput_DecodeFrom) (\<lambda>sci.
     dbind (DecodeSlice V1SiacoinOutput_DecodeFrom) (\<lambda>sco.
     dbind (DecodeSlice FileContract_DecodeFrom) (\<lambda>fc.
     dbind (DecodeSlice FileContractRevision_DecodeFrom) (\<lambda>fcr.
     dbind (DecodeSlice StorageProof_DecodeFrom) (\<lambda>sp.
     dbind (DecodeSlice SiafundInput_DecodeFrom) (\<lambda>sfi.
     dbind (DecodeSlice V1SiafundOutput_DecodeFrom) (\<lambda>sfo.
     dbind (DecodeSlice V1Currency_DecodeFrom) (\<lambda>mf.
     dbind (DecodeSlice ReadBytes) (\<lambda>ad.
     dbind (DecodeSlice TransactionSignature_DecodeFrom) (\<lambda>sg.
     dret \<lparr>txn_SiacoinInputs = sci, txn_SiacoinOutputs = sco, txn_FileContracts = fc,
       txn_FileContractRevisions = fcr, txn_StorageProofs = sp, txn_SiafundInputs = sfi,
       txn_SiafundOutputs = sfo, txn_MinerFees = mf, txn_ArbitraryData = ad,
       txn_Signatures = sg\<rparr>))))))))))"

section \<open>What the wire formats can carry\<close>

text \<open>
  Slices are written with a 64-bit length. A revision has no payout of its own: decoding sets the
  sentinel \<^verbatim>\<open>MaxCurrency\<close>.
\<close>

definition wf_UnlockKey :: "UnlockKey \<Rightarrow> bool" where
  "wf_UnlockKey uk \<longleftrightarrow> fits (uk_Key uk)"

definition wf_UnlockConditions :: "UnlockConditions \<Rightarrow> bool" where
  "wf_UnlockConditions uc \<longleftrightarrow> fits (uc_PublicKeys uc) \<and> list_all wf_UnlockKey (uc_PublicKeys uc)"

definition wf_SiacoinInput :: "SiacoinInput \<Rightarrow> bool" where
  "wf_SiacoinInput i \<longleftrightarrow> wf_UnlockConditions (sci_UnlockConditions i)"

definition wf_SiafundInput :: "SiafundInput \<Rightarrow> bool" where
  "wf_SiafundInput i \<longleftrightarrow> wf_UnlockConditions (sfi_UnlockConditions i)"

definition wf_FileContract :: "FileContract \<Rightarrow> bool" where
  "wf_FileContract fc \<longleftrightarrow> fits (fc_ValidProofOutputs fc) \<and> fits (fc_MissedProofOutputs fc)"

definition wf_FileContractRevision :: "FileContractRevision \<Rightarrow> bool" where
  "wf_FileContractRevision r \<longleftrightarrow> wf_UnlockConditions (rev_UnlockConditions r) \<and>
     wf_FileContract (rev_FileContract r) \<and> fc_Payout (rev_FileContract r) = MaxCurrency"

definition wf_StorageProof :: "StorageProof \<Rightarrow> bool" where
  "wf_StorageProof sp \<longleftrightarrow> fits (sp_Proof sp)"

definition wf_CoveredFields :: "CoveredFields \<Rightarrow> bool" where
  "wf_CoveredFields cf \<longleftrightarrow> fits (cf_SiacoinInputs cf) \<and> fits (cf_SiacoinOutputs cf) \<and>
     fits (cf_FileContracts cf) \<and> fits (cf_FileContractRevisions cf) \<and> fits (cf_StorageProofs cf) \<and>
     fits (cf_SiafundInputs cf) \<and> fits (cf_SiafundOutputs cf) \<and> fits (cf_MinerFees cf) \<and>
     fits (cf_ArbitraryData cf) \<and> fits (cf_Signatures cf)"

definition wf_TransactionSignature :: "TransactionSignature \<Rightarrow> bool" where
  "wf_TransactionSignature ts \<longleftrightarrow> wf_CoveredFields (ts_CoveredFields ts) \<and> fits (ts_Signature ts)"

definition wf_Transaction :: "Transaction \<Rightarrow> bool" where
  "wf_Transaction txn \<longleftrightarrow>
     fits (txn_SiacoinInputs txn) \<and> list_all wf_SiacoinInput (txn_SiacoinInputs txn) \<and>
     fits (txn_SiacoinOutputs txn) \<and>
     fits (txn_FileContracts txn) \<and> list_all wf_FileContract (txn_FileContracts txn) \<and>
     fits (txn_FileContractRevisions txn) \<and>
       list_all wf_FileContractRevision (txn_FileContractRevisions txn) \<and>
     fits (txn_StorageProofs txn) \<and> list_all wf_StorageProof (txn_StorageProofs txn) \<and>
     fits (txn_SiafundInputs txn) \<and> list_all wf_SiafundInput (txn_SiafundInputs txn) \<and>
     fits (txn_SiafundOutputs txn) \<and> fits (txn_MinerFees txn) \<and>
     fits (txn_ArbitraryData txn) \<and> list_all fits (txn_ArbitraryData txn) \<and>
     fits (txn_Signatures txn) \<and> list_all wf_TransactionSignature (txn_Signatures txn)"

section \<open>Every pair is a codec\<close>

lemma list_all_True [simp]: "list_all (\<lambda>_. True) xs"
  by (induction xs) auto

lemma takeWhile_eq_replicate: "takeWhile ((=) x) xs = replicate (length (takeWhile ((=) x) xs)) x"
  by (induction xs) auto

text \<open>Leading zeros that were trimmed are put back by the zeroed buffer.\<close>

lemma untrim:
  "replicate (length bs - length (dropWhile ((=) x) bs)) x @ dropWhile ((=) x) bs = bs"
proof -
  have "length bs = length (takeWhile ((=) x) bs) + length (dropWhile ((=) x) bs)"
    by (metis length_append takeWhile_dropWhile_id)
  then show ?thesis by (metis add_diff_cancel_right' takeWhile_dropWhile_id takeWhile_eq_replicate)
qed

lemma V1Currency_feed:
  "d_err d = None \<Longrightarrow> V1Currency_DecodeFrom (feed (V1Currency_EncodeTo c) d) = (c, d)"
proof -
  assume d: "d_err d = None"
  define bs where "bs = be64 (Hi c) @ be64 (Lo c)"
  define t where "t = dropWhile ((=) 0) bs"
  have len: "length t \<le> 16"
    using length_dropWhile_le [of "(=) 0" bs] by (simp add: t_def bs_def)
  have n: "unat (word_of_nat (length t) :: u64) = length t" using len by (simp add: unat_of_nat)
  have small: "\<not> 16 < (word_of_nat (length t) :: u64)" using len n by (simp add: word_less_nat_alt)
  have pad: "replicate (16 - length t) 0 @ t = bs"
    using untrim [of bs 0] by (simp add: t_def bs_def)
  have "V1Currency_DecodeFrom (feed (V1Currency_EncodeTo c) d) =
      (\<lparr>Lo = of_be64 (drop 8 bs), Hi = of_be64 (take 8 bs)\<rparr>, d)"
    using d n small
    by (simp add: V1Currency_DecodeFrom_def V1Currency_EncodeTo_def WriteBytes_def codec_simps Read_feed
        pad Let_def del: drop_append take_append flip: bs_def t_def)
  then show ?thesis by (simp add: bs_def)
qed

interpretation bool: slice_codec WriteBool ReadBool "\<lambda>_. True"
  by (rule slice_codecI) (simp_all add: codec_simps)

interpretation uint64: slice_codec WriteUint64 ReadUint64 "\<lambda>_. True"
  by (rule slice_codecI) (simp_all add: codec_simps)

interpretation bytes: slice_codec WriteBytes ReadBytes fits
  by (rule slice_codecI) (simp_all add: codec_simps)

interpretation hash: slice_codec Hash256_EncodeTo Hash256_DecodeFrom "\<lambda>_. True"
  by (rule slice_codecI) (simp_all add: Hash256_EncodeTo_def Hash256_DecodeFrom_def codec_simps Read_feed)

interpretation signature: slice_codec Signature_EncodeTo Signature_DecodeFrom "\<lambda>_. True"
  by (rule slice_codecI) (simp_all add: Signature_EncodeTo_def Signature_DecodeFrom_def codec_simps Read_feed)

interpretation specifier: slice_codec Specifier_EncodeTo Specifier_DecodeFrom "\<lambda>_. True"
  by (rule slice_codecI) (simp_all add: Specifier_EncodeTo_def Specifier_DecodeFrom_def codec_simps Read_feed)

interpretation v1currency: slice_codec V1Currency_EncodeTo V1Currency_DecodeFrom "\<lambda>_. True"
  by (rule slice_codecI) (simp add: V1Currency_feed, simp add: V1Currency_EncodeTo_def)

interpretation v2currency: slice_codec V2Currency_EncodeTo V2Currency_DecodeFrom "\<lambda>_. True"
  by (rule slice_codecI) (simp_all add: V2Currency_EncodeTo_def V2Currency_DecodeFrom_def codec_simps)

lemmas primitive_codecs [codec_simps] =
  uint64.slice_roundtrip bytes.slice_roundtrip hash.roundtrip hash.slice_roundtrip
  hash.ptr_roundtrip signature.roundtrip signature.slice_roundtrip specifier.roundtrip
  v1currency.roundtrip v1currency.slice_roundtrip v2currency.roundtrip v2currency.slice_roundtrip

lemmas primitive_nonempty [simp] =
  hash.nonempty signature.nonempty specifier.nonempty v1currency.nonempty v2currency.nonempty

interpretation unlockKey: slice_codec UnlockKey_EncodeTo UnlockKey_DecodeFrom wf_UnlockKey
  by (rule slice_codecI) (simp_all add: UnlockKey_EncodeTo_def UnlockKey_DecodeFrom_def wf_UnlockKey_def codec_simps)

lemmas unlockKey_codec [codec_simps] = unlockKey.roundtrip unlockKey.slice_roundtrip

declare unlockKey.nonempty [simp]

interpretation unlockConditions: slice_codec UnlockConditions_EncodeTo UnlockConditions_DecodeFrom wf_UnlockConditions
  by (rule slice_codecI) (simp_all add: UnlockConditions_EncodeTo_def UnlockConditions_DecodeFrom_def wf_UnlockConditions_def codec_simps)

lemmas unlockConditions_codec [codec_simps] = unlockConditions.roundtrip unlockConditions.slice_roundtrip

declare unlockConditions.nonempty [simp]

interpretation chainIndex: slice_codec ChainIndex_EncodeTo ChainIndex_DecodeFrom "\<lambda>_. True"
  by (rule slice_codecI) (simp_all add: ChainIndex_EncodeTo_def ChainIndex_DecodeFrom_def codec_simps)

lemmas chainIndex_codec [codec_simps] = chainIndex.roundtrip chainIndex.slice_roundtrip

declare chainIndex.nonempty [simp]

interpretation v1sco: slice_codec V1SiacoinOutput_EncodeTo V1SiacoinOutput_DecodeFrom "\<lambda>_. True"
  by (rule slice_codecI) (simp_all add: V1SiacoinOutput_EncodeTo_def V1SiacoinOutput_DecodeFrom_def codec_simps)

lemmas v1sco_codec [codec_simps] = v1sco.roundtrip v1sco.slice_roundtrip

declare v1sco.nonempty [simp]

interpretation v2sco: slice_codec V2SiacoinOutput_EncodeTo V2SiacoinOutput_DecodeFrom "\<lambda>_. True"
  by (rule slice_codecI) (simp_all add: V2SiacoinOutput_EncodeTo_def V2SiacoinOutput_DecodeFrom_def codec_simps)

lemmas v2sco_codec [codec_simps] = v2sco.roundtrip v2sco.slice_roundtrip

declare v2sco.nonempty [simp]

interpretation v1sfo: slice_codec V1SiafundOutput_EncodeTo V1SiafundOutput_DecodeFrom "\<lambda>_. True"
  by (rule slice_codecI) (simp_all add: V1SiafundOutput_EncodeTo_def V1SiafundOutput_DecodeFrom_def codec_simps NewCurrency64_def)

lemmas v1sfo_codec [codec_simps] = v1sfo.roundtrip v1sfo.slice_roundtrip

declare v1sfo.nonempty [simp]

interpretation v2sfo: slice_codec V2SiafundOutput_EncodeTo V2SiafundOutput_DecodeFrom "\<lambda>_. True"
  by (rule slice_codecI) (simp_all add: V2SiafundOutput_EncodeTo_def V2SiafundOutput_DecodeFrom_def codec_simps)

lemmas v2sfo_codec [codec_simps] = v2sfo.roundtrip v2sfo.slice_roundtrip

declare v2sfo.nonempty [simp]

interpretation sci: slice_codec SiacoinInput_EncodeTo SiacoinInput_DecodeFrom wf_SiacoinInput
  by (rule slice_codecI) (simp_all add: SiacoinInput_EncodeTo_def SiacoinInput_DecodeFrom_def wf_SiacoinInput_def codec_simps)

lemmas sci_codec [codec_simps] = sci.roundtrip sci.slice_roundtrip

declare sci.nonempty [simp]

interpretation sfi: slice_codec SiafundInput_EncodeTo SiafundInput_DecodeFrom wf_SiafundInput
  by (rule slice_codecI) (simp_all add: SiafundInput_EncodeTo_def SiafundInput_DecodeFrom_def wf_SiafundInput_def codec_simps)

lemmas sfi_codec [codec_simps] = sfi.roundtrip sfi.slice_roundtrip

declare sfi.nonempty [simp]

interpretation fc: slice_codec FileContract_EncodeTo FileContract_DecodeFrom wf_FileContract
  by (rule slice_codecI) (simp_all add: FileContract_EncodeTo_def FileContract_DecodeFrom_def wf_FileContract_def codec_simps)

lemmas fc_codec [codec_simps] = fc.roundtrip fc.slice_roundtrip

declare fc.nonempty [simp]

interpretation fcrev: slice_codec FileContractRevision_EncodeTo FileContractRevision_DecodeFrom wf_FileContractRevision
  by (rule slice_codecI) (simp_all add: FileContractRevision_EncodeTo_def FileContractRevision_DecodeFrom_def wf_FileContractRevision_def codec_simps wf_FileContract_def)

lemmas fcrev_codec [codec_simps] = fcrev.roundtrip fcrev.slice_roundtrip

declare fcrev.nonempty [simp]

interpretation storageProof: slice_codec StorageProof_EncodeTo StorageProof_DecodeFrom wf_StorageProof
  by (rule slice_codecI) (simp_all add: StorageProof_EncodeTo_def StorageProof_DecodeFrom_def wf_StorageProof_def codec_simps Read_feed)

lemmas storageProof_codec [codec_simps] = storageProof.roundtrip storageProof.slice_roundtrip

declare storageProof.nonempty [simp]

interpretation fau: slice_codec FoundationAddressUpdate_EncodeTo FoundationAddressUpdate_DecodeFrom "\<lambda>_. True"
  by (rule slice_codecI) (simp_all add: FoundationAddressUpdate_EncodeTo_def FoundationAddressUpdate_DecodeFrom_def codec_simps)

lemmas fau_codec [codec_simps] = fau.roundtrip fau.slice_roundtrip

declare fau.nonempty [simp]

interpretation coveredFields: slice_codec CoveredFields_EncodeTo CoveredFields_DecodeFrom wf_CoveredFields
  by (rule slice_codecI) (simp_all add: CoveredFields_EncodeTo_def CoveredFields_DecodeFrom_def wf_CoveredFields_def codec_simps)

lemmas coveredFields_codec [codec_simps] = coveredFields.roundtrip coveredFields.slice_roundtrip

declare coveredFields.nonempty [simp]

interpretation txnSignature: slice_codec TransactionSignature_EncodeTo TransactionSignature_DecodeFrom wf_TransactionSignature
  by (rule slice_codecI) (simp_all add: TransactionSignature_EncodeTo_def TransactionSignature_DecodeFrom_def wf_TransactionSignature_def codec_simps)

lemmas txnSignature_codec [codec_simps] = txnSignature.roundtrip txnSignature.slice_roundtrip

declare txnSignature.nonempty [simp]

interpretation txn: slice_codec Transaction_EncodeTo Transaction_DecodeFrom wf_Transaction
  by (rule slice_codecI) (simp_all add: Transaction_EncodeTo_def Transaction_DecodeFrom_def wf_Transaction_def codec_simps txnSansSigs_EncodeTo_def)

lemmas txn_codec [codec_simps] = txn.roundtrip txn.slice_roundtrip

declare txn.nonempty [simp]

end
