(* ===== verification/EncodingV2.thy ===== *)
theory EncodingV2
  imports Encoding
begin

text \<open>
  \<^verbatim>\<open>EncodeTo\<close> and \<^verbatim>\<open>DecodeFrom\<close> of spend policies, state elements, version 2 contracts and
  transactions and block headers (\<^verbatim>\<open>core/types/encoding.go\<close>), the semantic encoding that transaction
  identifiers and signature hashes are computed from, and the round trips of all of them.
\<close>

section \<open>Spend policies\<close>

fun encodePolicy :: "SpendPolicy \<Rightarrow> byte list" where
  "encodePolicy (PolicyAbove h) = WriteUint8 1 @ WriteUint64 h"
| "encodePolicy (PolicyAfter t) = WriteUint8 2 @ WriteTime t"
| "encodePolicy (PolicyPublicKey pk) = WriteUint8 3 @ Hash256_EncodeTo pk"
| "encodePolicy (PolicySLHDSA pk) = WriteUint8 8 @ Hash256_EncodeTo pk"
| "encodePolicy (PolicyHash h) = WriteUint8 4 @ Hash256_EncodeTo h"
| "encodePolicy (PolicyThreshold n sub) =
     WriteUint8 5 @ WriteUint8 n @ WriteUint8 (word_of_nat (length sub)) @
     concat (map encodePolicy sub)"
| "encodePolicy (PolicyTypeOpaque h) = WriteUint8 6 @ Hash256_EncodeTo h"
| "encodePolicy (PolicyTypeUnlockConditions uc) = WriteUint8 7 @ UnlockConditions_EncodeTo uc"

definition SpendPolicy_EncodeTo :: "SpendPolicy \<Rightarrow> byte list" where
  "SpendPolicy_EncodeTo p = WriteUint8 1 @ encodePolicy p"

text \<open>
  The loop that fills the sub-policies of a threshold; it stops at the first error.
\<close>

fun read_policies :: "(SpendPolicy res) dec \<Rightarrow> nat \<Rightarrow> (SpendPolicy list res) dec" where
  "read_policies rd 0 d = (Ok [], d)"
| "read_policies rd (Suc n) d =
     (let (p, d) = rd d in
      case p of
        Ok p \<Rightarrow> (let (ps, d) = read_policies rd n d in (rbind ps (\<lambda>ps. Ok (p # ps)), d))
      | Err e \<Rightarrow> (Err e, d)
      | Panic e \<Rightarrow> (Panic e, d))"

text \<open>
  \<open>readPolicy k\<close> is the closure \<^verbatim>\<open>readPolicy\<close> at depth \<open>33 - k\<close>: at \<open>k = 0\<close> the depth exceeds
  \<^verbatim>\<open>maxPolicyDepth\<close>, which is 32.
\<close>

primrec readPolicy :: "nat \<Rightarrow> (SpendPolicy res) dec" where
  "readPolicy 0 = dret (Err ''policy exceeds maximum nesting depth'')"
| "readPolicy (Suc k) = dbind ReadUint8 (\<lambda>op.
     if op = 1 then dbind ReadUint64 (\<lambda>h. dret (Ok (PolicyAbove h)))
     else if op = 2 then dbind ReadTime (\<lambda>t. dret (Ok (PolicyAfter t)))
     else if op = 3 then dbind Hash256_DecodeFrom (\<lambda>pk. dret (Ok (PolicyPublicKey pk)))
     else if op = 8 then dbind Hash256_DecodeFrom (\<lambda>pk. dret (Ok (PolicySLHDSA pk)))
     else if op = 4 then dbind Hash256_DecodeFrom (\<lambda>h. dret (Ok (PolicyHash h)))
     else if op = 5 then
       dbind ReadUint8 (\<lambda>n. dbind ReadUint8 (\<lambda>m. dbind (read_policies (readPolicy k) (unat m)) (\<lambda>sub.
       dret (rbind sub (\<lambda>sub. Ok (PolicyThreshold n sub))))))
     else if op = 6 then dbind Hash256_DecodeFrom (\<lambda>h. dret (Ok (PolicyTypeOpaque h)))
     else if op = 7 then
       dbind UnlockConditions_DecodeFrom (\<lambda>uc. dret (Ok (PolicyTypeUnlockConditions uc)))
     else dret (Err ''unknown policy''))"

definition maxPolicyDepth :: nat where
  "maxPolicyDepth = 32"

text \<open>\<^verbatim>\<open>SpendPolicy{}\<close>, the policy without a type, has no counterpart: a policy that cannot be
  decoded is returned as \<open>AnyoneCanSpend\<close> together with the error.\<close>

definition SpendPolicy_DecodeFrom :: "SpendPolicy dec" where
  "SpendPolicy_DecodeFrom = dbind ReadUint8 (\<lambda>v d.
     if v \<noteq> 1 then (AnyoneCanSpend, Decoder_SetErr ''unsupported policy version'' d)
     else case readPolicy (Suc maxPolicyDepth) d of
       (Ok p, d) \<Rightarrow> (p, d)
     | (Err e, d) \<Rightarrow> (AnyoneCanSpend, Decoder_SetErr e d)
     | (Panic e, d) \<Rightarrow> (AnyoneCanSpend, Decoder_SetErr e d))"

definition SatisfiedPolicy_EncodeTo :: "SatisfiedPolicy \<Rightarrow> byte list" where
  "SatisfiedPolicy_EncodeTo sp =
     SpendPolicy_EncodeTo (sat_Policy sp) @
     EncodeSlice Signature_EncodeTo (sat_Signatures sp) @
     EncodeSlice Hash256_EncodeTo (sat_Preimages sp)"

definition SatisfiedPolicy_DecodeFrom :: "SatisfiedPolicy dec" where
  "SatisfiedPolicy_DecodeFrom =
     dbind SpendPolicy_DecodeFrom (\<lambda>p.
     dbind (DecodeSlice Signature_DecodeFrom) (\<lambda>s.
     dbind (DecodeSlice Hash256_DecodeFrom) (\<lambda>pre.
     dret \<lparr>sat_Policy = p, sat_Signatures = s, sat_Preimages = pre\<rparr>)))"

section \<open>State elements\<close>

definition StateElement_EncodeTo :: "StateElement \<Rightarrow> byte list" where
  "StateElement_EncodeTo se =
     WriteUint64 (se_LeafIndex se) @ EncodeSlice Hash256_EncodeTo (se_MerkleProof se)"

definition StateElement_DecodeFrom :: "StateElement dec" where
  "StateElement_DecodeFrom =
     dbind ReadUint64 (\<lambda>i. dbind (DecodeSlice Hash256_DecodeFrom) (\<lambda>p.
     dret \<lparr>se_LeafIndex = i, se_MerkleProof = p\<rparr>))"

definition ChainIndexElement_EncodeTo :: "ChainIndexElement \<Rightarrow> byte list" where
  "ChainIndexElement_EncodeTo cie =
     StateElement_EncodeTo (cie_StateElement cie) @ Hash256_EncodeTo (cie_ID cie) @
     ChainIndex_EncodeTo (cie_ChainIndex cie)"

definition ChainIndexElement_DecodeFrom :: "ChainIndexElement dec" where
  "ChainIndexElement_DecodeFrom =
     dbind StateElement_DecodeFrom (\<lambda>se. dbind Hash256_DecodeFrom (\<lambda>i. dbind ChainIndex_DecodeFrom (\<lambda>ci.
     dret \<lparr>cie_ID = i, cie_StateElement = se, cie_ChainIndex = ci\<rparr>)))"

definition SiacoinElement_EncodeTo :: "SiacoinElement \<Rightarrow> byte list" where
  "SiacoinElement_EncodeTo sce =
     StateElement_EncodeTo (sce_StateElement sce) @ Hash256_EncodeTo (sce_ID sce) @
     V2SiacoinOutput_EncodeTo (sce_SiacoinOutput sce) @ WriteUint64 (sce_MaturityHeight sce)"

definition SiacoinElement_DecodeFrom :: "SiacoinElement dec" where
  "SiacoinElement_DecodeFrom =
     dbind StateElement_DecodeFrom (\<lambda>se. dbind Hash256_DecodeFrom (\<lambda>i.
     dbind V2SiacoinOutput_DecodeFrom (\<lambda>sco. dbind ReadUint64 (\<lambda>mh.
     dret \<lparr>sce_ID = i, sce_StateElement = se, sce_SiacoinOutput = sco, sce_MaturityHeight = mh\<rparr>))))"

definition SiafundElement_EncodeTo :: "SiafundElement \<Rightarrow> byte list" where
  "SiafundElement_EncodeTo sfe =
     StateElement_EncodeTo (sfe_StateElement sfe) @ Hash256_EncodeTo (sfe_ID sfe) @
     V2SiafundOutput_EncodeTo (sfe_SiafundOutput sfe) @ V2Currency_EncodeTo (sfe_ClaimStart sfe)"

definition SiafundElement_DecodeFrom :: "SiafundElement dec" where
  "SiafundElement_DecodeFrom =
     dbind StateElement_DecodeFrom (\<lambda>se. dbind Hash256_DecodeFrom (\<lambda>i.
     dbind V2SiafundOutput_DecodeFrom (\<lambda>sfo. dbind V2Currency_DecodeFrom (\<lambda>cs.
     dret \<lparr>sfe_ID = i, sfe_StateElement = se, sfe_SiafundOutput = sfo, sfe_ClaimStart = cs\<rparr>))))"

definition FileContractElement_EncodeTo :: "FileContractElement \<Rightarrow> byte list" where
  "FileContractElement_EncodeTo fce =
     StateElement_EncodeTo (fce_StateElement fce) @ Hash256_EncodeTo (fce_ID fce) @
     FileContract_EncodeTo (fce_FileContract fce)"

definition FileContractElement_DecodeFrom :: "FileContractElement dec" where
  "FileContractElement_DecodeFrom =
     dbind StateElement_DecodeFrom (\<lambda>se. dbind Hash256_DecodeFrom (\<lambda>i. dbind FileContract_DecodeFrom (\<lambda>fc.
     dret \<lparr>fce_ID = i, fce_StateElement = se, fce_FileContract = fc\<rparr>)))"

section \<open>Contracts\<close>

definition V2FileContract_EncodeTo :: "V2FileContract \<Rightarrow> byte list" where
  "V2FileContract_EncodeTo fc =
     WriteUint64 (v2fc_Capacity fc) @
     WriteUint64 (v2fc_Filesize fc) @
     Hash256_EncodeTo (v2fc_FileMerkleRoot fc) @
     WriteUint64 (v2fc_ProofHeight fc) @
     WriteUint64 (v2fc_ExpirationHeight fc) @
     V2SiacoinOutput_EncodeTo (v2fc_RenterOutput fc) @
     V2SiacoinOutput_EncodeTo (v2fc_HostOutput fc) @
     V2Currency_EncodeTo (v2fc_MissedHostValue fc) @
     V2Currency_EncodeTo (v2fc_TotalCollateral fc) @
     Hash256_EncodeTo (v2fc_RenterPublicKey fc) @
     Hash256_EncodeTo (v2fc_HostPublicKey fc) @
     WriteUint64 (v2fc_RevisionNumber fc) @
     Signature_EncodeTo (v2fc_RenterSignature fc) @
     Signature_EncodeTo (v2fc_HostSignature fc)"

definition V2FileContract_DecodeFrom :: "V2FileContract dec" where
  "V2FileContract_DecodeFrom =
     dbind ReadUint64 (\<lambda>cap.
     dbind ReadUint64 (\<lambda>fs.
     dbind Hash256_DecodeFrom (\<lambda>fr.
     dbind ReadUint64 (\<lambda>ph.
     dbind ReadUint64 (\<lambda>eh.
     dbind V2SiacoinOutput_DecodeFrom (\<lambda>ro.
     dbind V2SiacoinOutput_DecodeFrom (\<lambda>ho.
     dbind V2Currency_DecodeFrom (\<lambda>mh.
     dbind V2Currency_DecodeFrom (\<lambda>tc.
     dbind Hash256_DecodeFrom (\<lambda>rpk.
     dbind Hash256_DecodeFrom (\<lambda>hpk.
     dbind ReadUint64 (\<lambda>rn.
     dbind Signature_DecodeFrom (\<lambda>rs.
     dbind Signature_DecodeFrom (\<lambda>hs.
     dret \<lparr>v2fc_Capacity = cap, v2fc_Filesize = fs, v2fc_FileMerkleRoot = fr, v2fc_ProofHeight = ph,
       v2fc_ExpirationHeight = eh, v2fc_RenterOutput = ro, v2fc_HostOutput = ho,
       v2fc_MissedHostValue = mh, v2fc_TotalCollateral = tc, v2fc_RenterPublicKey = rpk,
       v2fc_HostPublicKey = hpk, v2fc_RevisionNumber = rn, v2fc_RenterSignature = rs,
       v2fc_HostSignature = hs\<rparr>))))))))))))))"

definition V2FileContractElement_EncodeTo :: "V2FileContractElement \<Rightarrow> byte list" where
  "V2FileContractElement_EncodeTo fce =
     StateElement_EncodeTo (v2fce_StateElement fce) @ Hash256_EncodeTo (v2fce_ID fce) @
     V2FileContract_EncodeTo (v2fce_V2FileContract fce)"

definition V2FileContractElement_DecodeFrom :: "V2FileContractElement dec" where
  "V2FileContractElement_DecodeFrom =
     dbind StateElement_DecodeFrom (\<lambda>se. dbind Hash256_DecodeFrom (\<lambda>i.
     dbind V2FileContract_DecodeFrom (\<lambda>fc.
     dret \<lparr>v2fce_ID = i, v2fce_StateElement = se, v2fce_V2FileContract = fc\<rparr>)))"

definition V2FileContractRevision_EncodeTo :: "V2FileContractRevision \<Rightarrow> byte list" where
  "V2FileContractRevision_EncodeTo r =
     V2FileContractElement_EncodeTo (v2rev_Parent r) @ V2FileContract_EncodeTo (v2rev_Revision r)"

definition V2FileContractRevision_DecodeFrom :: "V2FileContractRevision dec" where
  "V2FileContractRevision_DecodeFrom =
     dbind V2FileContractElement_DecodeFrom (\<lambda>p. dbind V2FileContract_DecodeFrom (\<lambda>fc.
     dret \<lparr>v2rev_Parent = p, v2rev_Revision = fc\<rparr>))"

definition V2FileContractRenewal_EncodeTo :: "V2FileContractRenewal \<Rightarrow> byte list" where
  "V2FileContractRenewal_EncodeTo ren =
     V2SiacoinOutput_EncodeTo (ren_FinalRenterOutput ren) @
     V2SiacoinOutput_EncodeTo (ren_FinalHostOutput ren) @
     V2Currency_EncodeTo (ren_RenterRollover ren) @
     V2Currency_EncodeTo (ren_HostRollover ren) @
     V2FileContract_EncodeTo (ren_NewContract ren) @
     Signature_EncodeTo (ren_RenterSignature ren) @
     Signature_EncodeTo (ren_HostSignature ren)"

definition V2FileContractRenewal_DecodeFrom :: "V2FileContractRenewal dec" where
  "V2FileContractRenewal_DecodeFrom =
     dbind V2SiacoinOutput_DecodeFrom (\<lambda>ro.
     dbind V2SiacoinOutput_DecodeFrom (\<lambda>ho.
     dbind V2Currency_DecodeFrom (\<lambda>rr.
     dbind V2Currency_DecodeFrom (\<lambda>hr.
     dbind V2FileContract_DecodeFrom (\<lambda>nc.
     dbind Signature_DecodeFrom (\<lambda>rs.
     dbind Signature_DecodeFrom (\<lambda>hs.
     dret \<lparr>ren_FinalRenterOutput = ro, ren_FinalHostOutput = ho, ren_RenterRollover = rr,
       ren_HostRollover = hr, ren_NewContract = nc, ren_RenterSignature = rs,
       ren_HostSignature = hs\<rparr>)))))))"

definition V2StorageProof_EncodeTo :: "V2StorageProof \<Rightarrow> byte list" where
  "V2StorageProof_EncodeTo sp =
     ChainIndexElement_EncodeTo (v2sp_ProofIndex sp) @ bytes_of64 (v2sp_Leaf sp) @
     EncodeSlice Hash256_EncodeTo (v2sp_Proof sp)"

definition V2StorageProof_DecodeFrom :: "V2StorageProof dec" where
  "V2StorageProof_DecodeFrom =
     dbind ChainIndexElement_DecodeFrom (\<lambda>pi. dbind (Decoder_Read 64) (\<lambda>l.
     dbind (DecodeSlice Hash256_DecodeFrom) (\<lambda>pr.
     dret \<lparr>v2sp_ProofIndex = pi, v2sp_Leaf = of_bytes64 l, v2sp_Proof = pr\<rparr>)))"

fun resolution_EncodeTo :: "V2FileContractResolutionType \<Rightarrow> byte list" where
  "resolution_EncodeTo (Renewal r) = V2FileContractRenewal_EncodeTo r"
| "resolution_EncodeTo (StorageProofRes sp) = V2StorageProof_EncodeTo sp"
| "resolution_EncodeTo Expiration = []"

definition V2FileContractResolution_EncodeTo :: "V2FileContractResolution \<Rightarrow> byte list" where
  "V2FileContractResolution_EncodeTo res =
     V2FileContractElement_EncodeTo (v2res_Parent res) @
     WriteUint8 (case v2res_Resolution res of Renewal _ \<Rightarrow> 0 | StorageProofRes _ \<Rightarrow> 1 | Expiration \<Rightarrow> 2) @
     resolution_EncodeTo (v2res_Resolution res)"

definition V2FileContractResolution_DecodeFrom :: "V2FileContractResolution dec" where
  "V2FileContractResolution_DecodeFrom =
     dbind V2FileContractElement_DecodeFrom (\<lambda>p. dbind ReadUint8 (\<lambda>t.
     if t = 0 then dbind V2FileContractRenewal_DecodeFrom (\<lambda>r.
       dret \<lparr>v2res_Parent = p, v2res_Resolution = Renewal r\<rparr>)
     else if t = 1 then dbind V2StorageProof_DecodeFrom (\<lambda>r.
       dret \<lparr>v2res_Parent = p, v2res_Resolution = StorageProofRes r\<rparr>)
     else if t = 2 then dret \<lparr>v2res_Parent = p, v2res_Resolution = Expiration\<rparr>
     else (\<lambda>d. (\<lparr>v2res_Parent = p, v2res_Resolution = Expiration\<rparr>,
                Decoder_SetErr ''unknown resolution type'' d))))"

definition Attestation_EncodeTo :: "Attestation \<Rightarrow> byte list" where
  "Attestation_EncodeTo a =
     Hash256_EncodeTo (att_PublicKey a) @ WriteBytes (att_Key a) @ WriteBytes (att_Value a) @
     Signature_EncodeTo (att_Signature a)"

definition Attestation_DecodeFrom :: "Attestation dec" where
  "Attestation_DecodeFrom =
     dbind Hash256_DecodeFrom (\<lambda>pk. dbind ReadBytes (\<lambda>k. dbind ReadBytes (\<lambda>v.
     dbind Signature_DecodeFrom (\<lambda>s.
     dret \<lparr>att_PublicKey = pk, att_Key = k, att_Value = v, att_Signature = s\<rparr>))))"

section \<open>Transactions\<close>

definition V2SiacoinInput_EncodeTo :: "V2SiacoinInput \<Rightarrow> byte list" where
  "V2SiacoinInput_EncodeTo i =
     SiacoinElement_EncodeTo (v2sci_Parent i) @ SatisfiedPolicy_EncodeTo (v2sci_SatisfiedPolicy i)"

definition V2SiacoinInput_DecodeFrom :: "V2SiacoinInput dec" where
  "V2SiacoinInput_DecodeFrom =
     dbind SiacoinElement_DecodeFrom (\<lambda>p. dbind SatisfiedPolicy_DecodeFrom (\<lambda>sp.
     dret \<lparr>v2sci_Parent = p, v2sci_SatisfiedPolicy = sp\<rparr>))"

definition V2SiafundInput_EncodeTo :: "V2SiafundInput \<Rightarrow> byte list" where
  "V2SiafundInput_EncodeTo i =
     SiafundElement_EncodeTo (v2sfi_Parent i) @ Hash256_EncodeTo (v2sfi_ClaimAddress i) @
     SatisfiedPolicy_EncodeTo (v2sfi_SatisfiedPolicy i)"

definition V2SiafundInput_DecodeFrom :: "V2SiafundInput dec" where
  "V2SiafundInput_DecodeFrom =
     dbind SiafundElement_DecodeFrom (\<lambda>p. dbind Hash256_DecodeFrom (\<lambda>a.
     dbind SatisfiedPolicy_DecodeFrom (\<lambda>sp.
     dret \<lparr>v2sfi_Parent = p, v2sfi_ClaimAddress = a, v2sfi_SatisfiedPolicy = sp\<rparr>)))"

text \<open>The bit field that says which parts follow, \<^verbatim>\<open>fields |= 1 << i\<close>, and its test.\<close>

fun set_fields :: "nat \<Rightarrow> bool list \<Rightarrow> u64 \<Rightarrow> u64" where
  "set_fields i [] w = w"
| "set_fields i (b # bs) w = set_fields (Suc i) bs (if b then w OR push_bit i 1 else w)"

definition has_field :: "u64 \<Rightarrow> nat \<Rightarrow> bool" where
  "has_field w i \<longleftrightarrow> w AND push_bit i 1 \<noteq> 0"

definition v2txn_fields :: "V2Transaction \<Rightarrow> u64" where
  "v2txn_fields txn = set_fields 0
     [length (v2_SiacoinInputs txn) \<noteq> 0,
      length (v2_SiacoinOutputs txn) \<noteq> 0,
      length (v2_SiafundInputs txn) \<noteq> 0,
      length (v2_SiafundOutputs txn) \<noteq> 0,
      length (v2_FileContracts txn) \<noteq> 0,
      length (v2_FileContractRevisions txn) \<noteq> 0,
      length (v2_FileContractResolutions txn) \<noteq> 0,
      length (v2_Attestations txn) \<noteq> 0,
      length (v2_ArbitraryData txn) \<noteq> 0,
      v2_NewFoundationAddress txn \<noteq> None,
      \<not> Currency_IsZero (v2_MinerFee txn)] 0"

definition enc_if :: "bool \<Rightarrow> byte list \<Rightarrow> byte list" where
  "enc_if b bs = (if b then bs else [])"

definition dec_if :: "bool \<Rightarrow> 'a dec \<Rightarrow> 'a \<Rightarrow> 'a dec" where
  "dec_if b m z = (if b then m else dret z)"

definition V2Transaction_EncodeTo :: "V2Transaction \<Rightarrow> byte list" where
  "V2Transaction_EncodeTo txn =
     (let fields = v2txn_fields txn in
      WriteUint8 2 @ WriteUint64 fields @
      enc_if (has_field fields 0) (EncodeSlice V2SiacoinInput_EncodeTo (v2_SiacoinInputs txn)) @
      enc_if (has_field fields 1) (EncodeSlice V2SiacoinOutput_EncodeTo (v2_SiacoinOutputs txn)) @
      enc_if (has_field fields 2) (EncodeSlice V2SiafundInput_EncodeTo (v2_SiafundInputs txn)) @
      enc_if (has_field fields 3) (EncodeSlice V2SiafundOutput_EncodeTo (v2_SiafundOutputs txn)) @
      enc_if (has_field fields 4) (EncodeSlice V2FileContract_EncodeTo (v2_FileContracts txn)) @
      enc_if (has_field fields 5)
        (EncodeSlice V2FileContractRevision_EncodeTo (v2_FileContractRevisions txn)) @
      enc_if (has_field fields 6)
        (EncodeSlice V2FileContractResolution_EncodeTo (v2_FileContractResolutions txn)) @
      enc_if (has_field fields 7) (EncodeSlice Attestation_EncodeTo (v2_Attestations txn)) @
      enc_if (has_field fields 8) (WriteBytes (v2_ArbitraryData txn)) @
      enc_if (has_field fields 9)
        (case v2_NewFoundationAddress txn of Some a \<Rightarrow> Hash256_EncodeTo a | None \<Rightarrow> []) @
      enc_if (has_field fields 10) (V2Currency_EncodeTo (v2_MinerFee txn)))"

definition empty_V2Transaction :: V2Transaction where
  "empty_V2Transaction = \<lparr>v2_SiacoinInputs = [], v2_SiacoinOutputs = [], v2_SiafundInputs = [],
     v2_SiafundOutputs = [], v2_FileContracts = [], v2_FileContractRevisions = [],
     v2_FileContractResolutions = [], v2_Attestations = [], v2_ArbitraryData = [],
     v2_NewFoundationAddress = None, v2_MinerFee = ZeroCurrency\<rparr>"

definition V2Transaction_DecodeFrom :: "V2Transaction dec" where
  "V2Transaction_DecodeFrom = dbind ReadUint8 (\<lambda>version d.
     if version \<noteq> 2 then (empty_V2Transaction, Decoder_SetErr ''unsupported transaction version'' d)
     else dbind ReadUint64 (\<lambda>fields.
      dbind (dec_if (has_field fields 0) (DecodeSlice V2SiacoinInput_DecodeFrom) []) (\<lambda>sci.
      dbind (dec_if (has_field fields 1) (DecodeSlice V2SiacoinOutput_DecodeFrom) []) (\<lambda>sco.
      dbind (dec_if (has_field fields 2) (DecodeSlice V2SiafundInput_DecodeFrom) []) (\<lambda>sfi.
      dbind (dec_if (has_field fields 3) (DecodeSlice V2SiafundOutput_DecodeFrom) []) (\<lambda>sfo.
      dbind (dec_if (has_field fields 4) (DecodeSlice V2FileContract_DecodeFrom) []) (\<lambda>fc.
      dbind (dec_if (has_field fields 5) (DecodeSlice V2FileContractRevision_DecodeFrom) []) (\<lambda>fcr.
      dbind (dec_if (has_field fields 6) (DecodeSlice V2FileContractResolution_DecodeFrom) []) (\<lambda>res.
      dbind (dec_if (has_field fields 7) (DecodeSlice Attestation_DecodeFrom) []) (\<lambda>att.
      dbind (dec_if (has_field fields 8) ReadBytes []) (\<lambda>ad.
      dbind (dec_if (has_field fields 9) (dbind Hash256_DecodeFrom (\<lambda>a. dret (Some a))) None) (\<lambda>nfa.
      dbind (dec_if (has_field fields 10) V2Currency_DecodeFrom ZeroCurrency) (\<lambda>fee.
      dret \<lparr>v2_SiacoinInputs = sci, v2_SiacoinOutputs = sco, v2_SiafundInputs = sfi,
        v2_SiafundOutputs = sfo, v2_FileContracts = fc, v2_FileContractRevisions = fcr,
        v2_FileContractResolutions = res, v2_Attestations = att, v2_ArbitraryData = ad,
        v2_NewFoundationAddress = nfa, v2_MinerFee = fee\<rparr>)))))))))))) d)"

section \<open>The semantic encoding\<close>

definition nil_contract_sigs :: "V2FileContract \<Rightarrow> V2FileContract" where
  "nil_contract_sigs fc = fc\<lparr>v2fc_RenterSignature := 0, v2fc_HostSignature := 0\<rparr>"

fun normalize_resolution :: "V2FileContractResolutionType \<Rightarrow> V2FileContractResolutionType" where
  "normalize_resolution (Renewal r) =
     Renewal (r\<lparr>ren_NewContract := nil_contract_sigs (ren_NewContract r),
                ren_RenterSignature := 0, ren_HostSignature := 0\<rparr>)"
| "normalize_resolution (StorageProofRes sp) =
     StorageProofRes (sp\<lparr>v2sp_ProofIndex := (v2sp_ProofIndex sp)\<lparr>cie_StateElement :=
       (cie_StateElement (v2sp_ProofIndex sp))\<lparr>se_MerkleProof := []\<rparr>\<rparr>\<rparr>)"
| "normalize_resolution Expiration = Expiration"

definition V2TransactionSemantics_EncodeTo :: "V2Transaction \<Rightarrow> byte list" where
  "V2TransactionSemantics_EncodeTo txn =
     EncodeSlice (\<lambda>i. Hash256_EncodeTo (sce_ID (v2sci_Parent i))) (v2_SiacoinInputs txn) @
     EncodeSlice V2SiacoinOutput_EncodeTo (v2_SiacoinOutputs txn) @
     EncodeSlice (\<lambda>i. Hash256_EncodeTo (sfe_ID (v2sfi_Parent i))) (v2_SiafundInputs txn) @
     EncodeSlice V2SiafundOutput_EncodeTo (v2_SiafundOutputs txn) @
     EncodeSlice (\<lambda>fc. V2FileContract_EncodeTo (nil_contract_sigs fc)) (v2_FileContracts txn) @
     EncodeSlice (\<lambda>r. Hash256_EncodeTo (v2fce_ID (v2rev_Parent r)) @
         V2FileContract_EncodeTo (nil_contract_sigs (v2rev_Revision r))) (v2_FileContractRevisions txn) @
     EncodeSlice (\<lambda>r. Hash256_EncodeTo (v2fce_ID (v2res_Parent r)) @
         resolution_EncodeTo (normalize_resolution (v2res_Resolution r)))
       (v2_FileContractResolutions txn) @
     EncodeSlice Attestation_EncodeTo (v2_Attestations txn) @
     WriteBytes (v2_ArbitraryData txn) @
     EncodePtr Hash256_EncodeTo (v2_NewFoundationAddress txn) @
     V2Currency_EncodeTo (v2_MinerFee txn)"

section \<open>Block headers\<close>

definition BlockHeader_EncodeTo :: "BlockHeader \<Rightarrow> byte list" where
  "BlockHeader_EncodeTo h =
     Hash256_EncodeTo (bh_ParentID h) @ WriteUint64 (bh_Nonce h) @ WriteTime (bh_Timestamp h) @
     Hash256_EncodeTo (bh_Commitment h)"

definition BlockHeader_DecodeFrom :: "BlockHeader dec" where
  "BlockHeader_DecodeFrom =
     dbind Hash256_DecodeFrom (\<lambda>p. dbind ReadUint64 (\<lambda>n. dbind ReadTime (\<lambda>t. dbind Hash256_DecodeFrom (\<lambda>c.
     dret \<lparr>bh_ParentID = p, bh_Nonce = n, bh_Timestamp = t, bh_Commitment = c\<rparr>))))"

definition V1Block_EncodeTo :: "Block \<Rightarrow> byte list" where
  "V1Block_EncodeTo b =
     Hash256_EncodeTo (blk_ParentID b) @ WriteUint64 (blk_Nonce b) @ WriteTime (blk_Timestamp b) @
     EncodeSlice V1SiacoinOutput_EncodeTo (blk_MinerPayouts b) @
     EncodeSlice Transaction_EncodeTo (blk_Transactions b)"

definition V1Block_DecodeFrom :: "Block dec" where
  "V1Block_DecodeFrom =
     dbind Hash256_DecodeFrom (\<lambda>p. dbind ReadUint64 (\<lambda>n. dbind ReadTime (\<lambda>t.
     dbind (DecodeSlice V1SiacoinOutput_DecodeFrom) (\<lambda>mp.
     dbind (DecodeSlice Transaction_DecodeFrom) (\<lambda>txns.
     dret \<lparr>blk_ParentID = p, blk_Nonce = n, blk_Timestamp = t, blk_MinerPayouts = mp,
       blk_Transactions = txns, blk_V2 = None\<rparr>)))))"

section \<open>What the wire formats can carry\<close>

text \<open>
  A threshold writes the number of its sub-policies in one byte, and policies are read to a bounded
  depth; times are written in whole seconds.
\<close>

fun policy_depth :: "SpendPolicy \<Rightarrow> nat" where
  "policy_depth (PolicyThreshold n sub) = (if sub = [] then 0 else Suc (Max (set (map policy_depth sub))))"
| "policy_depth _ = 0"

fun wf_policy_shape :: "SpendPolicy \<Rightarrow> bool" where
  "wf_policy_shape (PolicyAfter t) = wf_time t"
| "wf_policy_shape (PolicyThreshold n sub) = (length sub \<le> 255 \<and> (\<forall>p\<in>set sub. wf_policy_shape p))"
| "wf_policy_shape (PolicyTypeUnlockConditions uc) = wf_UnlockConditions uc"
| "wf_policy_shape _ = True"

definition wf_SpendPolicy :: "SpendPolicy \<Rightarrow> bool" where
  "wf_SpendPolicy p \<longleftrightarrow> wf_policy_shape p \<and> policy_depth p \<le> maxPolicyDepth"

definition wf_SatisfiedPolicy :: "SatisfiedPolicy \<Rightarrow> bool" where
  "wf_SatisfiedPolicy sp \<longleftrightarrow>
     wf_SpendPolicy (sat_Policy sp) \<and> fits (sat_Signatures sp) \<and> fits (sat_Preimages sp)"

definition wf_StateElement :: "StateElement \<Rightarrow> bool" where
  "wf_StateElement se \<longleftrightarrow> fits (se_MerkleProof se)"

definition wf_ChainIndexElement :: "ChainIndexElement \<Rightarrow> bool" where
  "wf_ChainIndexElement cie \<longleftrightarrow> wf_StateElement (cie_StateElement cie)"

definition wf_SiacoinElement :: "SiacoinElement \<Rightarrow> bool" where
  "wf_SiacoinElement sce \<longleftrightarrow> wf_StateElement (sce_StateElement sce)"

definition wf_SiafundElement :: "SiafundElement \<Rightarrow> bool" where
  "wf_SiafundElement sfe \<longleftrightarrow> wf_StateElement (sfe_StateElement sfe)"

definition wf_FileContractElement :: "FileContractElement \<Rightarrow> bool" where
  "wf_FileContractElement fce \<longleftrightarrow>
     wf_StateElement (fce_StateElement fce) \<and> wf_FileContract (fce_FileContract fce)"

definition wf_V2FileContractElement :: "V2FileContractElement \<Rightarrow> bool" where
  "wf_V2FileContractElement fce \<longleftrightarrow> wf_StateElement (v2fce_StateElement fce)"

definition wf_V2FileContractRevision :: "V2FileContractRevision \<Rightarrow> bool" where
  "wf_V2FileContractRevision r \<longleftrightarrow> wf_V2FileContractElement (v2rev_Parent r)"

definition wf_V2StorageProof :: "V2StorageProof \<Rightarrow> bool" where
  "wf_V2StorageProof sp \<longleftrightarrow> wf_ChainIndexElement (v2sp_ProofIndex sp) \<and> fits (v2sp_Proof sp)"

definition wf_V2FileContractResolution :: "V2FileContractResolution \<Rightarrow> bool" where
  "wf_V2FileContractResolution r \<longleftrightarrow> wf_V2FileContractElement (v2res_Parent r) \<and>
     (case v2res_Resolution r of StorageProofRes sp \<Rightarrow> wf_V2StorageProof sp | _ \<Rightarrow> True)"

definition wf_Attestation :: "Attestation \<Rightarrow> bool" where
  "wf_Attestation a \<longleftrightarrow> fits (att_Key a) \<and> fits (att_Value a)"

definition wf_V2SiacoinInput :: "V2SiacoinInput \<Rightarrow> bool" where
  "wf_V2SiacoinInput i \<longleftrightarrow>
     wf_SiacoinElement (v2sci_Parent i) \<and> wf_SatisfiedPolicy (v2sci_SatisfiedPolicy i)"

definition wf_V2SiafundInput :: "V2SiafundInput \<Rightarrow> bool" where
  "wf_V2SiafundInput i \<longleftrightarrow>
     wf_SiafundElement (v2sfi_Parent i) \<and> wf_SatisfiedPolicy (v2sfi_SatisfiedPolicy i)"

definition wf_V2Transaction :: "V2Transaction \<Rightarrow> bool" where
  "wf_V2Transaction txn \<longleftrightarrow>
     fits (v2_SiacoinInputs txn) \<and> list_all wf_V2SiacoinInput (v2_SiacoinInputs txn) \<and>
     fits (v2_SiacoinOutputs txn) \<and>
     fits (v2_SiafundInputs txn) \<and> list_all wf_V2SiafundInput (v2_SiafundInputs txn) \<and>
     fits (v2_SiafundOutputs txn) \<and> fits (v2_FileContracts txn) \<and>
     fits (v2_FileContractRevisions txn) \<and>
       list_all wf_V2FileContractRevision (v2_FileContractRevisions txn) \<and>
     fits (v2_FileContractResolutions txn) \<and>
       list_all wf_V2FileContractResolution (v2_FileContractResolutions txn) \<and>
     fits (v2_Attestations txn) \<and> list_all wf_Attestation (v2_Attestations txn) \<and>
     fits (v2_ArbitraryData txn)"

definition wf_BlockHeader :: "BlockHeader \<Rightarrow> bool" where
  "wf_BlockHeader h \<longleftrightarrow> wf_time (bh_Timestamp h)"

definition wf_V1Block :: "Block \<Rightarrow> bool" where
  "wf_V1Block b \<longleftrightarrow> wf_time (blk_Timestamp b) \<and> fits (blk_MinerPayouts b) \<and>
     fits (blk_Transactions b) \<and> list_all wf_Transaction (blk_Transactions b) \<and> blk_V2 b = None"

section \<open>Every pair is a codec\<close>

lemma read_policies_feed:
  assumes "d_err d = None"
    and "\<And>p d. p \<in> set ps \<Longrightarrow> d_err d = None \<Longrightarrow> rd (feed (encodePolicy p) d) = (Ok p, d)"
  shows "read_policies rd (length ps) (feed (concat (map encodePolicy ps)) d) = (Ok ps, d)"
  using assms by (induction ps) simp_all

lemma policy_depth_sub:
  "policy_depth (PolicyThreshold n sub) \<le> k \<Longrightarrow> p \<in> set sub \<Longrightarrow> \<exists>j. k = Suc j \<and> policy_depth p \<le> j"
proof -
  assume k: "policy_depth (PolicyThreshold n sub) \<le> k" and p: "p \<in> set sub"
  then have "sub \<noteq> []" by auto
  with k p show ?thesis by (cases k) auto
qed

lemma readPolicy_feed:
  "d_err d = None \<Longrightarrow> wf_policy_shape p \<Longrightarrow> policy_depth p \<le> k \<Longrightarrow>
    readPolicy (Suc k) (feed (encodePolicy p) d) = (Ok p, d)"
proof (induction p arbitrary: k d)
  case (PolicyThreshold n sub)
  have len: "unat (word_of_nat (length sub) :: u8) = length sub"
    using PolicyThreshold.prems(2) by (simp add: unat_of_nat)
  have "readPolicy k (feed (encodePolicy p) d) = (Ok p, d)" if p: "p \<in> set sub" "d_err d = None" for p d
  proof -
    obtain j where "k = Suc j" "policy_depth p \<le> j"
      using policy_depth_sub [OF PolicyThreshold.prems(3) p(1)] by blast
    with PolicyThreshold.IH [OF p] PolicyThreshold.prems(2) p(1) show ?thesis by simp
  qed
  then show ?case using PolicyThreshold.prems(1) len
    by (simp add: codec_simps read_policies_feed)
qed (simp_all add: codec_simps)

interpretation policy: slice_codec SpendPolicy_EncodeTo SpendPolicy_DecodeFrom wf_SpendPolicy
  by (rule slice_codecI)
     (simp_all del: readPolicy.simps add: SpendPolicy_EncodeTo_def SpendPolicy_DecodeFrom_def
       wf_SpendPolicy_def codec_simps readPolicy_feed)

lemmas policy_codec [codec_simps] = policy.roundtrip policy.slice_roundtrip

declare policy.nonempty [simp]

interpretation satisfied: slice_codec SatisfiedPolicy_EncodeTo SatisfiedPolicy_DecodeFrom wf_SatisfiedPolicy
  by (rule slice_codecI) (simp_all add: SatisfiedPolicy_EncodeTo_def SatisfiedPolicy_DecodeFrom_def wf_SatisfiedPolicy_def codec_simps)

lemmas satisfied_codec [codec_simps] = satisfied.roundtrip satisfied.slice_roundtrip

declare satisfied.nonempty [simp]

interpretation stateElement: slice_codec StateElement_EncodeTo StateElement_DecodeFrom wf_StateElement
  by (rule slice_codecI) (simp_all add: StateElement_EncodeTo_def StateElement_DecodeFrom_def wf_StateElement_def codec_simps)

lemmas stateElement_codec [codec_simps] = stateElement.roundtrip stateElement.slice_roundtrip

declare stateElement.nonempty [simp]

interpretation cie: slice_codec ChainIndexElement_EncodeTo ChainIndexElement_DecodeFrom wf_ChainIndexElement
  by (rule slice_codecI) (simp_all add: ChainIndexElement_EncodeTo_def ChainIndexElement_DecodeFrom_def wf_ChainIndexElement_def codec_simps)

lemmas cie_codec [codec_simps] = cie.roundtrip cie.slice_roundtrip

declare cie.nonempty [simp]

interpretation sce: slice_codec SiacoinElement_EncodeTo SiacoinElement_DecodeFrom wf_SiacoinElement
  by (rule slice_codecI) (simp_all add: SiacoinElement_EncodeTo_def SiacoinElement_DecodeFrom_def wf_SiacoinElement_def codec_simps)

lemmas sce_codec [codec_simps] = sce.roundtrip sce.slice_roundtrip

declare sce.nonempty [simp]

interpretation sfe: slice_codec SiafundElement_EncodeTo SiafundElement_DecodeFrom wf_SiafundElement
  by (rule slice_codecI) (simp_all add: SiafundElement_EncodeTo_def SiafundElement_DecodeFrom_def wf_SiafundElement_def codec_simps)

lemmas sfe_codec [codec_simps] = sfe.roundtrip sfe.slice_roundtrip

declare sfe.nonempty [simp]

interpretation fce: slice_codec FileContractElement_EncodeTo FileContractElement_DecodeFrom wf_FileContractElement
  by (rule slice_codecI) (simp_all add: FileContractElement_EncodeTo_def FileContractElement_DecodeFrom_def wf_FileContractElement_def codec_simps)

lemmas fce_codec [codec_simps] = fce.roundtrip fce.slice_roundtrip

declare fce.nonempty [simp]

interpretation v2fc: slice_codec V2FileContract_EncodeTo V2FileContract_DecodeFrom "\<lambda>_. True"
  by (rule slice_codecI) (simp_all add: V2FileContract_EncodeTo_def V2FileContract_DecodeFrom_def codec_simps)

lemmas v2fc_codec [codec_simps] = v2fc.roundtrip v2fc.slice_roundtrip

declare v2fc.nonempty [simp]

interpretation v2fce: slice_codec V2FileContractElement_EncodeTo V2FileContractElement_DecodeFrom wf_V2FileContractElement
  by (rule slice_codecI) (simp_all add: V2FileContractElement_EncodeTo_def V2FileContractElement_DecodeFrom_def wf_V2FileContractElement_def codec_simps)

lemmas v2fce_codec [codec_simps] = v2fce.roundtrip v2fce.slice_roundtrip

declare v2fce.nonempty [simp]

interpretation v2rev: slice_codec V2FileContractRevision_EncodeTo V2FileContractRevision_DecodeFrom wf_V2FileContractRevision
  by (rule slice_codecI) (simp_all add: V2FileContractRevision_EncodeTo_def V2FileContractRevision_DecodeFrom_def wf_V2FileContractRevision_def codec_simps)

lemmas v2rev_codec [codec_simps] = v2rev.roundtrip v2rev.slice_roundtrip

declare v2rev.nonempty [simp]

interpretation renewal: slice_codec V2FileContractRenewal_EncodeTo V2FileContractRenewal_DecodeFrom "\<lambda>_. True"
  by (rule slice_codecI) (simp_all add: V2FileContractRenewal_EncodeTo_def V2FileContractRenewal_DecodeFrom_def codec_simps)

lemmas renewal_codec [codec_simps] = renewal.roundtrip renewal.slice_roundtrip

declare renewal.nonempty [simp]

interpretation v2sp: slice_codec V2StorageProof_EncodeTo V2StorageProof_DecodeFrom wf_V2StorageProof
  by (rule slice_codecI) (simp_all add: V2StorageProof_EncodeTo_def V2StorageProof_DecodeFrom_def wf_V2StorageProof_def codec_simps Read_feed)

lemmas v2sp_codec [codec_simps] = v2sp.roundtrip v2sp.slice_roundtrip

declare v2sp.nonempty [simp]

lemma resolution_feed:
  "d_err d = None \<Longrightarrow> wf_V2FileContractResolution r \<Longrightarrow>
    V2FileContractResolution_DecodeFrom (feed (V2FileContractResolution_EncodeTo r) d) = (r, d)"
  by (cases "v2res_Resolution r")
     (simp_all add: V2FileContractResolution_DecodeFrom_def V2FileContractResolution_EncodeTo_def
       wf_V2FileContractResolution_def codec_simps)

interpretation resolution: slice_codec V2FileContractResolution_EncodeTo
    V2FileContractResolution_DecodeFrom wf_V2FileContractResolution
  by (rule slice_codecI) (simp add: resolution_feed, simp add: V2FileContractResolution_EncodeTo_def)

lemmas resolution_codec [codec_simps] = resolution.roundtrip resolution.slice_roundtrip

declare resolution.nonempty [simp]

interpretation att: slice_codec Attestation_EncodeTo Attestation_DecodeFrom wf_Attestation
  by (rule slice_codecI) (simp_all add: Attestation_EncodeTo_def Attestation_DecodeFrom_def wf_Attestation_def codec_simps)

lemmas att_codec [codec_simps] = att.roundtrip att.slice_roundtrip

declare att.nonempty [simp]

interpretation v2sci: slice_codec V2SiacoinInput_EncodeTo V2SiacoinInput_DecodeFrom wf_V2SiacoinInput
  by (rule slice_codecI) (simp_all add: V2SiacoinInput_EncodeTo_def V2SiacoinInput_DecodeFrom_def wf_V2SiacoinInput_def codec_simps)

lemmas v2sci_codec [codec_simps] = v2sci.roundtrip v2sci.slice_roundtrip

declare v2sci.nonempty [simp]

interpretation v2sfi: slice_codec V2SiafundInput_EncodeTo V2SiafundInput_DecodeFrom wf_V2SiafundInput
  by (rule slice_codecI) (simp_all add: V2SiafundInput_EncodeTo_def V2SiafundInput_DecodeFrom_def wf_V2SiafundInput_def codec_simps)

lemmas v2sfi_codec [codec_simps] = v2sfi.roundtrip v2sfi.slice_roundtrip

declare v2sfi.nonempty [simp]

interpretation header: slice_codec BlockHeader_EncodeTo BlockHeader_DecodeFrom wf_BlockHeader
  by (rule slice_codecI) (simp_all add: BlockHeader_EncodeTo_def BlockHeader_DecodeFrom_def wf_BlockHeader_def codec_simps)

lemmas header_codec [codec_simps] = header.roundtrip header.slice_roundtrip

declare header.nonempty [simp]

interpretation v1block: slice_codec V1Block_EncodeTo V1Block_DecodeFrom wf_V1Block
  by (rule slice_codecI) (simp_all add: V1Block_EncodeTo_def V1Block_DecodeFrom_def wf_V1Block_def codec_simps)

lemmas v1block_codec [codec_simps] = v1block.roundtrip v1block.slice_roundtrip

declare v1block.nonempty [simp]

lemma bit_set_fields:
  "i + length bs \<le> 64 \<Longrightarrow> bit (set_fields i bs w) j \<longleftrightarrow> bit w j \<or> (i \<le> j \<and> j < i + length bs \<and> bs ! (j - i))"
proof (induction bs arbitrary: i w)
  case (Cons b bs)
  have "bit (push_bit i 1 :: u64) j \<longleftrightarrow> j = i"
    using Cons.prems by (auto simp: bit_simps)
  then have "bit (if b then w OR push_bit i 1 else w) j \<longleftrightarrow> bit w j \<or> (b \<and> j = i)"
    by (auto simp: bit_simps)
  moreover have "(b # bs) ! (j - i) = bs ! (j - Suc i)" if "Suc i \<le> j"
    using that by (metis Suc_diff_le diff_Suc_Suc nth_Cons_Suc)
  ultimately show ?case using Cons by (auto simp: Suc_le_eq dest: le_neq_implies_less)
qed auto

lemma has_field_bit: "has_field w i \<longleftrightarrow> bit w i"
  unfolding has_field_def by (rule and_push_bit_one)

lemma has_field_set_fields:
  "length bs \<le> 64 \<Longrightarrow> i < length bs \<Longrightarrow> has_field (set_fields 0 bs 0) i \<longleftrightarrow> bs ! i"
  by (simp add: has_field_bit bit_set_fields)

lemma dec_if_slice [codec_simps]:
  assumes "d_err d = None" and "b \<longleftrightarrow> xs \<noteq> []"
    and "DecodeSlice dec (feed (EncodeSlice enc xs) d) = (xs, d)"
  shows "dec_if b (DecodeSlice dec) [] (feed (enc_if b (EncodeSlice enc xs)) d) = (xs, d)"
  using assms by (simp add: dec_if_def enc_if_def codec_simps)

lemma dec_if_bytes [codec_simps]:
  assumes "d_err d = None" and "b \<longleftrightarrow> xs \<noteq> []" and "fits xs"
  shows "dec_if b ReadBytes [] (feed (enc_if b (WriteBytes xs)) d) = (xs, d)"
  using assms by (simp add: dec_if_def enc_if_def codec_simps)

lemma dec_if_address [codec_simps]:
  assumes "d_err d = None" and "b \<longleftrightarrow> a \<noteq> None"
  shows "dec_if b (dbind Hash256_DecodeFrom (\<lambda>a. dret (Some a))) None
    (feed (enc_if b (case a of Some a \<Rightarrow> Hash256_EncodeTo a | None \<Rightarrow> [])) d) = (a, d)"
  using assms by (cases a) (simp_all add: dec_if_def enc_if_def codec_simps)

lemma dec_if_fee [codec_simps]:
  assumes "d_err d = None" and "b \<longleftrightarrow> \<not> Currency_IsZero c"
  shows "dec_if b V2Currency_DecodeFrom ZeroCurrency (feed (enc_if b (V2Currency_EncodeTo c)) d) = (c, d)"
  using assms by (auto simp: dec_if_def enc_if_def codec_simps Currency_IsZero_def)

lemma v2txn_has_field:
  "has_field (v2txn_fields txn) 0 \<longleftrightarrow> v2_SiacoinInputs txn \<noteq> []"
  "has_field (v2txn_fields txn) (Suc 0) \<longleftrightarrow> v2_SiacoinOutputs txn \<noteq> []"
  "has_field (v2txn_fields txn) 2 \<longleftrightarrow> v2_SiafundInputs txn \<noteq> []"
  "has_field (v2txn_fields txn) 3 \<longleftrightarrow> v2_SiafundOutputs txn \<noteq> []"
  "has_field (v2txn_fields txn) 4 \<longleftrightarrow> v2_FileContracts txn \<noteq> []"
  "has_field (v2txn_fields txn) 5 \<longleftrightarrow> v2_FileContractRevisions txn \<noteq> []"
  "has_field (v2txn_fields txn) 6 \<longleftrightarrow> v2_FileContractResolutions txn \<noteq> []"
  "has_field (v2txn_fields txn) 7 \<longleftrightarrow> v2_Attestations txn \<noteq> []"
  "has_field (v2txn_fields txn) 8 \<longleftrightarrow> v2_ArbitraryData txn \<noteq> []"
  "has_field (v2txn_fields txn) 9 \<longleftrightarrow> v2_NewFoundationAddress txn \<noteq> None"
  "has_field (v2txn_fields txn) 10 \<longleftrightarrow> \<not> Currency_IsZero (v2_MinerFee txn)"
  unfolding v2txn_fields_def by (simp_all add: has_field_set_fields del: set_fields.simps)

lemma v2txn_feed:
  "d_err d = None \<Longrightarrow> wf_V2Transaction txn \<Longrightarrow>
    V2Transaction_DecodeFrom (feed (V2Transaction_EncodeTo txn) d) = (txn, d)"
  by (simp add: V2Transaction_DecodeFrom_def V2Transaction_EncodeTo_def Let_def wf_V2Transaction_def
      codec_simps v2txn_has_field)

interpretation v2txn: slice_codec V2Transaction_EncodeTo V2Transaction_DecodeFrom wf_V2Transaction
  by (rule slice_codecI) (simp add: v2txn_feed, simp add: V2Transaction_EncodeTo_def Let_def)

section \<open>Properties\<close>

text \<open>C34: the wire format of transactions and headers. A v2 transaction, a v1 block and a block header that
  the format can carry (slices within the length limit, policies within the nesting limit, times in
  whole seconds) decode to themselves from a buffer that continues with any bytes; the decoder
  reports no error and stops exactly at those bytes.\<close>

theorem transactions_roundtrip:
  assumes "wf_V2Transaction txn" "wf_V1Block b" "wf_BlockHeader bh"
  shows "V2Transaction_DecodeFrom (NewBufDecoder (V2Transaction_EncodeTo txn @ rest)) = (txn, NewBufDecoder rest) \<and>
    V1Block_DecodeFrom (NewBufDecoder (V1Block_EncodeTo b @ rest)) = (b, NewBufDecoder rest) \<and>
    BlockHeader_DecodeFrom (NewBufDecoder (BlockHeader_EncodeTo bh @ rest)) = (bh, NewBufDecoder rest)"
proof -
  have "NewBufDecoder (bs @ rest) = feed bs (NewBufDecoder rest)" for bs
    by (simp add: NewBufDecoder_def feed_def)
  moreover have "d_err (NewBufDecoder rest) = None" by (simp add: NewBufDecoder_def)
  ultimately show ?thesis
    using assms by (simp only: v2txn.roundtrip v1block.roundtrip header.roundtrip simp_thms)
qed

theorem transactions_roundtrip_witness:
  "V2Transaction_DecodeFrom (NewBufDecoder (V2Transaction_EncodeTo
     (empty_V2Transaction\<lparr>v2_ArbitraryData := [1, 2, 3], v2_MinerFee := NewCurrency 5 0\<rparr>) @ [9]))
   = (empty_V2Transaction\<lparr>v2_ArbitraryData := [1, 2, 3], v2_MinerFee := NewCurrency 5 0\<rparr>, NewBufDecoder [9])"
proof -
  let ?txn = "empty_V2Transaction\<lparr>v2_ArbitraryData := [1, 2, 3], v2_MinerFee := NewCurrency 5 0\<rparr>"
  have "wf_V2Transaction ?txn" by (simp add: wf_V2Transaction_def empty_V2Transaction_def fits_def)
  moreover have "wf_V1Block \<lparr>blk_ParentID = 0, blk_Nonce = 0, blk_Timestamp = 0, blk_MinerPayouts = [],
      blk_Transactions = [], blk_V2 = None\<rparr>"
    by (simp add: wf_V1Block_def fits_def wf_time_def)
  moreover have "wf_BlockHeader \<lparr>bh_ParentID = 0, bh_Nonce = 0, bh_Timestamp = 0, bh_Commitment = 0\<rparr>"
    by (simp add: wf_BlockHeader_def wf_time_def)
  ultimately show ?thesis using transactions_roundtrip by blast
qed

end
