(* ===== verification/Hashing.thy ===== *)
theory Hashing
  imports EncodingV2
begin

text \<open>
  Hashing: the cryptographic primitives the program calls as a parameter, the Merkle accumulator of
  \<^verbatim>\<open>core/blake2b/blake2b.go\<close>, and the identifiers and hashes of \<^verbatim>\<open>core/types/hash.go\<close> and
  \<^verbatim>\<open>core/types/types.go\<close>. The accumulator's root is proved equal to the RFC 6962 tree hash of the
  leaves added.
\<close>

section \<open>Cryptographic primitives\<close>

text \<open>
  The packages the sources only call: \<^verbatim>\<open>golang.org/x/crypto/blake2b\<close>, \<^verbatim>\<open>crypto/ed25519\<close>,
  \<^verbatim>\<open>crypto/sha256\<close>, \<^verbatim>\<open>circl/sign/slhdsa\<close> and \<^verbatim>\<open>filippo.io/edwards25519\<close>. Every definition that
  uses one takes this record as its first argument, and every theorem holds for all such functions
  unless it states a hypothesis on them.

  \<^item> \<open>slhdsa_Verify pk msg sig ctx\<close>: \<^verbatim>\<open>UnmarshalBinary\<close> of the key succeeds and \<^verbatim>\<open>slhdsa.Verify\<close>
    accepts; \<open>slhdsa_SignDeterministic\<close> and \<open>slhdsa_GenerateKey\<close> (from the bytes of the random stream,
    giving the marshalled public and the private key) are None on an error.
  \<^item> \<open>point_SetBytes b\<close>: the canonical encoding of the point \<^verbatim>\<open>SetBytes\<close> decodes, or None on an error.
  \<^item> \<open>scalar_SetCanonicalBytes b\<close>: whether the bytes are a canonical scalar; \<open>scalar_IsZero\<close> and
    \<open>scalar_BaseMult\<close> (the encoding of the product with the base point) are of that scalar.
\<close>

record crypto =
  blake2b_Sum256 :: "byte list \<Rightarrow> hash256"
  sha256_Sum256 :: "byte list \<Rightarrow> hash256"
  sha512_Sum512 :: "byte list \<Rightarrow> bytes64"
  ed25519_NewKeyFromSeed :: "byte list \<Rightarrow> byte list"
  ed25519_Sign :: "byte list \<Rightarrow> byte list \<Rightarrow> Signature"
  ed25519_Verify :: "PublicKey \<Rightarrow> byte list \<Rightarrow> Signature \<Rightarrow> bool"
  slhdsa_GenerateKey :: "byte list \<Rightarrow> (byte list \<times> byte list) option"
  slhdsa_SignDeterministic :: "byte list \<Rightarrow> byte list \<Rightarrow> byte list \<Rightarrow> (byte list) option"
  slhdsa_Verify :: "hash256 \<Rightarrow> byte list \<Rightarrow> byte list \<Rightarrow> byte list \<Rightarrow> bool"
  point_SetBytes :: "hash256 \<Rightarrow> hash256 option"
  point_MultByCofactor :: "hash256 \<Rightarrow> hash256"
  identity_Point :: hash256
  scalar_SetCanonicalBytes :: "hash256 \<Rightarrow> bool"
  scalar_IsZero :: "hash256 \<Rightarrow> bool"
  scalar_BaseMult :: "hash256 \<Rightarrow> hash256"

text \<open>A private key is the 64-byte string of \<^verbatim>\<open>crypto/ed25519\<close>, the public key its second half.\<close>

type_synonym PrivateKey = "byte list"

definition PrivateKey_PublicKey :: "PrivateKey \<Rightarrow> PublicKey" where
  "PrivateKey_PublicKey priv = hash_of_bytes (take 32 (drop 32 priv @ replicate 32 0))"

definition PrivateKey_SignHash :: "crypto \<Rightarrow> PrivateKey \<Rightarrow> hash256 \<Rightarrow> Signature" where
  "PrivateKey_SignHash c priv h = ed25519_Sign c priv (hash_bytes h)"

definition NewPrivateKeyFromSeed :: "crypto \<Rightarrow> byte list \<Rightarrow> PrivateKey" where
  "NewPrivateKeyFromSeed c seed = ed25519_NewKeyFromSeed c seed"

definition PublicKey_VerifyHash :: "crypto \<Rightarrow> PublicKey \<Rightarrow> hash256 \<Rightarrow> Signature \<Rightarrow> bool" where
  "PublicKey_VerifyHash c pk h s = ed25519_Verify c pk (hash_bytes h) s"

section \<open>Package core/blake2b\<close>

definition hashBlockGeneric :: "crypto \<Rightarrow> byte list \<Rightarrow> byte \<Rightarrow> hash256" where
  "hashBlockGeneric c msg prefix = blake2b_Sum256 c (prefix # msg)"

definition SumLeaf :: "crypto \<Rightarrow> bytes64 \<Rightarrow> hash256" where
  "SumLeaf c leaf = hashBlockGeneric c (bytes_of64 leaf) 0"

definition SumPair :: "crypto \<Rightarrow> hash256 \<Rightarrow> hash256 \<Rightarrow> hash256" where
  "SumPair c left right = hashBlockGeneric c (hash_bytes left @ hash_bytes right) 1"

text \<open>
  The accumulator. The array of 64 trees is a function on indices. An index beyond 63 is not a branch of the
  model: a lookup at a height follows \<^verbatim>\<open>hasTreeAtHeight\<close>, which is false beyond 63, and an insertion reaches 64 only
  with the leaf after the \<open>2 ^ 64 - 1\<close>st.
\<close>

record Accumulator =
  acc_Trees :: "nat \<Rightarrow> hash256"
  acc_NumLeaves :: u64

definition empty_Accumulator :: Accumulator where
  "empty_Accumulator = \<lparr>acc_Trees = (\<lambda>_. 0), acc_NumLeaves = 0\<rparr>"

definition hasTreeAtHeight :: "Accumulator \<Rightarrow> nat \<Rightarrow> bool" where
  "hasTreeAtHeight acc height \<longleftrightarrow> acc_NumLeaves acc AND push_bit height 1 \<noteq> 0"

lemma hasTreeAtHeight_bit: "hasTreeAtHeight acc i \<longleftrightarrow> bit (acc_NumLeaves acc) i"
  unfolding hasTreeAtHeight_def by (rule and_push_bit_one)

function add_leaf_loop :: "crypto \<Rightarrow> Accumulator \<Rightarrow> nat \<Rightarrow> hash256 \<Rightarrow> nat \<times> hash256" where
  "add_leaf_loop c acc i h =
     (if hasTreeAtHeight acc i then add_leaf_loop c acc (Suc i) (SumPair c (acc_Trees acc i) h)
      else (i, h))"
  by pat_completeness auto

termination
proof (relation "measure (\<lambda>(c, acc, i, h). 64 - i)")
  fix c :: crypto and acc i h
  assume "hasTreeAtHeight acc i"
  then have "i < 64" using bit_imp_le_length [of "acc_NumLeaves acc" i] by (simp add: hasTreeAtHeight_bit)
  then show "((c, acc, Suc i, SumPair c (acc_Trees acc i) h), (c, acc, i, h))
      \<in> measure (\<lambda>(c, acc, i, h). 64 - i)" by simp
qed simp

declare add_leaf_loop.simps [simp del]

definition AddLeaf :: "crypto \<Rightarrow> Accumulator \<Rightarrow> hash256 \<Rightarrow> Accumulator" where
  "AddLeaf c acc h =
     (let (i, h) = add_leaf_loop c acc 0 h
      in acc\<lparr>acc_Trees := (acc_Trees acc)(i := h), acc_NumLeaves := acc_NumLeaves acc + 1\<rparr>)"

text \<open>The loop of \<^verbatim>\<open>Root\<close> over the heights \<open>i, i + 1, \<dots>, i + k - 1\<close>.\<close>

fun root_loop :: "crypto \<Rightarrow> Accumulator \<Rightarrow> nat \<Rightarrow> nat \<Rightarrow> hash256 \<Rightarrow> hash256" where
  "root_loop c acc i 0 root = root"
| "root_loop c acc i (Suc k) root =
     root_loop c acc (Suc i) k (if hasTreeAtHeight acc i then SumPair c (acc_Trees acc i) root else root)"

definition Root :: "crypto \<Rightarrow> Accumulator \<Rightarrow> hash256" where
  "Root c acc =
     (let i = trailing_zeros64 (acc_NumLeaves acc)
      in if i = 64 then 0 else root_loop c acc (Suc i) (64 - Suc i) (acc_Trees acc i))"

section \<open>Hashing objects\<close>

definition distinguisher :: "string \<Rightarrow> byte list" where
  "distinguisher p = ascii (''sia/'' @ p @ ''|'')"

text \<open>\<^verbatim>\<open>hashAll\<close>: the digest of the concatenated encodings of its arguments.\<close>

definition hashAll :: "crypto \<Rightarrow> byte list list \<Rightarrow> hash256" where
  "hashAll c elems = blake2b_Sum256 c (concat elems)"

definition HashBytes :: "crypto \<Rightarrow> byte list \<Rightarrow> hash256" where
  "HashBytes c b = blake2b_Sum256 c b"

definition enc_int :: "nat \<Rightarrow> byte list" where
  "enc_int i = WriteUint64 (word_of_nat i)"

definition Transaction_ID :: "crypto \<Rightarrow> Transaction \<Rightarrow> TransactionID" where
  "Transaction_ID c txn = hashAll c [txnSansSigs_EncodeTo txn]"

definition Transaction_FullHash :: "crypto \<Rightarrow> Transaction \<Rightarrow> hash256" where
  "Transaction_FullHash c txn = hashAll c [Transaction_EncodeTo txn]"

definition Transaction_SiacoinOutputID :: "crypto \<Rightarrow> Transaction \<Rightarrow> nat \<Rightarrow> SiacoinOutputID" where
  "Transaction_SiacoinOutputID c txn i =
     hashAll c [Specifier_EncodeTo SpecifierSiacoinOutput, txnSansSigs_EncodeTo txn, enc_int i]"

definition Transaction_SiafundOutputID :: "crypto \<Rightarrow> Transaction \<Rightarrow> nat \<Rightarrow> SiafundOutputID" where
  "Transaction_SiafundOutputID c txn i =
     hashAll c [Specifier_EncodeTo SpecifierSiafundOutput, txnSansSigs_EncodeTo txn, enc_int i]"

definition Transaction_SiafundClaimOutputID :: "crypto \<Rightarrow> Transaction \<Rightarrow> nat \<Rightarrow> SiacoinOutputID" where
  "Transaction_SiafundClaimOutputID c txn i =
     hashAll c [Hash256_EncodeTo (Transaction_SiafundOutputID c txn i)]"

definition Transaction_FileContractID :: "crypto \<Rightarrow> Transaction \<Rightarrow> nat \<Rightarrow> FileContractID" where
  "Transaction_FileContractID c txn i =
     hashAll c [Specifier_EncodeTo SpecifierFileContract, txnSansSigs_EncodeTo txn, enc_int i]"

definition BlockID_MinerOutputID :: "crypto \<Rightarrow> BlockID \<Rightarrow> nat \<Rightarrow> SiacoinOutputID" where
  "BlockID_MinerOutputID c bid i = hashAll c [Hash256_EncodeTo bid, enc_int i]"

definition BlockID_FoundationOutputID :: "crypto \<Rightarrow> BlockID \<Rightarrow> SiacoinOutputID" where
  "BlockID_FoundationOutputID c bid = hashAll c [Hash256_EncodeTo bid, Specifier_EncodeTo SpecifierFoundation]"

definition SiafundOutputID_ClaimOutputID :: "crypto \<Rightarrow> SiafundOutputID \<Rightarrow> SiacoinOutputID" where
  "SiafundOutputID_ClaimOutputID c sfoid = hashAll c [Hash256_EncodeTo sfoid]"

definition SiafundOutputID_V2ClaimOutputID :: "crypto \<Rightarrow> SiafundOutputID \<Rightarrow> SiacoinOutputID" where
  "SiafundOutputID_V2ClaimOutputID c sfoid =
     hashAll c [distinguisher ''id/v2siacoinclaimoutput'', Hash256_EncodeTo sfoid]"

definition FileContractID_ValidOutputID :: "crypto \<Rightarrow> FileContractID \<Rightarrow> nat \<Rightarrow> SiacoinOutputID" where
  "FileContractID_ValidOutputID c fcid i =
     hashAll c [Specifier_EncodeTo SpecifierStorageProof, Hash256_EncodeTo fcid, WriteBool True, enc_int i]"

definition FileContractID_MissedOutputID :: "crypto \<Rightarrow> FileContractID \<Rightarrow> nat \<Rightarrow> SiacoinOutputID" where
  "FileContractID_MissedOutputID c fcid i =
     hashAll c [Specifier_EncodeTo SpecifierStorageProof, Hash256_EncodeTo fcid, WriteBool False, enc_int i]"

definition FileContractID_V2RenterOutputID :: "crypto \<Rightarrow> FileContractID \<Rightarrow> SiacoinOutputID" where
  "FileContractID_V2RenterOutputID c fcid =
     hashAll c [distinguisher ''id/v2filecontractoutput'', Hash256_EncodeTo fcid, enc_int 0]"

definition FileContractID_V2HostOutputID :: "crypto \<Rightarrow> FileContractID \<Rightarrow> SiacoinOutputID" where
  "FileContractID_V2HostOutputID c fcid =
     hashAll c [distinguisher ''id/v2filecontractoutput'', Hash256_EncodeTo fcid, enc_int 1]"

definition FileContractID_V2RenewalID :: "crypto \<Rightarrow> FileContractID \<Rightarrow> FileContractID" where
  "FileContractID_V2RenewalID c fcid =
     hashAll c [distinguisher ''id/v2filecontractrenewal'', Hash256_EncodeTo fcid]"

definition V2Transaction_ID :: "crypto \<Rightarrow> V2Transaction \<Rightarrow> TransactionID" where
  "V2Transaction_ID c txn =
     hashAll c [distinguisher ''id/transaction'', V2TransactionSemantics_EncodeTo txn]"

definition V2Transaction_FullHash :: "crypto \<Rightarrow> V2Transaction \<Rightarrow> hash256" where
  "V2Transaction_FullHash c txn = hashAll c [V2Transaction_EncodeTo txn]"

definition V2Transaction_SiacoinOutputID :: "crypto \<Rightarrow> TransactionID \<Rightarrow> nat \<Rightarrow> SiacoinOutputID" where
  "V2Transaction_SiacoinOutputID c txid i =
     hashAll c [distinguisher ''id/siacoinoutput'', Hash256_EncodeTo txid, enc_int i]"

definition V2Transaction_SiafundOutputID :: "crypto \<Rightarrow> TransactionID \<Rightarrow> nat \<Rightarrow> SiafundOutputID" where
  "V2Transaction_SiafundOutputID c txid i =
     hashAll c [distinguisher ''id/siafundoutput'', Hash256_EncodeTo txid, enc_int i]"

definition V2Transaction_V2FileContractID :: "crypto \<Rightarrow> TransactionID \<Rightarrow> nat \<Rightarrow> FileContractID" where
  "V2Transaction_V2FileContractID c txid i =
     hashAll c [distinguisher ''id/filecontract'', Hash256_EncodeTo txid, enc_int i]"

definition V2Transaction_AttestationID :: "crypto \<Rightarrow> TransactionID \<Rightarrow> nat \<Rightarrow> AttestationID" where
  "V2Transaction_AttestationID c txid i =
     hashAll c [distinguisher ''id/attestation'', Hash256_EncodeTo txid, enc_int i]"

text \<open>\<^verbatim>\<open>EphemeralSiacoinOutput\<close> panics on an index out of range.\<close>

definition EphemeralSiacoinOutput :: "crypto \<Rightarrow> V2Transaction \<Rightarrow> nat \<Rightarrow> SiacoinElement res" where
  "EphemeralSiacoinOutput c txn i =
     (if length (v2_SiacoinOutputs txn) \<le> i then Panic ''index out of range''
      else Ok \<lparr>sce_ID = V2Transaction_SiacoinOutputID c (V2Transaction_ID c txn) i,
              sce_StateElement = \<lparr>se_LeafIndex = UnassignedLeafIndex, se_MerkleProof = []\<rparr>,
              sce_SiacoinOutput = v2_SiacoinOutputs txn ! i,
              sce_MaturityHeight = 0\<rparr>)"

definition EphemeralSiafundOutput :: "crypto \<Rightarrow> V2Transaction \<Rightarrow> nat \<Rightarrow> SiafundElement res" where
  "EphemeralSiafundOutput c txn i =
     (if length (v2_SiafundOutputs txn) \<le> i then Panic ''index out of range''
      else Ok \<lparr>sfe_ID = V2Transaction_SiafundOutputID c (V2Transaction_ID c txn) i,
              sfe_StateElement = \<lparr>se_LeafIndex = UnassignedLeafIndex, se_MerkleProof = []\<rparr>,
              sfe_SiafundOutput = v2_SiafundOutputs txn ! i,
              sfe_ClaimStart = ZeroCurrency\<rparr>)"

definition Transaction_MerkleLeafHash :: "crypto \<Rightarrow> Transaction \<Rightarrow> hash256" where
  "Transaction_MerkleLeafHash c txn = hashAll c [WriteUint8 0, Transaction_EncodeTo txn]"

definition V2Transaction_MerkleLeafHash :: "crypto \<Rightarrow> V2Transaction \<Rightarrow> hash256" where
  "V2Transaction_MerkleLeafHash c txn = hashAll c [WriteUint8 0, V2Transaction_EncodeTo txn]"

section \<open>Merkle roots of unlock conditions and blocks\<close>

definition unlockConditionsRoot :: "crypto \<Rightarrow> UnlockConditions \<Rightarrow> Address" where
  "unlockConditionsRoot c uc =
     (let acc = AddLeaf c empty_Accumulator (hashAll c [WriteUint8 0, WriteUint64 (uc_Timelock uc)]);
          acc = fold (\<lambda>key acc. AddLeaf c acc (hashAll c [WriteUint8 0, UnlockKey_EncodeTo key]))
                  (uc_PublicKeys uc) acc;
          acc = AddLeaf c acc (hashAll c [WriteUint8 0, WriteUint64 (uc_SignaturesRequired uc)])
      in Root c acc)"

definition timelockHash :: hash256 where
  "timelockHash = 0x5187b7a8021bf4f2c004ea3a54cfece1754f11c7624d2363c7f4cf4fddd1441e"

definition sigsrequiredHash :: hash256 where
  "sigsrequiredHash = 0xb36010eb285c154a8cd63084acbe7eac0c4d625ab4e1a76e624a8798cb63497b"

definition StandardUnlockHash :: "crypto \<Rightarrow> PublicKey \<Rightarrow> Address" where
  "StandardUnlockHash c pk =
     (let buf = [0] @ bytes_of16 SpecifierEd25519 @ le64 32 @ hash_bytes pk;
          pubkeyHash = blake2b_Sum256 c buf
      in SumPair c (SumPair c timelockHash pubkeyHash) sigsrequiredHash)"

definition UnlockHash :: "crypto \<Rightarrow> UnlockConditions \<Rightarrow> Address" where
  "UnlockHash c uc =
     (if uc_Timelock uc = 0 \<and> length (uc_PublicKeys uc) = 1 \<and>
         uk_Algorithm (hd (uc_PublicKeys uc)) = SpecifierEd25519 \<and>
         length (uk_Key (hd (uc_PublicKeys uc))) = 32 \<and> uc_SignaturesRequired uc = 1
      then StandardUnlockHash c (hash_of_bytes (uk_Key (hd (uc_PublicKeys uc))))
      else unlockConditionsRoot c uc)"

definition StandardAddress :: "crypto \<Rightarrow> PublicKey \<Rightarrow> Address" where
  "StandardAddress c pk = blake2b_Sum256 c (ascii ''sia/address|'' @ [1, 3] @ hash_bytes pk)"

definition blockMerkleRoot :: "crypto \<Rightarrow> SiacoinOutput list \<Rightarrow> Transaction list \<Rightarrow> hash256" where
  "blockMerkleRoot c minerPayouts txns =
     (let acc = fold (\<lambda>mp acc. AddLeaf c acc (hashAll c [WriteUint8 0, V1SiacoinOutput_EncodeTo mp]))
                  minerPayouts empty_Accumulator;
          acc = fold (\<lambda>txn acc. AddLeaf c acc (hashAll c [WriteUint8 0, Transaction_EncodeTo txn]))
                  txns acc
      in Root c acc)"

definition BlockHeader_ID :: "crypto \<Rightarrow> BlockHeader \<Rightarrow> BlockID" where
  "BlockHeader_ID c bh = HashBytes c
     (hash_bytes (bh_ParentID bh) @ le64 (bh_Nonce bh) @ le64 (uint64 (Time_Unix (bh_Timestamp bh))) @
      hash_bytes (bh_Commitment bh))"

definition Block_Header :: "crypto \<Rightarrow> Block \<Rightarrow> BlockHeader" where
  "Block_Header c b =
     \<lparr>bh_ParentID = blk_ParentID b, bh_Nonce = blk_Nonce b, bh_Timestamp = blk_Timestamp b,
      bh_Commitment = (case blk_V2 b of
          None \<Rightarrow> blockMerkleRoot c (blk_MinerPayouts b) (blk_Transactions b)
        | Some v2 \<Rightarrow> bd_Commitment v2)\<rparr>"

definition Block_ID :: "crypto \<Rightarrow> Block \<Rightarrow> BlockID" where
  "Block_ID c b = BlockHeader_ID c (Block_Header c b)"

end
