(* ===== verification/MerkleTree.thy ===== *)
theory MerkleTree
  imports Hashing
begin

text \<open>
  What the Merkle accumulators compute. The reference is the tree hash of RFC 6962, section 2.1, on
  a list of leaf hashes. An accumulator represents a list of leaves when its trees are the perfect
  trees of the binary representation of the number of leaves; adding a leaf keeps that, and the root
  of such an accumulator is the tree hash of the whole list.
\<close>

section \<open>The reference tree hash\<close>

text \<open>The largest power of two smaller than \<open>n\<close>, for \<open>n > 1\<close>.\<close>

definition split_point :: "nat \<Rightarrow> nat" where
  "split_point n = 2 ^ (bit_len (n - 1) - 1)"

lemma bit_len_unique: "2 ^ k \<le> n \<Longrightarrow> n < 2 ^ Suc k \<Longrightarrow> bit_len n = Suc k"
proof -
  assume n: "2 ^ k \<le> n" "n < 2 ^ Suc k"
  then have "0 < n" using less_le_trans [of 0 "2 ^ k" n] by simp
  note b = bit_len_bounds [OF this]
  have "bit_len n \<le> Suc k" by (rule bit_len_le [OF n(2)])
  moreover have "(2 :: nat) ^ k < 2 ^ bit_len n" using n(1) b by linarith
  then have "k < bit_len n" by (rule power_less_imp_less_exp [rotated]) simp
  ultimately show ?thesis by simp
qed

lemma split_point_less: "1 < n \<Longrightarrow> 0 < split_point n \<and> split_point n < n"
  using bit_len_bounds [of "n - 1"] by (auto simp: split_point_def)

lemma split_point_eq: "0 < m \<Longrightarrow> m \<le> 2 ^ k \<Longrightarrow> split_point (2 ^ k + m) = 2 ^ k"
  unfolding split_point_def by (subst bit_len_unique [of k]) auto

function tree_hash :: "crypto \<Rightarrow> hash256 list \<Rightarrow> hash256" where
  "tree_hash c xs =
     (case xs of
        [] \<Rightarrow> 0
      | [x] \<Rightarrow> x
      | _ \<Rightarrow> let k = split_point (length xs) in SumPair c (tree_hash c (take k xs)) (tree_hash c (drop k xs)))"
  by pat_completeness auto

termination
proof (relation "measure (\<lambda>(c, xs). length xs)", goal_cases)
  case (2 c xs a ys b zs k)
  then show ?case using split_point_less [of "length xs"] by auto
next
  case (3 c xs a ys b zs k)
  then show ?case using split_point_less [of "length xs"] by auto
qed simp

declare tree_hash.simps [simp del]

lemma tree_hash_simps [simp]: "tree_hash c [] = 0" "tree_hash c [x] = x"
  by (simp_all add: tree_hash.simps)

lemma tree_hash_split:
  assumes "length xs = 2 ^ k" and "ys \<noteq> []" and "length ys \<le> 2 ^ k"
  shows "tree_hash c (xs @ ys) = SumPair c (tree_hash c xs) (tree_hash c ys)"
proof -
  have len: "split_point (length (xs @ ys)) = length xs"
    using assms split_point_eq [of "length ys" k] by simp
  have "0 < length xs" using assms(1) by simp
  then obtain a as where xs: "xs = a # as" by (cases xs) auto
  obtain b bs where ys: "ys = b # bs" using assms(2) by (cases ys) auto
  obtain d ds where "as @ ys = d # ds" by (cases "as @ ys") (auto simp: ys)
  then have "xs @ ys = a # d # ds" by (simp add: xs)
  then have "tree_hash c (xs @ ys) = (let k = split_point (length (xs @ ys))
      in SumPair c (tree_hash c (take k (xs @ ys))) (tree_hash c (drop k (xs @ ys))))"
    by (subst tree_hash.simps) simp
  then show ?thesis unfolding len by simp
qed

section \<open>Perfect trees\<close>

fun perfect_root :: "crypto \<Rightarrow> nat \<Rightarrow> hash256 list \<Rightarrow> hash256" where
  "perfect_root c 0 xs = hd xs"
| "perfect_root c (Suc k) xs =
     SumPair c (perfect_root c k (take (2 ^ k) xs)) (perfect_root c k (drop (2 ^ k) xs))"

lemma tree_hash_perfect: "length xs = 2 ^ k \<Longrightarrow> tree_hash c xs = perfect_root c k xs"
proof (induction k arbitrary: xs)
  case 0
  then show ?case by (cases xs) auto
next
  case (Suc k)
  have "tree_hash c (take (2 ^ k) xs @ drop (2 ^ k) xs) =
      SumPair c (tree_hash c (take (2 ^ k) xs)) (tree_hash c (drop (2 ^ k) xs))"
    using Suc.prems by (intro tree_hash_split) auto
  with Suc show ?case by simp
qed

section \<open>Binary arithmetic\<close>

definition tree_start :: "nat \<Rightarrow> nat \<Rightarrow> nat" where
  "tree_start n i = n - n mod 2 ^ Suc i"

lemma mod_Suc_power: "n mod 2 ^ Suc i = (if bit n i then 2 ^ i else 0) + n mod 2 ^ i" for n :: nat
proof -
  have "n mod 2 ^ Suc i = 2 ^ i * (n div 2 ^ i mod 2) + n mod 2 ^ i"
    by (metis mod_mult2_eq mult.commute power_Suc)
  then show ?thesis by (auto simp: bit_iff_odd odd_iff_mod_2_eq_one even_iff_mod_2_eq_zero)
qed

lemma bit_less_length: "bit (n :: nat) i \<Longrightarrow> n < 2 ^ k \<Longrightarrow> i < k"
proof (rule ccontr)
  assume "bit n i" "n < 2 ^ k" "\<not> i < k"
  then have "n < 2 ^ i" by (meson le_less_trans less_le_trans linorder_not_less one_le_numeral power_increasing)
  with \<open>bit n i\<close> show False by (simp add: bit_iff_odd)
qed

lemma bit_of_nat_u64: "n < 2 ^ 64 \<Longrightarrow> bit (word_of_nat n :: u64) i \<longleftrightarrow> bit n i"
  using bit_less_length [of n i 64] by (auto simp: bit_simps)

lemma div_mod_block:
  fixes q r :: nat
  assumes "r < 2 ^ k"
  shows "(q * 2 ^ k + r) div 2 ^ (k + d) = q div 2 ^ d"
    and "(q * 2 ^ k + r) mod 2 ^ (k + d) = q mod 2 ^ d * 2 ^ k + r"
proof -
  have q: "(q * 2 ^ k + r) div 2 ^ k = q" using assms by simp
  show div: "(q * 2 ^ k + r) div 2 ^ (k + d) = q div 2 ^ d"
    unfolding power_add div_mult2_eq q ..
  have "(q * 2 ^ k + r) mod (2 ^ k * 2 ^ d) = 2 ^ k * (q mod 2 ^ d) + r"
    unfolding mod_mult2_eq q using assms by simp
  then show "(q * 2 ^ k + r) mod 2 ^ (k + d) = q mod 2 ^ d * 2 ^ k + r"
    by (simp add: power_add mult.commute)
qed

text \<open>Adding one to a number whose \<open>j\<close> lowest bits are set and whose bit \<open>j\<close> is clear.\<close>

lemma bits_increment:
  assumes low: "n mod 2 ^ j = 2 ^ j - (1 :: nat)" and j: "\<not> bit n j"
  shows "Suc n mod 2 ^ Suc j = 2 ^ j"
    and "i < j \<Longrightarrow> \<not> bit (Suc n) i" and "bit (Suc n) j"
    and "j < i \<Longrightarrow> bit (Suc n) i = bit n i"
    and "j < i \<Longrightarrow> Suc n mod 2 ^ Suc i = Suc (n mod 2 ^ Suc i)"
proof -
  have n: "n mod 2 ^ Suc j = 2 ^ j - 1" unfolding mod_Suc_power using low j by simp
  define q where "q = n div 2 ^ Suc j"
  have eq: "n = q * 2 ^ Suc j + (2 ^ j - 1)"
    using div_mult_mod_eq [of n "2 ^ Suc j"] n by (simp only: q_def)
  have pos: "(0 :: nat) < 2 ^ j" by simp
  have S: "Suc n = q * 2 ^ Suc j + 2 ^ j" using eq pos by linarith
  show "Suc n mod 2 ^ Suc j = 2 ^ j" unfolding S by simp
  show "bit (Suc n) j" unfolding S by (simp add: bit_iff_odd)
  show "\<not> bit (Suc n) i" if i: "i < j"
  proof -
    obtain d where d: "j = Suc (i + d)" using less_imp_Suc_add [OF i] by auto
    have "Suc n = 2 ^ i * (2 * (q * 2 ^ Suc d + 2 ^ d))"
      unfolding S d by (simp add: power_add algebra_simps)
    then show ?thesis by (simp add: bit_iff_odd)
  qed
  have r: "2 ^ j - (1 :: nat) < 2 ^ Suc j" "(2 :: nat) ^ j < 2 ^ Suc j" by (simp_all add: less_imp_diff_less)
  show "bit (Suc n) i = bit n i" if i: "j < i"
  proof -
    obtain d where d: "i = Suc j + d" using i less_iff_Suc_add by auto
    have "Suc n div 2 ^ i = q div 2 ^ d"
      unfolding d S by (rule div_mod_block(1) [OF r(2)])
    moreover have "n div 2 ^ i = q div 2 ^ d"
      unfolding d by (subst eq) (rule div_mod_block(1) [OF r(1)])
    ultimately show ?thesis by (simp add: bit_iff_odd)
  qed
  show "Suc n mod 2 ^ Suc i = Suc (n mod 2 ^ Suc i)" if i: "j < i"
  proof -
    obtain d where d: "Suc i = Suc j + Suc d" using i less_iff_Suc_add by auto
    have "Suc n mod 2 ^ Suc i = q mod 2 ^ Suc d * 2 ^ Suc j + 2 ^ j"
      unfolding d S by (rule div_mod_block(2) [OF r(2)])
    moreover have "n mod 2 ^ Suc i = q mod 2 ^ Suc d * 2 ^ Suc j + (2 ^ j - 1)"
      unfolding d by (subst eq) (rule div_mod_block(2) [OF r(1)])
    ultimately show ?thesis using pos by linarith
  qed
qed

section \<open>What an accumulator represents\<close>

definition represents :: "crypto \<Rightarrow> Accumulator \<Rightarrow> hash256 list \<Rightarrow> bool" where
  "represents c acc xs \<longleftrightarrow> length xs < 2 ^ 64 \<and> acc_NumLeaves acc = word_of_nat (length xs) \<and>
     (\<forall>i. bit (length xs) i \<longrightarrow>
        acc_Trees acc i = perfect_root c i (take (2 ^ i) (drop (tree_start (length xs) i) xs)))"

lemma represents_empty: "represents c empty_Accumulator []"
  by (simp add: represents_def empty_Accumulator_def)

lemma represents_bit: "represents c acc xs \<Longrightarrow> hasTreeAtHeight acc i \<longleftrightarrow> bit (length xs) i"
  by (simp add: represents_def hasTreeAtHeight_bit bit_of_nat_u64)

lemma add_leaf_loop_correct:
  assumes rep: "represents c acc xs"
    and low: "length xs mod 2 ^ i = 2 ^ i - 1"
    and h: "h = perfect_root c i (drop (Suc (length xs) - 2 ^ i) (xs @ [x]))"
  shows "\<exists>j h'. add_leaf_loop c acc i h = (j, h') \<and> length xs mod 2 ^ j = 2 ^ j - 1 \<and>
    \<not> bit (length xs) j \<and> h' = perfect_root c j (drop (Suc (length xs) - 2 ^ j) (xs @ [x]))"
  using assms
proof (induction c acc i h rule: add_leaf_loop.induct)
  case (1 c acc i h)
  note rep = "1.prems"(1) and low = "1.prems"(2) and h = "1.prems"(3)
  show ?case
  proof (cases "hasTreeAtHeight acc i")
    case False
    then show ?thesis using low h represents_bit [OF rep] by (subst add_leaf_loop.simps) auto
  next
    case True
    then have bit: "bit (length xs) i" using represents_bit [OF rep] by simp
    have low': "length xs mod 2 ^ Suc i = 2 ^ Suc i - 1"
      unfolding mod_Suc_power using low bit by simp
    define s where "s = Suc (length xs) - 2 ^ Suc i"
    have le: "2 ^ Suc i \<le> Suc (length xs)"
      using mod_less_eq_dividend [of "length xs" "2 ^ Suc i"] unfolding low' by linarith
    then have start: "tree_start (length xs) i = s"
      unfolding tree_start_def low' s_def by simp
    have s2: "2 ^ i + s = Suc (length xs) - 2 ^ i" using le by (simp add: s_def)
    have left: "take (2 ^ i) (drop s (xs @ [x])) = take (2 ^ i) (drop s xs)"
      using le by (simp add: s_def)
    have "SumPair c (acc_Trees acc i) h = perfect_root c (Suc i) (drop s (xs @ [x]))"
      using rep bit unfolding h represents_def
      by (simp add: start left s2 del: drop_append take_append)
    then show ?thesis
      using "1.IH" [OF True rep low'] True by (simp add: add_leaf_loop.simps [of c acc i h] s_def)
  qed
qed

lemma represents_AddLeaf:
  assumes rep: "represents c acc xs" and len: "Suc (length xs) < 2 ^ 64"
  shows "represents c (AddLeaf c acc x) (xs @ [x])"
proof -
  let ?n = "length xs"
  obtain j h where run: "add_leaf_loop c acc 0 x = (j, h)"
    and low: "?n mod 2 ^ j = 2 ^ j - 1" and clear: "\<not> bit ?n j"
    and h: "h = perfect_root c j (drop (Suc ?n - 2 ^ j) (xs @ [x]))"
    using add_leaf_loop_correct [OF rep, of 0 x x] by auto
  note inc = bits_increment [OF low clear]
  have le: "2 ^ j \<le> Suc ?n"
    using mod_less_eq_dividend [of ?n "2 ^ j"] unfolding low by linarith
  have trees: "acc_Trees (AddLeaf c acc x) i =
      perfect_root c i (take (2 ^ i) (drop (tree_start (Suc ?n) i) (xs @ [x])))" if bit: "bit (Suc ?n) i" for i
  proof (cases i j rule: linorder_cases)
    case less
    with inc(2) bit show ?thesis by blast
  next
    case equal
    have "tree_start (Suc ?n) j = Suc ?n - 2 ^ j" unfolding tree_start_def inc(1) ..
    moreover have "take (2 ^ j) (drop (Suc ?n - 2 ^ j) (xs @ [x])) = drop (Suc ?n - 2 ^ j) (xs @ [x])"
      using le by (intro take_all) simp
    ultimately show ?thesis using equal by (simp add: AddLeaf_def run h del: take_append drop_append)
  next
    case greater
    have start: "tree_start (Suc ?n) i = tree_start ?n i"
      unfolding tree_start_def inc(5) [OF greater] by simp
    have "bit ?n i" using bit inc(4) [OF greater] by simp
    have "?n mod 2 ^ Suc i = 2 ^ i + ?n mod 2 ^ i"
      using \<open>bit ?n i\<close> by (simp only: mod_Suc_power if_True)
    then have "tree_start ?n i + 2 ^ i \<le> ?n"
      using mod_less_eq_dividend [of ?n "2 ^ Suc i"] unfolding tree_start_def by linarith
    then have "take (2 ^ i) (drop (tree_start ?n i) (xs @ [x])) = take (2 ^ i) (drop (tree_start ?n i) xs)"
      by simp
    then show ?thesis using rep \<open>bit ?n i\<close> greater
      by (simp add: AddLeaf_def run represents_def start del: take_append drop_append)
  qed
  have "acc_NumLeaves (AddLeaf c acc x) = word_of_nat (Suc ?n)"
    using rep by (simp add: AddLeaf_def run represents_def)
  with trees len show ?thesis by (simp add: represents_def)
qed

lemma represents_fold:
  assumes "represents c acc xs" and "length xs + length ys < 2 ^ 64"
  shows "represents c (fold (\<lambda>y acc. AddLeaf c acc (f y)) ys acc) (xs @ map f ys)"
  using assms
proof (induction ys arbitrary: acc xs)
  case (Cons y ys)
  have "represents c (AddLeaf c acc (f y)) (xs @ [f y])"
    using Cons.prems by (intro represents_AddLeaf) auto
  from Cons.IH [OF this] Cons.prems(2) show ?case by simp
qed simp

section \<open>The root\<close>

lemma trailing_zeros_from_spec:
  "i + k = 64 \<Longrightarrow> (\<forall>m < i. \<not> bit x m) \<Longrightarrow>
    (let t = trailing_zeros_from k i x in (\<forall>m < t. \<not> bit x m) \<and> (t = 64 \<or> t < 64 \<and> bit x t))"
proof (induction k arbitrary: i)
  case (Suc k)
  then show ?case using Suc.IH [of "Suc i"] by (cases "bit x i") (auto simp: less_Suc_eq)
qed simp

lemma trailing_zeros64_spec:
  assumes "x \<noteq> 0"
  shows "trailing_zeros64 x < 64" "bit x (trailing_zeros64 x)" "m < trailing_zeros64 x \<Longrightarrow> \<not> bit x m"
proof -
  let ?t = "trailing_zeros64 x"
  have spec: "(\<forall>m < ?t. \<not> bit x m) \<and> (?t = 64 \<or> ?t < 64 \<and> bit x ?t)"
    using trailing_zeros_from_spec [of 0 64 x] by (simp add: trailing_zeros64_def Let_def)
  have "?t \<noteq> 64"
  proof
    assume "?t = 64"
    with spec have "\<not> bit x m" for m using bit_imp_le_length [of x m] by auto
    then show False using assms by (metis bit_eqI bit_0_eq bot_apply bot_bool_def)
  qed
  with spec show "?t < 64" "bit x ?t" "m < ?t \<Longrightarrow> \<not> bit x m" by auto
qed

lemma trailing_zeros64_zero: "trailing_zeros64 0 = 64"
proof -
  have "trailing_zeros_from k i (0 :: u64) = i + k" for k i
    by (induction k arbitrary: i) auto
  then show ?thesis by (simp add: trailing_zeros64_def)
qed

lemma mod_zero_of_bits: "(\<And>m. m < t \<Longrightarrow> \<not> bit n m) \<Longrightarrow> n mod 2 ^ t = 0" for n :: nat
proof (induction t)
  case (Suc t)
  then show ?case unfolding mod_Suc_power by simp
qed simp

text \<open>The suffix of the leaves that the trees below height \<open>i\<close> hold.\<close>

definition suffix_at :: "hash256 list \<Rightarrow> nat \<Rightarrow> hash256 list" where
  "suffix_at xs i = drop (length xs - length xs mod 2 ^ i) xs"

lemma length_suffix_at: "length (suffix_at xs i) = length xs mod 2 ^ i"
  by (simp add: suffix_at_def)

lemma suffix_at_Suc:
  "bit (length xs) i \<Longrightarrow>
    suffix_at xs (Suc i) = take (2 ^ i) (drop (tree_start (length xs) i) xs) @ suffix_at xs i"
proof -
  let ?n = "length xs"
  assume "bit ?n i"
  then have m: "?n mod 2 ^ Suc i = 2 ^ i + ?n mod 2 ^ i" by (simp only: mod_Suc_power if_True)
  then have "2 ^ i + ?n mod 2 ^ i \<le> ?n" by (metis mod_less_eq_dividend)
  then have "drop (2 ^ i) (drop (tree_start ?n i) xs) = suffix_at xs i"
    unfolding tree_start_def suffix_at_def m by simp
  then show ?thesis
    by (metis append_take_drop_id suffix_at_def tree_start_def)
qed

lemma suffix_at_Suc_clear: "\<not> bit (length xs) i \<Longrightarrow> suffix_at xs (Suc i) = suffix_at xs i"
  by (simp add: suffix_at_def mod_Suc_power del: power_Suc)

lemma root_loop_correct:
  assumes "represents c acc xs" and "length xs mod 2 ^ i \<noteq> 0" and "root = tree_hash c (suffix_at xs i)"
  shows "root_loop c acc i k root = tree_hash c (suffix_at xs (i + k))"
  using assms(2,3)
proof (induction k arbitrary: i root)
  case (Suc k)
  let ?n = "length xs"
  have mod: "?n mod 2 ^ Suc i \<noteq> 0" using Suc.prems(1) by (simp add: mod_Suc_power del: power_Suc)
  have "(if hasTreeAtHeight acc i then SumPair c (acc_Trees acc i) root else root) =
      tree_hash c (suffix_at xs (Suc i))"
  proof (cases "bit ?n i")
    case True
    define l where "l = take (2 ^ i) (drop (tree_start ?n i) xs)"
    have "?n mod 2 ^ Suc i \<le> ?n" by simp
    then have len: "length l = 2 ^ i"
      using True by (simp add: l_def tree_start_def mod_Suc_power del: power_Suc)
    have "suffix_at xs i \<noteq> []" using Suc.prems(1) length_suffix_at [of xs i] by auto
    then have "tree_hash c (suffix_at xs (Suc i)) = SumPair c (tree_hash c l) root"
      unfolding suffix_at_Suc [OF True] Suc.prems(2) l_def [symmetric] using len
      by (intro tree_hash_split [where k = i]) (auto simp: length_suffix_at less_imp_le)
    also have "tree_hash c l = acc_Trees acc i"
      using assms(1) True tree_hash_perfect [OF len] by (simp add: represents_def l_def)
    finally show ?thesis using True represents_bit [OF assms(1)] by simp
  qed (use represents_bit [OF assms(1)] suffix_at_Suc_clear Suc.prems in simp)
  with Suc.IH [OF mod refl] show ?case by simp
qed simp

lemma Root_represents:
  assumes rep: "represents c acc xs"
  shows "Root c acc = tree_hash c xs"
proof (cases "xs = []")
  case True
  then show ?thesis using rep by (simp add: Root_def represents_def trailing_zeros64_zero)
next
  case False
  let ?n = "length xs" and ?w = "acc_NumLeaves acc"
  have w: "?w = word_of_nat ?n" and n: "?n < 2 ^ 64" using rep by (auto simp: represents_def)
  have "?w \<noteq> 0" using False n w by (metis length_0_conv unat_0 unat_of_nat_u64_less)
  define t where "t = trailing_zeros64 ?w"
  note tz = trailing_zeros64_spec [OF \<open>?w \<noteq> 0\<close>, folded t_def]
  have bit: "bit ?n t" using tz(2) n by (simp add: w bit_of_nat_u64)
  have zero: "?n mod 2 ^ t = 0"
    by (rule mod_zero_of_bits) (use tz(3) bit_of_nat_u64 [OF n] in \<open>simp add: w\<close>)
  have m: "?n mod 2 ^ Suc t = 2 ^ t" using bit zero by (simp add: mod_Suc_power del: power_Suc)
  define l where "l = take (2 ^ t) (drop (tree_start ?n t) xs)"
  have "?n mod 2 ^ Suc t \<le> ?n" by simp
  then have len: "length l = 2 ^ t" by (simp add: l_def tree_start_def m del: power_Suc)
  have suffix: "suffix_at xs (Suc t) = l"
    using suffix_at_Suc [OF bit] zero by (simp add: l_def suffix_at_def)
  have "acc_Trees acc t = tree_hash c (suffix_at xs (Suc t))"
    unfolding suffix tree_hash_perfect [OF len] using rep bit by (simp add: represents_def l_def)
  from root_loop_correct [OF rep _ this, of "64 - Suc t"] m tz(1)
  have "root_loop c acc (Suc t) (64 - Suc t) (acc_Trees acc t) = tree_hash c (suffix_at xs 64)"
    by simp
  also have "suffix_at xs 64 = xs" using n by (simp add: suffix_at_def)
  finally show ?thesis using tz(1) by (simp add: Root_def flip: t_def)
qed

section \<open>Roots of the program\<close>

lemma fold_tree_hash:
  assumes "represents c acc xs" "length xs + length ys < 2 ^ 64"
  shows "Root c (fold (\<lambda>y acc. AddLeaf c acc (f y)) ys acc) = tree_hash c (xs @ map f ys)"
  using represents_fold [OF assms] by (rule Root_represents)

lemma unlockConditionsRoot_tree_hash:
  assumes "length (uc_PublicKeys uc) + 2 < 2 ^ 64"
  shows "unlockConditionsRoot c uc = tree_hash c
    (map (hashAll c) ([WriteUint8 0, WriteUint64 (uc_Timelock uc)] #
       map (\<lambda>key. [WriteUint8 0, UnlockKey_EncodeTo key]) (uc_PublicKeys uc) @
       [[WriteUint8 0, WriteUint64 (uc_SignaturesRequired uc)]]))"
proof -
  let ?l = "hashAll c [WriteUint8 0, WriteUint64 (uc_Timelock uc)]"
  let ?f = "\<lambda>key. hashAll c [WriteUint8 0, UnlockKey_EncodeTo key]"
  have "represents c (AddLeaf c empty_Accumulator ?l) [?l]"
    using represents_AddLeaf [OF represents_empty] by simp
  then have "represents c (fold (\<lambda>key acc. AddLeaf c acc (?f key)) (uc_PublicKeys uc)
      (AddLeaf c empty_Accumulator ?l)) ([?l] @ map ?f (uc_PublicKeys uc))"
    using assms by (intro represents_fold) auto
  then show ?thesis
    using assms Root_represents [OF represents_AddLeaf]
    by (simp add: unlockConditionsRoot_def comp_def)
qed

section \<open>Properties\<close>

text \<open>The fast path of \<^verbatim>\<open>UnlockHash\<close>. When the two precomputed constants are the hashes of a zero
  timelock leaf and a one-signature leaf, as their comment says, the address computed with them for
  standard unlock conditions is the one the general Merkle construction gives; so \<^verbatim>\<open>UnlockHash\<close> is the
  RFC 6962 tree hash of the timelock, the keys and the signature count for all unlock conditions.\<close>

theorem UnlockHash_fast_path:
  assumes "blake2b_Sum256 c (0 # le64 0) = timelockHash"
    and "blake2b_Sum256 c (0 # le64 1) = sigsrequiredHash"
    and "length (uc_PublicKeys uc) + 2 < 2 ^ 64"
  shows "UnlockHash c uc = unlockConditionsRoot c uc \<and>
    UnlockHash c uc = tree_hash c
      (map (hashAll c) ([WriteUint8 0, WriteUint64 (uc_Timelock uc)] #
         map (\<lambda>key. [WriteUint8 0, UnlockKey_EncodeTo key]) (uc_PublicKeys uc) @
         [[WriteUint8 0, WriteUint64 (uc_SignaturesRequired uc)]]))"
proof -
  have three: "tree_hash c [x, y, z] = SumPair c (SumPair c x y) z" for x y z
    using tree_hash_split [of "[x, y]" 1 "[z]"] tree_hash_split [of "[x]" 0 "[y]"] by simp
  have "UnlockHash c uc = unlockConditionsRoot c uc"
  proof (cases "uc_PublicKeys uc")
    case (Cons k ks)
    show ?thesis
      unfolding unlockConditionsRoot_tree_hash [OF assms(3)]
      by (auto simp: UnlockHash_def Cons StandardUnlockHash_def hashAll_def WriteUint8_def WriteUint64_def assms(1,2)
          three UnlockKey_EncodeTo_def WriteBytes_def Specifier_EncodeTo_def hash_bytes_of_bytes
          unlockConditionsRoot_tree_hash [OF assms(3)])
  qed (simp add: UnlockHash_def)
  then show ?thesis using unlockConditionsRoot_tree_hash [OF assms(3)] by simp
qed

definition leaf_crypto :: crypto where
  "leaf_crypto =
     \<lparr>blake2b_Sum256 = (\<lambda>bs. if bs = 0 # le64 0 then timelockHash else if bs = 0 # le64 1 then sigsrequiredHash
        else word_of_nat (length bs)),
      sha256_Sum256 = (\<lambda>_. 0), sha512_Sum512 = (\<lambda>_. 0), ed25519_NewKeyFromSeed = (\<lambda>s. s),
      ed25519_Sign = (\<lambda>_ _. 0), ed25519_Verify = (\<lambda>_ _ _. False), slhdsa_GenerateKey = (\<lambda>_. None),
      slhdsa_SignDeterministic = (\<lambda>_ _ _. None), slhdsa_Verify = (\<lambda>_ _ _ _. False),
      point_SetBytes = (\<lambda>_. None), point_MultByCofactor = (\<lambda>p. p), identity_Point = 0,
      scalar_SetCanonicalBytes = (\<lambda>_. False), scalar_IsZero = (\<lambda>_. True), scalar_BaseMult = (\<lambda>s. s)\<rparr>"

theorem UnlockHash_fast_path_witness:
  "UnlockHash leaf_crypto \<lparr>uc_Timelock = 0, uc_PublicKeys = [\<lparr>uk_Algorithm = SpecifierEd25519,
       uk_Key = replicate 32 7\<rparr>], uc_SignaturesRequired = 1\<rparr>
   = unlockConditionsRoot leaf_crypto \<lparr>uc_Timelock = 0, uc_PublicKeys = [\<lparr>uk_Algorithm = SpecifierEd25519,
       uk_Key = replicate 32 7\<rparr>], uc_SignaturesRequired = 1\<rparr>"
proof -
  have "le64 1 \<noteq> le64 0" using of_le64_le64 [of 0] of_le64_le64 [of 1] by force
  then show ?thesis by (intro UnlockHash_fast_path [THEN conjunct1]) (simp_all add: leaf_crypto_def)
qed

end
