(* ===== verification/Policy.thy ===== *)
theory Policy
  imports MerkleTree
begin

text \<open>
  Spend policies (\<^verbatim>\<open>core/types/policy.go\<close>), the hybrid keys that every native address commits to
  (\<^verbatim>\<open>core/types/qday.go\<close>) and atomic swaps (\<^verbatim>\<open>core/types/qday_swap.go\<close>): addresses, verification,
  signing, and the two shapes of policy that may spend native coins. The lemmas characterise which
  witnesses satisfy those shapes, and that hiding sub-policies keeps the address.
\<close>

section \<open>Addresses\<close>

fun Policy_Address :: "crypto \<Rightarrow> SpendPolicy \<Rightarrow> Address" where
  "Policy_Address c (PolicyTypeUnlockConditions uc) = unlockConditionsRoot c uc"
| "Policy_Address c (PolicyThreshold n sub) =
     hashAll c [distinguisher ''address'', SpendPolicy_EncodeTo (PolicyThreshold n
       (map (\<lambda>p. if is_PolicyTypeOpaque p then p else PolicyTypeOpaque (Policy_Address c p)) sub))]"
| "Policy_Address c p = hashAll c [distinguisher ''address'', SpendPolicy_EncodeTo p]"

definition PolicyOpaque :: "crypto \<Rightarrow> SpendPolicy \<Rightarrow> SpendPolicy" where
  "PolicyOpaque c p = (if is_PolicyTypeOpaque p then p else PolicyTypeOpaque (Policy_Address c p))"

section \<open>Verification\<close>

definition QdaySignatureSize :: nat where
  "QdaySignatureSize = 7856"

definition QdaySignatureChunks :: nat where
  "QdaySignatureChunks = (QdaySignatureSize + 31) div 32"

definition qdaySignatureContext :: "byte list" where
  "qdaySignatureContext = ascii ''QDAY/reserve/v1''"

definition verifyQdayReserve :: "crypto \<Rightarrow> hash256 \<Rightarrow> hash256 \<Rightarrow> hash256 list \<Rightarrow> bool" where
  "verifyQdayReserve c pk h chunks =
     (if length chunks \<noteq> QdaySignatureChunks then False
      else let buf = concat (map hash_bytes chunks) in
        if \<exists>b \<in> set (drop QdaySignatureSize buf). b \<noteq> 0 then False
        else slhdsa_Verify c pk (hash_bytes h) (take QdaySignatureSize buf) qdaySignatureContext)"

text \<open>
  The variables the closures of \<^verbatim>\<open>Verify\<close> share: the signatures and preimages not used yet and the
  number of policies met.
\<close>

record VerifyState =
  vs_sigs :: "Signature list"
  vs_preimages :: "hash256 list"
  vs_total :: nat

text \<open>The loop over the keys of unlock conditions; \<open>keys\<close> is \<^verbatim>\<open>p.PublicKeys[i:]\<close>.\<close>

fun verify_uc :: "crypto \<Rightarrow> hash256 \<Rightarrow> UnlockKey list \<Rightarrow> u64 \<Rightarrow> Signature list \<Rightarrow> (u64 \<times> Signature list) res" where
  "verify_uc c sigHash [] req sigs = Ok (req, sigs)"
| "verify_uc c sigHash (pk # keys) req sigs =
     (if req = 0 \<or> word_of_nat (length (pk # keys)) < req \<or> word_of_nat (length sigs) < req
      then Ok (req, sigs)
      else if uk_Algorithm pk = SpecifierEntropy then Err ''policy uses an entropy public key''
      else if uk_Algorithm pk = SpecifierEd25519 then
        (if PublicKey_VerifyHash c (hash_of_bytes (take 32 (uk_Key pk @ replicate 32 0))) sigHash (hd sigs)
         then verify_uc c sigHash keys (req - 1) (tl sigs)
         else verify_uc c sigHash keys req sigs)
      else verify_uc c sigHash keys (req - 1) (tl sigs))"

fun verify :: "crypto \<Rightarrow> u64 \<Rightarrow> Time \<Rightarrow> hash256 \<Rightarrow> SpendPolicy \<Rightarrow> VerifyState \<Rightarrow> VerifyState res"
  and verify_of :: "crypto \<Rightarrow> u64 \<Rightarrow> Time \<Rightarrow> hash256 \<Rightarrow> u8 \<Rightarrow> SpendPolicy list \<Rightarrow> u8 \<Rightarrow> VerifyState \<Rightarrow>
        (u8 \<times> VerifyState) res" where
  "verify c height mt sigHash (PolicyAbove h) vs =
     (if h \<le> height then Ok vs else Err ''height not above'')"
| "verify c height mt sigHash (PolicyAfter t) vs =
     (if t < mt then Ok vs else Err ''median timestamp not after'')"
| "verify c height mt sigHash (PolicyPublicKey pk) vs =
     (case vs_sigs vs of
        sig # sigs \<Rightarrow> if PublicKey_VerifyHash c pk sigHash sig then Ok (vs\<lparr>vs_sigs := sigs\<rparr>)
                       else Err ''invalid signature''
      | [] \<Rightarrow> Err ''invalid signature'')"
| "verify c height mt sigHash (PolicySLHDSA pk) vs =
     (if length (vs_preimages vs) < QdaySignatureChunks \<or>
         \<not> verifyQdayReserve c pk sigHash (take QdaySignatureChunks (vs_preimages vs))
      then Err ''invalid SLH-DSA reserve signature''
      else Ok (vs\<lparr>vs_preimages := drop QdaySignatureChunks (vs_preimages vs)\<rparr>))"
| "verify c height mt sigHash (PolicyHash h) vs =
     (case vs_preimages vs of
        pre # pres \<Rightarrow> if h = sha256_Sum256 c (hash_bytes pre) then Ok (vs\<lparr>vs_preimages := pres\<rparr>)
                        else Err ''invalid preimage''
      | [] \<Rightarrow> Err ''invalid preimage'')"
| "verify c height mt sigHash (PolicyThreshold n sub) vs =
     (let vs = vs\<lparr>vs_total := vs_total vs + length sub\<rparr> in
      if 1024 < vs_total vs \<or> 255 < length sub then Err ''policy is too complex''
      else rbind (verify_of c height mt sigHash n sub 0 vs) (\<lambda>(satisfied, vs).
        if satisfied = n then Ok vs else Err ''threshold not reached''))"
| "verify c height mt sigHash (PolicyTypeOpaque a) vs = Err ''opaque policy''"
| "verify c height mt sigHash (PolicyTypeUnlockConditions uc) vs =
     (if uc_Timelock uc \<le> height then
        rbind (verify_uc c sigHash (uc_PublicKeys uc) (uc_SignaturesRequired uc) (vs_sigs vs))
          (\<lambda>(req, sigs).
           if req = 0 then Ok (vs\<lparr>vs_sigs := sigs\<rparr>)
           else Err ''threshold not reached'')
      else Err ''height not above'')"
| "verify_of c height mt sigHash n [] satisfied vs = Ok (satisfied, vs)"
| "verify_of c height mt sigHash n (sp # sub) satisfied vs =
     (if is_PolicyTypeUnlockConditions sp then Err ''unlock conditions cannot be sub-policies''
      else if is_PolicyTypeOpaque sp then verify_of c height mt sigHash n sub satisfied vs
      else if satisfied = n then Err ''threshold exceeded''
      else rbind (verify c height mt sigHash sp vs) (\<lambda>vs.
        verify_of c height mt sigHash n sub (satisfied + 1) vs))"

definition Policy_Verify ::
  "crypto \<Rightarrow> SpendPolicy \<Rightarrow> u64 \<Rightarrow> Time \<Rightarrow> hash256 \<Rightarrow> Signature list \<Rightarrow> hash256 list \<Rightarrow> unit res" where
  "Policy_Verify c p height mt sigHash sigs preimages =
     rbind (verify c height mt sigHash p \<lparr>vs_sigs = sigs, vs_preimages = preimages, vs_total = 0\<rparr>)
       (\<lambda>vs.
        if 0 < length (vs_sigs vs) then Err ''superfluous signature(s)''
        else if 0 < length (vs_preimages vs) then Err ''superfluous preimage(s)''
        else Ok ())"

section \<open>Hybrid keys\<close>

record QdayKeys =
  qk_Classical :: PublicKey
  qk_Reserve :: hash256

definition QdayKeys_Policy :: "QdayKeys \<Rightarrow> SpendPolicy" where
  "QdayKeys_Policy k = PolicyThreshold 2 [PolicyPublicKey (qk_Classical k), PolicySLHDSA (qk_Reserve k)]"

definition QdayKeys_Bytes :: "QdayKeys \<Rightarrow> byte list" where
  "QdayKeys_Bytes k = hash_bytes (qk_Classical k) @ hash_bytes (qk_Reserve k)"

definition QdayKeys_Address :: "crypto \<Rightarrow> QdayKeys \<Rightarrow> Address" where
  "QdayKeys_Address c k = Policy_Address c (QdayKeys_Policy k)"

definition QdayKeys_Validate :: "QdayKeys \<Rightarrow> unit res" where
  "QdayKeys_Validate k = fail_if (qk_Classical k = 0 \<or> qk_Reserve k = 0) ''zero QDAY public key''"

record QdayPrivateKeys =
  qp_Classical :: PrivateKey
  qp_Reserve :: "byte list"
  qp_Public :: QdayKeys

definition QdayKeysFromSeed :: "crypto \<Rightarrow> hash256 \<Rightarrow> QdayPrivateKeys res" where
  "QdayKeysFromSeed c seed =
     (let ed = bytes_of64 (sha512_Sum512 c (ascii ''QDAY/ed25519/v1'' @ hash_bytes seed));
          pq = bytes_of64 (sha512_Sum512 c (ascii ''QDAY/slhdsa/v1'' @ hash_bytes seed));
          classical = NewPrivateKeyFromSeed c (take 32 ed)
      in case slhdsa_GenerateKey c pq of
           None \<Rightarrow> Err ''slhdsa key generation''
         | Some (pub, priv) \<Rightarrow>
             Ok \<lparr>qp_Classical = classical, qp_Reserve = priv,
                 qp_Public = \<lparr>qk_Classical = PrivateKey_PublicKey classical,
                   qk_Reserve = hash_of_bytes (take 32 (pub @ replicate 32 0))\<rparr>\<rparr>)"

text \<open>The signature is cut into 32-byte preimages, the last one padded with zeros.\<close>

definition chunk :: "byte list \<Rightarrow> nat \<Rightarrow> hash256" where
  "chunk sig i =
     hash_of_bytes (take 32 (drop (i * 32) sig) @ replicate (32 - length (take 32 (drop (i * 32) sig))) 0)"

definition QdayPrivateKeys_Sign :: "crypto \<Rightarrow> QdayPrivateKeys \<Rightarrow> hash256 \<Rightarrow> SatisfiedPolicy res" where
  "QdayPrivateKeys_Sign c k h =
     (case slhdsa_SignDeterministic c (qp_Reserve k) (hash_bytes h) qdaySignatureContext of
        None \<Rightarrow> Err ''slhdsa sign''
      | Some sig \<Rightarrow>
          if length sig \<noteq> QdaySignatureSize then Err ''unexpected SLH-DSA signature length''
          else Ok \<lparr>sat_Policy = QdayKeys_Policy (qp_Public k),
                   sat_Signatures = [PrivateKey_SignHash c (qp_Classical k) h],
                   sat_Preimages = map (chunk sig) [0..<QdaySignatureChunks]\<rparr>)"

section \<open>Atomic swaps\<close>

record QdayAtomicSwap =
  sw_Recipient :: QdayKeys
  sw_Refund :: QdayKeys
  sw_SecretHash :: hash256
  sw_RefundHeight :: u64

definition swap_validate :: "QdayAtomicSwap \<Rightarrow> unit res" where
  "swap_validate s =
     (if QdayKeys_Validate (sw_Recipient s) \<noteq> Ok () then Err ''invalid atomic-swap recipient keys''
      else if QdayKeys_Validate (sw_Refund s) \<noteq> Ok () then Err ''invalid atomic-swap refund keys''
      else if sw_SecretHash s = 0 then Err ''atomic-swap secret hash is zero''
      else if sw_RefundHeight s = 0 then Err ''atomic-swap refund height is zero''
      else Ok ())"

definition claimBranch :: "QdayAtomicSwap \<Rightarrow> SpendPolicy" where
  "claimBranch s = PolicyThreshold 3
     [PolicyPublicKey (qk_Classical (sw_Recipient s)), PolicySLHDSA (qk_Reserve (sw_Recipient s)),
      PolicyHash (sw_SecretHash s)]"

definition refundBranch :: "QdayAtomicSwap \<Rightarrow> SpendPolicy" where
  "refundBranch s = PolicyThreshold 3
     [PolicyPublicKey (qk_Classical (sw_Refund s)), PolicySLHDSA (qk_Reserve (sw_Refund s)),
      PolicyAbove (sw_RefundHeight s)]"

text \<open>
  \<^verbatim>\<open>Policy\<close> returns a policy and an error. Of an invalid swap the policy is \<^verbatim>\<open>SpendPolicy{}\<close>, whose type is nil
  (\<open>None\<close> here): the type assertions of \<^verbatim>\<open>SpendPolicy.Address\<close> fail on it, and the type switch of \<^verbatim>\<open>encodePolicy\<close>
  takes its default branch, which panics.
\<close>

definition swap_Policy_err :: "QdayAtomicSwap \<Rightarrow> SpendPolicy option \<times> string option" where
  "swap_Policy_err s = (case swap_validate s of
      Ok _ \<Rightarrow> (Some (PolicyThreshold 1 [claimBranch s, refundBranch s]), None)
    | Err e \<Rightarrow> (None, Some e)
    | Panic e \<Rightarrow> (None, Some e))"

definition swap_Policy :: "QdayAtomicSwap \<Rightarrow> SpendPolicy res" where
  "swap_Policy s = (case swap_Policy_err s of
      (Some p, None) \<Rightarrow> Ok p
    | (_, Some e) \<Rightarrow> Err e)"

definition encode_type :: "SpendPolicy option \<Rightarrow> byte list res" where
  "encode_type p = (case p of
      Some p \<Rightarrow> Ok (SpendPolicy_EncodeTo p)
    | None \<Rightarrow> Panic ''unhandled policy type <nil>'')"

definition Address_of_type :: "crypto \<Rightarrow> SpendPolicy option \<Rightarrow> Address res" where
  "Address_of_type c p = (case p of
      Some p \<Rightarrow> Ok (Policy_Address c p)
    | None \<Rightarrow> rbind (encode_type None) (\<lambda>bytes. Ok (hashAll c [distinguisher ''address'', bytes])))"

definition swap_Address :: "crypto \<Rightarrow> QdayAtomicSwap \<Rightarrow> Address res" where
  "swap_Address c s = (case swap_Policy_err s of (p, err) \<Rightarrow>
     rbind (Address_of_type c p) (\<lambda>a. case err of Some e \<Rightarrow> Err e | None \<Rightarrow> Ok a))"

lemma swap_Policy_rbind:
  "swap_Policy s = rbind (swap_validate s) (\<lambda>_. Ok (PolicyThreshold 1 [claimBranch s, refundBranch s]))"
  by (auto simp: swap_Policy_def swap_Policy_err_def swap_validate_def)

definition swap_ClaimPolicy :: "crypto \<Rightarrow> QdayAtomicSwap \<Rightarrow> SpendPolicy res" where
  "swap_ClaimPolicy c s = rbind (swap_validate s) (\<lambda>_.
     Ok (PolicyThreshold 1 [claimBranch s, PolicyOpaque c (refundBranch s)]))"

definition swap_RefundPolicy :: "crypto \<Rightarrow> QdayAtomicSwap \<Rightarrow> SpendPolicy res" where
  "swap_RefundPolicy c s = rbind (swap_validate s) (\<lambda>_.
     Ok (PolicyThreshold 1 [PolicyOpaque c (claimBranch s), refundBranch s]))"

definition swap_Claim ::
  "crypto \<Rightarrow> QdayAtomicSwap \<Rightarrow> hash256 \<Rightarrow> QdayPrivateKeys option \<Rightarrow> hash256 \<Rightarrow> SatisfiedPolicy res" where
  "swap_Claim c s sigHash keys secret =
     (case keys of
        None \<Rightarrow> Err ''atomic-swap claim keys do not match recipient''
      | Some keys \<Rightarrow>
          if qp_Public keys \<noteq> sw_Recipient s then Err ''atomic-swap claim keys do not match recipient''
          else if sha256_Sum256 c (hash_bytes secret) \<noteq> sw_SecretHash s
          then Err ''atomic-swap secret does not match hashlock''
          else rbind (QdayPrivateKeys_Sign c keys sigHash) (\<lambda>witness.
               rbind (swap_ClaimPolicy c s) (\<lambda>p.
               Ok (witness\<lparr>sat_Policy := p, sat_Preimages := sat_Preimages witness @ [secret]\<rparr>))))"

definition swap_RefundSpend ::
  "crypto \<Rightarrow> QdayAtomicSwap \<Rightarrow> hash256 \<Rightarrow> QdayPrivateKeys option \<Rightarrow> SatisfiedPolicy res" where
  "swap_RefundSpend c s sigHash keys =
     (case keys of
        None \<Rightarrow> Err ''atomic-swap refund keys do not match sender''
      | Some keys \<Rightarrow>
          if qp_Public keys \<noteq> sw_Refund s then Err ''atomic-swap refund keys do not match sender''
          else rbind (QdayPrivateKeys_Sign c keys sigHash) (\<lambda>witness.
               rbind (swap_RefundPolicy c s) (\<lambda>p. Ok (witness\<lparr>sat_Policy := p\<rparr>))))"

section \<open>The policies that may spend native coins\<close>

definition IsQdayNativePolicy :: "SpendPolicy \<Rightarrow> bool" where
  "IsQdayNativePolicy p =
     (case p of
        PolicyThreshold n sub \<Rightarrow>
          if n \<noteq> 2 \<or> length sub \<noteq> 2 then False
          else is_PolicyPublicKey (sub ! 0) \<and> is_PolicySLHDSA (sub ! 1)
      | _ \<Rightarrow> False)"

definition IsQdaySwapSpendPolicy :: "SpendPolicy \<Rightarrow> bool" where
  "IsQdaySwapSpendPolicy p =
     (case p of
        PolicyThreshold n sub \<Rightarrow>
          if n \<noteq> 1 \<or> length sub \<noteq> 2 then False
          else
            let opaque = length (filter is_PolicyTypeOpaque sub);
                branches = filter (\<lambda>s. \<not> is_PolicyTypeOpaque s) sub
            in if opaque \<noteq> 1 \<or> branches = [] then False
               else (case last branches of
                 PolicyThreshold m inner \<Rightarrow>
                   if m \<noteq> 3 \<or> length inner \<noteq> 3 then False
                   else if \<not> is_PolicyPublicKey (inner ! 0) then False
                   else if \<not> is_PolicySLHDSA (inner ! 1) then False
                   else (case inner ! 2 of
                     PolicyHash lock \<Rightarrow> lock \<noteq> 0
                   | PolicyAbove lock \<Rightarrow> lock \<noteq> 0
                   | _ \<Rightarrow> False)
               | _ \<Rightarrow> False)
      | _ \<Rightarrow> False)"

section \<open>Hiding sub-policies\<close>

lemma is_opaque_PolicyOpaque [simp]: "is_PolicyTypeOpaque (PolicyOpaque c p)"
  by (simp add: PolicyOpaque_def)

lemma Policy_Address_Threshold:
  "Policy_Address c (PolicyThreshold n sub) =
     hashAll c [distinguisher ''address'', SpendPolicy_EncodeTo (PolicyThreshold n (map (PolicyOpaque c) sub))]"
  by (simp add: PolicyOpaque_def [abs_def])

lemma Policy_Address_hide:
  assumes "list_all2 (\<lambda>p q. q = p \<or> q = PolicyOpaque c p) sub sub'"
  shows "Policy_Address c (PolicyThreshold n sub') = Policy_Address c (PolicyThreshold n sub)"
proof -
  have "map (PolicyOpaque c) sub' = map (PolicyOpaque c) sub"
    using assms by (induction rule: list_all2_induct) (auto simp: PolicyOpaque_def)
  then show ?thesis by (simp only: Policy_Address_Threshold)
qed

section \<open>Which witnesses satisfy the native shapes\<close>

lemma verify_pk_Ok:
  "verify c ht mt h (PolicyPublicKey pk) vs = Ok vs' \<longleftrightarrow>
    (\<exists>sig sigs. vs_sigs vs = sig # sigs \<and> PublicKey_VerifyHash c pk h sig \<and> vs' = vs\<lparr>vs_sigs := sigs\<rparr>)"
  by (cases "vs_sigs vs") auto

lemma verify_slh_Ok:
  "verify c ht mt h (PolicySLHDSA pk) vs = Ok vs' \<longleftrightarrow>
    QdaySignatureChunks \<le> length (vs_preimages vs) \<and>
    verifyQdayReserve c pk h (take QdaySignatureChunks (vs_preimages vs)) \<and>
    vs' = vs\<lparr>vs_preimages := drop QdaySignatureChunks (vs_preimages vs)\<rparr>"
  by (auto simp: not_less)

lemma verify_hash_Ok:
  "verify c ht mt h (PolicyHash lock) vs = Ok vs' \<longleftrightarrow>
    (\<exists>pre pres. vs_preimages vs = pre # pres \<and> lock = sha256_Sum256 c (hash_bytes pre) \<and>
       vs' = vs\<lparr>vs_preimages := pres\<rparr>)"
  by (cases "vs_preimages vs") auto

lemma verify_threshold_Ok:
  "verify c ht mt h (PolicyThreshold n sub) vs = Ok vs' \<longleftrightarrow>
    vs_total vs + length sub \<le> 1024 \<and> length sub \<le> 255 \<and>
    verify_of c ht mt h n sub 0 (vs\<lparr>vs_total := vs_total vs + length sub\<rparr>) = Ok (n, vs')"
  by (auto simp: Let_def not_less res_simps split: if_splits)

lemma verify_of_Ok:
  "verify_of c ht mt h n (sp # sub) k vs = Ok r \<longleftrightarrow> \<not> is_PolicyTypeUnlockConditions sp \<and>
    (if is_PolicyTypeOpaque sp then verify_of c ht mt h n sub k vs = Ok r
     else k \<noteq> n \<and> (\<exists>vs'. verify c ht mt h sp vs = Ok vs' \<and> verify_of c ht mt h n sub (k + 1) vs' = Ok r))"
  by (auto simp: res_simps)

lemma Policy_Verify_Ok:
  "Policy_Verify c p ht mt h sigs pre = Ok () \<longleftrightarrow>
    (\<exists>vs. verify c ht mt h p \<lparr>vs_sigs = sigs, vs_preimages = pre, vs_total = 0\<rparr> = Ok vs \<and>
       vs_sigs vs = [] \<and> vs_preimages vs = [])"
  by (auto simp: Policy_Verify_def res_simps simp del: verify.simps)

lemmas verify_Ok = verify_pk_Ok verify_slh_Ok verify_hash_Ok verify_threshold_Ok verify_of_Ok

definition hybrid_signed :: "crypto \<Rightarrow> hash256 \<Rightarrow> QdayKeys \<Rightarrow> Signature list \<Rightarrow> hash256 list \<Rightarrow> bool" where
  "hybrid_signed c h k sigs pre \<longleftrightarrow>
     (\<exists>sig. sigs = [sig] \<and> PublicKey_VerifyHash c (qk_Classical k) h sig) \<and>
     QdaySignatureChunks \<le> length pre \<and> verifyQdayReserve c (qk_Reserve k) h (take QdaySignatureChunks pre)"

lemma Policy_Verify_native:
  "Policy_Verify c (QdayKeys_Policy k) ht mt h sigs pre = Ok () \<longleftrightarrow>
     hybrid_signed c h k sigs pre \<and> length pre = QdaySignatureChunks"
  unfolding Policy_Verify_Ok QdayKeys_Policy_def
  by (auto simp: hybrid_signed_def verify_Ok simp del: verify.simps verify_of.simps(2))

text \<open>One revealed branch of three conditions beside one opaque branch, in either order.\<close>

definition swap_spend :: "SpendPolicy \<Rightarrow> QdayKeys \<Rightarrow> SpendPolicy \<Rightarrow> bool" where
  "swap_spend p k lock \<longleftrightarrow>
     (let branch = PolicyThreshold 3 [PolicyPublicKey (qk_Classical k), PolicySLHDSA (qk_Reserve k), lock]
      in \<exists>a. p = PolicyThreshold 1 [branch, PolicyTypeOpaque a] \<or>
             p = PolicyThreshold 1 [PolicyTypeOpaque a, branch])"

lemma Policy_Verify_swap_spend:
  assumes "swap_spend p k lock"
  shows "Policy_Verify c p ht mt h sigs pre = Ok () \<longleftrightarrow>
    (\<exists>vs. verify c ht mt h
       (PolicyThreshold 3 [PolicyPublicKey (qk_Classical k), PolicySLHDSA (qk_Reserve k), lock])
       \<lparr>vs_sigs = sigs, vs_preimages = pre, vs_total = 2\<rparr> = Ok vs \<and> vs_sigs vs = [] \<and> vs_preimages vs = [])"
  using assms unfolding swap_spend_def Let_def Policy_Verify_Ok
  by (elim exE disjE) (simp_all add: verify_threshold_Ok [where n = 1] verify_of_Ok [where n = 1]
      numeral_2_eq_2 del: verify.simps verify_of.simps(2))

lemma Policy_Verify_claim:
  "swap_spend p k (PolicyHash lock) \<Longrightarrow> Policy_Verify c p ht mt h sigs pre = Ok () \<longleftrightarrow>
    hybrid_signed c h k sigs pre \<and>
    (\<exists>secret. drop QdaySignatureChunks pre = [secret] \<and> lock = sha256_Sum256 c (hash_bytes secret))"
  by (simp add: Policy_Verify_swap_spend hybrid_signed_def verify_Ok del: verify.simps verify_of.simps(2))
     auto

lemma Policy_Verify_refund:
  "swap_spend p k (PolicyAbove lock) \<Longrightarrow> Policy_Verify c p ht mt h sigs pre = Ok () \<longleftrightarrow>
    hybrid_signed c h k sigs pre \<and> length pre = QdaySignatureChunks \<and> lock \<le> ht"
  by (simp add: Policy_Verify_swap_spend hybrid_signed_def verify_Ok del: verify.simps(2-) verify_of.simps(2))
     auto

lemma length2_cases: "length xs = 2 \<longleftrightarrow> (\<exists>a b. xs = [a, b])"
  by (auto simp: numeral_2_eq_2 length_Suc_conv)

lemma length3_cases: "length xs = 3 \<longleftrightarrow> (\<exists>a b d. xs = [a, b, d])"
  by (auto simp: numeral_3_eq_3 length_Suc_conv)

lemma IsQdayNativePolicy_iff: "IsQdayNativePolicy p \<longleftrightarrow> (\<exists>k. p = QdayKeys_Policy k)"
proof
  assume native: "IsQdayNativePolicy p"
  then obtain n sub where p: "p = PolicyThreshold n sub"
    by (cases p) (simp_all add: IsQdayNativePolicy_def)
  with native obtain a b where sub: "n = 2" "sub = [a, b]" and ab: "is_PolicyPublicKey a" "is_PolicySLHDSA b"
    by (auto simp: IsQdayNativePolicy_def length2_cases split: if_splits)
  then obtain x y where "a = PolicyPublicKey x" "b = PolicySLHDSA y"
    by (auto simp: is_PolicyPublicKey_def is_PolicySLHDSA_def)
  then have "p = QdayKeys_Policy \<lparr>qk_Classical = x, qk_Reserve = y\<rparr>"
    by (simp add: p sub QdayKeys_Policy_def)
  then show "\<exists>k. p = QdayKeys_Policy k" ..
qed (auto simp: IsQdayNativePolicy_def QdayKeys_Policy_def)

lemma swap_spend_IsQdaySwapSpendPolicy:
  "swap_spend p k (PolicyHash h) \<Longrightarrow> h \<noteq> 0 \<Longrightarrow> IsQdaySwapSpendPolicy p"
  "swap_spend p k (PolicyAbove t) \<Longrightarrow> t \<noteq> 0 \<Longrightarrow> IsQdaySwapSpendPolicy p"
  by (auto simp: swap_spend_def IsQdaySwapSpendPolicy_def Let_def)

lemma one_opaque_of_two:
  assumes "length sub = 2" and "length (filter is_PolicyTypeOpaque sub) = 1"
  shows "\<exists>b q. (sub = [b, PolicyTypeOpaque q] \<or> sub = [PolicyTypeOpaque q, b]) \<and>
    filter (\<lambda>s. \<not> is_PolicyTypeOpaque s) sub = [b]"
proof -
  from assms(1) obtain x y where xy: "sub = [x, y]" by (auto simp: length2_cases)
  then have "is_PolicyTypeOpaque x \<noteq> is_PolicyTypeOpaque y" using assms(2) by (auto split: if_splits)
  then show ?thesis using xy by (auto simp: is_PolicyTypeOpaque_def)
qed

lemma IsQdaySwapSpendPolicy_iff:
  "IsQdaySwapSpendPolicy p \<longleftrightarrow>
     (\<exists>k h. h \<noteq> 0 \<and> swap_spend p k (PolicyHash h)) \<or> (\<exists>k t. t \<noteq> 0 \<and> swap_spend p k (PolicyAbove t))"
proof
  assume swap: "IsQdaySwapSpendPolicy p"
  then obtain n sub where p: "p = PolicyThreshold n sub"
    by (cases p) (simp_all add: IsQdaySwapSpendPolicy_def)
  with swap have n: "n = 1" and "length sub = 2" "length (filter is_PolicyTypeOpaque sub) = 1"
    by (auto simp: IsQdaySwapSpendPolicy_def Let_def split: if_splits)
  from one_opaque_of_two [OF this(2,3)] obtain b q
    where sub: "sub = [b, PolicyTypeOpaque q] \<or> sub = [PolicyTypeOpaque q, b]"
      and b: "filter (\<lambda>s. \<not> is_PolicyTypeOpaque s) sub = [b]" by blast
  from swap n b \<open>length sub = 2\<close> \<open>length (filter is_PolicyTypeOpaque sub) = 1\<close>
  obtain m inner where m: "b = PolicyThreshold m inner"
    by (cases b) (simp_all add: IsQdaySwapSpendPolicy_def p Let_def)
  from swap n b \<open>length sub = 2\<close> \<open>length (filter is_PolicyTypeOpaque sub) = 1\<close>
  have inner: "m = 3" "length inner = 3" "is_PolicyPublicKey (inner ! 0)" "is_PolicySLHDSA (inner ! 1)"
    and lock: "(\<exists>h. h \<noteq> 0 \<and> inner ! 2 = PolicyHash h) \<or> (\<exists>t. t \<noteq> 0 \<and> inner ! 2 = PolicyAbove t)"
    by (auto simp: IsQdaySwapSpendPolicy_def p m Let_def split: if_splits SpendPolicy.splits)
  then obtain x y l where "inner = [PolicyPublicKey x, PolicySLHDSA y, l]" "inner ! 2 = l"
    by (auto simp: length3_cases is_PolicyPublicKey_def is_PolicySLHDSA_def)
  then have "swap_spend p \<lparr>qk_Classical = x, qk_Reserve = y\<rparr> (inner ! 2)"
    using sub by (auto simp: swap_spend_def p n m inner(1) Let_def)
  with lock show "(\<exists>k h. h \<noteq> 0 \<and> swap_spend p k (PolicyHash h)) \<or>
      (\<exists>k t. t \<noteq> 0 \<and> swap_spend p k (PolicyAbove t))"
    by metis
qed (auto intro: swap_spend_IsQdaySwapSpendPolicy)

section \<open>Signatures in preimages\<close>

lemma length_concat_hash_bytes: "length (concat (map hash_bytes hs)) = 32 * length hs"
  by (induction hs) auto

lemma concat_chunks:
  "length sig \<le> 32 * n \<Longrightarrow>
    concat (map hash_bytes (map (chunk sig) [0..<n])) = sig @ replicate (32 * n - length sig) 0"
proof (induction n arbitrary: sig)
  case (Suc n)
  have shift: "chunk sig (Suc i) = chunk (drop 32 sig) i" for i
    by (simp add: chunk_def add.commute)
  have first: "hash_bytes (chunk sig 0) = take 32 sig @ replicate (32 - length (take 32 sig)) 0"
    by (simp add: chunk_def hash_bytes_of_bytes)
  have "[0..<Suc n] = 0 # map Suc [0..<n]"
    by (simp add: upt_conv_Cons map_Suc_upt del: upt_Suc)
  then have "map (chunk sig) [0..<Suc n] = chunk sig 0 # map (chunk (drop 32 sig)) [0..<n]"
    by (simp add: shift del: upt_Suc)
  then have "concat (map hash_bytes (map (chunk sig) [0..<Suc n])) =
      hash_bytes (chunk sig 0) @ (drop 32 sig @ replicate (32 * n - length (drop 32 sig)) 0)"
    using Suc.IH [of "drop 32 sig"] Suc.prems by simp
  also have "\<dots> = sig @ replicate (32 * Suc n - length sig) 0"
  proof (cases "length sig \<le> 32")
    case True
    then have e: "32 * Suc n - length sig = (32 - length sig) + 32 * n" by simp
    have "replicate (32 - length sig) 0 @ replicate (32 * n) 0 = replicate (32 * Suc n - length sig) (0 :: byte)"
      unfolding e replicate_add ..
    with True show ?thesis unfolding first by simp
  next
    case False
    then show ?thesis unfolding first by (simp flip: append_assoc)
  qed
  finally show ?case .
qed simp

lemma verifyQdayReserve_chunks:
  assumes "length sig = QdaySignatureSize"
  shows "verifyQdayReserve c pk h (map (chunk sig) [0..<QdaySignatureChunks]) \<longleftrightarrow>
    slhdsa_Verify c pk (hash_bytes h) sig qdaySignatureContext"
proof -
  have "concat (map hash_bytes (map (chunk sig) [0..<QdaySignatureChunks])) = sig @ replicate 16 0"
    using assms concat_chunks [of sig QdaySignatureChunks]
    by (simp add: QdaySignatureSize_def QdaySignatureChunks_def)
  then show ?thesis using assms by (simp add: verifyQdayReserve_def Let_def del: map_map)
qed

section \<open>Sample primitives\<close>

text \<open>
  Concrete functions for the cryptographic parameter, at which the hypotheses of the properties below
  hold: signatures that are the message signed, keys that are their own private keys, and hashes that
  are byte sums.
\<close>

definition byte_sum :: "byte list \<Rightarrow> hash256" where
  "byte_sum bs = word_of_nat (sum_list (map unat bs))"

definition sample_crypto :: crypto where
  "sample_crypto =
     \<lparr>blake2b_Sum256 = byte_sum, sha256_Sum256 = byte_sum,
      sha512_Sum512 = (\<lambda>bs. of_bytes64 (take 64 (bs @ replicate 64 0))),
      ed25519_NewKeyFromSeed = (\<lambda>seed. seed @ seed),
      ed25519_Sign = (\<lambda>priv msg. of_bytes64 msg),
      ed25519_Verify = (\<lambda>pk msg sig. sig = of_bytes64 msg),
      slhdsa_GenerateKey = (\<lambda>r. Some (take 32 r, take 32 r)),
      slhdsa_SignDeterministic = (\<lambda>priv msg ctx. Some (msg @ replicate (QdaySignatureSize - length msg) 0)),
      slhdsa_Verify = (\<lambda>pk msg sig ctx. sig = msg @ replicate (QdaySignatureSize - length msg) 0),
      point_SetBytes = (\<lambda>b. Some b), point_MultByCofactor = (\<lambda>p. p), identity_Point = 0,
      scalar_SetCanonicalBytes = (\<lambda>_. True), scalar_IsZero = (\<lambda>s. s = 0), scalar_BaseMult = (\<lambda>s. s)\<rparr>"

definition sample_keys :: QdayPrivateKeys where
  "sample_keys =
     \<lparr>qp_Classical = [], qp_Reserve = [], qp_Public = \<lparr>qk_Classical = 1, qk_Reserve = 2\<rparr>\<rparr>"

definition sample_swap :: QdayAtomicSwap where
  "sample_swap =
     \<lparr>sw_Recipient = \<lparr>qk_Classical = 1, qk_Reserve = 2\<rparr>, sw_Refund = \<lparr>qk_Classical = 3, qk_Reserve = 4\<rparr>,
      sw_SecretHash = 7, sw_RefundHeight = 100\<rparr>"

text \<open>A swap that the holder of the sample keys may both claim, with the secret 7, and refund.\<close>

definition own_swap :: QdayAtomicSwap where
  "own_swap =
     \<lparr>sw_Recipient = qp_Public sample_keys, sw_Refund = qp_Public sample_keys, sw_SecretHash = 7, sw_RefundHeight = 100\<rparr>"

lemma byte_sum_7: "byte_sum (hash_bytes 7) = 7"
proof -
  have "le_bytes 32 7 = 7 # replicate 31 0" using le_bytes.simps(2) [of 31 7] by (simp add: le_bytes_zero)
  then show ?thesis by (simp add: byte_sum_def hash_bytes_def be_bytes_def sum_list_replicate)
qed

section \<open>Properties\<close>

text \<open>C21: hybrid authorization. Whatever policy of the two admissible shapes an input reveals (the
  native key pair, or one branch of an atomic swap), if verification accepts the witness then it
  contains exactly one Ed25519 signature and one SLH-DSA signature, both valid for the signature hash
  under the two keys the policy names: neither signature scheme alone authorizes a spend.\<close>

theorem native_spends_are_hybrid:
  assumes "IsQdayNativePolicy p \<or> IsQdaySwapSpendPolicy p"
    and "Policy_Verify c p height mt sigHash sigs preimages = Ok ()"
  shows "\<exists>k. (p = QdayKeys_Policy k \<or> (\<exists>lock. swap_spend p k lock)) \<and>
    (\<exists>sig. sigs = [sig] \<and> ed25519_Verify c (qk_Classical k) (hash_bytes sigHash) sig) \<and>
    QdaySignatureChunks \<le> length preimages \<and>
    (\<forall>b \<in> set (drop QdaySignatureSize
        (concat (map hash_bytes (take QdaySignatureChunks preimages)))). b = 0) \<and>
    slhdsa_Verify c (qk_Reserve k) (hash_bytes sigHash)
      (take QdaySignatureSize (concat (map hash_bytes (take QdaySignatureChunks preimages))))
      qdaySignatureContext"
proof -
  obtain k where k: "p = QdayKeys_Policy k \<or> (\<exists>lock. swap_spend p k lock)"
    and signed: "hybrid_signed c sigHash k sigs preimages"
    using assms Policy_Verify_native Policy_Verify_claim Policy_Verify_refund
    unfolding IsQdayNativePolicy_iff IsQdaySwapSpendPolicy_iff by metis
  then show ?thesis
    by (intro exI [of _ k])
       (auto simp: hybrid_signed_def PublicKey_VerifyHash_def verifyQdayReserve_def Let_def split: if_splits)
qed

theorem native_spends_are_hybrid_witness:
  "Policy_Verify sample_crypto (QdayKeys_Policy \<lparr>qk_Classical = 1, qk_Reserve = 2\<rparr>) 10 0 0 [0]
     (replicate QdaySignatureChunks 0) = Ok () \<and>
   (\<exists>(k :: QdayKeys) sig. [0] = [sig] \<and> ed25519_Verify sample_crypto (qk_Classical k) (hash_bytes 0) sig)"
proof -
  let ?p = "QdayKeys_Policy \<lparr>qk_Classical = 1, qk_Reserve = 2\<rparr>"
  have zero: "hash_bytes 0 = replicate 32 0"
    by (simp add: hash_bytes_def be_bytes_def le_bytes_zero)
  have "of_bytes64 (replicate 32 0) = 0"
    by (simp add: of_bytes64_def of_be_bytes_def of_le_bytes_zero)
  then have v: "Policy_Verify sample_crypto ?p 10 0 0 [0] (replicate QdaySignatureChunks 0) = Ok ()"
    by (simp add: Policy_Verify_native hybrid_signed_def PublicKey_VerifyHash_def sample_crypto_def
        verifyQdayReserve_def zero QdaySignatureSize_def QdaySignatureChunks_def concat_replicate_zero
        flip: replicate_add)
  have "IsQdayNativePolicy ?p" by (auto simp: IsQdayNativePolicy_iff)
  from native_spends_are_hybrid [OF disjI1 [OF this] v] v show ?thesis by auto
qed

text \<open>C22: atomic swaps. The address of a valid swap is also the address of the policy that reveals
  only its claim branch and of the policy that reveals only its refund branch, and both are admissible
  shapes; the claim policy accepts exactly the recipient's two signatures followed by a preimage of the
  secret hash, at any height; the refund policy accepts exactly the sender's two signatures, from the
  refund height on.\<close>

theorem atomic_swap_branches:
  assumes "swap_Policy s = Ok p"
  shows "\<exists>pc pr. swap_ClaimPolicy c s = Ok pc \<and> swap_RefundPolicy c s = Ok pr \<and>
    swap_Address c s = Ok (Policy_Address c p) \<and>
    Policy_Address c pc = Policy_Address c p \<and> Policy_Address c pr = Policy_Address c p \<and>
    IsQdaySwapSpendPolicy pc \<and> IsQdaySwapSpendPolicy pr \<and>
    (Policy_Verify c pc height mt h sigs pre = Ok () \<longleftrightarrow>
       hybrid_signed c h (sw_Recipient s) sigs pre \<and>
       (\<exists>secret. drop QdaySignatureChunks pre = [secret] \<and>
          sha256_Sum256 c (hash_bytes secret) = sw_SecretHash s)) \<and>
    (Policy_Verify c pr height mt h sigs pre = Ok () \<longleftrightarrow>
       hybrid_signed c h (sw_Refund s) sigs pre \<and> length pre = QdaySignatureChunks \<and>
       sw_RefundHeight s \<le> height)"
proof -
  have valid: "swap_validate s = Ok ()" and p: "p = PolicyThreshold 1 [claimBranch s, refundBranch s]"
    using assms by (auto simp: swap_Policy_rbind res_simps)
  then have nz: "sw_SecretHash s \<noteq> 0" "sw_RefundHeight s \<noteq> 0"
    by (auto simp: swap_validate_def split: if_splits)
  define pc where "pc = PolicyThreshold 1 [claimBranch s, PolicyOpaque c (refundBranch s)]"
  define pr where "pr = PolicyThreshold 1 [PolicyOpaque c (claimBranch s), refundBranch s]"
  have claim: "swap_spend pc (sw_Recipient s) (PolicyHash (sw_SecretHash s))"
    by (auto simp: swap_spend_def pc_def claimBranch_def refundBranch_def PolicyOpaque_def Let_def)
  have refund: "swap_spend pr (sw_Refund s) (PolicyAbove (sw_RefundHeight s))"
    by (auto simp: swap_spend_def pr_def claimBranch_def refundBranch_def PolicyOpaque_def Let_def)
  have "Policy_Address c pc = Policy_Address c p" "Policy_Address c pr = Policy_Address c p"
    unfolding p pc_def pr_def by (rule Policy_Address_hide; simp)+
  then show ?thesis
    using valid assms Policy_Verify_claim [OF claim] Policy_Verify_refund [OF refund]
      swap_spend_IsQdaySwapSpendPolicy(1) [OF claim nz(1)] swap_spend_IsQdaySwapSpendPolicy(2) [OF refund nz(2)]
    by (intro exI [of _ pc] exI [of _ pr])
       (auto simp: swap_ClaimPolicy_def swap_RefundPolicy_def swap_Address_def swap_Policy_err_def Address_of_type_def p pc_def pr_def)
qed

theorem atomic_swap_branches_witness:
  "\<exists>p pc pr. swap_Policy sample_swap = Ok p \<and> swap_ClaimPolicy sample_crypto sample_swap = Ok pc \<and>
     swap_RefundPolicy sample_crypto sample_swap = Ok pr \<and>
     Policy_Address sample_crypto pc = Policy_Address sample_crypto p \<and>
     Policy_Address sample_crypto pr = Policy_Address sample_crypto p \<and>
     \<not> Policy_Verify sample_crypto pr 99 0 0 [] [] = Ok ()"
proof -
  have "swap_Policy sample_swap = Ok (PolicyThreshold 1 [claimBranch sample_swap, refundBranch sample_swap])"
    by (simp add: swap_Policy_rbind swap_validate_def QdayKeys_Validate_def sample_swap_def)
  from this atomic_swap_branches [OF this, of sample_crypto 99 0 0 "[]" "[]"] show ?thesis
    by (auto simp: sample_swap_def)
qed

text \<open>C23: whoever holds the keys can spend. When the two signature schemes accept what their own signing
  functions produce for a key pair, SLH-DSA under the context string of the program, and an SLH-DSA signature
  has the size the program expects, the witness made by \<^verbatim>\<open>Sign\<close> reveals and satisfies the native policy of that
  pair, the witness made by \<^verbatim>\<open>Claim\<close> with the secret reveals and satisfies the claim policy of the swap, and the
  one made by \<^verbatim>\<open>RefundSpend\<close> reveals and satisfies its refund policy from the refund height on.\<close>

theorem signing_satisfies_policies:
  assumes ed: "\<And>m. ed25519_Verify c (qk_Classical (qp_Public k)) m (ed25519_Sign c (qp_Classical k) m)"
    and slh: "\<And>m. length m = 32 \<Longrightarrow> \<exists>sig. slhdsa_SignDeterministic c (qp_Reserve k) m qdaySignatureContext = Some sig \<and>
        length sig = QdaySignatureSize \<and> slhdsa_Verify c (qk_Reserve (qp_Public k)) m sig qdaySignatureContext"
  shows "(\<exists>w. QdayPrivateKeys_Sign c k h = Ok w \<and> sat_Policy w = QdayKeys_Policy (qp_Public k) \<and>
      Policy_Verify c (sat_Policy w) height mt h (sat_Signatures w) (sat_Preimages w) = Ok ()) \<and>
    (swap_validate s = Ok () \<and> sw_Recipient s = qp_Public k \<and> sha256_Sum256 c (hash_bytes x) = sw_SecretHash s \<longrightarrow>
      (\<exists>w. swap_Claim c s h (Some k) x = Ok w \<and> swap_ClaimPolicy c s = Ok (sat_Policy w) \<and>
         Policy_Verify c (sat_Policy w) height mt h (sat_Signatures w) (sat_Preimages w) = Ok ())) \<and>
    (swap_validate s = Ok () \<and> sw_Refund s = qp_Public k \<and> sw_RefundHeight s \<le> height \<longrightarrow>
      (\<exists>w. swap_RefundSpend c s h (Some k) = Ok w \<and> swap_RefundPolicy c s = Ok (sat_Policy w) \<and>
         Policy_Verify c (sat_Policy w) height mt h (sat_Signatures w) (sat_Preimages w) = Ok ()))"
proof -
  obtain sig where sig: "slhdsa_SignDeterministic c (qp_Reserve k) (hash_bytes h) qdaySignatureContext = Some sig"
      "length sig = QdaySignatureSize"
      "slhdsa_Verify c (qk_Reserve (qp_Public k)) (hash_bytes h) sig qdaySignatureContext"
    using slh [of "hash_bytes h"] by auto
  define w where "w = \<lparr>sat_Policy = QdayKeys_Policy (qp_Public k),
      sat_Signatures = [PrivateKey_SignHash c (qp_Classical k) h],
      sat_Preimages = map (chunk sig) [0..<QdaySignatureChunks]\<rparr>"
  have sign: "QdayPrivateKeys_Sign c k h = Ok w" using sig by (simp add: QdayPrivateKeys_Sign_def w_def)
  have signed: "hybrid_signed c h (qp_Public k) (sat_Signatures w) (sat_Preimages w @ rest)" for rest
    using ed sig verifyQdayReserve_chunks [OF sig(2)]
    by (simp add: hybrid_signed_def w_def PublicKey_VerifyHash_def PrivateKey_SignHash_def)
  have len: "length (sat_Preimages w) = QdaySignatureChunks" by (simp add: w_def)
  have policy: "sat_Policy w = QdayKeys_Policy (qp_Public k)" by (simp add: w_def)
  have native: "Policy_Verify c (sat_Policy w) height mt h (sat_Signatures w) (sat_Preimages w) = Ok ()"
    using signed [of "[]"] len by (simp add: w_def Policy_Verify_native)
  have swap: "swap_spend (PolicyThreshold 1 [claimBranch s, PolicyOpaque c (refundBranch s)])
      (sw_Recipient s) (PolicyHash (sw_SecretHash s))"
    "swap_spend (PolicyThreshold 1 [PolicyOpaque c (claimBranch s), refundBranch s])
      (sw_Refund s) (PolicyAbove (sw_RefundHeight s))"
    by (auto simp: swap_spend_def claimBranch_def refundBranch_def PolicyOpaque_def Let_def)
  show ?thesis
    using native policy sign signed [of "[x]"] signed [of "[]"] len Policy_Verify_claim [OF swap(1)]
      Policy_Verify_refund [OF swap(2)]
    by (auto simp: swap_Claim_def swap_RefundSpend_def swap_ClaimPolicy_def swap_RefundPolicy_def)
qed

theorem signing_satisfies_policies_witness:
  "(\<exists>w. QdayPrivateKeys_Sign sample_crypto sample_keys 5 = Ok w \<and> sat_Policy w = QdayKeys_Policy (qp_Public sample_keys) \<and>
     Policy_Verify sample_crypto (sat_Policy w) 100 0 5 (sat_Signatures w) (sat_Preimages w) = Ok ()) \<and>
   (\<exists>w. swap_Claim sample_crypto own_swap 5 (Some sample_keys) 7 = Ok w \<and>
     swap_ClaimPolicy sample_crypto own_swap = Ok (sat_Policy w) \<and>
     Policy_Verify sample_crypto (sat_Policy w) 100 0 5 (sat_Signatures w) (sat_Preimages w) = Ok ()) \<and>
   (\<exists>w. swap_RefundSpend sample_crypto own_swap 5 (Some sample_keys) = Ok w \<and>
     swap_RefundPolicy sample_crypto own_swap = Ok (sat_Policy w) \<and>
     Policy_Verify sample_crypto (sat_Policy w) 100 0 5 (sat_Signatures w) (sat_Preimages w) = Ok ())"
proof -
  have "swap_validate own_swap = Ok ()" "sw_Recipient own_swap = qp_Public sample_keys"
    "sha256_Sum256 sample_crypto (hash_bytes 7) = sw_SecretHash own_swap" "sw_Refund own_swap = qp_Public sample_keys"
    "sw_RefundHeight own_swap \<le> 100"
    by (simp_all add: own_swap_def swap_validate_def QdayKeys_Validate_def sample_keys_def byte_sum_7 sample_crypto_def)
  moreover have "ed25519_Verify sample_crypto (qk_Classical (qp_Public sample_keys)) m
      (ed25519_Sign sample_crypto (qp_Classical sample_keys) m)" for m by (simp add: sample_crypto_def)
  moreover have "\<exists>sig. slhdsa_SignDeterministic sample_crypto (qp_Reserve sample_keys) m qdaySignatureContext = Some sig \<and>
      length sig = QdaySignatureSize \<and> slhdsa_Verify sample_crypto (qk_Reserve (qp_Public sample_keys)) m sig qdaySignatureContext"
    if "length m = 32" for m using that by (simp add: sample_crypto_def QdaySignatureSize_def)
  ultimately show ?thesis
    using signing_satisfies_policies [of sample_crypto sample_keys 5 100 0 own_swap 7] by blast
qed

text \<open>\<^verbatim>\<open>QdayAtomicSwap.Address\<close> of an invalid swap does not return the validation error: it computes the address
  of the empty policy first.\<close>

lemma swap_Address_of_invalid:
  assumes "swap_validate s \<noteq> Ok ()"
  shows "(\<exists>e. swap_Policy s = Err e) \<and> panics (swap_Address c s)"
  using assms
  by (auto simp: swap_Address_def swap_Policy_def swap_Policy_err_def Address_of_type_def encode_type_def swap_validate_def
      split: if_splits)

end
