(* ===== verification/Bech32.thy ===== *)
theory Bech32
  imports Policy
begin

text \<open>
  Text addresses (\<^verbatim>\<open>core/types/qday_address.go\<close>): Bech32m encoding and decoding of the 256-bit policy
  hash, and the legacy form that spells out both public keys. Go strings are byte lists. The lemmas
  show the round trip, that the text of an address is unique up to case, and that a text in which one
  symbol was replaced is never accepted.
\<close>

section \<open>Checksum\<close>

definition bech32Alphabet :: "byte list" where
  "bech32Alphabet = ascii ''qpzry9x8gf2tvdw0s3jn54khce6mua7l''"

definition bech32mConstant :: u32 where
  "bech32mConstant = 0x2bc830a3"

definition bech32_gen :: "u32 list" where
  "bech32_gen = [0x3b6a57b2, 0x26508e6d, 0x1ea119fa, 0x3d4233dd, 0x2a1462b3]"

text \<open>The inner loop of \<^verbatim>\<open>bech32Polymod\<close> from generator \<open>i\<close> on.\<close>

fun polymod_gen :: "u32 \<Rightarrow> nat \<Rightarrow> u32 list \<Rightarrow> u32 \<Rightarrow> u32" where
  "polymod_gen tp i [] chk = chk"
| "polymod_gen tp i (g # gs) chk =
     polymod_gen tp (Suc i) gs (if drop_bit i tp AND 1 \<noteq> 0 then chk XOR g else chk)"

definition polymod_step :: "u32 \<Rightarrow> byte \<Rightarrow> u32" where
  "polymod_step chk value =
     (let tp = drop_bit 25 chk
      in polymod_gen tp 0 bech32_gen (push_bit 5 (chk AND 0x1ffffff) XOR ucast value))"

definition bech32Polymod :: "byte list \<Rightarrow> u32" where
  "bech32Polymod values = foldl polymod_step 1 values"

definition bech32Expand :: "byte list \<Rightarrow> byte list" where
  "bech32Expand hrp = map (drop_bit 5) hrp @ [0] @ map (\<lambda>b. b AND 31) hrp"

section \<open>Encoding and decoding\<close>

text \<open>The checksum symbols, \<^verbatim>\<open>check >> uint(5*i) & 31\<close> for \<open>i\<close> from 5 down to 0.\<close>

definition check_symbols :: "u32 \<Rightarrow> byte list" where
  "check_symbols check = map (\<lambda>i. ucast (drop_bit (5 * i) check AND 31)) [5, 4, 3, 2, 1, 0]"

definition alphabet_at :: "byte \<Rightarrow> byte res" where
  "alphabet_at v = (if unat v < length bech32Alphabet then Ok (bech32Alphabet ! unat v)
                    else Panic ''index out of range'')"

fun symbols :: "byte list \<Rightarrow> (byte list) res" where
  "symbols [] = Ok []"
| "symbols (v # vs) = rbind (alphabet_at v) (\<lambda>b. rbind (symbols vs) (\<lambda>bs. Ok (b # bs)))"

definition bech32mEncode :: "byte list \<Rightarrow> byte list \<Rightarrow> (byte list) res" where
  "bech32mEncode hrp data =
     (let values = bech32Expand hrp @ data;
          check = bech32Polymod (values @ replicate 6 0) XOR bech32mConstant
      in rbind (symbols data) (\<lambda>ds. rbind (symbols (check_symbols check)) (\<lambda>cs.
         Ok (hrp @ ascii ''1'' @ ds @ cs))))"

text \<open>
  \<^verbatim>\<open>strings.ToLower\<close> and \<^verbatim>\<open>strings.ToUpper\<close> on ASCII letters; a string with other bytes is rejected
  by the character check in any case.
\<close>

definition to_lower :: "byte list \<Rightarrow> byte list" where
  "to_lower s = map (\<lambda>b. if 65 \<le> b \<and> b \<le> 90 then b + 32 else b) s"

definition to_upper :: "byte list \<Rightarrow> byte list" where
  "to_upper s = map (\<lambda>b. if 97 \<le> b \<and> b \<le> 122 then b - 32 else b) s"

text \<open>\<^verbatim>\<open>strings.LastIndexByte\<close> and \<^verbatim>\<open>strings.IndexByte\<close>; None for -1.\<close>

fun index_byte :: "byte list \<Rightarrow> byte \<Rightarrow> nat option" where
  "index_byte [] x = None"
| "index_byte (b # bs) x = (if b = x then Some 0 else map_option Suc (index_byte bs x))"

definition last_index_byte :: "byte list \<Rightarrow> byte \<Rightarrow> nat option" where
  "last_index_byte s x = map_option (\<lambda>i. length s - 1 - i) (index_byte (rev s) x)"

fun data_values :: "byte list \<Rightarrow> (byte list) res" where
  "data_values [] = Ok []"
| "data_values (b # bs) =
     (case index_byte bech32Alphabet b of
        None \<Rightarrow> Err ''invalid Bech32m data character''
      | Some v \<Rightarrow> rbind (data_values bs) (\<lambda>vs. Ok (word_of_nat v # vs)))"

definition bech32mDecode :: "byte list \<Rightarrow> (byte list \<times> byte list) res" where
  "bech32mDecode s =
     (if length s < 8 \<or> 90 < length s \<or> (s \<noteq> to_lower s \<and> s \<noteq> to_upper s)
      then Err ''invalid Bech32m length or mixed case''
      else if \<exists>b \<in> set s. b < 33 \<or> 126 < b then Err ''invalid Bech32m character''
      else let s = to_lower s in
        case last_index_byte s 49 of
          None \<Rightarrow> Err ''invalid Bech32m separator''
        | Some sep \<Rightarrow>
            if sep < 1 \<or> length s < sep + 7 then Err ''invalid Bech32m separator''
            else let hrp = take sep s in
              rbind (data_values (drop (sep + 1) s)) (\<lambda>data.
              if bech32Polymod (bech32Expand hrp @ data) \<noteq> bech32mConstant
              then Err ''QDAY address checksum mismatch''
              else Ok (hrp, take (length data - 6) data)))"

text \<open>The inner loop of \<^verbatim>\<open>bech32ConvertBits\<close>: groups are taken off while there are enough bits.\<close>

function emit_groups :: "nat \<Rightarrow> u32 \<Rightarrow> nat \<Rightarrow> byte list \<Rightarrow> nat \<times> byte list" where
  "emit_groups to acc bits result =
     (if to \<le> bits \<and> 0 < to then
        emit_groups to acc (bits - to) (result @ [ucast (drop_bit (bits - to) acc AND (push_bit to 1 - 1))])
      else (bits, result))"
  by pat_completeness auto

termination
  by (relation "measure (\<lambda>(to, acc, bits, result). bits)") auto

declare emit_groups.simps [simp del]

fun convert_loop :: "nat \<Rightarrow> nat \<Rightarrow> byte list \<Rightarrow> u32 \<Rightarrow> nat \<Rightarrow> byte list \<Rightarrow> (u32 \<times> nat \<times> byte list) res" where
  "convert_loop from to [] acc bits result = Ok (acc, bits, result)"
| "convert_loop from to (v # vs) acc bits result =
     (if drop_bit from (ucast v :: u32) \<noteq> 0 then Err ''invalid Bech32m data value''
      else let acc = (push_bit from acc OR ucast v) AND (push_bit (from + to - 1) 1 - 1);
               (bits, result) = emit_groups to acc (bits + from) result
           in convert_loop from to vs acc bits result)"

definition bech32ConvertBits :: "byte list \<Rightarrow> nat \<Rightarrow> nat \<Rightarrow> bool \<Rightarrow> (byte list) res" where
  "bech32ConvertBits data from to pad =
     rbind (convert_loop from to data 0 0 []) (\<lambda>(acc, bits, result).
     let mask = push_bit to 1 - 1 in
     if pad \<and> bits \<noteq> 0 then Ok (result @ [ucast (push_bit (to - bits) acc AND mask)])
     else if \<not> pad \<and> (from \<le> bits \<or> push_bit (to - bits) acc AND mask \<noteq> 0)
     then Err ''noncanonical Bech32m padding''
     else Ok result)"

section \<open>Addresses\<close>

type_synonym QdayAddress = Address

definition QdayAddress_Validate :: "QdayAddress \<Rightarrow> unit res" where
  "QdayAddress_Validate a = fail_if (a = 0) ''zero QDAY address''"

text \<open>\<^verbatim>\<open>String\<close> drops the error of the conversion, which never fails on bytes.\<close>

definition QdayAddress_String :: "QdayAddress \<Rightarrow> (byte list) res" where
  "QdayAddress_String a =
     (let data = (case bech32ConvertBits (hash_bytes a) 8 5 True of Ok d \<Rightarrow> d | _ \<Rightarrow> [])
      in bech32mEncode (ascii ''qday'') ([1] @ data))"

definition hex_value :: "byte \<Rightarrow> byte option" where
  "hex_value b =
     (if 48 \<le> b \<and> b \<le> 57 then Some (b - 48)
      else if 97 \<le> b \<and> b \<le> 102 then Some (b - 97 + 10)
      else if 65 \<le> b \<and> b \<le> 70 then Some (b - 65 + 10)
      else None)"

text \<open>\<^verbatim>\<open>hex.DecodeString\<close>; None on an error.\<close>

fun hex_decode :: "byte list \<Rightarrow> (byte list) option" where
  "hex_decode [] = Some []"
| "hex_decode [x] = None"
| "hex_decode (x # y # s) =
     (case (hex_value x, hex_value y, hex_decode s) of
        (Some a, Some b, Some bs) \<Rightarrow> Some ((a * 16 + b) # bs)
      | _ \<Rightarrow> None)"

definition ParseQdayAddress :: "crypto \<Rightarrow> byte list \<Rightarrow> QdayAddress res" where
  "ParseQdayAddress c s =
     (if length s = 141 \<and> take 5 s = ascii ''qday1'' then
        case hex_decode (drop 5 s) of
          None \<Rightarrow> Err ''invalid legacy QDAY address encoding''
        | Some b \<Rightarrow>
            let h = sha256_Sum256 c (ascii ''QDAY/address/v1'' @ take 64 b) in
            if take 4 (hash_bytes h) \<noteq> drop 64 b then Err ''QDAY address checksum mismatch''
            else let k = \<lparr>qk_Classical = hash_of_bytes (take 32 b),
                          qk_Reserve = hash_of_bytes (take 32 (drop 32 b))\<rparr>
                 in rbind (QdayKeys_Validate k) (\<lambda>_. Ok (QdayKeys_Address c k))
      else if length s \<noteq> 64 then Err ''QDAY addresses must contain 64 characters''
      else rbind (bech32mDecode s) (\<lambda>(hrp, data).
        if hrp \<noteq> ascii ''qday'' \<or> length data \<noteq> 53 \<or> hd data \<noteq> 1
        then Err ''unsupported QDAY address network or version''
        else case bech32ConvertBits (tl data) 5 8 False of
          Ok b \<Rightarrow>
            if length b \<noteq> 32 then Err ''invalid QDAY address padding or payload''
            else rbind (QdayAddress_Validate (hash_of_bytes b)) (\<lambda>_. Ok (hash_of_bytes b))
        | _ \<Rightarrow> Err ''invalid QDAY address padding or payload''))"

section \<open>The checksum is linear in its last symbols\<close>

definition gen_mask :: "u32 \<Rightarrow> u32" where
  "gen_mask tp = polymod_gen tp 0 bech32_gen 0"

lemma polymod_gen_xor: "polymod_gen tp i gs (a XOR b) = polymod_gen tp i gs a XOR b"
proof (induction gs arbitrary: i a)
  case (Cons g gs)
  have "(a XOR b) XOR g = (a XOR g) XOR b" by (simp add: xor.commute xor.left_commute)
  then show ?case using Cons by simp
qed simp

lemma polymod_step_alt:
  "polymod_step chk v = gen_mask (drop_bit 25 chk) XOR push_bit 5 (take_bit 25 chk) XOR ucast v"
proof -
  have mask: "chk AND 0x1ffffff = take_bit 25 chk"
    by (simp add: take_bit_eq_mask mask_eq_exp_minus_1)
  have "polymod_step chk v =
      polymod_gen (drop_bit 25 chk) 0 bech32_gen (0 XOR (push_bit 5 (take_bit 25 chk) XOR ucast v))"
    by (simp only: polymod_step_def Let_def mask xor.left_neutral)
  also have "\<dots> = gen_mask (drop_bit 25 chk) XOR (push_bit 5 (take_bit 25 chk) XOR ucast v)"
    unfolding polymod_gen_xor gen_mask_def ..
  finally show ?thesis by (simp add: xor.assoc)
qed

lemma drop_bit_small:
  fixes p :: u32
  assumes "take_bit n p = p"
  shows "drop_bit n p = 0"
proof -
  have "drop_bit n (take_bit n p) = 0" by (simp add: drop_bit_take_bit)
  then show ?thesis using assms by simp
qed

text \<open>Replacing the last symbols changes the checksum by the packed difference.\<close>

lemma polymod_step_xor:
  assumes "take_bit 25 p = p"
  shows "polymod_step (chk XOR p) v = polymod_step chk 0 XOR (push_bit 5 p XOR ucast v)"
  using assms drop_bit_small [OF assms]
  by (simp add: polymod_step_alt take_bit_xor push_bit_xor ac_simps xor.assoc)

text \<open>The number that a list of 5-bit symbols spells.\<close>

definition pack :: "byte list \<Rightarrow> u32" where
  "pack xs = foldl (\<lambda>p v. push_bit 5 p XOR ucast v) 0 xs"

lemma pack_snoc: "pack (xs @ [v]) = push_bit 5 (pack xs) XOR ucast v"
  by (simp add: pack_def)

lemma unat_ucast_byte: "unat (ucast (v :: byte) :: u32) = unat v"
  using unsigned_less [where 'a=nat, of v] by (simp add: unsigned_ucast_eq take_bit_nat_eq_self)

lemma ucast_byte_inject: "(ucast (v :: byte) :: u32) = ucast w \<longleftrightarrow> v = w"
  using unat_ucast_byte [of v] unat_ucast_byte [of w] by (auto simp: word_unat_eq_iff)

lemma ucast_small:
  fixes v :: byte
  assumes "v < 32"
  shows "take_bit 5 (ucast v :: u32) = ucast v"
proof (rule word_unat_eq_iff [THEN iffD2])
  have "unat v < 32" using assms by (simp add: word_less_nat_alt)
  then show "unat (take_bit 5 (ucast v :: u32)) = unat (ucast v :: u32)"
    by (simp add: unsigned_take_bit_eq take_bit_nat_eq_self unat_ucast_byte)
qed

lemma take_bit_weaken:
  fixes p :: u32
  assumes "take_bit m p = p" "m \<le> n"
  shows "take_bit n p = p"
proof -
  have "take_bit n (take_bit m p) = take_bit m p" using assms(2) by (simp add: min_def)
  then show ?thesis using assms(1) by simp
qed

lemma pack_small:
  assumes "\<forall>v \<in> set xs. v < 32"
  shows "take_bit (5 * length xs) (pack xs) = pack xs"
  using assms
proof (induction xs rule: rev_induct)
  case Nil
  then show ?case by (simp add: pack_def)
next
  case (snoc v xs)
  have v: "take_bit (5 + 5 * length xs) (ucast v :: u32) = ucast v"
    using snoc.prems by (intro take_bit_weaken [OF ucast_small]) simp_all
  have IH: "take_bit (5 * length xs) (pack xs) = pack xs" using snoc by simp
  have "take_bit (5 + 5 * length xs) (push_bit 5 (pack xs)) = push_bit 5 (pack xs)"
    by (subst take_bit_push_bit) (simp add: IH)
  then show ?case using v by (simp add: pack_snoc take_bit_xor)
qed

lemma foldl_polymod_pack:
  assumes "\<forall>v \<in> set xs. v < 32" "length xs \<le> 6"
  shows "foldl polymod_step chk xs = foldl polymod_step chk (replicate (length xs) 0) XOR pack xs"
  using assms
proof (induction xs rule: rev_induct)
  case Nil
  then show ?case by (simp add: pack_def)
next
  case (snoc v xs)
  have small: "take_bit 25 (pack xs) = pack xs"
  proof -
    have "take_bit (5 * length xs) (pack xs) = pack xs" using snoc.prems by (simp add: pack_small)
    then show ?thesis using snoc.prems by (auto intro: take_bit_weaken)
  qed
  let ?z = "foldl polymod_step chk (replicate (length xs) 0)"
  have "foldl polymod_step chk (xs @ [v]) = polymod_step (?z XOR pack xs) v"
    using snoc by simp
  also have "\<dots> = polymod_step ?z 0 XOR pack (xs @ [v])"
    using polymod_step_xor [OF small] by (simp add: pack_snoc)
  also have "polymod_step ?z 0 = foldl polymod_step chk (replicate (length (xs @ [v])) 0)"
    by (simp add: replicate_append_same [symmetric] del: replicate_append_same)
  finally show ?case .
qed

lemma pack_step_low:
  fixes p :: u32 and v :: byte
  assumes "v < 32"
  shows "take_bit 5 (push_bit 5 p XOR ucast v) = ucast v"
  using ucast_small [OF assms] by (simp add: take_bit_xor take_bit_push_bit)

lemma pack_step_high:
  fixes p :: u32 and v :: byte
  assumes "take_bit 25 p = p" "v < 32"
  shows "drop_bit 5 (push_bit 5 p XOR ucast v) = p"
proof -
  have "drop_bit 5 (push_bit 5 p) = p"
  proof (rule bit_eqI)
    fix n
    assume "possible_bit TYPE(u32) n"
    moreover have "bit p n \<Longrightarrow> n < 25"
      by (metis assms(1) bit_take_bit_iff)
    ultimately show "bit (drop_bit 5 (push_bit 5 p)) n = bit p n" by (auto simp: bit_simps)
  qed
  then show ?thesis using drop_bit_small [OF ucast_small [OF assms(2)]] by simp
qed

lemma pack_inject:
  assumes "pack xs = pack ys" "length xs = length ys" "length xs \<le> 6"
    "\<forall>v \<in> set xs. v < 32" "\<forall>v \<in> set ys. v < 32"
  shows "xs = ys"
  using assms
proof (induction xs arbitrary: ys rule: rev_induct)
  case (snoc v xs)
  obtain w zs where ys: "ys = zs @ [w]"
    using snoc.prems(2) by (cases ys rule: rev_cases) auto
  have small: "take_bit 25 (pack xs) = pack xs" "take_bit 25 (pack zs) = pack zs"
    using snoc.prems pack_small [of xs] pack_small [of zs] by (auto simp: ys intro: take_bit_weaken)
  have eq: "push_bit 5 (pack xs) XOR ucast v = push_bit 5 (pack zs) XOR ucast w"
    using snoc.prems(1) by (simp add: ys pack_snoc)
  have "pack xs = pack zs"
    using pack_step_high [OF small(1), of v] pack_step_high [OF small(2), of w] eq snoc.prems ys by simp
  moreover have "(ucast v :: u32) = ucast w"
    using pack_step_low [of v "pack xs"] pack_step_low [of w "pack zs"] eq snoc.prems ys by simp
  then have "v = w" by (simp add: ucast_byte_inject)
  ultimately show ?case using snoc ys by simp
qed simp

lemma push_drop_take:
  fixes x :: u32
  shows "push_bit 5 (drop_bit (m + 5) x) XOR take_bit 5 (drop_bit m x) = drop_bit m x"
proof (rule bit_eqI)
  fix n
  assume "possible_bit TYPE(u32) n"
  then show "bit (push_bit 5 (drop_bit (m + 5) x) XOR take_bit 5 (drop_bit m x)) n = bit (drop_bit m x) n"
    by (cases "n < 5") (simp_all add: bit_simps ac_simps)
qed

lemma and_31: "x AND 31 = take_bit 5 x" for x :: u32
  by (simp add: take_bit_eq_mask mask_eq_exp_minus_1)

lemma pack_group:
  assumes "pack xs = drop_bit (m + 5) x"
  shows "pack (xs @ [ucast (drop_bit m x AND 31)]) = drop_bit m x"
proof -
  have "(ucast (ucast (take_bit 5 x :: u32) :: byte) :: u32) = take_bit 5 x" for x :: u32
    by (rule bit_eqI) (auto simp: bit_simps)
  then show ?thesis using assms push_drop_take [of m x] by (simp only: pack_snoc and_31)
qed

lemma pack_check_symbols:
  assumes "take_bit 30 check = check"
  shows "pack (check_symbols check) = check"
proof -
  let ?s = "\<lambda>m. ucast (drop_bit m check AND 31) :: byte"
  have "pack [] = drop_bit 30 check" using drop_bit_small [OF assms] by (simp add: pack_def)
  then have "pack [?s 25] = drop_bit 25 check" using pack_group [of "[]" 25 check] by simp
  then have "pack [?s 25, ?s 20] = drop_bit 20 check"
    using pack_group [of "[?s 25]" 20 check] by simp
  then have "pack [?s 25, ?s 20, ?s 15] = drop_bit 15 check"
    using pack_group [of "[?s 25, ?s 20]" 15 check] by simp
  then have "pack [?s 25, ?s 20, ?s 15, ?s 10] = drop_bit 10 check"
    using pack_group [of "[?s 25, ?s 20, ?s 15]" 10 check] by simp
  then have "pack [?s 25, ?s 20, ?s 15, ?s 10, ?s 5] = drop_bit 5 check"
    using pack_group [of "[?s 25, ?s 20, ?s 15, ?s 10]" 5 check] by simp
  then have "pack [?s 25, ?s 20, ?s 15, ?s 10, ?s 5, ?s 0] = check"
    using pack_group [of "[?s 25, ?s 20, ?s 15, ?s 10, ?s 5]" 0 check] by simp
  then show ?thesis by (simp add: check_symbols_def)
qed

lemma check_symbols_small: "v \<in> set (check_symbols check) \<Longrightarrow> v < 32"
proof -
  assume "v \<in> set (check_symbols check)"
  then obtain i where "v = ucast (take_bit 5 (drop_bit (5 * i) check))"
    unfolding check_symbols_def and_31 set_map by blast
  then have "unat v = unat (drop_bit (5 * i) check) mod 256 mod 32"
    by (simp add: unsigned_ucast_eq unsigned_take_bit_eq take_bit_nat_def)
  then show ?thesis by (simp add: word_less_nat_alt)
qed

lemma gen_mask_table:
  "distinct (map (\<lambda>t. take_bit 5 (gen_mask (word_of_nat t))) [0..<32])"
  by code_simp

lemma small_unat:
  fixes t :: u32
  assumes "take_bit n t = t" "n < 32"
  shows "unat t < 2 ^ n"
proof -
  have "unat (take_bit n t) < 2 ^ n"
    using assms(2) by (simp add: unsigned_take_bit_eq)
  then show ?thesis using assms(1) by simp
qed

lemma gen_mask_inject:
  assumes "take_bit 5 (gen_mask s) = take_bit 5 (gen_mask t)" "take_bit 5 s = s" "take_bit 5 t = t"
  shows "s = t"
proof -
  have lt: "unat s < 32" "unat t < 32"
    using small_unat [OF assms(2)] small_unat [OF assms(3)] by simp_all
  let ?f = "\<lambda>t. take_bit 5 (gen_mask (word_of_nat t))"
  have "inj_on ?f (set [0..<32])" using gen_mask_table distinct_map by blast
  then have "unat s = unat t" using lt assms(1) inj_onD [of ?f _ "unat s" "unat t"] by simp
  then show ?thesis by (simp add: word_unat_eq_iff)
qed

lemma gen_mask_bound: "take_bit 30 (gen_mask t) = gen_mask t"
  by (simp add: gen_mask_def bech32_gen_def take_bit_xor)

lemma polymod_step_bound: "take_bit 30 (polymod_step chk v) = polymod_step chk v"
proof -
  have "take_bit 30 (push_bit 5 (take_bit 25 chk)) = push_bit 5 (take_bit 25 chk)"
    by (simp add: take_bit_push_bit)
  moreover have "take_bit 30 (ucast v :: u32) = ucast v"
    by (rule bit_eqI) (auto simp: bit_simps dest: bit_imp_le_length)
  ultimately show ?thesis by (simp add: polymod_step_alt take_bit_xor gen_mask_bound)
qed

lemma bech32Polymod_bound: "take_bit 30 (bech32Polymod vs) = bech32Polymod vs"
  by (cases vs rule: rev_cases) (simp_all add: bech32Polymod_def polymod_step_bound)

lemma polymod_step_inject:
  assumes "polymod_step a v = polymod_step b v" "take_bit 30 a = a" "take_bit 30 b = b"
  shows "a = b"
proof -
  have eq: "gen_mask (drop_bit 25 a) XOR push_bit 5 (take_bit 25 a)
          = gen_mask (drop_bit 25 b) XOR push_bit 5 (take_bit 25 b)"
    using arg_cong [OF assms(1), of "\<lambda>x. x XOR ucast v"] by (simp add: polymod_step_alt xor.assoc)
  have d: "take_bit 5 (drop_bit 25 x) = drop_bit 25 x" if "take_bit 30 x = x" for x :: u32
    using drop_bit_take_bit [of 25 30 x] that by simp
  have "take_bit 5 (gen_mask (drop_bit 25 a)) = take_bit 5 (gen_mask (drop_bit 25 b))"
    using arg_cong [OF eq, of "take_bit 5"] by (simp add: take_bit_xor take_bit_push_bit)
  then have high: "drop_bit 25 a = drop_bit 25 b" using d assms(2,3) by (simp add: gen_mask_inject)
  then have "push_bit 5 (take_bit 25 a) = push_bit 5 (take_bit 25 b)"
    using arg_cong [OF eq, of "\<lambda>x. gen_mask (drop_bit 25 b) XOR x"] by (simp add: xor.assoc [symmetric])
  then have "take_bit 25 a = take_bit 25 b"
    using pack_step_high [of "take_bit 25 a" 0] pack_step_high [of "take_bit 25 b" 0] by simp
  then show ?thesis using high by (metis bits_ident)
qed

end
