(* ===== verification/AddressText.thy ===== *)
theory AddressText
  imports Bech32
begin

text \<open>
  Properties of the text addresses of \<^verbatim>\<open>core/types/qday_address.go\<close>: regrouping of bits keeps the number
  that the groups spell, printing followed by parsing is the identity, an accepted text is the printed
  one up to case, and no two accepted texts differ in one symbol only.
\<close>

section \<open>Regrouping bits\<close>

text \<open>The number that a list of \<open>b\<close>-bit groups spells, most significant group first.\<close>

definition group_num :: "nat \<Rightarrow> byte list \<Rightarrow> nat" where
  "group_num b xs = foldl (\<lambda>n v. n * 2 ^ b + unat v) 0 xs"

lemma group_num_Nil [simp]: "group_num b [] = 0"
  by (simp add: group_num_def)

lemma group_num_snoc: "group_num b (xs @ [v]) = group_num b xs * 2 ^ b + unat v"
  by (simp add: group_num_def)

lemma group_num_append: "group_num b (xs @ ys) = group_num b xs * 2 ^ (b * length ys) + group_num b ys"
proof (induction ys rule: rev_induct)
  case (snoc v ys)
  then show ?case
    by (simp add: group_num_snoc append_assoc [symmetric] power_add algebra_simps del: append_assoc)
qed simp

lemma group_num_inject:
  assumes "group_num b xs = group_num b ys" "length xs = length ys"
    "\<forall>v \<in> set xs. unat v < 2 ^ b" "\<forall>v \<in> set ys. unat v < 2 ^ b"
  shows "xs = ys"
  using assms
proof (induction xs arbitrary: ys rule: rev_induct)
  case (snoc v xs)
  obtain w zs where ys: "ys = zs @ [w]"
    using snoc.prems(2) by (cases ys rule: rev_cases) auto
  have eq: "group_num b xs * 2 ^ b + unat v = group_num b zs * 2 ^ b + unat w"
    and lt: "unat v < 2 ^ b" "unat w < 2 ^ b"
    using snoc.prems by (simp_all add: ys group_num_snoc)
  have "unat v = unat w" using arg_cong [OF eq, of "\<lambda>n. n mod 2 ^ b"] lt by simp
  moreover have "group_num b xs = group_num b zs"
    using arg_cong [OF eq, of "\<lambda>n. n div 2 ^ b"] lt by simp
  ultimately show ?case using snoc ys by (simp add: word_unat_eq_iff)
qed simp

lemma mask_word: "push_bit n 1 - 1 = (mask n :: u32)"
  by (simp add: mask_eq_exp_minus_1 push_bit_eq_mult)

lemma unat_group:
  fixes acc :: u32
  assumes "n \<le> 8"
  shows "unat (ucast (drop_bit k acc AND (push_bit n 1 - 1)) :: byte) = unat acc div 2 ^ k mod 2 ^ n"
proof -
  have lt: "unat acc div 2 ^ k mod 2 ^ n < 256"
  proof -
    have "unat acc div 2 ^ k mod 2 ^ n < 2 ^ n" by simp
    also have "\<dots> \<le> 2 ^ 8" using assms by (rule power_increasing) simp
    finally show ?thesis by simp
  qed
  have "unat (drop_bit k acc AND (push_bit n 1 - 1)) = unat acc div 2 ^ k mod 2 ^ n"
    unfolding mask_word take_bit_eq_mask [symmetric]
    using assms by (simp add: unsigned_take_bit_eq unat_drop_bit_div take_bit_nat_def)
  then show ?thesis using lt by (simp add: unsigned_ucast_eq take_bit_nat_def del: push_bit_of_1)
qed

text \<open>What \<^verbatim>\<open>emit_groups\<close> keeps: the number spelled by the groups and the pending bits.\<close>

lemma emit_groups_spec:
  assumes "emit_groups n acc bits result = (bits', result')" "0 < n" "n \<le> 8"
    "\<forall>v \<in> set result. unat v < 2 ^ n"
  shows "bits' < n \<and> n * length result' + bits' = n * length result + bits
    \<and> group_num n result' * 2 ^ bits' + unat acc mod 2 ^ bits'
        = group_num n result * 2 ^ bits + unat acc mod 2 ^ bits
    \<and> (\<forall>v \<in> set result'. unat v < 2 ^ n)"
  using assms
proof (induction n acc bits result arbitrary: bits' result' rule: emit_groups.induct)
  case (1 n acc bits result)
  show ?case
  proof (cases "n \<le> bits")
    case False
    then show ?thesis using 1 by (simp add: emit_groups.simps [of n acc bits])
  next
    case True
    define x where "x = (ucast (drop_bit (bits - n) acc AND (push_bit n 1 - 1)) :: byte)"
    have x: "unat x = unat acc div 2 ^ (bits - n) mod 2 ^ n"
      unfolding x_def using 1(4) by (rule unat_group)
    have rest: "emit_groups n acc (bits - n) (result @ [x]) = (bits', result')"
      using 1(2,3) True by (simp add: emit_groups.simps [of n acc bits] x_def)
    have pow: "(2 :: nat) ^ bits = 2 ^ (bits - n) * 2 ^ n" using True by (simp flip: power_add)
    have split: "unat acc mod 2 ^ bits = unat x * 2 ^ (bits - n) + unat acc mod 2 ^ (bits - n)"
      unfolding x pow mod_mult2_eq by (simp only: mult.commute)
    have small: "\<forall>v \<in> set (result @ [x]). unat v < 2 ^ n" using 1(5) x by simp
    have IH: "bits' < n \<and> n * length result' + bits' = n * length (result @ [x]) + (bits - n)
      \<and> group_num n result' * 2 ^ bits' + unat acc mod 2 ^ bits'
          = group_num n (result @ [x]) * 2 ^ (bits - n) + unat acc mod 2 ^ (bits - n)
      \<and> (\<forall>v \<in> set result'. unat v < 2 ^ n)"
      using 1(1) True 1(3,4) rest small unfolding x_def by blast
    then show ?thesis unfolding split using True by (simp add: group_num_snoc pow algebra_simps)
  qed
qed

lemma push_or_nat:
  fixes a v :: nat
  assumes "v < 2 ^ f"
  shows "push_bit f a OR v = a * 2 ^ f + v"
proof -
  have "take_bit f v = v" using assms by (simp add: take_bit_nat_eq_self)
  then have "push_bit f a AND v = push_bit f a AND take_bit f v" by simp
  also have "\<dots> = 0" by (rule bit_eqI) (auto simp: bit_simps)
  finally show ?thesis by (simp add: disjunctive_add_eq_or [symmetric] push_bit_eq_mult)
qed

lemma unat_accumulate:
  fixes acc :: u32 and v :: byte
  assumes "bits < n" "f + n \<le> 16" "unat v < 2 ^ f"
  shows "unat ((push_bit f acc OR ucast v) AND (push_bit (f + n - 1) 1 - 1)) mod 2 ^ (bits + f)
       = unat acc mod 2 ^ bits * 2 ^ f + unat v" (is "unat (?w AND _) mod _ = _")
proof -
  have "unat (?w AND (push_bit (f + n - 1) 1 - 1)) = take_bit (f + n - 1) (unat ?w)"
    unfolding mask_word take_bit_eq_mask [symmetric] by (rule unsigned_take_bit_eq)
  then have "unat (?w AND (push_bit (f + n - 1) 1 - 1)) mod 2 ^ (bits + f) = take_bit (bits + f) (take_bit (f + n - 1) (unat ?w))"
    by (simp only: take_bit_nat_def [of "bits + f"])
  also have "\<dots> = take_bit (bits + f) (unat ?w)"
    unfolding take_bit_take_bit using assms(1) by (intro arg_cong2 [of _ _ _ _ take_bit]) auto
  also have "unat ?w = take_bit 32 (push_bit f (unat acc) OR unat v)"
    using unat_ucast_byte [of v]
    by (simp add: unsigned_or_eq unsigned_push_bit_eq take_bit_or unsigned_ucast_eq)
  also have "take_bit (bits + f) \<dots> = (unat acc * 2 ^ f + unat v) mod 2 ^ (bits + f)"
    using assms by (simp add: push_or_nat min_def take_bit_nat_def [symmetric])
  also have "\<dots> = 2 ^ f * (unat acc mod 2 ^ bits) + unat v"
    unfolding add.commute [of bits f] power_add mod_mult2_eq using assms(3) by simp
  finally show ?thesis by simp
qed

lemma convert_loop_spec:
  assumes "0 < n" "n \<le> 8" "f \<le> 8" "bits < n"
    "\<forall>v \<in> set result. unat v < 2 ^ n" "\<forall>v \<in> set vs. unat v < 2 ^ f"
  shows "\<exists>acc' bits' result'. convert_loop f n vs acc bits result = Ok (acc', bits', result')
    \<and> bits' < n \<and> n * length result' + bits' = n * length result + bits + f * length vs
    \<and> group_num n result' * 2 ^ bits' + unat acc' mod 2 ^ bits'
        = (group_num n result * 2 ^ bits + unat acc mod 2 ^ bits) * 2 ^ (f * length vs) + group_num f vs
    \<and> (\<forall>v \<in> set result'. unat v < 2 ^ n)"
  using assms
proof (induction vs arbitrary: acc bits result)
  case (Cons v vs)
  let ?a = "(push_bit f acc OR ucast v) AND (push_bit (f + n - 1) 1 - 1) :: u32"
  obtain bits1 result1 where e: "emit_groups n ?a (bits + f) result = (bits1, result1)"
    by fastforce
  have v: "unat v < 2 ^ f" and fn: "f + n \<le> 16" using Cons.prems by auto
  note emit = emit_groups_spec [OF e Cons.prems(1,2,5)]
  obtain acc' bits' result' where
      loop: "convert_loop f n vs ?a bits1 result1 = Ok (acc', bits', result')"
    and left: "bits' < n" "n * length result' + bits' = n * length result1 + bits1 + f * length vs"
    and num: "group_num n result' * 2 ^ bits' + unat acc' mod 2 ^ bits'
        = (group_num n result1 * 2 ^ bits1 + unat ?a mod 2 ^ bits1) * 2 ^ (f * length vs) + group_num f vs"
    and small: "\<forall>v \<in> set result'. unat v < 2 ^ n"
    using Cons.IH [of bits1 result1 ?a] Cons.prems emit by auto
  have step: "group_num n result1 * 2 ^ bits1 + unat ?a mod 2 ^ bits1
      = (group_num n result * 2 ^ bits + unat acc mod 2 ^ bits) * 2 ^ f + unat v"
    using emit unat_accumulate [OF Cons.prems(4) fn v] by (simp add: power_add algebra_simps)
  have "group_num f (v # vs) = unat v * 2 ^ (f * length vs) + group_num f vs"
    using group_num_append [of f "[v]" vs] group_num_snoc [of f "[]" v] by simp
  then have "group_num n result' * 2 ^ bits' + unat acc' mod 2 ^ bits'
      = (group_num n result * 2 ^ bits + unat acc mod 2 ^ bits) * 2 ^ (f * length (v # vs))
        + group_num f (v # vs)"
    unfolding num step by (simp add: power_add algebra_simps)
  moreover have "drop_bit f (ucast v :: u32) = 0"
    using v unat_ucast_byte [of v] by (simp add: word_unat_eq_iff unat_drop_bit_div)
  then have "convert_loop f n (v # vs) acc bits result = Ok (acc', bits', result')"
    using e loop by (simp del: push_bit_of_1)
  moreover have "n * length result' + bits' = n * length result + bits + f * length (v # vs)"
    using left(2) emit by simp
  ultimately show ?case using left(1) small by blast
qed simp

lemma unat_push_take:
  fixes acc :: u32
  assumes "k \<le> 4"
  shows "unat (push_bit 4 (take_bit k acc)) = (unat acc mod 2 ^ k) * 16"
proof -
  have "unat acc mod 2 ^ k < 2 ^ k" by simp
  also have "\<dots> \<le> 2 ^ 4" using assms by (rule power_increasing) simp
  finally have "(unat acc mod 2 ^ k) * 16 < 2 ^ 32" by simp
  moreover have "unat (push_bit 4 (take_bit k acc)) = take_bit 32 (push_bit 4 (take_bit k (unat acc)))"
    by (simp only: unsigned_push_bit_eq unsigned_take_bit_eq len_num1 len_bit0) simp
  ultimately show ?thesis by (simp add: take_bit_nat_def push_bit_nat_def)
qed

lemma to_groups:
  assumes "length b = 32"
  shows "\<exists>d. bech32ConvertBits b 8 5 True = Ok d \<and> length d = 52
    \<and> (\<forall>v \<in> set d. unat v < 32) \<and> group_num 5 d = group_num 8 b * 16"
proof -
  obtain acc bits r where loop: "convert_loop 8 5 b 0 0 [] = Ok (acc, bits, r)"
    and len: "bits < 5" "5 * length r + bits = 256"
    and num: "group_num 5 r * 2 ^ bits + unat acc mod 2 ^ bits = group_num 8 b"
    and small: "\<forall>v \<in> set r. unat v < 2 ^ 5"
    using convert_loop_spec [of 5 8 0 "[]" b 0] assms unat_u8_lt by auto
  have b1: "bits = 1" "length r = 51" using len by presburger+
  let ?x = "ucast (push_bit 4 acc AND 31) :: byte"
  have "unat ?x = unat (take_bit 5 (push_bit 4 acc)) mod 256"
    by (simp add: and_31 unsigned_ucast_eq take_bit_nat_def)
  also have "\<dots> = (unat acc mod 2) * 16"
    unfolding take_bit_push_bit using unat_push_take [of 1 acc] by simp
  finally have x: "unat ?x = (unat acc mod 2) * 16" .
  then have "group_num 5 (r @ [?x]) = group_num 8 b * 16"
    using num b1 by (simp add: group_num_snoc)
  moreover have "unat ?x < 32" using x by simp
  moreover have "bech32ConvertBits b 8 5 True = Ok (r @ [?x])"
    using loop b1 by (simp add: bech32ConvertBits_def)
  ultimately show ?thesis using b1 small by auto
qed

lemma from_groups:
  assumes "length d = 52" "\<forall>v \<in> set d. unat v < 32"
  shows "\<exists>b. length b = 32 \<and> group_num 8 b = group_num 5 d div 16
    \<and> bech32ConvertBits d 5 8 False
        = (if group_num 5 d mod 16 = 0 then Ok b else Err ''noncanonical Bech32m padding'')"
proof -
  obtain acc bits r where loop: "convert_loop 5 8 d 0 0 [] = Ok (acc, bits, r)"
    and len: "bits < 8" "8 * length r + bits = 260"
    and num: "group_num 8 r * 2 ^ bits + unat acc mod 2 ^ bits = group_num 5 d"
    using convert_loop_spec [of 8 5 0 "[]" d 0] assms by auto
  have b4: "bits = 4" "length r = 32" using len by presburger+
  have num16: "group_num 5 d = unat acc mod 16 + group_num 8 r * 16" using num b4 by simp
  have "push_bit 4 acc AND 255 = push_bit 4 (take_bit 4 acc)"
    using take_bit_push_bit [of 8 4 acc] by (simp add: take_bit_eq_mask mask_eq_exp_minus_1)
  then have "unat (push_bit 4 acc AND 255) = 16 * (unat acc mod 16)"
    using unat_push_take [of 4 acc] by simp
  then have "push_bit 4 acc AND 255 = 0 \<longleftrightarrow> group_num 5 d mod 16 = 0"
    unfolding num16 by (simp add: word_unat_eq_iff)
  then have "bech32ConvertBits d 5 8 False
      = (if group_num 5 d mod 16 = 0 then Ok r else Err ''noncanonical Bech32m padding'')"
    using loop b4 by (simp add: bech32ConvertBits_def)
  moreover have "group_num 8 r = group_num 5 d div 16" unfolding num16 by simp
  ultimately show ?thesis using b4 by blast
qed

lemma group_num_bytes_inject: "group_num 8 xs = group_num 8 ys \<Longrightarrow> length xs = length ys \<Longrightarrow> xs = ys"
  using unat_u8_lt by (intro group_num_inject [of 8]) auto

lemma regroup_roundtrip:
  assumes "length b = 32" "bech32ConvertBits b 8 5 True = Ok d"
  shows "length d = 52 \<and> (\<forall>v \<in> set d. unat v < 32) \<and> bech32ConvertBits d 5 8 False = Ok b"
proof -
  have d: "length d = 52" "\<forall>v \<in> set d. unat v < 32" "group_num 5 d = group_num 8 b * 16"
    using to_groups [OF assms(1)] assms(2) by auto
  obtain b' where "length b' = 32" "group_num 8 b' = group_num 8 b" "bech32ConvertBits d 5 8 False = Ok b'"
    using from_groups [OF d(1,2)] d(3) by auto
  then show ?thesis using group_num_bytes_inject [of b' b] assms(1) d by auto
qed

lemma regroup_canonical:
  assumes "length d = 52" "\<forall>v \<in> set d. unat v < 32" "bech32ConvertBits d 5 8 False = Ok b"
  shows "length b = 32 \<and> bech32ConvertBits b 8 5 True = Ok d"
proof -
  have b: "length b = 32" "group_num 8 b * 16 = group_num 5 d"
    using from_groups [OF assms(1,2)] assms(3) by (auto split: if_splits)
  obtain d' where d': "bech32ConvertBits b 8 5 True = Ok d'" "length d' = 52"
      "\<forall>v \<in> set d'. unat v < 32" "group_num 5 d' = group_num 5 d"
    using to_groups [OF b(1)] b(2) by auto
  have "d' = d" using group_num_inject [of 5 d' d] d' assms(1,2) by simp
  then show ?thesis using d' b by simp
qed

section \<open>Symbols and characters\<close>

definition sym_char :: "byte \<Rightarrow> byte" where
  "sym_char v = bech32Alphabet ! unat v"

definition char_sym :: "byte \<Rightarrow> byte" where
  "char_sym b = word_of_nat (the (index_byte bech32Alphabet b))"

lemma alphabet_length [simp]: "length bech32Alphabet = 32"
  by (simp add: bech32Alphabet_def ascii_def)

lemma alphabet_chars:
  "\<forall>b \<in> set bech32Alphabet. b \<noteq> 49 \<and> 33 \<le> b \<and> b \<le> 126 \<and> \<not> (65 \<le> b \<and> b \<le> 90)"
  by code_simp

lemma alphabet_index: "\<forall>n \<in> set [0..<32]. index_byte bech32Alphabet (bech32Alphabet ! n) = Some n"
  by code_simp

lemma index_byte_Some: "index_byte bs x = Some i \<Longrightarrow> i < length bs \<and> bs ! i = x"
  by (induction bs arbitrary: i) (auto split: if_splits)

lemma index_byte_None: "index_byte bs x = None \<longleftrightarrow> x \<notin> set bs"
  by (induction bs) auto

lemma char_sym_sym_char: "unat v < 32 \<Longrightarrow> char_sym (sym_char v) = v"
  using alphabet_index by (simp add: char_sym_def sym_char_def)

lemma sym_char_char_sym: "b \<in> set bech32Alphabet \<Longrightarrow> sym_char (char_sym b) = b \<and> unat (char_sym b) < 32"
proof -
  assume "b \<in> set bech32Alphabet"
  then obtain n where n: "index_byte bech32Alphabet b = Some n" using index_byte_None by fastforce
  then have "n < 32" "bech32Alphabet ! n = b" using index_byte_Some by fastforce+
  then show ?thesis using n by (simp add: sym_char_def char_sym_def take_bit_nat_eq_self unsigned_of_nat)
qed

lemma sym_char_alphabet: "unat v < 32 \<Longrightarrow> sym_char v \<in> set bech32Alphabet"
  by (simp add: sym_char_def)

lemma symbols_Ok: "\<forall>v \<in> set vs. unat v < 32 \<Longrightarrow> symbols vs = Ok (map sym_char vs)"
  by (induction vs) (auto simp: alphabet_at_def sym_char_def)

lemma data_values_Ok:
  "data_values bs = Ok vs \<longleftrightarrow> set bs \<subseteq> set bech32Alphabet \<and> vs = map char_sym bs"
proof (induction bs arbitrary: vs)
  case (Cons b bs)
  show ?case
  proof (cases "index_byte bech32Alphabet b")
    case None
    then have "b \<notin> set bech32Alphabet" by (simp add: index_byte_None)
    then show ?thesis using None by simp
  next
    case (Some n)
    then have "b \<in> set bech32Alphabet" using index_byte_Some by fastforce
    then show ?thesis using Some Cons by (auto simp: char_sym_def res_simps)
  qed
qed auto

section \<open>Case\<close>

definition no_upper :: "byte list \<Rightarrow> bool" where
  "no_upper s \<longleftrightarrow> (\<forall>b \<in> set s. \<not> (65 \<le> b \<and> b \<le> 90))"

lemma to_lower_no_upper: "no_upper s \<longleftrightarrow> to_lower s = s"
proof -
  have "to_lower s = s \<longleftrightarrow> map (\<lambda>b. if 65 \<le> b \<and> b \<le> 90 then b + 32 else b) s = map (\<lambda>b. b) s"
    by (simp only: to_lower_def list.map_ident)
  then show ?thesis unfolding map_eq_conv by (auto simp: no_upper_def)
qed

lemma no_upper_to_lower: "no_upper (to_lower s)"
proof -
  have "\<not> (65 \<le> b + 32 \<and> b + 32 \<le> 90)" if "65 \<le> b" "b \<le> 90" for b :: byte
  proof -
    have "unat (b + 32) = unat b + 32"
      using that by (simp add: word_le_nat_alt unat_word_ariths)
    then show ?thesis using that by (simp add: word_le_nat_alt)
  qed
  then show ?thesis by (auto simp: no_upper_def to_lower_def)
qed

lemma length_to_lower [simp]: "length (to_lower s) = length s"
  by (simp add: to_lower_def)

section \<open>Decoding\<close>

lemma last_index_byte_split:
  assumes "x \<notin> set ds"
  shows "last_index_byte (hrp @ x # ds) x = Some (length hrp)"
proof -
  have "index_byte (us @ x # ws) x = Some (length us)" if "x \<notin> set us" for us ws
    using that by (induction us) auto
  from this [of "rev ds" "rev hrp"] show ?thesis using assms by (simp add: last_index_byte_def)
qed

lemma last_index_byte_Some:
  assumes "last_index_byte s x = Some i"
  shows "i < length s \<and> s = take i s @ x # drop (i + 1) s"
proof -
  obtain j where j: "index_byte (rev s) x = Some j" "i = length s - 1 - j"
    using assms by (auto simp: last_index_byte_def)
  then have "j < length s" "rev s ! j = x" using index_byte_Some by fastforce+
  then have "i < length s" "s ! i = x" using j(2) by (auto simp: rev_nth)
  then show ?thesis using id_take_nth_drop [of i s] by simp
qed

text \<open>What an accepted text looks like.\<close>

lemma bech32mDecode_Ok:
  assumes "bech32mDecode s = Ok (hrp, data)"
  obtains ds where "to_lower s = hrp @ 49 # ds" "set ds \<subseteq> set bech32Alphabet" "6 \<le> length ds"
    "data = take (length ds - 6) (map char_sym ds)"
    "bech32Polymod (bech32Expand hrp @ map char_sym ds) = bech32mConstant"
    "s = to_lower s \<or> s = to_upper s"
proof -
  have "case": "s = to_lower s \<or> s = to_upper s" and chars: "\<not> (\<exists>b \<in> set s. b < 33 \<or> 126 < b)"
    and len: "\<not> (length s < 8 \<or> 90 < length s \<or> (s \<noteq> to_lower s \<and> s \<noteq> to_upper s))"
    using assms by (auto simp only: bech32mDecode_def split: if_splits)
  obtain sep where sep: "last_index_byte (to_lower s) 49 = Some sep"
    using assms len chars by (cases "last_index_byte (to_lower s) 49") (simp_all only: bech32mDecode_def Let_def option.case if_False res.distinct)
  have sep7: "\<not> (sep < 1 \<or> length (to_lower s) < sep + 7)"
    using assms len chars sep 
    by (auto simp only: bech32mDecode_def Let_def option.case if_False res.distinct split: if_splits)
  obtain vs where vs: "data_values (drop (sep + 1) (to_lower s)) = Ok vs"
    and hrp: "hrp = take sep (to_lower s)" and data: "data = take (length vs - 6) vs"
    and poly: "bech32Polymod (bech32Expand hrp @ vs) = bech32mConstant"
    using assms len chars sep sep7
    by (auto simp only: bech32mDecode_def Let_def option.case if_False rbind_Ok_iff res.inject Pair_inject
        split: if_splits)
  show thesis
  proof (rule that)
    show "to_lower s = hrp @ 49 # drop (sep + 1) (to_lower s)"
      using last_index_byte_Some [OF sep] hrp by simp
    have eq: "vs = map char_sym (drop (sep + 1) (to_lower s))" and
        "set (drop (sep + 1) (to_lower s)) \<subseteq> set bech32Alphabet"
      using vs by (simp_all only: data_values_Ok)
    then show "set (drop (sep + 1) (to_lower s)) \<subseteq> set bech32Alphabet" by simp
    show "data = take (length (drop (sep + 1) (to_lower s)) - 6) (map char_sym (drop (sep + 1) (to_lower s)))"
      using data eq by simp
    show "bech32Polymod (bech32Expand hrp @ map char_sym (drop (sep + 1) (to_lower s))) = bech32mConstant"
      using poly eq by simp
    show "6 \<le> length (drop (sep + 1) (to_lower s))" using sep7 by auto
  qed (use "case" in blast)
qed

lemma xor_solve: "a XOR b = c \<longleftrightarrow> b = a XOR c" for a b c :: u32
proof -
  have "a XOR (a XOR x) = x" for x by (simp only: xor.assoc [symmetric] xor_self_eq xor.left_neutral)
  then show ?thesis by metis
qed

lemma check_symbols_length [simp]: "length (check_symbols check) = 6"
  by (simp add: check_symbols_def)

lemma polymod_checksum:
  assumes "\<forall>v \<in> set cs. v < 32" "length cs = 6"
  shows "bech32Polymod (xs @ cs) = bech32Polymod (xs @ replicate 6 0) XOR pack cs"
  using foldl_polymod_pack [of cs "bech32Polymod xs"] assms by (simp add: bech32Polymod_def)

text \<open>The six checksum symbols are the ones that the encoder writes.\<close>

lemma checksum_unique:
  assumes "\<forall>v \<in> set cs. v < 32" "length cs = 6"
  shows "bech32Polymod (xs @ cs) = bech32mConstant
    \<longleftrightarrow> cs = check_symbols (bech32Polymod (xs @ replicate 6 0) XOR bech32mConstant)"
proof -
  let ?p = "bech32Polymod (xs @ replicate 6 0)"
  let ?check = "?p XOR bech32mConstant"
  have bound: "take_bit 30 ?check = ?check"
    by (simp add: take_bit_xor bech32Polymod_bound) (simp add: bech32mConstant_def)
  have "?p XOR pack cs = bech32mConstant \<longleftrightarrow> pack cs = ?check" by (rule xor_solve)
  also have "\<dots> \<longleftrightarrow> cs = check_symbols ?check"
  proof
    assume "pack cs = ?check"
    then have "pack cs = pack (check_symbols ?check)" by (simp only: pack_check_symbols [OF bound])
    then show "cs = check_symbols ?check"
      by (rule pack_inject) (use assms check_symbols_small in simp_all)
  qed (simp only: pack_check_symbols [OF bound])
  finally show ?thesis unfolding polymod_checksum [OF assms] .
qed

lemma check_unat: "v \<in> set (check_symbols check) \<Longrightarrow> unat v < 32"
  using check_symbols_small by (simp add: word_less_nat_alt)

lemma small_word: "\<forall>v \<in> set vs. unat v < 32 \<Longrightarrow> \<forall>v \<in> set vs. (v :: byte) < 32"
  by (simp add: word_less_nat_alt)

lemma bech32mEncode_Ok:
  assumes "\<forall>v \<in> set data. unat v < 32"
  shows "bech32mEncode hrp data = Ok (hrp @ 49 # map sym_char (data @
    check_symbols (bech32Polymod ((bech32Expand hrp @ data) @ replicate 6 0) XOR bech32mConstant)))"
  using assms check_unat by (simp add: bech32mEncode_def Let_def symbols_Ok ascii_def)

lemma decode_encode:
  assumes hrp: "no_upper hrp" "\<forall>b \<in> set hrp. 33 \<le> b \<and> b \<le> 126" "hrp \<noteq> []"
    and data: "\<forall>v \<in> set data. unat v < 32" "length hrp + length data \<le> 83"
    and enc: "bech32mEncode hrp data = Ok s"
  shows "length s = length hrp + length data + 7 \<and> bech32mDecode s = Ok (hrp, data)"
proof -
  define cs where "cs = check_symbols (bech32Polymod ((bech32Expand hrp @ data) @ replicate 6 0) XOR bech32mConstant)"
  have cs: "length cs = 6" "\<forall>v \<in> set cs. unat v < 32" using check_unat by (auto simp: cs_def)
  have s: "s = hrp @ 49 # map sym_char (data @ cs)"
    using enc bech32mEncode_Ok [OF data(1)] by (simp add: cs_def)
  have alpha: "set (map sym_char (data @ cs)) \<subseteq> set bech32Alphabet"
    using data(1) cs(2) sym_char_alphabet by auto
  then have "49 \<notin> set (map sym_char (data @ cs))" using alphabet_chars by blast
  then have sep: "last_index_byte s 49 = Some (length hrp)" unfolding s by (rule last_index_byte_split)
  have "no_upper s" using hrp(1) alpha alphabet_chars unfolding s no_upper_def by auto
  then have lower: "to_lower s = s" by (simp add: to_lower_no_upper)
  have chars: "\<not> (\<exists>b \<in> set s. b < 33 \<or> 126 < b)"
    using hrp(2) alpha alphabet_chars unfolding s by (auto simp: not_less)
  have inv: "map char_sym (map sym_char (data @ cs)) = data @ cs"
    unfolding map_map using data(1) cs(2) char_sym_sym_char by (intro map_idI) auto
  have "data_values (drop (length hrp + 1) s) = Ok (data @ cs)"
    using alpha inv unfolding s data_values_Ok by simp
  moreover have "bech32Polymod (bech32Expand hrp @ data @ cs) = bech32mConstant"
    using checksum_unique [OF small_word [OF cs(2)] cs(1), of "bech32Expand hrp @ data"] by (simp add: cs_def)
  moreover have len: "length s = length hrp + length data + 7" using cs by (simp add: s)
  moreover have "take (length hrp) s = hrp" by (simp add: s)
  moreover have "length hrp \<noteq> 0" using hrp(3) by simp
  ultimately show ?thesis
    using chars sep data(2) cs(1) unfolding bech32mDecode_def lower Let_def by simp
qed

lemma encode_decode:
  assumes "bech32mDecode s = Ok (hrp, data)"
  shows "(\<forall>v \<in> set data. unat v < 32) \<and> bech32mEncode hrp data = Ok (to_lower s)"
proof -
  obtain ds where s: "to_lower s = hrp @ 49 # ds" "set ds \<subseteq> set bech32Alphabet" "6 \<le> length ds"
    and data: "data = take (length ds - 6) (map char_sym ds)"
    and poly: "bech32Polymod (bech32Expand hrp @ map char_sym ds) = bech32mConstant"
    using bech32mDecode_Ok [OF assms] .
  define cs where "cs = drop (length ds - 6) (map char_sym ds)"
  have split: "map char_sym ds = data @ cs" by (simp add: data cs_def)
  have len: "length cs = 6" using s(3) by (simp add: cs_def)
  have small: "\<forall>v \<in> set (map char_sym ds). unat v < 32" using s(2) sym_char_char_sym by auto
  then have small2: "\<forall>v \<in> set data. unat v < 32" "\<forall>v \<in> set cs. unat v < 32" unfolding split by auto
  have "cs = check_symbols (bech32Polymod ((bech32Expand hrp @ data) @ replicate 6 0) XOR bech32mConstant)"
    using checksum_unique [OF small_word [OF small2(2)] len, of "bech32Expand hrp @ data"] poly
    unfolding split append_assoc by blast
  then have "bech32mEncode hrp data = Ok (hrp @ 49 # map sym_char (map char_sym ds))"
    using bech32mEncode_Ok [OF small2(1), of hrp] unfolding split by argo
  moreover have "map sym_char (map char_sym ds) = ds"
    unfolding map_map using s(2) sym_char_char_sym by (intro map_idI) auto
  ultimately show ?thesis using s(1) small2(1) by simp
qed

section \<open>Addresses\<close>

lemma hrp_qday: "no_upper (ascii ''qday'')" "\<forall>b \<in> set (ascii ''qday''). 33 \<le> b \<and> b \<le> 126"
    "length (ascii ''qday'') = 4"
  by (simp_all add: no_upper_def ascii_def)

lemma QdayAddress_String_data:
  obtains d where "bech32ConvertBits (hash_bytes a) 8 5 True = Ok d" "length d = 52"
    "\<forall>v \<in> set (1 # d). unat v < 32" "bech32ConvertBits d 5 8 False = Ok (hash_bytes a)"
    "QdayAddress_String a = bech32mEncode (ascii ''qday'') (1 # d)"
proof -
  obtain d where d: "bech32ConvertBits (hash_bytes a) 8 5 True = Ok d"
    using to_groups [of "hash_bytes a"] by auto
  show thesis
    using regroup_roundtrip [OF _ d] d by (intro that [of d]) (simp_all add: QdayAddress_String_def)
qed

lemma ParseQdayAddress_Ok:
  assumes "ParseQdayAddress c s = Ok a" "length s = 64"
  obtains d where "bech32mDecode s = Ok (ascii ''qday'', 1 # d)" "length d = 52"
    "bech32ConvertBits d 5 8 False = Ok (hash_bytes a)" "a \<noteq> 0"
proof -
  obtain hrp data where dec: "bech32mDecode s = Ok (hrp, data)"
    using assms by (cases "bech32mDecode s") (auto simp: ParseQdayAddress_def)
  then have hd: "hrp = ascii ''qday''" "length data = 53" "hd data = 1"
    using assms by (auto simp: ParseQdayAddress_def split: if_splits)
  then obtain d where d: "data = 1 # d" "length d = 52" by (cases data) auto
  obtain b where b: "bech32ConvertBits d 5 8 False = Ok b"
    using assms dec hd d by (cases "bech32ConvertBits d 5 8 False") (auto simp: ParseQdayAddress_def)
  then have "length b = 32" "hash_of_bytes b = a" "a \<noteq> 0"
    using assms dec hd d
    by (auto simp: ParseQdayAddress_def QdayAddress_Validate_def res_simps split: if_splits)
  then show thesis using dec hd d b by (intro that) (auto simp: hash_bytes_of_bytes)
qed

lemma address_text:
  assumes "a \<noteq> 0"
  obtains s where "QdayAddress_String a = Ok s" "length s = 64" "ParseQdayAddress c s = Ok a"
    "list_all (\<lambda>b. 33 \<le> b \<and> b \<le> 126) s"
proof -
  obtain d where d: "length d = 52" "\<forall>v \<in> set (1 # d). unat v < 32"
      "bech32ConvertBits d 5 8 False = Ok (hash_bytes a)"
    and str: "QdayAddress_String a = bech32mEncode (ascii ''qday'') (1 # d)"
    using QdayAddress_String_data [of a] by metis
  obtain s where s: "bech32mEncode (ascii ''qday'') (1 # d) = Ok s" using bech32mEncode_Ok [OF d(2)] by blast
  have dec: "length s = 64 \<and> bech32mDecode s = Ok (ascii ''qday'', 1 # d)"
    using decode_encode [OF hrp_qday(1,2) _ d(2) _ s] d(1) hrp_qday(3) by fastforce
  then have "list_all (\<lambda>b. 33 \<le> b \<and> b \<le> 126) s"
    by (auto simp: bech32mDecode_def list_all_iff not_less split: if_splits)
  then show thesis
    using that str s d assms dec by (simp add: ParseQdayAddress_def QdayAddress_Validate_def)
qed

text \<open>C24: The text of every nonzero address has 64 characters and parses back to the same address: the
  version symbol, the 52 regrouped symbols with their four padding bits and the Bech32m checksum are
  all accepted, whatever the hash functions are.\<close>

theorem address_text_roundtrip:
  assumes "a \<noteq> 0"
  shows "\<exists>s. QdayAddress_String a = Ok s \<and> length s = 64 \<and> ParseQdayAddress c s = Ok a"
  using address_text [OF assms, of c] by metis

theorem address_text_roundtrip_witness:
  "\<exists>s. QdayAddress_String 7 = Ok s \<and> length s = 64 \<and> ParseQdayAddress sample_crypto s = Ok 7"
  using address_text_roundtrip [of 7 sample_crypto] by simp

text \<open>C25: An accepted 64-character text is, up to letter case, exactly the text that is printed for the
  address it denotes. So an address has one canonical spelling: version, padding bits and checksum
  leave no freedom.\<close>

theorem address_text_canonical:
  assumes "ParseQdayAddress c s = Ok a" "length s = 64"
  shows "QdayAddress_String a = Ok (to_lower s)"
proof -
  obtain d where dec: "bech32mDecode s = Ok (ascii ''qday'', 1 # d)" and d: "length d = 52"
    and conv: "bech32ConvertBits d 5 8 False = Ok (hash_bytes a)"
    using ParseQdayAddress_Ok [OF assms] .
  have enc: "\<forall>v \<in> set (1 # d). unat v < 32" "bech32mEncode (ascii ''qday'') (1 # d) = Ok (to_lower s)"
    using encode_decode [OF dec] by auto
  have "bech32ConvertBits (hash_bytes a) 8 5 True = Ok d"
    using regroup_canonical [OF d _ conv] enc(1) by simp
  then show ?thesis using enc(2) by (simp add: QdayAddress_String_def)
qed

definition sample_text :: "byte list" where
  "sample_text = ascii ''qday1pqqqqqqqqqqqqqqqqqqqqqqqqqqqqqqqqqqqqqqqqqqqqqqqqqqrsevd67s''"

lemma sample_text_parses: "ParseQdayAddress sample_crypto sample_text = Ok 7" "length sample_text = 64"
  by code_simp+

theorem address_text_canonical_witness:
  "ParseQdayAddress sample_crypto sample_text = Ok 7 \<and> length sample_text = 64
    \<and> QdayAddress_String 7 = Ok (to_lower sample_text)"
  using address_text_canonical [OF sample_text_parses] sample_text_parses by simp

text \<open>Symbols at one position do not compensate for each other.\<close>

lemma foldl_polymod_inject:
  assumes "foldl polymod_step a zs = foldl polymod_step b zs" "take_bit 30 a = a" "take_bit 30 b = b"
  shows "a = b"
  using assms
proof (induction zs arbitrary: a b)
  case (Cons z zs)
  have "polymod_step a z = polymod_step b z"
    using Cons.IH [of "polymod_step a z" "polymod_step b z"] Cons.prems(1) by (simp add: polymod_step_bound)
  then show ?case using polymod_step_inject Cons.prems by blast
qed simp

lemma polymod_one_symbol:
  assumes "bech32Polymod (xs @ v # zs) = bech32Polymod (xs @ w # zs)"
  shows "v = w"
proof -
  let ?s = "foldl polymod_step 1 xs"
  have "polymod_step ?s v = polymod_step ?s w"
    using assms foldl_polymod_inject [of "polymod_step ?s v" zs "polymod_step ?s w"]
    by (simp add: bech32Polymod_def polymod_step_bound)
  then have "(ucast v :: u32) = ucast w"
    by (metis polymod_step_alt xor_solve)
  then show ?thesis by (simp add: ucast_byte_inject)
qed

lemma accepted_text:
  assumes "ParseQdayAddress c s = Ok a" "length s = 64"
  obtains ds where "to_lower s = ascii ''qday1'' @ ds" "set ds \<subseteq> set bech32Alphabet"
    "bech32Polymod (bech32Expand (ascii ''qday'') @ map char_sym ds) = bech32mConstant"
    "s = to_lower s \<or> s = to_upper s"
proof -
  obtain d where dec: "bech32mDecode s = Ok (ascii ''qday'', 1 # d)"
    using ParseQdayAddress_Ok [OF assms] .
  obtain ds where "to_lower s = ascii ''qday'' @ 49 # ds" "set ds \<subseteq> set bech32Alphabet"
      "bech32Polymod (bech32Expand (ascii ''qday'') @ map char_sym ds) = bech32mConstant"
      "s = to_lower s \<or> s = to_upper s"
    using bech32mDecode_Ok [OF dec] by metis
  then show thesis by (intro that) (auto simp: ascii_def)
qed

lemma same_lower_one_position:
  assumes "to_lower s = ascii ''qday1'' @ ds" "to_lower (s[i := x]) = to_lower s"
    "s = to_lower s \<or> s = to_upper s" "s[i := x] = to_lower (s[i := x]) \<or> s[i := x] = to_upper (s[i := x])"
  shows "s[i := x] = s"
proof -
  have up: "to_upper t = to_upper (to_lower t)" for t
  proof -
    have "97 \<le> b + 32 \<and> b + 32 \<le> 122 \<and> \<not> 97 \<le> b" if "65 \<le> b" "b \<le> 90" for b :: byte
    proof -
      have "unat (b + 32) = unat b + 32" using that by (simp add: word_le_nat_alt unat_word_ariths)
      then show ?thesis using that by (simp add: word_le_nat_alt)
    qed
    then show ?thesis unfolding to_upper_def to_lower_def map_map by (intro map_cong) auto
  qed
  define l where "l = to_lower s"
  define u where "u = to_upper l"
  have "l ! 0 \<noteq> u ! 0" "l ! 1 \<noteq> u ! 1"
    unfolding u_def l_def assms(1) by (simp_all add: ascii_def to_upper_def)
  moreover have "s ! 0 = s[i := x] ! 0 \<or> s ! 1 = s[i := x] ! 1" by (cases "i = 0") auto
  moreover have "s = l \<or> s = u" using assms(3) up [of s] unfolding u_def l_def by argo
  moreover have "s[i := x] = l \<or> s[i := x] = u"
    using assms(2,4) up [of "s[i := x]"] unfolding u_def l_def by argo
  ultimately show ?thesis by metis
qed

text \<open>C26: Replacing any one character of an accepted 64-character address text by a different one
  (in the prefix, the separator, the payload or the checksum, or by changing the case of one letter)
  gives a text that is rejected. A single typing error never sends coins to another address.\<close>

theorem single_typo_rejected:
  assumes "ParseQdayAddress c s = Ok a" "length s = 64" "i < 64" "x \<noteq> s ! i"
  shows "ParseQdayAddress c (s[i := x]) \<noteq> Ok b"
proof
  assume typo: "ParseQdayAddress c (s[i := x]) = Ok b"
  obtain ds where s: "to_lower s = ascii ''qday1'' @ ds" "set ds \<subseteq> set bech32Alphabet"
      "bech32Polymod (bech32Expand (ascii ''qday'') @ map char_sym ds) = bech32mConstant"
      "s = to_lower s \<or> s = to_upper s"
    using accepted_text [OF assms(1,2)] .
  obtain es where t: "to_lower (s[i := x]) = ascii ''qday1'' @ es" "set es \<subseteq> set bech32Alphabet"
      "bech32Polymod (bech32Expand (ascii ''qday'') @ map char_sym es) = bech32mConstant"
      "s[i := x] = to_lower (s[i := x]) \<or> s[i := x] = to_upper (s[i := x])"
    using accepted_text [OF typo] assms(2) by auto
  define y where "y = hd (to_lower [x])"
  have upd: "(ascii ''qday1'' @ ds)[i := y] = ascii ''qday1'' @ es"
    using s(1) t(1) by (simp add: to_lower_def map_update y_def)
  have len5: "length (ascii ''qday1'') = 5" by (simp add: ascii_def)
  have "es = ds"
  proof (cases "i < 5")
    case True
    then show ?thesis using upd len5 by (auto simp: list_update_append)
  next
    case False
    let ?j = "i - 5"
    have j: "?j < length ds" using False assms(2,3) arg_cong [OF s(1), of length] by (simp add: ascii_def)
    have es: "es = ds[?j := y]" using upd False len5 by (simp add: list_update_append)
    let ?pre = "bech32Expand (ascii ''qday'') @ map char_sym (take ?j ds)"
    have "bech32Polymod (?pre @ char_sym y # map char_sym (drop (Suc ?j) ds))
        = bech32Polymod (?pre @ char_sym (ds ! ?j) # map char_sym (drop (Suc ?j) ds))"
      using s(3) t(3) id_take_nth_drop [OF j] unfolding es upd_conv_take_nth_drop [OF j]
      by (metis append_assoc list.simps(9) map_append)
    then have "char_sym y = char_sym (ds ! ?j)" by (rule polymod_one_symbol)
    moreover have "y \<in> set bech32Alphabet" using t(2) es j set_update_memI by fastforce
    moreover have "ds ! ?j \<in> set bech32Alphabet" using s(2) j by auto
    ultimately have "y = ds ! ?j" using sym_char_char_sym by metis
    then show ?thesis by (simp add: es)
  qed
  then have "s[i := x] = s" using same_lower_one_position [OF s(1) _ s(4) t(4)] s(1) t(1) by simp
  then show False using assms by (metis nth_list_update_eq)
qed

theorem single_typo_rejected_witness:
  "ParseQdayAddress sample_crypto sample_text = Ok 7 \<and> (112 :: byte) \<noteq> sample_text ! 30
    \<and> ParseQdayAddress sample_crypto (sample_text[30 := 112]) \<noteq> Ok 8"
proof -
  have "(112 :: byte) \<noteq> sample_text ! 30" by (simp add: sample_text_def ascii_def)
  then show ?thesis using single_typo_rejected [OF sample_text_parses, of 30 112 8] sample_text_parses by simp
qed

end
