(* ===== verification/ElementAccumulator.thy ===== *)
theory ElementAccumulator
  imports MerkleTree
begin

text \<open>
  The element accumulator of \<^verbatim>\<open>core/consensus/merkle.go\<close>: a forest of perfect Merkle trees over all
  elements ever created. The functions that change it also keep the Merkle proofs of the elements up
  to date. A leaf refers to the state element of its owner through a Go pointer; here the leaf carries
  the state element itself, with a number \<open>el_ref\<close> that tells whose it is.
\<close>

section \<open>Proofs\<close>

definition leafHashPrefix :: byte where
  "leafHashPrefix = 0"

definition mergeHeight :: "u64 \<Rightarrow> u64 \<Rightarrow> nat" where
  "mergeHeight x y = len64 (x XOR y)"

definition clearBits :: "u64 \<Rightarrow> nat \<Rightarrow> u64" where
  "clearBits x n = x AND NOT (push_bit n 1 - 1)"

text \<open>The loop of \<^verbatim>\<open>proofRoot\<close> from proof element \<open>i\<close> on.\<close>

fun proof_root_from :: "crypto \<Rightarrow> u64 \<Rightarrow> nat \<Rightarrow> hash256 \<Rightarrow> hash256 list \<Rightarrow> hash256" where
  "proof_root_from c leafIndex i root [] = root"
| "proof_root_from c leafIndex i root (h # hs) =
     proof_root_from c leafIndex (Suc i)
       (if leafIndex AND push_bit i 1 = 0 then SumPair c root h else SumPair c h root) hs"

definition proofRoot :: "crypto \<Rightarrow> hash256 \<Rightarrow> u64 \<Rightarrow> hash256 list \<Rightarrow> hash256" where
  "proofRoot c leafHash leafIndex prf = proof_root_from c leafIndex 0 leafHash prf"

definition storageProofRoot :: "crypto \<Rightarrow> hash256 \<Rightarrow> u64 \<Rightarrow> u64 \<Rightarrow> hash256 list \<Rightarrow> hash256" where
  "storageProofRoot c leafHash leafIndex filesize prf =
     (let lastLeafIndex = (if filesize mod 64 = 0 then filesize div 64 - 1 else filesize div 64);
          subtreeHeight = len64 (leafIndex XOR lastLeafIndex)
      in if length prf < subtreeHeight then 0
         else fold (\<lambda>h root. SumPair c h root) (drop subtreeHeight prf)
                (proofRoot c leafHash leafIndex (take subtreeHeight prf)))"

section \<open>Leaves\<close>

record elementLeaf =
  el_ref :: nat
  el_StateElement :: StateElement
  el_elementHash :: hash256
  el_spent :: bool

abbreviation el_LeafIndex :: "elementLeaf \<Rightarrow> u64" where
  "el_LeafIndex l \<equiv> se_LeafIndex (el_StateElement l)"

abbreviation el_MerkleProof :: "elementLeaf \<Rightarrow> hash256 list" where
  "el_MerkleProof l \<equiv> se_MerkleProof (el_StateElement l)"

definition set_proof :: "hash256 list \<Rightarrow> elementLeaf \<Rightarrow> elementLeaf" where
  "set_proof p l = l\<lparr>el_StateElement := (el_StateElement l)\<lparr>se_MerkleProof := p\<rparr>\<rparr>"

definition set_index :: "u64 \<Rightarrow> elementLeaf \<Rightarrow> elementLeaf" where
  "set_index i l = l\<lparr>el_StateElement := (el_StateElement l)\<lparr>se_LeafIndex := i\<rparr>\<rparr>"

definition elementLeaf_hash :: "crypto \<Rightarrow> elementLeaf \<Rightarrow> hash256" where
  "elementLeaf_hash c l = HashBytes c
     ([leafHashPrefix] @ hash_bytes (el_elementHash l) @ le64 (el_LeafIndex l) @ [if el_spent l then 1 else 0])"

definition elementLeaf_proofRoot :: "crypto \<Rightarrow> elementLeaf \<Rightarrow> hash256" where
  "elementLeaf_proofRoot c l = proofRoot c (elementLeaf_hash c l) (el_LeafIndex l) (el_MerkleProof l)"

definition chainIndexLeaf :: "crypto \<Rightarrow> ChainIndexElement \<Rightarrow> elementLeaf" where
  "chainIndexLeaf c e =
     \<lparr>el_ref = 0, el_StateElement = cie_StateElement e,
      el_elementHash = hashAll c [distinguisher ''leaf/chainindex'', Hash256_EncodeTo (cie_ID e),
        ChainIndex_EncodeTo (cie_ChainIndex e)],
      el_spent = False\<rparr>"

definition siacoinLeaf :: "crypto \<Rightarrow> SiacoinElement \<Rightarrow> bool \<Rightarrow> elementLeaf" where
  "siacoinLeaf c e spent =
     \<lparr>el_ref = 0, el_StateElement = sce_StateElement e,
      el_elementHash = hashAll c [distinguisher ''leaf/siacoin'', Hash256_EncodeTo (sce_ID e),
        V2SiacoinOutput_EncodeTo (sce_SiacoinOutput e), WriteUint64 (sce_MaturityHeight e)],
      el_spent = spent\<rparr>"

definition siafundLeaf :: "crypto \<Rightarrow> SiafundElement \<Rightarrow> bool \<Rightarrow> elementLeaf" where
  "siafundLeaf c e spent =
     \<lparr>el_ref = 0, el_StateElement = sfe_StateElement e,
      el_elementHash = hashAll c [distinguisher ''leaf/siafund'', Hash256_EncodeTo (sfe_ID e),
        V2SiafundOutput_EncodeTo (sfe_SiafundOutput e), V2Currency_EncodeTo (sfe_ClaimStart e)],
      el_spent = spent\<rparr>"

definition fileContractLeaf ::
    "crypto \<Rightarrow> FileContractElement \<Rightarrow> FileContract option \<Rightarrow> bool \<Rightarrow> elementLeaf" where
  "fileContractLeaf c e revision spent =
     (let fc = (case revision of Some r \<Rightarrow> r | None \<Rightarrow> fce_FileContract e)
      in \<lparr>el_ref = 0, el_StateElement = fce_StateElement e,
          el_elementHash = hashAll c [distinguisher ''leaf/filecontract'', Hash256_EncodeTo (fce_ID e),
            FileContract_EncodeTo fc],
          el_spent = spent\<rparr>)"

definition v2FileContractLeaf ::
    "crypto \<Rightarrow> V2FileContractElement \<Rightarrow> V2FileContract option \<Rightarrow> bool \<Rightarrow> elementLeaf" where
  "v2FileContractLeaf c e revision spent =
     (let fc = (case revision of Some r \<Rightarrow> r | None \<Rightarrow> v2fce_V2FileContract e)
      in \<lparr>el_ref = 0, el_StateElement = v2fce_StateElement e,
          el_elementHash = hashAll c [distinguisher ''leaf/v2filecontract'', Hash256_EncodeTo (v2fce_ID e),
            V2FileContract_EncodeTo fc],
          el_spent = spent\<rparr>)"

definition attestationLeaf :: "crypto \<Rightarrow> AttestationElement \<Rightarrow> elementLeaf" where
  "attestationLeaf c e =
     \<lparr>el_ref = 0, el_StateElement = ae_StateElement e,
      el_elementHash = hashAll c [distinguisher ''leaf/attestation'', Hash256_EncodeTo (ae_ID e),
        Attestation_EncodeTo (ae_Attestation e)],
      el_spent = False\<rparr>"

section \<open>The accumulator\<close>

text \<open>The struct has the fields of \<^verbatim>\<open>blake2b.Accumulator\<close>: the roots and the number of leaves.\<close>

type_synonym ElementAccumulator = Accumulator

definition ElementAccumulator_EncodeTo :: "ElementAccumulator \<Rightarrow> byte list" where
  "ElementAccumulator_EncodeTo acc =
     WriteUint64 (acc_NumLeaves acc) @
     concat (map (\<lambda>i. if hasTreeAtHeight acc i then Hash256_EncodeTo (acc_Trees acc i) else []) [0..<64])"

fun read_trees :: "nat list \<Rightarrow> ElementAccumulator \<Rightarrow> ElementAccumulator dec" where
  "read_trees [] acc = dret acc"
| "read_trees (i # is) acc =
     (if hasTreeAtHeight acc i
      then dbind Hash256_DecodeFrom (\<lambda>h. read_trees is (acc\<lparr>acc_Trees := (acc_Trees acc)(i := h)\<rparr>))
      else read_trees is acc)"

definition ElementAccumulator_DecodeFrom :: "ElementAccumulator dec" where
  "ElementAccumulator_DecodeFrom =
     dbind ReadUint64 (\<lambda>n. read_trees [0..<64] \<lparr>acc_Trees = (\<lambda>_. 0), acc_NumLeaves = n\<rparr>)"

definition containsLeaf :: "crypto \<Rightarrow> ElementAccumulator \<Rightarrow> elementLeaf \<Rightarrow> bool" where
  "containsLeaf c acc l \<longleftrightarrow>
     hasTreeAtHeight acc (length (el_MerkleProof l)) \<and>
     acc_Trees acc (length (el_MerkleProof l)) = elementLeaf_proofRoot c l"

definition containsChainIndex :: "crypto \<Rightarrow> ElementAccumulator \<Rightarrow> ChainIndexElement \<Rightarrow> bool" where
  "containsChainIndex c acc cie \<longleftrightarrow> containsLeaf c acc (chainIndexLeaf c cie)"

definition containsUnspentSiacoinElement :: "crypto \<Rightarrow> ElementAccumulator \<Rightarrow> SiacoinElement \<Rightarrow> bool" where
  "containsUnspentSiacoinElement c acc sce \<longleftrightarrow> containsLeaf c acc (siacoinLeaf c sce False)"

definition containsSpentSiacoinElement :: "crypto \<Rightarrow> ElementAccumulator \<Rightarrow> SiacoinElement \<Rightarrow> bool" where
  "containsSpentSiacoinElement c acc sce \<longleftrightarrow> containsLeaf c acc (siacoinLeaf c sce True)"

definition containsUnspentSiafundElement :: "crypto \<Rightarrow> ElementAccumulator \<Rightarrow> SiafundElement \<Rightarrow> bool" where
  "containsUnspentSiafundElement c acc sfe \<longleftrightarrow> containsLeaf c acc (siafundLeaf c sfe False)"

definition containsSpentSiafundElement :: "crypto \<Rightarrow> ElementAccumulator \<Rightarrow> SiafundElement \<Rightarrow> bool" where
  "containsSpentSiafundElement c acc sfe \<longleftrightarrow> containsLeaf c acc (siafundLeaf c sfe True)"

definition containsUnresolvedFileContractElement ::
    "crypto \<Rightarrow> ElementAccumulator \<Rightarrow> FileContractElement \<Rightarrow> bool" where
  "containsUnresolvedFileContractElement c acc fce \<longleftrightarrow> containsLeaf c acc (fileContractLeaf c fce None False)"

definition containsUnresolvedV2FileContractElement ::
    "crypto \<Rightarrow> ElementAccumulator \<Rightarrow> V2FileContractElement \<Rightarrow> bool" where
  "containsUnresolvedV2FileContractElement c acc fce \<longleftrightarrow> containsLeaf c acc (v2FileContractLeaf c fce None False)"

definition containsResolvedV2FileContractElement ::
    "crypto \<Rightarrow> ElementAccumulator \<Rightarrow> V2FileContractElement \<Rightarrow> bool" where
  "containsResolvedV2FileContractElement c acc fce \<longleftrightarrow> containsLeaf c acc (v2FileContractLeaf c fce None True)"

definition check_element :: "crypto \<Rightarrow> ElementAccumulator \<Rightarrow> string \<Rightarrow> elementLeaf \<Rightarrow> unit res" where
  "check_element c acc typ l =
     fail_if (el_LeafIndex l \<noteq> UnassignedLeafIndex \<and> \<not> containsLeaf c acc l)
       (typ @ '' parent has invalid Merkle proof'')"

definition ValidateTransactionElements :: "crypto \<Rightarrow> ElementAccumulator \<Rightarrow> V2Transaction \<Rightarrow> unit res" where
  "ValidateTransactionElements c acc txn =
     rbind (for_each (\<lambda>sci. check_element c acc ''siacoin input'' (siacoinLeaf c (v2sci_Parent sci) False))
       (v2_SiacoinInputs txn)) (\<lambda>_.
     rbind (for_each (\<lambda>sfi. check_element c acc ''siafund input'' (siafundLeaf c (v2sfi_Parent sfi) False))
       (v2_SiafundInputs txn)) (\<lambda>_.
     rbind (for_each (\<lambda>fcr. check_element c acc ''file contract revision''
         (v2FileContractLeaf c (v2rev_Parent fcr) None False)) (v2_FileContractRevisions txn)) (\<lambda>_.
     for_each (\<lambda>fcr.
         rbind (check_element c acc ''file contract resolution'' (v2FileContractLeaf c (v2res_Parent fcr) None False))
           (\<lambda>_. case v2res_Resolution fcr of
              StorageProofRes r \<Rightarrow> check_element c acc ''storage proof'' (chainIndexLeaf c (v2sp_ProofIndex r))
            | _ \<Rightarrow> Ok ()))
       (v2_FileContractResolutions txn))))"

section \<open>Adding leaves\<close>

text \<open>
  \<^verbatim>\<open>treeGrowth\<close> is a function from the 64 heights to lists of hashes. One round of the inner loop of
  \<^verbatim>\<open>addLeaves\<close> extends the proofs under the two trees that merge, and the growth of the initial trees.
\<close>

definition shift_int :: "nat \<Rightarrow> int" where
  "shift_int k = int64 (2 ^ k)"

definition extend_proofs :: "nat \<Rightarrow> nat \<Rightarrow> hash256 \<Rightarrow> hash256 \<Rightarrow> elementLeaf list \<Rightarrow> elementLeaf list" where
  "extend_proofs i height oldRoot h leaves =
     (let startOfNewTree = int64 (int i - shift_int height);
          startOfOldTree = int64 (int i - shift_int (height + 1))
      in map (\<lambda>(j, l).
           if startOfNewTree < int j \<and> j \<le> i then set_proof (el_MerkleProof l @ [oldRoot]) l
           else if startOfOldTree < int j \<and> int j \<le> startOfNewTree then set_proof (el_MerkleProof l @ [h]) l
           else l) (List.enumerate 0 leaves))"

definition grow_trees ::
    "u64 \<Rightarrow> u64 \<Rightarrow> nat \<Rightarrow> hash256 \<Rightarrow> hash256 \<Rightarrow> (nat \<Rightarrow> hash256 list) \<Rightarrow> nat \<Rightarrow> hash256 list" where
  "grow_trees initialLeaves numLeaves height oldRoot h treeGrowth = (\<lambda>b.
     if 64 \<le> b \<or> initialLeaves AND push_bit b 1 = 0 then treeGrowth b
     else let curTreeIndex = (numLeaves + 1) - push_bit height 1;
              prevTreeIndex = (numLeaves + 1) - push_bit (height + 1) 1;
              treeStartIndex = clearBits initialLeaves (b + 1)
          in if curTreeIndex \<le> treeStartIndex then treeGrowth b @ [oldRoot]
             else if prevTreeIndex \<le> treeStartIndex then treeGrowth b @ [h]
             else treeGrowth b)"

record addState =
  as_acc :: ElementAccumulator
  as_leaves :: "elementLeaf list"
  as_growth :: "nat \<Rightarrow> hash256 list"

function add_walk :: "crypto \<Rightarrow> u64 \<Rightarrow> nat \<Rightarrow> nat \<Rightarrow> hash256 \<Rightarrow> addState \<Rightarrow> addState" where
  "add_walk c initialLeaves i height h s =
     (if 64 \<le> height then s
      else if \<not> hasTreeAtHeight (as_acc s) height then
        s\<lparr>as_acc := (as_acc s)\<lparr>acc_Trees := (acc_Trees (as_acc s))(height := h),
                               acc_NumLeaves := acc_NumLeaves (as_acc s) + 1\<rparr>\<rparr>
      else let oldRoot = acc_Trees (as_acc s) height
           in add_walk c initialLeaves i (Suc height) (SumPair c oldRoot h)
                (s\<lparr>as_leaves := extend_proofs i height oldRoot h (as_leaves s),
                   as_growth := grow_trees initialLeaves (acc_NumLeaves (as_acc s)) height oldRoot h
                                  (as_growth s)\<rparr>))"
  by pat_completeness auto

termination
  by (relation "measure (\<lambda>(c, n, i, height, h, s). 64 - height)") auto

declare add_walk.simps [simp del]

definition add_leaf_step :: "crypto \<Rightarrow> u64 \<Rightarrow> nat \<Rightarrow> addState \<Rightarrow> addState" where
  "add_leaf_step c initialLeaves i s =
     (let el = set_index (acc_NumLeaves (as_acc s)) (as_leaves s ! i)
      in add_walk c initialLeaves i 0 (elementLeaf_hash c el) (s\<lparr>as_leaves := (as_leaves s)[i := el]\<rparr>))"

definition addLeaves :: "crypto \<Rightarrow> ElementAccumulator \<Rightarrow> elementLeaf list \<Rightarrow> addState" where
  "addLeaves c acc leaves =
     fold (add_leaf_step c (acc_NumLeaves acc)) [0..<length leaves]
       \<lparr>as_acc = acc, as_leaves = leaves, as_growth = (\<lambda>_. [])\<rparr>"

section \<open>Updating leaves\<close>

text \<open>Reading and writing the proof element at a height, which panics when the proof is too short.\<close>

definition proof_at :: "elementLeaf list \<Rightarrow> nat \<Rightarrow> hash256 res" where
  "proof_at ls k =
     (case ls of
        l # _ \<Rightarrow> if k < length (el_MerkleProof l) then Ok (el_MerkleProof l ! k) else Panic ''index out of range''
      | [] \<Rightarrow> Panic ''index out of range'')"

definition put_proofs :: "nat \<Rightarrow> hash256 \<Rightarrow> elementLeaf list \<Rightarrow> (elementLeaf list) res" where
  "put_proofs k h ls =
     (if \<forall>l \<in> set ls. k < length (el_MerkleProof l)
      then Ok (map (\<lambda>l. set_proof ((el_MerkleProof l)[k := h]) l) ls)
      else Panic ''index out of range'')"

text \<open>
  \<^verbatim>\<open>recompute(i, j, leaves)\<close> with the height of the range, so that \<open>j = i + 2 ^ height\<close>. The leaves are
  sorted, so \<^verbatim>\<open>sort.Search\<close> finds the first leaf at or after the middle.
\<close>

fun recompute :: "crypto \<Rightarrow> nat \<Rightarrow> u64 \<Rightarrow> elementLeaf list \<Rightarrow> (hash256 \<times> elementLeaf list) res" where
  "recompute c 0 i leaves =
     (if 1 < length leaves then Panic ''consensus: multiple leaves with same accumulator index''
      else case leaves of
        [] \<Rightarrow> Panic ''index out of range''
      | l # _ \<Rightarrow> Ok (elementLeaf_hash c l, leaves))"
| "recompute c (Suc height) i leaves =
     (let j = i + push_bit (Suc height) 1;
          mid = (i + j) div 2;
          left = takeWhile (\<lambda>l. el_LeafIndex l < mid) leaves;
          right = dropWhile (\<lambda>l. el_LeafIndex l < mid) leaves
      in rbind (if left = [] then rbind (proof_at right height) (\<lambda>r. Ok (r, left, right))
                else rbind (recompute c height i left) (\<lambda>(r, left).
                     rbind (put_proofs height r right) (\<lambda>right. Ok (r, left, right))))
           (\<lambda>(leftRoot, left, right).
         rbind (if right = [] then rbind (proof_at left height) (\<lambda>r. Ok (r, left, right))
                else rbind (recompute c height mid right) (\<lambda>(r, right).
                     rbind (put_proofs height r left) (\<lambda>left. Ok (r, left, right))))
           (\<lambda>(rightRoot, left, right).
         Ok (SumPair c leftRoot rightRoot, left @ right))))"

definition sort_leaves :: "elementLeaf list \<Rightarrow> elementLeaf list" where
  "sort_leaves leaves =
     sort_key (\<lambda>l. length (el_MerkleProof l)) (sort_key (\<lambda>l. unat (el_LeafIndex l)) leaves)"

definition update_tree :: "crypto \<Rightarrow> nat \<Rightarrow> elementLeaf list \<Rightarrow> (elementLeaf list) res" where
  "update_tree c height leaves =
     (case leaves of
        [] \<Rightarrow> Ok []
      | l # _ \<Rightarrow> rbind (recompute c height (clearBits (el_LeafIndex l) height) leaves) (\<lambda>(_, ls). Ok ls))"

fun update_trees :: "crypto \<Rightarrow> nat list \<Rightarrow> elementLeaf list \<Rightarrow> (elementLeaf list list) res" where
  "update_trees c [] leaves = Ok []"
| "update_trees c (height # hs) leaves =
     rbind (update_tree c height (filter (\<lambda>l. length (el_MerkleProof l) = height) leaves)) (\<lambda>t.
     rbind (update_trees c hs leaves) (\<lambda>ts. Ok (t # ts)))"

definition updateLeaves :: "crypto \<Rightarrow> elementLeaf list \<Rightarrow> (elementLeaf list list) res" where
  "updateLeaves c leaves =
     (if \<exists>l \<in> set leaves. 64 \<le> length (el_MerkleProof l) then Panic ''index out of range''
      else update_trees c [0..<64] (sort_leaves leaves))"

section \<open>Applying and reverting blocks\<close>

record elementApplyUpdate =
  eau_updated :: "elementLeaf list list"
  eau_treeGrowth :: "nat \<Rightarrow> hash256 list"
  eau_oldNumLeaves :: u64
  eau_numLeaves :: u64

definition set_roots :: "crypto \<Rightarrow> elementLeaf list list \<Rightarrow> ElementAccumulator \<Rightarrow> ElementAccumulator" where
  "set_roots c updated acc = acc\<lparr>acc_Trees := (\<lambda>height.
     if height < length updated \<and> updated ! height \<noteq> []
     then elementLeaf_proofRoot c (hd (updated ! height)) else acc_Trees acc height)\<rparr>"

text \<open>The result also gives the added leaves with the index and proof they received.\<close>

definition ElementAccumulator_applyBlock ::
    "crypto \<Rightarrow> ElementAccumulator \<Rightarrow> elementLeaf list \<Rightarrow> elementLeaf list
      \<Rightarrow> (ElementAccumulator \<times> elementApplyUpdate \<times> elementLeaf list) res" where
  "ElementAccumulator_applyBlock c acc updated added =
     rbind (updateLeaves c updated) (\<lambda>trees.
     let acc1 = set_roots c trees acc;
         s = addLeaves c acc1 added;
         trees = map (map (\<lambda>e. set_proof (el_MerkleProof e @ as_growth s (length (el_MerkleProof e))) e)) trees
     in Ok (as_acc s,
            \<lparr>eau_updated = trees, eau_treeGrowth = as_growth s, eau_oldNumLeaves = acc_NumLeaves acc1,
             eau_numLeaves = acc_NumLeaves (as_acc s)\<rparr>,
            as_leaves s))"

record elementRevertUpdate =
  eru_updated :: "elementLeaf list list"
  eru_numLeaves :: u64

definition ElementAccumulator_revertBlock ::
    "crypto \<Rightarrow> ElementAccumulator \<Rightarrow> elementLeaf list \<Rightarrow> elementLeaf list
      \<Rightarrow> (elementRevertUpdate \<times> elementLeaf list) res" where
  "ElementAccumulator_revertBlock c acc updated added =
     rbind (updateLeaves c updated) (\<lambda>trees.
     Ok (\<lparr>eru_updated = trees, eru_numLeaves = acc_NumLeaves acc\<rparr>,
         map (\<lambda>(i, l). set_index (acc_NumLeaves acc + word_of_nat i) l) (List.enumerate 0 added)))"

text \<open>\<^verbatim>\<open>copy\<close> into a slice of fixed length.\<close>

definition overlay :: "'a list \<Rightarrow> 'a list \<Rightarrow> 'a list" where
  "overlay dst src = take (length dst) src @ drop (length src) dst"

definition closest :: "u64 \<Rightarrow> elementLeaf list \<Rightarrow> elementLeaf \<Rightarrow> elementLeaf" where
  "closest idx ls best = fold (\<lambda>ul best.
     if mergeHeight idx (el_LeafIndex ul) < mergeHeight idx (el_LeafIndex best) then ul else best) ls best"

definition updateProof :: "crypto \<Rightarrow> StateElement \<Rightarrow> elementLeaf list list \<Rightarrow> StateElement res" where
  "updateProof c e updated =
     (if length updated \<le> length (se_MerkleProof e) then Panic ''index out of range''
      else case updated ! length (se_MerkleProof e) of
        [] \<Rightarrow> Ok e
      | b # ls \<Rightarrow>
          let best = closest (se_LeafIndex e) ls b;
              p = se_MerkleProof e;
              q = el_MerkleProof best
          in if el_LeafIndex best = se_LeafIndex e then Ok (e\<lparr>se_MerkleProof := overlay p q\<rparr>)
             else let mh = mergeHeight (se_LeafIndex e) (el_LeafIndex best)
                  in if length p < mh \<or> length q < mh then Panic ''slice bounds out of range''
                     else Ok (e\<lparr>se_MerkleProof :=
                       (take mh p @ overlay (drop mh p) (drop mh q))
                         [mh - 1 := proofRoot c (elementLeaf_hash c best) (el_LeafIndex best) (take (mh - 1) q)]\<rparr>))"

definition apply_updateElementProof :: "crypto \<Rightarrow> elementApplyUpdate \<Rightarrow> StateElement \<Rightarrow> StateElement res" where
  "apply_updateElementProof c eau e =
     (if se_LeafIndex e = UnassignedLeafIndex then Panic ''cannot update an ephemeral element''
      else if eau_oldNumLeaves eau \<le> se_LeafIndex e then Ok e
      else rbind (updateProof c e (eau_updated eau)) (\<lambda>e.
        if mergeHeight (eau_numLeaves eau) (se_LeafIndex e) \<noteq> length (se_MerkleProof e)
        then Ok (e\<lparr>se_MerkleProof := se_MerkleProof e @ eau_treeGrowth eau (length (se_MerkleProof e))\<rparr>)
        else Ok e))"

definition revert_updateElementProof :: "crypto \<Rightarrow> elementRevertUpdate \<Rightarrow> StateElement \<Rightarrow> StateElement res" where
  "revert_updateElementProof c eru e =
     (if se_LeafIndex e = UnassignedLeafIndex then Panic ''cannot update an ephemeral element''
      else if eru_numLeaves eru \<le> se_LeafIndex e
      then Panic ''cannot update an element that is not present in the accumulator''
      else let mh = mergeHeight (eru_numLeaves eru) (se_LeafIndex e);
               e = (if mh \<le> length (se_MerkleProof e)
                    then e\<lparr>se_MerkleProof := take (mh - 1) (se_MerkleProof e)\<rparr> else e)
           in updateProof c e (eru_updated eru))"

end
