(* ===== verification/Work.thy ===== *)
theory Work
  imports Types
begin

text \<open>
  Quantities of work (\<^verbatim>\<open>core/consensus/application.go\<close>, type \<^verbatim>\<open>Work\<close>): 256-bit numbers kept as 32
  big-endian bytes and computed on as four 64-bit limbs, and the older representation as targets. The
  lemmas show that the limb loops compute the arithmetic of the numbers they represent, and panic
  exactly on overflow, underflow and division by zero.
\<close>

section \<open>Limbs\<close>

type_synonym Work = hash256

text \<open>The four limbs in the order in which the loops with \<open>i := 24; i >= 0; i -= 8\<close> visit them.\<close>

definition limbs_of :: "hash256 \<Rightarrow> u64 list" where
  "limbs_of w = map (\<lambda>i. of_be64 (take 8 (drop i (hash_bytes w)))) [24, 16, 8, 0]"

definition of_limbs :: "u64 list \<Rightarrow> hash256" where
  "of_limbs ls = hash_of_bytes (concat (map be64 (rev ls)))"

section \<open>Operations\<close>

definition Work_Cmp :: "Work \<Rightarrow> Work \<Rightarrow> int" where
  "Work_Cmp w v = (if w < v then -1 else if w = v then 0 else 1)"

fun add_limbs :: "u64 list \<Rightarrow> u64 list \<Rightarrow> u64 \<Rightarrow> u64 list \<times> u64" where
  "add_limbs (w # ws) (v # vs) c =
     (let (s, c) = add64 w v c; (r, c) = add_limbs ws vs c in (s # r, c))"
| "add_limbs _ _ c = ([], c)"

definition Work_add :: "Work \<Rightarrow> Work \<Rightarrow> Work res" where
  "Work_add w v =
     (let (r, c) = add_limbs (limbs_of w) (limbs_of v) 0
      in if 0 < c then Panic ''Work.add: overflow'' else Ok (of_limbs r))"

fun sub_limbs :: "u64 list \<Rightarrow> u64 list \<Rightarrow> u64 \<Rightarrow> u64 list \<times> u64" where
  "sub_limbs (w # ws) (v # vs) c =
     (let (s, c) = sub64 w v c; (r, c) = sub_limbs ws vs c in (s # r, c))"
| "sub_limbs _ _ c = ([], c)"

definition Work_sub :: "Work \<Rightarrow> Work \<Rightarrow> Work res" where
  "Work_sub w v =
     (let (r, c) = sub_limbs (limbs_of w) (limbs_of v) 0
      in if 0 < c then Panic ''Work.sub: underflow'' else Ok (of_limbs r))"

fun mul_limbs :: "u64 list \<Rightarrow> u64 \<Rightarrow> u64 \<Rightarrow> u64 list \<times> u64" where
  "mul_limbs [] v c = ([], c)"
| "mul_limbs (w # ws) v c =
     (let (hi, prod) = mul64 w v; (prod, cc) = add64 prod c 0;
          (r, c) = mul_limbs ws v (hi + cc) in (prod # r, c))"

definition Work_mul64 :: "Work \<Rightarrow> u64 \<Rightarrow> Work res" where
  "Work_mul64 w v =
     (let (r, c) = mul_limbs (limbs_of w) v 0
      in if 0 < c then Panic ''Work.mul64: overflow'' else Ok (of_limbs r))"

text \<open>Division goes from the most significant limb down, with the running remainder.\<close>

fun div_limbs :: "u64 list \<Rightarrow> u64 \<Rightarrow> u64 \<Rightarrow> (u64 list) res" where
  "div_limbs [] v rm = Ok []"
| "div_limbs (w # ws) v rm =
     rbind (div64 rm w v) (\<lambda>(quo, rm). rbind (div_limbs ws v rm) (\<lambda>qs. Ok (quo # qs)))"

definition Work_div64 :: "Work \<Rightarrow> u64 \<Rightarrow> Work res" where
  "Work_div64 w v =
     (if v = 0 then Panic ''Work.div64: division by zero''
      else rbind (div_limbs (rev (limbs_of w)) v 0) (\<lambda>qs. Ok (of_limbs (rev qs))))"

definition Work_min :: "Work \<Rightarrow> Work \<Rightarrow> Work" where
  "Work_min w v = (if Work_Cmp w v < 0 then w else v)"

definition Work_max :: "Work \<Rightarrow> Work \<Rightarrow> Work" where
  "Work_max w v = (if Work_Cmp w v > 0 then w else v)"

definition oneWork :: Work where
  "oneWork = 1"

section \<open>Targets\<close>

text \<open>
  Targets are computed on with \<^verbatim>\<open>math/big\<close>, whose integers are unbounded and whose \<^verbatim>\<open>Div\<close> is the
  Euclidean division.
\<close>

definition maxTarget :: int where
  "maxTarget = 2 ^ 256 - 1"

definition big_Div :: "int \<Rightarrow> int \<Rightarrow> int res" where
  "big_Div a b = (if b = 0 then Panic ''division by zero'' else Ok (sgn b * (a div \<bar>b\<bar>)))"

definition invTarget :: "hash256 \<Rightarrow> hash256 res" where
  "invTarget n = rbind (big_Div maxTarget (uint n)) (\<lambda>i. Ok (word_of_int i))"

definition intToTarget :: "int \<Rightarrow> BlockID" where
  "intToTarget i = (if 2 ^ 255 \<le> \<bar>i\<bar> then word_of_int maxTarget else word_of_int \<bar>i\<bar>)"

definition addTarget :: "BlockID \<Rightarrow> BlockID \<Rightarrow> BlockID res" where
  "addTarget x y = rbind (big_Div (uint x * uint y) (uint x + uint y)) (\<lambda>i. Ok (intToTarget i))"

definition mulTargetFrac :: "BlockID \<Rightarrow> int \<Rightarrow> int \<Rightarrow> BlockID res" where
  "mulTargetFrac x n d = rbind (big_Div (uint x * n) d) (\<lambda>i. Ok (intToTarget i))"

section \<open>Limbs spell the number\<close>

definition limbs_num :: "u64 list \<Rightarrow> nat" where
  "limbs_num ls = foldr (\<lambda>l n. unat l + 2 ^ 64 * n) ls 0"

lemma limbs_num_simps [simp]: "limbs_num [] = 0" "limbs_num (l # ls) = unat l + 2 ^ 64 * limbs_num ls"
  by (simp_all add: limbs_num_def)

lemma limbs_num_append: "limbs_num (ls @ ms) = limbs_num ls + 2 ^ (64 * length ls) * limbs_num ms"
  by (induction ls) (simp_all add: algebra_simps power_add)

lemma of_le_bytes_append: "of_le_bytes (xs @ ys) = of_le_bytes xs + 256 ^ length xs * of_le_bytes ys"
  by (induction xs) (simp_all add: algebra_simps)

lemma of_be_bytes_append: "of_be_bytes (xs @ ys) = of_be_bytes xs * 256 ^ length ys + of_be_bytes ys"
  by (simp add: of_be_bytes_def of_le_bytes_append)

lemma unat_of_be64: "length bs = 8 \<Longrightarrow> unat (of_be64 bs) = of_be_bytes bs"
  using of_be_bytes_less [of bs] by (simp add: of_be64_def unat_of_nat_u64_less)

lemma unat_hash_bytes: "of_be_bytes (hash_bytes w) = unat w"
  using unsigned_less [where 'a=nat, of w] by (simp add: hash_bytes_def of_be_bytes_be_bytes)

lemma limbs_num_limbs_of: "limbs_num (limbs_of w) = unat w"
proof -
  let ?b = "hash_bytes w"
  have "?b = take 8 ?b @ take 8 (drop 8 ?b) @ take 8 (drop 16 ?b) @ take 8 (drop 24 ?b)"
    by (rule nth_equalityI) (auto simp: nth_append)
  from arg_cong [OF this, of of_be_bytes]
  have "unat w = of_be_bytes (take 8 ?b @ take 8 (drop 8 ?b) @ take 8 (drop 16 ?b) @ take 8 (drop 24 ?b))"
    by (simp add: unat_hash_bytes)
  then show ?thesis by (simp add: limbs_of_def of_be_bytes_append unat_of_be64 algebra_simps)
qed

lemma length_limbs_of [simp]: "length (limbs_of w) = 4"
  by (simp add: limbs_of_def)

lemma of_be_bytes_limbs: "of_be_bytes (concat (map be64 (rev ls))) = limbs_num ls"
proof (induction ls)
  case (Cons l ls)
  have "of_be_bytes (be64 l) = unat l" using unat_of_be64 [of "be64 l"] by simp
  then show ?case using Cons by (simp add: of_be_bytes_append algebra_simps)
qed (simp add: of_be_bytes_def)

lemma of_limbs_num: "of_limbs ls = word_of_nat (limbs_num ls)"
  by (simp add: of_limbs_def hash_of_bytes_def of_be_bytes_limbs)

lemma unat_hash_lt: "unat (w :: hash256) < 2 ^ 256"
  using unsigned_less [where 'a=nat, of w] by simp

lemma unat_of_nat_hash: "n < 2 ^ 256 \<Longrightarrow> unat (word_of_nat n :: hash256) = n"
  by (simp add: unsigned_of_nat take_bit_nat_eq_self)

lemma word_of_nat_unat_hash [simp]: "word_of_nat (unat w) = (w :: hash256)"
  by simp

lemma limbs_num_less: "limbs_num ls < 2 ^ (64 * length ls)"
proof (induction ls)
  case (Cons l ls)
  have "unat l + 2 ^ 64 * limbs_num ls < 2 ^ 64 + 2 ^ 64 * limbs_num ls" using unat_u64_lt [of l] by simp
  also have "\<dots> = 2 ^ 64 * Suc (limbs_num ls)" by simp
  also have "\<dots> \<le> 2 ^ 64 * 2 ^ (64 * length ls)" using Cons by (intro mult_left_mono) auto
  finally show ?case by (simp add: power_add)
qed simp

lemma add_limbs_spec:
  assumes "add_limbs ws vs c = (r, c')" "length ws = length vs" "unat c \<le> 1"
  shows "limbs_num r + 2 ^ (64 * length ws) * unat c' = limbs_num ws + limbs_num vs + unat c
    \<and> length r = length ws \<and> unat c' \<le> 1"
  using assms
proof (induction ws vs c arbitrary: r c' rule: add_limbs.induct)
  case (1 w ws v vs c)
  obtain s c1 where s: "add64 w v c = (s, c1)" by fastforce
  obtain r1 where r: "add_limbs ws vs c1 = (r1, c')" "r = s # r1"
    using 1 s by (auto split: prod.splits)
  note a = unat_add64 [OF s 1(4)]
  have IH: "limbs_num r1 + 2 ^ (64 * length ws) * unat c' = limbs_num ws + limbs_num vs + unat c1"
      "length r1 = length ws" "unat c' \<le> 1"
    using 1(1) [OF s [symmetric] refl r(1)] 1(3) a(2) by auto
  have "limbs_num r + 2 ^ (64 * length (w # ws)) * unat c'
      = unat s + 2 ^ 64 * (limbs_num r1 + 2 ^ (64 * length ws) * unat c')"
    using r(2) by (simp add: power_add algebra_simps)
  also have "\<dots> = limbs_num (w # ws) + limbs_num (v # vs) + unat c"
    unfolding IH(1) using a(1) by (simp add: algebra_simps)
  finally show ?case using IH r(2) by simp
qed auto

lemma sub_limbs_spec:
  assumes "sub_limbs ws vs c = (r, c')" "length ws = length vs" "unat c \<le> 1"
  shows "limbs_num ws + 2 ^ (64 * length ws) * unat c' = limbs_num r + limbs_num vs + unat c
    \<and> length r = length ws \<and> unat c' \<le> 1"
  using assms
proof (induction ws vs c arbitrary: r c' rule: sub_limbs.induct)
  case (1 w ws v vs c)
  obtain s c1 where s: "sub64 w v c = (s, c1)" by fastforce
  obtain r1 where r: "sub_limbs ws vs c1 = (r1, c')" "r = s # r1"
    using 1 s by (auto split: prod.splits)
  note a = unat_sub64 [OF s 1(4)]
  have IH: "limbs_num ws + 2 ^ (64 * length ws) * unat c' = limbs_num r1 + limbs_num vs + unat c1"
      "length r1 = length ws" "unat c' \<le> 1"
    using 1(1) [OF s [symmetric] refl r(1)] 1(3) a(2) by auto
  have "limbs_num (w # ws) + 2 ^ (64 * length (w # ws)) * unat c'
      = unat w + 2 ^ 64 * (limbs_num ws + 2 ^ (64 * length ws) * unat c')"
    by (simp add: power_add algebra_simps)
  also have "\<dots> = limbs_num r + limbs_num (v # vs) + unat c"
    unfolding IH(1) using a(1) r(2) by (simp add: algebra_simps)
  finally show ?case using IH r(2) by simp
qed auto

lemma mul_limbs_spec:
  assumes "mul_limbs ws v c = (r, c')"
  shows "limbs_num r + 2 ^ (64 * length ws) * unat c' = limbs_num ws * unat v + unat c
    \<and> length r = length ws"
  using assms
proof (induction ws arbitrary: c r c')
  case (Cons w ws)
  obtain hi prod where m: "mul64 w v = (hi, prod)" by fastforce
  obtain p cc where a: "add64 prod c 0 = (p, cc)" by fastforce
  obtain r1 where r: "mul_limbs ws v (hi + cc) = (r1, c')" "r = p # r1"
    using Cons.prems m a by (auto split: prod.splits)
  have num: "unat p + 2 ^ 64 * (unat hi + unat cc) = unat w * unat v + unat c"
    using unat_mul64 [OF m] unat_add64 [OF a] by simp
  have "unat w * unat v \<le> (2 ^ 64 - 1) * (2 ^ 64 - 1)"
    using unat_u64_lt [of w] unat_u64_lt [of v] by (intro mult_mono) auto
  then have "unat hi + unat cc < 2 ^ 64" using num unat_u64_lt [of c] by simp
  then have hc: "unat (hi + cc) = unat hi + unat cc" by (simp add: unat_word_ariths)
  have IH: "limbs_num r1 + 2 ^ (64 * length ws) * unat c' = limbs_num ws * unat v + (unat hi + unat cc)"
      "length r1 = length ws"
    using Cons.IH [OF r(1)] hc by auto
  have "limbs_num r + 2 ^ (64 * length (w # ws)) * unat c'
      = unat p + 2 ^ 64 * (limbs_num r1 + 2 ^ (64 * length ws) * unat c')"
    using r(2) by (simp add: power_add algebra_simps)
  also have "\<dots> = limbs_num (w # ws) * unat v + unat c"
    unfolding IH(1) using num by (simp add: algebra_simps)
  finally show ?case using IH(2) r(2) by simp
qed auto

lemma div_limbs_spec:
  assumes "rm < v"
  shows "\<exists>qs. div_limbs ws v rm = Ok qs \<and> length qs = length ws
    \<and> limbs_num (rev qs) = (unat rm * 2 ^ (64 * length ws) + limbs_num (rev ws)) div unat v"
  using assms
proof (induction ws arbitrary: rm)
  case Nil
  then show ?case by (simp add: word_less_nat_alt)
next
  case (Cons w ws)
  obtain q r where d: "div64 rm w v = Ok (q, r)"
    and q: "unat q = (unat rm * 2 ^ 64 + unat w) div unat v"
    and r: "unat r = (unat rm * 2 ^ 64 + unat w) mod unat v"
    using div64_Ok [OF Cons.prems] by blast
  have v: "0 < unat v" using Cons.prems by (simp add: word_less_nat_alt)
  then have "r < v" using r by (simp add: word_less_nat_alt)
  then obtain qs where qs: "div_limbs ws v r = Ok qs" "length qs = length ws"
    and num: "limbs_num (rev qs) = (unat r * 2 ^ (64 * length ws) + limbs_num (rev ws)) div unat v"
    using Cons.IH by blast
  let ?k = "2 ^ (64 * length ws) :: nat"
  have "unat rm * 2 ^ 64 + unat w = unat q * unat v + unat r" unfolding q r by simp
  then have eq: "(unat rm * 2 ^ 64 + unat w) * ?k + limbs_num (rev ws)
      = unat q * ?k * unat v + (unat r * ?k + limbs_num (rev ws))"
    by (simp only: distrib_right) (simp add: algebra_simps)
  have "((unat rm * 2 ^ 64 + unat w) * ?k + limbs_num (rev ws)) div unat v
      = unat q * ?k + limbs_num (rev qs)"
    unfolding eq num using v by (intro div_mult_self3) simp
  moreover have "unat rm * 2 ^ (64 * length (w # ws)) + limbs_num (rev (w # ws))
      = (unat rm * 2 ^ 64 + unat w) * ?k + limbs_num (rev ws)"
    by (simp add: limbs_num_append power_add algebra_simps)
  moreover have "limbs_num (rev (q # qs)) = unat q * ?k + limbs_num (rev qs)"
    using qs(2) by (simp add: limbs_num_append)
  ultimately have "limbs_num (rev (q # qs))
      = (unat rm * 2 ^ (64 * length (w # ws)) + limbs_num (rev (w # ws))) div unat v" by simp
  then show ?case using d qs by simp
qed

section \<open>The operations compute on numbers\<close>

lemma Work_Cmp_nat: "Work_Cmp w v = (if unat w < unat v then -1 else if unat w = unat v then 0 else 1)"
  by (simp add: Work_Cmp_def word_less_nat_alt word_unat_eq_iff)

lemma Work_add_eq:
  "Work_add w v = (if unat w + unat v < 2 ^ 256 then Ok (word_of_nat (unat w + unat v))
                   else Panic ''Work.add: overflow'')"
proof -
  obtain r c where rc: "add_limbs (limbs_of w) (limbs_of v) 0 = (r, c)" by fastforce
  have s: "limbs_num r + 2 ^ 256 * unat c = unat w + unat v" "length r = 4"
    using add_limbs_spec [OF rc] by (simp_all add: limbs_num_limbs_of)
  have "limbs_num r < 2 ^ 256" using limbs_num_less [of r] s(2) by simp
  then have "c \<noteq> 0 \<longleftrightarrow> \<not> unat w + unat v < 2 ^ 256"
    using s(1) by (cases "unat c") (auto simp: unat_eq_0)
  moreover have "c = 0 \<Longrightarrow> limbs_num r = unat w + unat v" using s(1) by simp
  ultimately show ?thesis
    by (cases "c = 0") (simp_all add: Work_add_def rc of_limbs_num word_neq_0_conv)
qed

lemma Work_sub_eq:
  "Work_sub w v = (if unat v \<le> unat w then Ok (word_of_nat (unat w - unat v))
                   else Panic ''Work.sub: underflow'')"
proof -
  obtain r c where rc: "sub_limbs (limbs_of w) (limbs_of v) 0 = (r, c)" by fastforce
  have s: "unat w + 2 ^ 256 * unat c = limbs_num r + unat v" "length r = 4"
    using sub_limbs_spec [OF rc] by (simp_all add: limbs_num_limbs_of)
  have "limbs_num r < 2 ^ 256" using limbs_num_less [of r] s(2) by simp
  then have "c \<noteq> 0 \<longleftrightarrow> \<not> unat v \<le> unat w"
    using s(1) by (cases "unat c") (auto simp: unat_eq_0)
  moreover have "c = 0 \<Longrightarrow> limbs_num r = unat w - unat v" using s(1) by simp
  ultimately show ?thesis
    by (cases "c = 0") (simp_all add: Work_sub_def rc of_limbs_num word_neq_0_conv)
qed

lemma Work_mul64_eq:
  "Work_mul64 w v = (if unat w * unat v < 2 ^ 256 then Ok (word_of_nat (unat w * unat v))
                     else Panic ''Work.mul64: overflow'')"
proof -
  obtain r c where rc: "mul_limbs (limbs_of w) v 0 = (r, c)" by fastforce
  have s: "limbs_num r + 2 ^ 256 * unat c = unat w * unat v" "length r = 4"
    using mul_limbs_spec [OF rc] by (simp_all add: limbs_num_limbs_of)
  have "limbs_num r < 2 ^ 256" using limbs_num_less [of r] s(2) by simp
  then have "c \<noteq> 0 \<longleftrightarrow> \<not> unat w * unat v < 2 ^ 256"
    using s(1) by (cases "unat c") (auto simp: unat_eq_0)
  moreover have "c = 0 \<Longrightarrow> limbs_num r = unat w * unat v" using s(1) by simp
  ultimately show ?thesis
    by (cases "c = 0") (simp_all add: Work_mul64_def rc of_limbs_num word_neq_0_conv)
qed

lemma Work_div64_eq:
  "Work_div64 w v = (if v = 0 then Panic ''Work.div64: division by zero''
                     else Ok (word_of_nat (unat w div unat v)))"
proof (cases "v = 0")
  case False
  then have "0 < v" by (simp add: word_neq_0_conv)
  then obtain qs where "div_limbs (rev (limbs_of w)) v 0 = Ok qs"
      "limbs_num (rev qs) = limbs_num (rev (rev (limbs_of w))) div unat v"
    using div_limbs_spec [of 0 v "rev (limbs_of w)"] by auto
  then show ?thesis using False by (simp add: Work_div64_def of_limbs_num limbs_num_limbs_of)
qed (simp add: Work_div64_def)

interpretation work: checked_nat "unat :: Work \<Rightarrow> nat" "2 ^ 256" Work_add Work_sub Work_mul64
proof
  fix a b :: Work and k :: u64
  show "unat a < 2 ^ 256" by (rule unat_hash_lt)
  show "unat a = unat b \<Longrightarrow> a = b" by (simp add: word_unat_eq_iff)
  show "unat a + unat b < 2 ^ 256 \<Longrightarrow> \<exists>c. Work_add a b = Ok c \<and> unat c = unat a + unat b"
    using unat_of_nat_hash by (simp add: Work_add_eq del: of_nat_add)
  show "unat b \<le> unat a \<Longrightarrow> \<exists>c. Work_sub a b = Ok c \<and> unat c = unat a - unat b"
    using unat_of_nat_hash [of "unat a - unat b"] unat_hash_lt [of a] by (simp add: Work_sub_eq)
  show "unat a * unat k < 2 ^ 256 \<Longrightarrow> \<exists>c. Work_mul64 a k = Ok c \<and> unat c = unat a * unat k"
    using unat_of_nat_hash by (simp add: Work_mul64_eq del: of_nat_mult)
qed (simp_all add: Work_add_eq Work_sub_eq Work_mul64_eq)

lemma unat_Work_min: "unat (Work_min w v) = min (unat w) (unat v)"
  by (simp add: Work_min_def Work_Cmp_nat min_def)

lemma unat_Work_max: "unat (Work_max w v) = max (unat w) (unat v)"
  by (simp add: Work_max_def Work_Cmp_nat max_def)

lemma invTarget_eq:
  "invTarget n = (if n = 0 then Panic ''division by zero'' else Ok (word_of_nat ((2 ^ 256 - 1) div unat n)))"
proof (cases "n = 0")
  case False
  then have "0 < uint n" by (simp add: uint_0_iff order_le_neq_trans)
  moreover have "maxTarget = int (2 ^ 256 - 1)" by (simp add: maxTarget_def)
  then have "maxTarget div uint n = int ((2 ^ 256 - 1) div unat n)"
    by (simp only: zdiv_int uint_nat)
  ultimately show ?thesis using False by (simp add: invTarget_def big_Div_def)
qed (simp add: invTarget_def big_Div_def)

section \<open>Properties\<close>

text \<open>C36: the 256-bit work arithmetic on big-endian limbs is arithmetic on numbers: addition, subtraction
  and multiplication return the exact result, and panic precisely when it is out of range; division
  rounds down and panics only on zero; the target of a difficulty is the largest hash over the
  difficulty, rounded down.\<close>

theorem work_arithmetic_exact:
  "Work_add w v = (if unat w + unat v < 2 ^ 256 then Ok (word_of_nat (unat w + unat v))
                   else Panic ''Work.add: overflow'') \<and>
   Work_sub w v = (if unat v \<le> unat w then Ok (word_of_nat (unat w - unat v))
                   else Panic ''Work.sub: underflow'') \<and>
   Work_mul64 w k = (if unat w * unat k < 2 ^ 256 then Ok (word_of_nat (unat w * unat k))
                     else Panic ''Work.mul64: overflow'') \<and>
   Work_div64 w k = (if k = 0 then Panic ''Work.div64: division by zero''
                     else Ok (word_of_nat (unat w div unat k))) \<and>
   invTarget w = (if w = 0 then Panic ''division by zero''
                  else Ok (word_of_nat ((2 ^ 256 - 1) div unat w)))"
  by (intro conjI Work_add_eq Work_sub_eq Work_mul64_eq Work_div64_eq invTarget_eq)

end
