(* ===== verification/ChainState.thy ===== *)
theory ChainState
  imports ElementAccumulator Work Policy
begin

text \<open>
  The state of the chain (\<^verbatim>\<open>core/consensus/state.go\<close>): the network parameters, the state as of a block
  with the quantities derived from it (rewards, targets, weights, taxes, the hashes that are signed,
  the commitment), and the state within a block. The QDAY parameters are from
  \<^verbatim>\<open>core/consensus/qday.go\<close>.
\<close>

section \<open>Network and state\<close>

record QdayParams =
  qd_RulesVersion :: u8
  qd_Domain :: hash256
  qd_Canary :: hash256
  qd_Reward :: Currency
  qd_ProofFee :: Currency
  qd_MiningBlocks :: u64
  qd_PremineAmount :: Currency
  qd_ShieldBlocks :: u64
  qd_DecayBlocks :: u64
  qd_DecayStep :: u64
  qd_ActivationDelay :: u64
  qd_DefendBits :: u8
  qd_V1Height :: u64

record Network =
  n_Qday :: "QdayParams option"
  n_Name :: string
  n_InitialCoinbase :: Currency
  n_MinimumCoinbase :: Currency
  n_InitialTarget :: BlockID
  n_BlockInterval :: Duration
  n_MaturityDelay :: u64
  n_DevAddr_Height :: u64
  n_DevAddr_OldAddress :: Address
  n_DevAddr_NewAddress :: Address
  n_Tax_Height :: u64
  n_StorageProof_Height :: u64
  n_Oak_Height :: u64
  n_Oak_FixHeight :: u64
  n_Oak_GenesisTimestamp :: Time
  n_ASIC_Height :: u64
  n_ASIC_OakTime :: Duration
  n_ASIC_OakTarget :: BlockID
  n_ASIC_NonceFactor :: u64
  n_Foundation_Height :: u64
  n_Foundation_PrimaryAddress :: Address
  n_Foundation_FailsafeAddress :: Address
  n_V2_AllowHeight :: u64
  n_V2_RequireHeight :: u64
  n_V2_FinalCutHeight :: u64
  n_V2_EphemeralOutputHeight :: u64

record State =
  s_QdayHeight :: u64
  s_Network :: Network
  s_Index :: ChainIndex
  s_PrevTimestamps :: "Time list"
  s_Depth :: BlockID
  s_ChildTarget :: BlockID
  s_SiafundTaxRevenue :: Currency
  s_OakTime :: Duration
  s_OakTarget :: BlockID
  s_FoundationSubsidyAddress :: Address
  s_FoundationManagementAddress :: Address
  s_TotalWork :: Work
  s_Difficulty :: Work
  s_OakWork :: Work
  s_Elements :: ElementAccumulator
  s_Attestations :: u64

definition GenesisState :: "Network \<Rightarrow> State res" where
  "GenesisState n =
     rbind (invTarget (intToTarget maxTarget)) (\<lambda>w.
     rbind (invTarget (n_InitialTarget n)) (\<lambda>d.
     Ok \<lparr>s_QdayHeight = 0, s_Network = n,
         s_Index = \<lparr>ci_Height = NOT 0, ci_ID = 0\<rparr>,
         s_PrevTimestamps = replicate 11 0,
         s_Depth = intToTarget maxTarget,
         s_ChildTarget = n_InitialTarget n,
         s_SiafundTaxRevenue = ZeroCurrency,
         s_OakTime = 0,
         s_OakTarget = intToTarget maxTarget,
         s_FoundationSubsidyAddress = n_Foundation_PrimaryAddress n,
         s_FoundationManagementAddress = n_Foundation_FailsafeAddress n,
         s_TotalWork = w, s_Difficulty = d, s_OakWork = w,
         s_Elements = empty_Accumulator, s_Attestations = 0\<rparr>))"

definition childHeight :: "State \<Rightarrow> u64" where
  "childHeight s = ci_Height (s_Index s) + 1"

definition numTimestamps :: "State \<Rightarrow> nat" where
  "numTimestamps s = (if childHeight s < 11 then unat (childHeight s) else 11)"

definition Work_EncodeTo :: "Work \<Rightarrow> byte list" where
  "Work_EncodeTo w = hash_bytes w"

definition State_EncodeTo :: "State \<Rightarrow> byte list" where
  "State_EncodeTo s =
     ChainIndex_EncodeTo (s_Index s) @
     concat (map WriteTime (take (numTimestamps s) (s_PrevTimestamps s))) @
     Hash256_EncodeTo (s_Depth s) @
     Hash256_EncodeTo (s_ChildTarget s) @
     V2Currency_EncodeTo (s_SiafundTaxRevenue s) @
     WriteUint64 (uint64 (s_OakTime s)) @
     Hash256_EncodeTo (s_OakTarget s) @
     Hash256_EncodeTo (s_FoundationSubsidyAddress s) @
     Hash256_EncodeTo (s_FoundationManagementAddress s) @
     Work_EncodeTo (s_TotalWork s) @
     Work_EncodeTo (s_Difficulty s) @
     Work_EncodeTo (s_OakWork s) @
     ElementAccumulator_EncodeTo (s_Elements s) @
     WriteUint64 (s_Attestations s) @
     WriteUint64 (s_QdayHeight s)"

definition medianTimestamp :: "State \<Rightarrow> Time res" where
  "medianTimestamp s =
     (let ts = sort (take (numTimestamps s) (s_PrevTimestamps s)); n = length ts in
      if n mod 2 \<noteq> 0 then Ok (ts ! (n div 2))
      else if n = 0 then Panic ''index out of range''
      else let l = ts ! (n div 2 - 1); r = ts ! (n div 2)
           in Ok (Time_Add l (go_div (Time_Sub r l) 2)))"

definition MaxFutureTimestamp :: "State \<Rightarrow> Time \<Rightarrow> Time" where
  "MaxFutureTimestamp s currentTime =
     (if n_Qday (s_Network s) \<noteq> None \<and> childHeight s = 1 \<and> currentTime < n_Oak_GenesisTimestamp (s_Network s)
      then currentTime
      else Time_Add currentTime (3 * 3600 * second))"

definition SufficientlyHeavierThan :: "State \<Rightarrow> State \<Rightarrow> bool res" where
  "SufficientlyHeavierThan s t =
     rbind (Work_div64 (s_Difficulty t) 5) (\<lambda>d.
     rbind (Work_add (s_TotalWork t) d) (\<lambda>w. Ok (Work_Cmp (s_TotalWork s) w > 0)))"

definition BlockReward :: "State \<Rightarrow> Currency res" where
  "BlockReward s =
     (case n_Qday (s_Network s) of
        Some p \<Rightarrow>
          Ok (if childHeight s = 0 \<or> qd_MiningBlocks p < childHeight s then ZeroCurrency else qd_Reward p)
      | None \<Rightarrow>
          rbind (Siacoins (ucast (childHeight s))) (\<lambda>sc.
          let (r, underflow) = Currency_SubWithUnderflow (n_InitialCoinbase (s_Network s)) sc
          in Ok (if underflow \<or> Currency_Cmp r (n_MinimumCoinbase (s_Network s)) < 0
                 then n_MinimumCoinbase (s_Network s) else r)))"

definition PoWTarget :: "State \<Rightarrow> BlockID res" where
  "PoWTarget s =
     (if childHeight s < n_V2_FinalCutHeight (s_Network s) then Ok (s_ChildTarget s)
      else invTarget (s_Difficulty s))"

definition MaturityHeight :: "State \<Rightarrow> u64" where
  "MaturityHeight s = childHeight s + n_MaturityDelay (s_Network s)"

definition SiafundCount :: u64 where
  "SiafundCount = 10000"

definition FoundationSubsidy :: "State \<Rightarrow> (SiacoinOutput option) res" where
  "FoundationSubsidy s =
     (if n_Qday (s_Network s) \<noteq> None then Ok None
      else if s_FoundationSubsidyAddress s = VoidAddress then Ok None
      else rbind (Siacoins 30000) (\<lambda>subsidyPerBlock.
        if n_BlockInterval (s_Network s) = 0 then Panic ''integer divide by zero''
        else let blocksPerYear = uint64 (go_div (365 * 24 * 3600 * second) (n_BlockInterval (s_Network s)));
                 blocksPerMonth = blocksPerYear div 12;
                 hardforkHeight = n_Foundation_Height (s_Network s)
             in if childHeight s < hardforkHeight then Ok None
                else if blocksPerMonth = 0 then Panic ''integer divide by zero''
                else if (childHeight s - hardforkHeight) mod blocksPerMonth \<noteq> 0 then Ok None
                else rbind (Currency_Mul64 subsidyPerBlock
                         (if childHeight s = hardforkHeight then blocksPerYear else blocksPerMonth)) (\<lambda>v.
                     Ok (Some \<lparr>sco_Value = v, sco_Address = s_FoundationSubsidyAddress s\<rparr>))))"

definition NonceFactor :: "State \<Rightarrow> u64" where
  "NonceFactor s = (if childHeight s < n_ASIC_Height (s_Network s) then 1 else n_ASIC_NonceFactor (s_Network s))"

definition MaxBlockWeight :: u64 where
  "MaxBlockWeight = 2000000"

section \<open>Weights and taxes\<close>

definition TransactionWeight :: "Transaction \<Rightarrow> u64" where
  "TransactionWeight txn = word_of_nat (length (Transaction_EncodeTo txn))"

definition no_proof :: "StateElement \<Rightarrow> StateElement" where
  "no_proof se = se\<lparr>se_MerkleProof := []\<rparr>"

definition weigh_sci :: "V2SiacoinInput \<Rightarrow> byte list" where
  "weigh_sci sci = V2SiacoinInput_EncodeTo
     (sci\<lparr>v2sci_Parent := (v2sci_Parent sci)\<lparr>sce_StateElement := no_proof (sce_StateElement (v2sci_Parent sci))\<rparr>\<rparr>)"

definition weigh_sfi :: "V2SiafundInput \<Rightarrow> byte list" where
  "weigh_sfi sfi = V2SiafundInput_EncodeTo
     (sfi\<lparr>v2sfi_Parent := (v2sfi_Parent sfi)\<lparr>sfe_StateElement := no_proof (sfe_StateElement (v2sfi_Parent sfi))\<rparr>\<rparr>)"

definition fce_no_proof :: "V2FileContractElement \<Rightarrow> V2FileContractElement" where
  "fce_no_proof fce = fce\<lparr>v2fce_StateElement := no_proof (v2fce_StateElement fce)\<rparr>"

definition weigh_resolution :: "V2FileContractResolution \<Rightarrow> byte list" where
  "weigh_resolution fcr = V2FileContractResolution_EncodeTo
     (fcr\<lparr>v2res_Parent := fce_no_proof (v2res_Parent fcr),
          v2res_Resolution := (case v2res_Resolution fcr of
              StorageProofRes sp \<Rightarrow> StorageProofRes (sp\<lparr>v2sp_ProofIndex := (v2sp_ProofIndex sp)
                \<lparr>cie_StateElement := no_proof (cie_StateElement (v2sp_ProofIndex sp))\<rparr>\<rparr>)
            | r \<Rightarrow> r)\<rparr>)"

definition V2TransactionWeight :: "V2Transaction \<Rightarrow> u64" where
  "V2TransactionWeight txn = word_of_nat (length (
     concat (map weigh_sci (v2_SiacoinInputs txn)) @
     concat (map V2SiacoinOutput_EncodeTo (v2_SiacoinOutputs txn)) @
     concat (map weigh_sfi (v2_SiafundInputs txn)) @
     concat (map V2SiafundOutput_EncodeTo (v2_SiafundOutputs txn)) @
     concat (map V2FileContract_EncodeTo (v2_FileContracts txn)) @
     concat (map (\<lambda>fcr. V2FileContractRevision_EncodeTo (fcr\<lparr>v2rev_Parent := fce_no_proof (v2rev_Parent fcr)\<rparr>))
       (v2_FileContractRevisions txn)) @
     concat (map weigh_resolution (v2_FileContractResolutions txn)) @
     concat (map Attestation_EncodeTo (v2_Attestations txn)) @
     v2_ArbitraryData txn @
     (case v2_NewFoundationAddress txn of Some a \<Rightarrow> Hash256_EncodeTo a | None \<Rightarrow> [])))"

text \<open>The float 0.039 is the fraction 5620492334958379 / 2^57.\<close>

definition FileContractTax :: "State \<Rightarrow> FileContract \<Rightarrow> Currency" where
  "FileContractTax s fc =
     (let i = cval (fc_Payout fc);
          i = (if childHeight s < n_Tax_Height (s_Network s)
               then i * 5620492334958379 div 144115188075855872 else i * 39 div 1000);
          i = i - i mod unat SiafundCount
      in NewCurrency (word_of_nat i) (word_of_nat (i div 2 ^ 64)))"

definition V2FileContractTax :: "V2FileContract \<Rightarrow> Currency res" where
  "V2FileContractTax fc =
     rbind (Currency_Add (sco_Value (v2fc_RenterOutput fc)) (sco_Value (v2fc_HostOutput fc))) (\<lambda>v.
     Currency_Div64 v 25)"

definition StorageProofLeafIndex :: "crypto \<Rightarrow> u64 \<Rightarrow> BlockID \<Rightarrow> FileContractID \<Rightarrow> u64 res" where
  "StorageProofLeafIndex c filesize windowID fcid =
     (let numLeaves = (if filesize mod 64 \<noteq> 0 then filesize div 64 + 1 else filesize div 64) in
      if numLeaves = 0 then Ok 0
      else let seed = hash_bytes (hashAll c [Hash256_EncodeTo windowID, Hash256_EncodeTo fcid])
           in fold_res (\<lambda>i r. rbind (div64 r (of_be64 (take 8 (drop i seed))) numLeaves) (\<lambda>(_, r). Ok r))
                [0, 8, 16, 24] 0)"

definition StorageProofLeafHash :: "crypto \<Rightarrow> byte list \<Rightarrow> hash256" where
  "StorageProofLeafHash c leaf = SumLeaf c (of_bytes64 (take 64 (leaf @ replicate 64 0)))"

section \<open>Hashes that are signed\<close>

definition replayPrefix :: "State \<Rightarrow> byte list" where
  "replayPrefix s =
     (let n = s_Network s; height = ci_Height (s_Index s) in
      if n_V2_AllowHeight n \<le> height then [2]
      else if n_Foundation_Height n \<le> height then [1]
      else if n_ASIC_Height n \<le> height then [0]
      else [])"

definition v2ReplayPrefix :: u8 where
  "v2ReplayPrefix = 2"

definition nth_res :: "'a list \<Rightarrow> u64 \<Rightarrow> 'a res" where
  "nth_res xs i = (if unat i < length xs then Ok (xs ! unat i) else Panic ''index out of range'')"

text \<open>The encodings of the elements of a slice at the given indices, one after the other.\<close>

fun covered :: "('a \<Rightarrow> byte list) \<Rightarrow> 'a list \<Rightarrow> u64 list \<Rightarrow> (byte list) res" where
  "covered enc xs [] = Ok []"
| "covered enc xs (i # is) =
     rbind (nth_res xs i) (\<lambda>x. rbind (covered enc xs is) (\<lambda>bs. Ok (enc x @ bs)))"

definition WholeSigHash ::
    "crypto \<Rightarrow> State \<Rightarrow> Transaction \<Rightarrow> hash256 \<Rightarrow> u64 \<Rightarrow> u64 \<Rightarrow> u64 list \<Rightarrow> hash256 res" where
  "WholeSigHash c s txn parentID pubkeyIndex timelock coveredSigs =
     rbind (covered TransactionSignature_EncodeTo (txn_Signatures txn) coveredSigs) (\<lambda>sigs.
     Ok (blake2b_Sum256 c (
       EncodeSlice (\<lambda>x. replayPrefix s @ SiacoinInput_EncodeTo x) (txn_SiacoinInputs txn) @
       EncodeSlice V1SiacoinOutput_EncodeTo (txn_SiacoinOutputs txn) @
       EncodeSlice FileContract_EncodeTo (txn_FileContracts txn) @
       EncodeSlice FileContractRevision_EncodeTo (txn_FileContractRevisions txn) @
       EncodeSlice StorageProof_EncodeTo (txn_StorageProofs txn) @
       EncodeSlice (\<lambda>x. replayPrefix s @ SiafundInput_EncodeTo x) (txn_SiafundInputs txn) @
       EncodeSlice V1SiafundOutput_EncodeTo (txn_SiafundOutputs txn) @
       EncodeSlice V1Currency_EncodeTo (txn_MinerFees txn) @
       EncodeSlice WriteBytes (txn_ArbitraryData txn) @
       Hash256_EncodeTo parentID @ WriteUint64 pubkeyIndex @ WriteUint64 timelock @ sigs)))"

definition PartialSigHash :: "crypto \<Rightarrow> State \<Rightarrow> Transaction \<Rightarrow> CoveredFields \<Rightarrow> hash256 res" where
  "PartialSigHash c s txn cf =
     rbind (covered (\<lambda>x. replayPrefix s @ SiacoinInput_EncodeTo x) (txn_SiacoinInputs txn) (cf_SiacoinInputs cf)) (\<lambda>b1.
     rbind (covered V1SiacoinOutput_EncodeTo (txn_SiacoinOutputs txn) (cf_SiacoinOutputs cf)) (\<lambda>b2.
     rbind (covered FileContract_EncodeTo (txn_FileContracts txn) (cf_FileContracts cf)) (\<lambda>b3.
     rbind (covered FileContractRevision_EncodeTo (txn_FileContractRevisions txn) (cf_FileContractRevisions cf)) (\<lambda>b4.
     rbind (covered StorageProof_EncodeTo (txn_StorageProofs txn) (cf_StorageProofs cf)) (\<lambda>b5.
     rbind (covered (\<lambda>x. replayPrefix s @ SiafundInput_EncodeTo x) (txn_SiafundInputs txn) (cf_SiafundInputs cf)) (\<lambda>b6.
     rbind (covered V1SiafundOutput_EncodeTo (txn_SiafundOutputs txn) (cf_SiafundOutputs cf)) (\<lambda>b7.
     rbind (covered V1Currency_EncodeTo (txn_MinerFees txn) (cf_MinerFees cf)) (\<lambda>b8.
     rbind (covered WriteBytes (txn_ArbitraryData txn) (cf_ArbitraryData cf)) (\<lambda>b9.
     rbind (covered TransactionSignature_EncodeTo (txn_Signatures txn) (cf_Signatures cf)) (\<lambda>b10.
     Ok (blake2b_Sum256 c (b1 @ b2 @ b3 @ b4 @ b5 @ b6 @ b7 @ b8 @ b9 @ b10))))))))))))"

definition State_MerkleLeafHash :: "crypto \<Rightarrow> State \<Rightarrow> Address \<Rightarrow> hash256" where
  "State_MerkleLeafHash c s minerAddr =
     (let stateHash = blake2b_Sum256 c (State_EncodeTo s)
      in blake2b_Sum256 c (WriteUint8 leafHashPrefix @ distinguisher ''commitment'' @
           WriteUint8 v2ReplayPrefix @ Hash256_EncodeTo stateHash @ Hash256_EncodeTo minerAddr))"

definition Commitment :: "crypto \<Rightarrow> State \<Rightarrow> Address \<Rightarrow> Transaction list \<Rightarrow> V2Transaction list \<Rightarrow> hash256" where
  "Commitment c s minerAddr txns v2txns =
     (let acc = AddLeaf c empty_Accumulator (State_MerkleLeafHash c s minerAddr);
          acc = fold (\<lambda>txn acc. AddLeaf c acc (Transaction_MerkleLeafHash c txn)) txns acc;
          acc = fold (\<lambda>txn acc. AddLeaf c acc (V2Transaction_MerkleLeafHash c txn)) v2txns acc
      in Root c acc)"

definition InputSigHash :: "crypto \<Rightarrow> State \<Rightarrow> V2Transaction \<Rightarrow> hash256" where
  "InputSigHash c s txn =
     (case n_Qday (s_Network s) of
        Some p \<Rightarrow> hashAll c [distinguisher ''qday/sig/input/v1'', Hash256_EncodeTo (qd_Domain p),
          V2TransactionSemantics_EncodeTo txn]
      | None \<Rightarrow> hashAll c [distinguisher ''sig/input'', WriteUint8 v2ReplayPrefix,
          V2TransactionSemantics_EncodeTo txn])"

definition ContractSigHash :: "crypto \<Rightarrow> V2FileContract \<Rightarrow> hash256" where
  "ContractSigHash c fc =
     hashAll c [distinguisher ''sig/filecontract'', WriteUint8 v2ReplayPrefix,
       V2FileContract_EncodeTo (fc\<lparr>v2fc_RenterSignature := 0, v2fc_HostSignature := 0\<rparr>)]"

definition RenewalSigHash :: "crypto \<Rightarrow> V2FileContractRenewal \<Rightarrow> hash256" where
  "RenewalSigHash c fcr =
     hashAll c [distinguisher ''sig/filecontractrenewal'', WriteUint8 v2ReplayPrefix,
       V2FileContractRenewal_EncodeTo
         (fcr\<lparr>ren_NewContract := (ren_NewContract fcr)\<lparr>v2fc_RenterSignature := 0, v2fc_HostSignature := 0\<rparr>,
              ren_RenterSignature := 0, ren_HostSignature := 0\<rparr>)]"

definition AttestationSigHash :: "crypto \<Rightarrow> Attestation \<Rightarrow> hash256" where
  "AttestationSigHash c a =
     hashAll c [distinguisher ''sig/attestation'', WriteUint8 v2ReplayPrefix,
       Attestation_EncodeTo (a\<lparr>att_Signature := 0\<rparr>)]"

section \<open>Properties\<close>

text \<open>C35: what a block commits to. The commitment of a block is the RFC 6962 tree hash of the hash of the
  parent state and the miner address followed by the hashes of the v1 and the v2 transactions, in
  order; the commitment of a v1 block is the tree hash of its payouts followed by its transactions.
  The incremental accumulator with its 64 partial roots computes exactly that.\<close>

theorem commitments_are_tree_hashes:
  assumes "length txns + length v2txns + 1 < 2 ^ 64" "length payouts + length txns < 2 ^ 64"
  shows "Commitment c s addr txns v2txns =
      tree_hash c (State_MerkleLeafHash c s addr # map (Transaction_MerkleLeafHash c) txns @
        map (V2Transaction_MerkleLeafHash c) v2txns) \<and>
    blockMerkleRoot c payouts txns =
      tree_hash c (map (\<lambda>mp. hashAll c [WriteUint8 0, V1SiacoinOutput_EncodeTo mp]) payouts @
        map (\<lambda>txn. hashAll c [WriteUint8 0, Transaction_EncodeTo txn]) txns)"
proof -
  let ?l = "State_MerkleLeafHash c s addr"
  let ?p = "\<lambda>mp. hashAll c [WriteUint8 0, V1SiacoinOutput_EncodeTo mp]"
  have "represents c (AddLeaf c empty_Accumulator ?l) [?l]"
    using represents_AddLeaf [OF represents_empty] by simp
  then have "represents c (fold (\<lambda>txn acc. AddLeaf c acc (Transaction_MerkleLeafHash c txn)) txns
      (AddLeaf c empty_Accumulator ?l)) ([?l] @ map (Transaction_MerkleLeafHash c) txns)"
    using assms(1) by (intro represents_fold) auto
  moreover have "represents c (fold (\<lambda>mp acc. AddLeaf c acc (?p mp)) payouts empty_Accumulator) ([] @ map ?p payouts)"
    using assms(2) by (intro represents_fold represents_empty) auto
  ultimately show ?thesis
    using assms by (simp add: Commitment_def blockMerkleRoot_def Let_def fold_tree_hash)
qed

theorem commitments_are_tree_hashes_witness:
  "blockMerkleRoot leaf_crypto [\<lparr>sco_Value = NewCurrency 1 0, sco_Address = 2\<rparr>] [] =
     hashAll leaf_crypto [WriteUint8 0, V1SiacoinOutput_EncodeTo \<lparr>sco_Value = NewCurrency 1 0, sco_Address = 2\<rparr>]"
  using commitments_are_tree_hashes [of "[]" "[]" "[\<lparr>sco_Value = NewCurrency 1 0, sco_Address = 2\<rparr>]" leaf_crypto]
  by simp

end
