(* ===== verification/Qday.thy ===== *)
theory Qday
  imports ChainState
begin

text \<open>
  The QDAY rules of \<^verbatim>\<open>core/consensus/qday.go\<close> that depend on the chain state only: the consensus
  parameters, the canary point and its proof, transaction envelopes, activation heights, the decay of
  coins, and the DEFEND work on transactions. The lemmas show that the decay is the exact rounded
  fraction and never panics, that envelopes have one encoding, and that the work check is a bound on
  the hash.
\<close>

section \<open>Parameters and canary\<close>

definition QdayParams_Validate :: "crypto \<Rightarrow> QdayParams \<Rightarrow> unit res" where
  "QdayParams_Validate c p =
     (if qd_RulesVersion p \<noteq> 2 then Err ''unsupported QDAY consensus version''
      else rbind (Siacoins 500000) (\<lambda>premine.
        if qd_PremineAmount p \<noteq> premine then Err ''QDAY premine must be exactly 500000 coins''
        else if qd_Domain p = 0 \<or> Currency_IsZero (qd_Reward p) \<or> Currency_IsZero (qd_ProofFee p)
          \<or> qd_MiningBlocks p = 0 \<or> 10000000 < qd_MiningBlocks p
          \<or> qd_ShieldBlocks p = 0 \<or> 10000000 < qd_ShieldBlocks p
          \<or> qd_DecayBlocks p = 0 \<or> 10000000 < qd_DecayBlocks p
          \<or> qd_DecayStep p = 0 \<or> qd_DecayBlocks p mod qd_DecayStep p \<noteq> 0
          \<or> qd_ActivationDelay p = 0 \<or> 100000 < qd_ActivationDelay p \<or> 32 < qd_DefendBits p
        then Err ''invalid QDAY consensus parameters''
        else let (mined, overflow) = Currency_Mul64WithOverflow (qd_Reward p) (qd_MiningBlocks p) in
          if overflow then Err ''QDAY emission overflows''
          else let (_, overflow) = Currency_AddWithOverflow mined (qd_PremineAmount p) in
            if overflow then Err ''QDAY gross emission overflows''
            else case point_SetBytes c (qd_Canary p) of
                None \<Rightarrow> Err ''invalid canary point''
              | Some point \<Rightarrow> if point = identity_Point c then Err ''invalid canary point'' else Ok ()))"

definition canary_candidate :: "crypto \<Rightarrow> u64 \<Rightarrow> hash256" where
  "canary_candidate c counter =
     blake2b_Sum256 c (ascii ''QDAY/Edwards25519/NUMS/canary/v1/'' @ le64 counter)"

text \<open>The loop of \<^verbatim>\<open>QdayCanary\<close>, which has no bound: None is a loop that never ends.\<close>

partial_function (option) canary_from :: "crypto \<Rightarrow> u64 \<Rightarrow> hash256 option" where
  "canary_from c counter =
     (let h = canary_candidate c counter in
      case point_SetBytes c h of
        None \<Rightarrow> canary_from c (counter + 1)
      | Some p \<Rightarrow>
          if p \<noteq> h then canary_from c (counter + 1)
          else let q = point_MultByCofactor c p in
            if q = identity_Point c then canary_from c (counter + 1) else Some q)"

definition QdayCanary :: "crypto \<Rightarrow> hash256 option" where
  "QdayCanary c = canary_from c 0"

definition VerifyQdayProof :: "crypto \<Rightarrow> hash256 \<Rightarrow> hash256 \<Rightarrow> bool" where
  "VerifyQdayProof c canary witness \<longleftrightarrow>
     scalar_SetCanonicalBytes c witness \<and> \<not> scalar_IsZero c witness \<and> scalar_BaseMult c witness = canary"

section \<open>Envelopes\<close>

definition QdayTransfer :: byte where "QdayTransfer = 1"

definition QdayCoinbase :: byte where "QdayCoinbase = 2"

definition QdayCanaryProof :: byte where "QdayCanaryProof = 3"

definition QdayMiningWork :: byte where "QdayMiningWork = 4"

lemmas kind_defs = QdayTransfer_def QdayCoinbase_def QdayCanaryProof_def QdayMiningWork_def

record QdayEnvelope =
  env_Kind :: byte
  env_Nonce :: u64
  env_Keys :: "QdayKeys list"
  env_Witness :: hash256

definition envelope_magic :: "byte list" where
  "envelope_magic = ascii ''QDAY'' @ [2]"

definition QdayEnvelope_Encode :: "QdayEnvelope \<Rightarrow> byte list" where
  "QdayEnvelope_Encode e =
     envelope_magic @ [env_Kind e] @ le64 (env_Nonce e) @ le_bytes 2 (length (env_Keys e)) @
     concat (map QdayKeys_Bytes (env_Keys e)) @
     (if env_Kind e = QdayCanaryProof then hash_bytes (env_Witness e) else [])"

definition envelope_key :: "byte list \<Rightarrow> nat \<Rightarrow> QdayKeys" where
  "envelope_key b i = \<lparr>qk_Classical = hash_of_bytes (take 32 (drop (16 + 64 * i) b)),
                       qk_Reserve = hash_of_bytes (take 32 (drop (48 + 64 * i) b))\<rparr>"

definition ParseQdayEnvelope :: "byte list \<Rightarrow> QdayEnvelope res" where
  "ParseQdayEnvelope b =
     (if length b < 16 \<or> take 5 b \<noteq> envelope_magic then Err ''missing QDAY envelope''
      else let kind = b ! 5;
               nonce = of_le64 (take 8 (drop 6 b));
               n = of_le_bytes (take 2 (drop 14 b));
               w = (if kind = QdayCanaryProof then 32 else 0)
           in if kind < QdayTransfer \<or> QdayMiningWork < kind \<or> 128 < n \<or> length b \<noteq> 16 + 64 * n + w
              then Err ''invalid QDAY envelope''
              else let keys = map (envelope_key b) [0..<n]
                   in rbind (for_each QdayKeys_Validate keys) (\<lambda>_.
                      Ok \<lparr>env_Kind = kind, env_Nonce = nonce, env_Keys = keys,
                          env_Witness = (if w \<noteq> 0 then hash_of_bytes (drop (length b - 32) b) else 0)\<rparr>))"

section \<open>Activation and decay\<close>

definition QdayV1Active :: "State \<Rightarrow> u64 \<Rightarrow> bool" where
  "QdayV1Active s height \<longleftrightarrow>
     (case n_Qday (s_Network s) of
        None \<Rightarrow> False
      | Some p \<Rightarrow> qd_V1Height p \<noteq> 0 \<and> qd_V1Height p \<le> height)"

definition QdayActive :: "State \<Rightarrow> u64 \<Rightarrow> bool" where
  "QdayActive s height \<longleftrightarrow> n_Qday (s_Network s) \<noteq> None \<and> s_QdayHeight s \<noteq> 0 \<and> s_QdayHeight s \<le> height"

definition div_u64 :: "u64 \<Rightarrow> u64 \<Rightarrow> u64 res" where
  "div_u64 a b = (if b = 0 then Panic ''integer divide by zero'' else Ok (a div b))"

definition decay_share :: "Currency \<Rightarrow> u64 \<Rightarrow> u64 \<Rightarrow> Currency res" where
  "decay_share v remaining decayBlocks =
     rbind (Currency_Div64 v decayBlocks) (\<lambda>q.
     rbind (Currency_Mul64 q decayBlocks) (\<lambda>qd.
     rbind (Currency_Sub v qd) (\<lambda>r.
     rbind (Currency_Mul64 q remaining) (\<lambda>qr.
     rbind (Currency_Mul64 r remaining) (\<lambda>rr.
     rbind (Currency_Div64 rr decayBlocks) (\<lambda>f.
     Currency_Add qr f))))))"

definition QdayValue :: "State \<Rightarrow> SiacoinElement \<Rightarrow> u64 \<Rightarrow> Currency res" where
  "QdayValue s e height =
     (if \<not> QdayActive s height then Ok (sco_Value (sce_SiacoinOutput e))
      else case n_Qday (s_Network s) of
        None \<Rightarrow> Panic ''nil pointer dereference''
      | Some p \<Rightarrow>
          let start = max (s_QdayHeight s) (sce_MaturityHeight e) in
          if height \<le> start \<or> height - start \<le> qd_ShieldBlocks p then Ok (sco_Value (sce_SiacoinOutput e))
          else rbind (div_u64 (height - start - qd_ShieldBlocks p) (qd_DecayStep p)) (\<lambda>steps.
            let age = steps * qd_DecayStep p in
            if qd_DecayBlocks p \<le> age then Ok ZeroCurrency
            else decay_share (sco_Value (sce_SiacoinOutput e)) (qd_DecayBlocks p - age) (qd_DecayBlocks p)))"

definition QdayUnits :: "State \<Rightarrow> u64 \<Rightarrow> Currency res" where
  "QdayUnits s height =
     (if QdayActive s height then Currency_Div64 HastingsPerSiacoin 1000000 else Ok HastingsPerSiacoin)"

section \<open>DEFEND work\<close>

definition clear_nonce :: "byte list \<Rightarrow> byte list" where
  "clear_nonce b = (if 14 \<le> length b then take 6 b @ replicate 8 0 @ drop 14 b else b)"

definition QdayWorkIntent :: "crypto \<Rightarrow> State \<Rightarrow> V2Transaction \<Rightarrow> hash256 res" where
  "QdayWorkIntent c s txn =
     (case n_Qday (s_Network s) of
        None \<Rightarrow> Panic ''nil pointer dereference''
      | Some p \<Rightarrow>
          Ok (hashAll c [distinguisher ''qday/defend/intent/v1'', Hash256_EncodeTo (qd_Domain p),
            Hash256_EncodeTo (V2Transaction_ID c (txn\<lparr>v2_ArbitraryData := clear_nonce (v2_ArbitraryData txn)\<rparr>))]))"

definition work_hash :: "crypto \<Rightarrow> hash256 \<Rightarrow> u64 \<Rightarrow> hash256" where
  "work_hash c intent nonce = blake2b_Sum256 c (hash_bytes intent @ le64 nonce)"

definition QdayWorkValid :: "crypto \<Rightarrow> hash256 \<Rightarrow> u64 \<Rightarrow> u8 \<Rightarrow> bool" where
  "QdayWorkValid c intent nonce difficulty \<longleftrightarrow>
     list_all (\<lambda>i. hash_bytes (work_hash c intent nonce) ! (i div 8) AND push_bit (7 - i mod 8) 1 = 0)
       [0..<unat difficulty]"

definition qdayUnsupported :: "V2Transaction \<Rightarrow> bool" where
  "qdayUnsupported txn \<longleftrightarrow>
     length (v2_SiafundInputs txn) + length (v2_SiafundOutputs txn) + length (v2_FileContracts txn) +
     length (v2_FileContractRevisions txn) + length (v2_FileContractResolutions txn) +
     length (v2_Attestations txn) \<noteq> 0 \<or> v2_NewFoundationAddress txn \<noteq> None"

section \<open>The decay is exact\<close>

lemma decay_share_exact:
  assumes d: "d \<noteq> 0" and r: "r \<le> d"
  shows "\<exists>w. decay_share v r d = Ok w \<and> cval w = cval v * unat r div unat d"
proof -
  have d0: "0 < unat d" using d by (simp add: unat_gt_0)
  have rd: "unat r \<le> unat d" using r by (simp add: word_le_nat_alt)
  obtain q where q: "Currency_Div64 v d = Ok q" "cval q = cval v div unat d"
    using Div64_total [OF d] by blast
  have qd: "cval q * unat d \<le> cval v" by (simp add: q(2))
  obtain m where m: "Currency_Mul64 q d = Ok m" "cval m = cval q * unat d"
    using Mul64_total [of q d] qd cval_less [of v] by auto
  obtain t where t: "Currency_Sub v m = Ok t" "cval t = cval v mod unat d"
    using Sub_total [of m v] m qd by (auto simp: q(2) minus_div_mult_eq_mod)
  have "cval q * unat r \<le> cval q * unat d" using rd by (rule mult_left_mono) simp
  then have "cval q * unat r < 2 ^ 128" using qd cval_less [of v] by linarith
  then obtain a where a: "Currency_Mul64 q r = Ok a" "cval a = cval q * unat r"
    using Mul64_total by blast
  have "cval t < 2 ^ 64" using t(2) d0 mod_less_divisor [of "unat d" "cval v"] unat_u64_lt [of d] by linarith
  then have "cval t * unat r < 2 ^ 64 * 2 ^ 64"
    using unat_u64_lt [of r] by (intro mult_strict_mono) auto
  then obtain b where b: "Currency_Mul64 t r = Ok b" "cval b = cval t * unat r"
    using Mul64_total [of t r] by auto
  obtain f where f: "Currency_Div64 b d = Ok f" "cval f = cval b div unat d"
    using Div64_total [OF d] by blast
  have "cval v * unat r = cval q * unat r * unat d + cval t * unat r"
    unfolding q(2) t(2) by (metis (no_types, lifting) add_mult_distrib div_mult_mod_eq mult.assoc mult.commute)
  then have exact: "cval v * unat r div unat d = cval a + cval f"
    using d0 by (simp add: a(2) f(2) b(2))
  have "cval v * unat r div unat d \<le> cval v * unat d div unat d"
    using rd by (intro div_le_mono) simp
  then have "cval a + cval f < 2 ^ 128" using exact d0 cval_less [of v] by simp
  then obtain w where "Currency_Add a f = Ok w" "cval w = cval a + cval f" using Add_total by blast
  then show ?thesis using q m t a b f exact by (simp add: decay_share_def)
qed

text \<open>The part of an output's value, in units of \<open>1 / DecayBlocks\<close>, that is left at a height.\<close>

definition decay_remaining :: "State \<Rightarrow> QdayParams \<Rightarrow> SiacoinElement \<Rightarrow> u64 \<Rightarrow> nat" where
  "decay_remaining s p e height =
     (if \<not> QdayActive s height then unat (qd_DecayBlocks p)
      else let age = unat height - max (unat (s_QdayHeight s)) (unat (sce_MaturityHeight e)) - unat (qd_ShieldBlocks p)
           in unat (qd_DecayBlocks p) - age div unat (qd_DecayStep p) * unat (qd_DecayStep p))"

lemma Validate_Ok:
  assumes "QdayParams_Validate c p = Ok ()"
  shows "qd_DecayBlocks p \<noteq> 0" "qd_DecayStep p \<noteq> 0" "qd_DecayBlocks p mod qd_DecayStep p = 0"
    "qd_ShieldBlocks p \<noteq> 0" "qd_ActivationDelay p \<noteq> 0" "qd_ActivationDelay p \<le> 100000"
    "qd_DefendBits p \<le> 32" "cval (qd_Reward p) * unat (qd_MiningBlocks p) + cval (qd_PremineAmount p) < 2 ^ 128"
    "Siacoins 500000 = Ok (qd_PremineAmount p)"
proof -
  have v: "\<not> (qd_Domain p = 0 \<or> Currency_IsZero (qd_Reward p) \<or> Currency_IsZero (qd_ProofFee p)
          \<or> qd_MiningBlocks p = 0 \<or> 10000000 < qd_MiningBlocks p
          \<or> qd_ShieldBlocks p = 0 \<or> 10000000 < qd_ShieldBlocks p
          \<or> qd_DecayBlocks p = 0 \<or> 10000000 < qd_DecayBlocks p
          \<or> qd_DecayStep p = 0 \<or> qd_DecayBlocks p mod qd_DecayStep p \<noteq> 0
          \<or> qd_ActivationDelay p = 0 \<or> 100000 < qd_ActivationDelay p \<or> 32 < qd_DefendBits p)"
    and prem: "Siacoins 500000 = Ok (qd_PremineAmount p)"
    using assms by (auto simp: QdayParams_Validate_def res_simps split: if_splits)
  show "qd_DecayBlocks p \<noteq> 0" "qd_DecayStep p \<noteq> 0" "qd_DecayBlocks p mod qd_DecayStep p = 0"
    "qd_ShieldBlocks p \<noteq> 0" "qd_ActivationDelay p \<noteq> 0" "qd_ActivationDelay p \<le> 100000"
    "qd_DefendBits p \<le> 32" "Siacoins 500000 = Ok (qd_PremineAmount p)"
    using v prem by auto
  obtain m o1 where m: "Currency_Mul64WithOverflow (qd_Reward p) (qd_MiningBlocks p) = (m, o1)" by fastforce
  obtain t o2 where t: "Currency_AddWithOverflow m (qd_PremineAmount p) = (t, o2)" by fastforce
  have "\<not> o1" "\<not> o2"
    using assms v prem m t by (auto simp: QdayParams_Validate_def res_simps split: if_splits)
  then show "cval (qd_Reward p) * unat (qd_MiningBlocks p) + cval (qd_PremineAmount p) < 2 ^ 128"
    using Mul64WithOverflow_cval [OF m] AddWithOverflow_cval [OF t] cval_less [of t] by auto
qed

lemma QdayValue_remaining:
  assumes p: "n_Qday (s_Network s) = Some p" and valid: "QdayParams_Validate c p = Ok ()"
  shows "\<exists>w. QdayValue s e height = Ok w \<and>
    cval w = cval (sco_Value (sce_SiacoinOutput e)) * decay_remaining s p e height div unat (qd_DecayBlocks p)"
proof (cases "QdayActive s height")
  case False
  then show ?thesis using Validate_Ok(1) [OF valid] by (simp add: QdayValue_def decay_remaining_def unat_eq_0)
next
  case True
  note v = Validate_Ok [OF valid]
  let ?start = "max (s_QdayHeight s) (sce_MaturityHeight e)"
  let ?age = "unat height - unat ?start - unat (qd_ShieldBlocks p)"
  have start: "unat ?start = max (unat (s_QdayHeight s)) (unat (sce_MaturityHeight e))"
    by (simp add: max_def word_le_nat_alt)
  have d0: "0 < unat (qd_DecayBlocks p)" using v(1) by (simp add: unat_gt_0)
  show ?thesis
  proof (cases "height \<le> ?start \<or> height - ?start \<le> qd_ShieldBlocks p")
    case shield: True
    then have "?age = 0"
      by (auto simp: word_le_nat_alt unat_sub_if' split: if_splits)
    then have "decay_remaining s p e height = unat (qd_DecayBlocks p)"
      using True by (simp add: decay_remaining_def start)
    then show ?thesis using True shield p d0 by (simp add: QdayValue_def Let_def)
  next
    case False
    have x: "unat (height - ?start - qd_ShieldBlocks p) = ?age"
      using False by (auto simp: word_le_nat_alt unat_sub_if' not_le)
    let ?steps = "(height - ?start - qd_ShieldBlocks p) div qd_DecayStep p"
    have steps: "unat ?steps = ?age div unat (qd_DecayStep p)" by (simp add: unat_div x)
    then have "unat ?steps * unat (qd_DecayStep p) \<le> ?age" by (simp only: div_times_less_eq_dividend)
    then have "unat ?steps * unat (qd_DecayStep p) < 2 ^ 64" using unat_u64_lt [of height] by linarith
    then have age: "unat (?steps * qd_DecayStep p) = ?age div unat (qd_DecayStep p) * unat (qd_DecayStep p)"
      unfolding steps [symmetric] by (simp add: unat_mult_lem [THEN iffD1])
    have rem: "decay_remaining s p e height = unat (qd_DecayBlocks p) - unat (?steps * qd_DecayStep p)"
      using True by (simp add: decay_remaining_def start age)
    show ?thesis
    proof (cases "qd_DecayBlocks p \<le> ?steps * qd_DecayStep p")
      case gone: True
      then have "decay_remaining s p e height = 0" by (simp add: rem word_le_nat_alt)
      then show ?thesis using True False gone p v(2) by (simp add: QdayValue_def Let_def div_u64_def)
    next
      case left: False
      let ?r = "qd_DecayBlocks p - ?steps * qd_DecayStep p"
      have "unat ?r = decay_remaining s p e height" unfolding rem
        using left by (auto simp: unat_sub_if' word_le_nat_alt)
      moreover have "?r \<le> qd_DecayBlocks p" using left by (simp add: word_le_nat_alt unat_sub_if')
      ultimately show ?thesis
        using decay_share_exact [OF v(1), of ?r "sco_Value (sce_SiacoinOutput e)"] True False left p v(2)
        by (auto simp: QdayValue_def Let_def div_u64_def)
    qed
  qed
qed

lemma decay_remaining_le: "decay_remaining s p e height \<le> unat (qd_DecayBlocks p)"
  by (simp add: decay_remaining_def Let_def)

lemma decay_remaining_mono:
  assumes "height \<le> height'"
  shows "decay_remaining s p e height' \<le> decay_remaining s p e height"
proof (cases "QdayActive s height")
  case True
  then have "QdayActive s height'" using assms by (auto simp: QdayActive_def)
  moreover have "unat height \<le> unat height'" using assms by (simp add: word_le_nat_alt)
  ultimately show ?thesis using True
    by (auto simp: decay_remaining_def Let_def intro!: diff_le_mono2 mult_le_mono1 div_le_mono)
next
  case False
  then show ?thesis using decay_remaining_le by (simp add: decay_remaining_def)
qed

lemma decay_remaining_zero:
  assumes "QdayParams_Validate c p = Ok ()" "QdayActive s height"
    "max (unat (s_QdayHeight s)) (unat (sce_MaturityHeight e)) + unat (qd_ShieldBlocks p) + unat (qd_DecayBlocks p)
      \<le> unat height"
  shows "decay_remaining s p e height = 0"
proof -
  let ?age = "unat height - max (unat (s_QdayHeight s)) (unat (sce_MaturityHeight e)) - unat (qd_ShieldBlocks p)"
  let ?k = "unat (qd_DecayStep p)"
  have "unat (qd_DecayBlocks p mod qd_DecayStep p) = 0" using Validate_Ok(3) [OF assms(1)] by simp
  then have "unat (qd_DecayBlocks p) mod ?k = 0" by (simp add: unat_mod)
  then have "unat (qd_DecayBlocks p) = unat (qd_DecayBlocks p) div ?k * ?k" by auto
  also have "\<dots> \<le> ?age div ?k * ?k" using assms(3) by (intro mult_le_mono1 div_le_mono) simp
  finally show ?thesis using assms(2) by (simp add: decay_remaining_def)
qed

section \<open>Envelopes have one encoding\<close>

definition wf_envelope :: "QdayEnvelope \<Rightarrow> bool" where
  "wf_envelope e \<longleftrightarrow> QdayTransfer \<le> env_Kind e \<and> env_Kind e \<le> QdayMiningWork \<and> length (env_Keys e) \<le> 128
     \<and> (\<forall>k \<in> set (env_Keys e). QdayKeys_Validate k = Ok ())
     \<and> (env_Kind e \<noteq> QdayCanaryProof \<longrightarrow> env_Witness e = 0)"

lemma envelope_magic_length [simp]: "length envelope_magic = 5"
  by (simp add: envelope_magic_def ascii_def)

lemma length_QdayKeys_Bytes [simp]: "length (QdayKeys_Bytes k) = 64"
  by (simp add: QdayKeys_Bytes_def)

lemma length_concat_keys: "length (concat (map QdayKeys_Bytes ks)) = 64 * length ks"
  by (induction ks) simp_all

lemma drop_concat_keys:
  "i \<le> length ks \<Longrightarrow> drop (64 * i) (concat (map QdayKeys_Bytes ks) @ r) = concat (map QdayKeys_Bytes (drop i ks)) @ r"
proof (induction ks arbitrary: i)
  case (Cons k ks)
  then show ?case by (cases i) (auto simp: drop_append)
qed simp

lemma envelope_key_encode:
  assumes "length hd16 = 16" "i < length ks"
  shows "envelope_key (hd16 @ concat (map QdayKeys_Bytes ks) @ r) i = ks ! i"
proof -
  let ?b = "hd16 @ concat (map QdayKeys_Bytes ks) @ r"
  have "drop (16 + 64 * i) ?b = concat (map QdayKeys_Bytes (drop i ks)) @ r"
    using assms drop_concat_keys [of i ks r] by (simp add: drop_append)
  then have d: "drop (16 + 64 * i) ?b = QdayKeys_Bytes (ks ! i) @ concat (map QdayKeys_Bytes (drop (Suc i) ks)) @ r"
    using assms(2) by (simp add: Cons_nth_drop_Suc [symmetric])
  have "48 + 64 * i = 32 + (16 + 64 * i)" by simp
  then have "drop (48 + 64 * i) ?b = drop 32 (drop (16 + 64 * i) ?b)" by (simp only: drop_drop)
  then show ?thesis by (simp only: envelope_key_def d) (simp add: QdayKeys_Bytes_def)
qed

lemma Parse_Encode:
  assumes "wf_envelope e"
  shows "ParseQdayEnvelope (QdayEnvelope_Encode e) = Ok e"
proof -
  define n where "n = length (env_Keys e)"
  define h16 where "h16 = envelope_magic @ [env_Kind e] @ le64 (env_Nonce e) @ le_bytes 2 n"
  define tl32 where "tl32 = (if env_Kind e = QdayCanaryProof then hash_bytes (env_Witness e) else [])"
  define b where "b = h16 @ concat (map QdayKeys_Bytes (env_Keys e)) @ tl32"
  have enc: "QdayEnvelope_Encode e = b" by (simp add: QdayEnvelope_Encode_def b_def h16_def n_def tl32_def)
  have n: "n \<le> 128" using assms by (simp add: wf_envelope_def n_def)
  have h16: "length h16 = 16" "take 5 h16 = envelope_magic" "h16 ! 5 = env_Kind e"
      "take 8 (drop 6 h16) = le64 (env_Nonce e)" "take 2 (drop 14 h16) = le_bytes 2 n"
    by (simp_all add: h16_def nth_append)
  have fields: "take 5 b = envelope_magic" "b ! 5 = env_Kind e" "take 8 (drop 6 b) = le64 (env_Nonce e)"
      "take 2 (drop 14 b) = le_bytes 2 n"
    using h16 by (simp_all add: b_def nth_append)
  have num: "of_le_bytes (le_bytes 2 n) = n" using n by (simp add: of_le_bytes_le_bytes)
  have keys: "map (envelope_key b) [0..<n] = env_Keys e"
    using h16(1) by (intro nth_equalityI) (simp_all add: b_def n_def envelope_key_encode)
  have valid: "for_each QdayKeys_Validate (env_Keys e) = Ok ()"
    using assms by (simp add: wf_envelope_def for_each_Ok)
  have wit: "drop (length b - 32) b = hash_bytes (env_Witness e)" if "env_Kind e = QdayCanaryProof"
    using that by (simp add: b_def tl32_def)
  have len: "length b = 16 + 64 * n + (if env_Kind e = QdayCanaryProof then 32 else 0)"
    using h16(1) by (simp add: b_def length_concat_keys n_def tl32_def)
  have kind: "\<not> env_Kind e < QdayTransfer" "\<not> QdayMiningWork < env_Kind e"
      "env_Kind e \<noteq> QdayCanaryProof \<Longrightarrow> env_Witness e = 0"
    using assms by (auto simp: wf_envelope_def not_less)
  have "\<not> length b < 16" using len by simp
  then show ?thesis
    unfolding enc ParseQdayEnvelope_def fields num Let_def keys valid
    using kind n len wit by (cases "env_Kind e = QdayCanaryProof") simp_all
qed

lemma envelope_key_bytes:
  assumes "80 + 64 * i \<le> length b"
  shows "QdayKeys_Bytes (envelope_key b i) = take 64 (drop (16 + 64 * i) b)"
proof -
  have "48 + 64 * i = 32 + (16 + 64 * i)" by simp
  then have d: "drop (48 + 64 * i) b = drop 32 (drop (16 + 64 * i) b)" by (simp only: drop_drop)
  have "take 64 x = take 32 x @ take 32 (drop 32 x)" for x :: "byte list"
    using take_add [of 32 32 x] by simp
  then show ?thesis
    using assms unfolding QdayKeys_Bytes_def envelope_key_def d
    by (simp add: hash_bytes_of_bytes del: drop_drop)
qed

lemma envelope_keys_bytes:
  "16 + 64 * n \<le> length b \<Longrightarrow>
    concat (map QdayKeys_Bytes (map (envelope_key b) [0..<n])) = take (64 * n) (drop 16 b)"
proof (induction n)
  case (Suc n)
  have "take (64 * Suc n) (drop 16 b) = take (64 * n) (drop 16 b) @ take 64 (drop (64 * n) (drop 16 b))"
    using take_add [of "64 * n" 64 "drop 16 b"] by (simp add: add.commute)
  then show ?case using Suc envelope_key_bytes [of n b] by (simp add: add.commute)
qed simp

lemma Encode_Parse:
  assumes "ParseQdayEnvelope b = Ok e"
  shows "wf_envelope e \<and> QdayEnvelope_Encode e = b"
proof -
  define n where "n = of_le_bytes (take 2 (drop 14 b))"
  define kind where "kind = b ! 5"
  let ?w = "if kind = QdayCanaryProof then 32 else 0 :: nat"
  have head: "16 \<le> length b" "take 5 b = envelope_magic"
    and shape: "\<not> kind < QdayTransfer" "\<not> QdayMiningWork < kind" "n \<le> 128" "length b = 16 + 64 * n + ?w"
    and e: "for_each QdayKeys_Validate (map (envelope_key b) [0..<n]) = Ok ()"
      "e = \<lparr>env_Kind = kind, env_Nonce = of_le64 (take 8 (drop 6 b)), env_Keys = map (envelope_key b) [0..<n],
            env_Witness = (if ?w \<noteq> 0 then hash_of_bytes (drop (length b - 32) b) else 0)\<rparr>"
    using assms unfolding ParseQdayEnvelope_def Let_def n_def [symmetric] kind_def [symmetric]
    by (auto simp: res_simps simp del: for_each.simps split: if_splits)
  have "wf_envelope e" using e shape by (auto simp: wf_envelope_def for_each_Ok not_less)
  have split: "take 5 b @ [b ! 5] @ take 8 (drop 6 b) @ take 2 (drop 14 b) @ drop 16 b = b"
  proof -
    have "take 5 b @ b ! 5 # drop 6 b = b" using head(1) id_take_nth_drop [of 5 b, symmetric] by simp
    moreover have "take 8 (drop 6 b) @ take 2 (drop 14 b) @ drop 16 b = drop 6 b"
      using append_take_drop_id [of 8 "drop 6 b"] append_take_drop_id [of 2 "drop 14 b"] by simp
    ultimately show ?thesis by simp
  qed
  have rest: "take (64 * n) (drop 16 b) @ drop (16 + 64 * n) b = drop 16 b"
    using append_take_drop_id [of "64 * n" "drop 16 b"] by (simp add: add.commute)
  have "drop (16 + 64 * n) b = (if kind = QdayCanaryProof then hash_bytes (env_Witness e) else [])"
    using shape(4) e(2) by (simp add: hash_bytes_of_bytes)
  then have "concat (map QdayKeys_Bytes (env_Keys e)) @
      (if kind = QdayCanaryProof then hash_bytes (env_Witness e) else []) = drop 16 b"
    using envelope_keys_bytes [of n b] shape(4) e(2) rest by simp
  moreover have "le64 (env_Nonce e) = take 8 (drop 6 b)" using e(2) head(1) by (simp add: le64_of_le64)
  moreover have "le_bytes 2 (length (env_Keys e)) = take 2 (drop 14 b)"
    using e(2) head(1) le_bytes_of_le_bytes [of "take 2 (drop 14 b)"] by (simp add: n_def)
  moreover have "env_Kind e = kind" using e(2) by simp
  ultimately have "QdayEnvelope_Encode e = take 5 b @ [b ! 5] @ take 8 (drop 6 b) @ take 2 (drop 14 b) @ drop 16 b"
    unfolding QdayEnvelope_Encode_def by (simp only: head(2) kind_def)
  then show ?thesis using \<open>wf_envelope e\<close> split by argo
qed

section \<open>DEFEND work is a bound on the hash\<close>

lemma le_bytes_nth: "i < k \<Longrightarrow> le_bytes k v ! i = word_of_nat (v div 256 ^ i)"
proof (induction k arbitrary: i v)
  case (Suc k)
  then show ?case by (cases i) (auto simp: div_mult2_eq)
qed simp

lemma hash_bytes_bit:
  assumes "i < 256"
  shows "bit (hash_bytes h ! (i div 8)) (7 - i mod 8) \<longleftrightarrow> bit (unat h) (255 - i)"
proof -
  let ?k = "31 - i div 8" and ?t = "7 - i mod 8"
  have k: "i div 8 < 32" using assms by simp
  have "hash_bytes h ! (i div 8) = le_bytes 32 (unat h) ! ?k"
    using k by (simp add: hash_bytes_def be_bytes_def rev_nth)
  also have "\<dots> = word_of_nat (unat h div 256 ^ ?k)" by (rule le_bytes_nth) simp
  finally have "hash_bytes h ! (i div 8) = word_of_nat (unat h div 256 ^ ?k)" .
  moreover have "?t < 8" by linarith
  ultimately have "bit (hash_bytes h ! (i div 8)) ?t \<longleftrightarrow> bit (unat h div 256 ^ ?k) ?t"
    by (simp add: bit_simps)
  also have "\<dots> \<longleftrightarrow> odd (unat h div (2 ^ (8 * ?k) * 2 ^ ?t))"
    by (simp add: bit_iff_odd div_mult2_eq power_mult)
  also have "(2 :: nat) ^ (8 * ?k) * 2 ^ ?t = 2 ^ (255 - i)"
  proof -
    have "i = 8 * (i div 8) + i mod 8" by simp
    then have "8 * ?k + ?t = 255 - i" using k by linarith
    then show ?thesis by (simp flip: power_add)
  qed
  finally show ?thesis by (simp add: bit_iff_odd)
qed

lemma top_bits_clear:
  fixes n :: nat
  assumes "n < 2 ^ m" "d \<le> m"
  shows "(\<forall>i < d. \<not> bit n (m - 1 - i)) \<longleftrightarrow> n < 2 ^ (m - d)"
  using assms(2)
proof (induction d)
  case (Suc d)
  have eq: "m - d = Suc (m - 1 - d)" "m - Suc d = m - 1 - d" using Suc.prems by simp_all
  have step: "n < 2 ^ Suc t \<and> \<not> bit n t \<longleftrightarrow> n < 2 ^ t" for t
  proof (cases "n < 2 ^ Suc t")
    case True
    then have n: "n = (if bit n t then 2 ^ t else 0) + n mod 2 ^ t" using mod_Suc_power [of n t] by simp
    have "n mod 2 ^ t < 2 ^ t" by simp
    then show ?thesis using True n
      by (metis add.left_neutral le_add1 linorder_not_less)
  qed simp
  have "(\<forall>i < Suc d. \<not> bit n (m - 1 - i)) \<longleftrightarrow> n < 2 ^ (m - d) \<and> \<not> bit n (m - 1 - d)"
    using Suc by (auto simp: less_Suc_eq)
  also have "\<dots> \<longleftrightarrow> n < 2 ^ (m - Suc d)" unfolding eq by (rule step)
  finally show ?case .
qed (use assms in simp)

lemma and_push_bit_byte: "(w :: byte) AND push_bit i 1 = 0 \<longleftrightarrow> \<not> bit w i"
proof -
  have "bit (w AND push_bit i 1) n \<longleftrightarrow> bit w i \<and> n = i" for n
    using bit_imp_le_length [of w i] by (auto simp: bit_simps)
  then show ?thesis by (metis bit_0_eq bit_eq_iff bot_apply bot_bool_def)
qed

lemma QdayWorkValid_iff:
  "QdayWorkValid c intent nonce difficulty \<longleftrightarrow> unat (work_hash c intent nonce) < 2 ^ (256 - unat difficulty)"
proof -
  let ?h = "work_hash c intent nonce"
  have d: "unat difficulty < 256" by (rule unat_u8_lt)
  have "QdayWorkValid c intent nonce difficulty
      \<longleftrightarrow> (\<forall>i < unat difficulty. \<not> bit (hash_bytes ?h ! (i div 8)) (7 - i mod 8))"
    by (simp add: QdayWorkValid_def list_all_iff and_push_bit_byte Ball_def del: push_bit_of_1)
  also have "\<dots> \<longleftrightarrow> (\<forall>i < unat difficulty. \<not> bit (unat ?h) (256 - 1 - i))"
    using d hash_bytes_bit [of _ ?h] by auto
  also have "\<dots> \<longleftrightarrow> unat ?h < 2 ^ (256 - unat difficulty)"
    using d unat_hash_lt by (intro top_bits_clear) auto
  finally show ?thesis .
qed

end
