(* ===== verification/MidState.thy ===== *)
theory MidState
  imports Qday
begin

text \<open>
  The state of the chain within a block (\<^verbatim>\<open>MidState\<close> of \<^verbatim>\<open>core/consensus/state.go\<close>) and the operations
  that record the elements a block creates, spends, revises and resolves
  (\<^verbatim>\<open>core/consensus/application.go\<close>). One map from element identifiers to indices serves the slices of
  all element types, as in the source: an index that is not in the slice it is used for panics.
\<close>

section \<open>Differences\<close>

record SiacoinElementDiff =
  sced_SiacoinElement :: SiacoinElement
  sced_Created :: bool
  sced_Spent :: bool

record SiafundElementDiff =
  sfed_SiafundElement :: SiafundElement
  sfed_Created :: bool
  sfed_Spent :: bool

record FileContractElementDiff =
  fced_FileContractElement :: FileContractElement
  fced_Created :: bool
  fced_Revision :: "FileContract option"
  fced_Resolved :: bool
  fced_Valid :: bool

record V2FileContractElementDiff =
  v2fced_V2FileContractElement :: V2FileContractElement
  v2fced_Created :: bool
  v2fced_Revision :: "V2FileContract option"
  v2fced_Resolution :: "V2FileContractResolutionType option"

definition RevisionElement :: "FileContractElementDiff \<Rightarrow> FileContractElement option" where
  "RevisionElement diff =
     (case fced_Revision diff of
        None \<Rightarrow> None
      | Some fc \<Rightarrow> Some ((fced_FileContractElement diff)\<lparr>fce_FileContract := fc\<rparr>))"

definition V2RevisionElement :: "V2FileContractElementDiff \<Rightarrow> V2FileContractElement option" where
  "V2RevisionElement diff =
     (case v2fced_Revision diff of
        None \<Rightarrow> None
      | Some fc \<Rightarrow> Some ((v2fced_V2FileContractElement diff)\<lparr>v2fce_V2FileContract := fc\<rparr>))"

text \<open>The zero values of the structs.\<close>

definition unassigned :: StateElement where
  "unassigned = \<lparr>se_LeafIndex = UnassignedLeafIndex, se_MerkleProof = []\<rparr>"

definition zero_SiacoinOutput :: SiacoinOutput where
  "zero_SiacoinOutput = \<lparr>sco_Value = ZeroCurrency, sco_Address = 0\<rparr>"

definition zero_FileContract :: FileContract where
  "zero_FileContract = \<lparr>fc_Filesize = 0, fc_FileMerkleRoot = 0, fc_WindowStart = 0, fc_WindowEnd = 0,
     fc_Payout = ZeroCurrency, fc_ValidProofOutputs = [], fc_MissedProofOutputs = [], fc_UnlockHash = 0,
     fc_RevisionNumber = 0\<rparr>"

definition zero_V2FileContract :: V2FileContract where
  "zero_V2FileContract = \<lparr>v2fc_Capacity = 0, v2fc_Filesize = 0, v2fc_FileMerkleRoot = 0, v2fc_ProofHeight = 0,
     v2fc_ExpirationHeight = 0, v2fc_RenterOutput = zero_SiacoinOutput, v2fc_HostOutput = zero_SiacoinOutput,
     v2fc_MissedHostValue = ZeroCurrency, v2fc_TotalCollateral = ZeroCurrency, v2fc_RenterPublicKey = 0,
     v2fc_HostPublicKey = 0, v2fc_RevisionNumber = 0, v2fc_RenterSignature = 0, v2fc_HostSignature = 0\<rparr>"

definition zero_StateElement :: StateElement where
  "zero_StateElement = \<lparr>se_LeafIndex = 0, se_MerkleProof = []\<rparr>"

definition zero_sced :: SiacoinElementDiff where
  "zero_sced = \<lparr>sced_SiacoinElement = \<lparr>sce_ID = 0, sce_StateElement = zero_StateElement,
     sce_SiacoinOutput = zero_SiacoinOutput, sce_MaturityHeight = 0\<rparr>, sced_Created = False, sced_Spent = False\<rparr>"

definition zero_sfed :: SiafundElementDiff where
  "zero_sfed = \<lparr>sfed_SiafundElement = \<lparr>sfe_ID = 0, sfe_StateElement = zero_StateElement,
     sfe_SiafundOutput = \<lparr>sfo_Value = 0, sfo_Address = 0\<rparr>, sfe_ClaimStart = ZeroCurrency\<rparr>,
     sfed_Created = False, sfed_Spent = False\<rparr>"

definition zero_fced :: FileContractElementDiff where
  "zero_fced = \<lparr>fced_FileContractElement = \<lparr>fce_ID = 0, fce_StateElement = zero_StateElement,
     fce_FileContract = zero_FileContract\<rparr>, fced_Created = False, fced_Revision = None, fced_Resolved = False,
     fced_Valid = False\<rparr>"

definition zero_v2fced :: V2FileContractElementDiff where
  "zero_v2fced = \<lparr>v2fced_V2FileContractElement = \<lparr>v2fce_ID = 0, v2fce_StateElement = zero_StateElement,
     v2fce_V2FileContract = zero_V2FileContract\<rparr>, v2fced_Created = False, v2fced_Revision = None,
     v2fced_Resolution = None\<rparr>"

section \<open>Supplements\<close>

record V1StorageProofSupplement =
  sps_FileContract :: FileContractElement
  sps_WindowID :: BlockID

record V1TransactionSupplement =
  sup_SiacoinInputs :: "SiacoinElement list"
  sup_SiafundInputs :: "SiafundElement list"
  sup_RevisedFileContracts :: "FileContractElement list"
  sup_StorageProofs :: "V1StorageProofSupplement list"

record V1BlockSupplement =
  bs_Transactions :: "V1TransactionSupplement list"
  bs_ExpiringFileContracts :: "FileContractElement list"

definition V1StorageProofSupplement_EncodeTo :: "V1StorageProofSupplement \<Rightarrow> byte list" where
  "V1StorageProofSupplement_EncodeTo sps =
     FileContractElement_EncodeTo (sps_FileContract sps) @ Hash256_EncodeTo (sps_WindowID sps)"

definition V1StorageProofSupplement_DecodeFrom :: "V1StorageProofSupplement dec" where
  "V1StorageProofSupplement_DecodeFrom =
     dbind FileContractElement_DecodeFrom (\<lambda>fce. dbind Hash256_DecodeFrom (\<lambda>w.
     dret \<lparr>sps_FileContract = fce, sps_WindowID = w\<rparr>))"

definition V1TransactionSupplement_EncodeTo :: "V1TransactionSupplement \<Rightarrow> byte list" where
  "V1TransactionSupplement_EncodeTo ts =
     EncodeSlice SiacoinElement_EncodeTo (sup_SiacoinInputs ts) @
     EncodeSlice SiafundElement_EncodeTo (sup_SiafundInputs ts) @
     EncodeSlice FileContractElement_EncodeTo (sup_RevisedFileContracts ts) @
     EncodeSlice V1StorageProofSupplement_EncodeTo (sup_StorageProofs ts)"

definition V1TransactionSupplement_DecodeFrom :: "V1TransactionSupplement dec" where
  "V1TransactionSupplement_DecodeFrom =
     dbind (DecodeSlice SiacoinElement_DecodeFrom) (\<lambda>a.
     dbind (DecodeSlice SiafundElement_DecodeFrom) (\<lambda>b.
     dbind (DecodeSlice FileContractElement_DecodeFrom) (\<lambda>r.
     dbind (DecodeSlice V1StorageProofSupplement_DecodeFrom) (\<lambda>s.
     dret \<lparr>sup_SiacoinInputs = a, sup_SiafundInputs = b, sup_RevisedFileContracts = r, sup_StorageProofs = s\<rparr>))))"

definition V1BlockSupplement_EncodeTo :: "V1BlockSupplement \<Rightarrow> byte list" where
  "V1BlockSupplement_EncodeTo bs =
     EncodeSlice V1TransactionSupplement_EncodeTo (bs_Transactions bs) @
     EncodeSlice FileContractElement_EncodeTo (bs_ExpiringFileContracts bs)"

definition V1BlockSupplement_DecodeFrom :: "V1BlockSupplement dec" where
  "V1BlockSupplement_DecodeFrom =
     dbind (DecodeSlice V1TransactionSupplement_DecodeFrom) (\<lambda>t.
     dbind (DecodeSlice FileContractElement_DecodeFrom) (\<lambda>e.
     dret \<lparr>bs_Transactions = t, bs_ExpiringFileContracts = e\<rparr>))"

definition empty_supplement :: V1BlockSupplement where
  "empty_supplement = \<lparr>bs_Transactions = [], bs_ExpiringFileContracts = []\<rparr>"

section \<open>The state within a block\<close>

record MidState =
  ms_qdayProved :: bool
  ms_base :: State
  ms_elements :: "hash256 \<rightharpoonup> nat"
  ms_spends :: "hash256 \<rightharpoonup> TransactionID"
  ms_siafundTaxRevenue :: Currency
  ms_foundationSubsidy :: Address
  ms_foundationManagement :: Address
  ms_sces :: "SiacoinElementDiff list"
  ms_sfes :: "SiafundElementDiff list"
  ms_fces :: "FileContractElementDiff list"
  ms_v2fces :: "V2FileContractElementDiff list"
  ms_aes :: "AttestationElement list"
  ms_cie :: ChainIndexElement

definition NewMidState :: "State \<Rightarrow> MidState" where
  "NewMidState s =
     \<lparr>ms_qdayProved = False, ms_base = s, ms_elements = Map.empty, ms_spends = Map.empty,
      ms_siafundTaxRevenue = s_SiafundTaxRevenue s,
      ms_foundationSubsidy = s_FoundationSubsidyAddress s,
      ms_foundationManagement = s_FoundationManagementAddress s,
      ms_sces = [], ms_sfes = [], ms_fces = [], ms_v2fces = [], ms_aes = [],
      ms_cie = \<lparr>cie_ID = 0, cie_StateElement = zero_StateElement, cie_ChainIndex = \<lparr>ci_Height = 0, ci_ID = 0\<rparr>\<rparr>\<rparr>"

definition MidState_spent :: "MidState \<Rightarrow> hash256 \<Rightarrow> TransactionID option" where
  "MidState_spent ms eid = ms_spends ms eid"

definition isSpent :: "MidState \<Rightarrow> hash256 \<Rightarrow> bool" where
  "isSpent ms eid \<longleftrightarrow> ms_spends ms eid \<noteq> None"

text \<open>\<^verbatim>\<open>xs[i]\<close>, which panics out of range.\<close>

definition index_res :: "'a list \<Rightarrow> nat \<Rightarrow> 'a res" where
  "index_res xs i = (if i < length xs then Ok (xs ! i) else Panic ''index out of range'')"

definition siacoinElement :: "MidState \<Rightarrow> V1TransactionSupplement \<Rightarrow> SiacoinOutputID \<Rightarrow> (SiacoinElement option) res" where
  "siacoinElement ms ts eid =
     (case ms_elements ms eid of
        Some i \<Rightarrow> rbind (index_res (ms_sces ms) i) (\<lambda>d. Ok (Some (sced_SiacoinElement d)))
      | None \<Rightarrow> Ok (find (\<lambda>sce. sce_ID sce = eid) (sup_SiacoinInputs ts)))"

definition siafundElement :: "MidState \<Rightarrow> V1TransactionSupplement \<Rightarrow> SiafundOutputID \<Rightarrow> (SiafundElement option) res" where
  "siafundElement ms ts eid =
     (case ms_elements ms eid of
        Some i \<Rightarrow> rbind (index_res (ms_sfes ms) i) (\<lambda>d. Ok (Some (sfed_SiafundElement d)))
      | None \<Rightarrow> Ok (find (\<lambda>sfe. sfe_ID sfe = eid) (sup_SiafundInputs ts)))"

definition fileContractElement ::
    "MidState \<Rightarrow> V1TransactionSupplement \<Rightarrow> FileContractID \<Rightarrow> (FileContractElement option) res" where
  "fileContractElement ms ts eid =
     (case ms_elements ms eid of
        Some i \<Rightarrow> rbind (index_res (ms_fces ms) i) (\<lambda>d.
          case RevisionElement d of
            Some r \<Rightarrow> Ok (Some r)
          | None \<Rightarrow> Ok (Some (fced_FileContractElement d)))
      | None \<Rightarrow>
          Ok (case find (\<lambda>fce. fce_ID fce = eid) (sup_RevisedFileContracts ts) of
                Some fce \<Rightarrow> Some fce
              | None \<Rightarrow> map_option sps_FileContract
                  (find (\<lambda>sps. fce_ID (sps_FileContract sps) = eid) (sup_StorageProofs ts))))"

definition storageProofWindowID ::
    "MidState \<Rightarrow> V1TransactionSupplement \<Rightarrow> FileContractID \<Rightarrow> (BlockID option) res" where
  "storageProofWindowID ms ts eid =
     (let supplied = map_option sps_WindowID (find (\<lambda>sps. fce_ID (sps_FileContract sps) = eid) (sup_StorageProofs ts)) in
      case ms_elements ms eid of
        Some i \<Rightarrow> rbind (index_res (ms_fces ms) i) (\<lambda>d.
          Ok (if fc_WindowStart (fce_FileContract (fced_FileContractElement d)) = childHeight (ms_base ms)
              then Some (ci_ID (s_Index (ms_base ms))) else supplied))
      | None \<Rightarrow> Ok supplied)"

section \<open>Recording elements\<close>

text \<open>The \<^verbatim>\<open>record\<close> functions return a pointer into a slice; here it is the index.\<close>

definition recordSiacoinElement :: "SiacoinOutputID \<Rightarrow> MidState \<Rightarrow> (nat \<times> MidState) res" where
  "recordSiacoinElement eid ms =
     (case ms_elements ms eid of
        Some i \<Rightarrow> if i < length (ms_sces ms) then Ok (i, ms) else Panic ''index out of range''
      | None \<Rightarrow> let n = length (ms_sces ms) in
          Ok (n, ms\<lparr>ms_sces := ms_sces ms @ [zero_sced], ms_elements := (ms_elements ms)(eid \<mapsto> n)\<rparr>))"

definition createSiacoinElement :: "SiacoinOutputID \<Rightarrow> SiacoinOutput \<Rightarrow> MidState \<Rightarrow> (nat \<times> MidState) res" where
  "createSiacoinElement eid sco ms =
     rbind (recordSiacoinElement eid ms) (\<lambda>(i, ms).
     let sce = \<lparr>sce_ID = eid, sce_StateElement = unassigned, sce_SiacoinOutput = sco,
                sce_MaturityHeight = (if n_Qday (s_Network (ms_base ms)) \<noteq> None
                                      then childHeight (ms_base ms) else 0)\<rparr>
     in Ok (i, ms\<lparr>ms_sces := (ms_sces ms)
                 [i := (ms_sces ms ! i)\<lparr>sced_SiacoinElement := sce, sced_Created := True\<rparr>]\<rparr>))"

definition createImmatureSiacoinElement :: "SiacoinOutputID \<Rightarrow> SiacoinOutput \<Rightarrow> MidState \<Rightarrow> MidState res" where
  "createImmatureSiacoinElement eid sco ms =
     rbind (createSiacoinElement eid sco ms) (\<lambda>(i, ms).
     let sced = ms_sces ms ! i
     in Ok (ms\<lparr>ms_sces := (ms_sces ms)[i := sced\<lparr>sced_SiacoinElement :=
          (sced_SiacoinElement sced)\<lparr>sce_MaturityHeight := MaturityHeight (ms_base ms)\<rparr>\<rparr>]\<rparr>))"

definition spendSiacoinElement :: "SiacoinElement \<Rightarrow> TransactionID \<Rightarrow> MidState \<Rightarrow> MidState res" where
  "spendSiacoinElement sce txid ms =
     rbind (recordSiacoinElement (sce_ID sce) ms) (\<lambda>(i, ms).
     Ok (ms\<lparr>ms_sces := (ms_sces ms)[i := (ms_sces ms ! i)\<lparr>sced_SiacoinElement := sce, sced_Spent := True\<rparr>],
            ms_spends := (ms_spends ms)(sce_ID sce \<mapsto> txid)\<rparr>))"

definition recordSiafundElement :: "SiafundOutputID \<Rightarrow> MidState \<Rightarrow> (nat \<times> MidState) res" where
  "recordSiafundElement eid ms =
     (case ms_elements ms eid of
        Some i \<Rightarrow> if i < length (ms_sfes ms) then Ok (i, ms) else Panic ''index out of range''
      | None \<Rightarrow> let n = length (ms_sfes ms) in
          Ok (n, ms\<lparr>ms_sfes := ms_sfes ms @ [zero_sfed], ms_elements := (ms_elements ms)(eid \<mapsto> n)\<rparr>))"

definition createSiafundElement :: "SiafundOutputID \<Rightarrow> SiafundOutput \<Rightarrow> MidState \<Rightarrow> MidState res" where
  "createSiafundElement eid sfo ms =
     rbind (recordSiafundElement eid ms) (\<lambda>(i, ms).
     let sfe = \<lparr>sfe_ID = eid, sfe_StateElement = unassigned, sfe_SiafundOutput = sfo,
                sfe_ClaimStart = ms_siafundTaxRevenue ms\<rparr>
     in Ok (ms\<lparr>ms_sfes := (ms_sfes ms)
              [i := (ms_sfes ms ! i)\<lparr>sfed_SiafundElement := sfe, sfed_Created := True\<rparr>]\<rparr>))"

definition spendSiafundElement :: "SiafundElement \<Rightarrow> TransactionID \<Rightarrow> MidState \<Rightarrow> MidState res" where
  "spendSiafundElement sfe txid ms =
     rbind (recordSiafundElement (sfe_ID sfe) ms) (\<lambda>(i, ms).
     Ok (ms\<lparr>ms_sfes := (ms_sfes ms)[i := (ms_sfes ms ! i)\<lparr>sfed_SiafundElement := sfe, sfed_Spent := True\<rparr>],
            ms_spends := (ms_spends ms)(sfe_ID sfe \<mapsto> txid)\<rparr>))"

definition recordFileContractElement :: "FileContractID \<Rightarrow> MidState \<Rightarrow> (nat \<times> MidState) res" where
  "recordFileContractElement eid ms =
     (case ms_elements ms eid of
        Some i \<Rightarrow> if i < length (ms_fces ms) then Ok (i, ms) else Panic ''index out of range''
      | None \<Rightarrow> let n = length (ms_fces ms) in
          Ok (n, ms\<lparr>ms_fces := ms_fces ms @ [zero_fced], ms_elements := (ms_elements ms)(eid \<mapsto> n)\<rparr>))"

definition createFileContractElement :: "FileContractID \<Rightarrow> FileContract \<Rightarrow> MidState \<Rightarrow> MidState res" where
  "createFileContractElement eid fc ms =
     rbind (recordFileContractElement eid ms) (\<lambda>(i, ms).
     let fce = \<lparr>fce_ID = eid, fce_StateElement = unassigned, fce_FileContract = fc\<rparr>
     in rbind (Currency_Add (ms_siafundTaxRevenue ms) (FileContractTax (ms_base ms) fc)) (\<lambda>tax.
        Ok (ms\<lparr>ms_fces := (ms_fces ms)
                 [i := (ms_fces ms ! i)\<lparr>fced_FileContractElement := fce, fced_Created := True\<rparr>],
               ms_siafundTaxRevenue := tax\<rparr>)))"

definition reviseFileContractElement :: "FileContractElement \<Rightarrow> FileContract \<Rightarrow> MidState \<Rightarrow> MidState res" where
  "reviseFileContractElement fce revision ms =
     (let revision = revision\<lparr>fc_Payout := fc_Payout (fce_FileContract fce)\<rparr> in
      rbind (recordFileContractElement (fce_ID fce) ms) (\<lambda>(i, ms).
      let fced = ms_fces ms ! i;
          fced = (if fced_Created fced
                  then fced\<lparr>fced_FileContractElement := (fced_FileContractElement fced)\<lparr>fce_FileContract := revision\<rparr>\<rparr>
                  else if fced_Revision fced \<noteq> None then fced\<lparr>fced_Revision := Some revision\<rparr>
                  else fced\<lparr>fced_FileContractElement := fce, fced_Revision := Some revision\<rparr>)
      in Ok (ms\<lparr>ms_fces := (ms_fces ms)[i := fced]\<rparr>)))"

definition resolveFileContractElement ::
    "FileContractElement \<Rightarrow> bool \<Rightarrow> TransactionID \<Rightarrow> MidState \<Rightarrow> MidState res" where
  "resolveFileContractElement fce valid txid ms =
     rbind (recordFileContractElement (fce_ID fce) ms) (\<lambda>(i, ms).
     Ok (ms\<lparr>ms_fces := (ms_fces ms)[i := (ms_fces ms ! i)
              \<lparr>fced_FileContractElement := fce, fced_Resolved := True, fced_Valid := valid\<rparr>],
            ms_spends := (ms_spends ms)(fce_ID fce \<mapsto> txid)\<rparr>))"

definition recordV2FileContractElement :: "FileContractID \<Rightarrow> MidState \<Rightarrow> (nat \<times> MidState) res" where
  "recordV2FileContractElement eid ms =
     (case ms_elements ms eid of
        Some i \<Rightarrow> if i < length (ms_v2fces ms) then Ok (i, ms) else Panic ''index out of range''
      | None \<Rightarrow> let n = length (ms_v2fces ms) in
          Ok (n, ms\<lparr>ms_v2fces := ms_v2fces ms @ [zero_v2fced], ms_elements := (ms_elements ms)(eid \<mapsto> n)\<rparr>))"

definition createV2FileContractElement :: "FileContractID \<Rightarrow> V2FileContract \<Rightarrow> MidState \<Rightarrow> MidState res" where
  "createV2FileContractElement eid fc ms =
     rbind (recordV2FileContractElement eid ms) (\<lambda>(i, ms).
     let fce = \<lparr>v2fce_ID = eid, v2fce_StateElement = unassigned, v2fce_V2FileContract = fc\<rparr>
     in rbind (V2FileContractTax fc) (\<lambda>tax. rbind (Currency_Add (ms_siafundTaxRevenue ms) tax) (\<lambda>tax.
        Ok (ms\<lparr>ms_v2fces := (ms_v2fces ms)
                 [i := (ms_v2fces ms ! i)\<lparr>v2fced_V2FileContractElement := fce, v2fced_Created := True\<rparr>],
               ms_siafundTaxRevenue := tax\<rparr>))))"

definition reviseV2FileContractElement :: "V2FileContractElement \<Rightarrow> V2FileContract \<Rightarrow> MidState \<Rightarrow> MidState res" where
  "reviseV2FileContractElement fce revision ms =
     rbind (recordV2FileContractElement (v2fce_ID fce) ms) (\<lambda>(i, ms).
     let fced = ms_v2fces ms ! i;
         fced = (if v2fced_Created fced
                 then fced\<lparr>v2fced_V2FileContractElement :=
                   (v2fced_V2FileContractElement fced)\<lparr>v2fce_V2FileContract := revision\<rparr>\<rparr>
                 else if v2fced_Revision fced \<noteq> None then fced\<lparr>v2fced_Revision := Some revision\<rparr>
                 else fced\<lparr>v2fced_V2FileContractElement := fce, v2fced_Revision := Some revision\<rparr>)
     in Ok (ms\<lparr>ms_v2fces := (ms_v2fces ms)[i := fced]\<rparr>))"

definition resolveV2FileContractElement ::
    "V2FileContractElement \<Rightarrow> V2FileContractResolutionType \<Rightarrow> TransactionID \<Rightarrow> MidState \<Rightarrow> MidState res" where
  "resolveV2FileContractElement fce res txid ms =
     rbind (recordV2FileContractElement (v2fce_ID fce) ms) (\<lambda>(i, ms).
     if v2fced_Created (ms_v2fces ms ! i) then Panic ''consensus: resolved a newly-created v2 contract''
     else Ok (ms\<lparr>ms_v2fces := (ms_v2fces ms)[i := (ms_v2fces ms ! i)
                   \<lparr>v2fced_V2FileContractElement := fce, v2fced_Resolution := Some res\<rparr>],
                 ms_spends := (ms_spends ms)(v2fce_ID fce \<mapsto> txid)\<rparr>))"

definition createAttestationElement :: "AttestationID \<Rightarrow> Attestation \<Rightarrow> MidState \<Rightarrow> MidState" where
  "createAttestationElement eid a ms =
     ms\<lparr>ms_aes := ms_aes ms @ [\<lparr>ae_ID = eid, ae_StateElement = unassigned, ae_Attestation = a\<rparr>],
        ms_elements := (ms_elements ms)(eid \<mapsto> length (ms_aes ms))\<rparr>"

section \<open>Applying transactions\<close>

definition enum_res :: "(nat \<Rightarrow> 'a \<Rightarrow> 's \<Rightarrow> 's res) \<Rightarrow> 'a list \<Rightarrow> 's \<Rightarrow> 's res" where
  "enum_res f xs = fold_res (\<lambda>(i, x). f i x) (List.enumerate 0 xs)"

definition create_siacoins ::
    "(nat \<Rightarrow> SiacoinOutputID) \<Rightarrow> SiacoinOutput list \<Rightarrow> MidState \<Rightarrow> MidState res" where
  "create_siacoins eid = enum_res (\<lambda>i sco ms. rbind (createSiacoinElement (eid i) sco ms) (\<lambda>(_, ms). Ok ms))"

definition create_immature ::
    "(nat \<Rightarrow> SiacoinOutputID) \<Rightarrow> SiacoinOutput list \<Rightarrow> MidState \<Rightarrow> MidState res" where
  "create_immature eid = enum_res (\<lambda>i. createImmatureSiacoinElement (eid i))"

definition claim_portion :: "MidState \<Rightarrow> SiafundElement \<Rightarrow> Currency res" where
  "claim_portion ms sfe =
     rbind (Currency_Sub (ms_siafundTaxRevenue ms) (sfe_ClaimStart sfe)) (\<lambda>d.
     rbind (Currency_Div64 d SiafundCount) (\<lambda>q.
     Currency_Mul64 q (sfo_Value (sfe_SiafundOutput sfe))))"

definition require :: "string \<Rightarrow> ('a option) res \<Rightarrow> 'a res" where
  "require msg r = rbind r (\<lambda>x. case x of None \<Rightarrow> Panic msg | Some y \<Rightarrow> Ok y)"

definition apply_foundation_update :: "byte list \<Rightarrow> MidState \<Rightarrow> MidState" where
  "apply_foundation_update arb ms =
     (if take 16 arb = bytes_of16 SpecifierFoundation
      then let (update, _) = FoundationAddressUpdate_DecodeFrom (NewBufDecoder (drop 16 arb))
           in ms\<lparr>ms_foundationSubsidy := fau_NewPrimary update, ms_foundationManagement := fau_NewFailsafe update\<rparr>
      else ms)"

definition ApplyTransaction :: "crypto \<Rightarrow> Transaction \<Rightarrow> V1TransactionSupplement \<Rightarrow> MidState \<Rightarrow> MidState res" where
  "ApplyTransaction c txn ts ms =
     (let txid = Transaction_ID c txn in
      rbind (fold_res (\<lambda>sci ms. rbind (require ''missing SiacoinElement'' (siacoinElement ms ts (sci_ParentID sci))) (\<lambda>sce.
          spendSiacoinElement sce txid ms)) (txn_SiacoinInputs txn) ms) (\<lambda>ms.
      rbind (create_siacoins (Transaction_SiacoinOutputID c txn) (txn_SiacoinOutputs txn) ms) (\<lambda>ms.
      rbind (fold_res (\<lambda>sfi ms. rbind (require ''missing SiafundElement'' (siafundElement ms ts (sfi_ParentID sfi))) (\<lambda>sfe.
          rbind (claim_portion ms sfe) (\<lambda>claim.
          rbind (spendSiafundElement sfe txid ms)
            (createImmatureSiacoinElement (SiafundOutputID_ClaimOutputID c (sfi_ParentID sfi))
               \<lparr>sco_Value = claim, sco_Address = sfi_ClaimAddress sfi\<rparr>)))) (txn_SiafundInputs txn) ms) (\<lambda>ms.
      rbind (enum_res (\<lambda>i. createSiafundElement (Transaction_SiafundOutputID c txn i)) (txn_SiafundOutputs txn) ms) (\<lambda>ms.
      rbind (enum_res (\<lambda>i. createFileContractElement (Transaction_FileContractID c txn i)) (txn_FileContracts txn) ms) (\<lambda>ms.
      rbind (fold_res (\<lambda>fcr ms. rbind (require ''missing FileContractElement'' (fileContractElement ms ts (rev_ParentID fcr))) (\<lambda>fce.
          reviseFileContractElement fce (rev_FileContract fcr) ms)) (txn_FileContractRevisions txn) ms) (\<lambda>ms.
      rbind (fold_res (\<lambda>sp ms. rbind (require ''missing V1StorageProofSupplement'' (fileContractElement ms ts (sp_ParentID sp))) (\<lambda>fce.
          rbind (resolveFileContractElement fce True txid ms)
            (create_immature (FileContractID_ValidOutputID c (sp_ParentID sp))
               (fc_ValidProofOutputs (fce_FileContract fce))))) (txn_StorageProofs txn) ms) (\<lambda>ms.
      Ok (if n_Foundation_Height (s_Network (ms_base ms)) \<le> ci_Height (s_Index (ms_base ms))
          then fold apply_foundation_update (txn_ArbitraryData txn) ms else ms)))))))))"

definition apply_resolution :: "crypto \<Rightarrow> TransactionID \<Rightarrow> V2FileContractResolution \<Rightarrow> MidState \<Rightarrow> MidState res" where
  "apply_resolution c txid fcr ms =
     (let parent = v2res_Parent fcr; fc = v2fce_V2FileContract parent; fcid = v2fce_ID parent in
      rbind (resolveV2FileContractElement parent (v2res_Resolution fcr) txid ms) (\<lambda>ms.
      rbind (case v2res_Resolution fcr of
          Renewal r \<Rightarrow> rbind (createV2FileContractElement (FileContractID_V2RenewalID c fcid) (ren_NewContract r) ms)
            (\<lambda>ms. Ok (ren_FinalRenterOutput r, ren_FinalHostOutput r, ms))
        | StorageProofRes _ \<Rightarrow> Ok (v2fc_RenterOutput fc, v2fc_HostOutput fc, ms)
        | Expiration \<Rightarrow> Ok (v2fc_RenterOutput fc, V2FileContract_MissedHostOutput fc, ms)) (\<lambda>(renter, host, ms).
      rbind (createImmatureSiacoinElement (FileContractID_V2RenterOutputID c fcid) renter ms)
        (createImmatureSiacoinElement (FileContractID_V2HostOutputID c fcid) host))))"

definition ApplyV2Transaction :: "crypto \<Rightarrow> V2Transaction \<Rightarrow> MidState \<Rightarrow> MidState res" where
  "ApplyV2Transaction c txn ms =
     (let ms = (if n_Qday (s_Network (ms_base ms)) \<noteq> None
                then case ParseQdayEnvelope (v2_ArbitraryData txn) of
                    Ok e \<Rightarrow> if env_Kind e = QdayCanaryProof then ms\<lparr>ms_qdayProved := True\<rparr> else ms
                  | _ \<Rightarrow> ms
                else ms);
          txid = V2Transaction_ID c txn in
      rbind (fold_res (\<lambda>sci. spendSiacoinElement (v2sci_Parent sci) txid) (v2_SiacoinInputs txn) ms) (\<lambda>ms.
      rbind (create_siacoins (V2Transaction_SiacoinOutputID c txid) (v2_SiacoinOutputs txn) ms) (\<lambda>ms.
      rbind (fold_res (\<lambda>sfi ms. rbind (spendSiafundElement (v2sfi_Parent sfi) txid ms) (\<lambda>ms.
          rbind (claim_portion ms (v2sfi_Parent sfi)) (\<lambda>claim.
          createImmatureSiacoinElement (SiafundOutputID_V2ClaimOutputID c (sfe_ID (v2sfi_Parent sfi)))
            \<lparr>sco_Value = claim, sco_Address = v2sfi_ClaimAddress sfi\<rparr> ms))) (v2_SiafundInputs txn) ms) (\<lambda>ms.
      rbind (enum_res (\<lambda>i. createSiafundElement (V2Transaction_SiafundOutputID c txid i)) (v2_SiafundOutputs txn) ms) (\<lambda>ms.
      rbind (enum_res (\<lambda>i. createV2FileContractElement (V2Transaction_V2FileContractID c txid i)) (v2_FileContracts txn) ms) (\<lambda>ms.
      rbind (fold_res (\<lambda>fcr. reviseV2FileContractElement (v2rev_Parent fcr) (v2rev_Revision fcr))
        (v2_FileContractRevisions txn) ms) (\<lambda>ms.
      rbind (fold_res (apply_resolution c txid) (v2_FileContractResolutions txn) ms) (\<lambda>ms.
      let ms = fold (\<lambda>(i, a). createAttestationElement (V2Transaction_AttestationID c txid i) a)
                 (List.enumerate 0 (v2_Attestations txn)) ms
      in Ok (case v2_NewFoundationAddress txn of
          None \<Rightarrow> ms
        | Some a \<Rightarrow> let ms = ms\<lparr>ms_foundationSubsidy := a\<rparr>
            in if a \<noteq> VoidAddress then ms\<lparr>ms_foundationManagement := a\<rparr> else ms)))))))))"

definition apply_expiring :: "crypto \<Rightarrow> BlockID \<Rightarrow> FileContractElement \<Rightarrow> MidState \<Rightarrow> MidState res" where
  "apply_expiring c bid fce ms =
     (if isSpent ms (fce_ID fce) then Ok ms
      else rbind (resolveFileContractElement fce False bid ms)
        (create_immature (FileContractID_MissedOutputID c (fce_ID fce)) (fc_MissedProofOutputs (fce_FileContract fce))))"

definition MidState_ApplyBlock :: "crypto \<Rightarrow> Block \<Rightarrow> V1BlockSupplement \<Rightarrow> MidState \<Rightarrow> MidState res" where
  "MidState_ApplyBlock c b bs ms =
     (if n_V2_RequireHeight (s_Network (ms_base ms)) \<le> childHeight (ms_base ms) \<and>
         (bs_Transactions bs \<noteq> [] \<or> bs_ExpiringFileContracts bs \<noteq> [])
      then Panic ''consensus: block supplement must be empty after v2 hardfork''
      else
        rbind (enum_res (\<lambda>i txn ms. rbind (index_res (bs_Transactions bs) i) (\<lambda>ts. ApplyTransaction c txn ts ms))
          (blk_Transactions b) ms) (\<lambda>ms.
        rbind (fold_res (ApplyV2Transaction c) (Block_V2Transactions b) ms) (\<lambda>ms.
        let bid = Block_ID c b in
        rbind (create_immature (BlockID_MinerOutputID c bid) (blk_MinerPayouts b) ms) (\<lambda>ms.
        rbind (FoundationSubsidy (ms_base ms)) (\<lambda>subsidy.
        rbind (case subsidy of
            None \<Rightarrow> Ok ms
          | Some sco \<Rightarrow> createImmatureSiacoinElement (BlockID_FoundationOutputID c bid) sco ms) (\<lambda>ms.
        rbind (fold_res (apply_expiring c bid) (bs_ExpiringFileContracts bs) ms) (\<lambda>ms.
        Ok (ms\<lparr>ms_cie := \<lparr>cie_ID = bid, cie_StateElement = unassigned,
                  cie_ChainIndex = \<lparr>ci_Height = childHeight (ms_base ms), ci_ID = bid\<rparr>\<rparr>\<rparr>))))))))"

end
