(* ===== verification/Application.thy ===== *)
theory Application
  imports MidState
begin

text \<open>
  Applying and reverting blocks (\<^verbatim>\<open>core/consensus/application.go\<close>): the total work and the difficulty
  adjustment of a header, the leaves of the elements a block touches, and \<^verbatim>\<open>ApplyBlock\<close> and
  \<^verbatim>\<open>RevertBlock\<close> on the state of the chain.
\<close>

section \<open>Work of a header\<close>

definition updateTotalWork :: "State \<Rightarrow> (Work \<times> BlockID) res" where
  "updateTotalWork s =
     (if childHeight s < n_V2_AllowHeight (s_Network s)
      then rbind (addTarget (s_Depth s) (s_ChildTarget s)) (\<lambda>depth.
           rbind (invTarget depth) (\<lambda>w. Ok (w, depth)))
      else rbind (Work_add (s_TotalWork s) (s_Difficulty s)) (\<lambda>w.
           rbind (invTarget w) (\<lambda>depth. Ok (w, depth))))"

definition BlockInterval :: "State \<Rightarrow> Duration" where
  "BlockInterval s = n_BlockInterval (s_Network s)"

definition updateOakTime :: "State \<Rightarrow> Time \<Rightarrow> Time \<Rightarrow> Duration" where
  "updateOakTime s blockTimestamp parentTimestamp =
     (if childHeight s = n_ASIC_Height (s_Network s) - 1 then n_ASIC_OakTime (s_Network s)
      else let prevTotalTime = (if childHeight s = n_Oak_Height (s_Network s) - 1
                                then int64 (BlockInterval s * int64 (uint (childHeight s))) else s_OakTime s);
               decayedTime = int64 (go_div (int64 (go_div prevTotalTime second * 995)) 1000 * second)
           in int64 (decayedTime + Time_Sub blockTimestamp parentTimestamp))"

definition updateOakTarget :: "State \<Rightarrow> BlockID res" where
  "updateOakTarget s =
     (if childHeight s = n_ASIC_Height (s_Network s) - 1 then Ok (n_ASIC_OakTarget (s_Network s))
      else rbind (mulTargetFrac (s_OakTarget s) 1000 995) (\<lambda>t. addTarget t (s_ChildTarget s)))"

definition updateOakWork :: "State \<Rightarrow> (Work \<times> BlockID) res" where
  "updateOakWork s =
     (if childHeight s < n_V2_AllowHeight (s_Network s)
      then rbind (updateOakTarget s) (\<lambda>target. rbind (invTarget target) (\<lambda>w. Ok (w, target)))
      else rbind (Work_div64 (s_OakWork s) 200) (\<lambda>d.
           rbind (Work_sub (s_OakWork s) d) (\<lambda>r.
           rbind (Work_add r (s_Difficulty s)) (\<lambda>w.
           rbind (invTarget w) (\<lambda>target. Ok (w, target))))))"

text \<open>
  The clamp of the algorithm before the Oak fork compares \<^verbatim>\<open>float64(expected) / float64(elapsed)\<close> with
  2.5 and 0.4. Durations are below \<^verbatim>\<open>2^63\<close> nanoseconds, so both numbers are below \<^verbatim>\<open>2^45\<close>, they
  convert exactly and the rounded quotient compares as the exact one; division by zero gives an
  infinity, or NaN, which compares false.
\<close>

definition ratio_above :: "int \<Rightarrow> int \<Rightarrow> bool" where
  "ratio_above expected elapsed \<longleftrightarrow>
     (if elapsed = 0 then 0 < expected
      else if 0 < elapsed then 25 * elapsed < 10 * expected else 10 * expected < 25 * elapsed)"

definition ratio_below :: "int \<Rightarrow> int \<Rightarrow> bool" where
  "ratio_below expected elapsed \<longleftrightarrow>
     (if elapsed = 0 then expected < 0
      else if 0 < elapsed then 25 * expected < 10 * elapsed else 10 * elapsed < 25 * expected)"

definition adjust_window :: "State \<Rightarrow> Time \<Rightarrow> Time \<Rightarrow> BlockID res" where
  "adjust_window s blockTimestamp targetTimestamp =
     (let blockInterval = go_div (BlockInterval s) second;
          windowSize = 1000 :: u64 in
      if childHeight s mod (windowSize div 2) \<noteq> 0 then Ok (s_ChildTarget s)
      else let ancestorDepth = (if childHeight s < windowSize then childHeight s else windowSize);
               elapsed = go_div (Time_Sub blockTimestamp targetTimestamp) second;
               expected = int64 (blockInterval * int64 (uint ancestorDepth));
               (expected, elapsed) = (if ratio_above expected elapsed then (25, 10)
                                      else if ratio_below expected elapsed then (10, 25)
                                      else (expected, elapsed))
           in mulTargetFrac (s_ChildTarget s) elapsed expected)"

definition oak_block_time :: "State \<Rightarrow> int" where
  "oak_block_time s =
     (let blockInterval = go_div (BlockInterval s) second;
          oakTotalTime = go_div (s_OakTime s) second;
          delta = (if ci_Height (s_Index s) < n_Oak_FixHeight (s_Network s)
                   then int64 (int64 (blockInterval * int64 (uint (ci_Height (s_Index s)))) - oakTotalTime)
                   else int64 (int64 (blockInterval * int64 (uint (ci_Height (s_Index s)))) -
                          int64 (Time_Unix (s_PrevTimestamps s ! 0) - Time_Unix (n_Oak_GenesisTimestamp (s_Network s)))));
          shift = int64 (delta * delta);
          shift = (if delta < 0 then int64 (- shift) else shift);
          shift = go_div (int64 (shift * 10)) (10000 * 10000);
          targetBlockTime = int64 (blockInterval + shift);
          targetBlockTime = (if targetBlockTime < go_div blockInterval 3 then go_div blockInterval 3
                             else if int64 (blockInterval * 3) < targetBlockTime then int64 (blockInterval * 3)
                             else targetBlockTime)
      in if targetBlockTime = 0 then 1 else targetBlockTime)"

definition adjust_oak :: "State \<Rightarrow> BlockID res" where
  "adjust_oak s =
     (let oakTotalTime = go_div (s_OakTime s) second;
          oakTotalTime = (if oakTotalTime \<le> 0 then 1 else oakTotalTime) in
      rbind (big_Div maxTarget (uint (s_OakTarget s))) (\<lambda>r.
      rbind (big_Div r oakTotalTime) (\<lambda>r.
      let r = r * oak_block_time s;
          r = (if r = 0 then 1 else r) in
      rbind (big_Div maxTarget r) (\<lambda>t.
      let newTarget = intToTarget t in
      if childHeight s = n_ASIC_Height (s_Network s) then Ok newTarget
      else rbind (mulTargetFrac (s_ChildTarget s) 1004 1000) (\<lambda>minTarget.
           rbind (mulTargetFrac (s_ChildTarget s) 1000 1004) (\<lambda>maxTarget.
           Ok (if BlockID_CmpWork newTarget minTarget < 0 then minTarget
               else if 0 < BlockID_CmpWork newTarget maxTarget then maxTarget
               else newTarget)))))))"

definition adjustTarget :: "State \<Rightarrow> Time \<Rightarrow> Time \<Rightarrow> BlockID res" where
  "adjustTarget s blockTimestamp targetTimestamp =
     (if childHeight s \<le> n_Oak_Height (s_Network s) then adjust_window s blockTimestamp targetTimestamp
      else adjust_oak s)"

definition adjustDifficultyV2 :: "State \<Rightarrow> Time \<Rightarrow> Work res" where
  "adjustDifficultyV2 s blockTimestamp =
     (let expectedTime = int64 (BlockInterval s * int64 (uint (childHeight s)));
          actualTime = Time_Sub blockTimestamp (n_Oak_GenesisTimestamp (s_Network s));
          delta = int64 (expectedTime - actualTime);
          shift = int64 (int64 (10 * go_div delta 10000) * go_div delta 10000);
          shift = (if delta < 0 then int64 (- shift) else shift);
          targetBlockTime = int64 (BlockInterval s + shift);
          targetBlockTime = (if targetBlockTime < go_div (BlockInterval s) 3 then go_div (BlockInterval s) 3
                             else if int64 (BlockInterval s * 3) < targetBlockTime then int64 (BlockInterval s * 3)
                             else targetBlockTime);
          oakTime = (if s_OakTime s \<le> second then second else s_OakTime s) in
      rbind (Work_div64 (s_OakWork s) (uint64 (go_div oakTime second))) (\<lambda>estimatedHashrate.
      rbind (Work_mul64 estimatedHashrate (uint64 (go_div targetBlockTime second))) (\<lambda>newDifficulty.
      rbind (Work_div64 (s_Difficulty s) 250) (\<lambda>maxAdjust.
      rbind (Work_sub (s_Difficulty s) maxAdjust) (\<lambda>minDifficulty.
      if Work_Cmp newDifficulty minDifficulty < 0 then Ok minDifficulty
      else rbind (Work_add (s_Difficulty s) maxAdjust) (\<lambda>maxDifficulty.
        Ok (if 0 < Work_Cmp newDifficulty maxDifficulty then maxDifficulty else newDifficulty)))))))"

definition target_interval :: "State \<Rightarrow> Time \<Rightarrow> Duration" where
  "target_interval s blockTimestamp =
     (let expectedDuration = int64 (BlockInterval s * int64 (uint (childHeight s)));
          actualDuration = Time_Sub blockTimestamp (n_Oak_GenesisTimestamp (s_Network s));
          shift = go_div (int64 (expectedDuration - actualDuration)) 1000;
          targetInterval = int64 (BlockInterval s + shift);
          targetInterval = min targetInterval (int64 (BlockInterval s * 3))
      in max targetInterval (go_div (BlockInterval s) 3))"

definition adjustDifficultyFinalCut :: "State \<Rightarrow> Time \<Rightarrow> Work res" where
  "adjustDifficultyFinalCut s blockTimestamp =
     rbind (Work_mul64 (s_OakWork s) (uint64 (target_interval s blockTimestamp))) (\<lambda>w.
     rbind (Work_mul64 oneWork (uint64 (go_div (s_OakTime s) 2))) (\<lambda>half.
     rbind (Work_add w half) (\<lambda>w.
     rbind (Work_div64 w (uint64 (max (s_OakTime s) 1))) (\<lambda>newDifficulty.
     rbind (Work_div64 (s_Difficulty s) 250) (\<lambda>adj.
     let maxAdjust = Work_max adj oneWork in
     rbind (Work_add (s_Difficulty s) maxAdjust) (\<lambda>maxDifficulty.
     let newDifficulty = Work_min newDifficulty maxDifficulty in
     rbind (Work_sub (s_Difficulty s) maxAdjust) (\<lambda>minDifficulty.
     Ok (Work_max (Work_max newDifficulty minDifficulty) oneWork))))))))"

definition adjustDifficulty :: "State \<Rightarrow> Time \<Rightarrow> Time \<Rightarrow> (Work \<times> BlockID) res" where
  "adjustDifficulty s blockTimestamp targetTimestamp =
     (if childHeight s < n_V2_AllowHeight (s_Network s)
      then rbind (adjustTarget s blockTimestamp targetTimestamp) (\<lambda>target.
           rbind (invTarget target) (\<lambda>w. Ok (w, target)))
      else rbind (if childHeight s < n_V2_FinalCutHeight (s_Network s)
                  then adjustDifficultyV2 s blockTimestamp
                  else adjustDifficultyFinalCut s blockTimestamp) (\<lambda>difficulty.
           rbind (invTarget difficulty) (\<lambda>target. Ok (difficulty, target))))"

definition header_fields :: "crypto \<Rightarrow> State \<Rightarrow> BlockHeader \<Rightarrow> Time \<Rightarrow> State res" where
  "header_fields c s bh targetTimestamp =
     (if bh_ParentID bh = 0
      then rbind (updateOakWork s) (\<lambda>(oakWork, oakTarget).
        Ok (s\<lparr>s_OakTime := updateOakTime s (bh_Timestamp bh) (bh_Timestamp bh),
              s_OakWork := oakWork, s_OakTarget := oakTarget,
              s_Index := \<lparr>ci_Height = 0, ci_ID = BlockHeader_ID c bh\<rparr>\<rparr>))
      else rbind (updateTotalWork s) (\<lambda>(totalWork, depth).
        rbind (adjustDifficulty s (bh_Timestamp bh) targetTimestamp) (\<lambda>(difficulty, childTarget).
        rbind (updateOakWork s) (\<lambda>(oakWork, oakTarget).
        Ok (s\<lparr>s_TotalWork := totalWork, s_Depth := depth,
              s_Difficulty := difficulty, s_ChildTarget := childTarget,
              s_OakTime := updateOakTime s (bh_Timestamp bh) (s_PrevTimestamps s ! 0),
              s_OakWork := oakWork, s_OakTarget := oakTarget,
              s_Index := \<lparr>ci_Height = ci_Height (s_Index s) + 1, ci_ID = BlockHeader_ID c bh\<rparr>\<rparr>)))))"

definition ApplyHeader :: "crypto \<Rightarrow> State \<Rightarrow> BlockHeader \<Rightarrow> Time \<Rightarrow> State res" where
  "ApplyHeader c s bh targetTimestamp =
     (if 0 < ci_Height (s_Index s) \<and> ci_ID (s_Index s) \<noteq> bh_ParentID bh
      then Panic ''consensus: cannot apply non-child block''
      else
        rbind (header_fields c s bh targetTimestamp) (\<lambda>next.
        let next = next\<lparr>s_PrevTimestamps :=
              bh_Timestamp bh # take (length (s_PrevTimestamps s) - 1) (s_PrevTimestamps s)\<rparr>
        in Ok (if n_V2_FinalCutHeight (s_Network next) \<le> ci_Height (s_Index next)
               then next\<lparr>s_Depth := 0, s_ChildTarget := 0, s_OakTarget := 0\<rparr> else next)))"

lemma ApplyHeader_Ok:
  assumes "ApplyHeader c s bh t = Ok s'"
  obtains s1 where "header_fields c s bh t = Ok s1"
    "s' = s1\<lparr>s_PrevTimestamps := bh_Timestamp bh # take (length (s_PrevTimestamps s) - 1) (s_PrevTimestamps s)\<rparr> \<or>
     s' = s1\<lparr>s_PrevTimestamps := bh_Timestamp bh # take (length (s_PrevTimestamps s) - 1) (s_PrevTimestamps s),
       s_Depth := 0, s_ChildTarget := 0, s_OakTarget := 0\<rparr>"
  using assms by (cases "header_fields c s bh t") (auto simp: ApplyHeader_def Let_def split: if_splits)

lemma ApplyHeader_fields:
  assumes "ApplyHeader c s bh t = Ok s'"
  obtains s1 where "header_fields c s bh t = Ok s1" "s_TotalWork s' = s_TotalWork s1" "s_Difficulty s' = s_Difficulty s1"
    "s_OakWork s' = s_OakWork s1" "s_OakTime s' = s_OakTime s1" "s_Index s' = s_Index s1"
proof -
  obtain s1 where s1: "header_fields c s bh t = Ok s1"
    and s': "s' = s1\<lparr>s_PrevTimestamps := bh_Timestamp bh # take (length (s_PrevTimestamps s) - 1) (s_PrevTimestamps s)\<rparr> \<or>
     s' = s1\<lparr>s_PrevTimestamps := bh_Timestamp bh # take (length (s_PrevTimestamps s) - 1) (s_PrevTimestamps s),
       s_Depth := 0, s_ChildTarget := 0, s_OakTarget := 0\<rparr>"
    using ApplyHeader_Ok [OF assms] .
  from s' show thesis by (elim disjE) (rule that [OF s1], simp_all)+
qed

lemma header_fields_child:
  assumes "header_fields c s bh t = Ok s1" "bh_ParentID bh \<noteq> 0"
  obtains tw d dif ct ow ot where "updateTotalWork s = Ok (tw, d)"
    "adjustDifficulty s (bh_Timestamp bh) t = Ok (dif, ct)" "updateOakWork s = Ok (ow, ot)"
    "s1 = s\<lparr>s_TotalWork := tw, s_Depth := d, s_Difficulty := dif, s_ChildTarget := ct,
        s_OakTime := updateOakTime s (bh_Timestamp bh) (s_PrevTimestamps s ! 0), s_OakWork := ow, s_OakTarget := ot,
        s_Index := \<lparr>ci_Height = ci_Height (s_Index s) + 1, ci_ID = BlockHeader_ID c bh\<rparr>\<rparr>"
  using assms unfolding header_fields_def by (auto simp: rbind_Ok_iff)

lemma header_fields_frame:
  assumes "header_fields c s bh t = Ok s1"
  shows "s_QdayHeight s1 = s_QdayHeight s" "s_Network s1 = s_Network s" "s_Elements s1 = s_Elements s"
    "ci_ID (s_Index s1) = BlockHeader_ID c bh"
  using assms unfolding header_fields_def by (auto simp: rbind_Ok_iff split: if_splits)

lemma ApplyHeader_frame:
  assumes "ApplyHeader c s bh t = Ok s'"
  shows "s_QdayHeight s' = s_QdayHeight s" "s_Network s' = s_Network s" "s_Elements s' = s_Elements s"
    "ci_ID (s_Index s') = BlockHeader_ID c bh"
    "bh_ParentID bh \<noteq> 0 \<Longrightarrow> ci_Height (s_Index s') = ci_Height (s_Index s) + 1"
proof -
  obtain s1 where s1: "header_fields c s bh t = Ok s1"
    and s': "s' = s1\<lparr>s_PrevTimestamps := bh_Timestamp bh # take (length (s_PrevTimestamps s) - 1) (s_PrevTimestamps s)\<rparr> \<or>
     s' = s1\<lparr>s_PrevTimestamps := bh_Timestamp bh # take (length (s_PrevTimestamps s) - 1) (s_PrevTimestamps s),
       s_Depth := 0, s_ChildTarget := 0, s_OakTarget := 0\<rparr>"
    using ApplyHeader_Ok [OF assms] .
  show "s_QdayHeight s' = s_QdayHeight s" "s_Network s' = s_Network s" "s_Elements s' = s_Elements s"
    "ci_ID (s_Index s') = BlockHeader_ID c bh"
    using header_fields_frame [OF s1] s' by auto
  assume "bh_ParentID bh \<noteq> 0"
  from header_fields_child [OF s1 this] have "ci_Height (s_Index s1) = ci_Height (s_Index s) + 1" by fastforce
  then show "ci_Height (s_Index s') = ci_Height (s_Index s) + 1" using s' by auto
qed

section \<open>Leaves of a block\<close>

text \<open>
  The leaves of all differences, in the order in which the program visits them. A leaf points to the
  state element of its difference; \<open>el_ref\<close> is the position in this order, and \<open>put_elements\<close> writes
  the state elements that the accumulator changed back to the differences.
\<close>

definition number_leaves :: "elementLeaf list \<Rightarrow> elementLeaf list" where
  "number_leaves ls = map (\<lambda>(i, l). l\<lparr>el_ref := i\<rparr>) (List.enumerate 0 ls)"

definition forEachAppliedElement :: "crypto \<Rightarrow> MidState \<Rightarrow> elementLeaf list" where
  "forEachAppliedElement c ms = number_leaves (
     map (\<lambda>d. siacoinLeaf c (sced_SiacoinElement d) (sced_Spent d)) (ms_sces ms) @
     map (\<lambda>d. siafundLeaf c (sfed_SiafundElement d) (sfed_Spent d)) (ms_sfes ms) @
     map (\<lambda>d. fileContractLeaf c (fced_FileContractElement d) (fced_Revision d) (fced_Resolved d)) (ms_fces ms) @
     map (\<lambda>d. v2FileContractLeaf c (v2fced_V2FileContractElement d) (v2fced_Revision d)
        (v2fced_Resolution d \<noteq> None)) (ms_v2fces ms) @
     map (attestationLeaf c) (ms_aes ms) @
     [chainIndexLeaf c (ms_cie ms)])"

definition forEachRevertedElement :: "crypto \<Rightarrow> MidState \<Rightarrow> elementLeaf list" where
  "forEachRevertedElement c ms = number_leaves (
     map (\<lambda>d. siacoinLeaf c (sced_SiacoinElement d) False) (ms_sces ms) @
     map (\<lambda>d. siafundLeaf c (sfed_SiafundElement d) False) (ms_sfes ms) @
     map (\<lambda>d. fileContractLeaf c (fced_FileContractElement d) None False) (ms_fces ms) @
     map (\<lambda>d. v2FileContractLeaf c (v2fced_V2FileContractElement d) None False) (ms_v2fces ms))"

definition put_from :: "(nat \<rightharpoonup> StateElement) \<Rightarrow> nat \<Rightarrow> (StateElement \<Rightarrow> 'a \<Rightarrow> 'a) \<Rightarrow> 'a list \<Rightarrow> 'a list" where
  "put_from m n f xs = map (\<lambda>(i, x). case m i of Some se \<Rightarrow> f se x | None \<Rightarrow> x) (List.enumerate n xs)"

definition put_elements :: "elementLeaf list \<Rightarrow> MidState \<Rightarrow> MidState" where
  "put_elements ls ms =
     (let m = map_of (map (\<lambda>l. (el_ref l, el_StateElement l)) ls);
          n1 = length (ms_sces ms); n2 = n1 + length (ms_sfes ms); n3 = n2 + length (ms_fces ms);
          n4 = n3 + length (ms_v2fces ms); n5 = n4 + length (ms_aes ms)
      in ms\<lparr>ms_sces := put_from m 0 (\<lambda>se d. d\<lparr>sced_SiacoinElement :=
              (sced_SiacoinElement d)\<lparr>sce_StateElement := se\<rparr>\<rparr>) (ms_sces ms),
            ms_sfes := put_from m n1 (\<lambda>se d. d\<lparr>sfed_SiafundElement :=
              (sfed_SiafundElement d)\<lparr>sfe_StateElement := se\<rparr>\<rparr>) (ms_sfes ms),
            ms_fces := put_from m n2 (\<lambda>se d. d\<lparr>fced_FileContractElement :=
              (fced_FileContractElement d)\<lparr>fce_StateElement := se\<rparr>\<rparr>) (ms_fces ms),
            ms_v2fces := put_from m n3 (\<lambda>se d. d\<lparr>v2fced_V2FileContractElement :=
              (v2fced_V2FileContractElement d)\<lparr>v2fce_StateElement := se\<rparr>\<rparr>) (ms_v2fces ms),
            ms_aes := put_from m n4 (\<lambda>se a. a\<lparr>ae_StateElement := se\<rparr>) (ms_aes ms),
            ms_cie := (case m n5 of Some se \<Rightarrow> (ms_cie ms)\<lparr>cie_StateElement := se\<rparr> | None \<Rightarrow> ms_cie ms)\<rparr>)"

section \<open>Applying and reverting blocks\<close>

text \<open>The differences of an update are those of the state within the block, so an update keeps it.\<close>

record ApplyUpdate =
  au_ms :: MidState
  au_eau :: elementApplyUpdate

record RevertUpdate =
  ru_ms :: MidState
  ru_eru :: elementRevertUpdate

definition ApplyUpdate_UpdateElementProof :: "crypto \<Rightarrow> ApplyUpdate \<Rightarrow> StateElement \<Rightarrow> StateElement res" where
  "ApplyUpdate_UpdateElementProof c au e = apply_updateElementProof c (au_eau au) e"

definition RevertUpdate_UpdateElementProof :: "crypto \<Rightarrow> RevertUpdate \<Rightarrow> StateElement \<Rightarrow> StateElement res" where
  "RevertUpdate_UpdateElementProof c ru e = revert_updateElementProof c (ru_eru ru) e"

definition ApplyBlock ::
    "crypto \<Rightarrow> State \<Rightarrow> Block \<Rightarrow> V1BlockSupplement \<Rightarrow> Time \<Rightarrow> (State \<times> ApplyUpdate) res" where
  "ApplyBlock c s b bs targetTimestamp =
     (if 0 < ci_Height (s_Index s) \<and> ci_ID (s_Index s) \<noteq> blk_ParentID b
      then Panic ''consensus: cannot apply non-child block''
      else
        rbind (MidState_ApplyBlock c b bs (NewMidState s)) (\<lambda>ms.
        let s = s\<lparr>s_SiafundTaxRevenue := ms_siafundTaxRevenue ms,
                  s_Attestations := s_Attestations s + word_of_nat (length (ms_aes ms)),
                  s_FoundationSubsidyAddress := ms_foundationSubsidy ms,
                  s_FoundationManagementAddress := ms_foundationManagement ms\<rparr>;
            leaves = forEachAppliedElement c ms;
            added = filter (\<lambda>l. el_LeafIndex l = UnassignedLeafIndex) leaves;
            updated = filter (\<lambda>l. el_LeafIndex l \<noteq> UnassignedLeafIndex) leaves in
        rbind (ElementAccumulator_applyBlock c (s_Elements s) updated added) (\<lambda>(acc, eau, added).
        let ms = put_elements (concat (eau_updated eau) @ added) ms in
        rbind (ApplyHeader c (s\<lparr>s_Elements := acc\<rparr>) (Block_Header c b) targetTimestamp) (\<lambda>s.
        let s = (case n_Qday (s_Network s) of
                   None \<Rightarrow> s
                 | Some p \<Rightarrow> if s_QdayHeight s = 0 \<and> ms_qdayProved ms
                     then s\<lparr>s_QdayHeight := ci_Height (s_Index s) + qd_ActivationDelay p\<rparr> else s)
        in Ok (s, \<lparr>au_ms = ms, au_eau = eau\<rparr>)))))"

definition RevertBlock :: "crypto \<Rightarrow> State \<Rightarrow> Block \<Rightarrow> V1BlockSupplement \<Rightarrow> RevertUpdate res" where
  "RevertBlock c s b bs =
     (if ci_ID (s_Index s) \<noteq> blk_ParentID b then Panic ''consensus: cannot revert non-child block''
      else
        rbind (MidState_ApplyBlock c b bs (NewMidState s)) (\<lambda>ms.
        let leaves = forEachRevertedElement c ms;
            added = filter (\<lambda>l. el_LeafIndex l = UnassignedLeafIndex) leaves;
            updated = filter (\<lambda>l. el_LeafIndex l \<noteq> UnassignedLeafIndex) leaves in
        rbind (ElementAccumulator_revertBlock c (s_Elements s) updated added) (\<lambda>(eru, added).
        let ms = put_elements (concat (eru_updated eru) @ added) ms
        in Ok \<lparr>ru_ms = ms\<lparr>ms_sces := rev (ms_sces ms), ms_sfes := rev (ms_sfes ms),
                          ms_fces := rev (ms_fces ms), ms_v2fces := rev (ms_v2fces ms)\<rparr>,
               ru_eru = eru\<rparr>)))"

section \<open>Tree nodes\<close>

text \<open>The calls that \<^verbatim>\<open>ForEachTreeNode\<close> makes, in order, from the nodes seen so far.\<close>

type_synonym node = "(u64 \<times> u64) \<times> hash256"

fun node_path :: "crypto \<Rightarrow> u64 \<Rightarrow> nat \<Rightarrow> u64 \<Rightarrow> u64 \<Rightarrow> hash256 \<Rightarrow> hash256 list \<Rightarrow> node list \<Rightarrow> node list" where
  "node_path c leafIndex i row col h [] out = out"
| "node_path c leafIndex i row col h (sibling # siblings) out =
     (let h = (if leafIndex AND push_bit i 1 = 0 then SumPair c h sibling else SumPair c sibling h);
          row = row + 1; col = drop_bit 1 col
      in if (row, col) \<in> fst ` set out then out
         else node_path c leafIndex (Suc i) row col h siblings (out @ [((row, col), h)]))"

definition tree_nodes :: "crypto \<Rightarrow> elementLeaf list \<Rightarrow> node list" where
  "tree_nodes c ls = fold (\<lambda>el out.
     node_path c (el_LeafIndex el) 0 0 (el_LeafIndex el) (elementLeaf_hash c el) (el_MerkleProof el)
       (out @ [((0, el_LeafIndex el), elementLeaf_hash c el)])) ls []"

definition ApplyUpdate_ForEachTreeNode :: "crypto \<Rightarrow> ApplyUpdate \<Rightarrow> node list" where
  "ApplyUpdate_ForEachTreeNode c au = tree_nodes c (forEachAppliedElement c (au_ms au))"

definition RevertUpdate_ForEachTreeNode :: "crypto \<Rightarrow> RevertUpdate \<Rightarrow> node list" where
  "RevertUpdate_ForEachTreeNode c ru =
     tree_nodes c (filter (\<lambda>el. el_LeafIndex el < eru_numLeaves (ru_eru ru)) (forEachRevertedElement c (ru_ms ru)))"

section \<open>Taking ApplyBlock apart\<close>

lemma put_elements_frame [simp]:
  "ms_qdayProved (put_elements ls ms) = ms_qdayProved ms" "ms_base (put_elements ls ms) = ms_base ms"
  by (simp_all add: put_elements_def Let_def)

lemma ApplyBlock_Ok:
  assumes "ApplyBlock c s b bs t = Ok (s', au)"
  obtains ms acc eau added s1 where "MidState_ApplyBlock c b bs (NewMidState s) = Ok ms"
    "ElementAccumulator_applyBlock c (s_Elements s)
       (filter (\<lambda>l. el_LeafIndex l \<noteq> UnassignedLeafIndex) (forEachAppliedElement c ms))
       (filter (\<lambda>l. el_LeafIndex l = UnassignedLeafIndex) (forEachAppliedElement c ms)) = Ok (acc, eau, added)"
    "ApplyHeader c (s\<lparr>s_SiafundTaxRevenue := ms_siafundTaxRevenue ms,
        s_Attestations := s_Attestations s + word_of_nat (length (ms_aes ms)),
        s_FoundationSubsidyAddress := ms_foundationSubsidy ms,
        s_FoundationManagementAddress := ms_foundationManagement ms, s_Elements := acc\<rparr>) (Block_Header c b) t = Ok s1"
    "s' = (case n_Qday (s_Network s1) of
        None \<Rightarrow> s1
      | Some p \<Rightarrow> if s_QdayHeight s1 = 0 \<and> ms_qdayProved ms
          then s1\<lparr>s_QdayHeight := ci_Height (s_Index s1) + qd_ActivationDelay p\<rparr> else s1)"
    "au = \<lparr>au_ms = put_elements (concat (eau_updated eau) @ added) ms, au_eau = eau\<rparr>"
proof -
  have "\<not> (0 < ci_Height (s_Index s) \<and> ci_ID (s_Index s) \<noteq> blk_ParentID b)"
    using assms by (auto simp: ApplyBlock_def split: if_splits)
  note run = assms [unfolded ApplyBlock_def if_not_P [OF this] Let_def rbind_Ok_iff put_elements_frame]
  from run show thesis by (elim exE conjE, split prod.splits) (auto intro: that simp: rbind_Ok_iff)
qed

end
