(* ===== verification/ValidationV1.thy ===== *)
theory ValidationV1
  imports Application
begin

text \<open>
  Validation of version 1 transactions (\<^verbatim>\<open>core/consensus/validation.go\<close>, \<^verbatim>\<open>validateCurrencyOverflow\<close> to
  \<^verbatim>\<open>ValidateTransaction\<close>): values, coins, siafunds, file contracts with their storage proofs,
  Foundation updates and signatures.
\<close>

section \<open>Values\<close>

text \<open>The closure \<^verbatim>\<open>add\<close> works on the pair of the sum and the overflow flag.\<close>

definition add_checked :: "Currency \<Rightarrow> Currency \<times> bool \<Rightarrow> Currency \<times> bool" where
  "add_checked x st = (if snd st then st else Currency_AddWithOverflow (fst st) x)"

definition add_outputs :: "SiacoinOutput list \<Rightarrow> Currency \<times> bool \<Rightarrow> Currency \<times> bool" where
  "add_outputs = fold (\<lambda>sco. add_checked (sco_Value sco))"

definition validateCurrencyOverflow :: "Transaction \<Rightarrow> unit res" where
  "validateCurrencyOverflow txn =
     (let st = add_outputs (txn_SiacoinOutputs txn) (ZeroCurrency, False);
          st = fold (\<lambda>sfo st. (fst st, snd st \<or> SiafundCount < sfo_Value sfo)) (txn_SiafundOutputs txn) st;
          st = fold (\<lambda>fc st. add_outputs (fc_MissedProofOutputs fc) (add_outputs (fc_ValidProofOutputs fc)
                 (add_checked (fc_Payout fc) st))) (txn_FileContracts txn) st;
          st = fold (\<lambda>fcr st. add_outputs (fc_MissedProofOutputs (rev_FileContract fcr))
                 (add_outputs (fc_ValidProofOutputs (rev_FileContract fcr)) st)) (txn_FileContractRevisions txn) st
      in fail_if (snd st) ''transaction outputs exceed inputs'')"

definition validateMinimumValues :: "Transaction \<Rightarrow> unit res" where
  "validateMinimumValues txn =
     fail_if (list_ex (\<lambda>sco. Currency_IsZero (sco_Value sco)) (txn_SiacoinOutputs txn) \<or>
              list_ex (\<lambda>fc. Currency_IsZero (fc_Payout fc)) (txn_FileContracts txn) \<or>
              list_ex (\<lambda>sfo. sfo_Value sfo = 0) (txn_SiafundOutputs txn) \<or>
              list_ex Currency_IsZero (txn_MinerFees txn))
       ''transaction creates a zero-valued output''"

definition sum_values :: "('a \<Rightarrow> Currency) \<Rightarrow> 'a list \<Rightarrow> Currency \<Rightarrow> Currency res" where
  "sum_values f = fold_res (\<lambda>x s. Currency_Add s (f x))"

section \<open>Coins and siafunds\<close>

definition check_siacoin_parent ::
    "crypto \<Rightarrow> MidState \<Rightarrow> V1TransactionSupplement \<Rightarrow> SiacoinInput \<Rightarrow> Currency \<Rightarrow> Currency res" where
  "check_siacoin_parent c ms ts sci inputSum =
     (if childHeight (ms_base ms) < uc_Timelock (sci_UnlockConditions sci) then Err ''siacoin input has timelocked parent''
      else if isSpent ms (sci_ParentID sci) then Err ''siacoin input double-spends parent output''
      else rbind (siacoinElement ms ts (sci_ParentID sci)) (\<lambda>found.
        case found of
          None \<Rightarrow> Err ''siacoin input spends nonexistent siacoin output''
        | Some parent \<Rightarrow>
            if UnlockHash c (sci_UnlockConditions sci) \<noteq> sco_Address (sce_SiacoinOutput parent)
            then Err ''siacoin input claims incorrect unlock conditions for siacoin output''
            else if childHeight (ms_base ms) < sce_MaturityHeight parent then Err ''siacoin input has immature parent''
            else Currency_Add inputSum (sco_Value (sce_SiacoinOutput parent))))"

definition validateSiacoins :: "crypto \<Rightarrow> MidState \<Rightarrow> Transaction \<Rightarrow> V1TransactionSupplement \<Rightarrow> unit res" where
  "validateSiacoins c ms txn ts =
     rbind (fold_res (check_siacoin_parent c ms ts) (txn_SiacoinInputs txn) ZeroCurrency) (\<lambda>inputSum.
     rbind (sum_values sco_Value (txn_SiacoinOutputs txn) ZeroCurrency) (\<lambda>outputSum.
     rbind (sum_values fc_Payout (txn_FileContracts txn) outputSum) (\<lambda>outputSum.
     rbind (sum_values (\<lambda>fee. fee) (txn_MinerFees txn) outputSum) (\<lambda>outputSum.
     fail_if (Currency_Cmp inputSum outputSum \<noteq> 0) ''siacoin inputs do not equal outputs''))))"

definition check_siafund_parent ::
    "crypto \<Rightarrow> MidState \<Rightarrow> V1TransactionSupplement \<Rightarrow> SiafundInput \<Rightarrow> u64 \<Rightarrow> u64 res" where
  "check_siafund_parent c ms ts sfi inputSum =
     (if childHeight (ms_base ms) < uc_Timelock (sfi_UnlockConditions sfi) then Err ''siafund input has timelocked parent''
      else if isSpent ms (sfi_ParentID sfi) then Err ''siafund input double-spends parent output''
      else rbind (siafundElement ms ts (sfi_ParentID sfi)) (\<lambda>found.
        case found of
          None \<Rightarrow> Err ''siafund input spends nonexistent siafund output''
        | Some parent \<Rightarrow>
            let uh = UnlockHash c (sfi_UnlockConditions sfi); n = s_Network (ms_base ms) in
            if uh \<noteq> sfo_Address (sfe_SiafundOutput parent) \<and>
               \<not> (n_DevAddr_Height n \<le> childHeight (ms_base ms) \<and>
                  sfo_Address (sfe_SiafundOutput parent) = n_DevAddr_OldAddress n \<and> uh = n_DevAddr_NewAddress n)
            then Err ''siafund input claims incorrect unlock conditions for siafund output''
            else Ok (inputSum + sfo_Value (sfe_SiafundOutput parent))))"

definition validateSiafunds :: "crypto \<Rightarrow> MidState \<Rightarrow> Transaction \<Rightarrow> V1TransactionSupplement \<Rightarrow> unit res" where
  "validateSiafunds c ms txn ts =
     rbind (fold_res (check_siafund_parent c ms ts) (txn_SiafundInputs txn) 0) (\<lambda>inputSum.
     fail_if (inputSum \<noteq> sum_list (map sfo_Value (txn_SiafundOutputs txn))) ''siafund inputs do not equal outputs'')"

section \<open>File contracts\<close>

definition check_contract :: "MidState \<Rightarrow> FileContract \<Rightarrow> unit res" where
  "check_contract ms fc =
     (if fc_WindowStart fc < childHeight (ms_base ms) then Err ''file contract has window that starts in the past''
      else if fc_WindowEnd fc \<le> fc_WindowStart fc then Err ''file contract has window that ends before it begins''
      else
        rbind (sum_values sco_Value (fc_ValidProofOutputs fc) ZeroCurrency) (\<lambda>validSum.
        rbind (sum_values sco_Value (fc_MissedProofOutputs fc) ZeroCurrency) (\<lambda>missedSum.
        if \<not> Currency_Equals validSum missedSum
        then Err ''file contract has valid payout that does not equal missed payout''
        else rbind (Currency_Add validSum (FileContractTax (ms_base ms) fc)) (\<lambda>payout.
          fail_if (\<not> Currency_Equals (fc_Payout fc) payout) ''file contract has payout with incorrect tax''))))"

definition check_contract_revision ::
    "crypto \<Rightarrow> MidState \<Rightarrow> V1TransactionSupplement \<Rightarrow> FileContractRevision \<Rightarrow> unit res" where
  "check_contract_revision c ms ts fcr =
     (let fc = rev_FileContract fcr; h = childHeight (ms_base ms) in
      if h < uc_Timelock (rev_UnlockConditions fcr) then Err ''file contract revision has timelocked parent''
      else if fc_WindowStart fc < h then Err ''file contract revision has window that starts in the past''
      else if fc_WindowEnd fc \<le> fc_WindowStart fc then Err ''file contract revision has window that ends before it begins''
      else if isSpent ms (rev_ParentID fcr) then Err ''file contract revision conflicts with previous proof or revision''
      else rbind (fileContractElement ms ts (rev_ParentID fcr)) (\<lambda>found.
        case found of
          None \<Rightarrow> Err ''file contract revision revises nonexistent file contract''
        | Some parent \<Rightarrow>
            let pfc = fce_FileContract parent in
            if fc_WindowStart pfc < h
            then Err ''file contract revision revises contract after its proof window has opened''
            else if fc_RevisionNumber fc \<le> fc_RevisionNumber pfc
            then Err ''file contract revision does not have a higher revision number than its parent''
            else if UnlockHash c (rev_UnlockConditions fcr) \<noteq> fc_UnlockHash pfc
            then Err ''file contract revision claims incorrect unlock conditions''
            else
              rbind (sum_values sco_Value (fc_ValidProofOutputs fc) ZeroCurrency) (\<lambda>a.
              rbind (sum_values sco_Value (fc_ValidProofOutputs pfc) ZeroCurrency) (\<lambda>b.
              if a \<noteq> b then Err ''file contract revision changes valid payout sum''
              else
                rbind (sum_values sco_Value (fc_MissedProofOutputs fc) ZeroCurrency) (\<lambda>a.
                rbind (sum_values sco_Value (fc_MissedProofOutputs pfc) ZeroCurrency) (\<lambda>b.
                fail_if (a \<noteq> b) ''file contract revision changes missed payout sum'')))))) "

definition lastLeafIndex :: "u64 \<Rightarrow> u64" where
  "lastLeafIndex filesize = (if filesize mod 64 \<noteq> 0 then filesize div 64 else filesize div 64 - 1)"

text \<open>\<^verbatim>\<open>nil\<close>, for an empty file, is None.\<close>

definition storageProofLeaf :: "MidState \<Rightarrow> u64 \<Rightarrow> u64 \<Rightarrow> bytes64 \<Rightarrow> byte list option" where
  "storageProofLeaf ms leafIndex filesize leaf =
     (let n = s_Network (ms_base ms); h = childHeight (ms_base ms); short = take (unat (filesize mod 64)) (bytes_of64 leaf) in
      if h < n_Tax_Height n then Some (bytes_of64 leaf)
      else if h < n_StorageProof_Height n
      then Some (if leafIndex = lastLeafIndex filesize then short else bytes_of64 leaf)
      else if filesize = 0 then None
      else Some (if leafIndex = lastLeafIndex filesize \<and> filesize mod 64 \<noteq> 0 then short else bytes_of64 leaf))"

definition v1StorageProofRoot :: "crypto \<Rightarrow> u64 \<Rightarrow> u64 \<Rightarrow> byte list \<Rightarrow> hash256 list \<Rightarrow> hash256" where
  "v1StorageProofRoot c leafIndex filesize leaf prf =
     (let root = HashBytes c (0 # take 64 (leaf @ replicate 64 0));
          subtreeHeight = len64 (leafIndex XOR lastLeafIndex filesize)
      in fold (\<lambda>(i, h) root. if leafIndex AND push_bit i 1 \<noteq> 0 \<or> subtreeHeight \<le> i
                then SumPair c h root else SumPair c root h) (List.enumerate 0 prf) root)"

definition check_storage_proof ::
    "crypto \<Rightarrow> MidState \<Rightarrow> V1TransactionSupplement \<Rightarrow> StorageProof \<Rightarrow> unit res" where
  "check_storage_proof c ms ts sp =
     (if isSpent ms (sp_ParentID sp) then Err ''storage proof conflicts with previous proof''
      else rbind (fileContractElement ms ts (sp_ParentID sp)) (\<lambda>found.
        case found of
          None \<Rightarrow> Err ''storage proof references nonexistent file contract''
        | Some fce \<Rightarrow>
            let fc = fce_FileContract fce in
            rbind (storageProofWindowID ms ts (sp_ParentID sp)) (\<lambda>window.
            case window of
              None \<Rightarrow> Err ''storage proof cannot be submitted until after window start''
            | Some windowID \<Rightarrow>
                rbind (StorageProofLeafIndex c (fc_Filesize fc) windowID (sp_ParentID sp)) (\<lambda>leafIndex.
                case storageProofLeaf ms leafIndex (fc_Filesize fc) (sp_Leaf sp) of
                  None \<Rightarrow> Ok ()
                | Some leaf \<Rightarrow>
                    fail_if (v1StorageProofRoot c leafIndex (fc_Filesize fc) leaf (sp_Proof sp) \<noteq> fc_FileMerkleRoot fc)
                      ''storage proof has root that does not match contract Merkle root''))))"

definition validateFileContracts :: "crypto \<Rightarrow> MidState \<Rightarrow> Transaction \<Rightarrow> V1TransactionSupplement \<Rightarrow> unit res" where
  "validateFileContracts c ms txn ts =
     rbind (for_each (check_contract ms) (txn_FileContracts txn)) (\<lambda>_.
     rbind (for_each (check_contract_revision c ms ts) (txn_FileContractRevisions txn)) (\<lambda>_.
     if txn_StorageProofs txn \<noteq> [] \<and> (txn_SiacoinOutputs txn \<noteq> [] \<or> txn_SiafundOutputs txn \<noteq> [] \<or>
          txn_FileContracts txn \<noteq> [] \<or> txn_FileContractRevisions txn \<noteq> [])
     then Err ''transaction contains both a storage proof and other outputs''
     else if \<not> distinct (map sp_ParentID (txn_StorageProofs txn))
     then Err ''storage proof resolves contract already resolved by storage proof''
     else for_each (check_storage_proof c ms ts) (txn_StorageProofs txn)))"

section \<open>Foundation updates\<close>

definition foundation_signed :: "crypto \<Rightarrow> MidState \<Rightarrow> Transaction \<Rightarrow> bool" where
  "foundation_signed c ms txn \<longleftrightarrow>
     list_ex (\<lambda>sci. UnlockHash c (sci_UnlockConditions sci)
           \<in> {s_FoundationSubsidyAddress (ms_base ms), s_FoundationManagementAddress (ms_base ms)} \<and>
         list_ex (\<lambda>sig. ts_ParentID sig = sci_ParentID sci \<and> cf_WholeTransaction (ts_CoveredFields sig)) (txn_Signatures txn))
       (txn_SiacoinInputs txn)"

definition validateArbitraryData :: "crypto \<Rightarrow> MidState \<Rightarrow> Transaction \<Rightarrow> unit res" where
  "validateArbitraryData c ms txn =
     (if childHeight (ms_base ms) < n_Foundation_Height (s_Network (ms_base ms)) then Ok ()
      else for_each (\<lambda>arb.
        if take 16 arb = bytes_of16 SpecifierFoundation
        then let (update, d) = FoundationAddressUpdate_DecodeFrom (NewBufDecoder (drop 16 arb)) in
          if d_err d \<noteq> None then Err ''transaction contains an improperly-encoded FoundationAddressUpdate''
          else if fau_NewPrimary update = VoidAddress \<or> fau_NewFailsafe update = VoidAddress
          then Err ''transaction contains an uninitialized FoundationAddressUpdate''
          else fail_if (\<not> foundation_signed c ms txn) ''transaction contains an unsigned FoundationAddressUpdate''
        else Ok ()) (txn_ArbitraryData txn))"

section \<open>Signatures\<close>

record sigMapEntry =
  sm_need :: u64
  sm_keys :: "UnlockKey list"
  sm_used :: "bool list"

text \<open>The map of outstanding signatures, as the list of its entries in the order of insertion.\<close>

type_synonym sigMap = "(hash256 \<times> sigMapEntry) list"

definition addEntry :: "string \<Rightarrow> hash256 \<Rightarrow> UnlockConditions \<Rightarrow> sigMap \<Rightarrow> sigMap res" where
  "addEntry msg eid uc m =
     (if eid \<in> fst ` set m then Err msg
      else Ok (m @ [(eid, \<lparr>sm_need = uc_SignaturesRequired uc, sm_keys = uc_PublicKeys uc,
                           sm_used = replicate (length (uc_PublicKeys uc)) False\<rparr>)]))"

definition sig_parents :: "Transaction \<Rightarrow> sigMap res" where
  "sig_parents txn =
     rbind (fold_res (\<lambda>sci. addEntry ''transaction spends siacoin input more than once'' (sci_ParentID sci)
       (sci_UnlockConditions sci)) (txn_SiacoinInputs txn) []) (\<lambda>m.
     rbind (fold_res (\<lambda>sfi. addEntry ''transaction spends siafund input more than once'' (sfi_ParentID sfi)
       (sfi_UnlockConditions sfi)) (txn_SiafundInputs txn) m)
     (fold_res (\<lambda>fcr. addEntry ''transaction revises file contract more than once'' (rev_ParentID fcr)
       (rev_UnlockConditions fcr)) (txn_FileContractRevisions txn)))"

definition check_ed25519 :: "crypto \<Rightarrow> MidState \<Rightarrow> Transaction \<Rightarrow> TransactionSignature \<Rightarrow> byte list \<Rightarrow> unit res" where
  "check_ed25519 c ms txn sig key =
     (let epk = hash_of_bytes (take 32 (key @ replicate 32 0));
          esig = of_bytes64 (take 64 (ts_Signature sig @ replicate 64 0)) in
      rbind (if cf_WholeTransaction (ts_CoveredFields sig)
             then WholeSigHash c (ms_base ms) txn (ts_ParentID sig) (ts_PublicKeyIndex sig) (ts_Timelock sig)
               (cf_Signatures (ts_CoveredFields sig))
             else PartialSigHash c (ms_base ms) txn (ts_CoveredFields sig)) (\<lambda>sigHash.
      fail_if (\<not> PublicKey_VerifyHash c epk sigHash esig) ''signature is invalid''))"

definition check_signature :: "crypto \<Rightarrow> MidState \<Rightarrow> Transaction \<Rightarrow> TransactionSignature \<Rightarrow> sigMap \<Rightarrow> sigMap res" where
  "check_signature c ms txn sig m =
     (case map_of m (ts_ParentID sig) of
        None \<Rightarrow> Err ''signature references parent not present in transaction''
      | Some e \<Rightarrow>
          let k = unat (ts_PublicKeyIndex sig) in
          if length (sm_keys e) \<le> k then Err ''signature points to a nonexistent public key''
          else if sm_need e = 0 \<or> sm_used e ! k then Err ''signature is redundant''
          else if childHeight (ms_base ms) < ts_Timelock sig then Err ''timelock of signature has not expired''
          else
            let e' = e\<lparr>sm_used := (sm_used e)[k := True], sm_need := sm_need e - 1\<rparr>;
                m' = map (\<lambda>(eid, x). if eid = ts_ParentID sig then (eid, e') else (eid, x)) m;
                pk = sm_keys e ! k in
            if uk_Algorithm pk = SpecifierEd25519
            then rbind (check_ed25519 c ms txn sig (uk_Key pk)) (\<lambda>_. Ok m')
            else if uk_Algorithm pk = SpecifierEntropy then Err ''signature uses an entropy public key''
            else Ok m')"

definition validateSignatures :: "crypto \<Rightarrow> MidState \<Rightarrow> Transaction \<Rightarrow> unit res" where
  "validateSignatures c ms txn =
     rbind (sig_parents txn) (\<lambda>m.
     rbind (fold_res (check_signature c ms txn) (txn_Signatures txn) m) (\<lambda>m.
     fail_if (list_ex (\<lambda>(_, e). 0 < sm_need e) m) ''parent has missing signatures''))"

definition ValidateTransaction :: "crypto \<Rightarrow> MidState \<Rightarrow> Transaction \<Rightarrow> V1TransactionSupplement \<Rightarrow> unit res" where
  "ValidateTransaction c ms txn ts =
     (if n_V2_RequireHeight (s_Network (ms_base ms)) \<le> childHeight (ms_base ms)
      then Err ''v1 transactions are not allowed after v2 hardfork is complete''
      else
        rbind (validateCurrencyOverflow txn) (\<lambda>_.
        if MaxBlockWeight < TransactionWeight txn then Err ''transaction exceeds maximum block weight''
        else
          rbind (validateMinimumValues txn) (\<lambda>_.
          rbind (validateSiacoins c ms txn ts) (\<lambda>_.
          rbind (validateSiafunds c ms txn ts) (\<lambda>_.
          rbind (validateFileContracts c ms txn ts) (\<lambda>_.
          rbind (validateArbitraryData c ms txn) (\<lambda>_.
          validateSignatures c ms txn)))))))"

end
