(* ===== verification/Validation.thy ===== *)
theory Validation
  imports ValidationV1
begin

text \<open>
  Validation of headers, transactions and blocks (\<^verbatim>\<open>core/consensus/validation.go\<close>, and the QDAY checks of
  \<^verbatim>\<open>core/consensus/qday.go\<close>). Every check is an error value in the order of the source; a panic of the
  arithmetic or of an index inside a check is a panic of the check.
\<close>

section \<open>Headers and payouts\<close>

definition ValidateHeader :: "crypto \<Rightarrow> State \<Rightarrow> BlockHeader \<Rightarrow> unit res" where
  "ValidateHeader c s bh =
     (if bh_ParentID bh \<noteq> ci_ID (s_Index s) then Err ''wrong parent ID''
      else rbind (medianTimestamp s) (\<lambda>mt.
        if bh_Timestamp bh < mt then Err ''timestamp too far in the past''
        else if NonceFactor s = 0 then Panic ''integer divide by zero''
        else if bh_Nonce bh mod NonceFactor s \<noteq> 0 then Err ''nonce not divisible by required factor''
        else rbind (PoWTarget s) (\<lambda>target.
          fail_if (BlockID_CmpWork (BlockHeader_ID c bh) target < 0) ''insufficient work'')))"

definition add_fee :: "string \<Rightarrow> Currency \<Rightarrow> Currency \<Rightarrow> Currency res" where
  "add_fee msg fee tot =
     (let (tot, overflow) = Currency_AddWithOverflow tot fee in if overflow then Err msg else Ok tot)"

definition validateMinerPayouts :: "State \<Rightarrow> Block \<Rightarrow> unit res" where
  "validateMinerPayouts s b =
     rbind (BlockReward s) (\<lambda>reward.
     rbind (fold_res (\<lambda>txn. fold_res (\<lambda>fee tot.
          if Currency_IsZero fee then Err ''transaction fee has zero value''
          else add_fee ''transaction fees overflow'' fee tot) (txn_MinerFees txn)) (blk_Transactions b) reward)
       (\<lambda>expectedSum.
     rbind (case blk_V2 b of
         None \<Rightarrow> Ok expectedSum
       | Some v2 \<Rightarrow>
           rbind (fold_res (\<lambda>txn. add_fee ''v2 transaction fees overflow'' (v2_MinerFee txn))
             (bd_Transactions v2) expectedSum) (\<lambda>expectedSum.
           if length (blk_MinerPayouts b) \<noteq> 1 then Err ''block must have exactly one miner payout''
           else Ok expectedSum)) (\<lambda>expectedSum.
     rbind (fold_res (\<lambda>mp tot.
         if Currency_IsZero (sco_Value mp) \<and> n_Qday (s_Network s) = None then Err ''miner payout has zero value''
         else add_fee ''miner payouts overflow'' (sco_Value mp) tot) (blk_MinerPayouts b) ZeroCurrency) (\<lambda>tot.
     fail_if (tot \<noteq> expectedSum) ''miner payout sum does not match block reward + fees''))))"

definition ValidateOrphan :: "crypto \<Rightarrow> State \<Rightarrow> Block \<Rightarrow> unit res" where
  "ValidateOrphan c s b =
     (let weight = sum_list (map TransactionWeight (blk_Transactions b)) +
                   sum_list (map V2TransactionWeight (Block_V2Transactions b)) in
      if MaxBlockWeight < weight then Err ''block exceeds maximum weight''
      else rbind (validateMinerPayouts s b) (\<lambda>_.
        rbind (ValidateHeader c s (Block_Header c b)) (\<lambda>_.
        case blk_V2 b of
          None \<Rightarrow> Ok ()
        | Some v2 \<Rightarrow> fail_if (bd_Height v2 \<noteq> ci_Height (s_Index s) + 1)
            ''block height does not increment parent height'')))"

section \<open>Version 2 transactions\<close>

definition addContract :: "V2FileContract \<Rightarrow> Currency \<times> bool \<Rightarrow> (Currency \<times> bool) res" where
  "addContract fc st =
     (let st = add_checked (v2fc_TotalCollateral fc) (add_checked (v2fc_MissedHostValue fc)
                 (add_checked (sco_Value (v2fc_HostOutput fc)) (add_checked (sco_Value (v2fc_RenterOutput fc)) st)));
          (_, taxOverflow) = Currency_AddWithOverflow (sco_Value (v2fc_RenterOutput fc)) (sco_Value (v2fc_HostOutput fc))
      in if taxOverflow then Ok (fst st, True)
         else rbind (V2FileContractTax fc) (\<lambda>tax. Ok (add_checked tax st)))"

definition validateV2CurrencyOverflow :: "V2Transaction \<Rightarrow> unit res" where
  "validateV2CurrencyOverflow txn =
     (let st = add_outputs (v2_SiacoinOutputs txn) (ZeroCurrency, False);
          st = fold (\<lambda>sfo st. (fst st, snd st \<or> SiafundCount < sfo_Value sfo)) (v2_SiafundOutputs txn) st in
      rbind (fold_res addContract (v2_FileContracts txn) st) (\<lambda>st.
      rbind (fold_res (\<lambda>fcr. addContract (v2rev_Revision fcr)) (v2_FileContractRevisions txn) st) (\<lambda>st.
      rbind (fold_res (\<lambda>fcr st.
          case v2res_Resolution fcr of
            Renewal r \<Rightarrow> rbind (addContract (ren_NewContract r) st) (\<lambda>st.
              Ok (add_checked (ren_HostRollover r) (add_checked (ren_RenterRollover r)
                (add_checked (sco_Value (ren_FinalHostOutput r)) (add_checked (sco_Value (ren_FinalRenterOutput r)) st)))))
          | _ \<Rightarrow> Ok st) (v2_FileContractResolutions txn) st) (\<lambda>st.
      fail_if (snd (add_checked (v2_MinerFee txn) st)) ''transaction outputs exceed inputs''))))"

definition validateEphemeralSiacoinElement :: "MidState \<Rightarrow> V2SiacoinInput \<Rightarrow> unit res" where
  "validateEphemeralSiacoinElement ms sci =
     (let parent = v2sci_Parent sci in
      case ms_elements ms (sce_ID parent) of
        None \<Rightarrow> Err ''spends nonexistent ephemeral output''
      | Some j \<Rightarrow>
          if length (ms_sces ms) \<le> j \<or> \<not> sced_Created (ms_sces ms ! j) then Err ''spends nonexistent ephemeral output''
          else if childHeight (ms_base ms) < n_V2_EphemeralOutputHeight (s_Network (ms_base ms)) then Ok ()
          else let esci = sced_SiacoinElement (ms_sces ms ! j) in
            if sce_ID parent \<noteq> sce_ID esci then Err ''spends nonexistent ephemeral output''
            else if sce_SiacoinOutput parent \<noteq> sce_SiacoinOutput esci
            then Err ''claims incorrect value for ephemeral output''
            else if sce_MaturityHeight parent \<noteq> sce_MaturityHeight esci
            then Err ''claims incorrect maturity height for ephemeral output''
            else Ok ())"

definition validateV2SpendPolicy ::
    "crypto \<Rightarrow> MidState \<Rightarrow> hash256 \<Rightarrow> SatisfiedPolicy \<Rightarrow> Address \<Rightarrow> unit res" where
  "validateV2SpendPolicy c ms sigHash sp parentAddress =
     (if Policy_Address c (sat_Policy sp) \<noteq> parentAddress then Err ''claims incorrect policy for parent address''
      else rbind (medianTimestamp (ms_base ms)) (\<lambda>mt.
        Policy_Verify c (sat_Policy sp) (ci_Height (s_Index (ms_base ms))) mt sigHash
          (sat_Signatures sp) (sat_Preimages sp)))"

text \<open>One round of the loop over the inputs, with the identifiers of the earlier inputs.\<close>

definition check_siacoin_input ::
    "crypto \<Rightarrow> MidState \<Rightarrow> hash256 \<Rightarrow> V2SiacoinInput \<Rightarrow> hash256 set \<Rightarrow> (hash256 set) res" where
  "check_siacoin_input c ms sigHash sci spent =
     (let parent = v2sci_Parent sci; eid = sce_ID parent in
      if isSpent ms eid then Err ''siacoin input double-spends parent output''
      else if eid \<in> spent then Err ''siacoin input double-spends parent output (previously spent by input)''
      else if childHeight (ms_base ms) < sce_MaturityHeight parent then Err ''siacoin input has immature parent''
      else
        rbind (if se_LeafIndex (sce_StateElement parent) = UnassignedLeafIndex
               then validateEphemeralSiacoinElement ms sci
               else if \<not> containsUnspentSiacoinElement c (s_Elements (ms_base ms)) parent
               then if containsSpentSiacoinElement c (s_Elements (ms_base ms)) parent
                    then Err ''siacoin input double-spends output''
                    else Err ''siacoin input spends output not present in the accumulator''
               else Ok ()) (\<lambda>_.
        rbind (validateV2SpendPolicy c ms sigHash (v2sci_SatisfiedPolicy sci) (sco_Address (sce_SiacoinOutput parent))) (\<lambda>_.
        Ok (insert eid spent))))"

definition contract_cost :: "V2FileContract \<Rightarrow> Currency \<Rightarrow> Currency res" where
  "contract_cost fc tot =
     rbind (Currency_Add tot (sco_Value (v2fc_RenterOutput fc))) (\<lambda>tot.
     rbind (Currency_Add tot (sco_Value (v2fc_HostOutput fc))) (\<lambda>tot.
     rbind (V2FileContractTax fc) (\<lambda>tax. Currency_Add tot tax)))"

definition v2_input_sum :: "MidState \<Rightarrow> V2Transaction \<Rightarrow> Currency res" where
  "v2_input_sum ms txn =
     fold_res (\<lambda>sci tot. rbind (QdayValue (ms_base ms) (v2sci_Parent sci) (childHeight (ms_base ms))) (\<lambda>v.
       Currency_Add tot v)) (v2_SiacoinInputs txn) ZeroCurrency"

definition v2_output_sum :: "V2Transaction \<Rightarrow> Currency res" where
  "v2_output_sum txn =
     fold_res (\<lambda>out tot. if Currency_IsZero (sco_Value out) then Err ''siacoin output has zero value''
       else Currency_Add tot (sco_Value out)) (v2_SiacoinOutputs txn) ZeroCurrency"

definition validateV2Siacoins :: "crypto \<Rightarrow> MidState \<Rightarrow> V2Transaction \<Rightarrow> unit res" where
  "validateV2Siacoins c ms txn =
     (let sigHash = InputSigHash c (ms_base ms) txn in
      rbind (fold_res (check_siacoin_input c ms sigHash) (v2_SiacoinInputs txn) {}) (\<lambda>_.
      rbind (v2_input_sum ms txn) (\<lambda>inputSum.
      rbind (v2_output_sum txn) (\<lambda>outputSum.
      rbind (fold_res contract_cost (v2_FileContracts txn) outputSum) (\<lambda>outputSum.
      rbind (fold_res (\<lambda>fcr (inputSum, outputSum).
          case v2res_Resolution fcr of
            Renewal r \<Rightarrow>
              rbind (Currency_Add inputSum (ren_RenterRollover r)) (\<lambda>inputSum.
              rbind (Currency_Add inputSum (ren_HostRollover r)) (\<lambda>inputSum.
              rbind (contract_cost (ren_NewContract r) outputSum) (\<lambda>outputSum. Ok (inputSum, outputSum))))
          | _ \<Rightarrow> Ok (inputSum, outputSum)) (v2_FileContractResolutions txn) (inputSum, outputSum)) (\<lambda>(inputSum, outputSum).
      rbind (Currency_Add outputSum (v2_MinerFee txn)) (\<lambda>outputSum.
      fail_if (inputSum \<noteq> outputSum \<and>
          (n_Qday (s_Network (ms_base ms)) = None \<or> Currency_Cmp inputSum outputSum < 0))
        ''siacoin inputs do not equal outputs'')))))))"

definition validateEphemeralSiafundElement :: "MidState \<Rightarrow> V2SiafundInput \<Rightarrow> unit res" where
  "validateEphemeralSiafundElement ms sfi =
     (case ms_elements ms (sfe_ID (v2sfi_Parent sfi)) of
        None \<Rightarrow> Err ''spends nonexistent ephemeral output''
      | Some j \<Rightarrow>
          if length (ms_sfes ms) \<le> j \<or> \<not> sfed_Created (ms_sfes ms ! j) then Err ''spends nonexistent ephemeral output''
          else fail_if (n_V2_EphemeralOutputHeight (s_Network (ms_base ms)) \<le> childHeight (ms_base ms))
            ''spends ephemeral output'')"

definition check_siafund_input ::
    "crypto \<Rightarrow> MidState \<Rightarrow> hash256 \<Rightarrow> V2SiafundInput \<Rightarrow> hash256 set \<Rightarrow> (hash256 set) res" where
  "check_siafund_input c ms sigHash sfi spent =
     (let parent = v2sfi_Parent sfi; eid = sfe_ID parent in
      if isSpent ms eid then Err ''siafund input double-spends parent output''
      else if eid \<in> spent then Err ''siafund input double-spends parent output (previously spent by input)''
      else
        rbind (if se_LeafIndex (sfe_StateElement parent) = UnassignedLeafIndex
               then validateEphemeralSiafundElement ms sfi
               else if \<not> containsUnspentSiafundElement c (s_Elements (ms_base ms)) parent
               then if containsSpentSiafundElement c (s_Elements (ms_base ms)) parent
                    then Err ''siafund input double-spends output''
                    else Err ''siafund input spends output not present in the accumulator''
               else Ok ()) (\<lambda>_.
        rbind (validateV2SpendPolicy c ms sigHash (v2sfi_SatisfiedPolicy sfi) (sfo_Address (sfe_SiafundOutput parent))) (\<lambda>_.
        Ok (insert eid spent))))"

definition validateV2Siafunds :: "crypto \<Rightarrow> MidState \<Rightarrow> V2Transaction \<Rightarrow> unit res" where
  "validateV2Siafunds c ms txn =
     (let sigHash = InputSigHash c (ms_base ms) txn in
      rbind (fold_res (check_siafund_input c ms sigHash) (v2_SiafundInputs txn) {}) (\<lambda>_.
      let inputSum = sum_list (map (\<lambda>i. sfo_Value (sfe_SiafundOutput (v2sfi_Parent i))) (v2_SiafundInputs txn)) in
      rbind (fold_res (\<lambda>out tot. if sfo_Value out = 0 then Err ''siafund output has zero value''
          else Ok (tot + sfo_Value out)) (v2_SiafundOutputs txn) 0) (\<lambda>outputSum.
      fail_if (inputSum \<noteq> outputSum) ''siafund inputs do not equal outputs'')))"

section \<open>Version 2 file contracts\<close>

definition validateParent ::
    "crypto \<Rightarrow> MidState \<Rightarrow> hash256 set \<Rightarrow> hash256 set \<Rightarrow> V2FileContractElement \<Rightarrow> unit res" where
  "validateParent c ms revised resolved fce =
     (if isSpent ms (v2fce_ID fce) then Err ''has already been resolved in transaction''
      else if v2fce_ID fce \<in> revised then Err ''has already been revised by contract revision''
      else if v2fce_ID fce \<in> resolved then Err ''has already been resolved by contract resolution''
      else if \<not> containsUnresolvedV2FileContractElement c (s_Elements (ms_base ms)) fce
      then if containsResolvedV2FileContractElement c (s_Elements (ms_base ms)) fce
           then Err ''has already been resolved in a previous block''
           else Err ''is not present in the accumulator''
      else Ok ())"

definition validateContractSignatures :: "crypto \<Rightarrow> V2FileContract \<Rightarrow> PublicKey \<Rightarrow> PublicKey \<Rightarrow> unit res" where
  "validateContractSignatures c fc renter host =
     (let contractHash = ContractSigHash c fc in
      if \<not> PublicKey_VerifyHash c renter contractHash (v2fc_RenterSignature fc) then Err ''has invalid renter signature''
      else fail_if (\<not> PublicKey_VerifyHash c host contractHash (v2fc_HostSignature fc)) ''has invalid host signature'')"

definition validateContract :: "crypto \<Rightarrow> MidState \<Rightarrow> V2FileContract \<Rightarrow> unit res" where
  "validateContract c ms fc =
     (if v2fc_Capacity fc < v2fc_Filesize fc then Err ''has filesize exceeding capacity''
      else if v2fc_ProofHeight fc < childHeight (ms_base ms) then Err ''has proof height that has already passed''
      else if v2fc_ExpirationHeight fc \<le> v2fc_ProofHeight fc
      then Err ''leaves no time between proof height and expiration height''
      else if Currency_IsZero (sco_Value (v2fc_RenterOutput fc)) \<and> Currency_IsZero (sco_Value (v2fc_HostOutput fc))
      then Err ''has zero value''
      else if 0 < Currency_Cmp (v2fc_MissedHostValue fc) (sco_Value (v2fc_HostOutput fc))
      then Err ''has missed host value exceeding valid host value''
      else if 0 < Currency_Cmp (v2fc_TotalCollateral fc) (sco_Value (v2fc_HostOutput fc))
      then Err ''has total collateral exceeding valid host value''
      else validateContractSignatures c fc (v2fc_RenterPublicKey fc) (v2fc_HostPublicKey fc))"

definition current_contract :: "MidState \<Rightarrow> V2FileContractElement \<Rightarrow> V2FileContract res" where
  "current_contract ms fce =
     (case ms_elements ms (v2fce_ID fce) of
        None \<Rightarrow> Ok (v2fce_V2FileContract fce)
      | Some i \<Rightarrow> rbind (index_res (ms_v2fces ms) i) (\<lambda>d.
          Ok (case v2fced_Revision d of Some r \<Rightarrow> r | None \<Rightarrow> v2fce_V2FileContract fce)))"

definition validateRevision :: "crypto \<Rightarrow> MidState \<Rightarrow> V2FileContractElement \<Rightarrow> V2FileContract \<Rightarrow> unit res" where
  "validateRevision c ms fce rv =
     rbind (current_contract ms fce) (\<lambda>cur.
     rbind (Currency_Add (sco_Value (v2fc_RenterOutput cur)) (sco_Value (v2fc_HostOutput cur))) (\<lambda>curOutputSum.
     rbind (Currency_Add (sco_Value (v2fc_RenterOutput rv)) (sco_Value (v2fc_HostOutput rv))) (\<lambda>revOutputSum.
     if v2fc_Capacity rv < v2fc_Capacity cur then Err ''decreases capacity''
     else if v2fc_Capacity rv < v2fc_Filesize rv then Err ''has filesize exceeding capacity''
     else if v2fc_ProofHeight cur < childHeight (ms_base ms)
     then Err ''revises contract after its proof window has opened''
     else if v2fc_RevisionNumber rv \<le> v2fc_RevisionNumber cur then Err ''does not increase revision number''
     else if \<not> Currency_Equals revOutputSum curOutputSum then Err ''modifies output sum''
     else if 0 < Currency_Cmp (v2fc_MissedHostValue rv) (v2fc_MissedHostValue cur)
     then Err ''has missed host value exceeding old value''
     else if n_V2_EphemeralOutputHeight (s_Network (ms_base ms)) \<le> childHeight (ms_base ms) \<and>
             0 < Currency_Cmp (v2fc_MissedHostValue rv) (sco_Value (v2fc_HostOutput rv))
     then Err ''has missed host value exceeding valid host value''
     else if v2fc_TotalCollateral rv \<noteq> v2fc_TotalCollateral cur then Err ''modifies total collateral''
     else if v2fc_ProofHeight rv < childHeight (ms_base ms) then Err ''has proof height that has already passed''
     else if v2fc_ExpirationHeight rv \<le> v2fc_ProofHeight rv
     then Err ''leaves no time between proof height and expiration height''
     else validateContractSignatures c rv (v2fc_RenterPublicKey cur) (v2fc_HostPublicKey cur))))"

definition validateRenewal :: "crypto \<Rightarrow> MidState \<Rightarrow> V2FileContract \<Rightarrow> V2FileContractRenewal \<Rightarrow> unit res" where
  "validateRenewal c ms fc renewal =
     (let new = ren_NewContract renewal in
      if v2fc_RenterPublicKey fc \<noteq> v2fc_RenterPublicKey new then Err ''file contract renewal changes renter public key''
      else if v2fc_HostPublicKey fc \<noteq> v2fc_HostPublicKey new then Err ''file contract renewal changes host public key''
      else
        rbind (Currency_Add (sco_Value (ren_FinalRenterOutput renewal)) (ren_RenterRollover renewal)) (\<lambda>totalPayout.
        rbind (Currency_Add totalPayout (sco_Value (ren_FinalHostOutput renewal))) (\<lambda>totalPayout.
        rbind (Currency_Add totalPayout (ren_HostRollover renewal)) (\<lambda>totalPayout.
        rbind (Currency_Add (sco_Value (v2fc_RenterOutput fc)) (sco_Value (v2fc_HostOutput fc))) (\<lambda>existingPayout.
        if totalPayout \<noteq> existingPayout
        then Err ''file contract renewal renewal payout does not match existing contract payout''
        else
          rbind (Currency_Add (sco_Value (v2fc_RenterOutput new)) (sco_Value (v2fc_HostOutput new))) (\<lambda>newContractCost.
          rbind (V2FileContractTax new) (\<lambda>tax.
          rbind (Currency_Add newContractCost tax) (\<lambda>newContractCost.
          rbind (Currency_Add (ren_RenterRollover renewal) (ren_HostRollover renewal)) (\<lambda>rollover.
          if 0 < Currency_Cmp rollover newContractCost
          then Err ''file contract renewal has rollover exceeding new contract cost''
          else
            rbind (validateContract c ms new) (\<lambda>_.
            let renewalHash = RenewalSigHash c renewal in
            if \<not> PublicKey_VerifyHash c (v2fc_RenterPublicKey fc) renewalHash (ren_RenterSignature renewal)
            then Err ''file contract renewal has invalid renter signature''
            else fail_if (\<not> PublicKey_VerifyHash c (v2fc_HostPublicKey fc) renewalHash (ren_HostSignature renewal))
              ''file contract renewal has invalid host signature'')))))))))) "

definition validateV2StorageProof :: "crypto \<Rightarrow> MidState \<Rightarrow> V2FileContractElement \<Rightarrow> V2StorageProof \<Rightarrow> unit res" where
  "validateV2StorageProof c ms fce sp =
     (let fc = v2fce_V2FileContract fce; index = cie_ChainIndex (v2sp_ProofIndex sp) in
      if childHeight (ms_base ms) < v2fc_ProofHeight fc
      then Err ''file contract storage proof cannot be submitted until after proof height''
      else if ci_Height index \<noteq> v2fc_ProofHeight fc
      then Err ''file contract storage proof has ProofIndex height that does not match contract ProofHeight''
      else if \<not> containsChainIndex c (s_Elements (ms_base ms)) (v2sp_ProofIndex sp)
      then Err ''file contract storage proof has invalid history proof''
      else rbind (StorageProofLeafIndex c (v2fc_Filesize fc) (ci_ID index) (v2fce_ID fce)) (\<lambda>leafIndex.
        fail_if (storageProofRoot c (StorageProofLeafHash c (bytes_of64 (v2sp_Leaf sp))) leafIndex (v2fc_Filesize fc)
            (v2sp_Proof sp) \<noteq> v2fc_FileMerkleRoot fc)
          ''file contract storage proof has root that does not match contract Merkle root''))"

definition validateV2FileContracts :: "crypto \<Rightarrow> MidState \<Rightarrow> V2Transaction \<Rightarrow> unit res" where
  "validateV2FileContracts c ms txn =
     rbind (for_each (validateContract c ms) (v2_FileContracts txn)) (\<lambda>_.
     rbind (fold_res (\<lambda>fcr revised.
         rbind (validateParent c ms revised {} (v2rev_Parent fcr)) (\<lambda>_.
         if v2fc_ProofHeight (v2fce_V2FileContract (v2rev_Parent fcr)) < childHeight (ms_base ms)
         then Err ''file contract revision cannot be applied to contract after proof height''
         else rbind (validateRevision c ms (v2rev_Parent fcr) (v2rev_Revision fcr)) (\<lambda>_.
           Ok (insert (v2fce_ID (v2rev_Parent fcr)) revised)))) (v2_FileContractRevisions txn) {}) (\<lambda>revised.
     rbind (fold_res (\<lambda>fcr resolved.
         rbind (validateParent c ms revised resolved (v2res_Parent fcr)) (\<lambda>_.
         rbind (case v2res_Resolution fcr of
             Renewal r \<Rightarrow> validateRenewal c ms (v2fce_V2FileContract (v2res_Parent fcr)) r
           | StorageProofRes sp \<Rightarrow> validateV2StorageProof c ms (v2res_Parent fcr) sp
           | Expiration \<Rightarrow> fail_if (childHeight (ms_base ms) \<le> v2fc_ExpirationHeight (v2fce_V2FileContract (v2res_Parent fcr)))
               ''file contract expiration cannot be submitted until after expiration height'') (\<lambda>_.
         Ok (insert (v2fce_ID (v2res_Parent fcr)) resolved)))) (v2_FileContractResolutions txn) {}) (\<lambda>_.
     Ok ())))"

definition validateAttestations :: "crypto \<Rightarrow> V2Transaction \<Rightarrow> unit res" where
  "validateAttestations c txn = for_each (\<lambda>a.
     if att_Key a = [] then Err ''attestation has empty key''
     else fail_if (\<not> PublicKey_VerifyHash c (att_PublicKey a) (AttestationSigHash c a) (att_Signature a))
       ''attestation has invalid signature'') (v2_Attestations txn)"

definition validateFoundationUpdate :: "MidState \<Rightarrow> V2Transaction \<Rightarrow> unit res" where
  "validateFoundationUpdate ms txn =
     (if v2_NewFoundationAddress txn = None then Ok ()
      else if list_ex (\<lambda>i. sco_Address (sce_SiacoinOutput (v2sci_Parent i)) = s_FoundationManagementAddress (ms_base ms))
                (v2_SiacoinInputs txn) then Ok ()
      else Err ''transaction changes Foundation address, but does not spend an input controlled by current address'')"

section \<open>QDAY transactions\<close>

definition validateQdayTransaction :: "crypto \<Rightarrow> MidState \<Rightarrow> V2Transaction \<Rightarrow> unit res" where
  "validateQdayTransaction c ms txn =
     rbind (ParseQdayEnvelope (v2_ArbitraryData txn)) (\<lambda>e.
     let s = ms_base ms in
     case n_Qday (s_Network s) of
       None \<Rightarrow> Panic ''nil pointer dereference''
     | Some p \<Rightarrow>
       if qdayUnsupported txn then Err ''QDAY supports coin transfers only''
       else if env_Kind e = QdayCoinbase then Err ''coinbase marker is only valid first in a block''
       else if env_Kind e = QdayMiningWork then Err ''mining work marker is only valid last in a block''
       else if env_Kind e = QdayCanaryProof \<and> (s_QdayHeight s \<noteq> 0 \<or> ms_qdayProved ms \<or> env_Nonce e \<noteq> 0 \<or>
               \<not> VerifyQdayProof c (qd_Canary p) (env_Witness e))
       then Err ''invalid or repeated QDAY proof''
       else if env_Kind e = QdayCanaryProof \<and> Currency_Cmp (v2_MinerFee txn) (qd_ProofFee p) < 0
       then Err ''QDAY proof does not pay the minimum network fee''
       else if v2_SiacoinInputs txn = [] \<or> 128 < length (v2_SiacoinInputs txn) \<or>
               (v2_SiacoinOutputs txn = [] \<and> env_Kind e \<noteq> QdayCanaryProof) \<or>
               128 < length (v2_SiacoinOutputs txn) \<or> env_Keys e \<noteq> []
       then Err ''invalid QDAY transfer shape''
       else if list_ex (\<lambda>i. let policy = sat_Policy (v2sci_SatisfiedPolicy i) in \<not> IsQdayNativePolicy policy \<and>
                 (\<not> QdayV1Active s (childHeight s) \<or> \<not> IsQdaySwapSpendPolicy policy)) (v2_SiacoinInputs txn)
       then Err ''input must use native hybrid or atomic-swap policy''
       else if QdayActive s (childHeight s)
       then rbind (QdayWorkIntent c s txn) (\<lambda>intent.
         fail_if (\<not> QdayWorkValid c intent (env_Nonce e) (qd_DefendBits p)) ''insufficient DEFEND work'')
       else Ok ())"

definition ValidateV2Transaction :: "crypto \<Rightarrow> MidState \<Rightarrow> V2Transaction \<Rightarrow> unit res" where
  "ValidateV2Transaction c ms txn =
     rbind (if n_Qday (s_Network (ms_base ms)) \<noteq> None then validateQdayTransaction c ms txn else Ok ()) (\<lambda>_.
     if childHeight (ms_base ms) < n_V2_AllowHeight (s_Network (ms_base ms))
     then Err ''v2 transactions are not allowed until v2 hardfork begins''
     else rbind (validateV2CurrencyOverflow txn) (\<lambda>_.
       if V2TransactionWeight txn = 0 then Err ''transactions cannot be empty''
       else if MaxBlockWeight < V2TransactionWeight txn then Err ''transaction exceeds maximum block weight''
       else
         rbind (validateV2Siacoins c ms txn) (\<lambda>_.
         rbind (validateV2Siafunds c ms txn) (\<lambda>_.
         rbind (validateV2FileContracts c ms txn) (\<lambda>_.
         rbind (validateAttestations c txn) (\<lambda>_.
         validateFoundationUpdate ms txn))))))"

definition validateQdayBlockMarkers :: "crypto \<Rightarrow> State \<Rightarrow> Block \<Rightarrow> unit res" where
  "validateQdayBlockMarkers c s b =
     (case blk_V2 b of
        None \<Rightarrow> Err ''missing QDAY coinbase marker''
      | Some v2 \<Rightarrow>
        if bd_Transactions v2 = [] \<or> blk_Transactions b \<noteq> [] \<or> length (blk_MinerPayouts b) \<noteq> 1
        then Err ''missing QDAY coinbase marker''
        else
          let txn = hd (bd_Transactions v2) in
          if (case ParseQdayEnvelope (v2_ArbitraryData txn) of
                Ok e \<Rightarrow> env_Kind e \<noteq> QdayCoinbase \<or> length (env_Keys e) \<noteq> 1 \<or>
                  QdayKeys_Address c (hd (env_Keys e)) \<noteq> sco_Address (hd (blk_MinerPayouts b)) \<or>
                  length (v2_SiacoinInputs txn) + length (v2_SiacoinOutputs txn) \<noteq> 0 \<or>
                  \<not> Currency_IsZero (v2_MinerFee txn) \<or> qdayUnsupported txn
              | _ \<Rightarrow> True)
          then Err ''invalid QDAY coinbase marker''
          else if QdayV1Active s (childHeight s)
          then if length (bd_Transactions v2) < 2 then Err ''missing QDAY mining work marker''
            else let work = last (bd_Transactions v2) in
              if (case ParseQdayEnvelope (v2_ArbitraryData work) of
                    Ok we \<Rightarrow> env_Kind we \<noteq> QdayMiningWork \<or> env_Keys we \<noteq> [] \<or> env_Witness we \<noteq> 0 \<or>
                      length (v2_SiacoinInputs work) + length (v2_SiacoinOutputs work) \<noteq> 0 \<or>
                      \<not> Currency_IsZero (v2_MinerFee work) \<or> qdayUnsupported work
                  | _ \<Rightarrow> True)
              then Err ''invalid QDAY mining work marker''
              else Ok ()
          else Ok ())"

definition validateSupplement :: "crypto \<Rightarrow> State \<Rightarrow> Block \<Rightarrow> V1BlockSupplement \<Rightarrow> unit res" where
  "validateSupplement c s b bs =
     (if n_V2_RequireHeight (s_Network s) \<le> childHeight s \<and>
         (bs_Transactions bs \<noteq> [] \<or> bs_ExpiringFileContracts bs \<noteq> [])
      then Err ''v1 block supplements are not allowed after v2 hardfork is complete''
      else if length (bs_Transactions bs) \<noteq> length (blk_Transactions b) then Err ''incorrect number of transactions''
      else
        rbind (for_each (\<lambda>ts.
          rbind (for_each (\<lambda>sce. fail_if (\<not> containsUnspentSiacoinElement c (s_Elements s) sce)
              ''siacoin element is not present in the accumulator'') (sup_SiacoinInputs ts)) (\<lambda>_.
          rbind (for_each (\<lambda>sfe. fail_if (\<not> containsUnspentSiafundElement c (s_Elements s) sfe)
              ''siafund element is not present in the accumulator'') (sup_SiafundInputs ts)) (\<lambda>_.
          rbind (for_each (\<lambda>fce. fail_if (\<not> containsUnresolvedFileContractElement c (s_Elements s) fce)
              ''revised file contract is not present in the accumulator'') (sup_RevisedFileContracts ts)) (\<lambda>_.
          for_each (\<lambda>sps. fail_if (\<not> containsUnresolvedFileContractElement c (s_Elements s) (sps_FileContract sps))
              ''valid file contract is not present in the accumulator'') (sup_StorageProofs ts))))) (bs_Transactions bs)) (\<lambda>_.
        for_each (\<lambda>fce. fail_if (\<not> containsUnresolvedFileContractElement c (s_Elements s) fce)
          ''expiring file contract is not present in the accumulator'') (bs_ExpiringFileContracts bs)))"

section \<open>Blocks\<close>

definition is_marker :: "State \<Rightarrow> nat \<Rightarrow> nat \<Rightarrow> bool" where
  "is_marker s len i \<longleftrightarrow> n_Qday (s_Network s) \<noteq> None \<and>
     (i = 0 \<or> (QdayV1Active s (childHeight s) \<and> i = len - 1))"

definition check_v2_transactions :: "crypto \<Rightarrow> State \<Rightarrow> V2Transaction list \<Rightarrow> MidState \<Rightarrow> MidState res" where
  "check_v2_transactions c s txns =
     enum_res (\<lambda>i txn ms.
       if is_marker s (length txns) i then ApplyV2Transaction c txn ms
       else rbind (ValidateV2Transaction c ms txn) (\<lambda>_. ApplyV2Transaction c txn ms)) txns"

definition ValidateBlock :: "crypto \<Rightarrow> State \<Rightarrow> Block \<Rightarrow> V1BlockSupplement \<Rightarrow> unit res" where
  "ValidateBlock c s b bs =
     rbind (if n_Qday (s_Network s) \<noteq> None \<and> 0 < childHeight s then validateQdayBlockMarkers c s b else Ok ()) (\<lambda>_.
     rbind (ValidateOrphan c s b) (\<lambda>_.
     rbind (validateSupplement c s b bs) (\<lambda>_.
     rbind (case blk_V2 b of
         None \<Rightarrow> Ok ()
       | Some v2 \<Rightarrow> rbind (index_res (blk_MinerPayouts b) 0) (\<lambda>mp.
           fail_if (bd_Commitment v2 \<noteq> Commitment c s (sco_Address mp) (blk_Transactions b) (Block_V2Transactions b))
             ''commitment hash mismatch'')) (\<lambda>_.
     rbind (enum_res (\<lambda>i txn ms.
         rbind (index_res (bs_Transactions bs) i) (\<lambda>ts.
         rbind (ValidateTransaction c ms txn ts) (\<lambda>_. ApplyTransaction c txn ts ms)))
       (blk_Transactions b) (NewMidState s)) (\<lambda>ms.
     rbind (check_v2_transactions c s (Block_V2Transactions b) ms) (\<lambda>_. Ok ()))))))"

end
