(* ===== verification/MidStateRules.thy ===== *)
theory MidStateRules
  imports MidState
begin

text \<open>
  The coins of a \<^verbatim>\<open>MidState\<close> on the QDAY network, where every recorded element is a coin: the
  well-formedness of the index map, that the coin operations keep it and never panic, and which coins
  a sequence of transfers has created.
\<close>

section \<open>Well-formedness\<close>

text \<open>The index map points into \<^verbatim>\<open>sces\<close>, and no two identifiers share an entry.\<close>

definition wf_ms :: "MidState \<Rightarrow> bool" where
  "wf_ms ms \<longleftrightarrow> (\<forall>eid i. ms_elements ms eid = Some i \<longrightarrow> i < length (ms_sces ms)) \<and>
     inj_on (ms_elements ms) (dom (ms_elements ms))"

lemma wf_NewMidState: "wf_ms (NewMidState s)"
  by (simp add: wf_ms_def NewMidState_def)

lemma wf_less: "wf_ms ms \<Longrightarrow> ms_elements ms eid = Some i \<Longrightarrow> i < length (ms_sces ms)"
  by (simp add: wf_ms_def)

lemma wf_inj: "wf_ms ms \<Longrightarrow> ms_elements ms a = Some i \<Longrightarrow> ms_elements ms b = Some i \<Longrightarrow> a = b"
  unfolding wf_ms_def inj_on_def by (metis domI)

lemma wf_update:
  "wf_ms ms \<Longrightarrow> wf_ms (ms\<lparr>ms_sces := (ms_sces ms)[i := d], ms_spends := sp\<rparr>)"
  "wf_ms ms \<Longrightarrow> wf_ms (ms\<lparr>ms_sces := (ms_sces ms)[i := d]\<rparr>)"
  by (simp_all add: wf_ms_def)

text \<open>The coin that the block has created under an identifier.\<close>

definition created :: "MidState \<Rightarrow> hash256 \<Rightarrow> SiacoinElement option" where
  "created ms eid = (case ms_elements ms eid of
      Some j \<Rightarrow> if sced_Created (ms_sces ms ! j) then Some (sced_SiacoinElement (ms_sces ms ! j)) else None
    | None \<Rightarrow> None)"

lemma created_new [simp]: "created (NewMidState s) eid = None"
  by (simp add: created_def NewMidState_def)

lemma record_coin:
  assumes "wf_ms ms"
  obtains i ms' where "recordSiacoinElement eid ms = Ok (i, ms')" "wf_ms ms'" "ms_elements ms' eid = Some i"
    "ms_base ms' = ms_base ms" "ms_spends ms' = ms_spends ms" "ms_qdayProved ms' = ms_qdayProved ms"
    "created ms' = created ms"
proof (cases "ms_elements ms eid")
  case None
  define ms' where "ms' = ms\<lparr>ms_sces := ms_sces ms @ [zero_sced], ms_elements := (ms_elements ms)(eid \<mapsto> length (ms_sces ms))\<rparr>"
  have bound: "j < length (ms_sces ms)" if "ms_elements ms e = Some j" for e j using wf_less [OF assms that] .
  have "wf_ms ms'" unfolding wf_ms_def
  proof
    show "\<forall>e j. ms_elements ms' e = Some j \<longrightarrow> j < length (ms_sces ms')"
      by (auto simp: ms'_def dest: bound intro: less_SucI)
    show "inj_on (ms_elements ms') (dom (ms_elements ms'))"
    proof (rule inj_onI)
      fix a b assume dom: "a \<in> dom (ms_elements ms')" and eq: "ms_elements ms' a = ms_elements ms' b"
      from dom obtain j where "ms_elements ms' a = Some j" by blast
      moreover have "ms_elements ms e \<noteq> Some (length (ms_sces ms))" for e using bound by blast
      ultimately show "a = b" using eq wf_inj [OF assms, of a j b] by (auto simp: ms'_def split: if_splits)
    qed
  qed
  moreover have "created ms' e = created ms e" for e
    using None bound [of e] by (cases "ms_elements ms e") (auto simp: created_def ms'_def zero_sced_def nth_append)
  ultimately show thesis using that [of "length (ms_sces ms)" ms'] None
    by (simp add: recordSiacoinElement_def ms'_def Let_def fun_eq_iff)
next
  case (Some i)
  then show thesis using that assms wf_less [OF assms Some] by (simp add: recordSiacoinElement_def)
qed

lemma created_spends [simp]: "created (ms\<lparr>ms_spends := sp\<rparr>) = created ms"
  by (simp add: created_def fun_eq_iff split: option.split)

lemma created_update:
  assumes "wf_ms ms" "ms_elements ms eid = Some i"
  shows "created (ms\<lparr>ms_sces := (ms_sces ms)[i := d]\<rparr>) =
    (created ms)(eid := if sced_Created d then Some (sced_SiacoinElement d) else None)"
proof
  fix e
  have "i < length (ms_sces ms)" using wf_less [OF assms] .
  moreover have "ms_elements ms e \<noteq> Some i" if "e \<noteq> eid" using wf_inj [OF assms(1,2)] that by blast
  ultimately show "created (ms\<lparr>ms_sces := (ms_sces ms)[i := d]\<rparr>) e =
    ((created ms)(eid := if sced_Created d then Some (sced_SiacoinElement d) else None)) e"
    using assms(2) by (cases "e = eid") (auto simp: created_def split: option.split)
qed

section \<open>Coin operations\<close>

text \<open>What a sequence of coin operations leaves as it was.\<close>

definition same_frame :: "MidState \<Rightarrow> MidState \<Rightarrow> bool" where
  "same_frame ms ms' \<longleftrightarrow> wf_ms ms' \<and> ms_base ms' = ms_base ms \<and> ms_qdayProved ms' = ms_qdayProved ms"

lemma same_frame_trans: "same_frame a b \<Longrightarrow> same_frame b d \<Longrightarrow> same_frame a d"
  by (simp add: same_frame_def)

lemma same_frame_refl: "wf_ms ms \<Longrightarrow> same_frame ms ms"
  by (simp add: same_frame_def)

lemma spend_coin:
  assumes "wf_ms ms"
  obtains ms' where "spendSiacoinElement sce txid ms = Ok ms'" "same_frame ms ms'"
    "ms_spends ms' = (ms_spends ms)(sce_ID sce \<mapsto> txid)" "\<forall>e. e \<noteq> sce_ID sce \<longrightarrow> created ms' e = created ms e"
proof -
  obtain i ms1 where ms1: "recordSiacoinElement (sce_ID sce) ms = Ok (i, ms1)" "wf_ms ms1" "ms_elements ms1 (sce_ID sce) = Some i"
    "ms_base ms1 = ms_base ms" "ms_spends ms1 = ms_spends ms" "ms_qdayProved ms1 = ms_qdayProved ms" "created ms1 = created ms"
    using record_coin [OF assms] .
  define ms' where "ms' = ms1\<lparr>ms_sces := (ms_sces ms1)[i := (ms_sces ms1 ! i)\<lparr>sced_SiacoinElement := sce, sced_Spent := True\<rparr>],
    ms_spends := (ms_spends ms1)(sce_ID sce \<mapsto> txid)\<rparr>"
  show thesis
  proof (rule that [of ms'])
    show "spendSiacoinElement sce txid ms = Ok ms'" by (simp add: spendSiacoinElement_def ms1(1) ms'_def)
    show "same_frame ms ms'" using ms1 by (simp add: same_frame_def wf_update ms'_def)
    show "ms_spends ms' = (ms_spends ms)(sce_ID sce \<mapsto> txid)" using ms1 by (simp add: ms'_def)
    show "\<forall>e. e \<noteq> sce_ID sce \<longrightarrow> created ms' e = created ms e"
      using created_update [OF ms1(2,3)] ms1(7) by (simp add: ms'_def)
  qed
qed

definition new_coin :: "State \<Rightarrow> SiacoinOutputID \<Rightarrow> SiacoinOutput \<Rightarrow> SiacoinElement" where
  "new_coin s eid sco = \<lparr>sce_ID = eid, sce_StateElement = unassigned, sce_SiacoinOutput = sco,
     sce_MaturityHeight = (if n_Qday (s_Network s) \<noteq> None then childHeight s else 0)\<rparr>"

lemma create_coin:
  assumes "wf_ms ms"
  obtains i ms' where "createSiacoinElement eid sco ms = Ok (i, ms')" "same_frame ms ms'"
    "ms_elements ms' eid = Some i" "ms_spends ms' = ms_spends ms"
    "created ms' = (created ms)(eid \<mapsto> new_coin (ms_base ms) eid sco)"
proof -
  obtain i ms1 where ms1: "recordSiacoinElement eid ms = Ok (i, ms1)" "wf_ms ms1" "ms_elements ms1 eid = Some i"
    "ms_base ms1 = ms_base ms" "ms_spends ms1 = ms_spends ms" "ms_qdayProved ms1 = ms_qdayProved ms" "created ms1 = created ms"
    using record_coin [OF assms] .
  define ms' where "ms' = ms1\<lparr>ms_sces := (ms_sces ms1)[i := (ms_sces ms1 ! i)
    \<lparr>sced_SiacoinElement := new_coin (ms_base ms) eid sco, sced_Created := True\<rparr>]\<rparr>"
  show thesis
  proof (rule that [of i ms'])
    show "createSiacoinElement eid sco ms = Ok (i, ms')"
      by (simp add: createSiacoinElement_def ms1(1,4) ms'_def new_coin_def)
    show "same_frame ms ms'" using ms1 by (simp add: same_frame_def wf_update ms'_def)
    show "ms_elements ms' eid = Some i" "ms_spends ms' = ms_spends ms" using ms1 by (simp_all add: ms'_def)
    show "created ms' = (created ms)(eid \<mapsto> new_coin (ms_base ms) eid sco)"
      by (simp add: ms'_def created_update [OF ms1(2,3)] ms1(7))
  qed
qed

lemma create_immature_coin:
  assumes "wf_ms ms"
  obtains ms' where "createImmatureSiacoinElement eid sco ms = Ok ms'" "same_frame ms ms'"
    "ms_spends ms' = ms_spends ms"
proof -
  obtain i ms1 where ms1: "createSiacoinElement eid sco ms = Ok (i, ms1)" "same_frame ms ms1" "ms_spends ms1 = ms_spends ms"
    using create_coin [OF assms] .
  then show thesis using that
    by (simp add: createImmatureSiacoinElement_def same_frame_def wf_update Let_def)
qed

lemma spend_coins:
  assumes "wf_ms ms"
  shows "\<exists>ms'. fold_res (\<lambda>sci. spendSiacoinElement (v2sci_Parent sci) txid) ins ms = Ok ms' \<and> same_frame ms ms' \<and>
    dom (ms_spends ms') = dom (ms_spends ms) \<union> (\<lambda>i. sce_ID (v2sci_Parent i)) ` set ins \<and>
    (\<forall>e. e \<notin> (\<lambda>i. sce_ID (v2sci_Parent i)) ` set ins \<longrightarrow> created ms' e = created ms e)"
  using assms
proof (induction ins arbitrary: ms)
  case Nil
  then show ?case by (simp add: same_frame_refl)
next
  case (Cons i ins)
  obtain ms1 where ms1: "spendSiacoinElement (v2sci_Parent i) txid ms = Ok ms1" "same_frame ms ms1"
      "ms_spends ms1 = (ms_spends ms)(sce_ID (v2sci_Parent i) \<mapsto> txid)"
      "\<forall>e. e \<noteq> sce_ID (v2sci_Parent i) \<longrightarrow> created ms1 e = created ms e"
    using spend_coin [OF Cons.prems] .
  from Cons.IH [of ms1] ms1(2) obtain ms2
    where "fold_res (\<lambda>sci. spendSiacoinElement (v2sci_Parent sci) txid) ins ms1 = Ok ms2" "same_frame ms1 ms2"
      "dom (ms_spends ms2) = dom (ms_spends ms1) \<union> (\<lambda>i. sce_ID (v2sci_Parent i)) ` set ins"
      "\<forall>e. e \<notin> (\<lambda>i. sce_ID (v2sci_Parent i)) ` set ins \<longrightarrow> created ms2 e = created ms1 e"
    by (auto simp: same_frame_def)
  then show ?case using ms1 same_frame_trans [OF ms1(2)] by auto
qed

lemma create_coins_from:
  assumes "wf_ms ms"
  shows "\<exists>ms'. fold_res (\<lambda>(i, sco) ms. rbind (createSiacoinElement (eid i) sco ms) (\<lambda>(_, ms). Ok ms))
      (List.enumerate k scos) ms = Ok ms' \<and> same_frame ms ms' \<and> ms_spends ms' = ms_spends ms \<and>
    (\<forall>e sce. created ms' e = Some sce \<longrightarrow> created ms e = Some sce \<or>
       (\<exists>i < length scos. e = eid (k + i) \<and> sce = new_coin (ms_base ms) e (scos ! i)))"
  using assms
proof (induction scos arbitrary: ms k)
  case Nil
  then show ?case by (simp add: same_frame_refl)
next
  case (Cons sco scos)
  obtain i ms1 where ms1: "createSiacoinElement (eid k) sco ms = Ok (i, ms1)" "same_frame ms ms1"
      "ms_spends ms1 = ms_spends ms" "created ms1 = (created ms)(eid k \<mapsto> new_coin (ms_base ms) (eid k) sco)"
    using create_coin [OF Cons.prems] .
  obtain ms2 where ms2: "fold_res (\<lambda>(i, sco) ms. rbind (createSiacoinElement (eid i) sco ms) (\<lambda>(_, ms). Ok ms))
      (List.enumerate (Suc k) scos) ms1 = Ok ms2" "same_frame ms1 ms2" "ms_spends ms2 = ms_spends ms1"
      "\<forall>e sce. created ms2 e = Some sce \<longrightarrow> created ms1 e = Some sce \<or>
         (\<exists>i < length scos. e = eid (Suc k + i) \<and> sce = new_coin (ms_base ms1) e (scos ! i))"
    using Cons.IH [of ms1 "Suc k"] ms1(2) by (auto simp: same_frame_def)
  have base: "ms_base ms1 = ms_base ms" using ms1(2) by (simp add: same_frame_def)
  have "created ms e = Some sce \<or> (\<exists>i < length (sco # scos). e = eid (k + i) \<and> sce = new_coin (ms_base ms) e ((sco # scos) ! i))"
    if made: "created ms2 e = Some sce" for e sce
  proof (cases "created ms1 e = Some sce")
    case True
    then show ?thesis using ms1(4) by (auto split: if_splits intro!: exI [of _ 0])
  next
    case False
    then obtain j where "j < length scos" "e = eid (Suc k + j)" "sce = new_coin (ms_base ms1) e (scos ! j)"
      using ms2(4) made by blast
    then show ?thesis using base by (intro disjI2 exI [of _ "Suc j"]) simp
  qed
  then show ?case using ms1(1,3) ms2(1,3) same_frame_trans [OF ms1(2) ms2(2)] by auto
qed

lemma create_coins:
  assumes "wf_ms ms"
  shows "\<exists>ms'. create_siacoins eid scos ms = Ok ms' \<and> same_frame ms ms' \<and> ms_spends ms' = ms_spends ms \<and>
    (\<forall>e sce. created ms' e = Some sce \<longrightarrow> created ms e = Some sce \<or>
       (\<exists>i < length scos. e = eid i \<and> sce = new_coin (ms_base ms) e (scos ! i)))"
  using create_coins_from [OF assms, of eid 0 scos] by (simp add: create_siacoins_def enum_res_def)

lemma create_immature_from:
  assumes "wf_ms ms"
  shows "\<exists>ms'. fold_res (\<lambda>(i, sco). createImmatureSiacoinElement (eid i) sco) (List.enumerate k scos) ms = Ok ms' \<and>
    same_frame ms ms' \<and> ms_spends ms' = ms_spends ms"
  using assms
proof (induction scos arbitrary: ms k)
  case Nil
  then show ?case by (simp add: same_frame_refl)
next
  case (Cons sco scos)
  obtain ms1 where ms1: "createImmatureSiacoinElement (eid k) sco ms = Ok ms1" "same_frame ms ms1"
      "ms_spends ms1 = ms_spends ms"
    using create_immature_coin [OF Cons.prems] .
  then show ?case using Cons.IH [of ms1 "Suc k"] same_frame_trans [OF ms1(2)] by (fastforce simp: same_frame_def)
qed

end
