(* ===== verification/BlockRules.thy ===== *)
theory BlockRules
  imports Validation MidStateRules
begin

text \<open>
  What the rules for transactions add up to for a whole block of the QDAY network: no coin is spent
  twice, value is conserved up to decay and fees, every spend carries both signatures, the block pays
  exactly the reward and the fees, and the decay is activated once, by a verified canary proof.
\<close>

section \<open>Transfers\<close>

definition input_ids :: "V2Transaction \<Rightarrow> hash256 list" where
  "input_ids txn = map (\<lambda>i. sce_ID (v2sci_Parent i)) (v2_SiacoinInputs txn)"

definition is_proof :: "V2Transaction \<Rightarrow> bool" where
  "is_proof txn \<longleftrightarrow> (\<exists>e. ParseQdayEnvelope (v2_ArbitraryData txn) = Ok e \<and> env_Kind e = QdayCanaryProof)"

lemma supported_fields:
  assumes "\<not> qdayUnsupported txn"
  shows "v2_SiafundInputs txn = []" "v2_SiafundOutputs txn = []" "v2_FileContracts txn = []"
    "v2_FileContractRevisions txn = []" "v2_FileContractResolutions txn = []" "v2_Attestations txn = []"
    "v2_NewFoundationAddress txn = None"
  using assms by (auto simp: qdayUnsupported_def)

text \<open>A coin that is an output of one of the transactions.\<close>

definition created_in :: "crypto \<Rightarrow> State \<Rightarrow> V2Transaction list \<Rightarrow> hash256 \<Rightarrow> SiacoinElement \<Rightarrow> bool" where
  "created_in c s txns eid sce \<longleftrightarrow> (\<exists>txn \<in> set txns. \<exists>i < length (v2_SiacoinOutputs txn).
     eid = V2Transaction_SiacoinOutputID c (V2Transaction_ID c txn) i \<and> sce = new_coin s eid (v2_SiacoinOutputs txn ! i))"

text \<open>The unspent coins that a block has created so far are outputs of its transactions.\<close>

definition fresh_coins :: "crypto \<Rightarrow> V2Transaction list \<Rightarrow> MidState \<Rightarrow> bool" where
  "fresh_coins c txns ms \<longleftrightarrow> (\<forall>eid sce. created ms eid = Some sce \<longrightarrow> eid \<notin> dom (ms_spends ms) \<longrightarrow>
     created_in c (ms_base ms) txns eid sce)"

lemma fresh_NewMidState: "fresh_coins c txns (NewMidState s)"
  by (simp add: fresh_coins_def)

lemma apply_transfer:
  assumes "wf_ms ms" "\<not> qdayUnsupported txn" "n_Qday (s_Network (ms_base ms)) \<noteq> None"
  obtains ms' where "ApplyV2Transaction c txn ms = Ok ms'" "wf_ms ms'" "ms_base ms' = ms_base ms"
    "dom (ms_spends ms') = dom (ms_spends ms) \<union> set (input_ids txn)"
    "ms_qdayProved ms' \<longleftrightarrow> ms_qdayProved ms \<or> is_proof txn"
    "\<forall>txns. fresh_coins c txns ms \<longrightarrow> fresh_coins c (txns @ [txn]) ms'"
proof -
  define ms0 where "ms0 = (if is_proof txn then ms\<lparr>ms_qdayProved := True\<rparr> else ms)"
  have start: "(case ParseQdayEnvelope (v2_ArbitraryData txn) of
      Ok e \<Rightarrow> if env_Kind e = QdayCanaryProof then ms\<lparr>ms_qdayProved := True\<rparr> else ms | _ \<Rightarrow> ms) = ms0"
    by (auto simp: ms0_def is_proof_def split: res.split)
  have ms0: "wf_ms ms0" "ms_base ms0 = ms_base ms" "ms_spends ms0 = ms_spends ms"
      "ms_qdayProved ms0 \<longleftrightarrow> ms_qdayProved ms \<or> is_proof txn" "created ms0 = created ms"
    using assms(1) by (auto simp: ms0_def wf_ms_def created_def fun_eq_iff split: option.split)
  let ?txid = "V2Transaction_ID c txn"
  obtain ms1 where ms1: "fold_res (\<lambda>sci. spendSiacoinElement (v2sci_Parent sci) ?txid) (v2_SiacoinInputs txn) ms0 = Ok ms1"
      "same_frame ms0 ms1" "dom (ms_spends ms1) = dom (ms_spends ms) \<union> set (input_ids txn)"
      "\<forall>e. e \<notin> set (input_ids txn) \<longrightarrow> created ms1 e = created ms e"
    using spend_coins [OF ms0(1), of ?txid "v2_SiacoinInputs txn"] unfolding ms0(3,5) input_ids_def set_map by blast
  obtain ms2 where ms2: "create_siacoins (V2Transaction_SiacoinOutputID c ?txid) (v2_SiacoinOutputs txn) ms1 = Ok ms2"
      "same_frame ms1 ms2" "ms_spends ms2 = ms_spends ms1"
      "\<forall>e sce. created ms2 e = Some sce \<longrightarrow> created ms1 e = Some sce \<or> (\<exists>i < length (v2_SiacoinOutputs txn).
         e = V2Transaction_SiacoinOutputID c ?txid i \<and> sce = new_coin (ms_base ms1) e (v2_SiacoinOutputs txn ! i))"
    using create_coins [of ms1 "V2Transaction_SiacoinOutputID c ?txid" "v2_SiacoinOutputs txn"] ms1(2)
    unfolding same_frame_def by blast
  have "ApplyV2Transaction c txn ms = Ok ms2"
    using assms(3) ms1(1) ms2(1) unfolding ApplyV2Transaction_def start
    by (simp add: Let_def supported_fields [OF assms(2)] enum_res_def start)
  moreover have "fresh_coins c (txns @ [txn]) ms2" if fresh: "fresh_coins c txns ms" for txns
    unfolding fresh_coins_def
  proof (intro allI impI)
    fix e sce assume made: "created ms2 e = Some sce" and unspent: "e \<notin> dom (ms_spends ms2)"
    have base: "ms_base ms1 = ms_base ms" "ms_base ms2 = ms_base ms" using ms0 ms1(2) ms2(2) by (simp_all add: same_frame_def)
    have "created ms e = Some sce \<or> created_in c (ms_base ms) [txn] e sce"
    proof (cases "created ms1 e = Some sce")
      case True
      then show ?thesis using ms1(3,4) unspent ms2(3) by simp
    next
      case False
      then show ?thesis using ms2(4) made base(1) by (auto simp: created_in_def)
    qed
    then show "created_in c (ms_base ms2) (txns @ [txn]) e sce"
      using fresh unspent ms1(3) ms2(3) base(2) by (auto simp: fresh_coins_def created_in_def)
  qed
  ultimately show thesis using that ms1 ms2 ms0 by (simp add: same_frame_def)
qed

section \<open>Accepted transfers\<close>

lemma check_siacoin_inputs:
  assumes "fold_res (check_siacoin_input c ms h) ins spent = Ok spent'"
  shows "distinct (map (\<lambda>i. sce_ID (v2sci_Parent i)) ins) \<and>
    (\<lambda>i. sce_ID (v2sci_Parent i)) ` set ins \<inter> (spent \<union> dom (ms_spends ms)) = {} \<and>
    (\<forall>i \<in> set ins. sce_MaturityHeight (v2sci_Parent i) \<le> childHeight (ms_base ms) \<and>
       (if se_LeafIndex (sce_StateElement (v2sci_Parent i)) = UnassignedLeafIndex
        then validateEphemeralSiacoinElement ms i = Ok ()
        else containsUnspentSiacoinElement c (s_Elements (ms_base ms)) (v2sci_Parent i)) \<and>
       validateV2SpendPolicy c ms h (v2sci_SatisfiedPolicy i) (sco_Address (sce_SiacoinOutput (v2sci_Parent i))) = Ok ())"
  using assms
proof (induction ins arbitrary: spent)
  case (Cons i ins)
  obtain sp where i: "check_siacoin_input c ms h i spent = Ok sp"
    and rest: "fold_res (check_siacoin_input c ms h) ins sp = Ok spent'"
    using Cons.prems by (auto simp: res_simps)
  note c = i [unfolded check_siacoin_input_def Let_def isSpent_def]
  have sp: "sp = insert (sce_ID (v2sci_Parent i)) spent"
    and fresh: "sce_ID (v2sci_Parent i) \<notin> spent \<union> dom (ms_spends ms)"
    and ok: "sce_MaturityHeight (v2sci_Parent i) \<le> childHeight (ms_base ms)"
      "if se_LeafIndex (sce_StateElement (v2sci_Parent i)) = UnassignedLeafIndex
        then validateEphemeralSiacoinElement ms i = Ok ()
        else containsUnspentSiacoinElement c (s_Elements (ms_base ms)) (v2sci_Parent i)"
      "validateV2SpendPolicy c ms h (v2sci_SatisfiedPolicy i) (sco_Address (sce_SiacoinOutput (v2sci_Parent i))) = Ok ()"
    using c by (auto simp: res_simps split: if_splits)
  show ?case using Cons.IH [OF rest] fresh ok by (auto simp: sp)
qed simp

text \<open>The value that an input is worth at a height, zero if its evaluation fails.\<close>

definition coin_value :: "State \<Rightarrow> u64 \<Rightarrow> V2SiacoinInput \<Rightarrow> nat" where
  "coin_value s height i = (case QdayValue s (v2sci_Parent i) height of Ok v \<Rightarrow> cval v | _ \<Rightarrow> 0)"

definition outputs_value :: "V2Transaction \<Rightarrow> nat" where
  "outputs_value txn = sum_list (map (\<lambda>sco. cval (sco_Value sco)) (v2_SiacoinOutputs txn))"

lemma input_sum_from:
  "fold_res (\<lambda>sci tot. rbind (QdayValue s (v2sci_Parent sci) h) (\<lambda>v. Currency_Add tot v)) ins z = Ok t \<Longrightarrow>
    cval t = cval z + sum_list (map (coin_value s h) ins)"
proof (induction ins arbitrary: z)
  case (Cons i ins)
  then obtain v z' where v: "QdayValue s (v2sci_Parent i) h = Ok v" "Currency_Add z v = Ok z'"
    and rest: "fold_res (\<lambda>sci tot. rbind (QdayValue s (v2sci_Parent sci) h) (\<lambda>v. Currency_Add tot v)) ins z' = Ok t"
    by (auto simp: res_simps)
  have "cval z' = cval z + cval v" using v(2) by (simp add: cur.add_iff)
  moreover have "coin_value s h i = cval v" using v(1) by (simp add: coin_value_def)
  ultimately show ?case using Cons.IH [OF rest] by simp
qed simp

lemma output_sum_from:
  "fold_res (\<lambda>out tot. if Currency_IsZero (sco_Value out) then Err msg else Currency_Add tot (sco_Value out)) outs z = Ok t \<Longrightarrow>
    cval t = cval z + sum_list (map (\<lambda>sco. cval (sco_Value sco)) outs) \<and> (\<forall>sco \<in> set outs. 0 < cval (sco_Value sco))"
proof (induction outs arbitrary: z)
  case (Cons out outs)
  then obtain z' where z': "Currency_Add z (sco_Value out) = Ok z'" "\<not> Currency_IsZero (sco_Value out)"
    and rest: "fold_res (\<lambda>out tot. if Currency_IsZero (sco_Value out) then Err msg else Currency_Add tot (sco_Value out)) outs z' = Ok t"
    by (auto simp: res_simps split: if_splits)
  have "cval z' = cval z + cval (sco_Value out)" using z'(1) by (simp add: cur.add_iff)
  then show ?case using Cons.IH [OF rest] z'(2) by (auto simp: IsZero_iff)
qed simp

definition hybrid_input :: "crypto \<Rightarrow> hash256 \<Rightarrow> V2SiacoinInput \<Rightarrow> bool" where
  "hybrid_input c h i \<longleftrightarrow>
     (let w = v2sci_SatisfiedPolicy i in
      Policy_Address c (sat_Policy w) = sco_Address (sce_SiacoinOutput (v2sci_Parent i)) \<and>
      (\<exists>k. (sat_Policy w = QdayKeys_Policy k \<or> (\<exists>lock. swap_spend (sat_Policy w) k lock)) \<and>
         hybrid_signed c h k (sat_Signatures w) (sat_Preimages w)))"

text \<open>
  A mature coin that is unspent in the accumulator of the parent state, or exactly an output of one of
  the earlier transactions of the block.
\<close>

definition spendable_input :: "crypto \<Rightarrow> State \<Rightarrow> V2Transaction list \<Rightarrow> V2SiacoinInput \<Rightarrow> bool" where
  "spendable_input c s txns i \<longleftrightarrow>
     (let parent = v2sci_Parent i in
      sce_MaturityHeight parent \<le> childHeight s \<and>
      (if se_LeafIndex (sce_StateElement parent) = UnassignedLeafIndex
       then \<exists>sce. created_in c s txns (sce_ID parent) sce \<and> sce_SiacoinOutput parent = sce_SiacoinOutput sce \<and>
              sce_MaturityHeight parent = sce_MaturityHeight sce
       else containsUnspentSiacoinElement c (s_Elements s) parent))"

lemma ephemeral_created:
  assumes "validateEphemeralSiacoinElement ms i = Ok ()"
    "n_V2_EphemeralOutputHeight (s_Network (ms_base ms)) \<le> childHeight (ms_base ms)"
  obtains sce where "created ms (sce_ID (v2sci_Parent i)) = Some sce"
    "sce_SiacoinOutput (v2sci_Parent i) = sce_SiacoinOutput sce" "sce_MaturityHeight (v2sci_Parent i) = sce_MaturityHeight sce"
  using assms that
  by (auto simp: validateEphemeralSiacoinElement_def created_def Let_def split: option.splits if_splits)

lemma policy_hybrid:
  assumes "IsQdayNativePolicy p \<or> IsQdaySwapSpendPolicy p" "Policy_Verify c p height mt h sigs pre = Ok ()"
  shows "\<exists>k. (p = QdayKeys_Policy k \<or> (\<exists>lock. swap_spend p k lock)) \<and> hybrid_signed c h k sigs pre"
  using assms Policy_Verify_native Policy_Verify_claim Policy_Verify_refund
  unfolding IsQdayNativePolicy_iff IsQdaySwapSpendPolicy_iff by metis

lemma accepted_transfer:
  assumes ok: "ValidateV2Transaction c ms txn = Ok ()" and p: "n_Qday (s_Network (ms_base ms)) = Some p"
    and height: "n_V2_EphemeralOutputHeight (s_Network (ms_base ms)) \<le> childHeight (ms_base ms)"
    and fresh: "fresh_coins c txns ms"
  shows "\<not> qdayUnsupported txn" "distinct (input_ids txn)" "set (input_ids txn) \<inter> dom (ms_spends ms) = {}"
    "\<forall>i \<in> set (v2_SiacoinInputs txn). hybrid_input c (InputSigHash c (ms_base ms) txn) i \<and>
       spendable_input c (ms_base ms) txns i"
    "outputs_value txn + cval (v2_MinerFee txn)
       \<le> sum_list (map (coin_value (ms_base ms) (childHeight (ms_base ms))) (v2_SiacoinInputs txn))"
    "is_proof txn \<Longrightarrow> s_QdayHeight (ms_base ms) = 0 \<and> \<not> ms_qdayProved ms \<and> cval (qd_ProofFee p) \<le> cval (v2_MinerFee txn) \<and>
       (\<exists>e. ParseQdayEnvelope (v2_ArbitraryData txn) = Ok e \<and> VerifyQdayProof c (qd_Canary p) (env_Witness e))"
proof -
  have q: "validateQdayTransaction c ms txn = Ok ()" and siacoins: "validateV2Siacoins c ms txn = Ok ()"
    using ok p by (auto simp: ValidateV2Transaction_def res_simps split: if_splits)
  from q obtain e where e: "ParseQdayEnvelope (v2_ArbitraryData txn) = Ok e"
    by (auto simp: validateQdayTransaction_def res_simps)
  note q' = q [unfolded validateQdayTransaction_def e rbind.simps Let_def p option.case]
  show unsup: "\<not> qdayUnsupported txn" using q' by (auto split: if_splits)
  have policies: "\<forall>i \<in> set (v2_SiacoinInputs txn). IsQdayNativePolicy (sat_Policy (v2sci_SatisfiedPolicy i)) \<or>
      IsQdaySwapSpendPolicy (sat_Policy (v2sci_SatisfiedPolicy i))"
    using q' by (auto simp: list_ex_iff split: if_splits)
  show "s_QdayHeight (ms_base ms) = 0 \<and> \<not> ms_qdayProved ms \<and> cval (qd_ProofFee p) \<le> cval (v2_MinerFee txn) \<and>
      (\<exists>e. ParseQdayEnvelope (v2_ArbitraryData txn) = Ok e \<and> VerifyQdayProof c (qd_Canary p) (env_Witness e))"
    if "is_proof txn"
    using that q' e by (auto simp: is_proof_def Cmp_simps kind_defs split: if_splits)
  let ?h = "InputSigHash c (ms_base ms) txn"
  obtain sp t u v where run: "fold_res (check_siacoin_input c ms ?h) (v2_SiacoinInputs txn) {} = Ok sp"
      "v2_input_sum ms txn = Ok t" "v2_output_sum txn = Ok u" "Currency_Add u (v2_MinerFee txn) = Ok v"
    and cmp: "t = v \<or> \<not> Currency_Cmp t v < 0"
    using siacoins p by (auto simp: validateV2Siacoins_def Let_def supported_fields [OF unsup] res_simps)
  note ins = check_siacoin_inputs [OF run(1), THEN conjunct1] check_siacoin_inputs [OF run(1), THEN conjunct2, THEN conjunct1]
    check_siacoin_inputs [OF run(1), THEN conjunct2, THEN conjunct2]
  show "distinct (input_ids txn)" "set (input_ids txn) \<inter> dom (ms_spends ms) = {}"
    using ins(1,2) by (auto simp: input_ids_def)
  have "\<forall>i \<in> set (v2_SiacoinInputs txn). hybrid_input c ?h i"
    using ins(3) policies policy_hybrid
    by (fastforce simp: hybrid_input_def Let_def validateV2SpendPolicy_def res_simps split: if_splits)
  moreover have "spendable_input c (ms_base ms) txns i" if i: "i \<in> set (v2_SiacoinInputs txn)" for i
  proof (cases "se_LeafIndex (sce_StateElement (v2sci_Parent i)) = UnassignedLeafIndex")
    case True
    then have "validateEphemeralSiacoinElement ms i = Ok ()" using ins(3) i by auto
    from ephemeral_created [OF this height] obtain sce where sce: "created ms (sce_ID (v2sci_Parent i)) = Some sce"
      "sce_SiacoinOutput (v2sci_Parent i) = sce_SiacoinOutput sce" "sce_MaturityHeight (v2sci_Parent i) = sce_MaturityHeight sce" .
    moreover have "sce_ID (v2sci_Parent i) \<notin> dom (ms_spends ms)" using ins(2) i by auto
    ultimately show ?thesis using fresh ins(3) i True unfolding spendable_input_def fresh_coins_def by auto
  next
    case False
    then show ?thesis using ins(3) i by (auto simp: spendable_input_def)
  qed
  ultimately show "\<forall>i \<in> set (v2_SiacoinInputs txn). hybrid_input c ?h i \<and> spendable_input c (ms_base ms) txns i" by blast
  have "cval t = sum_list (map (coin_value (ms_base ms) (childHeight (ms_base ms))) (v2_SiacoinInputs txn))"
    using input_sum_from [OF run(2) [unfolded v2_input_sum_def]] by simp
  moreover have "cval v = outputs_value txn + cval (v2_MinerFee txn)"
    using output_sum_from [OF run(3) [unfolded v2_output_sum_def]] run(4) by (simp add: cur.add_iff outputs_value_def)
  moreover have "cval v \<le> cval t" using cmp by (auto simp: Cmp_simps)
  ultimately show "outputs_value txn + cval (v2_MinerFee txn)
      \<le> sum_list (map (coin_value (ms_base ms) (childHeight (ms_base ms))) (v2_SiacoinInputs txn))" by simp
qed

section \<open>Accepted blocks\<close>

text \<open>What acceptance means for one transaction of a block whose parent state is \<open>s\<close>, after others.\<close>

definition transfer_ok :: "crypto \<Rightarrow> State \<Rightarrow> QdayParams \<Rightarrow> V2Transaction list \<Rightarrow> V2Transaction \<Rightarrow> bool" where
  "transfer_ok c s p txns txn \<longleftrightarrow> \<not> qdayUnsupported txn \<and>
     (\<forall>i \<in> set (v2_SiacoinInputs txn). hybrid_input c (InputSigHash c s txn) i \<and> spendable_input c s txns i) \<and>
     outputs_value txn + cval (v2_MinerFee txn) \<le> sum_list (map (coin_value s (childHeight s)) (v2_SiacoinInputs txn)) \<and>
     (is_proof txn \<longrightarrow> s_QdayHeight s = 0 \<and> cval (qd_ProofFee p) \<le> cval (v2_MinerFee txn) \<and>
        (\<exists>e. ParseQdayEnvelope (v2_ArbitraryData txn) = Ok e \<and> VerifyQdayProof c (qd_Canary p) (env_Witness e)))"

definition marker_ok :: "V2Transaction \<Rightarrow> bool" where
  "marker_ok txn \<longleftrightarrow> \<not> qdayUnsupported txn \<and> v2_SiacoinInputs txn = [] \<and> v2_SiacoinOutputs txn = [] \<and>
     cval (v2_MinerFee txn) = 0 \<and> \<not> is_proof txn"

definition check_step :: "crypto \<Rightarrow> State \<Rightarrow> nat \<Rightarrow> nat \<Rightarrow> V2Transaction \<Rightarrow> MidState \<Rightarrow> MidState res" where
  "check_step c s n i txn ms =
     (if is_marker s n i then ApplyV2Transaction c txn ms
      else rbind (ValidateV2Transaction c ms txn) (\<lambda>_. ApplyV2Transaction c txn ms))"

lemma check_step_Ok:
  assumes "check_step c s n i txn ms = Ok ms'" "wf_ms ms" "ms_base ms = s" "n_Qday (s_Network s) = Some p"
    "n_V2_EphemeralOutputHeight (s_Network s) \<le> childHeight s" "fresh_coins c txns ms"
    and "is_marker s n i \<Longrightarrow> marker_ok txn"
  shows "wf_ms ms'" "ms_base ms' = s" "dom (ms_spends ms') = dom (ms_spends ms) \<union> set (input_ids txn)"
    "ms_qdayProved ms' \<longleftrightarrow> ms_qdayProved ms \<or> is_proof txn" "transfer_ok c s p txns txn"
    "fresh_coins c (txns @ [txn]) ms'" "distinct (input_ids txn)" "set (input_ids txn) \<inter> dom (ms_spends ms) = {}" "is_proof txn \<Longrightarrow> \<not> ms_qdayProved ms"
proof -
  have run: "ApplyV2Transaction c txn ms = Ok ms'"
    and val: "\<not> is_marker s n i \<Longrightarrow> ValidateV2Transaction c ms txn = Ok ()"
    using assms(1) by (auto simp: check_step_def res_simps split: if_splits)
  have base: "n_Qday (s_Network (ms_base ms)) = Some p" using assms(3,4) by simp
  have height: "n_V2_EphemeralOutputHeight (s_Network (ms_base ms)) \<le> childHeight (ms_base ms)" using assms(3,5) by simp
  note acc = accepted_transfer [OF val base height assms(6)]
  have marker: "\<not> qdayUnsupported txn \<and> v2_SiacoinInputs txn = [] \<and> v2_SiacoinOutputs txn = [] \<and>
      cval (v2_MinerFee txn) = 0 \<and> \<not> is_proof txn" if "is_marker s n i"
    using assms(7) [OF that] by (simp add: marker_ok_def)
  have unsup: "\<not> qdayUnsupported txn" using marker acc(1) by blast
  obtain ms2 where ms2: "ApplyV2Transaction c txn ms = Ok ms2" "wf_ms ms2" "ms_base ms2 = ms_base ms"
      "dom (ms_spends ms2) = dom (ms_spends ms) \<union> set (input_ids txn)"
      "ms_qdayProved ms2 \<longleftrightarrow> ms_qdayProved ms \<or> is_proof txn"
      "\<forall>txns. fresh_coins c txns ms \<longrightarrow> fresh_coins c (txns @ [txn]) ms2"
    using apply_transfer [OF assms(2) unsup] base by auto
  have "ms2 = ms'" using ms2(1) run by simp
  then show "wf_ms ms'" "ms_base ms' = s" "dom (ms_spends ms') = dom (ms_spends ms) \<union> set (input_ids txn)"
    "ms_qdayProved ms' \<longleftrightarrow> ms_qdayProved ms \<or> is_proof txn" "fresh_coins c (txns @ [txn]) ms'"
    using ms2 assms(3,6) by auto
  show "transfer_ok c s p txns txn"
  proof (cases "is_marker s n i")
    case True
    then show ?thesis using marker by (simp add: transfer_ok_def outputs_value_def)
  next
    case False
    then show ?thesis using acc(1,4,5,6) assms(3) by (auto simp: transfer_ok_def)
  qed
  show "distinct (input_ids txn)" "set (input_ids txn) \<inter> dom (ms_spends ms) = {}"
    using marker acc(2,3) by (cases "is_marker s n i"; force simp: input_ids_def)+
  show "is_proof txn \<Longrightarrow> \<not> ms_qdayProved ms" using marker acc(6) by blast
qed

lemma check_steps:
  assumes "fold_res (\<lambda>(i, txn). check_step c s n i txn) (List.enumerate (length before) txns) ms = Ok ms'"
    "wf_ms ms" "ms_base ms = s" "n_Qday (s_Network s) = Some p"
    "n_V2_EphemeralOutputHeight (s_Network s) \<le> childHeight s" "fresh_coins c before ms"
    and "\<forall>i < length txns. is_marker s n (length before + i) \<longrightarrow> marker_ok (txns ! i)"
  shows "(\<forall>i < length txns. transfer_ok c s p (before @ take i txns) (txns ! i)) \<and>
    distinct (concat (map input_ids txns)) \<and> set (concat (map input_ids txns)) \<inter> dom (ms_spends ms) = {} \<and>
    length (filter is_proof txns) \<le> (if ms_qdayProved ms then 0 else 1) \<and>
    wf_ms ms' \<and> ms_base ms' = s \<and> (ms_qdayProved ms' \<longleftrightarrow> ms_qdayProved ms \<or> (\<exists>txn \<in> set txns. is_proof txn))"
  using assms
proof (induction txns arbitrary: before ms)
  case (Cons txn txns)
  obtain ms1 where ms1: "check_step c s n (length before) txn ms = Ok ms1"
    and rest: "fold_res (\<lambda>(i, txn). check_step c s n i txn) (List.enumerate (length (before @ [txn])) txns) ms1 = Ok ms'"
    using Cons.prems(1) by (auto simp: res_simps)
  have "is_marker s n (length before) \<Longrightarrow> marker_ok txn" using Cons.prems(7) by fastforce
  note st = check_step_Ok [OF ms1 Cons.prems(2-6) this]
  have "\<forall>i < length txns. is_marker s n (length (before @ [txn]) + i) \<longrightarrow> marker_ok (txns ! i)"
    using Cons.prems(7) by fastforce
  note IH = Cons.IH [OF rest st(1,2) Cons.prems(4,5) st(6) this]
  have "transfer_ok c s p (before @ take i (txn # txns)) ((txn # txns) ! i)" if "i < length (txn # txns)" for i
    using that IH st(5) by (cases i) simp_all
  then show ?case using IH st(3,4,7-9) by (auto split: if_splits)
qed auto

text \<open>The payout of a block without version 1 transactions.\<close>

lemma add_fee_Ok: "add_fee msg fee t = Ok t' \<longleftrightarrow> cval t' = cval t + cval fee"
proof -
  obtain r o1 where r: "Currency_AddWithOverflow t fee = (r, o1)" by fastforce
  show ?thesis
    using AddWithOverflow_cval [OF r] cval_less [of t'] cval_inject [of r t'] by (auto simp: add_fee_def r)
qed

lemma fold_fees:
  "fold_res (\<lambda>txn. add_fee msg (f txn)) txns t = Ok t' \<Longrightarrow> cval t' = cval t + sum_list (map (\<lambda>x. cval (f x)) txns)"
  by (induction txns arbitrary: t) (auto simp: res_simps add_fee_Ok)

lemma payout_Ok:
  assumes "validateMinerPayouts s b = Ok ()" "blk_V2 b = Some v2" "blk_Transactions b = []"
    "n_Qday (s_Network s) = Some p"
  obtains mp reward where "blk_MinerPayouts b = [mp]" "BlockReward s = Ok reward"
    "cval (sco_Value mp) = cval reward + sum_list (map (\<lambda>txn. cval (v2_MinerFee txn)) (bd_Transactions v2))"
proof -
  obtain reward e t where run: "BlockReward s = Ok reward"
      "fold_res (\<lambda>txn. add_fee ''v2 transaction fees overflow'' (v2_MinerFee txn)) (bd_Transactions v2) reward = Ok e"
      "length (blk_MinerPayouts b) = 1"
      "fold_res (\<lambda>mp. add_fee ''miner payouts overflow'' (sco_Value mp)) (blk_MinerPayouts b) ZeroCurrency = Ok t"
      "t = e"
    using assms by (auto simp: validateMinerPayouts_def res_simps split: if_splits)
  obtain mp where mp: "blk_MinerPayouts b = [mp]" using run(3) by (auto simp: length_Suc_conv)
  show thesis using that [OF mp run(1)] fold_fees [OF run(2)] fold_fees [OF run(4)] run(5) mp by simp
qed

lemma markers_Ok:
  assumes "validateQdayBlockMarkers c s b = Ok ()"
  obtains v2 where "blk_V2 b = Some v2" "bd_Transactions v2 \<noteq> []" "blk_Transactions b = []"
    "marker_ok (hd (bd_Transactions v2))"
    "QdayV1Active s (childHeight s) \<Longrightarrow> marker_ok (last (bd_Transactions v2))"
    "\<exists>e k. ParseQdayEnvelope (v2_ArbitraryData (hd (bd_Transactions v2))) = Ok e \<and> env_Keys e = [k] \<and>
       QdayKeys_Address c k = sco_Address (hd (blk_MinerPayouts b))"
proof -
  obtain v2 where v2: "blk_V2 b = Some v2" using assms by (auto simp: validateQdayBlockMarkers_def split: option.splits)
  note run = assms [unfolded validateQdayBlockMarkers_def v2 option.case Let_def]
  have shape: "bd_Transactions v2 \<noteq> []" "blk_Transactions b = []" using run by (auto split: if_splits)
  obtain e where e: "ParseQdayEnvelope (v2_ArbitraryData (hd (bd_Transactions v2))) = Ok e"
    using run by (auto split: if_splits res.splits)
  have first: "env_Kind e = QdayCoinbase" "length (env_Keys e) = 1"
      "QdayKeys_Address c (hd (env_Keys e)) = sco_Address (hd (blk_MinerPayouts b))"
      "v2_SiacoinInputs (hd (bd_Transactions v2)) = []" "v2_SiacoinOutputs (hd (bd_Transactions v2)) = []"
      "Currency_IsZero (v2_MinerFee (hd (bd_Transactions v2)))" "\<not> qdayUnsupported (hd (bd_Transactions v2))"
    using run e by (auto split: if_splits)
  have "marker_ok (last (bd_Transactions v2))" if v1: "QdayV1Active s (childHeight s)"
  proof -
    obtain we where we: "ParseQdayEnvelope (v2_ArbitraryData (last (bd_Transactions v2))) = Ok we"
      using run v1 by (auto split: if_splits res.splits)
    then show ?thesis using run v1
      by (auto simp: marker_ok_def is_proof_def kind_defs IsZero_iff split: if_splits)
  qed
  moreover have "marker_ok (hd (bd_Transactions v2))"
    using first e by (auto simp: marker_ok_def is_proof_def kind_defs IsZero_iff)
  moreover obtain k where "env_Keys e = [k]" using first(2) by (auto simp: length_Suc_conv)
  ultimately show thesis using that [OF v2 shape] e first(3) by auto
qed

text \<open>A state of the QDAY network after its genesis block, with all version 2 rules in force.\<close>

definition qday_state :: "State \<Rightarrow> QdayParams \<Rightarrow> bool" where
  "qday_state s p \<longleftrightarrow> n_Qday (s_Network s) = Some p \<and> 0 < childHeight s \<and>
     n_V2_RequireHeight (s_Network s) \<le> childHeight s \<and> n_V2_EphemeralOutputHeight (s_Network s) \<le> childHeight s"

lemma check_v2_transactions_eq:
  "check_v2_transactions c s txns ms =
     fold_res (\<lambda>(i, txn). check_step c s (length txns) i txn) (List.enumerate 0 txns) ms"
  by (simp add: check_v2_transactions_def enum_res_def check_step_def [abs_def])

lemma accepted_block:
  assumes "ValidateBlock c s b bs = Ok ()" "qday_state s p"
  obtains v2 mp reward where "blk_V2 b = Some v2" "blk_Transactions b = []" "blk_MinerPayouts b = [mp]"
    "bs = empty_supplement" "BlockReward s = Ok reward"
    "cval (sco_Value mp) = cval reward + sum_list (map (\<lambda>txn. cval (v2_MinerFee txn)) (bd_Transactions v2))"
    "\<forall>i < length (bd_Transactions v2). transfer_ok c s p (take i (bd_Transactions v2)) (bd_Transactions v2 ! i)"
    "distinct (concat (map input_ids (bd_Transactions v2)))"
    "length (filter is_proof (bd_Transactions v2)) \<le> 1"
    "\<exists>e k. ParseQdayEnvelope (v2_ArbitraryData (hd (bd_Transactions v2))) = Ok e \<and> env_Keys e = [k] \<and>
       QdayKeys_Address c k = sco_Address mp"
    "ValidateHeader c s (Block_Header c b) = Ok ()"
    "bd_Commitment v2 = Commitment c s (sco_Address mp) [] (bd_Transactions v2)"
proof -
  have q: "n_Qday (s_Network s) = Some p" using assms(2) by (simp add: qday_state_def)
  obtain ms ms' where run: "validateQdayBlockMarkers c s b = Ok ()" "ValidateOrphan c s b = Ok ()"
      "validateSupplement c s b bs = Ok ()"
      "enum_res (\<lambda>i txn ms. rbind (index_res (bs_Transactions bs) i) (\<lambda>ts.
         rbind (ValidateTransaction c ms txn ts) (\<lambda>_. ApplyTransaction c txn ts ms))) (blk_Transactions b) (NewMidState s) = Ok ms"
      "check_v2_transactions c s (Block_V2Transactions b) ms = Ok ms'"
    using assms by (auto simp: ValidateBlock_def qday_state_def res_simps)
  from markers_Ok [OF run(1)] obtain v2 where v2: "blk_V2 b = Some v2" "bd_Transactions v2 \<noteq> []" "blk_Transactions b = []"
      "marker_ok (hd (bd_Transactions v2))"
      "QdayV1Active s (childHeight s) \<Longrightarrow> marker_ok (last (bd_Transactions v2))"
      "\<exists>e k. ParseQdayEnvelope (v2_ArbitraryData (hd (bd_Transactions v2))) = Ok e \<and> env_Keys e = [k] \<and>
         QdayKeys_Address c k = sco_Address (hd (blk_MinerPayouts b))" by blast
  have ms: "ms = NewMidState s" using run(4) v2(3) by (simp add: enum_res_def)
  have txns: "Block_V2Transactions b = bd_Transactions v2" by (simp add: Block_V2Transactions_def v2(1))
  have "validateMinerPayouts s b = Ok ()" and hdr: "ValidateHeader c s (Block_Header c b) = Ok ()"
    using run(2) by (auto simp: ValidateOrphan_def Let_def res_simps split: if_splits)
  from payout_Ok [OF this(1) v2(1,3) q] obtain mp reward where pay: "blk_MinerPayouts b = [mp]" "BlockReward s = Ok reward"
      "cval (sco_Value mp) = cval reward + sum_list (map (\<lambda>txn. cval (v2_MinerFee txn)) (bd_Transactions v2))" .
  have "\<forall>i < length (bd_Transactions v2). is_marker s (length (bd_Transactions v2)) (length [] + i) \<longrightarrow> marker_ok (bd_Transactions v2 ! i)"
    using v2(2,4,5) by (auto simp: is_marker_def hd_conv_nth last_conv_nth)
  moreover have "fold_res (\<lambda>(i, txn). check_step c s (length (bd_Transactions v2)) i txn)
      (List.enumerate (length []) (bd_Transactions v2)) (NewMidState s) = Ok ms'"
    using run(5) by (simp add: check_v2_transactions_eq txns ms)
  moreover have "n_V2_EphemeralOutputHeight (s_Network s) \<le> childHeight s" "ms_base (NewMidState s) = s"
    using assms(2) by (simp_all add: qday_state_def NewMidState_def)
  ultimately have checked: "\<forall>i < length (bd_Transactions v2). transfer_ok c s p (take i (bd_Transactions v2)) (bd_Transactions v2 ! i)"
      "distinct (concat (map input_ids (bd_Transactions v2)))" "length (filter is_proof (bd_Transactions v2)) \<le> 1"
    using check_steps [where before = "[]", OF _ wf_NewMidState _ q _ fresh_NewMidState]
    by (fastforce simp: NewMidState_def)+
  have "bs = empty_supplement"
    using run(3) assms(2) by (cases bs) (auto simp: validateSupplement_def qday_state_def empty_supplement_def split: if_splits)
  moreover have "bd_Commitment v2 = Commitment c s (sco_Address mp) [] (bd_Transactions v2)"
    using assms(1) v2(1,3) pay(1) by (auto simp: ValidateBlock_def res_simps index_res_def txns)
  ultimately show thesis using that v2 pay checked hdr by (auto simp: NewMidState_def)
qed

section \<open>Applying accepted blocks\<close>

lemma apply_transfers:
  assumes "wf_ms ms" "\<forall>txn \<in> set txns. \<not> qdayUnsupported txn" "n_Qday (s_Network (ms_base ms)) \<noteq> None"
  shows "\<exists>ms'. fold_res (ApplyV2Transaction c) txns ms = Ok ms' \<and> wf_ms ms' \<and> ms_base ms' = ms_base ms \<and>
    (ms_qdayProved ms' \<longleftrightarrow> ms_qdayProved ms \<or> (\<exists>txn \<in> set txns. is_proof txn))"
  using assms
proof (induction txns arbitrary: ms)
  case (Cons txn txns)
  then have supported: "\<not> qdayUnsupported txn" by simp
  obtain ms1 where ms1: "ApplyV2Transaction c txn ms = Ok ms1" "wf_ms ms1" "ms_base ms1 = ms_base ms"
      "dom (ms_spends ms1) = dom (ms_spends ms) \<union> set (input_ids txn)"
      "ms_qdayProved ms1 \<longleftrightarrow> ms_qdayProved ms \<or> is_proof txn"
    by (rule apply_transfer [OF Cons.prems(1) supported Cons.prems(3)])
  have "\<forall>txn \<in> set txns. \<not> qdayUnsupported txn" using Cons.prems(2) by simp
  moreover have "n_Qday (s_Network (ms_base ms1)) \<noteq> None" using Cons.prems(3) ms1(3) by simp
  ultimately obtain ms2 where "fold_res (ApplyV2Transaction c) txns ms1 = Ok ms2" "wf_ms ms2" "ms_base ms2 = ms_base ms1"
      "ms_qdayProved ms2 \<longleftrightarrow> ms_qdayProved ms1 \<or> (\<exists>txn \<in> set txns. is_proof txn)"
    using Cons.IH [OF ms1(2)] by blast
  then show ?case using ms1 by (intro exI [of _ ms2]) simp
qed simp

lemma apply_transfer_block:
  assumes "qday_state s p" "blk_Transactions b = []" "\<forall>txn \<in> set (Block_V2Transactions b). \<not> qdayUnsupported txn"
  obtains ms where "MidState_ApplyBlock c b empty_supplement (NewMidState s) = Ok ms" "ms_base ms = s" "wf_ms ms"
    "ms_qdayProved ms \<longleftrightarrow> (\<exists>txn \<in> set (Block_V2Transactions b). is_proof txn)"
proof -
  have q: "n_Qday (s_Network s) \<noteq> None" using assms(1) by (simp add: qday_state_def)
  have base: "ms_base (NewMidState s) = s" "\<not> ms_qdayProved (NewMidState s)" by (simp_all add: NewMidState_def)
  obtain ms1 where ms1: "fold_res (ApplyV2Transaction c) (Block_V2Transactions b) (NewMidState s) = Ok ms1" "wf_ms ms1"
      "ms_base ms1 = s" "ms_qdayProved ms1 \<longleftrightarrow> (\<exists>txn \<in> set (Block_V2Transactions b). is_proof txn)"
    using apply_transfers [OF wf_NewMidState assms(3), of s c] q base by auto
  obtain ms2 where ms2: "create_immature (BlockID_MinerOutputID c (Block_ID c b)) (blk_MinerPayouts b) ms1 = Ok ms2"
      "same_frame ms1 ms2"
    using create_immature_from [OF ms1(2)] unfolding create_immature_def enum_res_def by blast
  have "FoundationSubsidy s = Ok None" using q by (simp add: FoundationSubsidy_def)
  then have "MidState_ApplyBlock c b empty_supplement (NewMidState s) =
      Ok (ms2\<lparr>ms_cie := \<lparr>cie_ID = Block_ID c b, cie_StateElement = unassigned,
        cie_ChainIndex = \<lparr>ci_Height = childHeight s, ci_ID = Block_ID c b\<rparr>\<rparr>\<rparr>)"
    using ms1 ms2 assms(2) by (simp add: MidState_ApplyBlock_def enum_res_def empty_supplement_def same_frame_def Let_def)
  then show thesis using that ms1 ms2 by (simp add: same_frame_def wf_ms_def)
qed

end
