(* ===== verification/QdayNetwork.thy ===== *)
theory QdayNetwork
  imports Qday
begin

text \<open>
  The fixed QDAY network of \<^verbatim>\<open>coreutils/chain/qday.go\<close>, for a given canary point and domain, and the
  properties of the QDAY rules: the parameters are accepted, the canary search finds the first
  admissible point, coins decay exactly, envelopes have one encoding, DEFEND work bounds a hash.
\<close>

section \<open>The network of the manifest\<close>

definition QdayV1ActivationHeight :: u64 where "QdayV1ActivationHeight = 9100"

text \<open>The point \<^verbatim>\<open>{0x58, 0x66, ...}\<close> of the development network.\<close>

definition devnet_canary :: hash256 where
  "devnet_canary = hash_of_bytes (0x58 # replicate 31 0x66)"

definition manifest_params :: "bool \<Rightarrow> hash256 \<Rightarrow> hash256 \<Rightarrow> QdayParams res" where
  "manifest_params development canary domain =
     rbind (Siacoins 8) (\<lambda>reward. rbind (Siacoins 1) (\<lambda>fee. rbind (Siacoins 500000) (\<lambda>premine.
     let p = \<lparr>qd_RulesVersion = 2, qd_Domain = domain, qd_Canary = canary, qd_Reward = reward,
              qd_ProofFee = fee, qd_MiningBlocks = 1000000, qd_PremineAmount = premine,
              qd_ShieldBlocks = 1440, qd_DecayBlocks = 10080, qd_DecayStep = 60,
              qd_ActivationDelay = 6, qd_DefendBits = 20, qd_V1Height = QdayV1ActivationHeight\<rparr>
     in Ok (if development
            then p\<lparr>qd_ShieldBlocks := 12, qd_DecayBlocks := 24, qd_DecayStep := 2,
                   qd_ActivationDelay := 1, qd_DefendBits := 8, qd_Canary := devnet_canary\<rparr>
            else p))))"

definition manifest_network :: "bool \<Rightarrow> Time \<Rightarrow> QdayParams \<Rightarrow> Network" where
  "manifest_network development timestamp p =
     (let target = (if development then hash_of_bytes ([0, 15] @ replicate 30 0)
                    else hash_of_bytes ([0, 0, 16] @ replicate 29 0)) in
      \<lparr>n_Qday = Some p,
       n_Name = (if development then ''qday-devnet'' else ''qday-mainnet''),
       n_InitialCoinbase = ZeroCurrency, n_MinimumCoinbase = ZeroCurrency,
       n_InitialTarget = target,
       n_BlockInterval = (if development then 2 * second else 60 * second),
       n_MaturityDelay = (if development then 2 else 60),
       n_DevAddr_Height = 0, n_DevAddr_OldAddress = 0, n_DevAddr_NewAddress = 0,
       n_Tax_Height = 0, n_StorageProof_Height = 0,
       n_Oak_Height = 0, n_Oak_FixHeight = 0, n_Oak_GenesisTimestamp = timestamp,
       n_ASIC_Height = 0, n_ASIC_OakTime = 0, n_ASIC_OakTarget = target, n_ASIC_NonceFactor = 1,
       n_Foundation_Height = 0, n_Foundation_PrimaryAddress = 0, n_Foundation_FailsafeAddress = 0,
       n_V2_AllowHeight = 1, n_V2_RequireHeight = 1, n_V2_FinalCutHeight = 1,
       n_V2_EphemeralOutputHeight = 1\<rparr>)"

section \<open>The canary search\<close>

text \<open>A counter is admissible when its hash is the canonical encoding of a point outside the small
  subgroup.\<close>

definition admissible :: "crypto \<Rightarrow> u64 \<Rightarrow> bool" where
  "admissible c n \<longleftrightarrow> point_SetBytes c (canary_candidate c n) = Some (canary_candidate c n) \<and>
     point_MultByCofactor c (canary_candidate c n) \<noteq> identity_Point c"

lemma canary_from_step:
  "canary_from c n = (if admissible c n then Some (point_MultByCofactor c (canary_candidate c n))
                      else canary_from c (n + 1))"
  by (subst canary_from.simps) (auto simp: admissible_def Let_def split: option.split)

lemma canary_from_finds:
  "(\<forall>j < k. \<not> admissible c (n + word_of_nat j)) \<Longrightarrow> admissible c (n + word_of_nat k) \<Longrightarrow>
    canary_from c n = Some (point_MultByCofactor c (canary_candidate c (n + word_of_nat k)))"
proof (induction k arbitrary: n)
  case 0
  then show ?case by (subst canary_from_step) simp
next
  case (Suc k)
  have "\<not> admissible c n" using Suc.prems(1) [rule_format, of 0] by simp
  moreover have "\<forall>j < k. \<not> admissible c (n + 1 + word_of_nat j)"
    using Suc.prems(1) by (metis Suc_mono add.assoc of_nat_Suc)
  moreover have "n + 1 + word_of_nat k = n + word_of_nat (Suc k)" by (simp add: add.assoc)
  ultimately show ?case using Suc.IH [of "n + 1"] Suc.prems(2) by (subst canary_from_step) metis
qed

lemma canary_from_sound: "canary_from c n = Some q \<Longrightarrow> \<exists>k. admissible c k"
proof (erule canary_from.raw_induct [where P = "\<lambda>c n q. \<exists>k. admissible c k", rotated])
  fix rec :: "crypto \<Rightarrow> u64 \<Rightarrow> hash256 option" and c n q
  assume "\<And>c n q. rec c n = Some q \<Longrightarrow> \<exists>k. admissible c k"
    and "(let h = canary_candidate c n in
        case point_SetBytes c h of
          None \<Rightarrow> rec c (n + 1)
        | Some p \<Rightarrow> if p \<noteq> h then rec c (n + 1)
            else let q = point_MultByCofactor c p in if q = identity_Point c then rec c (n + 1) else Some q) = Some q"
  then show "\<exists>k. admissible c k"
    by (auto simp: admissible_def Let_def split: option.splits if_splits)
qed

section \<open>The parameters of the manifest are valid\<close>

lemma Siacoins_values:
  "Siacoins 8 = Ok (NewCurrency 16030113641655173120 433680)"
  "Siacoins 1 = Ok (NewCurrency 2003764205206896640 54210)"
  "Siacoins 500000 = Ok (NewCurrency 2538472135152631808 27105054312)"
  by (simp_all add: Siacoins_def Currency_Mul64_def Currency_Mul64WithOverflow_def HastingsPerSiacoin_def
      NewCurrency_def mul64_def add64_def)

lemma manifest_params_eq:
  "manifest_params dev canary domain =
     Ok \<lparr>qd_RulesVersion = 2, qd_Domain = domain, qd_Canary = (if dev then devnet_canary else canary),
         qd_Reward = NewCurrency 16030113641655173120 433680,
         qd_ProofFee = NewCurrency 2003764205206896640 54210, qd_MiningBlocks = 1000000,
         qd_PremineAmount = NewCurrency 2538472135152631808 27105054312,
         qd_ShieldBlocks = (if dev then 12 else 1440), qd_DecayBlocks = (if dev then 24 else 10080),
         qd_DecayStep = (if dev then 2 else 60), qd_ActivationDelay = (if dev then 1 else 6),
         qd_DefendBits = (if dev then 8 else 20), qd_V1Height = 9100\<rparr>"
  by (cases dev) (simp_all add: manifest_params_def Siacoins_values QdayV1ActivationHeight_def Let_def)

lemma manifest_params_valid:
  assumes "domain \<noteq> 0" "manifest_params dev canary domain = Ok p"
    "point_SetBytes c (qd_Canary p) = Some q" "q \<noteq> identity_Point c"
  shows "QdayParams_Validate c p = Ok ()"
proof -
  note p = assms(2) [unfolded manifest_params_eq, THEN res.inject(1) [THEN iffD1], symmetric]
  show ?thesis using assms(1,3,4)
    by (cases dev) (simp_all add: p QdayParams_Validate_def Siacoins_values Currency_IsZero_def NewCurrency_def
        ZeroCurrency_def Currency_Mul64WithOverflow_def Currency_AddWithOverflow_def mul64_def add64_def)
qed

definition sample_params :: QdayParams where
  "sample_params =
     \<lparr>qd_RulesVersion = 2, qd_Domain = 7, qd_Canary = 9,
      qd_Reward = NewCurrency 16030113641655173120 433680,
      qd_ProofFee = NewCurrency 2003764205206896640 54210, qd_MiningBlocks = 1000000,
      qd_PremineAmount = NewCurrency 2538472135152631808 27105054312,
      qd_ShieldBlocks = 1440, qd_DecayBlocks = 10080, qd_DecayStep = 60, qd_ActivationDelay = 6,
      qd_DefendBits = 20, qd_V1Height = 9100\<rparr>"

lemma sample_params_valid:
  "manifest_params False 9 7 = Ok sample_params" "QdayParams_Validate sample_crypto sample_params = Ok ()"
proof -
  show p: "manifest_params False 9 7 = Ok sample_params"
    by (simp add: manifest_params_eq sample_params_def)
  show "QdayParams_Validate sample_crypto sample_params = Ok ()"
    by (rule manifest_params_valid [OF _ p, of _ 9]) (simp_all add: sample_crypto_def sample_params_def)
qed

definition sample_network :: Network where
  "sample_network = manifest_network False (1788998400 * second) sample_params"

definition sample_state :: "u64 \<Rightarrow> State" where
  "sample_state qdayHeight =
     \<lparr>s_QdayHeight = qdayHeight, s_Network = sample_network, s_Index = \<lparr>ci_Height = 20000, ci_ID = 5\<rparr>,
      s_PrevTimestamps = replicate 11 0, s_Depth = 0, s_ChildTarget = 0, s_SiafundTaxRevenue = ZeroCurrency,
      s_OakTime = 0, s_OakTarget = 0, s_FoundationSubsidyAddress = 0, s_FoundationManagementAddress = 0,
      s_TotalWork = 0, s_Difficulty = 0, s_OakWork = 0, s_Elements = empty_Accumulator, s_Attestations = 0\<rparr>"

definition sample_element :: SiacoinElement where
  "sample_element = \<lparr>sce_ID = 1, sce_StateElement = \<lparr>se_LeafIndex = 0, se_MerkleProof = []\<rparr>,
     sce_SiacoinOutput = \<lparr>sco_Value = NewCurrency 1000 0, sco_Address = 3\<rparr>, sce_MaturityHeight = 100\<rparr>"

lemma sample_state_network [simp]: "n_Qday (s_Network (sample_state q)) = Some sample_params"
  by (simp add: sample_state_def sample_network_def manifest_network_def Let_def)

section \<open>Properties\<close>

text \<open>C27: decay. With accepted parameters the value of an output never panics at any height and is the
  nominal value times the fraction of \<^verbatim>\<open>DecayBlocks\<close> that remains, rounded down; before activation and
  through the shield it is the nominal value; it never exceeds the nominal value and never grows with
  the height; and once \<^verbatim>\<open>ShieldBlocks\<close> and \<^verbatim>\<open>DecayBlocks\<close> have passed since activation or maturity
  it is zero.\<close>

theorem QdayValue_decays:
  assumes "n_Qday (s_Network s) = Some p" "QdayParams_Validate c p = Ok ()" "height \<le> height'"
  shows "\<exists>w w'. QdayValue s e height = Ok w \<and> QdayValue s e height' = Ok w' \<and>
    cval w = cval (sco_Value (sce_SiacoinOutput e)) * decay_remaining s p e height div unat (qd_DecayBlocks p) \<and>
    cval w' \<le> cval w \<and> cval w \<le> cval (sco_Value (sce_SiacoinOutput e)) \<and>
    (\<not> QdayActive s height' \<or>
      unat height' \<le> max (unat (s_QdayHeight s)) (unat (sce_MaturityHeight e)) + unat (qd_ShieldBlocks p) \<longrightarrow>
        w' = sco_Value (sce_SiacoinOutput e)) \<and>
    (QdayActive s height' \<and>
      max (unat (s_QdayHeight s)) (unat (sce_MaturityHeight e)) + unat (qd_ShieldBlocks p) + unat (qd_DecayBlocks p)
        \<le> unat height' \<longrightarrow> w' = ZeroCurrency)"
proof -
  let ?v = "cval (sco_Value (sce_SiacoinOutput e))" and ?d = "unat (qd_DecayBlocks p)"
  let ?r = "decay_remaining s p e"
  note rem = QdayValue_remaining [OF assms(1,2)]
  obtain w where w: "QdayValue s e height = Ok w" "cval w = ?v * ?r height div ?d" using rem by blast
  obtain w' where w': "QdayValue s e height' = Ok w'" "cval w' = ?v * ?r height' div ?d" using rem by blast
  have d: "0 < ?d" using Validate_Ok(1) [OF assms(2)] by (simp add: unat_gt_0)
  have "cval w' \<le> cval w"
    unfolding w w' by (intro div_le_mono mult_le_mono2 decay_remaining_mono assms(3))
  moreover have "cval w \<le> ?v * ?d div ?d"
    unfolding w by (intro div_le_mono mult_le_mono2 decay_remaining_le)
  moreover have "w' = sco_Value (sce_SiacoinOutput e)"
    if "\<not> QdayActive s height' \<or>
      unat height' \<le> max (unat (s_QdayHeight s)) (unat (sce_MaturityHeight e)) + unat (qd_ShieldBlocks p)"
  proof -
    have "?r height' = ?d" using that by (auto simp: decay_remaining_def Let_def)
    then show ?thesis using w'(2) d by (intro cval_inject [THEN iffD1]) simp
  qed
  moreover have "w' = ZeroCurrency"
    if "QdayActive s height' \<and> max (unat (s_QdayHeight s)) (unat (sce_MaturityHeight e)) + unat (qd_ShieldBlocks p)
      + unat (qd_DecayBlocks p) \<le> unat height'"
    using w'(2) decay_remaining_zero [OF assms(2)] that by (intro cval_zero_iff [THEN iffD1]) simp
  moreover have "?v * ?d div ?d = ?v" using d by simp
  ultimately show ?thesis using w w' by metis
qed

theorem QdayValue_decays_witness:
  "\<exists>w w'. QdayValue (sample_state 9000) sample_element 15000 = Ok w \<and>
     QdayValue (sample_state 9000) sample_element 20600 = Ok w' \<and> cval w' \<le> cval w \<and> cval w \<le> 1000 \<and>
     w' = ZeroCurrency"
  using QdayValue_decays [OF sample_state_network sample_params_valid(2), of 15000 20600 9000 sample_element]
  by (auto simp: sample_element_def sample_state_def sample_params_def QdayActive_def sample_network_def
      manifest_network_def Let_def)

text \<open>C29: envelopes. A byte string parses to an envelope exactly when the envelope is well formed (a known
  kind, at most 128 valid keys, a witness only on a proof) and the string is its encoding: every
  envelope has one encoding, and every accepted string is canonical.\<close>

theorem envelope_canonical:
  "ParseQdayEnvelope b = Ok e \<longleftrightarrow> wf_envelope e \<and> QdayEnvelope_Encode e = b"
  using Parse_Encode Encode_Parse by blast

lemma intent_invariant:
  assumes "ParseQdayEnvelope (v2_ArbitraryData txn) = Ok e"
  shows "QdayWorkIntent c s (txn\<lparr>v2_ArbitraryData := QdayEnvelope_Encode (e\<lparr>env_Nonce := nonce\<rparr>),
      v2_SiacoinInputs := map (\<lambda>i. i\<lparr>v2sci_SatisfiedPolicy := w i\<rparr>) (v2_SiacoinInputs txn)\<rparr>)
    = QdayWorkIntent c s txn"
proof -
  have b: "v2_ArbitraryData txn = QdayEnvelope_Encode e" using Encode_Parse [OF assms] by simp
  have "clear_nonce (QdayEnvelope_Encode (e\<lparr>env_Nonce := nonce\<rparr>)) = clear_nonce (QdayEnvelope_Encode e)"
    by (simp add: QdayEnvelope_Encode_def clear_nonce_def)
  then show ?thesis
    by (simp add: QdayWorkIntent_def V2Transaction_ID_def V2TransactionSemantics_EncodeTo_def b
        EncodeSlice_def comp_def split: option.split)
qed

text \<open>C30: DEFEND work. The work check of difficulty \<^verbatim>\<open>d\<close> accepts exactly the hashes below
  \<^verbatim>\<open>2^(256-d)\<close>, and the intent that is hashed depends neither on the nonce in the envelope nor on the
  satisfied policies of the inputs: it can be computed once before the nonce is searched and the
  transaction is signed.\<close>

theorem defend_work_search:
  assumes "ParseQdayEnvelope (v2_ArbitraryData txn) = Ok e"
  shows "QdayWorkIntent c s (txn\<lparr>v2_ArbitraryData := QdayEnvelope_Encode (e\<lparr>env_Nonce := nonce\<rparr>),
        v2_SiacoinInputs := map (\<lambda>i. i\<lparr>v2sci_SatisfiedPolicy := w i\<rparr>) (v2_SiacoinInputs txn)\<rparr>)
      = QdayWorkIntent c s txn \<and>
    (QdayWorkValid c intent nonce difficulty \<longleftrightarrow>
      unat (work_hash c intent nonce) < 2 ^ (256 - unat difficulty))"
  using intent_invariant [OF assms] QdayWorkValid_iff by blast

theorem defend_work_search_witness:
  "QdayWorkIntent sample_crypto (sample_state 0)
     (empty_V2Transaction\<lparr>v2_ArbitraryData :=
        QdayEnvelope_Encode \<lparr>env_Kind = QdayTransfer, env_Nonce = 99, env_Keys = [], env_Witness = 0\<rparr>\<rparr>)
   = QdayWorkIntent sample_crypto (sample_state 0)
     (empty_V2Transaction\<lparr>v2_ArbitraryData :=
        QdayEnvelope_Encode \<lparr>env_Kind = QdayTransfer, env_Nonce = 5, env_Keys = [], env_Witness = 0\<rparr>\<rparr>)"
proof -
  let ?e = "\<lparr>env_Kind = QdayTransfer, env_Nonce = 5, env_Keys = [], env_Witness = 0\<rparr>"
  let ?txn = "empty_V2Transaction\<lparr>v2_ArbitraryData := QdayEnvelope_Encode ?e\<rparr>"
  have "ParseQdayEnvelope (v2_ArbitraryData ?txn) = Ok ?e"
    using Parse_Encode [of ?e] by (simp add: wf_envelope_def kind_defs)
  from defend_work_search [OF this, of sample_crypto "sample_state 0" v2sci_SatisfiedPolicy 99]
  show ?thesis by (simp add: empty_V2Transaction_def)
qed

text \<open>The canary search. \<^verbatim>\<open>QdayCanary\<close> returns exactly when one of the counters hashes to the
  canonical encoding of a point outside the small subgroup, and then it returns the cofactor multiple of
  the point of the first such counter.\<close>

theorem canary_search:
  "case QdayCanary c of
     None \<Rightarrow> \<forall>n. \<not> admissible c n
   | Some q \<Rightarrow> \<exists>k < 2 ^ 64. admissible c (word_of_nat k) \<and> (\<forall>j < k. \<not> admissible c (word_of_nat j)) \<and>
       q = point_MultByCofactor c (canary_candidate c (word_of_nat k))"
proof (cases "\<exists>n. admissible c n")
  case True
  then obtain n :: u64 where n: "admissible c (word_of_nat (unat n))" by auto
  define k where "k = (LEAST k. admissible c (word_of_nat k))"
  have "k \<le> unat n" using n unfolding k_def by (rule Least_le)
  then have "k < 2 ^ 64" using unat_u64_lt [of n] by linarith
  moreover have "admissible c (word_of_nat k)" using n unfolding k_def by (rule LeastI)
  moreover have "\<forall>j < k. \<not> admissible c (word_of_nat j)" using not_less_Least unfolding k_def by blast
  ultimately show ?thesis using canary_from_finds [of k c 0] by (auto simp: QdayCanary_def)
next
  case False
  then have "QdayCanary c = None" using canary_from_sound [of c 0] by (cases "QdayCanary c") (auto simp: QdayCanary_def)
  then show ?thesis using False by simp
qed

theorem canary_search_witness:
  "QdayCanary sample_crypto = Some (canary_candidate sample_crypto 0)"
proof -
  have zero: "admissible sample_crypto (word_of_nat 0)"
    by (simp add: admissible_def sample_crypto_def canary_candidate_def byte_sum_def le64_def ascii_def
        le_bytes_zero sum_list_replicate)
  show ?thesis
  proof (cases "QdayCanary sample_crypto")
    case None
    with zero canary_search [of sample_crypto] show ?thesis by simp
  next
    case (Some q)
    with canary_search [of sample_crypto] obtain k
      where k: "\<forall>j < k. \<not> admissible sample_crypto (word_of_nat j)"
        "q = point_MultByCofactor sample_crypto (canary_candidate sample_crypto (word_of_nat k))" by auto
    have "k = 0" using k(1) zero by blast
    moreover have "point_MultByCofactor sample_crypto x = x" for x by (simp add: sample_crypto_def)
    ultimately show ?thesis using Some k(2) by simp
  qed
qed

text \<open>C28: emission. Under accepted parameters \<^verbatim>\<open>BlockReward\<close> never fails, and the rewards of any run of
  blocks that starts at height 1 sum to \<^verbatim>\<open>Reward\<close> times the number of blocks, counted up to
  \<^verbatim>\<open>MiningBlocks\<close>; with the premine this is below \<open>2 ^ 128\<close> whatever the length of the chain, so the
  supply fits the currency type.\<close>

theorem emission_capped:
  assumes "n_Qday (s_Network s) = Some p" "QdayParams_Validate c p = Ok ()" "n < 2 ^ 64"
  shows "\<exists>r. (\<forall>h. BlockReward (s\<lparr>s_Index := \<lparr>ci_Height = h, ci_ID = 0\<rparr>\<rparr>) = Ok (r h)) \<and>
    (\<Sum>h < n. cval (r (word_of_nat h))) = cval (qd_Reward p) * min n (unat (qd_MiningBlocks p)) \<and>
    cval (qd_PremineAmount p) + (\<Sum>h < n. cval (r (word_of_nat h))) < 2 ^ 128"
proof (intro exI conjI allI)
  let ?r = "\<lambda>h. if h + 1 = 0 \<or> qd_MiningBlocks p < h + 1 then ZeroCurrency else qd_Reward p"
  show "BlockReward (s\<lparr>s_Index := \<lparr>ci_Height = h, ci_ID = 0\<rparr>\<rparr>) = Ok (?r h)" for h
    using assms(1) by (simp add: BlockReward_def childHeight_def)
  have step: "cval (?r (word_of_nat h)) = (if h < unat (qd_MiningBlocks p) then cval (qd_Reward p) else 0)"
    if "h < n" for h
  proof -
    have "unat (word_of_nat h + 1 :: u64) = Suc h"
      using that assms(3) unat_of_nat_u64_less [of "Suc h"] by (simp add: add.commute)
    then show ?thesis by (auto simp: word_less_nat_alt unat_eq_0 [symmetric])
  qed
  have "(\<Sum>h < n. cval (?r (word_of_nat h))) = (\<Sum>h < n. if h < unat (qd_MiningBlocks p) then cval (qd_Reward p) else 0)"
    by (intro sum.cong) (simp_all only: step lessThan_iff)
  also have "\<dots> = cval (qd_Reward p) * min n (unat (qd_MiningBlocks p))"
    by (induction n) (auto simp: min_def)
  finally show total: "(\<Sum>h < n. cval (?r (word_of_nat h))) = cval (qd_Reward p) * min n (unat (qd_MiningBlocks p))" .
  have "cval (qd_Reward p) * min n (unat (qd_MiningBlocks p)) \<le> cval (qd_Reward p) * unat (qd_MiningBlocks p)"
    by (intro mult_le_mono2) simp
  then show "cval (qd_PremineAmount p) + (\<Sum>h < n. cval (?r (word_of_nat h))) < 2 ^ 128"
    unfolding total using Validate_Ok(8) [OF assms(2)] by linarith
qed

theorem emission_capped_witness:
  "\<exists>r. (\<forall>h. BlockReward (sample_state 0\<lparr>s_Index := \<lparr>ci_Height = h, ci_ID = 0\<rparr>\<rparr>) = Ok (r h)) \<and>
    (\<Sum>h < 2000000. cval (r (word_of_nat h))) = 8 * 10 ^ 24 * 1000000"
  using emission_capped [OF sample_state_network sample_params_valid(2), of 2000000 0]
  by (auto simp: sample_params_def)

end
