(* ===== verification/Difficulty.thy ===== *)
theory Difficulty
  imports Application QdayNetwork
begin

text \<open>
  The difficulty rule of the QDAY network, \<^verbatim>\<open>adjustDifficultyFinalCut\<close>: its value in arithmetic of
  naturals, and its use in \<^verbatim>\<open>ApplyHeader\<close>.
\<close>

section \<open>The final-cut rule\<close>

text \<open>The largest step of the difficulty in one block.\<close>

definition max_adjust :: "State \<Rightarrow> nat" where
  "max_adjust s = max (unat (s_Difficulty s) div 250) 1"

lemma unat_oneWork [simp]: "unat oneWork = 1"
  by (simp add: oneWork_def)

lemma uint64_nonzero:
  assumes "0 < x" "x < 2 ^ 63"
  shows "unat (uint64 x) = nat x"
  using assms by (simp add: uint64_def unsigned_of_int take_bit_int_eq_self nat_take_bit_eq)

lemma div_fits: "unat (word_of_nat (unat (w :: Work) div n) :: Work) = unat w div n"
  using unat_hash_lt [of w] by (intro unat_of_nat_hash) (meson div_le_dividend le_less_trans)

lemma final_cut_value:
  assumes "0 < s_Difficulty s" "unat (s_Difficulty s) < 2 ^ 255" "s_OakTime s < 2 ^ 63"
    "unat (s_OakWork s) < 2 ^ 191"
  obtains d where "adjustDifficultyFinalCut s t = Ok d"
    "unat d = max 1 (max (unat (s_Difficulty s) - max_adjust s) (min (unat (s_Difficulty s) + max_adjust s)
       ((unat (s_OakWork s) * unat (uint64 (target_interval s t)) + unat (uint64 (go_div (s_OakTime s) 2)))
          div nat (max (s_OakTime s) 1))))"
proof -
  define i where "i = uint64 (target_interval s t)"
  define h where "h = unat (uint64 (go_div (s_OakTime s) 2))"
  define w where "w = unat (s_OakWork s) * unat i"
  define n where "n = nat (max (s_OakTime s) 1)"
  define D where "D = unat (s_Difficulty s)"
  have "w \<le> 2 ^ 191 * 2 ^ 64" unfolding w_def using assms(4) unat_u64_lt [of i] by (intro mult_le_mono) simp_all
  then have w: "w \<le> 2 ^ 255" by simp
  have h: "h < 2 ^ 64" unfolding h_def by (rule unat_u64_lt)
  have fits: "unat (word_of_nat w :: Work) = w" "unat (word_of_nat h :: Work) = h" "unat (word_of_nat (w + h) :: Work) = w + h"
    using w h by (intro unat_of_nat_hash; simp)+
  have den: "unat (uint64 (max (s_OakTime s) 1)) = n" "0 < n"
    using assms(3) uint64_nonzero [of "max (s_OakTime s) 1"] by (simp_all add: n_def)
  then have den0: "uint64 (max (s_OakTime s) 1) \<noteq> 0" by (metis less_irrefl unat_0)
  define q :: Work where "q = word_of_nat ((w + h) div n)"
  have q: "unat q = (w + h) div n" using div_fits [of "word_of_nat (w + h)" n] by (simp only: q_def fits)
  have run: "Work_mul64 (s_OakWork s) i = Ok (word_of_nat w)" "Work_mul64 oneWork (uint64 (go_div (s_OakTime s) 2)) = Ok (word_of_nat h)"
      "Work_add (word_of_nat w) (word_of_nat h) = Ok (word_of_nat (w + h))"
      "Work_div64 (word_of_nat (w + h)) (uint64 (max (s_OakTime s) 1)) = Ok q"
    unfolding Work_mul64_eq Work_add_eq Work_div64_eq fits den w_def [symmetric] h_def [symmetric] unat_oneWork q_def
    using w h den0 by simp_all
  define adj :: Work where "adj = Work_max (word_of_nat (D div 250)) oneWork"
  have adj: "unat adj = max_adjust s" by (simp add: adj_def unat_Work_max max_adjust_def div_fits D_def)
  have le: "max_adjust s \<le> D" using assms(1) by (simp add: D_def max_adjust_def word_less_nat_alt Suc_le_eq)
  have ends: "unat (word_of_nat (D + max_adjust s) :: Work) = D + max_adjust s"
      "unat (word_of_nat (D - max_adjust s) :: Work) = D - max_adjust s"
    using le assms(2) by (intro unat_of_nat_hash; simp add: D_def)+
  have bounds: "Work_div64 (s_Difficulty s) 250 = Ok (word_of_nat (D div 250))"
      "Work_add (s_Difficulty s) adj = Ok (word_of_nat (D + max_adjust s))"
      "Work_sub (s_Difficulty s) adj = Ok (word_of_nat (D - max_adjust s))"
    unfolding Work_div64_eq Work_add_eq Work_sub_eq adj D_def [symmetric] using le assms(2) by (simp_all add: D_def)
  have "adjustDifficultyFinalCut s t = Ok (Work_max (Work_max (Work_min q (word_of_nat (D + max_adjust s)))
      (word_of_nat (D - max_adjust s))) oneWork)"
    unfolding adjustDifficultyFinalCut_def i_def [symmetric] run rbind.simps bounds adj_def [symmetric] Let_def ..
  moreover have "unat (Work_max (Work_max (Work_min q (word_of_nat (D + max_adjust s)))
      (word_of_nat (D - max_adjust s))) oneWork) = max 1 (max (D - max_adjust s) (min (D + max_adjust s) ((w + h) div n)))"
    unfolding unat_Work_max unat_Work_min q ends unat_oneWork by (simp only: max.commute min.commute)
  ultimately show thesis using that unfolding i_def h_def w_def n_def D_def by blast
qed

lemma final_cut_positive:
  assumes "adjustDifficultyFinalCut s t = Ok d"
  shows "1 \<le> unat d"
  using assms by (auto simp: adjustDifficultyFinalCut_def Let_def res_simps unat_Work_max)

section \<open>Headers\<close>

text \<open>Bounds on the work of a state under which no sum or product of the rules overflows.\<close>

definition work_bounds :: "State \<Rightarrow> bool" where
  "work_bounds s \<longleftrightarrow> 0 < s_Difficulty s \<and> unat (s_Difficulty s) < 2 ^ 190 \<and> s_OakTime s < 2 ^ 63 \<and>
     unat (s_OakWork s) < 2 ^ 191 \<and> unat (s_TotalWork s) < 2 ^ 255"

lemma invTarget_nonzero: "0 < unat w \<Longrightarrow> \<exists>t. invTarget w = Ok t"
  by (auto simp: invTarget_eq)

lemma oak_work_total:
  assumes "work_bounds s" "n_V2_AllowHeight (s_Network s) \<le> childHeight s"
  obtains ow ot where "updateOakWork s = Ok (ow, ot)"
    "unat ow = unat (s_OakWork s) - unat (s_OakWork s) div 200 + unat (s_Difficulty s)"
proof -
  have D: "0 < unat (s_Difficulty s)" "unat (s_Difficulty s) < 2 ^ 190" "unat (s_OakWork s) < 2 ^ 191"
    using assms(1) by (auto simp: work_bounds_def word_less_nat_alt)
  define q :: Work where "q = word_of_nat (unat (s_OakWork s) div 200)"
  have q: "Work_div64 (s_OakWork s) 200 = Ok q" "unat q = unat (s_OakWork s) div 200"
    by (simp_all add: Work_div64_eq q_def div_fits)
  obtain r where r: "Work_sub (s_OakWork s) q = Ok r" "unat r = unat (s_OakWork s) - unat (s_OakWork s) div 200"
    using work.sub_total [of q "s_OakWork s"] q(2) by auto
  have "unat r < 2 ^ 191" using r(2) D(3) by linarith
  then have "unat r + unat (s_Difficulty s) < 2 ^ 256" using D(2) by simp
  then obtain w where w: "Work_add r (s_Difficulty s) = Ok w" "unat w = unat r + unat (s_Difficulty s)"
    using work.add_total by blast
  obtain t where "invTarget w = Ok t" using invTarget_nonzero [of w] w(2) D(1) by auto
  then have "updateOakWork s = Ok (w, t)"
    using q(1) r(1) w(1) assms(2) [folded not_less] by (simp add: updateOakWork_def)
  then show thesis using that w(2) r(2) by simp
qed

lemma total_work_total:
  assumes "work_bounds s" "n_V2_AllowHeight (s_Network s) \<le> childHeight s"
  obtains tw d where "updateTotalWork s = Ok (tw, d)" "unat tw = unat (s_TotalWork s) + unat (s_Difficulty s)"
proof -
  have D: "0 < unat (s_Difficulty s)" "unat (s_Difficulty s) < 2 ^ 190" "unat (s_TotalWork s) < 2 ^ 255"
    using assms(1) by (auto simp: work_bounds_def word_less_nat_alt)
  then have "unat (s_TotalWork s) + unat (s_Difficulty s) < 2 ^ 256" by simp
  then obtain tw where tw: "Work_add (s_TotalWork s) (s_Difficulty s) = Ok tw"
      "unat tw = unat (s_TotalWork s) + unat (s_Difficulty s)"
    using work.add_total by blast
  moreover obtain d where "invTarget tw = Ok d" using invTarget_nonzero [of tw] tw(2) D(1) by auto
  ultimately show thesis using that assms(2) [folded not_less] by (simp add: updateTotalWork_def)
qed

lemma header_total:
  assumes "work_bounds s" "n_V2_AllowHeight (s_Network s) \<le> childHeight s" "n_V2_FinalCutHeight (s_Network s) \<le> childHeight s"
    "ci_ID (s_Index s) = bh_ParentID bh" "bh_ParentID bh \<noteq> 0"
  obtains s' where "ApplyHeader c s bh t = Ok s'"
    "unat (s_TotalWork s') = unat (s_TotalWork s) + unat (s_Difficulty s)"
    "adjustDifficultyFinalCut s (bh_Timestamp bh) = Ok (s_Difficulty s')"
    "unat (s_OakWork s') = unat (s_OakWork s) - unat (s_OakWork s) div 200 + unat (s_Difficulty s)"
    "s_Index s' = \<lparr>ci_Height = childHeight s, ci_ID = BlockHeader_ID c bh\<rparr>"
proof -
  obtain ow ot where oak: "updateOakWork s = Ok (ow, ot)"
      "unat ow = unat (s_OakWork s) - unat (s_OakWork s) div 200 + unat (s_Difficulty s)"
    using oak_work_total [OF assms(1,2)] .
  obtain tw d where tw: "updateTotalWork s = Ok (tw, d)" "unat tw = unat (s_TotalWork s) + unat (s_Difficulty s)"
    using total_work_total [OF assms(1,2)] .
  have "0 < s_Difficulty s" "unat (s_Difficulty s) < 2 ^ 255" "s_OakTime s < 2 ^ 63" "unat (s_OakWork s) < 2 ^ 191"
    using assms(1) by (simp_all add: work_bounds_def)
  from final_cut_value [OF this] obtain dif where dif: "adjustDifficultyFinalCut s (bh_Timestamp bh) = Ok dif" .
  have "0 < unat dif" using final_cut_positive [OF dif] by simp
  then obtain ct where "invTarget dif = Ok ct" using invTarget_nonzero by blast
  then have "adjustDifficulty s (bh_Timestamp bh) t = Ok (dif, ct)"
    using dif assms(2,3) [folded not_less] by (simp add: adjustDifficulty_def)
  then have fields: "header_fields c s bh t = Ok (s\<lparr>s_TotalWork := tw, s_Depth := d, s_Difficulty := dif, s_ChildTarget := ct,
      s_OakTime := updateOakTime s (bh_Timestamp bh) (s_PrevTimestamps s ! 0), s_OakWork := ow, s_OakTarget := ot,
      s_Index := \<lparr>ci_Height = ci_Height (s_Index s) + 1, ci_ID = BlockHeader_ID c bh\<rparr>\<rparr>)" (is "_ = Ok ?s1")
    using oak(1) tw(1) assms(5) by (simp add: header_fields_def)
  define s1 where "s1 = ?s1"
  have s1: "header_fields c s bh t = Ok s1" "s_TotalWork s1 = tw" "s_Difficulty s1 = dif" "s_OakWork s1 = ow"
      "s_Index s1 = \<lparr>ci_Height = childHeight s, ci_ID = BlockHeader_ID c bh\<rparr>"
    unfolding s1_def using fields by (simp_all add: childHeight_def)
  obtain s' where s': "ApplyHeader c s bh t = Ok s'"
    unfolding ApplyHeader_def s1(1) rbind.simps Let_def using assms(4) by simp
  from ApplyHeader_fields [OF s'] obtain s2 where s2: "header_fields c s bh t = Ok s2" "s_TotalWork s' = s_TotalWork s2"
    "s_Difficulty s' = s_Difficulty s2" "s_OakWork s' = s_OakWork s2" "s_OakTime s' = s_OakTime s2" "s_Index s' = s_Index s2" .
  have "s2 = s1" using s1(1) s2(1) by simp
  then show thesis using that [OF s'] oak(2) tw(2) dif s1(2-5) s2(2-6) by simp
qed

end
