(* ===== verification/Chain.thy ===== *)
theory Chain
  imports BlockRules Difficulty
begin

text \<open>
  Chains of accepted blocks on the QDAY network: the step from a state to the state after a block that
  \<^verbatim>\<open>ValidateBlock\<close> accepts and \<^verbatim>\<open>ApplyBlock\<close> applies, and what every chain of such steps keeps.
\<close>

section \<open>One block\<close>

text \<open>All forks of the rules are in the past, as they are on the QDAY network after its genesis block.\<close>

definition running :: "State \<Rightarrow> QdayParams \<Rightarrow> bool" where
  "running s p \<longleftrightarrow> qday_state s p \<and> n_V2_AllowHeight (s_Network s) \<le> childHeight s \<and>
     n_V2_FinalCutHeight (s_Network s) \<le> childHeight s \<and> ci_ID (s_Index s) \<noteq> 0"

text \<open>A transaction that proves the canary and pays for it.\<close>

definition pays_proof :: "crypto \<Rightarrow> QdayParams \<Rightarrow> V2Transaction \<Rightarrow> bool" where
  "pays_proof c p txn \<longleftrightarrow> cval (qd_ProofFee p) \<le> cval (v2_MinerFee txn) \<and>
     (\<exists>e. ParseQdayEnvelope (v2_ArbitraryData txn) = Ok e \<and> env_Kind e = QdayCanaryProof \<and>
        VerifyQdayProof c (qd_Canary p) (env_Witness e))"

lemma header_work:
  assumes "header_fields c s bh t = Ok s1" "bh_ParentID bh \<noteq> 0"
    "n_V2_AllowHeight (s_Network s) \<le> childHeight s" "n_V2_FinalCutHeight (s_Network s) \<le> childHeight s"
  shows "unat (s_TotalWork s1) = unat (s_TotalWork s) + unat (s_Difficulty s)" "1 \<le> unat (s_Difficulty s1)"
    "adjustDifficultyFinalCut s (bh_Timestamp bh) = Ok (s_Difficulty s1)"
proof -
  obtain tw d dif ct ow ot where run: "updateTotalWork s = Ok (tw, d)"
    "adjustDifficulty s (bh_Timestamp bh) t = Ok (dif, ct)" "updateOakWork s = Ok (ow, ot)"
    "s1 = s\<lparr>s_TotalWork := tw, s_Depth := d, s_Difficulty := dif, s_ChildTarget := ct,
        s_OakTime := updateOakTime s (bh_Timestamp bh) (s_PrevTimestamps s ! 0), s_OakWork := ow, s_OakTarget := ot,
        s_Index := \<lparr>ci_Height = ci_Height (s_Index s) + 1, ci_ID = BlockHeader_ID c bh\<rparr>\<rparr>"
    using header_fields_child [OF assms(1,2)] .
  have "Work_add (s_TotalWork s) (s_Difficulty s) = Ok tw"
    using run(1) assms(3) [folded not_less] by (auto simp: updateTotalWork_def res_simps)
  then show "unat (s_TotalWork s1) = unat (s_TotalWork s) + unat (s_Difficulty s)" by (simp add: run(4) work.add_iff)
  have "adjustDifficultyFinalCut s (bh_Timestamp bh) = Ok dif"
    using run(2) assms(3,4) [folded not_less] by (auto simp: adjustDifficulty_def res_simps)
  then show "adjustDifficultyFinalCut s (bh_Timestamp bh) = Ok (s_Difficulty s1)" "1 \<le> unat (s_Difficulty s1)"
    using final_cut_positive by (simp_all add: run(4))
qed

text \<open>The transactions of an accepted block, and the flag that they leave for the canary.\<close>

lemma accepted_txns:
  assumes "ValidateBlock c s b bs = Ok ()" "qday_state s p"
  shows "bh_ParentID (Block_Header c b) = ci_ID (s_Index s)"
    "\<forall>txn \<in> set (Block_V2Transactions b). \<exists>earlier. transfer_ok c s p earlier txn"
    "\<exists>ms. MidState_ApplyBlock c b bs (NewMidState s) = Ok ms \<and> wf_ms ms \<and>
       (ms_qdayProved ms \<longleftrightarrow> (\<exists>txn \<in> set (Block_V2Transactions b). pays_proof c p txn))"
proof -
  obtain v2 mp reward where acc: "blk_V2 b = Some v2" "blk_Transactions b = []" "bs = empty_supplement"
      "\<forall>i < length (bd_Transactions v2). transfer_ok c s p (take i (bd_Transactions v2)) (bd_Transactions v2 ! i)"
      "ValidateHeader c s (Block_Header c b) = Ok ()"
    using accepted_block [OF assms] by metis
  show "bh_ParentID (Block_Header c b) = ci_ID (s_Index s)"
    using acc(5) by (auto simp: ValidateHeader_def split: if_splits)
  show ok: "\<forall>txn \<in> set (Block_V2Transactions b). \<exists>earlier. transfer_ok c s p earlier txn"
  proof
    fix txn assume "txn \<in> set (Block_V2Transactions b)"
    then obtain i where "i < length (bd_Transactions v2)" "txn = bd_Transactions v2 ! i"
      by (auto simp: Block_V2Transactions_def acc(1) in_set_conv_nth)
    then show "\<exists>earlier. transfer_ok c s p earlier txn" using acc(4) by blast
  qed
  then have proves: "is_proof txn \<longleftrightarrow> pays_proof c p txn" if "txn \<in> set (Block_V2Transactions b)" for txn
    using that by (auto simp: is_proof_def pays_proof_def transfer_ok_def)
  have "\<forall>txn \<in> set (Block_V2Transactions b). \<not> qdayUnsupported txn"
    using ok by (auto simp: transfer_ok_def)
  from apply_transfer_block [OF assms(2) acc(2) this, of c] obtain ms
    where "MidState_ApplyBlock c b empty_supplement (NewMidState s) = Ok ms" "ms_base ms = s" "wf_ms ms"
      "ms_qdayProved ms \<longleftrightarrow> (\<exists>txn \<in> set (Block_V2Transactions b). is_proof txn)" .
  then show "\<exists>ms. MidState_ApplyBlock c b bs (NewMidState s) = Ok ms \<and> wf_ms ms \<and>
      (ms_qdayProved ms \<longleftrightarrow> (\<exists>txn \<in> set (Block_V2Transactions b). pays_proof c p txn))"
    using proves by (simp add: acc(3))
qed

lemma accepted_step:
  assumes "ValidateBlock c s b bs = Ok ()" "ApplyBlock c s b bs t = Ok (s', au)" "running s p"
  shows "s_Network s' = s_Network s" "s_Index s' = \<lparr>ci_Height = childHeight s, ci_ID = Block_ID c b\<rparr>"
    "unat (s_TotalWork s') = unat (s_TotalWork s) + unat (s_Difficulty s)" "1 \<le> unat (s_Difficulty s')"
    "s_QdayHeight s' = (if s_QdayHeight s = 0 \<and> (\<exists>txn \<in> set (Block_V2Transactions b). pays_proof c p txn)
       then childHeight s + qd_ActivationDelay p else s_QdayHeight s)"
proof -
  have q: "qday_state s p" using assms(3) by (simp add: running_def)
  note acc = accepted_txns [OF assms(1) q]
  obtain ms acc' eau added s1 where run: "MidState_ApplyBlock c b bs (NewMidState s) = Ok ms"
      "ApplyHeader c (s\<lparr>s_SiafundTaxRevenue := ms_siafundTaxRevenue ms,
        s_Attestations := s_Attestations s + word_of_nat (length (ms_aes ms)),
        s_FoundationSubsidyAddress := ms_foundationSubsidy ms,
        s_FoundationManagementAddress := ms_foundationManagement ms, s_Elements := acc'\<rparr>) (Block_Header c b) t = Ok s1"
      "s' = (case n_Qday (s_Network s1) of
        None \<Rightarrow> s1
      | Some p \<Rightarrow> if s_QdayHeight s1 = 0 \<and> ms_qdayProved ms
          then s1\<lparr>s_QdayHeight := ci_Height (s_Index s1) + qd_ActivationDelay p\<rparr> else s1)"
    using ApplyBlock_Ok [OF assms(2)] by metis
  have proved: "ms_qdayProved ms \<longleftrightarrow> (\<exists>txn \<in> set (Block_V2Transactions b). pays_proof c p txn)"
    using acc(3) unfolding run(1) by blast
  have nz: "bh_ParentID (Block_Header c b) \<noteq> 0" using acc(1) assms(3) by (simp add: running_def)
  note frame = ApplyHeader_frame [OF run(2)]
  show "s_Network s' = s_Network s" using frame(2) run(3) by (simp split: option.splits)
  show "s_Index s' = \<lparr>ci_Height = childHeight s, ci_ID = Block_ID c b\<rparr>"
    using frame(4) frame(5) [OF nz] run(3)
    by (cases "s_Index s1") (simp add: childHeight_def Block_ID_def split: option.splits)
  show "s_QdayHeight s' = (if s_QdayHeight s = 0 \<and> (\<exists>txn \<in> set (Block_V2Transactions b). pays_proof c p txn)
       then childHeight s + qd_ActivationDelay p else s_QdayHeight s)"
  proof -
    have "n_Qday (s_Network s1) = Some p" "s_QdayHeight s1 = s_QdayHeight s" "ci_Height (s_Index s1) = childHeight s"
      using frame(1,2) frame(5) [OF nz] q by (simp_all add: childHeight_def qday_state_def)
    then show ?thesis unfolding run(3) proved [symmetric] by simp
  qed
  from ApplyHeader_fields [OF run(2)] obtain s0 where s0: "header_fields c (s\<lparr>s_SiafundTaxRevenue := ms_siafundTaxRevenue ms,
        s_Attestations := s_Attestations s + word_of_nat (length (ms_aes ms)),
        s_FoundationSubsidyAddress := ms_foundationSubsidy ms,
        s_FoundationManagementAddress := ms_foundationManagement ms, s_Elements := acc'\<rparr>) (Block_Header c b) t = Ok s0"
      "s_TotalWork s1 = s_TotalWork s0" "s_Difficulty s1 = s_Difficulty s0" "s_OakWork s1 = s_OakWork s0"
      "s_OakTime s1 = s_OakTime s0" "s_Index s1 = s_Index s0" .
  have "s_TotalWork s' = s_TotalWork s1" "s_Difficulty s' = s_Difficulty s1" using run(3) by (simp_all split: option.splits)
  then show "unat (s_TotalWork s') = unat (s_TotalWork s) + unat (s_Difficulty s)" "1 \<le> unat (s_Difficulty s')"
    using header_work [OF s0(1) nz] s0(2,3) assms(3) by (simp_all add: running_def childHeight_def)
qed

section \<open>Chains\<close>

text \<open>
  A number of blocks, each accepted in the state before it. Applying a block whose identifier is zero
  would make its child look like a genesis block, so such blocks are left out.
\<close>

inductive qday_chain :: "crypto \<Rightarrow> nat \<Rightarrow> State \<Rightarrow> State \<Rightarrow> bool" for c where
  chain_start: "qday_chain c 0 s s"
| chain_block: "qday_chain c n s s1 \<Longrightarrow> ValidateBlock c s1 b bs = Ok () \<Longrightarrow> ApplyBlock c s1 b bs t = Ok (s2, au) \<Longrightarrow>
    Block_ID c b \<noteq> 0 \<Longrightarrow> qday_chain c (Suc n) s s2"

inductive_cases qday_chain_0E: "qday_chain c 0 s s'"

inductive_cases qday_chain_SucE: "qday_chain c (Suc n) s s'"

lemma running_step:
  assumes "running s p" "s_Network s' = s_Network s" "s_Index s' = \<lparr>ci_Height = childHeight s, ci_ID = h\<rparr>" "h \<noteq> 0"
    "unat (childHeight s) + 1 < 2 ^ 64"
  shows "running s' p"
proof -
  have "childHeight s' = childHeight s + 1" using assms(3) by (simp add: childHeight_def)
  moreover have "unat (childHeight s + 1) = unat (childHeight s) + 1"
    using unat_add_lem [of "childHeight s" 1] assms(5) by simp
  ultimately show ?thesis using assms(1-4) by (auto simp: running_def qday_state_def word_le_nat_alt word_less_nat_alt)
qed

lemma chain_keeps:
  assumes "qday_chain c n s s'" "running s p" "unat (ci_Height (s_Index s)) + n + 1 < 2 ^ 64"
  shows "running s' p \<and> s_Network s' = s_Network s \<and> unat (ci_Height (s_Index s')) = unat (ci_Height (s_Index s)) + n \<and>
    (1 \<le> unat (s_Difficulty s) \<longrightarrow> 1 \<le> unat (s_Difficulty s') \<and> unat (s_TotalWork s) + n \<le> unat (s_TotalWork s'))"
  using assms
proof (induction rule: qday_chain.induct)
  case (chain_block n s s1 b bs t s2 au)
  have IH: "running s1 p" "s_Network s1 = s_Network s" "unat (ci_Height (s_Index s1)) = unat (ci_Height (s_Index s)) + n"
    "1 \<le> unat (s_Difficulty s) \<longrightarrow> 1 \<le> unat (s_Difficulty s1) \<and> unat (s_TotalWork s) + n \<le> unat (s_TotalWork s1)"
    using chain_block.IH chain_block.prems by auto
  note st = accepted_step [OF chain_block.hyps(2,3) IH(1)]
  have h: "unat (childHeight s1) = unat (ci_Height (s_Index s)) + Suc n"
    using chain_block.prems(2) IH(3) unfolding childHeight_def by (subst unat_add_lem [THEN iffD1]) simp_all
  have "running s2 p" using running_step [OF IH(1) st(1,2) chain_block.hyps(4)] h chain_block.prems(2) by simp
  then show ?case using st IH h by auto
qed simp

text \<open>Where the height of a chain comes from.\<close>

lemma chain_height:
  assumes "qday_chain c n s s'" "running s p" "unat (ci_Height (s_Index s)) + n + 1 < 2 ^ 64"
  shows "(s_QdayHeight s \<noteq> 0 \<longrightarrow> s_QdayHeight s' = s_QdayHeight s) \<and>
    (s_QdayHeight s' \<noteq> s_QdayHeight s \<longrightarrow> (\<exists>m < n. \<exists>s1 b bs. qday_chain c m s s1 \<and> s_QdayHeight s1 = 0 \<and>
       ValidateBlock c s1 b bs = Ok () \<and> (\<exists>txn \<in> set (Block_V2Transactions b). pays_proof c p txn) \<and>
       s_QdayHeight s' = childHeight s1 + qd_ActivationDelay p))"
  using assms
proof (induction rule: qday_chain.induct)
  case (chain_block n s s1 b bs t s2 au)
  have IH: "s_QdayHeight s \<noteq> 0 \<longrightarrow> s_QdayHeight s1 = s_QdayHeight s"
    "s_QdayHeight s1 \<noteq> s_QdayHeight s \<longrightarrow> (\<exists>m < n. \<exists>s2 b bs. qday_chain c m s s2 \<and> s_QdayHeight s2 = 0 \<and>
       ValidateBlock c s2 b bs = Ok () \<and> (\<exists>txn \<in> set (Block_V2Transactions b). pays_proof c p txn) \<and>
       s_QdayHeight s1 = childHeight s2 + qd_ActivationDelay p)"
    using chain_block.IH chain_block.prems by auto
  have run: "running s1 p" using chain_keeps [OF chain_block.hyps(1) chain_block.prems(1)] chain_block.prems(2) by simp
  note st = accepted_step(5) [OF chain_block.hyps(2,3) run]
  show ?case
  proof (cases "s_QdayHeight s1 = 0 \<and> (\<exists>txn \<in> set (Block_V2Transactions b). pays_proof c p txn)")
    case True
    then have "s_QdayHeight s2 = childHeight s1 + qd_ActivationDelay p" using st by simp
    moreover have "s_QdayHeight s = 0" using True IH(1) by auto
    ultimately show ?thesis using True chain_block.hyps(1,2) lessI by blast
  next
    case False
    then have "s_QdayHeight s2 = s_QdayHeight s1" using st by (simp only: if_False)
    then show ?thesis using IH less_SucI by metis
  qed
qed simp

end
