(* ===== verification/SampleBlock.thy ===== *)
theory SampleBlock
  imports Chain
begin

text \<open>
  A concrete accepted block of the QDAY network: a coinbase marker and a canary proof that spends a
  coin of the accumulator. It shows that the hypotheses of the block properties can hold.
\<close>

abbreviation sc :: crypto where "sc \<equiv> sample_crypto"

abbreviation sample_pair :: QdayKeys where "sample_pair \<equiv> qp_Public sample_keys"

definition sample_coin :: SiacoinElement where
  "sample_coin = \<lparr>sce_ID = 11, sce_StateElement = \<lparr>se_LeafIndex = 0, se_MerkleProof = []\<rparr>,
     sce_SiacoinOutput = \<lparr>sco_Value = NewCurrency 4007528410413793280 108420,
       sco_Address = QdayKeys_Address sc sample_pair\<rparr>,
     sce_MaturityHeight = 50\<rparr>"

definition sample_parent :: State where
  "sample_parent = (sample_state 0)\<lparr>s_Index := \<lparr>ci_Height = 100, ci_ID = 5\<rparr>, s_Difficulty := 1, s_OakWork := 1,
     s_TotalWork := 1,
     s_Elements := \<lparr>acc_Trees = (\<lambda>_. elementLeaf_hash sc (siacoinLeaf sc sample_coin False)), acc_NumLeaves = 1\<rparr>\<rparr>"

definition coinbase_marker :: V2Transaction where
  "coinbase_marker = empty_V2Transaction\<lparr>v2_ArbitraryData := QdayEnvelope_Encode
     \<lparr>env_Kind = QdayCoinbase, env_Nonce = 0, env_Keys = [sample_pair], env_Witness = 0\<rparr>\<rparr>"

definition proof_of :: "SatisfiedPolicy \<Rightarrow> V2Transaction" where
  "proof_of w = empty_V2Transaction\<lparr>
     v2_SiacoinInputs := [\<lparr>v2sci_Parent = sample_coin, v2sci_SatisfiedPolicy = w\<rparr>],
     v2_SiacoinOutputs := [\<lparr>sco_Value = NewCurrency 2003764205206896640 54210, sco_Address = 8\<rparr>],
     v2_ArbitraryData := QdayEnvelope_Encode
       \<lparr>env_Kind = QdayCanaryProof, env_Nonce = 0, env_Keys = [], env_Witness = 9\<rparr>,
     v2_MinerFee := NewCurrency 2003764205206896640 54210\<rparr>"

definition sample_witness :: SatisfiedPolicy where
  "sample_witness =
     (let h = InputSigHash sc sample_parent (proof_of \<lparr>sat_Policy = AnyoneCanSpend, sat_Signatures = [], sat_Preimages = []\<rparr>)
      in \<lparr>sat_Policy = QdayKeys_Policy sample_pair, sat_Signatures = [of_bytes64 (hash_bytes h)],
          sat_Preimages = map (chunk (hash_bytes h @ replicate (QdaySignatureSize - 32) 0)) [0..<QdaySignatureChunks]\<rparr>)"

definition canary_proof :: V2Transaction where
  "canary_proof = proof_of sample_witness"

definition sample_payout :: SiacoinOutput where
  "sample_payout = \<lparr>sco_Value = NewCurrency 18033877846862069760 487890, sco_Address = QdayKeys_Address sc sample_pair\<rparr>"

definition sample_block :: Block where
  "sample_block = \<lparr>blk_ParentID = 5, blk_Nonce = 0, blk_Timestamp = 0, blk_MinerPayouts = [sample_payout],
     blk_Transactions = [], blk_V2 = Some \<lparr>bd_Height = 101,
       bd_Commitment = Commitment sc sample_parent (QdayKeys_Address sc sample_pair) [] [coinbase_marker, canary_proof],
       bd_Transactions = [coinbase_marker, canary_proof]\<rparr>\<rparr>"

section \<open>The signature\<close>

lemma proof_sig_hash: "InputSigHash sc s (proof_of w) = InputSigHash sc s (proof_of v)"
proof -
  have "V2TransactionSemantics_EncodeTo (proof_of w) = V2TransactionSemantics_EncodeTo (proof_of v)"
    unfolding V2TransactionSemantics_EncodeTo_def
    by (simp add: proof_of_def empty_V2Transaction_def EncodeSlice_def)
  then show ?thesis by (simp add: InputSigHash_def split: option.split)
qed

lemma sample_signed:
  "Policy_Verify sc (sat_Policy sample_witness) height mt (InputSigHash sc sample_parent canary_proof)
     (sat_Signatures sample_witness) (sat_Preimages sample_witness) = Ok ()"
proof -
  define h where "h = InputSigHash sc sample_parent canary_proof"
  define sig where "sig = hash_bytes h @ replicate (QdaySignatureSize - 32) 0"
  have w: "sample_witness = \<lparr>sat_Policy = QdayKeys_Policy sample_pair, sat_Signatures = [of_bytes64 (hash_bytes h)],
      sat_Preimages = map (chunk sig) [0..<QdaySignatureChunks]\<rparr>"
    unfolding sample_witness_def Let_def sig_def h_def canary_proof_def
    using proof_sig_hash [of sample_parent sample_witness] by metis
  have "length sig = QdaySignatureSize" by (simp add: sig_def QdaySignatureSize_def)
  note ver = verifyQdayReserve_chunks [OF this]
  have "hybrid_signed sc h sample_pair [of_bytes64 (hash_bytes h)] (map (chunk sig) [0..<QdaySignatureChunks])"
    unfolding hybrid_signed_def
    by (simp add: ver PublicKey_VerifyHash_def) (simp add: sample_crypto_def sig_def)
  then show ?thesis unfolding h_def [symmetric] by (simp add: w Policy_Verify_native)
qed

section \<open>The block is accepted\<close>

lemma sample_parent_simps [simp]:
  "childHeight sample_parent = 101" "n_Qday (s_Network sample_parent) = Some sample_params"
  "s_QdayHeight sample_parent = 0" "s_Index sample_parent = \<lparr>ci_Height = 100, ci_ID = 5\<rparr>"
  "QdayActive sample_parent h = False" "QdayV1Active sample_parent 101 = False"
  "n_V2_RequireHeight (s_Network sample_parent) = 1" "n_V2_AllowHeight (s_Network sample_parent) = 1"
  "medianTimestamp sample_parent = Ok 0" "s_Difficulty sample_parent = 1" "NonceFactor sample_parent = 1"
  "n_V2_FinalCutHeight (s_Network sample_parent) = 1"
proof -
  have "sort (replicate 11 (0 :: Time)) = replicate 11 0" by (rule sorted_sort_id) simp
  then show "medianTimestamp sample_parent = Ok 0"
    by (simp add: medianTimestamp_def numTimestamps_def sample_parent_def sample_state_def childHeight_def Let_def)
  show "childHeight sample_parent = 101" by (simp add: childHeight_def sample_parent_def)
  show "n_Qday (s_Network sample_parent) = Some sample_params" by (simp add: sample_parent_def)
  then show "QdayV1Active sample_parent 101 = False" by (simp add: QdayV1Active_def sample_params_def)
  show "s_QdayHeight sample_parent = 0" by (simp add: sample_parent_def sample_state_def)
  then show "QdayActive sample_parent h = False" by (simp add: QdayActive_def)
qed (simp_all add: sample_parent_def sample_state_def sample_network_def manifest_network_def Let_def NonceFactor_def)

lemma marker_envelope:
  "ParseQdayEnvelope (v2_ArbitraryData coinbase_marker) =
     Ok \<lparr>env_Kind = QdayCoinbase, env_Nonce = 0, env_Keys = [sample_pair], env_Witness = 0\<rparr>"
  unfolding coinbase_marker_def
  by (simp add: Parse_Encode wf_envelope_def kind_defs sample_keys_def QdayKeys_Validate_def)

lemma proof_envelope:
  "ParseQdayEnvelope (v2_ArbitraryData canary_proof) =
     Ok \<lparr>env_Kind = QdayCanaryProof, env_Nonce = 0, env_Keys = [], env_Witness = 9\<rparr>"
  unfolding canary_proof_def proof_of_def by (simp add: Parse_Encode wf_envelope_def kind_defs)

lemma supported: "\<not> qdayUnsupported coinbase_marker" "\<not> qdayUnsupported canary_proof"
  by (simp_all add: qdayUnsupported_def coinbase_marker_def canary_proof_def proof_of_def empty_V2Transaction_def)

lemmas weigh_defs = V2SiacoinInput_EncodeTo_def SiacoinElement_EncodeTo_def StateElement_EncodeTo_def
  SatisfiedPolicy_EncodeTo_def SpendPolicy_EncodeTo_def V2SiacoinOutput_EncodeTo_def V2Currency_EncodeTo_def
  EncodeSlice_def Hash256_EncodeTo_def Signature_EncodeTo_def QdayEnvelope_Encode_def kind_defs

lemma canary_proof_fields:
  "v2_SiacoinInputs canary_proof = [\<lparr>v2sci_Parent = sample_coin, v2sci_SatisfiedPolicy = sample_witness\<rparr>]"
  "v2_SiacoinOutputs canary_proof = [\<lparr>sco_Value = NewCurrency 2003764205206896640 54210, sco_Address = 8\<rparr>]"
  "v2_MinerFee canary_proof = NewCurrency 2003764205206896640 54210"
  "v2_ArbitraryData canary_proof = QdayEnvelope_Encode
     \<lparr>env_Kind = QdayCanaryProof, env_Nonce = 0, env_Keys = [], env_Witness = 9\<rparr>"
  by (simp_all add: canary_proof_def proof_of_def)

lemma weights: "V2TransactionWeight coinbase_marker = 80" "V2TransactionWeight canary_proof = 8222"
proof -
  show "V2TransactionWeight coinbase_marker = 80"
    by (simp add: V2TransactionWeight_def coinbase_marker_def empty_V2Transaction_def weigh_defs)
  show "V2TransactionWeight canary_proof = 8222"
    using supported_fields [OF supported(2)]
    by (simp add: V2TransactionWeight_def canary_proof_fields weigh_sci_def weigh_defs sample_witness_def Let_def o_def sum_list_triv QdaySignatureChunks_def QdaySignatureSize_def QdayKeys_Policy_def
      WriteUint64_def WriteUint8_def length_concat no_proof_def)
qed

lemma sample_contained: "containsUnspentSiacoinElement sc (s_Elements sample_parent) sample_coin"
  by (simp add: containsUnspentSiacoinElement_def containsLeaf_def hasTreeAtHeight_def sample_parent_def siacoinLeaf_def
    sample_coin_def elementLeaf_proofRoot_def proofRoot_def)

lemma sample_coin_value: "QdayValue sample_parent sample_coin 101 = Ok (NewCurrency 4007528410413793280 108420)"
  by (simp add: QdayValue_def sample_coin_def)

lemma sample_sums:
  "Currency_Add ZeroCurrency v = Ok v"
  "Currency_Add (NewCurrency 2003764205206896640 54210) (NewCurrency 2003764205206896640 54210) =
     Ok (NewCurrency 4007528410413793280 108420)"
  "\<not> Currency_IsZero (NewCurrency 2003764205206896640 54210)"
  by (simp_all add: cur.add_iff IsZero_iff)

lemma Add_no_overflow: "Currency_Add a b = Ok r \<Longrightarrow> Currency_AddWithOverflow a b = (r, False)"
  by (auto simp: Currency_Add_def split: prod.splits if_splits)

lemma canary_verified: "VerifyQdayProof sc (qd_Canary sample_params) 9"
  by (simp add: VerifyQdayProof_def sample_params_def) (simp add: sample_crypto_def)

lemma canary_proof_valid:
  assumes "ms_base ms = sample_parent" "dom (ms_spends ms) = {}" "\<not> ms_qdayProved ms"
  shows "ValidateV2Transaction sc ms canary_proof = Ok ()"
proof -
  note f = canary_proof_fields supported_fields [OF supported(2)]
  have native: "IsQdayNativePolicy (sat_Policy sample_witness)"
    unfolding IsQdayNativePolicy_iff by (auto simp: sample_witness_def Let_def)
  have q: "validateQdayTransaction sc ms canary_proof = Ok ()"
    unfolding validateQdayTransaction_def proof_envelope rbind.simps
    using assms native supported(2) canary_verified
    by (simp add: canary_proof_fields(1-3) kind_defs Let_def) (simp add: sample_params_def)
  have addr: "Policy_Address sc (sat_Policy sample_witness) = QdayKeys_Address sc sample_pair"
    by (simp only: sample_witness_def Let_def SatisfiedPolicy.simps QdayKeys_Address_def)
  have input: "check_siacoin_input sc ms (InputSigHash sc sample_parent canary_proof)
      \<lparr>v2sci_Parent = sample_coin, v2sci_SatisfiedPolicy = sample_witness\<rparr> {} = Ok {11}"
    using assms sample_contained
    by (simp add: check_siacoin_input_def Let_def isSpent_def validateV2SpendPolicy_def)
      (simp add: sample_coin_def UnassignedLeafIndex_def sample_signed addr)
  have sia: "validateV2Siacoins sc ms canary_proof = Ok ()"
    using assms input sample_coin_value by (simp add: validateV2Siacoins_def f v2_input_sum_def v2_output_sum_def sample_sums)
  have "validateV2CurrencyOverflow canary_proof = Ok ()"
    by (simp add: validateV2CurrencyOverflow_def f add_outputs_def add_checked_def sample_sums(1,2) [THEN Add_no_overflow])
  then show ?thesis using assms q sia
    by (simp add: ValidateV2Transaction_def weights MaxBlockWeight_def validateV2Siafunds_def validateV2FileContracts_def
      validateAttestations_def validateFoundationUpdate_def f)
qed

lemma marker_is_ok: "marker_ok coinbase_marker"
proof -
  have "\<not> is_proof coinbase_marker" by (simp add: is_proof_def marker_envelope kind_defs)
  then show ?thesis using supported(1) by (simp add: marker_ok_def coinbase_marker_def empty_V2Transaction_def)
qed

lemma sample_qday_state: "qday_state sample_parent sample_params"
proof -
  have "n_V2_EphemeralOutputHeight (s_Network sample_parent) = 1"
    by (simp add: sample_parent_def sample_state_def sample_network_def manifest_network_def Let_def)
  then show ?thesis by (simp add: qday_state_def)
qed

lemma sample_transactions_valid:
  obtains ms where "check_v2_transactions sc sample_parent [coinbase_marker, canary_proof] (NewMidState sample_parent) = Ok ms"
proof -
  let ?ms = "NewMidState sample_parent"
  have base: "ms_base ?ms = sample_parent" "dom (ms_spends ?ms) = {}" "\<not> ms_qdayProved ?ms" by (simp_all add: NewMidState_def)
  have net: "n_Qday (s_Network (ms_base ?ms)) \<noteq> None" by (simp add: base)
  obtain ms1 where ms1: "ApplyV2Transaction sc coinbase_marker ?ms = Ok ms1" "wf_ms ms1" "ms_base ms1 = sample_parent"
      "dom (ms_spends ms1) = {}" "\<not> ms_qdayProved ms1"
    by (rule apply_transfer [OF wf_NewMidState supported(1) net, of sc])
      (use marker_is_ok base in \<open>auto simp: marker_ok_def input_ids_def\<close>)
  have "n_Qday (s_Network (ms_base ms1)) \<noteq> None" by (simp add: ms1(3))
  from apply_transfer [OF ms1(2) supported(2) this, of sc] obtain ms2 where "ApplyV2Transaction sc canary_proof ms1 = Ok ms2" .
  then show thesis using that [of ms2] ms1(1) canary_proof_valid [OF ms1(3-5)]
    by (simp add: check_v2_transactions_def enum_res_def is_marker_def)
qed

lemma sample_block_accepted: "ValidateBlock sc sample_parent sample_block empty_supplement = Ok ()"
proof -
  have markers: "validateQdayBlockMarkers sc sample_parent sample_block = Ok ()"
    using supported(1) marker_is_ok
    by (simp add: validateQdayBlockMarkers_def sample_block_def marker_envelope sample_payout_def marker_ok_def IsZero_iff)
  have pow: "PoWTarget sample_parent = Ok (- 1)"
    by (simp add: PoWTarget_def invTarget_eq)
  have hdr: "ValidateHeader sc sample_parent (Block_Header sc sample_block) = Ok ()"
    by (simp add: ValidateHeader_def Block_Header_def sample_block_def pow BlockID_CmpWork_def)
  have pay: "validateMinerPayouts sample_parent sample_block = Ok ()"
  proof -
    have "BlockReward sample_parent = Ok (NewCurrency 16030113641655173120 433680)"
      by (simp add: BlockReward_def sample_params_def)
    moreover have "add_fee m (v2_MinerFee coinbase_marker) v = Ok v" for m v
      using marker_is_ok by (simp add: add_fee_Ok marker_ok_def)
    moreover have "add_fee m (v2_MinerFee canary_proof) (NewCurrency 16030113641655173120 433680) = Ok (sco_Value sample_payout)"
      for m by (simp add: add_fee_Ok canary_proof_fields sample_payout_def)
    moreover have "add_fee m v ZeroCurrency = Ok v" for m v by (simp add: add_fee_Ok)
    ultimately show ?thesis by (simp add: validateMinerPayouts_def sample_block_def)
  qed
  have "ValidateOrphan sc sample_parent sample_block = Ok ()"
    using hdr pay by (simp add: ValidateOrphan_def Block_V2Transactions_def sample_block_def weights MaxBlockWeight_def)
  moreover have "validateSupplement sc sample_parent sample_block empty_supplement = Ok ()"
    by (simp add: validateSupplement_def empty_supplement_def sample_block_def)
  moreover obtain ms where
      "check_v2_transactions sc sample_parent [coinbase_marker, canary_proof] (NewMidState sample_parent) = Ok ms"
    using sample_transactions_valid .
  moreover have "blk_Transactions sample_block = []" "blk_MinerPayouts sample_block = [sample_payout]"
      "Block_V2Transactions sample_block = [coinbase_marker, canary_proof]"
    by (simp_all add: sample_block_def Block_V2Transactions_def)
  moreover obtain v2 where "blk_V2 sample_block = Some v2"
      "bd_Commitment v2 = Commitment sc sample_parent (sco_Address sample_payout) [] [coinbase_marker, canary_proof]"
    by (simp add: sample_block_def sample_payout_def)
  ultimately show ?thesis using markers by (simp add: ValidateBlock_def enum_res_def index_res_def)
qed

end
