(* ===== verification/SampleChain.thy ===== *)
theory SampleChain
  imports SampleBlock
begin

text \<open>The sample block applied: a chain of one accepted block that activates the decay.\<close>

section \<open>Updating leaves that are trees of their own\<close>

lemma update_trees_Ok:
  assumes "\<forall>h \<in> set hs. \<exists>t. update_tree c h (filter (\<lambda>l. length (el_MerkleProof l) = h) leaves) = Ok t"
  shows "\<exists>ts. update_trees c hs leaves = Ok ts"
  using assms by (induction hs) (auto simp: res_simps)

lemma updateLeaves_single:
  assumes "length leaves \<le> 1" "\<forall>l \<in> set leaves. el_MerkleProof l = []"
  shows "\<exists>ts. updateLeaves c leaves = Ok ts"
proof -
  have s: "sort_leaves leaves = leaves" using assms(1) by (cases leaves) (auto simp: sort_leaves_def)
  have "\<exists>t. update_tree c h (filter (\<lambda>l. length (el_MerkleProof l) = h) leaves) = Ok t" for h
    using assms by (cases leaves; cases h) (auto simp: update_tree_def)
  then show ?thesis using assms(2) update_trees_Ok [of "[0..<64]" c leaves] by (simp add: updateLeaves_def s)
qed

section \<open>Applying the sample block\<close>

lemma byte_sum_ge:
  assumes "b \<in> set bs" "length bs < 2 ^ 64"
  shows "unat b \<le> unat (byte_sum bs)"
proof -
  have "sum_list (map unat bs) \<le> length bs * 256"
    using sum_list_mono [of bs unat "\<lambda>_. 256"] unsigned_less [where 'b = 8 and 'a = nat]
    by (simp add: sum_list_triv less_imp_le)
  then have "unat (byte_sum bs) = sum_list (map unat bs)"
    unfolding byte_sum_def using assms(2) by (intro unat_of_nat_hash) simp
  then show ?thesis using assms(1) by (simp add: member_le_sum_list)
qed

lemma byte_sum_nonzero:
  assumes "b \<in> set bs" "b \<noteq> 0" "length bs < 2 ^ 64"
  shows "byte_sum bs \<noteq> 0"
  using byte_sum_ge [OF assms(1,3)] assms(2) by (metis le_zero_eq unat_eq_zero)

lemma sample_block_id: "Block_ID sc sample_block \<noteq> 0"
proof -
  have "Block_ID sc sample_block = byte_sum (hash_bytes 5 @ le64 0 @ le64 (uint64 (Time_Unix 0)) @
      hash_bytes (Commitment sc sample_parent (QdayKeys_Address sc sample_pair) [] [coinbase_marker, canary_proof]))"
    by (simp add: Block_ID_def BlockHeader_ID_def Block_Header_def sample_block_def HashBytes_def)
      (simp add: sample_crypto_def)
  moreover have "(5 :: byte) \<in> set (hash_bytes 5)" using le_bytes.simps(2) [of 31 5] by (simp add: hash_bytes_def be_bytes_def)
  ultimately show ?thesis using byte_sum_nonzero [of 5] by simp
qed

text \<open>At most one coin has a leaf already, and all proofs are empty.\<close>

definition few_leaves :: "MidState \<Rightarrow> bool" where
  "few_leaves ms \<longleftrightarrow>
     length (filter (\<lambda>d. se_LeafIndex (sce_StateElement (sced_SiacoinElement d)) \<noteq> UnassignedLeafIndex) (ms_sces ms)) \<le> 1 \<and>
     (\<forall>d \<in> set (ms_sces ms). se_MerkleProof (sce_StateElement (sced_SiacoinElement d)) = []) \<and>
     ms_sfes ms = [] \<and> ms_fces ms = [] \<and> ms_v2fces ms = [] \<and> ms_aes ms = []"

lemma filter_update: "\<not> P y \<Longrightarrow> length (filter P (xs[i := y])) \<le> length (filter P xs)"
  by (induction xs arbitrary: i) (auto split: nat.split intro: le_SucI)

lemma few_put:
  assumes "few_leaves ms" "sce_StateElement (sced_SiacoinElement d) = unassigned"
  shows "few_leaves (ms\<lparr>ms_sces := (ms_sces ms)[i := d]\<rparr>)"
proof -
  have "length (filter (\<lambda>d. se_LeafIndex (sce_StateElement (sced_SiacoinElement d)) \<noteq> UnassignedLeafIndex)
      ((ms_sces ms)[i := d])) \<le> 1"
    using filter_update [of "\<lambda>d. se_LeafIndex (sce_StateElement (sced_SiacoinElement d)) \<noteq> UnassignedLeafIndex" d "ms_sces ms" i]
      assms by (simp add: few_leaves_def unassigned_def)
  then show ?thesis using assms set_update_subset_insert [of "ms_sces ms" i d]
    by (auto simp: few_leaves_def unassigned_def)
qed

lemma few_create:
  assumes "few_leaves ms" "createSiacoinElement eid sco ms = Ok (i, ms')"
  shows "few_leaves ms'" "i < length (ms_sces ms') \<Longrightarrow> sce_StateElement (sced_SiacoinElement (ms_sces ms' ! i)) = unassigned"
proof -
  obtain ms1 where r: "recordSiacoinElement eid ms = Ok (i, ms1)"
    and ms': "ms' = ms1\<lparr>ms_sces := (ms_sces ms1)[i := (ms_sces ms1 ! i)\<lparr>sced_SiacoinElement := new_coin (ms_base ms1) eid sco,
      sced_Created := True\<rparr>]\<rparr>"
    using assms(2) by (auto simp: createSiacoinElement_def res_simps new_coin_def Let_def)
  let ?d = "(ms_sces ms1 ! i)\<lparr>sced_SiacoinElement := new_coin (ms_base ms1) eid sco, sced_Created := True\<rparr>"
  have d: "sce_StateElement (sced_SiacoinElement ?d) = unassigned" by (simp add: new_coin_def)
  show "few_leaves ms'"
  proof (cases "ms_elements ms eid")
    case None
    then have "ms1 = ms\<lparr>ms_sces := ms_sces ms @ [zero_sced], ms_elements := (ms_elements ms)(eid \<mapsto> length (ms_sces ms))\<rparr>"
        "i = length (ms_sces ms)"
      using r by (auto simp: recordSiacoinElement_def Let_def)
    then show ?thesis using assms(1) d by (auto simp: ms' few_leaves_def unassigned_def)
  next
    case (Some j)
    then have "ms1 = ms" using r by (auto simp: recordSiacoinElement_def split: if_splits)
    then show ?thesis unfolding ms' using few_put [OF assms(1) d] by simp
  qed
  show "i < length (ms_sces ms') \<Longrightarrow> sce_StateElement (sced_SiacoinElement (ms_sces ms' ! i)) = unassigned"
    using d by (simp add: ms')
qed

lemma few_immature:
  assumes "few_leaves ms" "wf_ms ms" "createImmatureSiacoinElement eid sco ms = Ok ms'"
  shows "few_leaves ms'"
proof -
  obtain i ms1 where ms1: "createSiacoinElement eid sco ms = Ok (i, ms1)" "same_frame ms ms1" "ms_elements ms1 eid = Some i"
    using create_coin [OF assms(2)] by metis
  then have "i < length (ms_sces ms1)" by (auto simp: same_frame_def intro: wf_less)
  then show ?thesis using assms(3) ms1(1) few_put [OF few_create(1) [OF assms(1) ms1(1)]] few_create(2) [OF assms(1) ms1(1)]
    by (auto simp: createImmatureSiacoinElement_def Let_def)
qed

lemma number_leaves_elements [simp]: "map el_StateElement (number_leaves ls) = map el_StateElement ls"
  by (rule nth_equalityI) (simp_all add: number_leaves_def nth_enumerate_eq split_beta)

lemma few_applied:
  assumes "few_leaves ms" "cie_StateElement (ms_cie ms) = unassigned"
  shows "length (filter (\<lambda>l. el_LeafIndex l \<noteq> UnassignedLeafIndex) (forEachAppliedElement c ms)) \<le> 1 \<and>
    (\<forall>l \<in> set (forEachAppliedElement c ms). el_MerkleProof l = [])"
proof -
  define es where "es = map (\<lambda>d. sce_StateElement (sced_SiacoinElement d)) (ms_sces ms) @ [unassigned]"
  have es: "map el_StateElement (forEachAppliedElement c ms) = es"
    using assms by (simp add: few_leaves_def forEachAppliedElement_def es_def siacoinLeaf_def chainIndexLeaf_def comp_def)
  have "length (filter (\<lambda>l. el_LeafIndex l \<noteq> UnassignedLeafIndex) (forEachAppliedElement c ms)) =
      length (filter (\<lambda>e. se_LeafIndex e \<noteq> UnassignedLeafIndex) es)"
    unfolding es [symmetric] by (simp add: filter_map comp_def)
  also have "\<dots> \<le> 1" using assms(1) by (simp add: es_def few_leaves_def filter_map comp_def unassigned_def)
  finally have few: "length (filter (\<lambda>l. el_LeafIndex l \<noteq> UnassignedLeafIndex) (forEachAppliedElement c ms)) \<le> 1" .
  have "\<forall>e \<in> set es. se_MerkleProof e = []" using assms(1) by (auto simp: es_def few_leaves_def unassigned_def)
  then have "\<forall>l \<in> set (forEachAppliedElement c ms). el_MerkleProof l = []" unfolding es [symmetric] by simp
  then show ?thesis using few by simp
qed

lemma sample_mid:
  obtains ms where "MidState_ApplyBlock sc sample_block empty_supplement (NewMidState sample_parent) = Ok ms"
    "few_leaves ms" "cie_StateElement (ms_cie ms) = unassigned"
proof -
  let ?ms = "NewMidState sample_parent" and ?oid = "V2Transaction_SiacoinOutputID sc (V2Transaction_ID sc canary_proof) 0"
  note f = canary_proof_fields supported_fields [OF supported(1)] supported_fields [OF supported(2)]
  have m: "v2_SiacoinInputs coinbase_marker = []" "v2_SiacoinOutputs coinbase_marker = []"
    using marker_is_ok by (simp_all add: marker_ok_def)
  have net: "n_Qday (s_Network (ms_base ?ms)) = Some sample_params" by (simp add: NewMidState_def)
  have marker: "ApplyV2Transaction sc coinbase_marker ?ms = Ok ?ms"
    by (simp add: ApplyV2Transaction_def marker_envelope f m create_siacoins_def enum_res_def kind_defs)
  obtain ms1 where ms1: "spendSiacoinElement sample_coin (V2Transaction_ID sc canary_proof) (?ms\<lparr>ms_qdayProved := True\<rparr>) = Ok ms1"
      "few_leaves ms1" "wf_ms ms1" "ms_base ms1 = sample_parent"
    by (simp add: spendSiacoinElement_def recordSiacoinElement_def NewMidState_def few_leaves_def wf_ms_def zero_sced_def Let_def
      sample_coin_def inj_on_def)
  obtain i ms2 where ms2: "createSiacoinElement ?oid (hd (v2_SiacoinOutputs canary_proof)) ms1 = Ok (i, ms2)" "same_frame ms1 ms2"
    using create_coin [OF ms1(3)] by metis
  have spend: "ApplyV2Transaction sc canary_proof ?ms = Ok ms2"
    unfolding ApplyV2Transaction_def proof_envelope using net ms1(1) ms2(1)
    by (simp add: f(1-3) supported_fields [OF supported(2)] create_siacoins_def enum_res_def kind_defs Let_def)
  have ms2': "few_leaves ms2" "wf_ms ms2" "ms_base ms2 = sample_parent"
    using few_create(1) [OF ms1(2) ms2(1)] ms2(2) ms1(4) by (simp_all add: same_frame_def)
  let ?pid = "BlockID_MinerOutputID sc (Block_ID sc sample_block) 0"
  obtain ms3 where ms3: "createImmatureSiacoinElement ?pid sample_payout ms2 = Ok ms3" "same_frame ms2 ms3"
    using create_immature_coin [OF ms2'(2)] by metis
  let ?cie = "\<lparr>cie_ID = Block_ID sc sample_block, cie_StateElement = unassigned,
    cie_ChainIndex = \<lparr>ci_Height = 101, ci_ID = Block_ID sc sample_block\<rparr>\<rparr>"
  have block: "blk_Transactions sample_block = []" "blk_MinerPayouts sample_block = [sample_payout]"
      "Block_V2Transactions sample_block = [coinbase_marker, canary_proof]"
    by (simp_all add: sample_block_def Block_V2Transactions_def)
  have "MidState_ApplyBlock sc sample_block empty_supplement ?ms = Ok (ms3\<lparr>ms_cie := ?cie\<rparr>)"
    using marker spend ms3 ms2'(3) by (simp add: MidState_ApplyBlock_def block enum_res_def create_immature_def
      empty_supplement_def FoundationSubsidy_def same_frame_def Let_def)
  moreover have "few_leaves (ms3\<lparr>ms_cie := ?cie\<rparr>)"
    using few_immature [OF ms2'(1,2) ms3(1)] by (simp add: few_leaves_def)
  ultimately show thesis using that by simp
qed

lemma sample_bounds: "work_bounds (sample_parent\<lparr>s_SiafundTaxRevenue := a, s_Attestations := b,
    s_FoundationSubsidyAddress := d, s_FoundationManagementAddress := e, s_Elements := acc\<rparr>)"
  by (simp add: work_bounds_def sample_parent_def sample_state_def)

lemma sample_block_applies: obtains s' au where "ApplyBlock sc sample_parent sample_block empty_supplement t = Ok (s', au)"
proof -
  obtain ms where ms: "MidState_ApplyBlock sc sample_block empty_supplement (NewMidState sample_parent) = Ok ms"
      "few_leaves ms" "cie_StateElement (ms_cie ms) = unassigned"
    using sample_mid .
  let ?upd = "filter (\<lambda>l. el_LeafIndex l \<noteq> UnassignedLeafIndex) (forEachAppliedElement sc ms)"
  obtain ts where "updateLeaves sc ?upd = Ok ts"
    using updateLeaves_single [of ?upd sc] few_applied [OF ms(2,3), of sc] by auto
  then obtain acc eau added where acc: "ElementAccumulator_applyBlock sc (s_Elements sample_parent) ?upd
      (filter (\<lambda>l. el_LeafIndex l = UnassignedLeafIndex) (forEachAppliedElement sc ms)) = Ok (acc, eau, added)"
    by (simp add: ElementAccumulator_applyBlock_def Let_def)
  let ?s = "sample_parent\<lparr>s_SiafundTaxRevenue := ms_siafundTaxRevenue ms,
    s_Attestations := s_Attestations sample_parent + word_of_nat (length (ms_aes ms)),
    s_FoundationSubsidyAddress := ms_foundationSubsidy ms, s_FoundationManagementAddress := ms_foundationManagement ms, s_Elements := acc\<rparr>"
  have child: "childHeight ?s = 101" by (simp add: childHeight_def)
  have parent: "ci_ID (s_Index ?s) = bh_ParentID (Block_Header sc sample_block)" "bh_ParentID (Block_Header sc sample_block) \<noteq> 0"
    by (simp_all add: Block_Header_def sample_block_def)
  have heights: "n_V2_AllowHeight (s_Network ?s) \<le> childHeight ?s" "n_V2_FinalCutHeight (s_Network ?s) \<le> childHeight ?s"
    unfolding child by simp_all
  from header_total [OF sample_bounds heights parent] obtain s' where "ApplyHeader sc ?s (Block_Header sc sample_block) t = Ok s'" .
  then show thesis using that ms(1) acc by (simp add: ApplyBlock_def Let_def sample_block_def)
qed

lemma sample_running: "running sample_parent sample_params"
  using sample_qday_state by (simp add: running_def)

lemma sample_chain: obtains s' where "qday_chain sc 1 sample_parent s'" "s_QdayHeight s' = 107"
proof -
  obtain s' au where s': "ApplyBlock sc sample_parent sample_block empty_supplement 0 = Ok (s', au)"
    using sample_block_applies .
  then have "qday_chain sc (Suc 0) sample_parent s'"
    using chain_block [OF chain_start sample_block_accepted _ sample_block_id] by blast
  moreover have "pays_proof sc sample_params canary_proof"
    unfolding pays_proof_def proof_envelope using canary_verified
    by (simp add: canary_proof_fields(3)) (simp add: sample_params_def)
  then have "s_QdayHeight s' = 101 + qd_ActivationDelay sample_params"
    using accepted_step(5) [OF sample_block_accepted s' sample_running] by (simp add: Block_V2Transactions_def sample_block_def)
  ultimately show thesis using that by (simp add: sample_params_def)
qed

end
