(* ===== verification/BlockProperties.thy ===== *)
theory BlockProperties
  imports SampleChain
begin

text \<open>The properties of blocks and chains that follow from the rules for headers and transactions.\<close>

lemma accepted_sums:
  assumes "\<forall>txn \<in> set txns. outs txn + fee txn \<le> (ins txn :: nat)"
  shows "sum_list (map outs txns) + sum_list (map fee txns) \<le> sum_list (map ins txns)"
  using assms by (induction txns) auto

section \<open>Accepted blocks\<close>

text \<open>C1: conservation of value. A block that the QDAY network accepts pays exactly one payout, of the
  block reward plus all fees. No transaction of it creates more value, fee included, than its inputs are
  worth at the height of the block after decay, so the coins that the block creates never exceed the
  coins that it destroys by more than the reward.\<close>

theorem accepted_blocks_conserve_value:
  assumes "ValidateBlock c s b bs = Ok ()" "qday_state s p"
  shows "\<exists>mp reward. blk_MinerPayouts b = [mp] \<and> BlockReward s = Ok reward \<and>
    cval (sco_Value mp) = cval reward + sum_list (map (\<lambda>txn. cval (v2_MinerFee txn)) (Block_V2Transactions b)) \<and>
    (\<forall>txn \<in> set (Block_V2Transactions b).
       outputs_value txn + cval (v2_MinerFee txn) \<le> sum_list (map (coin_value s (childHeight s)) (v2_SiacoinInputs txn))) \<and>
    sum_list (map outputs_value (Block_V2Transactions b)) + cval (sco_Value mp)
      \<le> cval reward + sum_list (map (\<lambda>txn. sum_list (map (coin_value s (childHeight s)) (v2_SiacoinInputs txn)))
          (Block_V2Transactions b))"
proof -
  obtain v2 mp reward where b: "blk_V2 b = Some v2" "blk_MinerPayouts b = [mp]" "BlockReward s = Ok reward"
    "cval (sco_Value mp) = cval reward + sum_list (map (\<lambda>txn. cval (v2_MinerFee txn)) (bd_Transactions v2))"
    using accepted_block [OF assms] by metis
  have txns: "Block_V2Transactions b = bd_Transactions v2" by (simp add: Block_V2Transactions_def b(1))
  have each: "\<forall>txn \<in> set (Block_V2Transactions b).
      outputs_value txn + cval (v2_MinerFee txn) \<le> sum_list (map (coin_value s (childHeight s)) (v2_SiacoinInputs txn))"
    using accepted_txns(2) [OF assms] by (auto simp: transfer_ok_def)
  show ?thesis using b(2-4) each accepted_sums [OF each] by (simp add: txns)
qed

theorem accepted_blocks_conserve_value_witness:
  "\<exists>mp reward. blk_MinerPayouts sample_block = [mp] \<and> BlockReward sample_parent = Ok reward \<and>
    sum_list (map outputs_value (Block_V2Transactions sample_block)) + cval (sco_Value mp)
      \<le> cval reward + sum_list (map (\<lambda>txn. sum_list (map (coin_value sample_parent (childHeight sample_parent)) (v2_SiacoinInputs txn)))
          (Block_V2Transactions sample_block))"
  using accepted_blocks_conserve_value [OF sample_block_accepted sample_qday_state] by blast

text \<open>C2: no double spend. Over all transactions of an accepted block no coin is named by two inputs, and
  every input names a mature coin that is unspent in the accumulator before the block, or that is
  exactly an output of an earlier transaction of the block.\<close>

theorem accepted_blocks_spend_once:
  assumes "ValidateBlock c s b bs = Ok ()" "qday_state s p"
  shows "distinct (concat (map input_ids (Block_V2Transactions b))) \<and>
    (\<forall>i < length (Block_V2Transactions b). \<forall>sci \<in> set (v2_SiacoinInputs (Block_V2Transactions b ! i)).
       spendable_input c s (take i (Block_V2Transactions b)) sci)"
proof -
  obtain v2 where b: "blk_V2 b = Some v2" "distinct (concat (map input_ids (bd_Transactions v2)))"
    "\<forall>i < length (bd_Transactions v2). transfer_ok c s p (take i (bd_Transactions v2)) (bd_Transactions v2 ! i)"
    using accepted_block [OF assms] by metis
  then show ?thesis by (simp add: Block_V2Transactions_def transfer_ok_def)
qed

theorem accepted_blocks_spend_once_witness:
  "distinct (concat (map input_ids (Block_V2Transactions sample_block))) \<and>
    spendable_input sc sample_parent [coinbase_marker] \<lparr>v2sci_Parent = sample_coin, v2sci_SatisfiedPolicy = sample_witness\<rparr>"
proof -
  have txns: "Block_V2Transactions sample_block = [coinbase_marker, canary_proof]"
    by (simp add: Block_V2Transactions_def sample_block_def)
  note once = accepted_blocks_spend_once [OF sample_block_accepted sample_qday_state, unfolded txns]
  have "spendable_input sc sample_parent [coinbase_marker] \<lparr>v2sci_Parent = sample_coin, v2sci_SatisfiedPolicy = sample_witness\<rparr>"
    using once [THEN conjunct2, THEN spec, of 1] by (simp add: canary_proof_fields)
  then show ?thesis using once unfolding txns by blast
qed

text \<open>C3: every spend is hybrid. Each input of each transaction of an accepted block reveals a policy whose
  address is the address of the coin, the policy is a native key pair or a branch of an atomic swap,
  and the witness holds an Ed25519 and an SLH-DSA signature of the transaction under its two keys.\<close>

theorem accepted_blocks_are_signed:
  assumes "ValidateBlock c s b bs = Ok ()" "qday_state s p" "txn \<in> set (Block_V2Transactions b)" "sci \<in> set (v2_SiacoinInputs txn)"
  shows "hybrid_input c (InputSigHash c s txn) sci"
  using accepted_txns(2) [OF assms(1,2)] assms(3,4) by (auto simp: transfer_ok_def)

theorem accepted_blocks_are_signed_witness:
  "hybrid_input sc (InputSigHash sc sample_parent canary_proof) \<lparr>v2sci_Parent = sample_coin, v2sci_SatisfiedPolicy = sample_witness\<rparr>"
  by (rule accepted_blocks_are_signed [OF sample_block_accepted sample_qday_state])
    (simp_all add: Block_V2Transactions_def sample_block_def canary_proof_fields)

text \<open>C6: applying an accepted block. \<^verbatim>\<open>MidState.ApplyBlock\<close> never panics on a block that was accepted, and
  it leaves every index of the map of recorded elements within the coins it recorded, no two elements
  sharing an entry.\<close>

theorem accepted_blocks_apply:
  assumes "ValidateBlock c s b bs = Ok ()" "qday_state s p"
  shows "\<exists>ms. MidState_ApplyBlock c b bs (NewMidState s) = Ok ms \<and> wf_ms ms"
  using accepted_txns(3) [OF assms] by blast

theorem accepted_blocks_apply_witness:
  "\<exists>ms. MidState_ApplyBlock sc sample_block empty_supplement (NewMidState sample_parent) = Ok ms \<and> wf_ms ms"
  by (rule accepted_blocks_apply [OF sample_block_accepted sample_qday_state])

section \<open>Headers\<close>

text \<open>C17: difficulty. While the work of the state is within its bounds the difficulty rule never panics; the
  new difficulty is the hash rate estimate times the target interval, rounded to nearest, clamped to
  the old difficulty plus or minus the larger of 0.4 percent and one, and never zero.\<close>

theorem difficulty_is_clamped:
  assumes "work_bounds s"
  shows "\<exists>d. adjustDifficultyFinalCut s t = Ok d \<and>
    unat d = max 1 (max (unat (s_Difficulty s) - max_adjust s) (min (unat (s_Difficulty s) + max_adjust s)
       ((unat (s_OakWork s) * unat (uint64 (target_interval s t)) + unat (uint64 (go_div (s_OakTime s) 2)))
          div nat (max (s_OakTime s) 1))))"
proof -
  have "0 < s_Difficulty s" "unat (s_Difficulty s) < 2 ^ 255" "s_OakTime s < 2 ^ 63" "unat (s_OakWork s) < 2 ^ 191"
    using assms by (simp_all add: work_bounds_def)
  then show ?thesis using final_cut_value by metis
qed

theorem difficulty_is_clamped_witness:
  "\<exists>d. adjustDifficultyFinalCut sample_parent 0 = Ok d \<and> 1 \<le> unat d \<and> unat d \<le> 2"
proof -
  have "work_bounds sample_parent" "unat (s_Difficulty sample_parent) = 1" "max_adjust sample_parent = 1"
    by (simp_all add: work_bounds_def sample_parent_def sample_state_def max_adjust_def)
  then show ?thesis using difficulty_is_clamped [of sample_parent 0] by auto
qed

text \<open>C18: headers. While the work is within its bounds, \<^verbatim>\<open>ApplyHeader\<close> never panics on a child header: the
  total work grows by the difficulty of the parent, the Oak estimate loses half a percent and gains
  that difficulty, and the tip moves to the header.\<close>

theorem child_headers_apply:
  assumes "work_bounds s" "running s p" "bh_ParentID bh = ci_ID (s_Index s)"
  shows "\<exists>s'. ApplyHeader c s bh t = Ok s' \<and>
    unat (s_TotalWork s') = unat (s_TotalWork s) + unat (s_Difficulty s) \<and>
    adjustDifficultyFinalCut s (bh_Timestamp bh) = Ok (s_Difficulty s') \<and>
    unat (s_OakWork s') = unat (s_OakWork s) - unat (s_OakWork s) div 200 + unat (s_Difficulty s) \<and>
    s_Index s' = \<lparr>ci_Height = childHeight s, ci_ID = BlockHeader_ID c bh\<rparr>"
proof -
  have "n_V2_AllowHeight (s_Network s) \<le> childHeight s" "n_V2_FinalCutHeight (s_Network s) \<le> childHeight s"
    "ci_ID (s_Index s) = bh_ParentID bh" "bh_ParentID bh \<noteq> 0"
    using assms(2,3) by (simp_all add: running_def)
  from header_total [OF assms(1) this, of c t] show ?thesis by metis
qed

theorem child_headers_apply_witness:
  "\<exists>s'. ApplyHeader sc sample_parent (Block_Header sc sample_block) 0 = Ok s' \<and> unat (s_TotalWork s') = 2"
proof -
  have "work_bounds sample_parent" "bh_ParentID (Block_Header sc sample_block) = ci_ID (s_Index sample_parent)"
    "unat (s_TotalWork sample_parent) = 1"
    by (simp_all add: work_bounds_def sample_parent_def sample_state_def Block_Header_def sample_block_def)
  then show ?thesis using child_headers_apply [OF _ sample_running, of "Block_Header sc sample_block" sc 0] by auto
qed

section \<open>Chains\<close>

text \<open>C4: activation. On a chain of accepted blocks a QDAY height that is set never changes, and it is only
  set by a block that was accepted while it was not set, that holds a verified proof of the canary
  paying the proof fee, and then to the height of that block plus the activation delay.\<close>

theorem decay_is_activated_once:
  assumes "qday_chain c n s s'" "running s p" "unat (ci_Height (s_Index s)) + n + 1 < 2 ^ 64"
  shows "(s_QdayHeight s \<noteq> 0 \<longrightarrow> s_QdayHeight s' = s_QdayHeight s) \<and>
    (s_QdayHeight s' \<noteq> s_QdayHeight s \<longrightarrow> (\<exists>m < n. \<exists>s1 b bs. qday_chain c m s s1 \<and> s_QdayHeight s1 = 0 \<and>
       ValidateBlock c s1 b bs = Ok () \<and> (\<exists>txn \<in> set (Block_V2Transactions b). pays_proof c p txn) \<and>
       s_QdayHeight s' = childHeight s1 + qd_ActivationDelay p))"
  using chain_height [OF assms] .

theorem decay_is_activated_once_witness:
  "\<exists>s'. qday_chain sc 1 sample_parent s' \<and> s_QdayHeight s' = 107 \<and>
     (\<exists>s1. qday_chain sc 0 sample_parent s1 \<and> s_QdayHeight s' = childHeight s1 + qd_ActivationDelay sample_params)"
proof -
  obtain s' where s': "qday_chain sc 1 sample_parent s'" "s_QdayHeight s' = 107" using sample_chain .
  then obtain s1 where "qday_chain sc 0 sample_parent s1" "s_QdayHeight s' = childHeight s1 + qd_ActivationDelay sample_params"
    using decay_is_activated_once [OF s'(1) sample_running] by auto
  then show ?thesis using s' by blast
qed

text \<open>C5: chains grow. Along a chain of accepted blocks the network does not change, the height grows by one
  with each block, the difficulty stays positive, and the total work grows by at least one per block,
  so of two chains on one parent a longer extension never has less work than its parent.\<close>

theorem chains_gain_work:
  assumes "qday_chain c n s s'" "running s p" "unat (ci_Height (s_Index s)) + n + 1 < 2 ^ 64" "1 \<le> unat (s_Difficulty s)"
  shows "running s' p \<and> s_Network s' = s_Network s \<and> unat (ci_Height (s_Index s')) = unat (ci_Height (s_Index s)) + n \<and>
    1 \<le> unat (s_Difficulty s') \<and> unat (s_TotalWork s) + n \<le> unat (s_TotalWork s')"
  using chain_keeps [OF assms(1-3)] assms(4) by simp

theorem chains_gain_work_witness:
  "\<exists>s'. qday_chain sc 1 sample_parent s' \<and> unat (ci_Height (s_Index s')) = 101 \<and> 2 \<le> unat (s_TotalWork s')"
proof -
  obtain s' where s': "qday_chain sc 1 sample_parent s'" "s_QdayHeight s' = 107" using sample_chain .
  have "unat (s_TotalWork sample_parent) = 1" by (simp add: sample_parent_def)
  then show ?thesis using chains_gain_work [OF s'(1) sample_running] s' by auto
qed

end
