(* ===== verification/ChainStore.thy ===== *)
theory ChainStore
  imports Application
begin

text \<open>
  The block store (\<^verbatim>\<open>DBStore\<close> of \<^verbatim>\<open>coreutils/chain/db.go\<close>). A bucket of the database is a map from keys
  to the values that its entries encode; the two kinds of keys of the file contract bucket, which
  differ in length, are two maps. When the changes reach the disk is not part of the model: reads see
  every earlier write. Entries are in the current format, in which a block always has its header.
\<close>

section \<open>Entries\<close>

record supplementedBlock =
  sb_Header :: BlockHeader
  sb_Block :: "Block option"
  sb_Supplement :: "V1BlockSupplement option"

record DBStore =
  db_n :: Network
  db_MainChain :: "u64 \<rightharpoonup> BlockID"
  db_Height :: "u64 option"
  db_States :: "BlockID \<rightharpoonup> State"
  db_Blocks :: "BlockID \<rightharpoonup> supplementedBlock"
  db_FileContracts :: "FileContractID \<rightharpoonup> FileContractElement"
  db_Expirations :: "u64 \<rightharpoonup> FileContractID list"
  db_SiacoinElements :: "SiacoinOutputID \<rightharpoonup> SiacoinElement"
  db_SiafundElements :: "SiafundOutputID \<rightharpoonup> SiafundElement"
  db_Tree :: "u32 \<rightharpoonup> hash256"

definition empty_DBStore :: "Network \<Rightarrow> DBStore" where
  "empty_DBStore n = \<lparr>db_n = n, db_MainChain = Map.empty, db_Height = None, db_States = Map.empty, db_Blocks = Map.empty,
     db_FileContracts = Map.empty, db_Expirations = Map.empty, db_SiacoinElements = Map.empty,
     db_SiafundElements = Map.empty, db_Tree = Map.empty\<rparr>"

section \<open>Indices, states and blocks\<close>

definition putBestIndex :: "ChainIndex \<Rightarrow> DBStore \<Rightarrow> DBStore" where
  "putBestIndex index db = db\<lparr>db_MainChain := (db_MainChain db)(ci_Height index \<mapsto> ci_ID index)\<rparr>"

definition deleteBestIndex :: "u64 \<Rightarrow> DBStore \<Rightarrow> DBStore" where
  "deleteBestIndex height db = db\<lparr>db_MainChain := (db_MainChain db)(height := None)\<rparr>"

definition getHeight :: "DBStore \<Rightarrow> u64" where
  "getHeight db = (case db_Height db of Some height \<Rightarrow> height | None \<Rightarrow> 0)"

definition putHeight :: "u64 \<Rightarrow> DBStore \<Rightarrow> DBStore" where
  "putHeight height db = db\<lparr>db_Height := Some height\<rparr>"

text \<open>The zero value of a state, with the network that \<^verbatim>\<open>getState\<close> fills in.\<close>

definition zero_State :: "Network \<Rightarrow> State" where
  "zero_State n =
     \<lparr>s_QdayHeight = 0, s_Network = n, s_Index = \<lparr>ci_Height = 0, ci_ID = 0\<rparr>, s_PrevTimestamps = replicate 11 0,
      s_Depth = 0, s_ChildTarget = 0, s_SiafundTaxRevenue = ZeroCurrency, s_OakTime = 0, s_OakTarget = 0,
      s_FoundationSubsidyAddress = 0, s_FoundationManagementAddress = 0, s_TotalWork = 0, s_Difficulty = 0,
      s_OakWork = 0, s_Elements = empty_Accumulator, s_Attestations = 0\<rparr>"

definition getState :: "DBStore \<Rightarrow> BlockID \<Rightarrow> State \<times> bool" where
  "getState db bid = (case db_States db bid of
      Some cs \<Rightarrow> (cs\<lparr>s_Network := db_n db\<rparr>, True)
    | None \<Rightarrow> (zero_State (db_n db), False))"

definition putState :: "State \<Rightarrow> DBStore \<Rightarrow> DBStore" where
  "putState cs db = db\<lparr>db_States := (db_States db)(ci_ID (s_Index cs) \<mapsto> cs)\<rparr>"

definition getBlock :: "DBStore \<Rightarrow> BlockID \<Rightarrow> (BlockHeader \<times> Block option \<times> V1BlockSupplement option) option" where
  "getBlock db bid = (case db_Blocks db bid of
      Some sb \<Rightarrow> Some (sb_Header sb, sb_Block sb, sb_Supplement sb)
    | None \<Rightarrow> None)"

definition putBlock :: "crypto \<Rightarrow> BlockHeader \<Rightarrow> Block option \<Rightarrow> V1BlockSupplement option \<Rightarrow> DBStore \<Rightarrow> DBStore" where
  "putBlock c bh b bs db = db\<lparr>db_Blocks := (db_Blocks db)
     (BlockHeader_ID c bh \<mapsto> \<lparr>sb_Header = bh, sb_Block = b, sb_Supplement = bs\<rparr>)\<rparr>"

definition getAncestorInfo :: "DBStore \<Rightarrow> BlockID \<Rightarrow> BlockID \<times> Time \<times> bool" where
  "getAncestorInfo db bid = (case db_Blocks db bid of
      Some sb \<Rightarrow> (bh_ParentID (sb_Header sb), bh_Timestamp (sb_Header sb), True)
    | None \<Rightarrow> (0, 0, False))"

definition getBlockHeader :: "DBStore \<Rightarrow> BlockID \<Rightarrow> BlockHeader option" where
  "getBlockHeader db bid = (case db_Blocks db bid of Some sb \<Rightarrow> Some (sb_Header sb) | None \<Rightarrow> None)"

section \<open>Elements\<close>

definition treeKey :: "u64 \<Rightarrow> u64 \<Rightarrow> u32" where
  "treeKey row col = ucast (push_bit (unat (32 - row)) (push_bit (unat row) 1 - 1) OR col)"

definition put_node :: "node \<Rightarrow> DBStore \<Rightarrow> DBStore" where
  "put_node nd db = db\<lparr>db_Tree := (db_Tree db)(treeKey (fst (fst nd)) (snd (fst nd)) \<mapsto> snd nd)\<rparr>"

definition getElementProof :: "DBStore \<Rightarrow> u64 \<Rightarrow> u64 \<Rightarrow> (hash256 list) res" where
  "getElementProof db leafIndex numLeaves =
     (if numLeaves \<le> leafIndex then Panic ''leafIndex exceeds accumulator size''
      else fold_res (\<lambda>i hs. case db_Tree db (treeKey (word_of_nat i) (drop_bit i leafIndex XOR 1)) of
          Some h \<Rightarrow> Ok (hs @ [h])
        | None \<Rightarrow> Panic ''missing proof element'') [0..<len64 (leafIndex XOR numLeaves) - 1] [])"

definition getSiacoinElement :: "DBStore \<Rightarrow> SiacoinOutputID \<Rightarrow> u64 \<Rightarrow> (SiacoinElement option) res" where
  "getSiacoinElement db eid numLeaves =
     (case db_SiacoinElements db eid of
        None \<Rightarrow> Ok None
      | Some sce \<Rightarrow> rbind (getElementProof db (se_LeafIndex (sce_StateElement sce)) numLeaves) (\<lambda>p.
          Ok (Some (sce\<lparr>sce_StateElement := (sce_StateElement sce)\<lparr>se_MerkleProof := p\<rparr>\<rparr>))))"

definition putSiacoinElement :: "SiacoinElement \<Rightarrow> DBStore \<Rightarrow> DBStore" where
  "putSiacoinElement sce db = db\<lparr>db_SiacoinElements := (db_SiacoinElements db)
     (sce_ID sce \<mapsto> sce\<lparr>sce_StateElement := no_proof (sce_StateElement sce)\<rparr>)\<rparr>"

definition deleteSiacoinElement :: "SiacoinOutputID \<Rightarrow> DBStore \<Rightarrow> DBStore" where
  "deleteSiacoinElement eid db = db\<lparr>db_SiacoinElements := (db_SiacoinElements db)(eid := None)\<rparr>"

definition getSiafundElement :: "DBStore \<Rightarrow> SiafundOutputID \<Rightarrow> u64 \<Rightarrow> (SiafundElement option) res" where
  "getSiafundElement db eid numLeaves =
     (case db_SiafundElements db eid of
        None \<Rightarrow> Ok None
      | Some sfe \<Rightarrow> rbind (getElementProof db (se_LeafIndex (sfe_StateElement sfe)) numLeaves) (\<lambda>p.
          Ok (Some (sfe\<lparr>sfe_StateElement := (sfe_StateElement sfe)\<lparr>se_MerkleProof := p\<rparr>\<rparr>))))"

definition putSiafundElement :: "SiafundElement \<Rightarrow> DBStore \<Rightarrow> DBStore" where
  "putSiafundElement sfe db = db\<lparr>db_SiafundElements := (db_SiafundElements db)
     (sfe_ID sfe \<mapsto> sfe\<lparr>sfe_StateElement := no_proof (sfe_StateElement sfe)\<rparr>)\<rparr>"

definition deleteSiafundElement :: "SiafundOutputID \<Rightarrow> DBStore \<Rightarrow> DBStore" where
  "deleteSiafundElement eid db = db\<lparr>db_SiafundElements := (db_SiafundElements db)(eid := None)\<rparr>"

definition getFileContractElement :: "DBStore \<Rightarrow> FileContractID \<Rightarrow> u64 \<Rightarrow> (FileContractElement option) res" where
  "getFileContractElement db eid numLeaves =
     (case db_FileContracts db eid of
        None \<Rightarrow> Ok None
      | Some fce \<Rightarrow> rbind (getElementProof db (se_LeafIndex (fce_StateElement fce)) numLeaves) (\<lambda>p.
          Ok (Some (fce\<lparr>fce_StateElement := (fce_StateElement fce)\<lparr>se_MerkleProof := p\<rparr>\<rparr>))))"

definition putFileContractElement :: "FileContractElement \<Rightarrow> DBStore \<Rightarrow> DBStore" where
  "putFileContractElement fce db = db\<lparr>db_FileContracts := (db_FileContracts db)
     (fce_ID fce \<mapsto> fce\<lparr>fce_StateElement := no_proof (fce_StateElement fce)\<rparr>)\<rparr>"

definition deleteFileContractElement :: "FileContractID \<Rightarrow> DBStore \<Rightarrow> DBStore" where
  "deleteFileContractElement eid db = db\<lparr>db_FileContracts := (db_FileContracts db)(eid := None)\<rparr>"

definition ExpiringFileContractIDs :: "DBStore \<Rightarrow> u64 \<Rightarrow> FileContractID list" where
  "ExpiringFileContractIDs db height = (case db_Expirations db height of Some ids \<Rightarrow> ids | None \<Rightarrow> [])"

definition OverwriteExpiringFileContractIDs :: "u64 \<Rightarrow> FileContractID list \<Rightarrow> DBStore \<Rightarrow> DBStore" where
  "OverwriteExpiringFileContractIDs height ids db = db\<lparr>db_Expirations := (db_Expirations db)(height \<mapsto> ids)\<rparr>"

definition putFileContractExpiration :: "FileContractID \<Rightarrow> u64 \<Rightarrow> bool \<Rightarrow> DBStore \<Rightarrow> DBStore" where
  "putFileContractExpiration eid windowEnd applying db =
     (let ids = ExpiringFileContractIDs db windowEnd
      in db\<lparr>db_Expirations := (db_Expirations db)(windowEnd \<mapsto> (if applying then ids @ [eid] else eid # ids))\<rparr>)"

text \<open>The last entry takes the place of the deleted one.\<close>

definition deleteFileContractExpiration :: "FileContractID \<Rightarrow> u64 \<Rightarrow> DBStore \<Rightarrow> DBStore res" where
  "deleteFileContractExpiration eid windowEnd db =
     (let ids = ExpiringFileContractIDs db windowEnd; n = length (takeWhile (\<lambda>x. x \<noteq> eid) ids)
      in if n < length ids
         then Ok (db\<lparr>db_Expirations := (db_Expirations db)(windowEnd \<mapsto> butlast (ids[n := last ids]))\<rparr>)
         else Panic ''missing file contract expiration'')"

section \<open>Applying and reverting\<close>

definition applyState :: "State \<Rightarrow> DBStore \<Rightarrow> DBStore" where
  "applyState next db = putHeight (ci_Height (s_Index next)) (putBestIndex (s_Index next) db)"

definition revertState :: "State \<Rightarrow> DBStore \<Rightarrow> DBStore" where
  "revertState prev db = putHeight (ci_Height (s_Index prev)) (deleteBestIndex (ci_Height (s_Index prev) + 1) db)"

definition apply_siacoin_diff :: "SiacoinElementDiff \<Rightarrow> DBStore \<Rightarrow> DBStore" where
  "apply_siacoin_diff d db =
     (if sced_Created d \<and> sced_Spent d then db
      else if sced_Spent d then deleteSiacoinElement (sce_ID (sced_SiacoinElement d)) db
      else putSiacoinElement (sced_SiacoinElement d) db)"

definition apply_siafund_diff :: "SiafundElementDiff \<Rightarrow> DBStore \<Rightarrow> DBStore" where
  "apply_siafund_diff d db =
     (if sfed_Created d \<and> sfed_Spent d then db
      else if sfed_Spent d then deleteSiafundElement (sfe_ID (sfed_SiafundElement d)) db
      else putSiafundElement (sfed_SiafundElement d) db)"

definition apply_contract_diff :: "FileContractElementDiff \<Rightarrow> DBStore \<Rightarrow> DBStore res" where
  "apply_contract_diff d db =
     (let fce = fced_FileContractElement d; windowEnd = fc_WindowEnd (fce_FileContract fce) in
      if fced_Created d \<and> fced_Resolved d then Ok db
      else if fced_Resolved d
      then deleteFileContractExpiration (fce_ID fce) windowEnd (deleteFileContractElement (fce_ID fce) db)
      else case fced_Revision d of
          Some fc \<Rightarrow>
            let db = putFileContractElement (fce\<lparr>fce_FileContract := fc\<rparr>) db in
            if fc_WindowEnd fc \<noteq> windowEnd
            then rbind (deleteFileContractExpiration (fce_ID fce) windowEnd db) (\<lambda>db.
              Ok (putFileContractExpiration (fce_ID fce) (fc_WindowEnd fc) True db))
            else Ok db
        | None \<Rightarrow> Ok (putFileContractExpiration (fce_ID fce) windowEnd True (putFileContractElement fce db)))"

definition applyElements :: "crypto \<Rightarrow> ApplyUpdate \<Rightarrow> DBStore \<Rightarrow> DBStore res" where
  "applyElements c cau db =
     (let db = fold put_node (ApplyUpdate_ForEachTreeNode c cau) db;
          db = fold apply_siacoin_diff (ms_sces (au_ms cau)) db;
          db = fold apply_siafund_diff (ms_sfes (au_ms cau)) db
      in fold_res apply_contract_diff (ms_fces (au_ms cau)) db)"

definition revert_contract_diff :: "FileContractElementDiff \<Rightarrow> DBStore \<Rightarrow> DBStore res" where
  "revert_contract_diff d db =
     (let fce = fced_FileContractElement d; windowEnd = fc_WindowEnd (fce_FileContract fce) in
      if fced_Created d \<and> fced_Resolved d then Ok db
      else if fced_Resolved d
      then Ok (putFileContractExpiration (fce_ID fce) windowEnd False (putFileContractElement fce db))
      else case fced_Revision d of
          Some fc \<Rightarrow>
            let db = putFileContractElement fce db in
            if fc_WindowEnd fc \<noteq> windowEnd
            then rbind (deleteFileContractExpiration (fce_ID fce) (fc_WindowEnd fc) db) (\<lambda>db.
              Ok (putFileContractExpiration (fce_ID fce) windowEnd False db))
            else Ok db
        | None \<Rightarrow> deleteFileContractExpiration (fce_ID fce) windowEnd (deleteFileContractElement (fce_ID fce) db))"

definition revert_siafund_diff :: "SiafundElementDiff \<Rightarrow> DBStore \<Rightarrow> DBStore" where
  "revert_siafund_diff d db =
     (if sfed_Created d \<and> sfed_Spent d then db
      else if sfed_Spent d then putSiafundElement (sfed_SiafundElement d) db
      else deleteSiafundElement (sfe_ID (sfed_SiafundElement d)) db)"

definition revert_siacoin_diff :: "SiacoinElementDiff \<Rightarrow> DBStore \<Rightarrow> DBStore" where
  "revert_siacoin_diff d db =
     (if sced_Created d \<and> sced_Spent d then db
      else if sced_Spent d then putSiacoinElement (sced_SiacoinElement d) db
      else deleteSiacoinElement (sce_ID (sced_SiacoinElement d)) db)"

definition revertElements :: "crypto \<Rightarrow> RevertUpdate \<Rightarrow> DBStore \<Rightarrow> DBStore res" where
  "revertElements c cru db =
     rbind (fold_res revert_contract_diff (ms_fces (ru_ms cru)) db) (\<lambda>db.
     let db = fold revert_siafund_diff (ms_sfes (ru_ms cru)) db;
         db = fold revert_siacoin_diff (ms_sces (ru_ms cru)) db
     in Ok (fold put_node (RevertUpdate_ForEachTreeNode c cru) db))"

section \<open>The interface of the manager\<close>

definition BestIndex :: "DBStore \<Rightarrow> u64 \<Rightarrow> ChainIndex \<times> bool" where
  "BestIndex db height = (case db_MainChain db height of
      Some bid \<Rightarrow> (\<lparr>ci_Height = height, ci_ID = bid\<rparr>, True)
    | None \<Rightarrow> (\<lparr>ci_Height = height, ci_ID = 0\<rparr>, False))"

definition empty_V1TransactionSupplement :: V1TransactionSupplement where
  "empty_V1TransactionSupplement =
     \<lparr>sup_SiacoinInputs = [], sup_SiafundInputs = [], sup_RevisedFileContracts = [], sup_StorageProofs = []\<rparr>"

text \<open>Collects the elements that exist, in the order of the references.\<close>

definition found :: "('a \<Rightarrow> ('b option) res) \<Rightarrow> 'a list \<Rightarrow> ('b list) res" where
  "found f xs = fold_res (\<lambda>x ys. rbind (f x) (\<lambda>r. Ok (case r of Some y \<Rightarrow> ys @ [y] | None \<Rightarrow> ys))) xs []"

definition tip_leaves :: "DBStore \<Rightarrow> u64" where
  "tip_leaves db = acc_NumLeaves (s_Elements (fst (getState db (ci_ID (fst (BestIndex db (getHeight db)))))))"

definition SupplementTipTransaction :: "DBStore \<Rightarrow> Transaction \<Rightarrow> V1TransactionSupplement res" where
  "SupplementTipTransaction db txn =
     (if n_V2_RequireHeight (db_n db) \<le> getHeight db then Ok empty_V1TransactionSupplement
      else
        let numLeaves = tip_leaves db in
        rbind (found (\<lambda>sci. getSiacoinElement db (sci_ParentID sci) numLeaves) (txn_SiacoinInputs txn)) (\<lambda>scs.
        rbind (found (\<lambda>sfi. getSiafundElement db (sfi_ParentID sfi) numLeaves) (txn_SiafundInputs txn)) (\<lambda>sfs.
        rbind (found (\<lambda>fcr. getFileContractElement db (rev_ParentID fcr) numLeaves) (txn_FileContractRevisions txn)) (\<lambda>fcs.
        rbind (found (\<lambda>sp. rbind (getFileContractElement db (sp_ParentID sp) numLeaves) (\<lambda>r. Ok (case r of
              None \<Rightarrow> None
            | Some fce \<Rightarrow> (case BestIndex db (fc_WindowStart (fce_FileContract fce) - 1) of
                (windowIndex, ok) \<Rightarrow> if ok then Some \<lparr>sps_FileContract = fce, sps_WindowID = ci_ID windowIndex\<rparr> else None))))
          (txn_StorageProofs txn)) (\<lambda>sps.
        Ok \<lparr>sup_SiacoinInputs = scs, sup_SiafundInputs = sfs, sup_RevisedFileContracts = fcs, sup_StorageProofs = sps\<rparr>)))))"

definition SupplementTipBlock :: "DBStore \<Rightarrow> Block \<Rightarrow> V1BlockSupplement res" where
  "SupplementTipBlock db b =
     (if n_V2_RequireHeight (db_n db) \<le> getHeight db
      then Ok \<lparr>bs_Transactions = replicate (length (blk_Transactions b)) empty_V1TransactionSupplement,
               bs_ExpiringFileContracts = []\<rparr>
      else
        rbind (fold_res (\<lambda>txn ts. rbind (SupplementTipTransaction db txn) (\<lambda>t. Ok (ts @ [t]))) (blk_Transactions b) []) (\<lambda>ts.
        rbind (fold_res (\<lambda>eid fces. rbind (getFileContractElement db eid (tip_leaves db)) (\<lambda>r. case r of
              None \<Rightarrow> Panic ''missing FileContractElement''
            | Some fce \<Rightarrow> Ok (fces @ [fce]))) (ExpiringFileContractIDs db (getHeight db + 1)) []) (\<lambda>fces.
        Ok \<lparr>bs_Transactions = ts, bs_ExpiringFileContracts = fces\<rparr>)))"

definition AncestorDepth :: u64 where
  "AncestorDepth = 1000"

text \<open>The loop over the ancestors, of which \<open>n\<close> rounds remain after round \<open>i\<close>.\<close>

fun ancestor_from :: "DBStore \<Rightarrow> State \<Rightarrow> nat \<Rightarrow> u64 \<Rightarrow> BlockID \<Rightarrow> BlockID" where
  "ancestor_from db cs 0 i ancestorID = ancestorID"
| "ancestor_from db cs (Suc n) i ancestorID =
     (let height = ci_Height (s_Index cs) in
      if ancestorID = ci_ID (fst (BestIndex db (height - i)))
      then if height < AncestorDepth then ci_ID (fst (BestIndex db 0))
           else ci_ID (fst (BestIndex db (height - AncestorDepth)))
      else ancestor_from db cs n (i + 1) (fst (getAncestorInfo db ancestorID)))"

definition AncestorTimestamp :: "DBStore \<Rightarrow> BlockID \<Rightarrow> Time option" where
  "AncestorTimestamp db bid =
     (let cs = fst (getState db bid) in
      if n_Oak_Height (db_n db) < ci_Height (s_Index cs) then Some 0
      else let ancestorID = ancestor_from db cs (unat (min AncestorDepth (ci_Height (s_Index cs)))) 0 bid
           in case getAncestorInfo db ancestorID of (_, t, ok) \<Rightarrow> if ok then Some t else None)"

definition Store_State :: "DBStore \<Rightarrow> BlockID \<Rightarrow> State option" where
  "Store_State db bid = (case getState db bid of (cs, ok) \<Rightarrow> if ok then Some cs else None)"

definition Store_Block :: "DBStore \<Rightarrow> BlockID \<Rightarrow> (Block \<times> V1BlockSupplement option) option" where
  "Store_Block db bid = (case getBlock db bid of
      Some (_, Some b, bs) \<Rightarrow> Some (b, bs)
    | _ \<Rightarrow> None)"

definition AddBlock :: "crypto \<Rightarrow> Block \<Rightarrow> V1BlockSupplement option \<Rightarrow> DBStore \<Rightarrow> DBStore" where
  "AddBlock c b bs = putBlock c (Block_Header c b) (Some b) bs"

definition PruneBlock :: "crypto \<Rightarrow> BlockID \<Rightarrow> DBStore \<Rightarrow> DBStore" where
  "PruneBlock c bid db = (case getBlock db bid of Some (bh, _, _) \<Rightarrow> putBlock c bh None None db | None \<Rightarrow> db)"

definition Store_ApplyBlock :: "crypto \<Rightarrow> State \<Rightarrow> ApplyUpdate \<Rightarrow> DBStore \<Rightarrow> DBStore res" where
  "Store_ApplyBlock c s cau db =
     (let db = applyState s db in
      if ci_Height (s_Index s) \<le> n_V2_RequireHeight (db_n db) then applyElements c cau db else Ok db)"

definition Store_RevertBlock :: "crypto \<Rightarrow> State \<Rightarrow> RevertUpdate \<Rightarrow> DBStore \<Rightarrow> DBStore res" where
  "Store_RevertBlock c s cru db =
     rbind (if ci_Height (s_Index s) \<le> n_V2_RequireHeight (db_n db) then revertElements c cru db else Ok db) (\<lambda>db.
     Ok (revertState s db))"

text \<open>The store of a new database, with the genesis block applied.\<close>

definition NewDBStore :: "crypto \<Rightarrow> Network \<Rightarrow> Block \<Rightarrow> (DBStore \<times> State) res" where
  "NewDBStore c n genesisBlock =
     rbind (GenesisState n) (\<lambda>genesisState.
     let db = putState genesisState (empty_DBStore n);
         bs = \<lparr>bs_Transactions = replicate (length (blk_Transactions genesisBlock)) empty_V1TransactionSupplement,
               bs_ExpiringFileContracts = []\<rparr> in
     rbind (ApplyBlock c genesisState genesisBlock bs 0) (\<lambda>(cs, cau).
     let db = putState cs (putBlock c (Block_Header c genesisBlock) (Some genesisBlock) (Some bs) db) in
     rbind (Store_ApplyBlock c cs cau db) (\<lambda>db.
     Ok (db, fst (getState db (ci_ID (fst (BestIndex db (getHeight db)))))))))"

end
