(* ===== verification/ChainManager.thy ===== *)
theory ChainManager
  imports ChainStore Validation
begin

text \<open>
  The state of the chain manager (\<^verbatim>\<open>coreutils/chain/manager.go\<close>), its queries of the best chain and the
  path between two blocks of the block tree. The lock is not part of the model: every operation holds it
  from beginning to end. The callbacks of \<^verbatim>\<open>OnReorg\<close> and \<^verbatim>\<open>OnPoolChange\<close> run without it and are left out.
\<close>

section \<open>State\<close>

record txpool =
  tp_txns :: "Transaction list"
  tp_v2txns :: "V2Transaction list"
  tp_indices :: "TransactionID \<rightharpoonup> nat"
  tp_ms :: "MidState option"
  tp_weight :: u64
  tp_medianFee :: "Currency option"
  tp_lastReverted :: "Transaction list"
  tp_lastRevertedV2 :: "V2Transaction list"

record Manager =
  m_store :: DBStore
  m_tipState :: State
  m_expiringFileContractOrder :: "BlockID \<rightharpoonup> FileContractID list"
  m_txpool :: txpool

definition empty_txpool :: txpool where
  "empty_txpool = \<lparr>tp_txns = [], tp_v2txns = [], tp_indices = Map.empty, tp_ms = None, tp_weight = 0,
     tp_medianFee = None, tp_lastReverted = [], tp_lastRevertedV2 = []\<rparr>"

text \<open>The order of expiring contracts is \<^verbatim>\<open>defaultExpiringFileContractOrder\<close> unless an option replaces it.\<close>

definition NewManager :: "DBStore \<Rightarrow> State \<Rightarrow> (BlockID \<rightharpoonup> FileContractID list) \<Rightarrow> Manager" where
  "NewManager store cs order =
     \<lparr>m_store = store, m_tipState = cs, m_expiringFileContractOrder = order, m_txpool = empty_txpool\<rparr>"

abbreviation zero_index :: ChainIndex where
  "zero_index \<equiv> \<lparr>ci_Height = 0, ci_ID = 0\<rparr>"

text \<open>
  Operations that leave a changed manager behind when they fail return it with the error:
  \<open>attempt\<close> runs a step that does not change the state, \<open>change\<close> one that does nothing when it fails.
\<close>

definition sbind :: "('s \<Rightarrow> 'a res \<times> 's) \<Rightarrow> ('a \<Rightarrow> 's \<Rightarrow> 'b res \<times> 's) \<Rightarrow> 's \<Rightarrow> 'b res \<times> 's" where
  "sbind f g s = (case f s of
      (Ok x, s) \<Rightarrow> g x s
    | (Err e, s) \<Rightarrow> (Err e, s)
    | (Panic p, s) \<Rightarrow> (Panic p, s))"

definition attempt :: "'a res \<Rightarrow> ('a \<Rightarrow> 's \<Rightarrow> 'b res \<times> 's) \<Rightarrow> 's \<Rightarrow> 'b res \<times> 's" where
  "attempt r g s = (case r of Ok x \<Rightarrow> g x s | Err e \<Rightarrow> (Err e, s) | Panic p \<Rightarrow> (Panic p, s))"

definition change :: "'s res \<Rightarrow> ('s \<Rightarrow> 'b res \<times> 's) \<Rightarrow> 's \<Rightarrow> 'b res \<times> 's" where
  "change r g s = attempt r (\<lambda>s _. g s) s"

fun for_each_s :: "('a \<Rightarrow> 's \<Rightarrow> unit res \<times> 's) \<Rightarrow> 'a list \<Rightarrow> 's \<Rightarrow> unit res \<times> 's" where
  "for_each_s f [] s = (Ok (), s)"
| "for_each_s f (x # xs) s = sbind (f x) (\<lambda>_. for_each_s f xs) s"

lemma change_simps [simp]: "attempt (Ok x) g s = g x s" "attempt (Err e) g s = (Err e, s)" "attempt (Panic p) g s = (Panic p, s)"
  "sbind f g s = (case f s of (Ok x, s) \<Rightarrow> g x s | (Err e, s) \<Rightarrow> (Err e, s) | (Panic p, s) \<Rightarrow> (Panic p, s))"
  by (simp_all add: attempt_def sbind_def)

lemma attempt_Ok: "attempt r g s = (Ok y, s') \<longleftrightarrow> (\<exists>x. r = Ok x \<and> g x s = (Ok y, s'))"
  by (cases r) simp_all

section \<open>Queries\<close>

definition blockAndParent :: "DBStore \<Rightarrow> BlockID \<Rightarrow> (Block \<times> V1BlockSupplement option \<times> State) option" where
  "blockAndParent db bid = (case Store_Block db bid of
      None \<Rightarrow> None
    | Some (b, bs) \<Rightarrow> (case Store_State db (blk_ParentID b) of
          None \<Rightarrow> None
        | Some cs \<Rightarrow> Some (b, bs, cs)))"

definition Tip :: "Manager \<Rightarrow> ChainIndex" where
  "Tip m = s_Index (m_tipState m)"

function min_reorg_from :: "DBStore \<Rightarrow> ChainIndex \<Rightarrow> ChainIndex" where
  "min_reorg_from db index =
     (if ci_Height index = 0 then index
      else case BestIndex db (ci_Height index - 1) of (prevIndex, ok) \<Rightarrow>
        if \<not> ok \<or> Store_Block db (ci_ID prevIndex) = None then index
        else min_reorg_from db prevIndex)"
  by pat_completeness auto
termination
  by (relation "measure (\<lambda>(db, index). unat (ci_Height index))")
    (auto simp: BestIndex_def measure_unat split: option.splits)

definition MinReorgIndex :: "Manager \<Rightarrow> ChainIndex" where
  "MinReorgIndex m = min_reorg_from (m_store m) (Tip m)"

definition histHeight :: "u64 \<Rightarrow> nat \<Rightarrow> u64" where
  "histHeight tipHeight i =
     (let offset = (if 10 \<le> i then 7 + push_bit (i - 8) 1 else word_of_nat i)
      in tipHeight - (if tipHeight < offset then tipHeight else offset))"

definition History :: "Manager \<Rightarrow> BlockID list" where
  "History m =
     (let ixs = takeWhile snd (map (\<lambda>i. BestIndex (m_store m) (histHeight (ci_Height (Tip m)) i)) [0..<32])
      in map (\<lambda>(index, _). ci_ID index) ixs @ replicate (32 - length ixs) 0)"

definition Headers :: "Manager \<Rightarrow> ChainIndex \<Rightarrow> u64 \<Rightarrow> (BlockHeader list \<times> u64) res" where
  "Headers m index maxHeaders =
     (let db = m_store m; tip = ci_Height (Tip m) in
      if BestIndex db (ci_Height index) \<noteq> (index, True) then Err ''index is not on our best chain''
      else let maxHeaders = min maxHeaders (tip - ci_Height index) in
        rbind (fold_res (\<lambda>i headers.
            case getBlockHeader db (ci_ID (fst (BestIndex db (ci_Height index + word_of_nat i + 1)))) of
              None \<Rightarrow> Err ''missing block header''
            | Some bh \<Rightarrow> Ok (headers @ [bh])) [0..<unat maxHeaders] []) (\<lambda>headers.
        Ok (headers, tip - (ci_Height index + maxHeaders))))"

fun attach_height :: "DBStore \<Rightarrow> BlockID list \<Rightarrow> u64" where
  "attach_height db [] = 0"
| "attach_height db (bid # history) = (case Store_State db bid of
      None \<Rightarrow> attach_height db history
    | Some cs \<Rightarrow> if BestIndex db (ci_Height (s_Index cs)) = (s_Index cs, True) then ci_Height (s_Index cs)
        else attach_height db history)"

definition BlocksForHistory :: "Manager \<Rightarrow> BlockID list \<Rightarrow> u64 \<Rightarrow> (Block list \<times> u64) res" where
  "BlocksForHistory m history maxBlocks =
     (let db = m_store m; tip = ci_Height (Tip m); attachHeight = attach_height db history;
          maxBlocks = (if tip - attachHeight < maxBlocks then tip - attachHeight else maxBlocks) in
      rbind (fold_res (\<lambda>i blocks. case BestIndex db (attachHeight + word_of_nat i + 1) of (index, ok) \<Rightarrow>
          if \<not> ok then Err ''unknown block''
          else (case Store_Block db (ci_ID index) of
              None \<Rightarrow> Err ''missing block''
            | Some (b, _) \<Rightarrow> Ok (blocks @ [b]))) [0..<unat maxBlocks] []) (\<lambda>blocks.
      Ok (blocks, tip - (attachHeight + maxBlocks))))"

text \<open>The loop of \<^verbatim>\<open>PruneBlocks\<close>, with \<open>h\<close> rounds to go.\<close>

fun prune_from :: "crypto \<Rightarrow> nat \<Rightarrow> DBStore \<Rightarrow> DBStore" where
  "prune_from c 0 db = db"
| "prune_from c (Suc h) db = (case BestIndex db (word_of_nat h) of (index, ok) \<Rightarrow>
     if \<not> ok \<or> Store_Block db (ci_ID index) = None then db
     else prune_from c h (PruneBlock c (ci_ID index) db))"

definition PruneBlocks :: "crypto \<Rightarrow> u64 \<Rightarrow> Manager \<Rightarrow> Manager" where
  "PruneBlocks c height m = m\<lparr>m_store := prune_from c (unat height) (m_store m)\<rparr>"

section \<open>Expiring contracts\<close>

definition overwriteExpirations ::
    "crypto \<Rightarrow> (BlockID \<rightharpoonup> FileContractID list) \<Rightarrow> Block \<Rightarrow> V1BlockSupplement \<Rightarrow> V1BlockSupplement res" where
  "overwriteExpirations c orders b bs = (case orders (Block_ID c b) of
      None \<Rightarrow> Ok bs
    | Some order \<Rightarrow>
        if length (bs_ExpiringFileContracts bs) \<noteq> length order
        then Err ''expiring file contract order length mismatch''
        else let elements = map_of (rev (map (\<lambda>fce. (fce_ID fce, fce)) (bs_ExpiringFileContracts bs))) in
          rbind (fold_res (\<lambda>fcID fces. case elements fcID of
              Some fce \<Rightarrow> Ok (fces @ [fce])
            | None \<Rightarrow> Err ''missing expiring file contract'') order []) (\<lambda>fces.
          Ok (bs\<lparr>bs_ExpiringFileContracts := fces\<rparr>)))"

section \<open>The path between two blocks\<close>

definition MaxInt :: nat where
  "MaxInt = 2 ^ 63 - 1"

text \<open>Steps to the parent of a block, when the paths have \<open>n\<close> blocks together.\<close>

definition rewind :: "DBStore \<Rightarrow> nat \<Rightarrow> nat \<Rightarrow> ChainIndex \<Rightarrow> ChainIndex res" where
  "rewind db maxLen n index =
     (if maxLen < n then Err ''reorg path is too long''
      else case getBlockHeader db (ci_ID index) of
          None \<Rightarrow> Err ''missing block at index''
        | Some bh \<Rightarrow> Ok \<lparr>ci_Height = ci_Height index - 1, ci_ID = bh_ParentID bh\<rparr>)"

text \<open>Rewinds \<open>a\<close> to the height \<open>h\<close>; \<open>n\<close> blocks are on the other path.\<close>

function rewind_to :: "DBStore \<Rightarrow> nat \<Rightarrow> nat \<Rightarrow> u64 \<Rightarrow> ChainIndex list \<Rightarrow> ChainIndex \<Rightarrow> (ChainIndex list \<times> ChainIndex) res" where
  "rewind_to db maxLen n h path a =
     (if h < ci_Height a
      then rbind (rewind db maxLen (Suc (length path) + n) a) (rewind_to db maxLen n h (path @ [a]))
      else Ok (path, a))"
  by pat_completeness auto
termination
  by (relation "measure (\<lambda>(db, maxLen, n, h, path, a). unat (ci_Height a))")
    (auto simp: rewind_def intro!: measure_unat split: if_splits option.splits)

function rewind_both :: "DBStore \<Rightarrow> nat \<Rightarrow> ChainIndex list \<Rightarrow> ChainIndex list \<Rightarrow> ChainIndex \<Rightarrow> ChainIndex
    \<Rightarrow> (ChainIndex list \<times> ChainIndex list) res" where
  "rewind_both db maxLen revert app a b =
     (if a \<noteq> b
      then rbind (rewind db maxLen (length revert + length app + 2) a) (\<lambda>a'.
           rbind (rewind db maxLen (length revert + length app + 2) b) (\<lambda>b'.
           rewind_both db maxLen (revert @ [a]) (app @ [b]) a' b'))
      else Ok (revert, app))"
  by pat_completeness auto
termination
  by (relation "measure (\<lambda>(db, maxLen, revert, app, a, b). maxLen - (length revert + length app))")
    (auto simp: rewind_def split: if_splits)

definition reorgPath :: "DBStore \<Rightarrow> ChainIndex \<Rightarrow> ChainIndex \<Rightarrow> nat \<Rightarrow> (ChainIndex list \<times> ChainIndex list) res" where
  "reorgPath db a b maxLen =
     rbind (rewind_to db maxLen 0 (ci_Height b) [] a) (\<lambda>(revert, a).
     rbind (rewind_to db maxLen (length revert) (ci_Height a) [] b) (\<lambda>(app, b).
     let (a, app) = (if a = zero_index then let g = fst (BestIndex db 0) in (g, app @ [g]) else (a, app)) in
     rbind (rewind_both db maxLen revert app a b) (\<lambda>(revert, app).
     Ok (revert, rev app))))"

declare min_reorg_from.simps [simp del] rewind_to.simps [simp del] rewind_both.simps [simp del]

end
