(* ===== verification/TxPool.thy ===== *)
theory TxPool
  imports ChainManager
begin

text \<open>
  The transaction pool of the chain manager (\<^verbatim>\<open>coreutils/chain/manager.go\<close>): keeping the Merkle proofs
  of unconfirmed transactions up to date while blocks are applied and reverted, revalidating the pool
  against a new tip, evicting transactions from a full pool, the fee estimate, and adding transaction
  sets. \<^verbatim>\<open>sort.Slice\<close> is not stable: the order it gives to transactions of equal fee rate is that of a
  parameter \<open>perm\<close>, a permutation of the transactions, which a stable sort is applied to.
\<close>

text \<open>A Go error is handled, a panic is not.\<close>

definition on_err :: "'a res \<Rightarrow> ('a \<Rightarrow> 'b res) \<Rightarrow> 'b res \<Rightarrow> 'b res" where
  "on_err r f g = (case r of Ok x \<Rightarrow> f x | Err _ \<Rightarrow> g | Panic p \<Rightarrow> Panic p)"

section \<open>Proofs of unconfirmed transactions\<close>

definition update_proof ::
    "(StateElement \<Rightarrow> StateElement res) \<Rightarrow> u64 \<Rightarrow> StateElement \<Rightarrow> bool \<Rightarrow> (StateElement \<times> bool) res" where
  "update_proof f numLeaves e valid =
     (if se_LeafIndex e = UnassignedLeafIndex then Ok (e, valid)
      else if valid \<and> se_LeafIndex e < numLeaves then rbind (f e) (\<lambda>e. Ok (e, True))
      else Ok (e, False))"

fun update_each :: "('a \<Rightarrow> bool \<Rightarrow> ('a \<times> bool) res) \<Rightarrow> 'a list \<Rightarrow> bool \<Rightarrow> ('a list \<times> bool) res" where
  "update_each f [] valid = Ok ([], valid)"
| "update_each f (x # xs) valid =
     rbind (f x valid) (\<lambda>(x, valid). rbind (update_each f xs valid) (\<lambda>(xs, valid). Ok (x # xs, valid)))"

definition updateTxnProofs ::
    "(StateElement \<Rightarrow> StateElement res) \<Rightarrow> u64 \<Rightarrow> V2Transaction \<Rightarrow> (V2Transaction \<times> bool) res" where
  "updateTxnProofs f numLeaves txn =
     (let up = update_proof f numLeaves in
      rbind (update_each (\<lambda>sci v. rbind (up (sce_StateElement (v2sci_Parent sci)) v) (\<lambda>(e, v).
          Ok (sci\<lparr>v2sci_Parent := (v2sci_Parent sci)\<lparr>sce_StateElement := e\<rparr>\<rparr>, v))) (v2_SiacoinInputs txn) True) (\<lambda>(scis, v).
      rbind (update_each (\<lambda>sfi v. rbind (up (sfe_StateElement (v2sfi_Parent sfi)) v) (\<lambda>(e, v).
          Ok (sfi\<lparr>v2sfi_Parent := (v2sfi_Parent sfi)\<lparr>sfe_StateElement := e\<rparr>\<rparr>, v))) (v2_SiafundInputs txn) v) (\<lambda>(sfis, v).
      rbind (update_each (\<lambda>fcr v. rbind (up (v2fce_StateElement (v2rev_Parent fcr)) v) (\<lambda>(e, v).
          Ok (fcr\<lparr>v2rev_Parent := (v2rev_Parent fcr)\<lparr>v2fce_StateElement := e\<rparr>\<rparr>, v)))
        (v2_FileContractRevisions txn) v) (\<lambda>(revs, v).
      rbind (update_each (\<lambda>fcr v. rbind (up (v2fce_StateElement (v2res_Parent fcr)) v) (\<lambda>(e, v).
          let fcr = fcr\<lparr>v2res_Parent := (v2res_Parent fcr)\<lparr>v2fce_StateElement := e\<rparr>\<rparr> in
          case v2res_Resolution fcr of
            StorageProofRes sp \<Rightarrow> rbind (up (cie_StateElement (v2sp_ProofIndex sp)) v) (\<lambda>(e, v).
              Ok (fcr\<lparr>v2res_Resolution := StorageProofRes
                    (sp\<lparr>v2sp_ProofIndex := (v2sp_ProofIndex sp)\<lparr>cie_StateElement := e\<rparr>\<rparr>)\<rparr>, v))
          | _ \<Rightarrow> Ok (fcr, v))) (v2_FileContractResolutions txn) v) (\<lambda>(ress, v).
      Ok (txn\<lparr>v2_SiacoinInputs := scis, v2_SiafundInputs := sfis, v2_FileContractRevisions := revs,
              v2_FileContractResolutions := ress\<rparr>, v))))))"

definition updateQdayEphemeralHeights :: "u64 \<Rightarrow> V2Transaction list \<Rightarrow> V2Transaction list" where
  "updateQdayEphemeralHeights height = map (\<lambda>txn. txn\<lparr>v2_SiacoinInputs := map (\<lambda>sci.
     if se_LeafIndex (sce_StateElement (v2sci_Parent sci)) = UnassignedLeafIndex
     then sci\<lparr>v2sci_Parent := (v2sci_Parent sci)\<lparr>sce_MaturityHeight := height\<rparr>\<rparr> else sci) (v2_SiacoinInputs txn)\<rparr>)"

text \<open>\<^verbatim>\<open>replaceEphemeral\<close> applied to the parents of all inputs, revisions and resolutions.\<close>

definition map_parents :: "(hash256 \<Rightarrow> StateElement \<Rightarrow> StateElement) \<Rightarrow> V2Transaction \<Rightarrow> V2Transaction" where
  "map_parents f txn = txn\<lparr>
     v2_SiacoinInputs := map (\<lambda>sci. sci\<lparr>v2sci_Parent := (v2sci_Parent sci)
       \<lparr>sce_StateElement := f (sce_ID (v2sci_Parent sci)) (sce_StateElement (v2sci_Parent sci))\<rparr>\<rparr>) (v2_SiacoinInputs txn),
     v2_SiafundInputs := map (\<lambda>sfi. sfi\<lparr>v2sfi_Parent := (v2sfi_Parent sfi)
       \<lparr>sfe_StateElement := f (sfe_ID (v2sfi_Parent sfi)) (sfe_StateElement (v2sfi_Parent sfi))\<rparr>\<rparr>) (v2_SiafundInputs txn),
     v2_FileContractRevisions := map (\<lambda>fcr. fcr\<lparr>v2rev_Parent := (v2rev_Parent fcr)
       \<lparr>v2fce_StateElement := f (v2fce_ID (v2rev_Parent fcr)) (v2fce_StateElement (v2rev_Parent fcr))\<rparr>\<rparr>)
       (v2_FileContractRevisions txn),
     v2_FileContractResolutions := map (\<lambda>fcr. fcr\<lparr>v2res_Parent := (v2res_Parent fcr)
       \<lparr>v2fce_StateElement := f (v2fce_ID (v2res_Parent fcr)) (v2fce_StateElement (v2res_Parent fcr))\<rparr>\<rparr>)
       (v2_FileContractResolutions txn)\<rparr>"

text \<open>The elements that a block created, with the state elements they have after it.\<close>

definition created_elements :: "MidState \<Rightarrow> hash256 \<rightharpoonup> StateElement" where
  "created_elements ms = map_of (rev (
     map (\<lambda>d. (sce_ID (sced_SiacoinElement d), sce_StateElement (sced_SiacoinElement d))) (filter sced_Created (ms_sces ms)) @
     map (\<lambda>d. (sfe_ID (sfed_SiafundElement d), sfe_StateElement (sfed_SiafundElement d))) (filter sfed_Created (ms_sfes ms)) @
     map (\<lambda>d. (fce_ID (fced_FileContractElement d), fce_StateElement (fced_FileContractElement d)))
       (filter fced_Created (ms_fces ms)) @
     map (\<lambda>d. (v2fce_ID (v2fced_V2FileContractElement d), v2fce_StateElement (v2fced_V2FileContractElement d)))
       (filter v2fced_Created (ms_v2fces ms))))"

text \<open>Updates the proofs of all transactions and drops those whose elements are gone.\<close>

definition update_pool_proofs ::
    "(StateElement \<Rightarrow> StateElement res) \<Rightarrow> u64 \<Rightarrow> V2Transaction list \<Rightarrow> (V2Transaction list) res" where
  "update_pool_proofs f numLeaves txns = fold_res (\<lambda>txn rm.
     rbind (updateTxnProofs f numLeaves txn) (\<lambda>(txn, valid). Ok (if valid then rm @ [txn] else rm))) txns []"

definition revertPoolUpdate :: "crypto \<Rightarrow> RevertUpdate \<Rightarrow> State \<Rightarrow> txpool \<Rightarrow> txpool res" where
  "revertPoolUpdate c cru cs pool =
     (let uncreated = dom (created_elements (ru_ms cru));
          txns = map (map_parents (\<lambda>eid e. if se_LeafIndex e = UnassignedLeafIndex then e
            else if eid \<in> uncreated then unassigned else e)) (tp_v2txns pool)
      in rbind (update_pool_proofs (RevertUpdate_UpdateElementProof c cru) (acc_NumLeaves (s_Elements cs)) txns) (\<lambda>txns.
         Ok (pool\<lparr>tp_v2txns := txns\<rparr>)))"

definition restore_step :: "crypto \<Rightarrow> V2Transaction \<Rightarrow> V2Transaction list \<times> TransactionID set \<times> u64 \<times> bool
    \<Rightarrow> V2Transaction list \<times> TransactionID set \<times> u64 \<times> bool" where
  "restore_step c txn st = (case st of (restored, seen, weight, full) \<Rightarrow>
     if full \<or> V2Transaction_ID c txn \<in> seen \<or> v2_SiacoinInputs txn = [] then st
     else let w = V2TransactionWeight txn in
       if MaxBlockWeight * 10 - weight < w then (restored, seen, weight, True)
       else (restored @ [txn], insert (V2Transaction_ID c txn) seen, weight + w, False))"

text \<open>Each of the two loops ends at the first transaction that does not fit.\<close>

definition restoreQdayPool :: "crypto \<Rightarrow> V2Transaction list \<Rightarrow> txpool \<Rightarrow> txpool" where
  "restoreQdayPool c txns pool =
     (let (restored, seen, weight, _) = fold (restore_step c) txns ([], {}, 0, False);
          (restored, seen, weight, _) = fold (restore_step c) (tp_v2txns pool) (restored, seen, weight, False)
      in pool\<lparr>tp_v2txns := restored, tp_weight := weight, tp_ms := None\<rparr>)"

definition applyPoolUpdate :: "crypto \<Rightarrow> ApplyUpdate \<Rightarrow> State \<Rightarrow> txpool \<Rightarrow> txpool res" where
  "applyPoolUpdate c cau cs pool =
     (let newElements = created_elements (au_ms cau);
          replace = (\<lambda>eid e. if se_LeafIndex e \<noteq> UnassignedLeafIndex then e
            else case newElements eid of Some se \<Rightarrow> se | None \<Rightarrow> e);
          mature = (\<lambda>txn. (map_parents replace txn)\<lparr>v2_SiacoinInputs := map (\<lambda>sci.
            let old = sce_StateElement (v2sci_Parent sci); new = replace (sce_ID (v2sci_Parent sci)) old;
                parent = (v2sci_Parent sci)\<lparr>sce_StateElement := new\<rparr>
            in sci\<lparr>v2sci_Parent :=
              (if n_Qday (s_Network cs) \<noteq> None \<and> se_LeafIndex old = UnassignedLeafIndex \<and> se_LeafIndex new \<noteq> UnassignedLeafIndex
               then parent\<lparr>sce_MaturityHeight := ci_Height (s_Index cs)\<rparr> else parent)\<rparr>) (v2_SiacoinInputs txn)\<rparr>)
      in rbind (update_pool_proofs (ApplyUpdate_UpdateElementProof c cau) (acc_NumLeaves (s_Elements cs))
           (map mature (tp_v2txns pool))) (\<lambda>txns.
         Ok (pool\<lparr>tp_v2txns := txns\<rparr>)))"

section \<open>Checks of a transaction set\<close>

definition checkFileContractRevisions :: "V2Transaction list \<Rightarrow> unit res" where
  "checkFileContractRevisions = for_each (\<lambda>txn.
     rbind (for_each (\<lambda>fcr.
       fail_if (Currency_Cmp (v2fc_MissedHostValue (v2rev_Revision fcr)) (sco_Value (v2fc_HostOutput (v2rev_Revision fcr))) > 0)
         ''missed host value exceeds host value'') (v2_FileContractRevisions txn)) (\<lambda>_.
     for_each (\<lambda>fcr. let fc = v2fce_V2FileContract (v2res_Parent fcr) in
       fail_if (v2res_Resolution fcr = Expiration \<and> Currency_Cmp (v2fc_MissedHostValue fc) (sco_Value (v2fc_HostOutput fc)) > 0)
         ''expires a contract with missed host value exceeding host value'') (v2_FileContractResolutions txn)))"

definition check_ephemeral_txn ::
    "crypto \<Rightarrow> V2Transaction \<Rightarrow> (SiacoinOutputID \<rightharpoonup> SiacoinOutput) \<Rightarrow> (SiacoinOutputID \<rightharpoonup> SiacoinOutput) res" where
  "check_ephemeral_txn c txn sces =
     rbind (for_each (\<lambda>sci.
       if se_LeafIndex (sce_StateElement (v2sci_Parent sci)) \<noteq> UnassignedLeafIndex then Ok ()
       else case sces (sce_ID (v2sci_Parent sci)) of
           None \<Rightarrow> Err ''claims unknown ephemeral output''
         | Some sco \<Rightarrow> fail_if (sce_SiacoinOutput (v2sci_Parent sci) \<noteq> sco) ''claims incorrect value for ephemeral output'')
       (v2_SiacoinInputs txn)) (\<lambda>_.
     rbind (for_each (\<lambda>sfi.
       fail_if (se_LeafIndex (sfe_StateElement (v2sfi_Parent sfi)) = UnassignedLeafIndex) ''spends ephemeral output'')
       (v2_SiafundInputs txn)) (\<lambda>_.
     Ok (sces ++ map_of (rev (map (\<lambda>(i, sco). (V2Transaction_SiacoinOutputID c (V2Transaction_ID c txn) i, sco))
       (enumerate 0 (v2_SiacoinOutputs txn)))))))"

definition checkEphemeralOutputs :: "crypto \<Rightarrow> V2Transaction list \<Rightarrow> unit res" where
  "checkEphemeralOutputs c txns = rbind (fold_res (check_ephemeral_txn c) txns Map.empty) (\<lambda>_. Ok ())"

text \<open>Validates a transaction on top of those before it and applies it.\<close>

definition add_txn :: "crypto \<Rightarrow> DBStore \<Rightarrow> Transaction \<Rightarrow> MidState \<Rightarrow> MidState res" where
  "add_txn c db txn ms =
     rbind (SupplementTipTransaction db txn) (\<lambda>ts.
     rbind (ValidateTransaction c ms txn ts) (\<lambda>_.
     ApplyTransaction c txn ts ms))"

definition add_v2txn :: "crypto \<Rightarrow> V2Transaction \<Rightarrow> MidState \<Rightarrow> MidState res" where
  "add_v2txn c txn ms = rbind (ValidateV2Transaction c ms txn) (\<lambda>_. ApplyV2Transaction c txn ms)"

definition checkTxnSet :: "crypto \<Rightarrow> Manager \<Rightarrow> Transaction list \<Rightarrow> V2Transaction list \<Rightarrow> bool res" where
  "checkTxnSet c m txns v2txns =
     rbind (checkEphemeralOutputs c v2txns) (\<lambda>_.
     rbind (checkFileContractRevisions v2txns) (\<lambda>_.
     rbind (fold_res (add_txn c (m_store m)) txns (NewMidState (m_tipState m))) (\<lambda>ms.
     rbind (fold_res (add_v2txn c) v2txns ms) (\<lambda>_.
     let known = (\<lambda>txid. tp_indices (m_txpool m) txid \<noteq> None) in
     Ok (list_all (\<lambda>txn. known (Transaction_ID c txn)) txns \<and>
         list_all (\<lambda>txn. known (V2Transaction_ID c txn)) v2txns)))))"

section \<open>Revalidation\<close>

record feeTxn =
  ft_index :: nat
  ft_fees :: Currency
  ft_weight :: u64
  ft_v2 :: bool

definition fee_rate :: "feeTxn \<Rightarrow> nat" where
  "fee_rate ft = cval (ft_fees ft) div unat (ft_weight ft)"

text \<open>Drops transactions of the lowest rate until the weight is below the limit.\<close>

fun drop_fees :: "u64 \<Rightarrow> u64 \<Rightarrow> feeTxn list \<Rightarrow> feeTxn list" where
  "drop_fees limit weight [] = []"
| "drop_fees limit weight (ft # fts) =
     (if limit \<le> weight then drop_fees limit (weight - ft_weight ft) fts else ft # fts)"

definition txpoolMaxWeight :: u64 where
  "txpoolMaxWeight = MaxBlockWeight * 10"

text \<open>Comparing the rates divides by the weights.\<close>

definition evict :: "(feeTxn list \<Rightarrow> feeTxn list) \<Rightarrow> txpool \<Rightarrow> txpool res" where
  "evict perm pool =
     (let txnFees =
            map (\<lambda>(i, txn). \<lparr>ft_index = i, ft_fees = Transaction_TotalFees txn, ft_weight = TransactionWeight txn, ft_v2 = False\<rparr>)
              (enumerate 0 (tp_txns pool)) @
            map (\<lambda>(i, txn). \<lparr>ft_index = i, ft_fees = v2_MinerFee txn, ft_weight = V2TransactionWeight txn, ft_v2 = True\<rparr>)
              (enumerate 0 (tp_v2txns pool)) in
      if 2 \<le> length txnFees \<and> (\<exists>ft\<in>set txnFees. ft_weight ft = 0) then Panic ''division by zero''
      else let kept = sort_key ft_index (drop_fees ((txpoolMaxWeight * 3) div 4) (tp_weight pool) (sort_key fee_rate (perm txnFees)))
        in Ok (pool\<lparr>tp_txns := map (\<lambda>ft. tp_txns pool ! ft_index ft) (filter (\<lambda>ft. \<not> ft_v2 ft) kept),
                    tp_v2txns := map (\<lambda>ft. tp_v2txns pool ! ft_index ft) (filter ft_v2 kept)\<rparr>))"

text \<open>The loops that re-add the transactions, with the midstate \<open>ms\<close> of those that were kept.\<close>

definition readd_txn :: "crypto \<Rightarrow> DBStore \<Rightarrow> Transaction \<Rightarrow> MidState \<times> txpool \<Rightarrow> (MidState \<times> txpool) res" where
  "readd_txn c db txn st = (case st of (ms, pool) \<Rightarrow>
     let txid = Transaction_ID c txn in
     if tp_indices pool txid \<noteq> None then Ok st
     else rbind (SupplementTipTransaction db txn) (\<lambda>ts.
       on_err (ValidateTransaction c ms txn ts) (\<lambda>_. rbind (ApplyTransaction c txn ts ms) (\<lambda>ms.
         Ok (ms, pool\<lparr>tp_indices := (tp_indices pool)(txid \<mapsto> length (tp_txns pool)),
                      tp_weight := tp_weight pool + TransactionWeight txn, tp_txns := tp_txns pool @ [txn]\<rparr>))) (Ok st)))"

definition readd_v2txn :: "crypto \<Rightarrow> V2Transaction \<Rightarrow> MidState \<times> txpool \<Rightarrow> (MidState \<times> txpool) res" where
  "readd_v2txn c txn st = (case st of (ms, pool) \<Rightarrow>
     let txid = V2Transaction_ID c txn in
     if tp_indices pool txid \<noteq> None then Ok st
     else on_err (ValidateV2Transaction c ms txn) (\<lambda>_. rbind (ApplyV2Transaction c txn ms) (\<lambda>ms.
         Ok (ms, pool\<lparr>tp_indices := (tp_indices pool)(txid \<mapsto> length (tp_v2txns pool)),
                      tp_weight := tp_weight pool + V2TransactionWeight txn, tp_v2txns := tp_v2txns pool @ [txn]\<rparr>))) (Ok st))"

definition revalidatePool :: "crypto \<Rightarrow> (feeTxn list \<Rightarrow> feeTxn list) \<Rightarrow> Manager \<Rightarrow> Manager res" where
  "revalidatePool c perm m =
     (let pool = m_txpool m; cs = m_tipState m in
      if tp_ms pool \<noteq> None \<and> tp_weight pool < txpoolMaxWeight then Ok m
      else
        rbind (if txpoolMaxWeight \<le> tp_weight pool then evict perm pool else Ok pool) (\<lambda>pool.
        rbind (fold_res (readd_txn c (m_store m)) (tp_txns pool @ tp_lastReverted pool)
          (NewMidState cs, pool\<lparr>tp_indices := Map.empty, tp_weight := 0, tp_txns := []\<rparr>)) (\<lambda>(ms, pool).
        let v2txns = tp_v2txns pool @ tp_lastRevertedV2 pool;
            v2txns = (if n_Qday (s_Network cs) \<noteq> None then updateQdayEphemeralHeights (ci_Height (s_Index cs) + 1) v2txns
                      else v2txns) in
        rbind (fold_res (readd_v2txn c) v2txns (ms, pool\<lparr>tp_v2txns := []\<rparr>)) (\<lambda>(ms, pool).
        Ok (m\<lparr>m_txpool := pool\<lparr>tp_ms := Some ms\<rparr>\<rparr>)))))"

end
