(* ===== verification/PoolOperations.thy ===== *)
theory PoolOperations
  imports TxPool
begin

text \<open>
  The operations on the transaction pool that the chain manager offers (\<^verbatim>\<open>coreutils/chain/manager.go\<close>):
  lookups, the fee estimate, the sets that transactions are broadcast with, and adding transaction sets.
\<close>

section \<open>Lookups\<close>

definition PoolTransaction ::
    "crypto \<Rightarrow> (feeTxn list \<Rightarrow> feeTxn list) \<Rightarrow> TransactionID \<Rightarrow> Manager \<Rightarrow> (Transaction option \<times> Manager) res" where
  "PoolTransaction c perm txid m =
     rbind (revalidatePool c perm m) (\<lambda>m. case tp_indices (m_txpool m) txid of
         None \<Rightarrow> Ok (None, m)
       | Some i \<Rightarrow> rbind (index_res (tp_txns (m_txpool m)) i) (\<lambda>txn. Ok (Some txn, m)))"

definition PoolTransactions :: "crypto \<Rightarrow> (feeTxn list \<Rightarrow> feeTxn list) \<Rightarrow> Manager \<Rightarrow> (Transaction list \<times> Manager) res" where
  "PoolTransactions c perm m = rbind (revalidatePool c perm m) (\<lambda>m. Ok (tp_txns (m_txpool m), m))"

definition V2PoolTransaction ::
    "crypto \<Rightarrow> (feeTxn list \<Rightarrow> feeTxn list) \<Rightarrow> TransactionID \<Rightarrow> Manager \<Rightarrow> (V2Transaction option \<times> Manager) res" where
  "V2PoolTransaction c perm txid m =
     rbind (revalidatePool c perm m) (\<lambda>m. case tp_indices (m_txpool m) txid of
         None \<Rightarrow> Ok (None, m)
       | Some i \<Rightarrow> rbind (index_res (tp_v2txns (m_txpool m)) i) (\<lambda>txn. Ok (Some txn, m)))"

definition V2PoolTransactions :: "crypto \<Rightarrow> (feeTxn list \<Rightarrow> feeTxn list) \<Rightarrow> Manager \<Rightarrow> (V2Transaction list \<times> Manager) res" where
  "V2PoolTransactions c perm m = rbind (revalidatePool c perm m) (\<lambda>m. Ok (tp_v2txns (m_txpool m), m))"

text \<open>A loop of \<^verbatim>\<open>TransactionsForPartialBlock\<close>; the flag is set when everything wanted is found.\<close>

fun take_wanted :: "('a \<Rightarrow> hash256) \<Rightarrow> 'a list \<Rightarrow> hash256 set \<Rightarrow> 'a list \<times> hash256 set \<times> bool" where
  "take_wanted leaf [] want = ([], want, False)"
| "take_wanted leaf (txn # txns) want =
     (if leaf txn \<in> want
      then let want = want - {leaf txn} in
        if want = {} then ([txn], want, True)
        else case take_wanted leaf txns want of (hits, want, finished) \<Rightarrow> (txn # hits, want, finished)
      else take_wanted leaf txns want)"

definition TransactionsForPartialBlock :: "crypto \<Rightarrow> (feeTxn list \<Rightarrow> feeTxn list) \<Rightarrow> hash256 list \<Rightarrow> Manager
    \<Rightarrow> (Transaction list \<times> V2Transaction list \<times> Manager) res" where
  "TransactionsForPartialBlock c perm missing m =
     rbind (revalidatePool c perm m) (\<lambda>m.
     case take_wanted (Transaction_MerkleLeafHash c) (tp_txns (m_txpool m)) (set missing) of (txns, want, finished) \<Rightarrow>
       if finished then Ok (txns, [], m)
       else Ok (txns, fst (take_wanted (V2Transaction_MerkleLeafHash c) (tp_v2txns (m_txpool m)) want), m))"

section \<open>The fee estimate\<close>

fun percentile :: "u64 \<Rightarrow> (u64 \<times> Currency) list \<Rightarrow> Currency" where
  "percentile progress [] = ZeroCurrency"
| "percentile progress ((weight, fee) # fees) =
     (if MaxBlockWeight div 4 < progress + weight \<or> fees = [] then fee else percentile (progress + weight) fees)"

text \<open>
  The weights add up to that of a full block, so the fee at which a quarter is reached does not depend on
  the order of transactions of equal fees.
\<close>

definition calculateBlockMedianFee :: "Block \<Rightarrow> Currency" where
  "calculateBlockMedianFee b =
     (let fees = map (\<lambda>txn. (TransactionWeight txn, Transaction_TotalFees txn)) (blk_Transactions b) @
                 map (\<lambda>txn. (V2TransactionWeight txn, v2_MinerFee txn)) (Block_V2Transactions b);
          remaining = fold (\<lambda>(weight, _) r. r - weight) fees MaxBlockWeight
      in percentile 0 (sort_key (\<lambda>(_, fee). cval fee) (fees @ [(remaining, ZeroCurrency)])))"

definition computeMedianFee :: "Manager \<Rightarrow> Currency \<times> Manager" where
  "computeMedianFee m = (case tp_medianFee (m_txpool m) of
      Some fee \<Rightarrow> (fee, m)
    | None \<Rightarrow>
        let prevFees = sort_key cval (concat (map (\<lambda>i.
              case BestIndex (m_store m) (ci_Height (Tip m) - word_of_nat i) of (index, ok) \<Rightarrow>
                if \<not> ok then [] else (case blockAndParent (m_store m) (ci_ID index) of
                    Some (b, _, _) \<Rightarrow> [calculateBlockMedianFee b]
                  | None \<Rightarrow> [])) [0..<10])) in
        if prevFees = [] then (ZeroCurrency, m)
        else let fee = prevFees ! (length prevFees div 2)
          in (fee, m\<lparr>m_txpool := (m_txpool m)\<lparr>tp_medianFee := Some fee\<rparr>\<rparr>))"

definition RecommendedFee :: "crypto \<Rightarrow> (feeTxn list \<Rightarrow> feeTxn list) \<Rightarrow> Manager \<Rightarrow> (Currency \<times> Manager) res" where
  "RecommendedFee c perm m =
     rbind (revalidatePool c perm m) (\<lambda>m.
     case computeMedianFee m of (medianFee, m) \<Rightarrow>
       let estPoolWeight = tp_weight (m_txpool m) + 10000;
           scale = (\<lambda>fee. rbind (Currency_Mul64 fee estPoolWeight) (\<lambda>fee. Currency_Div64 fee 3000000)) in
       rbind (Siacoins 1) (\<lambda>sc.
       rbind (Currency_Div64 sc 1000) (\<lambda>fee.
       rbind (scale fee) (\<lambda>fee. rbind (scale fee) (\<lambda>fee. rbind (scale fee) (\<lambda>weightFee.
       rbind (Currency_Div64 sc 100000) (\<lambda>minFee.
       let fee = (if Currency_Cmp medianFee weightFee < 0 then weightFee else medianFee);
           fee = (if Currency_Cmp fee minFee < 0 then minFee else fee)
       in Ok (fee, m))))))))"

section \<open>Unconfirmed parents\<close>

definition txn_outputs :: "crypto \<Rightarrow> Transaction \<Rightarrow> hash256 list" where
  "txn_outputs c txn =
     map (Transaction_SiacoinOutputID c txn) [0..<length (txn_SiacoinOutputs txn)] @
     map (Transaction_SiafundClaimOutputID c txn) [0..<length (txn_SiafundInputs txn)] @
     map (Transaction_SiafundOutputID c txn) [0..<length (txn_SiafundOutputs txn)] @
     map (Transaction_FileContractID c txn) [0..<length (txn_FileContracts txn)]"

definition v2txn_outputs :: "crypto \<Rightarrow> V2Transaction \<Rightarrow> hash256 list" where
  "v2txn_outputs c txn =
     (let txid = V2Transaction_ID c txn in
      map (V2Transaction_SiacoinOutputID c txid) [0..<length (v2_SiacoinOutputs txn)] @
      map (\<lambda>sfi. SiafundOutputID_V2ClaimOutputID c (sfe_ID (v2sfi_Parent sfi))) (v2_SiafundInputs txn) @
      map (V2Transaction_SiafundOutputID c txid) [0..<length (v2_SiafundOutputs txn)] @
      map (V2Transaction_V2FileContractID c txid) [0..<length (v2_FileContracts txn)])"

definition computeParentMap :: "crypto \<Rightarrow> txpool \<Rightarrow> hash256 \<rightharpoonup> nat" where
  "computeParentMap c pool = map_of (rev (
     concat (map (\<lambda>(i, txn). map (\<lambda>h. (h, i)) (txn_outputs c txn)) (enumerate 0 (tp_txns pool))) @
     concat (map (\<lambda>(i, txn). map (\<lambda>h. (h, i)) (v2txn_outputs c txn)) (enumerate 0 (tp_v2txns pool)))))"

text \<open>\<^verbatim>\<open>check\<close> for one reference; the parents found so far come with their indices, in order.\<close>

definition check_parent :: "(hash256 \<rightharpoonup> nat) \<Rightarrow> 'a list \<Rightarrow> hash256 \<Rightarrow> (nat \<times> 'a) list \<Rightarrow> ((nat \<times> 'a) list) res" where
  "check_parent parentMap txns h parents = (case parentMap h of
      None \<Rightarrow> Ok parents
    | Some index \<Rightarrow> if index \<in> fst ` set parents then Ok parents
        else rbind (index_res txns index) (\<lambda>txn. Ok (parents @ [(index, txn)])))"

definition txn_references :: "Transaction \<Rightarrow> hash256 list" where
  "txn_references txn = map sci_ParentID (txn_SiacoinInputs txn) @ map sfi_ParentID (txn_SiafundInputs txn) @
     map rev_ParentID (txn_FileContractRevisions txn) @ map sp_ParentID (txn_StorageProofs txn)"

definition v2txn_references :: "V2Transaction \<Rightarrow> hash256 list" where
  "v2txn_references txn =
     map (\<lambda>sci. sce_ID (v2sci_Parent sci)) (v2_SiacoinInputs txn) @
     map (\<lambda>sfi. sfe_ID (v2sfi_Parent sfi)) (v2_SiafundInputs txn) @
     map (\<lambda>fcr. v2fce_ID (v2rev_Parent fcr)) (v2_FileContractRevisions txn) @
     map (\<lambda>fcr. v2fce_ID (v2res_Parent fcr)) (v2_FileContractResolutions txn)"

text \<open>
  The loops end when no parent is added. A parent is added at most once, so as many rounds as there are
  transactions are enough.
\<close>

definition UnconfirmedParents ::
    "crypto \<Rightarrow> (feeTxn list \<Rightarrow> feeTxn list) \<Rightarrow> Transaction \<Rightarrow> Manager \<Rightarrow> (Transaction list \<times> Manager) res" where
  "UnconfirmedParents c perm txn m =
     rbind (revalidatePool c perm m) (\<lambda>m.
     let txns = tp_txns (m_txpool m);
         addParents = (\<lambda>txn. fold_res (check_parent (computeParentMap c (m_txpool m)) txns) (txn_references txn)) in
     rbind (addParents txn []) (\<lambda>parents.
     rbind (fold_res (\<lambda>_ parents. fold_res addParents (map snd parents) parents) (replicate (length txns) ()) parents) (\<lambda>parents.
     Ok (rev (map snd parents), m))))"

section \<open>Moving proofs to another block\<close>

definition update_valid ::
    "(StateElement \<Rightarrow> StateElement res) \<Rightarrow> u64 \<Rightarrow> V2Transaction \<Rightarrow> V2Transaction res" where
  "update_valid f numLeaves txn = rbind (updateTxnProofs f numLeaves txn) (\<lambda>(txn, valid).
     if valid then Ok txn else Err ''references element that does not exist in our chain'')"

definition stored_block :: "crypto \<Rightarrow> Manager \<Rightarrow> ChainIndex \<Rightarrow> (Block \<times> V1BlockSupplement \<times> State) res" where
  "stored_block c m index = (case blockAndParent (m_store m) (ci_ID index) of
      None \<Rightarrow> Err ''missing block at index''
    | Some (b, None, cs) \<Rightarrow> Err ''missing block supplement at index''
    | Some (b, Some bs, cs) \<Rightarrow> rbind (overwriteExpirations c (m_expiringFileContractOrder m) b bs) (\<lambda>bs. Ok (b, bs, cs)))"

definition revert_proofs :: "crypto \<Rightarrow> Manager \<Rightarrow> ChainIndex \<Rightarrow> V2Transaction list \<Rightarrow> (V2Transaction list) res" where
  "revert_proofs c m index txns =
     rbind (stored_block c m index) (\<lambda>(b, bs, cs).
     rbind (RevertBlock c cs b bs) (\<lambda>cru.
     fold_res (\<lambda>txn updated. rbind (update_valid (RevertUpdate_UpdateElementProof c cru) (acc_NumLeaves (s_Elements cs)) txn) (\<lambda>txn.
       Ok (updated @ [txn]))) txns []))"

text \<open>Gives the elements that a block created to the inputs that refer to them as unconfirmed outputs.\<close>

definition confirm_inputs :: "State \<Rightarrow> (hash256 \<rightharpoonup> StateElement) \<Rightarrow> V2Transaction \<Rightarrow> V2Transaction" where
  "confirm_inputs cs confirmed txn = txn\<lparr>
     v2_SiacoinInputs := map (\<lambda>sci. let parent = v2sci_Parent sci in
       if se_LeafIndex (sce_StateElement parent) \<noteq> UnassignedLeafIndex then sci
       else case confirmed (sce_ID parent) of
           None \<Rightarrow> sci
         | Some se \<Rightarrow> sci\<lparr>v2sci_Parent := (if n_Qday (s_Network cs) \<noteq> None
             then parent\<lparr>sce_StateElement := se, sce_MaturityHeight := ci_Height (s_Index cs)\<rparr>
             else parent\<lparr>sce_StateElement := se\<rparr>)\<rparr>) (v2_SiacoinInputs txn),
     v2_SiafundInputs := map (\<lambda>sfi. let parent = v2sfi_Parent sfi in
       if se_LeafIndex (sfe_StateElement parent) \<noteq> UnassignedLeafIndex then sfi
       else case confirmed (sfe_ID parent) of
           None \<Rightarrow> sfi
         | Some se \<Rightarrow> sfi\<lparr>v2sfi_Parent := parent\<lparr>sfe_StateElement := se\<rparr>\<rparr>) (v2_SiafundInputs txn)\<rparr>"

definition apply_proofs :: "crypto \<Rightarrow> Manager \<Rightarrow> ChainIndex \<Rightarrow> V2Transaction list \<Rightarrow> (V2Transaction list) res" where
  "apply_proofs c m index txns =
     rbind (stored_block c m index) (\<lambda>(b, bs, cs).
     rbind (ApplyBlock c cs b bs (case AncestorTimestamp (m_store m) (blk_ParentID b) of Some t \<Rightarrow> t | None \<Rightarrow> 0)) (\<lambda>(cs, cau).
     let confirmedTxns = V2Transaction_ID c ` set (Block_V2Transactions b);
         confirmed = map_of (rev (
           map (\<lambda>d. (sce_ID (sced_SiacoinElement d), sce_StateElement (sced_SiacoinElement d)))
             (filter sced_Created (ms_sces (au_ms cau))) @
           map (\<lambda>d. (sfe_ID (sfed_SiafundElement d), sfe_StateElement (sfed_SiafundElement d)))
             (filter sfed_Created (ms_sfes (au_ms cau))))) in
     fold_res (\<lambda>txn rem.
       if V2Transaction_ID c txn \<in> confirmedTxns then Ok rem
       else rbind (update_valid (ApplyUpdate_UpdateElementProof c cau) (acc_NumLeaves (s_Elements cs))
         (confirm_inputs cs confirmed txn)) (\<lambda>txn. Ok (rem @ [txn]))) txns []))"

definition updateV2TransactionProofs ::
    "crypto \<Rightarrow> Manager \<Rightarrow> V2Transaction list \<Rightarrow> ChainIndex \<Rightarrow> ChainIndex \<Rightarrow> (V2Transaction list) res" where
  "updateV2TransactionProofs c m txns from to = (case Store_State (m_store m) (ci_ID from) of
      None \<Rightarrow> Err ''couldn't find state for basis''
    | Some basisState \<Rightarrow>
        rbind (for_each (ValidateTransactionElements c (s_Elements basisState)) txns) (\<lambda>_.
        rbind (reorgPath (m_store m) from to 144) (\<lambda>(revert, app).
        rbind (fold_res (revert_proofs c m) revert txns) (\<lambda>updated.
        rbind (fold_res (apply_proofs c m) app updated) (\<lambda>updated.
        Ok (if n_Qday (s_Network basisState) \<noteq> None \<and> from \<noteq> to
            then updateQdayEphemeralHeights (ci_Height to + 1) updated else updated))))))"

definition UpdateV2TransactionSet ::
    "crypto \<Rightarrow> Manager \<Rightarrow> V2Transaction list \<Rightarrow> ChainIndex \<Rightarrow> ChainIndex \<Rightarrow> (V2Transaction list) res" where
  "UpdateV2TransactionSet c m txns from to =
     (if from = to then Ok txns else updateV2TransactionProofs c m txns from to)"

definition V2TransactionSet :: "crypto \<Rightarrow> (feeTxn list \<Rightarrow> feeTxn list) \<Rightarrow> ChainIndex \<Rightarrow> V2Transaction \<Rightarrow> Manager
    \<Rightarrow> (ChainIndex \<times> V2Transaction list) res \<times> Manager" where
  "V2TransactionSet c perm basis txn =
     (\<lambda>m. change (revalidatePool c perm m) (\<lambda>m.
     attempt (updateV2TransactionProofs c m [txn] basis (Tip m)) (\<lambda>updated m. (case updated of
         [] \<Rightarrow> Ok (Tip m, [])
       | txn # _ \<Rightarrow>
           let txns = tp_v2txns (m_txpool m);
               addParents = (\<lambda>txn. fold_res (check_parent (computeParentMap c (m_txpool m)) txns) (v2txn_references txn)) in
           rbind (addParents txn []) (\<lambda>parents.
           rbind (fold_res (\<lambda>i parents. if i < length parents then addParents (snd (parents ! i)) parents else Ok parents)
             [0..<length txns] parents) (\<lambda>parents.
           Ok (Tip m, sort_key (\<lambda>p. case tp_indices (m_txpool m) (V2Transaction_ID c p) of Some i \<Rightarrow> i | None \<Rightarrow> 0)
             (map snd parents) @ [txn]))), m)) m) m)"

section \<open>Adding transaction sets\<close>

definition pool_midstate :: "txpool \<Rightarrow> MidState res" where
  "pool_midstate pool = (case tp_ms pool of Some ms \<Rightarrow> Ok ms | None \<Rightarrow> Panic ''nil pointer dereference'')"

text \<open>A conflict with the pool leaves the transactions of the set that were added before it in the pool.\<close>

definition pool_add_txn :: "crypto \<Rightarrow> Transaction \<Rightarrow> Manager \<Rightarrow> unit res \<times> Manager" where
  "pool_add_txn c txn m =
     (let pool = m_txpool m; txid = Transaction_ID c txn in
      if tp_indices pool txid \<noteq> None then (Ok (), m)
      else
        attempt (pool_midstate pool) (\<lambda>ms.
        attempt (SupplementTipTransaction (m_store m) txn) (\<lambda>ts m.
        case ValidateTransaction c ms txn ts of
          Err e \<Rightarrow> (Err ''conflicts with pool'', m\<lparr>m_txpool := pool\<lparr>tp_ms := None\<rparr>\<rparr>)
        | Panic p \<Rightarrow> (Panic p, m)
        | Ok _ \<Rightarrow> attempt (ApplyTransaction c txn ts ms) (\<lambda>ms m.
            (Ok (), m\<lparr>m_txpool := pool\<lparr>tp_ms := Some ms, tp_indices := (tp_indices pool)(txid \<mapsto> length (tp_txns pool)),
               tp_txns := tp_txns pool @ [txn], tp_weight := tp_weight pool + TransactionWeight txn\<rparr>\<rparr>)) m)) m)"

definition clear_medianFee :: "Manager \<Rightarrow> Manager" where
  "clear_medianFee m = m\<lparr>m_txpool := (m_txpool m)\<lparr>tp_medianFee := None\<rparr>\<rparr>"

definition AddPoolTransactions ::
    "crypto \<Rightarrow> (feeTxn list \<Rightarrow> feeTxn list) \<Rightarrow> Transaction list \<Rightarrow> Manager \<Rightarrow> bool res \<times> Manager" where
  "AddPoolTransactions c perm txns m0 =
     change (revalidatePool c perm m0) (\<lambda>m.
     attempt (checkTxnSet c m txns []) (\<lambda>known m.
       if known then (Ok True, m)
       else sbind (for_each_s (pool_add_txn c) txns) (\<lambda>_ m. (Ok False, clear_medianFee m)) m) m) m0"

text \<open>The transactions beyond the first \<open>startLen\<close> are those of the set that is being added.\<close>

definition undo_set :: "crypto \<Rightarrow> nat \<Rightarrow> u64 \<Rightarrow> txpool \<Rightarrow> txpool" where
  "undo_set c startLen startWeight pool = pool\<lparr>
     tp_indices := fold (\<lambda>added ixs. ixs(V2Transaction_ID c added := None)) (drop startLen (tp_v2txns pool)) (tp_indices pool),
     tp_v2txns := take startLen (tp_v2txns pool), tp_weight := startWeight, tp_ms := None\<rparr>"

definition pool_add_v2txn :: "crypto \<Rightarrow> nat \<Rightarrow> u64 \<Rightarrow> V2Transaction \<Rightarrow> Manager \<Rightarrow> unit res \<times> Manager" where
  "pool_add_v2txn c startLen startWeight txn m =
     (let pool = m_txpool m; txid = V2Transaction_ID c txn in
      if tp_indices pool txid \<noteq> None then (Ok (), m)
      else
        attempt (pool_midstate pool) (\<lambda>ms m.
        case ValidateV2Transaction c ms txn of
          Err e \<Rightarrow> (Err ''conflicts with pool'', m\<lparr>m_txpool := undo_set c startLen startWeight pool\<rparr>)
        | Panic p \<Rightarrow> (Panic p, m)
        | Ok _ \<Rightarrow> attempt (ApplyV2Transaction c txn ms) (\<lambda>ms m.
            (Ok (), m\<lparr>m_txpool := pool\<lparr>tp_ms := Some ms, tp_indices := (tp_indices pool)(txid \<mapsto> length (tp_v2txns pool)),
               tp_v2txns := tp_v2txns pool @ [txn], tp_weight := tp_weight pool + V2TransactionWeight txn\<rparr>\<rparr>)) m) m)"

definition AddV2PoolTransactions ::
    "crypto \<Rightarrow> (feeTxn list \<Rightarrow> feeTxn list) \<Rightarrow> ChainIndex \<Rightarrow> V2Transaction list \<Rightarrow> Manager \<Rightarrow> bool res \<times> Manager" where
  "AddV2PoolTransactions c perm basis txns m0 =
     change (revalidatePool c perm m0) (\<lambda>m.
       if txns \<noteq> [] \<and> list_all (\<lambda>txn. tp_indices (m_txpool m) (V2Transaction_ID c txn) \<noteq> None) txns then (Ok True, m)
       else attempt (updateV2TransactionProofs c m txns basis (Tip m)) (\<lambda>txns m.
         attempt (checkTxnSet c m [] txns) (\<lambda>known m.
           if known then (Ok True, m)
           else sbind (for_each_s (pool_add_v2txn c (length (tp_v2txns (m_txpool m))) (tp_weight (m_txpool m))) txns)
             (\<lambda>_ m. (Ok False, clear_medianFee m)) m) m) m) m0"

end
