(* ===== verification/Reorg.thy ===== *)
theory Reorg
  imports PoolOperations
begin

text \<open>
  Moving the tip of the best chain (\<^verbatim>\<open>coreutils/chain/manager.go\<close>): reverting and applying single blocks,
  reorganising to another block of the tree, and adding blocks to the tree. An operation that fails
  returns the manager it leaves behind along with the error.
\<close>

section \<open>Single blocks\<close>

definition revertTip :: "crypto \<Rightarrow> Manager \<Rightarrow> unit res \<times> Manager" where
  "revertTip c m = (case blockAndParent (m_store m) (ci_ID (Tip m)) of
      None \<Rightarrow> (Err ''missing block at index'', m)
    | Some (b, None, cs) \<Rightarrow> (Panic ''nil pointer dereference'', m)
    | Some (b, Some bs, cs) \<Rightarrow>
        attempt (RevertBlock c cs b bs) (\<lambda>cru.
        attempt (Store_RevertBlock c cs cru (m_store m)) (\<lambda>db.
        attempt (revertPoolUpdate c cru cs (m_txpool m)) (\<lambda>pool m.
        let pool = (if n_Qday (s_Network cs) \<noteq> None then restoreQdayPool c (Block_V2Transactions b) pool else pool)
        in (Ok (), m\<lparr>m_store := db, m_txpool := pool, m_tipState := cs\<rparr>)))) m)"

text \<open>A block without a supplement has not been validated yet.\<close>

definition applied_block :: "crypto \<Rightarrow> Manager \<Rightarrow> ChainIndex \<Rightarrow> (DBStore \<times> State \<times> ApplyUpdate) res" where
  "applied_block c m index = (case Store_Block (m_store m) (ci_ID index) of
      None \<Rightarrow> Err ''missing block at index''
    | Some (b, bs) \<Rightarrow>
        if blk_ParentID b \<noteq> ci_ID (Tip m) then Panic ''applyTip called with non-attaching block''
        else case bs of
          None \<Rightarrow>
            rbind (SupplementTipBlock (m_store m) b) (\<lambda>bs.
            rbind (overwriteExpirations c (m_expiringFileContractOrder m) b bs) (\<lambda>bs.
            rbind (ValidateBlock c (m_tipState m) b bs) (\<lambda>_.
            case AncestorTimestamp (m_store m) (blk_ParentID b) of
              None \<Rightarrow> Err ''missing ancestor timestamp for block''
            | Some t \<Rightarrow> rbind (ApplyBlock c (m_tipState m) b bs t) (\<lambda>(cs, cau).
                Ok (AddBlock c b (Some bs) (putState cs (m_store m)), cs, cau)))))
        | Some bs \<Rightarrow> (case AncestorTimestamp (m_store m) (blk_ParentID b) of
              None \<Rightarrow> Err ''missing ancestor timestamp for block''
            | Some t \<Rightarrow>
                rbind (overwriteExpirations c (m_expiringFileContractOrder m) b bs) (\<lambda>bs.
                rbind (ApplyBlock c (m_tipState m) b bs t) (\<lambda>(cs, cau).
                Ok (m_store m, cs, cau)))))"

definition applyTip :: "crypto \<Rightarrow> ChainIndex \<Rightarrow> Manager \<Rightarrow> unit res \<times> Manager" where
  "applyTip c index m =
     attempt (applied_block c m index) (\<lambda>(db, cs, cau).
     attempt (Store_ApplyBlock c cs cau db) (\<lambda>db.
     attempt (applyPoolUpdate c cau cs (m_txpool m)) (\<lambda>pool m.
     (Ok (), m\<lparr>m_store := db, m_txpool := pool, m_tipState := cs\<rparr>)))) m"

section \<open>Reorganisations\<close>

definition remember_reverted :: "ChainIndex list \<Rightarrow> Manager \<Rightarrow> txpool \<Rightarrow> txpool" where
  "remember_reverted revert m pool = (case revert of
      [] \<Rightarrow> pool
    | index # _ \<Rightarrow>
        let txns = (case Store_Block (m_store m) (ci_ID index) of Some (b, _) \<Rightarrow> blk_Transactions b | None \<Rightarrow> []);
            v2txns = (case Store_Block (m_store m) (ci_ID index) of Some (b, _) \<Rightarrow> Block_V2Transactions b | None \<Rightarrow> []);
            pool = pool\<lparr>tp_lastReverted := filter (\<lambda>txn. txn_MinerFees txn \<noteq> []) txns\<rparr>
        in if n_Qday (s_Network (m_tipState m)) = None
           then pool\<lparr>tp_lastRevertedV2 := filter (\<lambda>txn. v2_MinerFee txn \<noteq> ZeroCurrency) v2txns\<rparr> else pool)"

definition reorgTo :: "crypto \<Rightarrow> ChainIndex \<Rightarrow> Manager \<Rightarrow> unit res \<times> Manager" where
  "reorgTo c index m0 =
     attempt (reorgPath (m_store m0) (Tip m0) index MaxInt) (\<lambda>(revert, app).
     sbind (for_each_s (\<lambda>_. revertTip c) revert) (\<lambda>_.
     sbind (for_each_s (applyTip c) app) (\<lambda>_ m.
     (Ok (), m\<lparr>m_txpool := remember_reverted revert m ((m_txpool m)\<lparr>tp_ms := None, tp_medianFee := None\<rparr>)\<rparr>)))) m0"

text \<open>The end of \<^verbatim>\<open>AddBlocks\<close>: switches to the chain of \<open>cs\<close> when it is heavier, and back when that fails.\<close>

definition reorg_if_heavier :: "crypto \<Rightarrow> State \<Rightarrow> Manager \<Rightarrow> unit res \<times> Manager" where
  "reorg_if_heavier c cs m0 =
     attempt (SufficientlyHeavierThan cs (m_tipState m0)) (\<lambda>heavier m.
       if \<not> heavier then (Ok (), m)
       else case reorgTo c (s_Index cs) m of
           (Ok _, m) \<Rightarrow> (Ok (), m)
         | (Panic p, m) \<Rightarrow> (Panic p, m)
         | (Err e, m) \<Rightarrow> (case reorgTo c (Tip m0) m of
               (Ok _, m) \<Rightarrow> (Err ''reorg failed'', m)
             | (Err e, m) \<Rightarrow> (Err ''failed to revert failed reorg'', m)
             | (Panic p, m) \<Rightarrow> (Panic p, m))) m0"

section \<open>Adding blocks\<close>

text \<open>The body of the loop of \<^verbatim>\<open>AddBlocks\<close>; \<open>cs\<close> is the state of the block before.\<close>

definition add_block :: "crypto \<Rightarrow> Time \<Rightarrow> Block \<Rightarrow> DBStore \<times> State \<Rightarrow> (DBStore \<times> State) res" where
  "add_block c now b st = (case st of (db, cs) \<Rightarrow>
     let bid = Block_ID c b in
     if (case Store_Block db bid of Some (_, Some _) \<Rightarrow> True | _ \<Rightarrow> False) then Ok (db, fst (getState db bid))
     else
       rbind (if blk_ParentID b \<noteq> ci_ID (s_Index cs)
              then case Store_State db (blk_ParentID b) of
                  None \<Rightarrow> Err ''missing parent state for block''
                | Some cs \<Rightarrow> Ok cs
              else Ok cs) (\<lambda>cs.
       rbind (fail_if (MaxFutureTimestamp cs now < blk_Timestamp b) ''block's timestamp is too far in the future'') (\<lambda>_.
       rbind (ValidateOrphan c cs b) (\<lambda>_.
       case AncestorTimestamp db (blk_ParentID b) of
         None \<Rightarrow> Err ''missing ancestor timestamp for block''
       | Some t \<Rightarrow> rbind (ApplyHeader c cs (Block_Header c b) t) (\<lambda>cs.
           Ok (AddBlock c b None (putState cs db), cs))))))"

text \<open>The blocks before an invalid one stay in the store.\<close>

fun add_blocks :: "crypto \<Rightarrow> Time \<Rightarrow> Block list \<Rightarrow> State \<Rightarrow> Manager \<Rightarrow> State res \<times> Manager" where
  "add_blocks c now [] cs m = (Ok cs, m)"
| "add_blocks c now (b # blocks) cs m =
     attempt (add_block c now b (m_store m, cs)) (\<lambda>(db, cs) m. add_blocks c now blocks cs (m\<lparr>m_store := db\<rparr>)) m"

definition AddBlocks :: "crypto \<Rightarrow> Time \<Rightarrow> Block list \<Rightarrow> Manager \<Rightarrow> unit res \<times> Manager" where
  "AddBlocks c now blocks m =
     (if blocks = [] then (Ok (), m)
      else sbind (add_blocks c now blocks (m_tipState m)) (reorg_if_heavier c) m)"

fun add_validated :: "crypto \<Rightarrow> (Block \<times> State) list \<Rightarrow> Manager \<Rightarrow> unit res \<times> Manager" where
  "add_validated c [] m = (Ok (), m)"
| "add_validated c ((b, cs) # bss) m =
     (if blk_V2 b = None then (Err ''only v2 blocks can be pre-validated'', m)
      else let bs = \<lparr>bs_Transactions = [], bs_ExpiringFileContracts = []\<rparr>
        in add_validated c bss (m\<lparr>m_store := putState cs (AddBlock c b (Some bs) (m_store m))\<rparr>))"

definition AddValidatedV2Blocks :: "crypto \<Rightarrow> Block list \<Rightarrow> State list \<Rightarrow> Manager \<Rightarrow> unit res \<times> Manager" where
  "AddValidatedV2Blocks c blocks states m =
     (if blocks = [] then (Ok (), m)
      else if length states \<noteq> length blocks then (Err ''chain: expected same number of blocks and states'', m)
      else if Store_State (m_store m) (blk_ParentID (hd blocks)) = None then (Err ''missing parent for block'', m)
      else sbind (add_validated c (zip blocks states)) (\<lambda>_. reorg_if_heavier c (last states)) m)"

section \<open>Updates for subscribers\<close>

type_synonym chain_update = "(RevertUpdate \<times> Block \<times> State) list \<times> (ApplyUpdate \<times> Block \<times> State) list"

definition onBestChain :: "DBStore \<Rightarrow> ChainIndex \<Rightarrow> bool" where
  "onBestChain db index \<longleftrightarrow> ci_ID (fst (BestIndex db (ci_Height index))) = ci_ID index \<or> index = zero_index"

definition subscriber_block :: "DBStore \<Rightarrow> ChainIndex \<Rightarrow> (Block \<times> V1BlockSupplement \<times> State) res" where
  "subscriber_block db index = (case blockAndParent db (ci_ID index) of
      None \<Rightarrow> Err ''missing block at index''
    | Some (b, None, cs) \<Rightarrow> Err ''missing supplement for block''
    | Some (b, Some bs, cs) \<Rightarrow> Ok (b, bs, cs))"

text \<open>The loop of \<^verbatim>\<open>UpdatesSince\<close>, which may return \<open>n\<close> more updates.\<close>

fun updates_from :: "crypto \<Rightarrow> DBStore \<Rightarrow> ChainIndex \<Rightarrow> nat \<Rightarrow> ChainIndex \<Rightarrow> chain_update \<Rightarrow> chain_update res" where
  "updates_from c db tip 0 index upd = Ok upd"
| "updates_from c db tip (Suc n) index upd =
     (if index = tip then Ok upd
      else if \<not> onBestChain db index
      then rbind (subscriber_block db index) (\<lambda>(b, bs, cs).
           rbind (RevertBlock c cs b bs) (\<lambda>cru.
           updates_from c db tip n (s_Index cs) (fst upd @ [(cru, b, cs)], snd upd)))
      else let index = fst (BestIndex db (if index = zero_index then 0 else ci_Height index + 1)) in
        rbind (subscriber_block db index) (\<lambda>(b, bs, cs).
        rbind (case AncestorTimestamp db (blk_ParentID b) of
            Some t \<Rightarrow> Ok t
          | None \<Rightarrow> if ci_Height index \<noteq> 0 then Err ''missing ancestor timestamp for block'' else Ok 0) (\<lambda>t.
        rbind (ApplyBlock c cs b bs t) (\<lambda>(cs, cau).
        updates_from c db tip n index (fst upd, snd upd @ [(cau, b, cs)])))))"

definition UpdatesSince :: "crypto \<Rightarrow> ChainIndex \<Rightarrow> int \<Rightarrow> Manager \<Rightarrow> chain_update res" where
  "UpdatesSince c index maxBlocks m = updates_from c (m_store m) (Tip m) (nat maxBlocks) index ([], [])"

end
