(* ===== verification/ReorgRules.thy ===== *)
theory ReorgRules
  imports Reorg
begin

text \<open>
  Rules about the path between two blocks and about the best chain. The best chain of a manager is a list
  of block IDs from the genesis block to the tip: reverting the tip removes the last of them and applying
  a block appends one, whatever else happens to the store and to the pool.
\<close>

section \<open>Paths to an ancestor\<close>

definition parent_index :: "DBStore \<Rightarrow> ChainIndex \<Rightarrow> ChainIndex option" where
  "parent_index db i = (case getBlockHeader db (ci_ID i) of
      None \<Rightarrow> None
    | Some bh \<Rightarrow> Some \<lparr>ci_Height = ci_Height i - 1, ci_ID = bh_ParentID bh\<rparr>)"

text \<open>\<open>path\<close> lists the blocks from \<open>a\<close> down to, and without, its ancestor \<open>r\<close>.\<close>

fun descends :: "DBStore \<Rightarrow> ChainIndex \<Rightarrow> ChainIndex list \<Rightarrow> ChainIndex \<Rightarrow> bool" where
  "descends db a [] r \<longleftrightarrow> a = r"
| "descends db a (x # path) r \<longleftrightarrow>
     x = a \<and> (case parent_index db a of Some p \<Rightarrow> descends db p path r | None \<Rightarrow> False)"

lemma rewind_Ok: "rewind db maxLen n a = Ok p \<longleftrightarrow> n \<le> maxLen \<and> parent_index db a = Some p"
  by (auto simp: rewind_def parent_index_def split: option.splits)

lemma parent_height: "parent_index db a = Some p \<Longrightarrow> ci_Height p = ci_Height a - 1"
  by (auto simp: parent_index_def split: option.splits)

lemma descends_append:
  "descends db a (xs @ ys) r \<longleftrightarrow> (\<exists>m. descends db a xs m \<and> descends db m ys r)"
  by (induction xs arbitrary: a) (auto split: option.splits)

lemma descends_snoc:
  "descends db a (xs @ [x]) r \<longleftrightarrow> descends db a xs x \<and> parent_index db x = Some r"
  by (auto simp: descends_append split: option.splits)

lemma descends_unique: "descends db a path r \<Longrightarrow> descends db a path s \<Longrightarrow> r = s"
  by (induction path arbitrary: a) (auto split: option.splits)

lemma descends_height: "descends db a path r \<Longrightarrow> ci_Height r = ci_Height a - word_of_nat (length path)"
  by (induction path arbitrary: a) (auto dest: parent_height split: option.splits)

lemma parent_unat:
  assumes "parent_index db a = Some p" "0 < unat (ci_Height a)"
  shows "unat (ci_Height p) = unat (ci_Height a) - 1"
  using assms parent_height [OF assms(1)] by (cases "ci_Height a = 0") (simp_all add: unat_minus_one)

lemma descends_unat:
  "descends db a path r \<Longrightarrow> length path \<le> unat (ci_Height a) \<Longrightarrow> unat (ci_Height r) = unat (ci_Height a) - length path"
proof (induction path arbitrary: a)
  case (Cons x path)
  then obtain p where "parent_index db a = Some p" "descends db p path r" by (auto split: option.splits)
  with Cons.IH [of p] Cons.prems(2) parent_unat [of db a p] show ?case by simp
qed simp

lemma less_le_pred: "h < x \<Longrightarrow> h \<le> x - 1" for x :: u64
  by (cases "x = 0") (simp_all add: word_le_nat_alt word_less_nat_alt unat_minus_one)

lemma last_neq: "list_all2 (\<noteq>) xs ys \<Longrightarrow> xs \<noteq> [] \<Longrightarrow> last xs \<noteq> last ys"
  by (induction xs ys rule: list_all2_induct) auto

lemma rewind_to_sound:
  assumes "rewind_to db maxLen n h path a = Ok (path', a')"
  shows "\<exists>zs. path' = path @ zs \<and> descends db a zs a' \<and> ci_Height a' \<le> h \<and> (zs \<noteq> [] \<longrightarrow> ci_Height a' = h)"
  using assms
proof (induction db maxLen n h path a rule: rewind_to.induct)
  case (1 db maxLen n h path a)
  show ?case
  proof (cases "h < ci_Height a")
    case True
    with 1(2) obtain p where p: "rewind db maxLen (Suc (length path) + n) a = Ok p"
      and rest: "rewind_to db maxLen n h (path @ [a]) p = Ok (path', a')"
      by (subst (asm) rewind_to.simps) (auto simp: res_simps)
    from 1(1) [OF True p rest] obtain zs where zs: "path' = (path @ [a]) @ zs" "descends db p zs a'"
      "ci_Height a' \<le> h" "zs \<noteq> [] \<longrightarrow> ci_Height a' = h" by blast
    have "ci_Height p = ci_Height a - 1" using p by (auto simp: rewind_Ok dest: parent_height)
    with True have "h \<le> ci_Height p" by (simp add: less_le_pred)
    with zs have "ci_Height a' = h" by (cases zs) auto
    with zs p show ?thesis by (intro exI [of _ "a # zs"]) (simp add: rewind_Ok)
  next
    case False
    with 1(2) show ?thesis by (subst (asm) rewind_to.simps) (auto intro!: exI [of _ "[]"])
  qed
qed

lemma rewind_both_sound:
  assumes "rewind_both db maxLen revert app a b = Ok (revert', app')"
  shows "\<exists>rs ps r. revert' = revert @ rs \<and> app' = app @ ps \<and> descends db a rs r \<and> descends db b ps r
    \<and> list_all2 (\<noteq>) rs ps"
  using assms
proof (induction db maxLen revert app a b rule: rewind_both.induct)
  case (1 db maxLen revert app a b)
  show ?case
  proof (cases "a = b")
    case True
    with 1(2) show ?thesis by (subst (asm) rewind_both.simps) (auto intro!: exI [of _ "[]"])
  next
    case False
    with 1(2) obtain p q where p: "rewind db maxLen (length revert + length app + 2) a = Ok p"
      and q: "rewind db maxLen (length revert + length app + 2) b = Ok q"
      and rest: "rewind_both db maxLen (revert @ [a]) (app @ [b]) p q = Ok (revert', app')"
      by (subst (asm) rewind_both.simps) (auto simp: res_simps)
    from 1(1) [OF False p q rest] obtain rs ps r where
      "revert' = (revert @ [a]) @ rs" "app' = (app @ [b]) @ ps" "descends db p rs r" "descends db q ps r"
      "list_all2 (\<noteq>) rs ps" by blast
    with p q False show ?thesis
      by (intro exI [of _ "a # rs"] exI [of _ "b # ps"] exI [of _ r]) (simp add: rewind_Ok)
  qed
qed

text \<open>What a successful search returns.\<close>


lemma reorgPath_sound:
  assumes path: "reorgPath db a b maxLen = Ok (revert, app)" and a: "\<And>xs. \<not> descends db a xs zero_index"
  obtains r where "descends db a revert r" "descends db b (rev app) r"
    "revert \<noteq> [] \<Longrightarrow> app \<noteq> [] \<Longrightarrow> last revert \<noteq> hd app"
proof -
  from path obtain r1 a' p1 b' where 1: "rewind_to db maxLen 0 (ci_Height b) [] a = Ok (r1, a')"
    and 2: "rewind_to db maxLen (length r1) (ci_Height a') [] b = Ok (p1, b')"
    and 3: "(let (a, app) = (if a' = zero_index then let g = fst (BestIndex db 0) in (g, p1 @ [g]) else (a', p1)) in
      rbind (rewind_both db maxLen r1 app a b') (\<lambda>(revert, app). Ok (revert, rev app))) = Ok (revert, app)"
    by (auto simp: reorgPath_def res_simps)
  from rewind_to_sound [OF 1] have r1: "descends db a r1 a'" "ci_Height a' \<le> ci_Height b"
    "r1 \<noteq> [] \<Longrightarrow> ci_Height a' = ci_Height b" by auto
  with a have "a' \<noteq> zero_index" by blast
  with 3 obtain app' where 3: "rewind_both db maxLen r1 p1 a' b' = Ok (revert, app')" and app: "app = rev app'"
    by (auto simp: res_simps)
  from rewind_to_sound [OF 2] have p1: "descends db b p1 b'" "ci_Height b' \<le> ci_Height a'"
    "p1 \<noteq> [] \<Longrightarrow> ci_Height b' = ci_Height a'" by auto
  have one: "r1 = [] \<or> p1 = []"
  proof (cases "r1 = []")
    case False
    with r1 have "ci_Height a' = ci_Height b" by simp
    with 2 show ?thesis by (subst (asm) rewind_to.simps) simp
  qed simp
  from rewind_both_sound [OF 3] obtain rs ps r where rs: "revert = r1 @ rs" "app' = p1 @ ps"
    "descends db a' rs r" "descends db b' ps r" "list_all2 (\<noteq>) rs ps" by blast
  show thesis
  proof (rule that [of r])
    show "descends db a revert r" "descends db b (rev app) r" using rs r1 p1 app by (auto simp: descends_append)
    assume "revert \<noteq> []" "app \<noteq> []"
    then have "rs \<noteq> []" "ps \<noteq> []" using one rs app by (auto dest: list_all2_lengthD)
    then have "last rs \<noteq> last ps" using rs(5) by (simp add: last_neq)
    then show "last revert \<noteq> hd app" using \<open>rs \<noteq> []\<close> \<open>ps \<noteq> []\<close> rs app by (simp add: hd_rev)
  qed
qed

text \<open>The search succeeds when there is a common ancestor within reach.\<close>

lemma rewind_to_complete:
  assumes "descends db a rs r" "ci_Height r \<le> h" "length path + length rs + n \<le> maxLen" "length rs \<le> unat (ci_Height a)"
  shows "\<exists>zs ws a'. rs = zs @ ws \<and> rewind_to db maxLen n h path a = Ok (path @ zs, a') \<and> descends db a' ws r
    \<and> length ws \<le> unat (ci_Height a')"
  using assms
proof (induction rs arbitrary: a path)
  case Nil
  then show ?case by (subst rewind_to.simps) auto
next
  case (Cons x rs)
  show ?case
  proof (cases "h < ci_Height a")
    case True
    from Cons.prems obtain p where p: "parent_index db a = Some p" "descends db p rs r" "x = a"
      by (auto split: option.splits)
    have "unat (ci_Height p) = unat (ci_Height a) - 1" using Cons.prems(4) p parent_unat [OF p(1)] by simp
    then have "length rs \<le> unat (ci_Height p)" "length (path @ [a]) + length rs + n \<le> maxLen"
      using Cons.prems(3,4) by simp_all
    with Cons.IH [OF p(2) Cons.prems(2), of "path @ [a]"] obtain zs ws a' where *:
      "rs = zs @ ws" "rewind_to db maxLen n h (path @ [a]) p = Ok ((path @ [a]) @ zs, a')" "descends db a' ws r"
      "length ws \<le> unat (ci_Height a')" by blast
    have "rewind db maxLen (Suc (length path) + n) a = Ok p" using Cons.prems(3) p by (simp add: rewind_Ok)
    with True * p have "rewind_to db maxLen n h path a = Ok (path @ a # zs, a')"
      by (subst rewind_to.simps) simp
    with * p show ?thesis by (intro exI [of _ "a # zs"] exI [of _ ws] exI [of _ a']) simp
  next
    case False
    then show ?thesis using Cons.prems
      by (intro exI [of _ "[]"] exI [of _ "x # rs"] exI [of _ a]) (subst rewind_to.simps, simp)
  qed
qed

lemma rewind_both_complete:
  assumes "descends db a ws r" "descends db b vs r" "length ws = length vs"
    "length revert + length app + 2 * length ws \<le> maxLen"
  shows "\<exists>res. rewind_both db maxLen revert app a b = Ok res"
  using assms
proof (induction ws arbitrary: vs a b revert app)
  case Nil
  then show ?case by (subst rewind_both.simps) auto
next
  case (Cons w ws)
  show ?case
  proof (cases "a = b")
    case True
    then show ?thesis by (subst rewind_both.simps) auto
  next
    case False
    from Cons.prems obtain v vs' p q where *: "vs = v # vs'" "parent_index db a = Some p" "descends db p ws r"
      "parent_index db b = Some q" "descends db q vs' r" by (cases vs) (auto split: option.splits)
    then have "rewind db maxLen (length revert + length app + 2) a = Ok p"
      "rewind db maxLen (length revert + length app + 2) b = Ok q" using Cons.prems(4) by (simp_all add: rewind_Ok)
    with Cons.IH [OF *(3,5), of "revert @ [a]" "app @ [b]"] * Cons.prems False show ?thesis
      by (subst rewind_both.simps) simp
  qed
qed

lemma reorgPath_complete:
  assumes a: "\<And>xs. \<not> descends db a xs zero_index"
    and rs: "descends db a rs r" "length rs \<le> unat (ci_Height a)"
    and ps: "descends db b ps r" "length ps \<le> unat (ci_Height b)"
    and len: "length rs + length ps \<le> maxLen"
  shows "\<exists>revert app. reorgPath db a b maxLen = Ok (revert, app)"
proof -
  have below: "ci_Height r \<le> ci_Height a'" if "descends db a' ws r" "length ws \<le> unat (ci_Height a')" for a' ws
    using descends_unat [OF that] by (simp add: word_le_nat_alt)
  obtain zs ws a' where 1: "rs = zs @ ws" "rewind_to db maxLen 0 (ci_Height b) [] a = Ok (zs, a')" "descends db a' ws r"
    "length ws \<le> unat (ci_Height a')"
    using rewind_to_complete [OF rs(1) below [OF ps], of "[]" 0 maxLen] rs(2) len by auto
  obtain ys vs b' where 2: "ps = ys @ vs" "rewind_to db maxLen (length zs) (ci_Height a') [] b = Ok (ys, b')"
    "descends db b' vs r" "length vs \<le> unat (ci_Height b')"
    using rewind_to_complete [OF ps(1) below [OF 1(3,4)], of "[]" "length zs" maxLen] ps(2) len 1(1) by auto
  have sound: "descends db a zs a'" "ci_Height a' \<le> ci_Height b" "ci_Height b' \<le> ci_Height a'"
    "descends db b ys b'" "ys \<noteq> [] \<Longrightarrow> ci_Height b' = ci_Height a'"
    using rewind_to_sound [OF 1(2)] rewind_to_sound [OF 2(2)] by auto
  with a have a': "a' \<noteq> zero_index" by blast
  have "ci_Height a' = ci_Height b'" using sound by (cases "ys = []") auto
  with descends_unat [OF 1(3,4)] descends_unat [OF 2(3,4)] have "length ws = length vs" using 1(4) 2(4) by simp
  then have "length zs + length ys + 2 * length ws \<le> maxLen" using 1(1) 2(1) len by simp
  from rewind_both_complete [OF 1(3) 2(3) \<open>length ws = length vs\<close> this] a' 1(2) 2(2) show ?thesis
    by (auto simp: reorgPath_def)
qed

end
