(* ===== verification/BestChain.thy ===== *)
theory BestChain
  imports ReorgRules
begin

text \<open>
  The best chain of a manager: the blocks from the tip down to the genesis block, linked by their headers
  and indexed by height in the store. Reverting and applying blocks, reorganisations and new blocks keep
  it, also when they fail halfway. Block IDs are taken to be free of collisions among the headers that
  the manager sees, a set \<open>H\<close>.
\<close>

section \<open>Well-formed stores\<close>

definition collision_free :: "crypto \<Rightarrow> BlockHeader set \<Rightarrow> bool" where
  "collision_free c H \<longleftrightarrow> inj_on (BlockHeader_ID c) H \<and> 0 \<notin> BlockHeader_ID c ` H"

definition index_at :: "DBStore \<Rightarrow> BlockID \<rightharpoonup> ChainIndex" where
  "index_at db bid = map_option s_Index (db_States db bid)"

text \<open>The index of the state that the genesis block is applied to.\<close>

abbreviation before_genesis :: ChainIndex where
  "before_genesis \<equiv> \<lparr>ci_Height = -1, ci_ID = 0\<rparr>"

definition wf_block :: "crypto \<Rightarrow> BlockHeader set \<Rightarrow> DBStore \<Rightarrow> BlockID \<Rightarrow> supplementedBlock \<Rightarrow> bool" where
  "wf_block c H db bid sb \<longleftrightarrow> sb_Header sb \<in> H \<and> BlockHeader_ID c (sb_Header sb) = bid \<and>
     (\<forall>b. sb_Block sb = Some b \<longrightarrow> Block_Header c b = sb_Header sb) \<and>
     (\<exists>i. index_at db (bh_ParentID (sb_Header sb)) = Some i \<and>
        index_at db bid = Some \<lparr>ci_Height = ci_Height i + 1, ci_ID = bid\<rparr>)"

definition wf_store :: "crypto \<Rightarrow> BlockHeader set \<Rightarrow> DBStore \<Rightarrow> bool" where
  "wf_store c H db \<longleftrightarrow>
     (\<forall>bid i. index_at db bid = Some i \<longrightarrow> ci_ID i = bid) \<and>
     (\<forall>bid sb. db_Blocks db bid = Some sb \<longrightarrow> wf_block c H db bid sb) \<and>
     (\<forall>bid. index_at db bid \<noteq> None \<longrightarrow> bid = 0 \<or> db_Blocks db bid \<noteq> None) \<and>
     index_at db 0 = Some before_genesis"

definition heights_below :: "DBStore \<Rightarrow> nat \<Rightarrow> bool" where
  "heights_below db n \<longleftrightarrow> (\<forall>bid i. index_at db bid = Some i \<longrightarrow> unat (ci_Height i + 1) < n)"

section \<open>The best chain\<close>

definition best_chain :: "Manager \<Rightarrow> ChainIndex list \<Rightarrow> bool" where
  "best_chain m path \<longleftrightarrow>
     descends (m_store m) (Tip m) path before_genesis \<and>
     db_MainChain (m_store m) = map_of (map (\<lambda>i. (ci_Height i, ci_ID i)) path) \<and>
     db_Height (m_store m) = Some (ci_Height (Tip m)) \<and>
     index_at (m_store m) (ci_ID (Tip m)) = Some (Tip m) \<and>
     length path < 2 ^ 63"

section \<open>Paths in well-formed stores\<close>

lemma getBlockHeader_map: "getBlockHeader db bid = map_option sb_Header (db_Blocks db bid)"
  by (simp add: getBlockHeader_def split: option.split)

lemma descends_cong:
  assumes "getBlockHeader db' = getBlockHeader db"
  shows "descends db' a path r = descends db a path r"
  by (induction path arbitrary: a) (simp_all add: parent_index_def assms split: option.split)

lemma descends_mono:
  assumes "getBlockHeader db \<subseteq>\<^sub>m getBlockHeader db'" "descends db a path r"
  shows "descends db' a path r"
  using assms(2)
proof (induction path arbitrary: a)
  case (Cons x path)
  then obtain bh where bh: "getBlockHeader db (ci_ID a) = Some bh" "x = a"
    "descends db \<lparr>ci_Height = ci_Height a - 1, ci_ID = bh_ParentID bh\<rparr> path r"
    by (auto simp: parent_index_def split: option.splits)
  moreover from bh(1) assms(1) have "getBlockHeader db' (ci_ID a) = Some bh" by (metis domI map_le_def)
  ultimately show ?case using Cons.IH by (simp add: parent_index_def)
qed simp

lemma wf_store_block: "wf_store c H db \<Longrightarrow> db_Blocks db bid = Some sb \<Longrightarrow> wf_block c H db bid sb"
  by (simp add: wf_store_def)

lemma wf_store_index: "wf_store c H db \<Longrightarrow> index_at db bid = Some i \<Longrightarrow> ci_ID i = bid"
  by (simp add: wf_store_def)

lemma no_block_0:
  assumes "collision_free c H" "wf_store c H db"
  shows "db_Blocks db 0 = None"
proof (cases "db_Blocks db 0")
  case (Some sb)
  from wf_store_block [OF assms(2) this] assms(1) show ?thesis by (force simp: wf_block_def collision_free_def)
qed

lemma parent_before_genesis:
  "collision_free c H \<Longrightarrow> wf_store c H db \<Longrightarrow> ci_ID i = 0 \<Longrightarrow> parent_index db i = None"
  by (simp add: parent_index_def getBlockHeader_map no_block_0)

lemma descends_from_0:
  "collision_free c H \<Longrightarrow> wf_store c H db \<Longrightarrow> ci_ID i = 0 \<Longrightarrow> descends db i path r \<longleftrightarrow> path = [] \<and> r = i"
  by (cases path) (auto simp: parent_before_genesis)

lemma parent_is_stored:
  assumes "wf_store c H db" "index_at db (ci_ID i) = Some i" "parent_index db i = Some p"
  shows "index_at db (ci_ID p) = Some p"
proof -
  from assms(3) obtain sb where sb: "db_Blocks db (ci_ID i) = Some sb" and
    p: "p = \<lparr>ci_Height = ci_Height i - 1, ci_ID = bh_ParentID (sb_Header sb)\<rparr>"
    by (auto simp: parent_index_def getBlockHeader_map split: option.splits)
  from assms(1) sb have wf: "wf_block c H db (ci_ID i) sb" by (simp add: wf_store_def)
  then obtain j where j: "index_at db (bh_ParentID (sb_Header sb)) = Some j"
    "index_at db (ci_ID i) = Some \<lparr>ci_Height = ci_Height j + 1, ci_ID = ci_ID i\<rparr>" by (auto simp: wf_block_def)
  from j(2) assms(2) have "ci_Height i = ci_Height j + 1" by (metis ChainIndex.select_convs(1) option.inject)
  moreover from wf_store_index [OF assms(1) j(1)] have "ci_ID j = ci_ID p" using p by simp
  ultimately have "j = p" using p by simp
  with j(1) p show ?thesis by simp
qed

lemma path_is_stored:
  assumes "wf_store c H db" "descends db a path r" "index_at db (ci_ID a) = Some a"
  shows "index_at db (ci_ID r) = Some r"
  using assms(2,3)
proof (induction path arbitrary: a)
  case (Cons x path)
  then show ?case using parent_is_stored [OF assms(1)] by (auto split: option.splits)
qed simp

text \<open>Paths from the same block to \<open>before_genesis\<close> and to another ancestor.\<close>

lemma path_splits:
  assumes "collision_free c H" "wf_store c H db" "descends db a path before_genesis" "descends db a revert r"
  obtains rest where "path = revert @ rest" "descends db r rest before_genesis"
proof -
  have "\<exists>rest. path = revert @ rest \<and> descends db r rest before_genesis"
    using assms(3,4)
  proof (induction revert arbitrary: a path)
    case (Cons x revert)
    then obtain p where p: "parent_index db a = Some p" "descends db p revert r" "x = a" by (auto split: option.splits)
    moreover have "path \<noteq> []" using Cons.prems(1) p(1) parent_before_genesis [OF assms(1,2)] by auto
    ultimately obtain path' where path': "path = a # path'" "descends db p path' before_genesis"
      using Cons.prems(1) by (cases path) auto
    from Cons.IH [OF path'(2) p(2)] path'(1) p(3) show ?case by auto
  qed auto
  with that show thesis by blast
qed

lemma no_zero_ancestor:
  assumes "collision_free c H" "wf_store c H db" "descends db a path before_genesis"
  shows "\<not> descends db a xs zero_index"
proof
  assume "descends db a xs zero_index"
  from path_splits [OF assms this] obtain rest where "descends db zero_index rest before_genesis" .
  with descends_from_0 [OF assms(1,2), of zero_index] show False by auto
qed

lemma best_height:
  assumes "best_chain m path"
  shows "ci_Height (Tip m) + 1 = word_of_nat (length path)"
  using assms descends_height [of "m_store m" "Tip m" path before_genesis] by (auto simp: best_chain_def algebra_simps)

lemma descends_nth:
  "descends db a path r \<Longrightarrow> k < length path \<Longrightarrow> ci_Height (path ! k) = ci_Height a - word_of_nat k"
proof (induction path arbitrary: a k)
  case (Cons x path)
  then obtain p where p: "parent_index db a = Some p" "descends db p path r" "x = a" by (auto split: option.splits)
  with Cons.IH [OF p(2)] Cons.prems(2) parent_height [OF p(1)] show ?case by (cases k) auto
qed simp

lemma heights_distinct:
  assumes "descends db a path r" "length path < 2 ^ 63"
  shows "distinct (map ci_Height path)"
proof (unfold distinct_conv_nth length_map, intro allI impI)
  fix i j
  assume ij: "i < length path" "j < length path" "i \<noteq> j"
  then have "unat (word_of_nat i :: u64) = i" "unat (word_of_nat j :: u64) = j"
    using assms(2) by (simp_all add: unat_of_nat_u64_less)
  with ij(3) have "(word_of_nat i :: u64) \<noteq> word_of_nat j" by metis
  with ij show "map ci_Height path ! i \<noteq> map ci_Height path ! j"
    by (simp add: descends_nth [OF assms(1)])
qed

section \<open>What the operations of the store keep\<close>

definition core :: "DBStore \<Rightarrow> (u64 \<rightharpoonup> BlockID) \<times> u64 option \<times> (BlockID \<rightharpoonup> State) \<times> (BlockID \<rightharpoonup> supplementedBlock)" where
  "core db = (db_MainChain db, db_Height db, db_States db, db_Blocks db)"

lemma core_elements [simp]:
  "core (put_node nd db) = core db" "core (putSiacoinElement sce db) = core db" "core (deleteSiacoinElement i db) = core db"
  "core (putSiafundElement sfe db) = core db" "core (deleteSiafundElement j db) = core db"
  "core (putFileContractElement fce db) = core db" "core (deleteFileContractElement k db) = core db"
  "core (putFileContractExpiration k h applying db) = core db"
  by (simp_all add: core_def put_node_def putSiacoinElement_def deleteSiacoinElement_def putSiafundElement_def
    deleteSiafundElement_def putFileContractElement_def deleteFileContractElement_def putFileContractExpiration_def Let_def)

lemma core_expiration: "deleteFileContractExpiration k h db = Ok db' \<Longrightarrow> core db' = core db"
  by (auto simp: deleteFileContractExpiration_def core_def Let_def split: if_splits)

lemma core_diffs [simp]:
  "core (apply_siacoin_diff d db) = core db" "core (revert_siacoin_diff d db) = core db"
  "core (apply_siafund_diff e db) = core db" "core (revert_siafund_diff e db) = core db"
  by (simp_all add: apply_siacoin_diff_def revert_siacoin_diff_def apply_siafund_diff_def revert_siafund_diff_def)

lemma core_contract_diffs:
  "apply_contract_diff d db = Ok db' \<Longrightarrow> core db' = core db" "revert_contract_diff d db = Ok db' \<Longrightarrow> core db' = core db"
  by (auto simp: apply_contract_diff_def revert_contract_diff_def Let_def res_simps dest!: core_expiration
    split: if_splits option.splits)

lemma core_fold: "(\<And>x db. core (f x db) = core db) \<Longrightarrow> core (fold f xs db) = core db"
  by (induction xs arbitrary: db) simp_all

lemma core_fold_res:
  assumes "fold_res f xs db = Ok db'" "\<And>x db db'. f x db = Ok db' \<Longrightarrow> core db' = core db"
  shows "core db' = core db"
  using assms(1) by (rule fold_res_invariant) (auto dest: assms(2))

lemma core_applyElements: "applyElements c cau db = Ok db' \<Longrightarrow> core db' = core db"
  unfolding applyElements_def Let_def
  by (drule core_fold_res) (simp_all add: core_contract_diffs core_fold)

lemma core_revertElements: "revertElements c cru db = Ok db' \<Longrightarrow> core db' = core db"
  unfolding revertElements_def Let_def
  by (auto simp: res_simps core_fold core_contract_diffs dest!: core_fold_res)

lemma Store_ApplyBlock_core:
  assumes "Store_ApplyBlock c cs cau db = Ok db'"
  shows "core db' = core (applyState cs db)"
  using assms core_applyElements by (auto simp: Store_ApplyBlock_def Let_def split: if_splits)

lemma Store_RevertBlock_core:
  assumes "Store_RevertBlock c cs cru db = Ok db'"
  shows "core db' = core (revertState cs db)"
proof -
  from assms obtain db1 where db1: "db' = revertState cs db1" and
    "(if ci_Height (s_Index cs) \<le> n_V2_RequireHeight (db_n db) then revertElements c cru db else Ok db) = Ok db1"
    by (auto simp: Store_RevertBlock_def res_simps)
  then have "core db1 = core db" using core_revertElements by (auto split: if_splits)
  with db1 show ?thesis by (simp add: core_def revertState_def putHeight_def deleteBestIndex_def)
qed

text \<open>The part of the store that the well-formedness is about.\<close>

lemma wf_store_cong:
  assumes "db_States db' = db_States db" "db_Blocks db' = db_Blocks db"
  shows "wf_store c H db' = wf_store c H db" "index_at db' = index_at db" "getBlockHeader db' = getBlockHeader db"
    "heights_below db' n = heights_below db n"
proof -
  show *: "index_at db' = index_at db" by (rule ext) (simp add: index_at_def assms)
  show "getBlockHeader db' = getBlockHeader db" by (rule ext) (simp add: getBlockHeader_map assms)
  show "wf_store c H db' = wf_store c H db" "heights_below db' n = heights_below db n"
    by (simp_all add: wf_store_def wf_block_def heights_below_def * assms)
qed

section \<open>Single blocks\<close>

lemma revertTip_Ok:
  assumes "revertTip c m = (Ok (), m')"
  obtains b bs cs cru db where "blockAndParent (m_store m) (ci_ID (Tip m)) = Some (b, Some bs, cs)"
    "RevertBlock c cs b bs = Ok cru" "Store_RevertBlock c cs cru (m_store m) = Ok db" "m_store m' = db" "m_tipState m' = cs"
    "m_expiringFileContractOrder m' = m_expiringFileContractOrder m"
  using assms by (auto simp: revertTip_def attempt_Ok Let_def split: option.splits)

lemma revertTip_fails: "revertTip c m = (Err e, m') \<Longrightarrow> m' = m"
  by (auto simp: revertTip_def attempt_def Let_def split: option.splits res.splits)

lemma blockAndParent_Some:
  assumes "blockAndParent db bid = Some (b, bs, cs)"
  obtains sb cs' where "db_Blocks db bid = Some sb" "sb_Block sb = Some b" "sb_Supplement sb = bs"
    "db_States db (blk_ParentID b) = Some cs'" "s_Index cs = s_Index cs'"
  using assms by (auto simp: blockAndParent_def Store_Block_def Store_State_def getBlock_def getState_def
    split: option.splits if_splits)

lemma Block_Header_ParentID [simp]: "bh_ParentID (Block_Header c b) = blk_ParentID b"
  by (simp add: Block_Header_def)

definition keeps :: "crypto \<Rightarrow> BlockHeader set \<Rightarrow> Manager \<Rightarrow> Manager \<Rightarrow> bool" where
  "keeps c H m m' \<longleftrightarrow> wf_store c H (m_store m') \<and> index_at (m_store m') = index_at (m_store m) \<and>
     getBlockHeader (m_store m') = getBlockHeader (m_store m)"

lemma keeps_refl: "wf_store c H (m_store m) \<Longrightarrow> keeps c H m m"
  by (simp add: keeps_def)

lemma keeps_trans: "keeps c H m m' \<Longrightarrow> keeps c H m' m'' \<Longrightarrow> keeps c H m m''"
  by (simp add: keeps_def)

lemma revertTip_best:
  assumes free: "collision_free c H" and wf: "wf_store c H (m_store m)" and best: "best_chain m path"
    and run: "revertTip c m = (Ok (), m')"
  obtains p rest where "path = Tip m # rest" "parent_index (m_store m) (Tip m) = Some p" "Tip m' = p"
    "best_chain m' rest" "keeps c H m m'"
proof -
  obtain b bs cs cru db where *: "blockAndParent (m_store m) (ci_ID (Tip m)) = Some (b, Some bs, cs)"
    "Store_RevertBlock c cs cru (m_store m) = Ok db" "m_store m' = db" "m_tipState m' = cs"
    using revertTip_Ok [OF run] by metis
  obtain sb cs' where sb: "db_Blocks (m_store m) (ci_ID (Tip m)) = Some sb" "sb_Block sb = Some b"
    "db_States (m_store m) (blk_ParentID b) = Some cs'" "s_Index cs = s_Index cs'"
    using blockAndParent_Some [OF *(1)] by metis
  have hdr: "sb_Header sb = Block_Header c b" using wf_store_block [OF wf sb(1)] sb(2) by (simp add: wf_block_def)
  define p where "p = \<lparr>ci_Height = ci_Height (Tip m) - 1, ci_ID = blk_ParentID b\<rparr>"
  have p: "parent_index (m_store m) (Tip m) = Some p"
    using sb(1) hdr by (simp add: parent_index_def getBlockHeader_map p_def)
  have tip: "index_at (m_store m) (ci_ID (Tip m)) = Some (Tip m)" using best by (simp add: best_chain_def)
  have cs: "s_Index cs = p"
    using parent_is_stored [OF wf tip p] sb(3,4) by (simp add: index_at_def p_def)
  obtain rest where rest: "path = Tip m # rest" "descends (m_store m) p rest before_genesis"
  proof (cases path)
    case Nil
    with best have "ci_ID (Tip m) = 0" by (simp add: best_chain_def)
    with sb(1) no_block_0 [OF free wf] show thesis by simp
  next
    case (Cons x rest)
    with best p that show thesis by (simp add: best_chain_def)
  qed
  have core: "core db = core (revertState cs (m_store m))" using Store_RevertBlock_core [OF *(2)] .
  then have same: "db_States db = db_States (m_store m)" "db_Blocks db = db_Blocks (m_store m)"
    "db_Height db = Some (ci_Height p)" "db_MainChain db = (db_MainChain (m_store m))(ci_Height (Tip m) := None)"
    by (simp_all add: core_def revertState_def putHeight_def deleteBestIndex_def cs p_def)
  note cong = wf_store_cong [OF same(1,2)]
  have "distinct (map ci_Height path)" using best heights_distinct by (auto simp: best_chain_def)
  then have "ci_Height (Tip m) \<notin> ci_Height ` set rest" using rest(1) by simp
  then have chain: "(db_MainChain (m_store m))(ci_Height (Tip m) := None) = map_of (map (\<lambda>i. (ci_Height i, ci_ID i)) rest)"
    using best rest(1) by (auto simp: best_chain_def fun_eq_iff map_of_eq_None_iff image_image eq_commute [of None])
  have "best_chain m' rest"
    using best rest cs * same chain cong parent_is_stored [OF wf tip p]
    by (simp add: best_chain_def Tip_def descends_cong [OF cong(3)])
  moreover have "keeps c H m m'" using * cong wf by (simp add: keeps_def)
  ultimately show thesis using that [OF rest(1) p _ \<open>best_chain m' rest\<close>] cs *(4) by (simp add: Tip_def)
qed

lemma ApplyHeader_index:
  assumes "ApplyHeader c s bh t = Ok s'" "bh_ParentID bh = 0 \<Longrightarrow> ci_Height (s_Index s) = -1"
  shows "s_Index s' = \<lparr>ci_Height = ci_Height (s_Index s) + 1, ci_ID = BlockHeader_ID c bh\<rparr>"
proof -
  obtain s1 where s1: "header_fields c s bh t = Ok s1" "s_Index s' = s_Index s1" using ApplyHeader_fields [OF assms(1)] by metis
  show ?thesis
  proof (cases "bh_ParentID bh = 0")
    case True
    with s1 assms(2) show ?thesis by (auto simp: header_fields_def res_simps)
  next
    case False
    with s1 show ?thesis by (auto elim!: header_fields_child)
  qed
qed

lemma ApplyBlock_index:
  assumes "ApplyBlock c s b bs t = Ok (s', au)" "blk_ParentID b = 0 \<Longrightarrow> ci_Height (s_Index s) = -1"
  shows "s_Index s' = \<lparr>ci_Height = ci_Height (s_Index s) + 1, ci_ID = Block_ID c b\<rparr>"
proof -
  obtain s0 s1 where s1: "ApplyHeader c s0 (Block_Header c b) t = Ok s1" "s_Index s0 = s_Index s" "s_Index s' = s_Index s1"
    using assms(1) by (rule ApplyBlock_Ok) (auto split: option.splits)
  show ?thesis using ApplyHeader_index [OF s1(1)] assms(2) s1(2,3) by (simp add: Block_ID_def)
qed

lemma applied_block_Ok:
  assumes "applied_block c m index = Ok (db, cs, cau)"
  obtains b bs0 bs t where "Store_Block (m_store m) (ci_ID index) = Some (b, bs0)" "blk_ParentID b = ci_ID (Tip m)"
    "ApplyBlock c (m_tipState m) b bs t = Ok (cs, cau)"
    "db = m_store m \<or> db = AddBlock c b (Some bs) (putState cs (m_store m))"
  using assms by (auto simp: applied_block_def res_simps split: option.splits if_splits)

lemma applyTip_Ok:
  assumes "applyTip c index m = (Ok (), m')"
  obtains db cs cau where "applied_block c m index = Ok (db, cs, cau)" "Store_ApplyBlock c cs cau db = Ok (m_store m')"
    "m_tipState m' = cs" "m_expiringFileContractOrder m' = m_expiringFileContractOrder m"
  using assms by (auto simp: applyTip_def attempt_Ok)

lemma applyTip_fails: "applyTip c index m = (Err e, m') \<Longrightarrow> m' = m"
  by (auto simp: applyTip_def attempt_def split: res.splits)

text \<open>Storing a block and a state again, with the same header and the same index.\<close>

lemma putState_index: "index_at (putState cs db) = (index_at db)(ci_ID (s_Index cs) \<mapsto> s_Index cs)"
  by (rule ext) (simp add: index_at_def putState_def)

lemma AddBlock_frame [simp]:
  "index_at (AddBlock c b bs db) = index_at db" "db_MainChain (AddBlock c b bs db) = db_MainChain db"
  "db_Height (AddBlock c b bs db) = db_Height db"
  "db_Blocks (AddBlock c b bs db) = (db_Blocks db)
     (Block_ID c b \<mapsto> \<lparr>sb_Header = Block_Header c b, sb_Block = Some b, sb_Supplement = bs\<rparr>)"
  "db_MainChain (putState cs db) = db_MainChain db" "db_Height (putState cs db) = db_Height db"
  "db_Blocks (putState cs db) = db_Blocks db"
  by (rule ext | simp add: index_at_def AddBlock_def putBlock_def putState_def Block_ID_def)+

lemma store_again:
  assumes wf: "wf_store c H db" and sb: "db_Blocks db (Block_ID c b) = Some sb" "sb_Header sb = Block_Header c b"
    and cs: "index_at db (Block_ID c b) = Some (s_Index cs)"
  shows "wf_store c H (AddBlock c b bs (putState cs db))" "index_at (AddBlock c b bs (putState cs db)) = index_at db"
    "getBlockHeader (AddBlock c b bs (putState cs db)) = getBlockHeader db"
proof -
  have "ci_ID (s_Index cs) = Block_ID c b" using wf_store_index [OF wf cs] .
  with cs show *: "index_at (AddBlock c b bs (putState cs db)) = index_at db" by (auto simp: putState_index)
  show "getBlockHeader (AddBlock c b bs (putState cs db)) = getBlockHeader db"
    using sb by (auto simp: getBlockHeader_map fun_eq_iff)
  have new: "wf_block c H db (Block_ID c b) \<lparr>sb_Header = Block_Header c b, sb_Block = Some b, sb_Supplement = bs\<rparr>"
    using wf_store_block [OF wf sb(1)] sb(2) by (simp add: wf_block_def)
  have eq: "wf_block c H (AddBlock c b bs (putState cs db)) = wf_block c H db"
    by (intro ext) (simp only: wf_block_def *)
  have "wf_block c H db bid sb'" if "db_Blocks (AddBlock c b bs (putState cs db)) bid = Some sb'" for bid sb'
    using that new wf_store_block [OF wf, of bid sb'] by (cases "bid = Block_ID c b") simp_all
  moreover have "db_Blocks db bid \<noteq> None \<Longrightarrow> db_Blocks (AddBlock c b bs (putState cs db)) bid \<noteq> None" for bid by simp
  ultimately show "wf_store c H (AddBlock c b bs (putState cs db))"
    using wf unfolding wf_store_def * eq by metis
qed

lemma applyTip_best:
  assumes wf: "wf_store c H (m_store m)" and best: "best_chain m path" and low: "heights_below (m_store m) (2 ^ 63)"
    and p: "parent_index (m_store m) index = Some (Tip m)" and run: "applyTip c index m = (Ok (), m')"
  shows "Tip m' = index" "best_chain m' (index # path)" "keeps c H m m'"
proof -
  obtain db cs cau where app: "applied_block c m index = Ok (db, cs, cau)" "Store_ApplyBlock c cs cau db = Ok (m_store m')"
    "m_tipState m' = cs" using applyTip_Ok [OF run] by metis
  obtain b bs0 bs t where b: "Store_Block (m_store m) (ci_ID index) = Some (b, bs0)" "blk_ParentID b = ci_ID (Tip m)"
    "ApplyBlock c (m_tipState m) b bs t = Ok (cs, cau)"
    "db = m_store m \<or> db = AddBlock c b (Some bs) (putState cs (m_store m))" using applied_block_Ok [OF app(1)] .
  obtain sb where sb: "db_Blocks (m_store m) (ci_ID index) = Some sb" "sb_Block sb = Some b"
    using b(1) by (auto simp: Store_Block_def getBlock_def split: option.splits)
  have hdr: "sb_Header sb = Block_Header c b" "Block_ID c b = ci_ID index"
    using wf_store_block [OF wf sb(1)] sb(2) by (auto simp: wf_block_def Block_ID_def)
  have tip: "index_at (m_store m) (ci_ID (Tip m)) = Some (Tip m)" using best by (simp add: best_chain_def)
  have g: "ci_ID (Tip m) = 0 \<Longrightarrow> ci_Height (Tip m) = -1" using tip wf by (simp add: wf_store_def)
  have h: "ci_Height (Tip m) + 1 = ci_Height index" using parent_height [OF p] by simp
  have cs: "s_Index cs = index"
    using ApplyBlock_index [OF b(3)] g b(2) h hdr(2) by (simp add: Tip_def)
  then show "Tip m' = index" using app(3) by (simp add: Tip_def)
  have stored: "index_at (m_store m) (ci_ID index) = Some index"
  proof -
    obtain i where "index_at (m_store m) (bh_ParentID (sb_Header sb)) = Some i"
      "index_at (m_store m) (ci_ID index) = Some \<lparr>ci_Height = ci_Height i + 1, ci_ID = ci_ID index\<rparr>"
      using wf_store_block [OF wf sb(1)] by (auto simp: wf_block_def)
    with hdr b(2) tip h show ?thesis by simp
  qed
  have keep: "wf_store c H db" "index_at db = index_at (m_store m)" "getBlockHeader db = getBlockHeader (m_store m)"
    "db_MainChain db = db_MainChain (m_store m)"
    using b(4) store_again [OF wf, of b sb cs "Some bs"] sb hdr cs stored wf by auto
  have "core (m_store m') = core (applyState cs db)" using Store_ApplyBlock_core [OF app(2)] .
  then have same: "db_States (m_store m') = db_States db" "db_Blocks (m_store m') = db_Blocks db"
    "db_Height (m_store m') = Some (ci_Height index)"
    "db_MainChain (m_store m') = (db_MainChain db)(ci_Height index \<mapsto> ci_ID index)"
    by (simp_all add: core_def applyState_def putHeight_def putBestIndex_def cs)
  note cong = wf_store_cong [OF same(1,2)]
  show kept: "keeps c H m m'" using cong keep by (simp add: keeps_def)
  have len: "Suc (length path) < 2 ^ 63"
  proof -
    have "unat (ci_Height index + 1) < 2 ^ 63" using low stored by (auto simp: heights_below_def)
    moreover have "ci_Height index + 1 = word_of_nat (Suc (length path))" using best_height [OF best] h by simp
    moreover have "Suc (length path) < 2 ^ 64" using best by (simp add: best_chain_def)
    ultimately show ?thesis by (metis unat_of_nat_u64_less)
  qed
  show "best_chain m' (index # path)"
    using best same cong keep stored len p \<open>Tip m' = index\<close>
    by (simp add: best_chain_def descends_cong [of "m_store m'" "m_store m"] parent_index_def)
qed

end
