(* ===== verification/PoolRules.thy ===== *)
theory PoolRules
  imports PoolOperations
begin

text \<open>
  Rules about the transaction pool of a chain on which version 1 transactions are no longer allowed, as
  on every block of a QDAY network after the genesis block: the transactions of the pool are valid one
  after the other on top of the tip, and the index of the pool has exactly their positions.
\<close>

definition v2_only :: "Manager \<Rightarrow> bool" where
  "v2_only m \<longleftrightarrow> n_V2_RequireHeight (s_Network (m_tipState m)) \<le> childHeight (m_tipState m)"

text \<open>The pool while \<open>ms\<close> is its midstate.\<close>

definition pool_state :: "crypto \<Rightarrow> State \<Rightarrow> MidState \<Rightarrow> txpool \<Rightarrow> bool" where
  "pool_state c cs ms pool \<longleftrightarrow> tp_txns pool = [] \<and>
     fold_res (add_v2txn c) (tp_v2txns pool) (NewMidState cs) = Ok ms \<and>
     (\<forall>txid i. tp_indices pool txid = Some i \<longleftrightarrow>
        i < length (tp_v2txns pool) \<and> V2Transaction_ID c (tp_v2txns pool ! i) = txid) \<and>
     tp_weight pool = sum_list (map V2TransactionWeight (tp_v2txns pool))"

definition pool_ok :: "crypto \<Rightarrow> Manager \<Rightarrow> bool" where
  "pool_ok c m \<longleftrightarrow> (case tp_ms (m_txpool m) of
      None \<Rightarrow> True
    | Some ms \<Rightarrow> pool_state c (m_tipState m) ms (m_txpool m))"

section \<open>Applying a transaction does not return an error\<close>

definition no_err :: "'a res \<Rightarrow> bool" where
  "no_err r \<longleftrightarrow> (\<forall>e. r \<noteq> Err e)"

lemma no_err_simps [simp]: "no_err (Ok x)" "no_err (Panic p)" "\<not> no_err (Err e)"
  by (simp_all add: no_err_def)

lemma no_err_rbind: "no_err m \<Longrightarrow> (\<And>x. m = Ok x \<Longrightarrow> no_err (f x)) \<Longrightarrow> no_err (rbind m f)"
  by (cases m) simp_all

lemma no_err_fold_res: "(\<And>x s. no_err (f x s)) \<Longrightarrow> no_err (fold_res f xs s)"
  by (induction xs arbitrary: s) (simp_all add: no_err_rbind)

lemma no_err_enum_res: "(\<And>i x s. no_err (f i x s)) \<Longrightarrow> no_err (enum_res f xs s)"
  unfolding enum_res_def by (rule no_err_fold_res) (simp add: case_prod_beta)

lemmas no_err_rules = no_err_rbind no_err_fold_res no_err_enum_res

lemma no_err_currency [simp]:
  "no_err (Currency_Add a b)" "no_err (Currency_Sub a b)" "no_err (Currency_Mul64 a v)" "no_err (Currency_Div64 a v)"
  "no_err (V2FileContractTax fc)"
proof -
  show div: "no_err (Currency_Div64 a v)" for a v
    by (auto simp: Currency_Div64_def Currency_quoRem64_def div64_def Let_def intro!: no_err_rules split: prod.splits)
  show "no_err (Currency_Add a b)" "no_err (Currency_Sub a b)" "no_err (Currency_Mul64 a v)"
    by (simp_all add: Currency_Add_def Currency_Sub_def Currency_Mul64_def Let_def split: prod.split)
  then show "no_err (V2FileContractTax fc)"
    using div by (auto simp: V2FileContractTax_def Currency_Add_def Let_def intro!: no_err_rules split: prod.splits)
qed

lemma no_err_record [simp]:
  "no_err (recordSiacoinElement eid ms)" "no_err (recordSiafundElement eid ms)" "no_err (recordV2FileContractElement eid ms)"
  by (simp_all add: recordSiacoinElement_def recordSiafundElement_def recordV2FileContractElement_def Let_def split: option.split)

lemma no_err_coins [simp]:
  "no_err (createSiacoinElement eid sco ms)" "no_err (createImmatureSiacoinElement eid sco ms)"
  "no_err (spendSiacoinElement sce txid ms)"
  by (auto simp: createSiacoinElement_def createImmatureSiacoinElement_def spendSiacoinElement_def Let_def
    intro!: no_err_rules split: prod.splits)

lemma no_err_others [simp]:
  "no_err (createSiafundElement eid sfo ms)" "no_err (spendSiafundElement sfe txid ms)"
  "no_err (createV2FileContractElement eid fc ms)" "no_err (reviseV2FileContractElement fce fc ms)"
  "no_err (resolveV2FileContractElement fce res txid ms)" "no_err (claim_portion ms sfe)"
  by (auto simp: createSiafundElement_def spendSiafundElement_def createV2FileContractElement_def
    reviseV2FileContractElement_def resolveV2FileContractElement_def claim_portion_def Let_def
    intro!: no_err_rules split: prod.splits)

lemma no_err_resolution [simp]: "no_err (apply_resolution c txid fcr ms)"
  by (auto simp: apply_resolution_def Let_def intro!: no_err_rules split: prod.splits V2FileContractResolutionType.splits)

lemma no_err_ApplyV2Transaction: "no_err (ApplyV2Transaction c txn ms)"
  unfolding ApplyV2Transaction_def Let_def create_siacoins_def
  by (intro no_err_rules) (auto intro!: no_err_rules)

section \<open>Adding one transaction\<close>

lemma pool_state_add:
  assumes "pool_state c cs ms pool" "tp_indices pool (V2Transaction_ID c txn) = None"
    "ValidateV2Transaction c ms txn = Ok ()" "ApplyV2Transaction c txn ms = Ok ms'"
    "tp_txns pool' = tp_txns pool" "tp_v2txns pool' = tp_v2txns pool @ [txn]"
    "tp_indices pool' = (tp_indices pool)(V2Transaction_ID c txn \<mapsto> length (tp_v2txns pool))"
    "tp_weight pool' = tp_weight pool + V2TransactionWeight txn"
  shows "pool_state c cs ms' pool'"
proof -
  have "tp_indices pool' txid = Some i \<longleftrightarrow> i < length (tp_v2txns pool') \<and> V2Transaction_ID c (tp_v2txns pool' ! i) = txid"
    for txid i
  proof (cases "txid = V2Transaction_ID c txn")
    case True
    have "V2Transaction_ID c (tp_v2txns pool ! i) \<noteq> V2Transaction_ID c txn" if "i < length (tp_v2txns pool)"
      using that assms(1,2) by (metis option.distinct(1) pool_state_def)
    with True assms(6,7) show ?thesis by (auto simp: nth_append less_Suc_eq)
  next
    case False
    with assms(1,6,7) show ?thesis by (auto simp: pool_state_def nth_append less_Suc_eq)
  qed
  with assms show ?thesis by (simp add: pool_state_def fold_res_append add_v2txn_def)
qed

lemma pool_state_cong:
  assumes "tp_txns pool' = tp_txns pool" "tp_v2txns pool' = tp_v2txns pool" "tp_indices pool' = tp_indices pool"
    "tp_weight pool' = tp_weight pool"
  shows "pool_state c cs ms pool' = pool_state c cs ms pool"
  by (simp add: pool_state_def assms)

section \<open>Revalidation\<close>

lemma v1_rejected:
  assumes "n_V2_RequireHeight (s_Network (ms_base ms)) \<le> childHeight (ms_base ms)"
  shows "ValidateTransaction c ms txn ts = Err ''v1 transactions are not allowed after v2 hardfork is complete''"
  using assms by (simp add: ValidateTransaction_def)

lemma readd_txn_v2_only:
  assumes "n_V2_RequireHeight (s_Network cs) \<le> childHeight cs" "readd_txn c db txn (NewMidState cs, pool) = Ok st"
  shows "st = (NewMidState cs, pool)"
  using assms(2) v1_rejected [of "NewMidState cs" c txn] assms(1)
  by (auto simp: readd_txn_def Let_def res_simps on_err_def NewMidState_def split: if_splits)

lemma readd_txns_v2_only:
  assumes "n_V2_RequireHeight (s_Network cs) \<le> childHeight cs" "fold_res (readd_txn c db) txns (NewMidState cs, pool) = Ok st"
  shows "st = (NewMidState cs, pool)"
  using assms(2) by (rule fold_res_invariant) (auto dest: readd_txn_v2_only [OF assms(1)])

lemma readd_v2txns:
  assumes "fold_res (readd_v2txn c) txns (ms, pool) = Ok (ms', pool')" "pool_state c cs ms pool"
  shows "pool_state c cs ms' pool'"
proof -
  have "case (ms', pool') of (ms, pool) \<Rightarrow> pool_state c cs ms pool"
    using assms(1)
  proof (rule fold_res_invariant)
    fix txn st st'
    assume st: "case st of (ms, pool) \<Rightarrow> pool_state c cs ms pool" and run: "readd_v2txn c txn st = Ok st'"
    obtain ms pool where ms: "st = (ms, pool)" by fastforce
    show "case st' of (ms, pool) \<Rightarrow> pool_state c cs ms pool"
    proof (cases "st' = st")
      case False
      then obtain ms1 pool1 where "tp_indices pool (V2Transaction_ID c txn) = None" "ValidateV2Transaction c ms txn = Ok ()"
        "ApplyV2Transaction c txn ms = Ok ms1" "st' = (ms1, pool1)" "pool1 = pool\<lparr>tp_indices := (tp_indices pool)
           (V2Transaction_ID c txn \<mapsto> length (tp_v2txns pool)), tp_weight := tp_weight pool + V2TransactionWeight txn,
           tp_v2txns := tp_v2txns pool @ [txn]\<rparr>"
        using run ms by (auto simp: readd_v2txn_def Let_def on_err_def res_simps split: if_splits res.splits)
      with st ms show ?thesis by (auto intro: pool_state_add)
    qed (use st in simp)
  qed (use assms(2) in simp)
  then show ?thesis by simp
qed

lemma evict_Ok: "evict perm pool = Ok pool' \<Longrightarrow> \<exists>txns v2txns. pool' = pool\<lparr>tp_txns := txns, tp_v2txns := v2txns\<rparr>"
  by (auto simp: evict_def Let_def split: if_splits)

lemma revalidatePool_ok:
  assumes run: "revalidatePool c perm m = Ok m'" and v2: "v2_only m" and ok: "pool_ok c m"
  obtains ms where "tp_ms (m_txpool m') = Some ms" "pool_state c (m_tipState m) ms (m_txpool m')"
    "m' = m\<lparr>m_txpool := m_txpool m'\<rparr>"
proof (cases "tp_ms (m_txpool m) \<noteq> None \<and> tp_weight (m_txpool m) < txpoolMaxWeight")
  case True
  then have "m' = m" using run by (simp add: revalidatePool_def Let_def)
  with True ok that show thesis by (auto simp: pool_ok_def)
next
  case False
  define cs where "cs = m_tipState m"
  from run False obtain pool0 ms1 pool1 ms2 pool2 v2txns where
    1: "fold_res (readd_txn c (m_store m)) (tp_txns pool0 @ tp_lastReverted pool0)
      (NewMidState cs, pool0\<lparr>tp_indices := Map.empty, tp_weight := 0, tp_txns := []\<rparr>) = Ok (ms1, pool1)"
    and 2: "fold_res (readd_v2txn c) v2txns (ms1, pool1\<lparr>tp_v2txns := []\<rparr>) = Ok (ms2, pool2)"
    and m': "m' = m\<lparr>m_txpool := pool2\<lparr>tp_ms := Some ms2\<rparr>\<rparr>"
    by (auto simp: revalidatePool_def Let_def res_simps cs_def)
  from readd_txns_v2_only [OF _ 1] v2 have "ms1 = NewMidState cs"
    "pool1 = pool0\<lparr>tp_indices := Map.empty, tp_weight := 0, tp_txns := []\<rparr>" by (simp_all add: v2_only_def cs_def)
  then have "pool_state c cs ms1 (pool1\<lparr>tp_v2txns := []\<rparr>)" by (simp add: pool_state_def)
  from readd_v2txns [OF 2 this] that m' show thesis by (simp add: pool_state_def cs_def)
qed

section \<open>Adding sets\<close>

lemma pool_add_v2txn_ok:
  assumes "pool_state c (m_tipState m) ms (m_txpool m)" "tp_ms (m_txpool m) = Some ms"
    "pool_add_v2txn c k w txn m = (r, m')" "\<not> panics r"
  shows "m_tipState m' = m_tipState m \<and> (case r of
      Ok _ \<Rightarrow> \<exists>ms'. tp_ms (m_txpool m') = Some ms' \<and> pool_state c (m_tipState m) ms' (m_txpool m')
    | _ \<Rightarrow> tp_ms (m_txpool m') = None)"
proof (cases "tp_indices (m_txpool m) (V2Transaction_ID c txn)")
  case (Some i)
  with assms show ?thesis by (auto simp: pool_add_v2txn_def Let_def)
next
  case None
  show ?thesis
  proof (cases "ValidateV2Transaction c ms txn")
    case (Ok u)
    show ?thesis
    proof (cases "ApplyV2Transaction c txn ms")
      case app: (Ok ms')
      then have r: "r = Ok ()" "m' = m\<lparr>m_txpool := (m_txpool m)\<lparr>tp_ms := Some ms', tp_indices := (tp_indices (m_txpool m))
          (V2Transaction_ID c txn \<mapsto> length (tp_v2txns (m_txpool m))), tp_v2txns := tp_v2txns (m_txpool m) @ [txn],
          tp_weight := tp_weight (m_txpool m) + V2TransactionWeight txn\<rparr>\<rparr>"
        using assms(2,3) None Ok by (auto simp: pool_add_v2txn_def Let_def pool_midstate_def attempt_def)
      then show ?thesis using pool_state_add [OF assms(1) None _ app, of "m_txpool m'"] Ok by simp
    next
      case (Err e)
      with no_err_ApplyV2Transaction show ?thesis by (metis no_err_simps(3))
    qed (use assms(2-4) None Ok in \<open>auto simp: pool_add_v2txn_def Let_def pool_midstate_def attempt_def\<close>)
  next
    case (Err e)
    with assms(2,3) None show ?thesis
      by (auto simp: pool_add_v2txn_def Let_def pool_midstate_def undo_set_def attempt_def)
  next
    case (Panic p)
    with assms(2,3) None have "r = Panic p" by (simp add: pool_add_v2txn_def Let_def pool_midstate_def attempt_def)
    with assms(4) show ?thesis by simp
  qed
qed

lemma add_v2txns_ok:
  assumes "pool_state c (m_tipState m) ms (m_txpool m)" "tp_ms (m_txpool m) = Some ms"
    "for_each_s (pool_add_v2txn c k w) txns m = (r, m')" "\<not> panics r"
  shows "m_tipState m' = m_tipState m \<and> (case r of
      Ok _ \<Rightarrow> \<exists>ms'. tp_ms (m_txpool m') = Some ms' \<and> pool_state c (m_tipState m) ms' (m_txpool m')
    | _ \<Rightarrow> tp_ms (m_txpool m') = None)"
  using assms
proof (induction txns arbitrary: m ms)
  case (Cons txn txns)
  obtain r1 m1 where 1: "pool_add_v2txn c k w txn m = (r1, m1)" by fastforce
  have np: "\<not> panics r1" using Cons.prems(3,4) 1 by (cases r1) (auto simp: sbind_def)
  note step = pool_add_v2txn_ok [OF Cons.prems(1,2) 1 np]
  show ?case
  proof (cases r1)
    case (Ok u)
    with step obtain ms1 where ms1: "m_tipState m1 = m_tipState m" "tp_ms (m_txpool m1) = Some ms1"
      "pool_state c (m_tipState m1) ms1 (m_txpool m1)" by auto
    have "for_each_s (pool_add_v2txn c k w) txns m1 = (r, m')" using Cons.prems(3) 1 Ok by (simp add: sbind_def)
    from Cons.IH [OF ms1(3,2) this Cons.prems(4)] ms1(1) show ?thesis by (cases r) simp_all
  next
    case (Err e)
    with step Cons.prems(3) 1 show ?thesis by (auto simp: sbind_def)
  qed (use np in simp)
qed auto

lemma pool_ok_cong:
  assumes "m_tipState m' = m_tipState m" "tp_ms (m_txpool m') = Some ms'"
  shows "pool_ok c m' = pool_state c (m_tipState m) ms' (m_txpool m')"
  by (simp add: pool_ok_def assms)

lemma AddV2PoolTransactions_ok:
  assumes "AddV2PoolTransactions c perm basis txns m = (r, m')" "\<not> panics r" "v2_only m" "pool_ok c m"
  shows "pool_ok c m'"
proof (cases "revalidatePool c perm m")
  case (Ok m1)
  from revalidatePool_ok [OF Ok assms(3,4)] obtain ms where ms: "tp_ms (m_txpool m1) = Some ms"
    "pool_state c (m_tipState m) ms (m_txpool m1)" and m1: "m1 = m\<lparr>m_txpool := m_txpool m1\<rparr>" .
  have tip: "m_tipState m1 = m_tipState m" by (subst m1) simp
  with ms have ok1: "pool_ok c m1" by (simp add: pool_ok_def)
  note run = assms(1) [unfolded AddV2PoolTransactions_def change_def Ok attempt_def res.case]
  show ?thesis
  proof (cases "m' = m1")
    case False
    obtain k w txns' r2 m2 where loop: "for_each_s (pool_add_v2txn c k w) txns' m1 = (r2, m2)"
      and r: "case r2 of Ok _ \<Rightarrow> m' = clear_medianFee m2 | Err e \<Rightarrow> r = Err e \<and> m' = m2 | Panic p \<Rightarrow> r = Panic p"
      using run False by (auto simp: sbind_def split: if_splits res.splits prod.splits)
    have "\<not> panics r2" using r assms(2) by (cases r2) auto
    from add_v2txns_ok [OF _ ms(1) loop this] ms(2) tip r assms(2) show ?thesis
      by (cases r2) (auto simp: pool_ok_def clear_medianFee_def pool_state_def)
  qed (use ok1 in simp)
next
  case (Err e)
  with assms(1,4) show ?thesis by (simp add: AddV2PoolTransactions_def change_def attempt_def)
next
  case (Panic p)
  with assms(1,2) show ?thesis by (auto simp: AddV2PoolTransactions_def change_def attempt_def)
qed

lemma AddPoolTransactions_ok:
  assumes "AddPoolTransactions c perm txns m = (r, m')" "\<not> panics r" "v2_only m" "pool_ok c m"
  shows "pool_ok c m'"
proof (cases "revalidatePool c perm m")
  case (Ok m1)
  from revalidatePool_ok [OF Ok assms(3,4)] obtain ms where ms: "tp_ms (m_txpool m1) = Some ms"
    "pool_state c (m_tipState m) ms (m_txpool m1)" and m1: "m1 = m\<lparr>m_txpool := m_txpool m1\<rparr>" .
  have tip: "m_tipState m1 = m_tipState m" by (subst m1) simp
  with ms have ok1: "pool_ok c m1" by (simp add: pool_ok_def)
  have "checkTxnSet c m1 txns [] \<noteq> Ok False"
  proof (cases txns)
    case (Cons txn txns')
    have "add_txn c (m_store m1) txn (NewMidState (m_tipState m)) \<noteq> Ok x" for x
      using assms(3) v1_rejected [of "NewMidState (m_tipState m)" c txn]
      by (auto simp: add_txn_def res_simps v2_only_def NewMidState_def)
    then show ?thesis by (auto simp: checkTxnSet_def Cons res_simps tip)
  qed (auto simp: checkTxnSet_def res_simps Let_def)
  then have "m' = m1" using assms(1)
    by (auto simp: AddPoolTransactions_def change_def attempt_def Ok split: if_splits res.splits)
  with ok1 show ?thesis by simp
next
  case (Err e)
  with assms(1,4) show ?thesis by (simp add: AddPoolTransactions_def change_def attempt_def)
next
  case (Panic p)
  with assms(1,2) show ?thesis by (auto simp: AddPoolTransactions_def change_def attempt_def)
qed

section \<open>Undoing a set\<close>

text \<open>The pool after some transactions of a set were added to \<open>pool0\<close>.\<close>

definition grown :: "crypto \<Rightarrow> txpool \<Rightarrow> txpool \<Rightarrow> bool" where
  "grown c pool0 pool \<longleftrightarrow> (\<exists>added. tp_v2txns pool = tp_v2txns pool0 @ added \<and>
     (\<forall>txid. if txid \<in> V2Transaction_ID c ` set added then tp_indices pool0 txid = None
             else tp_indices pool txid = tp_indices pool0 txid)) \<and>
   tp_txns pool = tp_txns pool0 \<and> tp_medianFee pool = tp_medianFee pool0 \<and> tp_lastReverted pool = tp_lastReverted pool0 \<and>
   tp_lastRevertedV2 pool = tp_lastRevertedV2 pool0"

lemma delete_indices:
  "fold (\<lambda>added ixs. ixs(V2Transaction_ID c added := None)) added ixs txid =
     (if txid \<in> V2Transaction_ID c ` set added then None else ixs txid)"
  by (induction added arbitrary: ixs) auto

lemma undo_grown:
  assumes "grown c pool0 pool"
  shows "undo_set c (length (tp_v2txns pool0)) (tp_weight pool0) pool = pool0\<lparr>tp_ms := None\<rparr>"
proof -
  from assms obtain added where added: "tp_v2txns pool = tp_v2txns pool0 @ added"
    "\<And>txid. if txid \<in> V2Transaction_ID c ` set added then tp_indices pool0 txid = None
       else tp_indices pool txid = tp_indices pool0 txid" by (auto simp: grown_def)
  have "fold (\<lambda>added ixs. ixs(V2Transaction_ID c added := None)) added (tp_indices pool) = tp_indices pool0"
    using added(2) by (auto simp: fun_eq_iff delete_indices split: if_splits)
  with assms added(1) show ?thesis by (auto simp: undo_set_def grown_def)
qed

lemma grown_add:
  assumes "grown c pool0 pool" "tp_indices pool (V2Transaction_ID c txn) = None"
  shows "grown c pool0 (pool\<lparr>tp_ms := ms, tp_indices := (tp_indices pool)(V2Transaction_ID c txn \<mapsto> i),
    tp_v2txns := tp_v2txns pool @ [txn], tp_weight := w\<rparr>)"
proof -
  from assms(1) obtain added where added: "tp_v2txns pool = tp_v2txns pool0 @ added"
    "\<And>txid. if txid \<in> V2Transaction_ID c ` set added then tp_indices pool0 txid = None
       else tp_indices pool txid = tp_indices pool0 txid" by (auto simp: grown_def)
  have "tp_indices pool0 (V2Transaction_ID c txn) = None"
    using added(2) [of "V2Transaction_ID c txn"] assms(2) by (simp split: if_splits)
  then show ?thesis unfolding grown_def
    using added assms by (intro conjI exI [of _ "added @ [txn]"]) (auto simp: grown_def split: if_splits)
qed

lemma txpool_overwrite: "m = m0\<lparr>m_txpool := p\<rparr> \<Longrightarrow> m\<lparr>m_txpool := q\<rparr> = m0\<lparr>m_txpool := q\<rparr>" for m :: Manager
  by simp

lemma add_v2txns_undo:
  assumes "grown c (m_txpool m0) (m_txpool m)" "m = m0\<lparr>m_txpool := m_txpool m\<rparr>"
    "for_each_s (pool_add_v2txn c (length (tp_v2txns (m_txpool m0))) (tp_weight (m_txpool m0))) txns m = (Err e, m')"
  shows "m' = m0\<lparr>m_txpool := (m_txpool m0)\<lparr>tp_ms := None\<rparr>\<rparr>"
  using assms
proof (induction txns arbitrary: m)
  case (Cons txn txns)
  obtain r1 m1 where 1: "pool_add_v2txn c (length (tp_v2txns (m_txpool m0))) (tp_weight (m_txpool m0)) txn m = (r1, m1)"
    by fastforce
  show ?case
  proof (cases r1)
    case (Ok u)
    with 1 have "m1 = m \<or> (\<exists>ms i w. tp_indices (m_txpool m) (V2Transaction_ID c txn) = None \<and>
      m1 = m\<lparr>m_txpool := (m_txpool m)\<lparr>tp_ms := ms, tp_indices := (tp_indices (m_txpool m))(V2Transaction_ID c txn \<mapsto> i),
        tp_v2txns := tp_v2txns (m_txpool m) @ [txn], tp_weight := w\<rparr>\<rparr>)"
      by (auto simp: pool_add_v2txn_def Let_def attempt_def split: if_splits res.splits)
    then have "grown c (m_txpool m0) (m_txpool m1) \<and> m1 = m0\<lparr>m_txpool := m_txpool m1\<rparr>"
    proof
      assume "m1 = m"
      then show ?thesis using Cons.prems(1,2) by metis
    next
      assume "\<exists>ms i w. tp_indices (m_txpool m) (V2Transaction_ID c txn) = None \<and>
        m1 = m\<lparr>m_txpool := (m_txpool m)\<lparr>tp_ms := ms, tp_indices := (tp_indices (m_txpool m))(V2Transaction_ID c txn \<mapsto> i),
          tp_v2txns := tp_v2txns (m_txpool m) @ [txn], tp_weight := w\<rparr>\<rparr>"
      then obtain pool1 where "m1 = m\<lparr>m_txpool := pool1\<rparr>" "grown c (m_txpool m0) pool1"
        using grown_add [OF Cons.prems(1)] by blast
      then show ?thesis using txpool_overwrite [OF Cons.prems(2)] by simp
    qed
    then show ?thesis using Cons.IH [of m1] Cons.prems(3) 1 Ok by (simp add: sbind_def)
  next
    case (Err e')
    have np: "no_err (ApplyV2Transaction c txn ms)" "no_err (pool_midstate pool)" for ms pool
      by (simp_all add: no_err_ApplyV2Transaction pool_midstate_def split: option.split)
    have "m' = m1" using Cons.prems(3) 1 Err by (simp add: sbind_def)
    moreover have "m1 = m\<lparr>m_txpool := undo_set c (length (tp_v2txns (m_txpool m0))) (tp_weight (m_txpool m0)) (m_txpool m)\<rparr>"
      using 1 Err np by (auto simp: pool_add_v2txn_def Let_def attempt_def no_err_def split: if_splits res.splits)
    ultimately show ?thesis using undo_grown [OF Cons.prems(1)] Cons.prems(2) 
      txpool_overwrite [OF Cons.prems(2)] by simp
  qed (use Cons.prems(3) 1 in \<open>simp add: sbind_def\<close>)
qed simp

section \<open>The chain is left alone\<close>

definition same_chain :: "Manager \<Rightarrow> Manager \<Rightarrow> bool" where
  "same_chain m m' \<longleftrightarrow> m_store m' = m_store m \<and> m_tipState m' = m_tipState m"

lemma same_chain_refl [simp]: "same_chain m m"
  by (simp add: same_chain_def)

lemma same_chain_trans: "same_chain m m' \<Longrightarrow> same_chain m' m'' \<Longrightarrow> same_chain m m''"
  by (simp add: same_chain_def)

lemma revalidatePool_same: "revalidatePool c perm m = Ok m' \<Longrightarrow> same_chain m m'"
  by (auto simp: revalidatePool_def Let_def res_simps same_chain_def split: if_splits prod.splits)

lemma for_each_s_same:
  assumes "\<And>x m. same_chain m (snd (f x m))"
  shows "same_chain m (snd (for_each_s f xs m))"
proof (induction xs arbitrary: m)
  case (Cons x xs)
  obtain r m1 where 1: "f x m = (r, m1)" by fastforce
  then have "same_chain m m1" using assms [of m x] by simp
  with 1 Cons [of m1] show ?case by (cases r) (auto intro: same_chain_trans)
qed simp

lemma pool_add_same:
  "same_chain m (snd (pool_add_txn c txn m))" "same_chain m (snd (pool_add_v2txn c k w v2txn m))"
  by (auto simp: pool_add_txn_def pool_add_v2txn_def Let_def attempt_def same_chain_def split: res.split)

lemma clear_medianFee_same: "same_chain m (clear_medianFee m)"
  by (simp add: clear_medianFee_def same_chain_def)

lemma AddPoolTransactions_same: "same_chain m (snd (AddPoolTransactions c perm txns m))"
proof (cases "revalidatePool c perm m")
  case (Ok m1)
  obtain r m2 where 2: "for_each_s (pool_add_txn c) txns m1 = (r, m2)" by fastforce
  then have "same_chain m1 m2" using for_each_s_same [of "pool_add_txn c" m1 txns] pool_add_same(1) by simp
  with revalidatePool_same [OF Ok] have 3: "same_chain m m1" "same_chain m m2" by (auto intro: same_chain_trans)
  with Ok 2 show ?thesis using clear_medianFee_same [of m2]
    by (cases "checkTxnSet c m1 txns []"; cases r)
      (auto simp: AddPoolTransactions_def change_def intro: same_chain_trans)
qed (simp_all add: AddPoolTransactions_def change_def)

lemma AddV2PoolTransactions_same: "same_chain m (snd (AddV2PoolTransactions c perm basis txns m))"
proof (cases "revalidatePool c perm m")
  case (Ok m1)
  have 1: "same_chain m m1" using revalidatePool_same [OF Ok] .
  show ?thesis
  proof (cases "updateV2TransactionProofs c m1 txns basis (Tip m1)")
    case upd: (Ok txns')
    obtain r m2 where 2: "for_each_s (pool_add_v2txn c (length (tp_v2txns (m_txpool m1))) (tp_weight (m_txpool m1))) txns' m1 = (r, m2)"
      by fastforce
    then have "same_chain m1 m2" by (metis for_each_s_same pool_add_same(2) snd_conv)
    with 1 have 3: "same_chain m m2" by (rule same_chain_trans)
    with Ok 1 2 upd show ?thesis using clear_medianFee_same [of m2]
      by (cases "checkTxnSet c m1 [] txns'"; cases r)
        (auto simp: AddV2PoolTransactions_def change_def intro: same_chain_trans)
  qed (use Ok 1 in \<open>auto simp: AddV2PoolTransactions_def change_def\<close>)
qed (simp_all add: AddV2PoolTransactions_def change_def)

section \<open>Sequences of operations on the pool\<close>

inductive pool_run :: "crypto \<Rightarrow> Manager \<Rightarrow> Manager \<Rightarrow> bool" for c m0 where
  pool_start: "pool_run c m0 m0"
| pool_txns: "pool_run c m0 m \<Longrightarrow> AddPoolTransactions c perm txns m = (r, m') \<Longrightarrow> \<not> panics r \<Longrightarrow> pool_run c m0 m'"
| pool_v2txns: "pool_run c m0 m \<Longrightarrow> AddV2PoolTransactions c perm basis v2txns m = (r, m') \<Longrightarrow> \<not> panics r \<Longrightarrow> pool_run c m0 m'"
| pool_read: "pool_run c m0 m \<Longrightarrow> revalidatePool c perm m = Ok m' \<Longrightarrow> pool_run c m0 m'"

lemma pool_run_ok:
  assumes "pool_run c m0 m" "v2_only m0" "tp_ms (m_txpool m0) = None"
  shows "pool_ok c m \<and> m_tipState m = m_tipState m0"
  using assms(1)
proof (induction rule: pool_run.induct)
  case pool_start
  with assms(3) show ?case by (simp add: pool_ok_def)
next
  case (pool_txns m perm txns r m')
  moreover have "v2_only m" using pool_txns assms(2) by (simp add: v2_only_def)
  ultimately show ?case using AddPoolTransactions_ok AddPoolTransactions_same [of m c perm txns] by (auto simp: same_chain_def)
next
  case (pool_v2txns m perm basis v2txns r m')
  moreover have "v2_only m" using pool_v2txns assms(2) by (simp add: v2_only_def)
  ultimately show ?case using AddV2PoolTransactions_ok AddV2PoolTransactions_same [of m c perm basis v2txns] by (auto simp: same_chain_def)
next
  case (pool_read m perm m')
  moreover have "v2_only m" using pool_read assms(2) by (simp add: v2_only_def)
  ultimately obtain ms where "tp_ms (m_txpool m') = Some ms" "pool_state c (m_tipState m) ms (m_txpool m')"
    "m' = m\<lparr>m_txpool := m_txpool m'\<rparr>" using revalidatePool_ok by metis
  then show ?case using pool_read by (simp add: pool_ok_def) (metis Manager.select_convs(2) Manager.surjective Manager.update_convs(4))
qed

lemma V2PoolTransactions_ok:
  assumes "V2PoolTransactions c perm m = Ok (txns, m')" "v2_only m" "pool_ok c m"
  obtains ms where "fold_res (add_v2txn c) txns (NewMidState (m_tipState m)) = Ok ms" "tp_txns (m_txpool m') = []"
    "tp_v2txns (m_txpool m') = txns" "pool_state c (m_tipState m) ms (m_txpool m')"
proof -
  from assms(1) have "revalidatePool c perm m = Ok m'" "txns = tp_v2txns (m_txpool m')"
    by (auto simp: V2PoolTransactions_def res_simps)
  with revalidatePool_ok [OF this(1) assms(2,3)] show thesis using that by (metis pool_state_def)
qed

lemma prefix_ok: "fold_res f xs s = Ok t \<Longrightarrow> \<exists>u. fold_res f (take k xs) s = Ok u"
  using fold_res_append [of f "take k xs" "drop k xs" s] by (cases "fold_res f (take k xs) s") auto

end
