(* ===== verification/ChainReorg.thy ===== *)
theory ChainReorg
  imports BestChain PoolRules
begin

text \<open>
  Reorganisations and new blocks keep the best chain, from the genesis block to the tip, also when they
  fail halfway. The store never gets a second block without a parent, so no reorganisation reverts the
  genesis block.
\<close>

section \<open>Reorganisations\<close>

lemma descends_same_length:
  "descends db a xs r \<Longrightarrow> descends db a ys s \<Longrightarrow> length xs = length ys \<Longrightarrow> r = s"
proof (induction xs arbitrary: a ys)
  case (Cons x xs)
  then show ?case by (cases ys) (auto split: option.splits)
qed simp

text \<open>\<open>G\<close> is the ID of the only block without a parent, and heights are below \<open>n\<close>.\<close>

definition one_genesis :: "BlockID \<Rightarrow> DBStore \<Rightarrow> bool" where
  "one_genesis G db \<longleftrightarrow> (\<forall>bid bh. getBlockHeader db bid = Some bh \<and> bh_ParentID bh = 0 \<longrightarrow> bid = G)"

definition tracked :: "crypto \<Rightarrow> BlockHeader set \<Rightarrow> BlockID \<Rightarrow> nat \<Rightarrow> Manager \<Rightarrow> bool" where
  "tracked c H G n m \<longleftrightarrow> wf_store c H (m_store m) \<and> one_genesis G (m_store m) \<and> heights_below (m_store m) n \<and>
     (\<exists>path. best_chain m path \<and> path \<noteq> [])"

lemma heights_below_mono: "heights_below db n \<Longrightarrow> n \<le> k \<Longrightarrow> heights_below db k"
  by (meson heights_below_def order_less_le_trans)

lemma keeps_heights: "keeps c H m m' \<Longrightarrow> heights_below (m_store m') n = heights_below (m_store m) n"
  by (simp add: keeps_def heights_below_def)

lemma keeps_descends: "keeps c H m m' \<Longrightarrow> descends (m_store m') = descends (m_store m)"
  by (intro ext descends_cong) (simp add: keeps_def)

lemma keeps_parent: "keeps c H m m' \<Longrightarrow> parent_index (m_store m') = parent_index (m_store m)"
  by (intro ext) (simp add: keeps_def parent_index_def)

lemma revert_loop:
  assumes free: "collision_free c H" and "wf_store c H (m_store m)" "best_chain m path"
    and "for_each_s (\<lambda>_. revertTip c) revert m = (r, m')" "\<not> panics r"
  shows "keeps c H m m' \<and> (\<exists>path'. best_chain m' path' \<and> length path - length revert \<le> length path') \<and>
    (r = Ok () \<longrightarrow> (\<exists>path'. descends (m_store m) (Tip m) path' (Tip m') \<and> length path' = length revert))"
  using assms(2-)
proof (induction revert arbitrary: m path)
  case Nil
  then show ?case by (auto simp: keeps_refl intro: exI [of _ "[]"])
next
  case (Cons x revert)
  obtain r1 m1 where 1: "revertTip c m = (r1, m1)" by fastforce
  show ?case
  proof (cases r1)
    case (Ok u)
    then have "revertTip c m = (Ok (), m1)" using 1 by simp
    from revertTip_best [OF free Cons.prems(1,2) this] obtain p rest where p: "path = Tip m # rest"
      "parent_index (m_store m) (Tip m) = Some p" "Tip m1 = p" "best_chain m1 rest" "keeps c H m m1" .
    have "for_each_s (\<lambda>_. revertTip c) revert m1 = (r, m')" using Cons.prems(3) 1 Ok by simp
    from Cons.IH [OF _ p(4) this Cons.prems(4)] p(5) have IH: "keeps c H m1 m'"
      "\<exists>path'. best_chain m' path' \<and> length rest - length revert \<le> length path'"
      "r = Ok () \<longrightarrow> (\<exists>path'. descends (m_store m) p path' (Tip m') \<and> length path' = length revert)"
      by (auto simp: keeps_def p(3) keeps_descends [OF p(5)])
    have "\<exists>path'. descends (m_store m) (Tip m) path' (Tip m') \<and> length path' = length (x # revert)" if "r = Ok ()"
    proof -
      from IH(3) that obtain path' where "descends (m_store m) p path' (Tip m')" "length path' = length revert" by blast
      with p(2) show ?thesis by (intro exI [of _ "Tip m # path'"]) simp
    qed
    with IH keeps_trans [OF p(5)] show ?thesis by (simp add: p(1))
  next
    case (Err e)
    with 1 have "m1 = m" using revertTip_fails by metis
    with Cons.prems 1 Err show ?thesis by (auto simp: keeps_refl intro!: exI [of _ path])
  next
    case (Panic q)
    with Cons.prems(3,4) 1 show ?thesis by auto
  qed
qed

lemma apply_loop:
  assumes "wf_store c H (m_store m)" "best_chain m path" "heights_below (m_store m) (2 ^ 63)"
    and "descends (m_store m) index (rev app) (Tip m)" "for_each_s (applyTip c) app m = (r, m')" "\<not> panics r"
  shows "keeps c H m m' \<and> (\<exists>path'. best_chain m' path' \<and> length path \<le> length path') \<and> (r = Ok () \<longrightarrow> Tip m' = index)"
  using assms
proof (induction app arbitrary: m path)
  case Nil
  then show ?case by (auto simp: keeps_refl)
next
  case (Cons x app)
  obtain r1 m1 where 1: "applyTip c x m = (r1, m1)" by fastforce
  show ?case
  proof (cases r1)
    case (Ok u)
    have x: "descends (m_store m) index (rev app) x" "parent_index (m_store m) x = Some (Tip m)"
      using Cons.prems(4) by (simp_all add: descends_snoc)
    have app: "Tip m1 = x" "best_chain m1 (x # path)" "keeps c H m m1"
      using applyTip_best [OF Cons.prems(1-3) x(2)] 1 Ok by auto
    have "for_each_s (applyTip c) app m1 = (r, m')" using Cons.prems(5) 1 Ok by simp
    with Cons.IH [OF _ app(2), of] Cons.prems(3,6) x(1) app(1,3) keeps_heights [OF app(3)] keeps_descends [OF app(3)]
    have "keeps c H m1 m' \<and> (\<exists>path'. best_chain m' path' \<and> Suc (length path) \<le> length path') \<and> (r = Ok () \<longrightarrow> Tip m' = index)"
      by (simp add: keeps_def)
    with keeps_trans [OF app(3)] show ?thesis using Suc_leD by blast
  next
    case (Err e)
    with 1 have "m1 = m" using applyTip_fails by metis
    with Cons.prems 1 Err show ?thesis by (auto simp: keeps_refl intro!: exI [of _ path])
  next
    case (Panic q)
    with Cons.prems(5,6) 1 show ?thesis by auto
  qed
qed

text \<open>The paths that a reorganisation follows do not reach below the genesis block.\<close>

lemma reorg_above_genesis:
  assumes "one_genesis G db" "descends db a revert before_genesis" "revert \<noteq> []"
    "descends db b (rev app) before_genesis" "ci_ID b \<noteq> 0"
  shows "app \<noteq> [] \<and> last revert = hd app"
proof -
  have child: "x = \<lparr>ci_Height = 0, ci_ID = G\<rparr>" if "parent_index db x = Some before_genesis" for x
    using that assms(1) by (cases x) (auto simp: parent_index_def one_genesis_def split: option.splits)
  have "app \<noteq> []" using assms(4,5) by auto
  then obtain y ys where app: "app = y # ys" by (cases app) auto
  obtain x xs where revert: "revert = xs @ [x]" using assms(3) by (cases revert rule: rev_cases) auto
  have "parent_index db x = Some before_genesis" "parent_index db y = Some before_genesis"
    using assms(2,4) by (simp_all add: app revert descends_snoc)
  with child app revert show ?thesis by (metis last_snoc list.sel(1) list.simps(3))
qed

lemma reorgTo_best:
  assumes free: "collision_free c H" and tracked: "tracked c H G n m" and n: "n \<le> 2 ^ 63" and index: "ci_ID index \<noteq> 0"
    and run: "reorgTo c index m = (r, m')" "\<not> panics r"
  shows "keeps c H m m' \<and> (\<exists>path'. best_chain m' path' \<and> path' \<noteq> []) \<and> (r = Ok () \<longrightarrow> Tip m' = index)"
proof -
  from tracked obtain path where wf: "wf_store c H (m_store m)" and best: "best_chain m path" "path \<noteq> []"
    and low: "heights_below (m_store m) (2 ^ 63)" and one: "one_genesis G (m_store m)"
    using heights_below_mono [OF _ n] by (auto simp: tracked_def)
  show ?thesis
  proof (cases "reorgPath (m_store m) (Tip m) index MaxInt")
    case (Ok ra)
    obtain revert app where ra: "ra = (revert, app)" by fastforce
    have path: "descends (m_store m) (Tip m) path before_genesis" using best by (simp add: best_chain_def)
    from no_zero_ancestor [OF free wf this] obtain q where q: "descends (m_store m) (Tip m) revert q"
      "descends (m_store m) index (rev app) q" "revert \<noteq> [] \<Longrightarrow> app \<noteq> [] \<Longrightarrow> last revert \<noteq> hd app"
      using Ok ra reorgPath_sound by metis
    obtain rest where rest: "path = revert @ rest" "descends (m_store m) q rest before_genesis"
      using path_splits [OF free wf path q(1)] .
    have "rest \<noteq> []"
    proof
      assume "rest = []"
      with rest best(2) have "q = before_genesis" "revert \<noteq> []" by simp_all
      with reorg_above_genesis [OF one _ _ _ index] q show False by metis
    qed
    then have longer: "0 < length path - length revert" using rest(1) by simp
    obtain r1 m1 where 1: "for_each_s (\<lambda>_. revertTip c) revert m = (r1, m1)" by fastforce
    obtain r2 m2 where 2: "for_each_s (applyTip c) app m1 = (r2, m2)" by fastforce
    note reorg = run [unfolded reorgTo_def Ok ra change_simps prod.case 1 2]
    have "\<not> panics r1" using reorg by (cases r1) auto
    from revert_loop [OF free wf best(1) 1 this] obtain path1 where loop1: "keeps c H m m1" "best_chain m1 path1"
      "r1 = Ok () \<longrightarrow> (\<exists>path'. descends (m_store m) (Tip m) path' (Tip m1) \<and> length path' = length revert)"
      "length path - length revert \<le> length path1" by blast
    with longer have "path1 \<noteq> []" by auto
    show ?thesis
    proof (cases "r1 = Ok ()")
      case True
      have "Tip m1 = q" using loop1(3) True q(1) descends_same_length by metis
      then have to_q: "descends (m_store m1) index (rev app) (Tip m1)" using q(2) by (simp add: keeps_descends [OF loop1(1)])
      have "\<not> panics r2" using reorg True by (cases r2) auto
      from apply_loop [OF _ loop1(2) _ to_q 2 this] loop1(1) low keeps_heights [OF loop1(1)]
      have loop2: "keeps c H m1 m2" "\<exists>path'. best_chain m2 path' \<and> length path1 \<le> length path'" "r2 = Ok () \<longrightarrow> Tip m2 = index" by (auto simp: keeps_def)
      have "(r = r2 \<and> m_store m' = m_store m2 \<and> Tip m' = Tip m2)" using reorg True by (cases r2) (auto simp: Tip_def)
      with loop2 keeps_trans [OF loop1(1) loop2(1)] \<open>path1 \<noteq> []\<close> show ?thesis by (auto simp: keeps_def best_chain_def)
    next
      case False
      then have "r = r1 \<and> m' = m1" using reorg \<open>\<not> panics r1\<close> by (cases r1) auto
      with loop1 False \<open>path1 \<noteq> []\<close> show ?thesis by auto
    qed
  next
    case (Err e)
    with run show ?thesis using best wf by (auto simp: reorgTo_def keeps_refl)
  next
    case (Panic e)
    with run show ?thesis by (auto simp: reorgTo_def)
  qed
qed

section \<open>New blocks\<close>

text \<open>The state that the next block is checked against has the index of a state in the store.\<close>

definition stored_state :: "DBStore \<Rightarrow> State \<Rightarrow> bool" where
  "stored_state db cs \<longleftrightarrow> index_at db (ci_ID (s_Index cs)) = Some (s_Index cs)"

definition extends :: "crypto \<Rightarrow> BlockHeader set \<Rightarrow> DBStore \<Rightarrow> DBStore \<Rightarrow> bool" where
  "extends c H db db' \<longleftrightarrow> wf_store c H db' \<and> getBlockHeader db \<subseteq>\<^sub>m getBlockHeader db' \<and> index_at db \<subseteq>\<^sub>m index_at db' \<and>
     db_MainChain db' = db_MainChain db \<and> db_Height db' = db_Height db"

lemma extends_refl: "wf_store c H db \<Longrightarrow> extends c H db db"
  by (simp add: extends_def)

lemma extends_trans: "extends c H db db' \<Longrightarrow> extends c H db' db'' \<Longrightarrow> extends c H db db''"
  by (auto simp: extends_def intro: map_le_trans)

lemma extends_best:
  assumes "extends c H (m_store m) db" "best_chain m path"
  shows "best_chain (m\<lparr>m_store := db\<rparr>) path"
proof -
  have "index_at db (ci_ID (Tip m)) = Some (Tip m)"
    using assms by (auto simp: extends_def best_chain_def map_le_def dom_def)
  then show ?thesis using assms descends_mono [of "m_store m" db]
    by (auto simp: extends_def best_chain_def Tip_def)
qed

lemma unat_Suc_le: "unat (x + 1) \<le> unat x + 1" for x :: u64
  by (simp add: unat_word_ariths)

lemma map_le_Some: "m \<subseteq>\<^sub>m m' \<Longrightarrow> m x = Some y \<Longrightarrow> m' x = Some y"
  by (metis domI map_le_def)

lemma wf_block_mono: "index_at db \<subseteq>\<^sub>m index_at db' \<Longrightarrow> wf_block c H db bid sb \<Longrightarrow> wf_block c H db' bid sb"
  unfolding wf_block_def by (meson map_le_Some)

lemma store_new:
  assumes wf: "wf_store c H db" and H: "Block_Header c b \<in> H" and new: "index_at db (Block_ID c b) = None"
    "db_Blocks db (Block_ID c b) = None" and par: "index_at db (blk_ParentID b) = Some i"
    and cs: "s_Index cs = \<lparr>ci_Height = ci_Height i + 1, ci_ID = Block_ID c b\<rparr>"
  shows "extends c H db (AddBlock c b bs (putState cs db))"
proof -
  let ?db = "AddBlock c b bs (putState cs db)"
  have idx: "index_at ?db = (index_at db)(Block_ID c b \<mapsto> s_Index cs)" by (simp add: putState_index cs)
  have le: "index_at db \<subseteq>\<^sub>m index_at ?db" unfolding idx map_le_def using new(1) by auto
  have "blk_ParentID b \<noteq> Block_ID c b" using new(1) par by auto
  then have block: "wf_block c H ?db (Block_ID c b) \<lparr>sb_Header = Block_Header c b, sb_Block = Some b, sb_Supplement = bs\<rparr>"
    using H par cs unfolding wf_block_def idx by (simp add: Block_ID_def)
  have "wf_block c H ?db bid sb" if "db_Blocks ?db bid = Some sb" for bid sb
    using that block wf_block_mono [OF le wf_store_block [OF wf, of bid sb]] by (cases "bid = Block_ID c b") simp_all
  moreover have "ci_ID j = bid" if "index_at ?db bid = Some j" for bid j
    using that wf_store_index [OF wf, of bid j] cs unfolding idx by (cases "bid = Block_ID c b") auto
  moreover have "bid = 0 \<or> db_Blocks ?db bid \<noteq> None" if "index_at ?db bid \<noteq> None" for bid
    using that wf unfolding idx by (cases "bid = Block_ID c b") (simp_all add: wf_store_def)
  moreover have "index_at ?db 0 = Some before_genesis" using wf map_le_Some [OF le] by (simp add: wf_store_def)
  ultimately have "wf_store c H ?db" unfolding wf_store_def by blast
  moreover have "getBlockHeader db \<subseteq>\<^sub>m getBlockHeader ?db" using new(2) by (auto simp: map_le_def getBlockHeader_map)
  ultimately show ?thesis using le by (simp add: extends_def)
qed

lemma add_stored_block:
  assumes free: "collision_free c H" and wf: "wf_store c H db" and H: "Block_Header c b \<in> H"
    and par: "index_at db (blk_ParentID b) = Some i" and low: "heights_below db n"
    and cs': "s_Index cs' = \<lparr>ci_Height = ci_Height i + 1, ci_ID = Block_ID c b\<rparr>"
  shows "extends c H db (AddBlock c b bs (putState cs' db))" "stored_state (AddBlock c b bs (putState cs' db)) cs'"
    "heights_below (AddBlock c b bs (putState cs' db)) (Suc n)"
proof -
  let ?db = "AddBlock c b bs (putState cs' db)"
  have idx: "index_at ?db = (index_at db)(Block_ID c b \<mapsto> s_Index cs')" by (simp add: putState_index cs')
  then show "stored_state ?db cs'" by (simp add: stored_state_def cs')
  have "unat (ci_Height i + 1) < n" using low par by (simp add: heights_below_def)
  then have "unat (ci_Height (s_Index cs') + 1) < Suc n" using unat_Suc_le [of "ci_Height i + 1"] by (simp add: cs')
  then show "heights_below ?db (Suc n)" using low unfolding heights_below_def idx by (auto simp: less_Suc_eq)
  show "extends c H db ?db"
  proof (cases "db_Blocks db (Block_ID c b)")
    case (Some sb)
    from wf_store_block [OF wf Some] have blk: "sb_Header sb \<in> H" "BlockHeader_ID c (sb_Header sb) = Block_ID c b"
      "\<exists>i. index_at db (bh_ParentID (sb_Header sb)) = Some i \<and>
        index_at db (Block_ID c b) = Some \<lparr>ci_Height = ci_Height i + 1, ci_ID = Block_ID c b\<rparr>" by (simp_all add: wf_block_def)
    have same: "sb_Header sb = Block_Header c b"
      using free blk(1,2) H by (auto simp: collision_free_def Block_ID_def dest: inj_onD)
    with blk(3) par have "index_at db (Block_ID c b) = Some (s_Index cs')" by (simp add: cs')
    from store_again [OF wf Some same this] show ?thesis by (simp add: extends_def)
  next
    case None
    have "Block_ID c b \<noteq> 0" using free H by (force simp: collision_free_def Block_ID_def)
    with None wf have "index_at db (Block_ID c b) = None" by (auto simp: wf_store_def)
    from store_new [OF wf H this None par cs'] show ?thesis .
  qed
qed

lemma add_new_block:
  assumes free: "collision_free c H" and wf: "wf_store c H db" and H: "Block_Header c b \<in> H"
    and par: "stored_state db cs" "ci_ID (s_Index cs) = blk_ParentID b" and low: "heights_below db n"
    and hdr: "ApplyHeader c cs (Block_Header c b) t = Ok cs'"
  shows "extends c H db (AddBlock c b None (putState cs' db))" "stored_state (AddBlock c b None (putState cs' db)) cs'"
    "heights_below (AddBlock c b None (putState cs' db)) (Suc n)" "ci_ID (s_Index cs') = Block_ID c b"
proof -
  have par': "index_at db (blk_ParentID b) = Some (s_Index cs)" using par by (simp add: stored_state_def)
  have "blk_ParentID b = 0 \<Longrightarrow> ci_Height (s_Index cs) = -1" using par' wf by (simp add: wf_store_def)
  then have cs': "s_Index cs' = \<lparr>ci_Height = ci_Height (s_Index cs) + 1, ci_ID = Block_ID c b\<rparr>"
    using ApplyHeader_index [OF hdr] by (simp add: Block_ID_def)
  then show "ci_ID (s_Index cs') = Block_ID c b" by simp
  show "extends c H db (AddBlock c b None (putState cs' db))" "stored_state (AddBlock c b None (putState cs' db)) cs'"
    "heights_below (AddBlock c b None (putState cs' db)) (Suc n)"
    by (rule add_stored_block [OF free wf H par' low cs'])+
qed

text \<open>The median of the timestamps before the genesis block is an index error.\<close>

lemma no_second_genesis:
  assumes "ci_Height (s_Index s) = -1"
  shows "ValidateOrphan c s b \<noteq> Ok ()"
proof -
  have "medianTimestamp s = Panic ''index out of range''"
    using assms by (simp add: medianTimestamp_def numTimestamps_def childHeight_def)
  then show ?thesis by (auto simp: ValidateOrphan_def ValidateHeader_def Let_def res_simps split: if_splits)
qed

lemma add_block_best:
  assumes free: "collision_free c H" and wf: "wf_store c H db" and H: "Block_Header c b \<in> H" and one: "one_genesis G db"
    and cs: "stored_state db cs" and low: "heights_below db n" and run: "add_block c now b (db, cs) = Ok (db', cs')"
  shows "extends c H db db' \<and> stored_state db' cs' \<and> heights_below db' (Suc n) \<and> ci_ID (s_Index cs') = Block_ID c b \<and>
    one_genesis G db' \<and> getState db' (Block_ID c b) = (cs'\<lparr>s_Network := db_n db'\<rparr>, True)"
proof (cases "case Store_Block db (Block_ID c b) of Some (_, Some _) \<Rightarrow> True | _ \<Rightarrow> False")
  case True
  with run have same: "db' = db" "cs' = fst (getState db (Block_ID c b))" by (auto simp: add_block_def)
  from True obtain sb where "db_Blocks db (Block_ID c b) = Some sb"
    by (auto simp: Store_Block_def getBlock_def split: option.splits)
  from wf_store_block [OF wf this] obtain i where i: "index_at db (Block_ID c b) = Some \<lparr>ci_Height = i, ci_ID = Block_ID c b\<rparr>"
    by (auto simp: wf_block_def)
  with same have "s_Index cs' = \<lparr>ci_Height = i, ci_ID = Block_ID c b\<rparr>"
      "getState db' (Block_ID c b) = (cs'\<lparr>s_Network := db_n db'\<rparr>, True)"
    by (auto simp: index_at_def getState_def split: option.splits)
  with i same wf low one show ?thesis by (auto simp: extends_refl stored_state_def heights_below_def less_SucI)
next
  case False
  define par where "par = (if blk_ParentID b \<noteq> ci_ID (s_Index cs)
      then case Store_State db (blk_ParentID b) of None \<Rightarrow> Err ''missing parent state for block'' | Some cs \<Rightarrow> Ok cs
      else Ok cs)"
  note body = run [unfolded add_block_def prod.case Let_def if_not_P [OF False], folded par_def]
  from body obtain ps t where "par = Ok ps" and orphan: "ValidateOrphan c ps b = Ok ()" and hdr: "ApplyHeader c ps (Block_Header c b) t = Ok cs'"
    and db': "db' = AddBlock c b None (putState cs' db)" by (auto simp: res_simps split: option.splits)
  note ps = \<open>par = Ok ps\<close> [unfolded par_def]
  have parent: "stored_state db ps \<and> ci_ID (s_Index ps) = blk_ParentID b"
  proof (cases "blk_ParentID b = ci_ID (s_Index cs)")
    case True
    with ps cs show ?thesis by simp
  next
    case False
    with ps obtain ps' where "db_States db (blk_ParentID b) = Some ps'" "s_Index ps = s_Index ps'"
      by (auto simp: Store_State_def getState_def split: option.splits if_splits)
    with wf_store_index [OF wf, of "blk_ParentID b"] show ?thesis by (simp add: stored_state_def index_at_def)
  qed
  have "blk_ParentID b \<noteq> 0"
    using parent wf orphan no_second_genesis [of ps c b] by (auto simp: stored_state_def wf_store_def) (metis ChainIndex.select_convs(1))
  then have "one_genesis G db'" using one db' by (auto simp: one_genesis_def getBlockHeader_map split: if_splits)
  moreover note new = add_new_block [OF free wf H _ _ low hdr]
  moreover from new parent have "getState db' (Block_ID c b) = (cs'\<lparr>s_Network := db_n db'\<rparr>, True)"
    by (simp add: db' getState_def putState_def AddBlock_def putBlock_def)
  ultimately show ?thesis using parent db' by simp
qed

lemma add_blocks_best:
  assumes free: "collision_free c H" and "wf_store c H (m_store m)" "Block_Header c ` set blocks \<subseteq> H"
    and "stored_state (m_store m) cs" "heights_below (m_store m) n" "one_genesis G (m_store m)" "add_blocks c now blocks cs m = (r, m')"
  shows "extends c H (m_store m) (m_store m') \<and> heights_below (m_store m') (n + length blocks) \<and> one_genesis G (m_store m') \<and>
    m' = m\<lparr>m_store := m_store m'\<rparr> \<and>
    (\<forall>cs'. r = Ok cs' \<and> blocks \<noteq> [] \<longrightarrow> ci_ID (s_Index cs') = Block_ID c (last blocks) \<and>
       getState (m_store m') (Block_ID c (last blocks)) = (cs'\<lparr>s_Network := db_n (m_store m')\<rparr>, True))"
  using assms(2-)
proof (induction blocks arbitrary: m cs n)
  case Nil
  then show ?case by (auto simp: extends_refl)
next
  case (Cons b blocks)
  show ?case
  proof (cases "add_block c now b (m_store m, cs)")
    case (Ok st)
    obtain db cs1 where st: "st = (db, cs1)" by fastforce
    from add_block_best [OF free Cons.prems(1) _ Cons.prems(5,3,4), of b now db cs1] Ok st Cons.prems(2)
    have 1: "extends c H (m_store m) db" "stored_state db cs1" "heights_below db (Suc n)"
      "ci_ID (s_Index cs1) = Block_ID c b" "one_genesis G db"
      "getState db (Block_ID c b) = (cs1\<lparr>s_Network := db_n db\<rparr>, True)" by auto
    have run: "add_blocks c now blocks cs1 (m\<lparr>m_store := db\<rparr>) = (r, m')" using Cons.prems(6) Ok st by simp
    have "extends c H db (m_store m') \<and> heights_below (m_store m') (Suc n + length blocks) \<and> one_genesis G (m_store m') \<and>
      m' = m\<lparr>m_store := m_store m'\<rparr> \<and>
      (\<forall>cs'. r = Ok cs' \<and> blocks \<noteq> [] \<longrightarrow> ci_ID (s_Index cs') = Block_ID c (last blocks) \<and>
         getState (m_store m') (Block_ID c (last blocks)) = (cs'\<lparr>s_Network := db_n (m_store m')\<rparr>, True))"
      using Cons.IH [OF _ _ _ _ _ run, of "Suc n"] 1 Cons.prems(2) by (simp add: extends_def)
    moreover have "blocks = [] \<Longrightarrow> r = Ok cs1 \<and> m_store m' = db" using run by auto
    ultimately show ?thesis using extends_trans [OF 1(1)] 1(4,6) by auto
  next
    case (Err e)
    with Cons.prems show ?thesis by (auto simp: extends_refl heights_below_def less_SucI trans_less_add1)
  next
    case (Panic e)
    with Cons.prems show ?thesis by (auto simp: extends_refl heights_below_def less_SucI trans_less_add1)
  qed
qed

lemma keeps_tracked:
  assumes "keeps c H m m'" "tracked c H G n m" "\<exists>path. best_chain m' path \<and> path \<noteq> []"
  shows "tracked c H G n m'"
  using assms keeps_heights [OF assms(1)] by (simp add: tracked_def keeps_def one_genesis_def)

lemma tracked_Tip:
  assumes "collision_free c H" "tracked c H G n m"
  shows "ci_ID (Tip m) \<noteq> 0"
proof
  assume 0: "ci_ID (Tip m) = 0"
  from assms(2) obtain path where "wf_store c H (m_store m)" "descends (m_store m) (Tip m) path before_genesis" "path \<noteq> []"
    by (auto simp: tracked_def best_chain_def)
  with descends_from_0 [OF assms(1) _ 0] show False by metis
qed

lemma reorg_if_heavier_best:
  assumes free: "collision_free c H" and tracked: "tracked c H G n m" and n: "n \<le> 2 ^ 63" and cs: "ci_ID (s_Index cs) \<noteq> 0"
    and run: "reorg_if_heavier c cs m = (r, m')" "\<not> panics r"
  shows "tracked c H G n m' \<and> getBlockHeader (m_store m') = getBlockHeader (m_store m) \<and>
    (r = Ok () \<longrightarrow> Tip m' = (if SufficientlyHeavierThan cs (m_tipState m) = Ok True then s_Index cs else Tip m)) \<and>
    (\<forall>e. r = Err e \<and> e \<noteq> ''failed to revert failed reorg'' \<longrightarrow> Tip m' = Tip m)"
proof (cases "SufficientlyHeavierThan cs (m_tipState m) = Ok True")
  case False
  then have "m' = m" using run
    by (auto simp: reorg_if_heavier_def attempt_def split: res.splits if_splits)
  with False tracked show ?thesis by simp
next
  case True
  obtain r1 m1 where 1: "reorgTo c (s_Index cs) m = (r1, m1)" by fastforce
  obtain r2 m2 where 2: "reorgTo c (Tip m) m1 = (r2, m2)" by fastforce
  note heavier = run [unfolded reorg_if_heavier_def True change_simps if_not_P if_P not_True_eq_False 1 2 prod.case if_False]
  have "\<not> panics r1" using heavier by (cases r1) auto
  note first = reorgTo_best [OF free tracked n cs 1 this]
  then have tracked1: "tracked c H G n m1" using keeps_tracked [OF _ tracked] by blast
  show ?thesis
  proof (cases r1)
    case (Ok u)
    with heavier have "r = Ok ()" "m' = m1" by simp_all
    with first tracked1 True Ok show ?thesis by (simp add: keeps_def)
  next
    case (Err e)
    have "\<not> panics r2" using heavier Err by (cases r2) auto
    note second = reorgTo_best [OF free tracked1 n tracked_Tip [OF free tracked] 2 this]
    then have "tracked c H G n m2" using keeps_tracked [OF _ tracked1] by blast
    then show ?thesis using first second heavier Err by (cases r2) (auto simp: keeps_def)
  next
    case (Panic q)
    with \<open>\<not> panics r1\<close> show ?thesis by simp
  qed
qed

lemma AddBlocks_best:
  assumes free: "collision_free c H" and tracked: "tracked c H G n m" and H: "Block_Header c ` set blocks \<subseteq> H"
    and n: "n + length blocks \<le> 2 ^ 63" and run: "AddBlocks c now blocks m = (r, m')" "\<not> panics r"
  shows "tracked c H G (n + length blocks) m' \<and> getBlockHeader (m_store m) \<subseteq>\<^sub>m getBlockHeader (m_store m') \<and>
    (r = Ok () \<and> blocks \<noteq> [] \<longrightarrow> (\<exists>cs m1. add_blocks c now blocks (m_tipState m) m = (Ok cs, m1) \<and>
       ci_ID (s_Index cs) = Block_ID c (last blocks) \<and>
       getState (m_store m1) (Block_ID c (last blocks)) = (cs\<lparr>s_Network := db_n (m_store m1)\<rparr>, True) \<and>
       Tip m' = (if SufficientlyHeavierThan cs (m_tipState m) = Ok True then s_Index cs else Tip m))) \<and>
    (\<forall>e. r = Err e \<and> e \<noteq> ''failed to revert failed reorg'' \<longrightarrow> Tip m' = Tip m)"
proof (cases "blocks = []")
  case True
  with run tracked show ?thesis by (simp add: AddBlocks_def)
next
  case False
  obtain r1 m1 where 1: "add_blocks c now blocks (m_tipState m) m = (r1, m1)" by fastforce
  from tracked obtain path where wf: "wf_store c H (m_store m)" and best: "best_chain m path" "path \<noteq> []"
    and low: "heights_below (m_store m) n" and one: "one_genesis G (m_store m)" by (auto simp: tracked_def)
  have "stored_state (m_store m) (m_tipState m)" using best by (simp add: stored_state_def best_chain_def Tip_def)
  from add_blocks_best [OF free wf H this low one 1] have add: "extends c H (m_store m) (m_store m1)"
    "heights_below (m_store m1) (n + length blocks)" "one_genesis G (m_store m1)" "m1 = m\<lparr>m_store := m_store m1\<rparr>"
    "\<And>cs. r1 = Ok cs \<Longrightarrow> ci_ID (s_Index cs) = Block_ID c (last blocks) \<and>
       getState (m_store m1) (Block_ID c (last blocks)) = (cs\<lparr>s_Network := db_n (m_store m1)\<rparr>, True)" using False by simp_all
  have "best_chain m1 path" using extends_best [OF add(1) best(1)] add(4) by simp
  then have tracked1: "tracked c H G (n + length blocks) m1" using add(1-3) best(2) by (auto simp: tracked_def extends_def)
  have tip: "m_tipState m1 = m_tipState m" "Tip m1 = Tip m" by (subst add(4), simp add: Tip_def)+
  have le: "getBlockHeader (m_store m) \<subseteq>\<^sub>m getBlockHeader (m_store m1)" using add(1) by (simp add: extends_def)
  have last: "Block_ID c (last blocks) \<noteq> 0" using free H False by (force simp: collision_free_def Block_ID_def)
  show ?thesis
  proof (cases r1)
    case (Ok cs)
    then have "reorg_if_heavier c cs m1 = (r, m')" using run 1 False by (simp add: AddBlocks_def)
    from reorg_if_heavier_best [OF free tracked1 n _ this run(2)] add(5) [OF Ok] last le tip 1 Ok show ?thesis
      by simp
  next
    case (Err e)
    with run 1 False have "r = Err e" "m' = m1" by (simp_all add: AddBlocks_def)
    with tracked1 le tip show ?thesis by simp
  next
    case (Panic q)
    with run 1 False show ?thesis by (auto simp: AddBlocks_def)
  qed
qed

section \<open>Blocks that the caller has validated\<close>

text \<open>What \<^verbatim>\<open>AddValidatedV2Blocks\<close> asks of its caller, who has blocks on top of the block \<open>idx\<close>: each was validated on a
  state of the block before it, and comes with the state after it.\<close>

fun validated :: "crypto \<Rightarrow> ChainIndex \<Rightarrow> (Block \<times> State) list \<Rightarrow> bool" where
  "validated c idx [] = True"
| "validated c idx ((b, cs) # bss) \<longleftrightarrow>
     (\<exists>ps bs t cau. s_Index ps = idx \<and> ValidateBlock c ps b bs = Ok () \<and> ApplyBlock c ps b bs t = Ok (cs, cau)) \<and>
     validated c (s_Index cs) bss"

lemma validated_block:
  assumes "ValidateBlock c ps b bs = Ok ()" "ApplyBlock c ps b bs t = Ok (cs, cau)" "wf_store c H db"
    "index_at db (ci_ID (s_Index ps)) = Some (s_Index ps)"
  shows "blk_ParentID b = ci_ID (s_Index ps)" "blk_ParentID b \<noteq> 0"
    "s_Index cs = \<lparr>ci_Height = ci_Height (s_Index ps) + 1, ci_ID = Block_ID c b\<rparr>"
proof -
  have orphan: "ValidateOrphan c ps b = Ok ()" using assms(1) by (auto simp: ValidateBlock_def res_simps)
  then show parent: "blk_ParentID b = ci_ID (s_Index ps)"
    by (auto simp: ValidateOrphan_def ValidateHeader_def Block_Header_def Let_def res_simps split: if_splits)
  show nz: "blk_ParentID b \<noteq> 0"
  proof
    assume "blk_ParentID b = 0"
    with parent assms(3,4) have "s_Index ps = before_genesis" by (simp add: wf_store_def)
    then have "ci_Height (s_Index ps) = -1" by simp
    with orphan no_second_genesis show False by blast
  qed
  show "s_Index cs = \<lparr>ci_Height = ci_Height (s_Index ps) + 1, ci_ID = Block_ID c b\<rparr>"
    using ApplyBlock_index [OF assms(2)] nz by simp
qed

lemma add_validated_best:
  assumes free: "collision_free c H" and "wf_store c H (m_store m)" "Block_Header c ` fst ` set bss \<subseteq> H"
    "index_at (m_store m) (ci_ID idx) = Some idx" "heights_below (m_store m) n" "one_genesis G (m_store m)"
    "validated c idx bss" "add_validated c bss m = (r, m')"
  shows "extends c H (m_store m) (m_store m') \<and> heights_below (m_store m') (n + length bss) \<and> one_genesis G (m_store m') \<and>
    m' = m\<lparr>m_store := m_store m'\<rparr> \<and> (r = Ok () \<and> bss \<noteq> [] \<longrightarrow> ci_ID (s_Index (snd (last bss))) = Block_ID c (fst (last bss)))"
  using assms(2-)
proof (induction bss arbitrary: m idx n)
  case Nil
  then show ?case by (auto simp: extends_refl)
next
  case (Cons x bss)
  obtain b cs where x: "x = (b, cs)" by fastforce
  from Cons.prems(6) x obtain ps bs t cau where ps: "s_Index ps = idx" "ValidateBlock c ps b bs = Ok ()"
    "ApplyBlock c ps b bs t = Ok (cs, cau)" and rest: "validated c (s_Index cs) bss" by auto
  note blk = validated_block [OF ps(2,3) Cons.prems(1), unfolded ps(1), OF Cons.prems(3)]
  show ?case
  proof (cases "blk_V2 b = None")
    case True
    with Cons.prems x have "m' = m" "r \<noteq> Ok ()" by auto
    with Cons.prems(1,4,5) show ?thesis by (auto simp: extends_refl heights_below_def less_SucI trans_less_add1)
  next
    case False
    define db where "db = AddBlock c b (Some \<lparr>bs_Transactions = [], bs_ExpiringFileContracts = []\<rparr>) (putState cs (m_store m))"
    have swap: "putState cs (AddBlock c b (Some \<lparr>bs_Transactions = [], bs_ExpiringFileContracts = []\<rparr>) (m_store m)) = db"
      by (simp add: db_def putState_def AddBlock_def putBlock_def)
    have H: "Block_Header c b \<in> H" using Cons.prems(2) x by simp
    have par: "index_at (m_store m) (blk_ParentID b) = Some idx" using Cons.prems(3) blk(1) by simp
    note new = add_stored_block [OF free Cons.prems(1) H par Cons.prems(4) blk(3),
      of "Some \<lparr>bs_Transactions = [], bs_ExpiringFileContracts = []\<rparr>", folded db_def]
    have one: "one_genesis G db" using Cons.prems(5) blk(2) by (auto simp: db_def one_genesis_def getBlockHeader_map split: if_splits)
    have run: "add_validated c bss (m\<lparr>m_store := db\<rparr>) = (r, m')" using Cons.prems(7) x False swap by (simp add: Let_def)
    have idx: "index_at db (ci_ID (s_Index cs)) = Some (s_Index cs)" using new(2) by (simp add: stored_state_def)
    from Cons.IH [OF _ _ _ _ _ rest run, of "Suc n"] new one idx Cons.prems(2)
    have "extends c H db (m_store m') \<and> heights_below (m_store m') (Suc n + length bss) \<and> one_genesis G (m_store m') \<and>
      m' = m\<lparr>m_store := m_store m'\<rparr> \<and> (r = Ok () \<and> bss \<noteq> [] \<longrightarrow> ci_ID (s_Index (snd (last bss))) = Block_ID c (fst (last bss)))"
      by (simp add: extends_def)
    then show ?thesis using extends_trans [OF new(1)] blk(3) x by auto
  qed
qed

lemma AddValidatedV2Blocks_best:
  assumes free: "collision_free c H" and tracked: "tracked c H G n m" and H: "Block_Header c ` set blocks \<subseteq> H"
    and n: "n + length blocks \<le> 2 ^ 63"
    and valid: "\<And>ps. Store_State (m_store m) (blk_ParentID (hd blocks)) = Some ps \<Longrightarrow> validated c (s_Index ps) (zip blocks states)"
    and run: "AddValidatedV2Blocks c blocks states m = (r, m')" "\<not> panics r"
  shows "tracked c H G (n + length blocks) m'"
proof (cases "blocks = [] \<or> length states \<noteq> length blocks \<or> Store_State (m_store m) (blk_ParentID (hd blocks)) = None")
  case True
  with run have "m' = m" by (auto simp: AddValidatedV2Blocks_def split: if_splits)
  with tracked show ?thesis by (auto simp: tracked_def heights_below_def trans_less_add1)
next
  case False
  then obtain ps where some: "blocks \<noteq> []" "length states = length blocks" "Store_State (m_store m) (blk_ParentID (hd blocks)) = Some ps"
    by auto
  then have "states \<noteq> []" by auto
  with some have nz: "zip blocks states \<noteq> []" and last: "last (zip blocks states) = (last blocks, last states)"
    by (auto simp: last_zip zip_eq_Nil_iff)
  obtain r1 m1 where 1: "add_validated c (zip blocks states) m = (r1, m1)" by fastforce
  from tracked obtain path where wf: "wf_store c H (m_store m)" and best: "best_chain m path" "path \<noteq> []"
    and low: "heights_below (m_store m) n" and one: "one_genesis G (m_store m)" by (auto simp: tracked_def)
  have idx: "index_at (m_store m) (ci_ID (s_Index ps)) = Some (s_Index ps)"
    using some(3) wf_store_index [OF wf, of "blk_ParentID (hd blocks)" "s_Index ps"]
    by (auto simp: Store_State_def getState_def index_at_def split: option.splits if_splits)
  have hdrs: "Block_Header c ` fst ` set (zip blocks states) \<subseteq> H" using H by (auto dest!: set_zip_leftD)
  from add_validated_best [OF free wf hdrs idx low one valid [OF some(3)] 1] nz last some(2)
  have add: "extends c H (m_store m) (m_store m1)" "heights_below (m_store m1) (n + length blocks)" "one_genesis G (m_store m1)"
    "m1 = m\<lparr>m_store := m_store m1\<rparr>" "r1 = Ok () \<Longrightarrow> ci_ID (s_Index (last states)) = Block_ID c (last blocks)" by simp_all
  have "best_chain m1 path" using extends_best [OF add(1) best(1)] add(4) by simp
  then have tracked1: "tracked c H G (n + length blocks) m1" using add(1-3) best(2) by (auto simp: tracked_def extends_def)
  have "Block_ID c (last blocks) \<noteq> 0" using free H some(1) by (force simp: collision_free_def Block_ID_def)
  then show ?thesis
    using run 1 some tracked1 reorg_if_heavier_best [OF free tracked1 n, of "last states" r m'] add(5)
    by (cases r1) (auto simp: AddValidatedV2Blocks_def)
qed

section \<open>Other operations\<close>

lemma same_chain_tracked: "same_chain m m' \<Longrightarrow> tracked c H G n m' = tracked c H G n m"
  by (simp add: same_chain_def tracked_def best_chain_def Tip_def)

text \<open>Pruning keeps the headers.\<close>

lemma PruneBlock_keeps:
  assumes "wf_store c H db"
  shows "wf_store c H (PruneBlock c bid db) \<and> index_at (PruneBlock c bid db) = index_at db \<and>
    getBlockHeader (PruneBlock c bid db) = getBlockHeader db \<and> db_MainChain (PruneBlock c bid db) = db_MainChain db \<and>
    db_Height (PruneBlock c bid db) = db_Height db"
proof (cases "db_Blocks db bid")
  case (Some sb)
  define db' where "db' = PruneBlock c bid db"
  have wf: "wf_block c H db bid sb" using wf_store_block [OF assms Some] .
  then have "BlockHeader_ID c (sb_Header sb) = bid" by (simp add: wf_block_def)
  then have db': "db' = db\<lparr>db_Blocks := (db_Blocks db)(bid \<mapsto> \<lparr>sb_Header = sb_Header sb, sb_Block = None, sb_Supplement = None\<rparr>)\<rparr>"
    using Some by (simp add: db'_def PruneBlock_def getBlock_def putBlock_def)
  have idx: "index_at db' = index_at db" by (rule ext) (simp add: index_at_def db')
  have eq: "wf_block c H db' = wf_block c H db" by (intro ext) (simp only: wf_block_def idx)
  have "wf_block c H db bid' sb'" if "db_Blocks db' bid' = Some sb'" for bid' sb'
    using that wf wf_store_block [OF assms, of bid' sb'] by (cases "bid' = bid") (auto simp: db' wf_block_def)
  moreover have "db_Blocks db bid' \<noteq> None \<Longrightarrow> db_Blocks db' bid' \<noteq> None" for bid' by (simp add: db')
  ultimately have "wf_store c H db'" using assms unfolding wf_store_def idx eq by metis
  moreover have "getBlockHeader db' = getBlockHeader db" using Some by (auto simp: getBlockHeader_map db' fun_eq_iff)
  ultimately show ?thesis using idx by (simp add: db'_def [symmetric]) (simp add: db')
next
  case None
  with assms show ?thesis by (simp add: PruneBlock_def getBlock_def)
qed

lemma prune_keeps:
  assumes "wf_store c H db"
  shows "wf_store c H (prune_from c h db) \<and> index_at (prune_from c h db) = index_at db \<and>
    getBlockHeader (prune_from c h db) = getBlockHeader db \<and> db_MainChain (prune_from c h db) = db_MainChain db \<and>
    db_Height (prune_from c h db) = db_Height db"
  using assms
proof (induction h arbitrary: db)
  case (Suc h)
  show ?case
    using Suc.IH [of "PruneBlock c (ci_ID (fst (BestIndex db (word_of_nat h)))) db"] PruneBlock_keeps [OF Suc.prems]
      Suc.prems by (auto split: prod.split)
qed simp

lemma PruneBlocks_tracked:
  assumes "tracked c H G n m"
  shows "tracked c H G n (PruneBlocks c height m)"
proof -
  from assms obtain path where path: "best_chain m path" "path \<noteq> []" and wf: "wf_store c H (m_store m)"
    by (auto simp: tracked_def)
  note keep = prune_keeps [OF wf, of "unat height"]
  then have "best_chain (PruneBlocks c height m) path"
    using path(1) descends_cong [of "prune_from c (unat height) (m_store m)" "m_store m"]
    by (simp add: best_chain_def PruneBlocks_def Tip_def)
  moreover have "keeps c H m (PruneBlocks c height m)" using keep by (simp add: keeps_def PruneBlocks_def)
  ultimately show ?thesis using keeps_tracked [OF _ assms] path(2) by blast
qed

end
