(* ===== verification/ManagedChain.thy ===== *)
theory ManagedChain
  imports ChainReorg PoolRules
begin

text \<open>
  The managers that a node can reach: a new store with the genesis block, then any sequence of blocks
  added, with or without their states, blocks pruned and transactions added, none of which panics. Blocks that
  come with their states were validated by the caller. All of them have a best chain that starts at the
  genesis block.
\<close>

inductive managed :: "crypto \<Rightarrow> BlockHeader set \<Rightarrow> BlockID \<Rightarrow> nat \<Rightarrow> Manager \<Rightarrow> bool" for c H G where
  managed_new: "NewDBStore c n g = Ok (db, cs) \<Longrightarrow> blk_ParentID g = 0 \<Longrightarrow> Block_Header c g \<in> H \<Longrightarrow> Block_ID c g = G \<Longrightarrow>
    managed c H G 2 (NewManager db cs order)"
| managed_blocks: "managed c H G n m \<Longrightarrow> Block_Header c ` set blocks \<subseteq> H \<Longrightarrow>
    AddBlocks c now blocks m = (r, m') \<Longrightarrow> \<not> panics r \<Longrightarrow> managed c H G (n + length blocks) m'"
| managed_validated: "managed c H G n m \<Longrightarrow> Block_Header c ` set blocks \<subseteq> H \<Longrightarrow>
    (\<And>ps. Store_State (m_store m) (blk_ParentID (hd blocks)) = Some ps \<Longrightarrow> validated c (s_Index ps) (zip blocks states)) \<Longrightarrow>
    AddValidatedV2Blocks c blocks states m = (r, m') \<Longrightarrow> \<not> panics r \<Longrightarrow> managed c H G (n + length blocks) m'"
| managed_prune: "managed c H G n m \<Longrightarrow> managed c H G n (PruneBlocks c height m)"
| managed_txns: "managed c H G n m \<Longrightarrow> AddPoolTransactions c perm txns m = (r, m') \<Longrightarrow> \<not> panics r \<Longrightarrow>
    managed c H G n m'"
| managed_v2txns: "managed c H G n m \<Longrightarrow> AddV2PoolTransactions c perm basis v2txns m = (r, m') \<Longrightarrow> \<not> panics r \<Longrightarrow>
    managed c H G n m'"

section \<open>A new store\<close>

lemma GenesisState_index: "GenesisState n = Ok s \<Longrightarrow> s_Index s = before_genesis"
  by (auto simp: GenesisState_def res_simps)

lemma NewDBStore_core:
  assumes run: "NewDBStore c n g = Ok (db, cs)" and g: "blk_ParentID g = 0" and nz: "Block_ID c g \<noteq> 0"
  obtains s0 s1 bs where "s_Index s0 = before_genesis" "s_Index s1 = \<lparr>ci_Height = 0, ci_ID = Block_ID c g\<rparr>"
    "db_MainChain db = [0 \<mapsto> Block_ID c g]" "db_Height db = Some 0" "db_States db = [0 \<mapsto> s0, Block_ID c g \<mapsto> s1]"
    "db_Blocks db = [Block_ID c g \<mapsto> \<lparr>sb_Header = Block_Header c g, sb_Block = Some g, sb_Supplement = Some bs\<rparr>]"
    "s_Index cs = \<lparr>ci_Height = 0, ci_ID = Block_ID c g\<rparr>"
proof -
  define bs where "bs = \<lparr>bs_Transactions = replicate (length (blk_Transactions g)) empty_V1TransactionSupplement,
     bs_ExpiringFileContracts = []\<rparr>"
  from run obtain s0 s1 au where s0: "GenesisState n = Ok s0" and s1: "ApplyBlock c s0 g bs 0 = Ok (s1, au)"
    and db: "Store_ApplyBlock c s1 au (putState s1 (putBlock c (Block_Header c g) (Some g) (Some bs)
      (putState s0 (empty_DBStore n)))) = Ok db"
    and cs: "cs = fst (getState db (ci_ID (fst (BestIndex db (getHeight db)))))"
    unfolding NewDBStore_def Let_def bs_def by (auto simp: res_simps)
  have i0: "s_Index s0 = before_genesis" using GenesisState_index [OF s0] .
  then have i1: "s_Index s1 = \<lparr>ci_Height = 0, ci_ID = Block_ID c g\<rparr>" using ApplyBlock_index [OF s1] by simp
  have core: "db_MainChain db = [0 \<mapsto> Block_ID c g]" "db_Height db = Some 0" "db_States db = [0 \<mapsto> s0, Block_ID c g \<mapsto> s1]"
    "db_Blocks db = [Block_ID c g \<mapsto> \<lparr>sb_Header = Block_Header c g, sb_Block = Some g, sb_Supplement = Some bs\<rparr>]"
    using Store_ApplyBlock_core [OF db] by (simp_all add: core_def applyState_def putHeight_def putBestIndex_def putState_def
      putBlock_def empty_DBStore_def i0 i1 Block_ID_def)
  moreover have "s_Index cs = \<lparr>ci_Height = 0, ci_ID = Block_ID c g\<rparr>"
    using i1 by (simp add: cs getHeight_def core BestIndex_def getState_def)
  ultimately show thesis using that i0 i1 by blast
qed

lemma NewDBStore_tracked:
  assumes free: "collision_free c H" and run: "NewDBStore c n g = Ok (db, cs)"
    and g: "blk_ParentID g = 0" "Block_Header c g \<in> H"
  shows "tracked c H (Block_ID c g) 2 (NewManager db cs order)"
proof -
  have nz: "Block_ID c g \<noteq> 0" using free g(2) by (force simp: collision_free_def Block_ID_def)
  obtain s0 s1 bs where i: "s_Index s0 = before_genesis" "s_Index s1 = \<lparr>ci_Height = 0, ci_ID = Block_ID c g\<rparr>"
    and core: "db_MainChain db = [0 \<mapsto> Block_ID c g]" "db_Height db = Some 0" "db_States db = [0 \<mapsto> s0, Block_ID c g \<mapsto> s1]"
    "db_Blocks db = [Block_ID c g \<mapsto> \<lparr>sb_Header = Block_Header c g, sb_Block = Some g, sb_Supplement = Some bs\<rparr>]"
    and cs: "s_Index cs = \<lparr>ci_Height = 0, ci_ID = Block_ID c g\<rparr>" using NewDBStore_core [OF run g(1) nz] .
  have idx: "index_at db = [0 \<mapsto> before_genesis, Block_ID c g \<mapsto> \<lparr>ci_Height = 0, ci_ID = Block_ID c g\<rparr>]"
    by (rule ext) (simp add: index_at_def core i)
  have wf: "wf_store c H db" using nz g by (auto simp: wf_store_def wf_block_def idx core Block_ID_def)
  have "one_genesis (Block_ID c g) db" by (simp add: one_genesis_def getBlockHeader_map core)
  moreover have "heights_below db 2" by (simp add: heights_below_def idx)
  moreover have "best_chain (NewManager db cs order) [\<lparr>ci_Height = 0, ci_ID = Block_ID c g\<rparr>]"
    using g(1) by (simp add: best_chain_def NewManager_def Tip_def cs core idx parent_index_def getBlockHeader_map)
  ultimately show ?thesis using wf by (auto simp: tracked_def NewManager_def)
qed

lemma managed_tracked:
  assumes free: "collision_free c H" and "managed c H G n m" "n \<le> 2 ^ 63"
  shows "tracked c H G n m"
  using assms(2,3)
proof (induction rule: managed.induct)
  case (managed_new n g db cs order)
  then show ?case using NewDBStore_tracked [OF free] by auto
next
  case (managed_blocks n m blocks now r m')
  then show ?case using AddBlocks_best [OF free] by auto
next
  case (managed_validated n m blocks states r m')
  then show ?case using AddValidatedV2Blocks_best [OF free, of G n m blocks states r m'] by auto
next
  case (managed_prune n m height)
  then show ?case using PruneBlocks_tracked by auto
next
  case (managed_txns n m perm txns r m')
  then show ?case using AddPoolTransactions_same [of m c perm txns] same_chain_tracked by auto
next
  case (managed_v2txns n m perm basis v2txns r m')
  then show ?case using AddV2PoolTransactions_same [of m c perm basis v2txns] same_chain_tracked by auto
qed

section \<open>Reading the best chain by height\<close>

lemma best_index:
  assumes "best_chain m path" "k < length path"
  shows "BestIndex (m_store m) (word_of_nat (length path - 1 - k)) = (path ! k, True)"
    "ci_Height (path ! k) = word_of_nat (length path - 1 - k)"
proof -
  have path: "descends (m_store m) (Tip m) path before_genesis" "length path < 2 ^ 63"
    using assms(1) by (simp_all add: best_chain_def)
  have "ci_Height (Tip m) = word_of_nat (length path) - 1" using best_height [OF assms(1)] by (simp add: eq_diff_eq)
  then show h: "ci_Height (path ! k) = word_of_nat (length path - 1 - k)"
    using descends_nth [OF path(1) assms(2)] assms(2) by (simp add: of_nat_diff)
  have "distinct (map fst (map (\<lambda>i. (ci_Height i, ci_ID i)) path))"
    using heights_distinct [OF path] by (simp add: comp_def)
  moreover have "(ci_Height (path ! k), ci_ID (path ! k)) \<in> set (map (\<lambda>i. (ci_Height i, ci_ID i)) path)"
    using assms(2) by auto
  ultimately have "db_MainChain (m_store m) (ci_Height (path ! k)) = Some (ci_ID (path ! k))"
    using assms(1) by (simp add: best_chain_def map_of_is_SomeI)
  then show "BestIndex (m_store m) (word_of_nat (length path - 1 - k)) = (path ! k, True)"
    unfolding h [symmetric] by (simp add: BestIndex_def)
qed

lemma descends_parent:
  "descends db a path r \<Longrightarrow> k < length path \<Longrightarrow>
     parent_index db (path ! k) = Some (if Suc k < length path then path ! Suc k else r)"
proof (induction path arbitrary: a k)
  case (Cons x path)
  then obtain p where p: "parent_index db a = Some p" "descends db p path r" "x = a" by (auto split: option.splits)
  show ?case
  proof (cases k)
    case 0
    with p show ?thesis by (cases path) auto
  next
    case (Suc j)
    with Cons.IH [OF p(2)] Cons.prems(2) show ?thesis by simp
  qed
qed simp

lemma tracked_linked:
  assumes "tracked c H G n m"
  shows "BestIndex (m_store m) 0 = (\<lparr>ci_Height = 0, ci_ID = G\<rparr>, True)"
    "BestIndex (m_store m) (ci_Height (Tip m)) = (Tip m, True)"
    "0 < h \<Longrightarrow> h \<le> ci_Height (Tip m) \<Longrightarrow> snd (BestIndex (m_store m) h) \<and>
      parent_index (m_store m) (fst (BestIndex (m_store m) h)) = Some (fst (BestIndex (m_store m) (h - 1)))"
    "ci_Height (Tip m) < h \<Longrightarrow> \<not> snd (BestIndex (m_store m) h)"
proof -
  let ?db = "m_store m"
  from assms obtain path where best: "best_chain m path" and path: "path \<noteq> []" and one: "one_genesis G ?db"
    by (auto simp: tracked_def)
  have desc: "descends ?db (Tip m) path before_genesis" and len: "length path < 2 ^ 63"
    using best by (simp_all add: best_chain_def)
  have tip: "ci_Height (Tip m) = word_of_nat (length path - 1)"
    using best_height [OF best] path by (simp add: of_nat_diff eq_diff_eq Suc_leI)
  have tip_unat: "unat (ci_Height (Tip m)) = length path - 1" using len by (simp add: tip unat_of_nat_u64_less)
  have hd: "path ! 0 = Tip m" using desc path by (cases path) auto
  show "BestIndex ?db (ci_Height (Tip m)) = (Tip m, True)" using best_index(1) [OF best, of 0] path hd tip by simp
  have last: "BestIndex ?db 0 = (path ! (length path - 1), True)" "ci_Height (path ! (length path - 1)) = 0"
    using best_index [OF best, of "length path - 1"] path by simp_all
  have "parent_index ?db (path ! (length path - 1)) = Some before_genesis"
    using descends_parent [OF desc, of "length path - 1"] path by simp
  then have "ci_ID (path ! (length path - 1)) = G"
    using one by (auto simp: parent_index_def one_genesis_def split: option.splits)
  with last show "BestIndex ?db 0 = (\<lparr>ci_Height = 0, ci_ID = G\<rparr>, True)" by simp
  show "snd (BestIndex ?db h) \<and> parent_index ?db (fst (BestIndex ?db h)) = Some (fst (BestIndex ?db (h - 1)))"
    if h: "0 < h" "h \<le> ci_Height (Tip m)"
  proof -
    have u: "unat h \<le> length path - 1" using h(2) tip_unat by (simp add: word_le_nat_alt)
    have pos: "0 < unat h" using h(1) by (simp add: unat_gt_0)
    define k where "k = length path - 1 - unat h"
    have k: "Suc k < length path" "length path - 1 - k = unat h" "length path - 1 - Suc k = unat h - 1"
      using u pos path by (auto simp: k_def)
    have w: "word_of_nat (unat h - 1) = h - 1" using pos by (simp add: of_nat_diff)
    have "BestIndex ?db h = (path ! k, True)" using best_index(1) [OF best, of k, unfolded k(2)] k(1) by simp
    moreover have "BestIndex ?db (h - 1) = (path ! Suc k, True)" using best_index(1) [OF best k(1), unfolded k(3) w] .
    ultimately show ?thesis using descends_parent [OF desc, of k] k(1) by simp
  qed
  show "\<not> snd (BestIndex ?db h)" if "ci_Height (Tip m) < h"
  proof -
    have "h \<notin> ci_Height ` set path"
    proof
      assume "h \<in> ci_Height ` set path"
      then obtain k where k: "k < length path" "h = ci_Height (path ! k)" by (auto simp: in_set_conv_nth)
      moreover have "unat (word_of_nat (length path - 1 - k) :: u64) = length path - 1 - k"
        using len by (intro unat_of_nat_u64_less) simp
      ultimately have "unat h = length path - 1 - k" using best_index(2) [OF best k(1)] by metis
      with that tip_unat show False by (simp add: word_less_nat_alt)
    qed
    then have "db_MainChain ?db h = None" using best by (auto simp: best_chain_def map_of_eq_None_iff)
    then show ?thesis by (simp add: BestIndex_def)
  qed
qed

section \<open>Paths between stored blocks\<close>

lemma unat_max_u64: "unat (-1 :: u64) = 2 ^ 64 - 1"
  by (simp add: unsigned_minus_1_eq_mask mask_eq_exp_minus_1)

lemma unat_Suc: "x + 1 \<noteq> 0 \<Longrightarrow> unat (x + 1) = Suc (unat x)" for x :: u64
  using unat_minus_one [of "x + 1"] unat_gt_0 [of "x + 1"] by simp

lemma stored_descends:
  assumes "wf_store c H db" "heights_below db n" "n \<le> 2 ^ 63" "index_at db (ci_ID i) = Some i"
  shows "\<exists>path. descends db i path before_genesis \<and> length path = unat (ci_Height i + 1)"
  using assms(4)
proof (induction "unat (ci_Height i + 1)" arbitrary: i rule: less_induct)
  case less
  show ?case
  proof (cases "ci_ID i = 0")
    case True
    have "index_at db 0 = Some before_genesis" using assms(1) by (simp add: wf_store_def)
    with True less.prems have "i = before_genesis" by simp
    then have "descends db i [] before_genesis \<and> length [] = unat (ci_Height i + 1)" by simp
    then show ?thesis by blast
  next
    case False
    moreover have "index_at db (ci_ID i) \<noteq> None \<longrightarrow> ci_ID i = 0 \<or> db_Blocks db (ci_ID i) \<noteq> None"
      using assms(1) unfolding wf_store_def by blast
    ultimately obtain sb where sb: "db_Blocks db (ci_ID i) = Some sb" using less.prems by auto
    define p where "p = \<lparr>ci_Height = ci_Height i - 1, ci_ID = bh_ParentID (sb_Header sb)\<rparr>"
    have p: "parent_index db i = Some p" by (simp add: parent_index_def getBlockHeader_map sb p_def)
    have stored: "index_at db (ci_ID p) = Some p" using parent_is_stored [OF assms(1) less.prems p] .
    have nz: "ci_Height i + 1 \<noteq> 0"
    proof
      assume "ci_Height i + 1 = 0"
      then have "ci_Height i = -1" by (simp only: eq_neg_iff_add_eq_0)
      then have "ci_Height p + 1 = -1" by (simp add: p_def)
      then have "unat (ci_Height p + 1) = 2 ^ 64 - 1" by (simp only: unat_max_u64)
      moreover have "unat (ci_Height p + 1) < n" using stored assms(2) unfolding heights_below_def by blast
      ultimately show False using assms(3) by simp
    qed
    have "ci_Height p + 1 = ci_Height i" by (simp add: p_def)
    then have h: "unat (ci_Height i + 1) = Suc (unat (ci_Height p + 1))" using unat_Suc [OF nz] by metis
    from less.hyps [OF _ stored] obtain path where path: "descends db p path before_genesis" "length path = unat (ci_Height p + 1)"
      unfolding h by blast
    have "descends db i (i # path) before_genesis" using p path(1) by simp
    moreover have "length (i # path) = unat (ci_Height i + 1)" unfolding h using path(2) by simp
    ultimately show ?thesis by blast
  qed
qed

text \<open>Every stored block above the genesis block descends from it.\<close>

lemma stored_from_genesis:
  assumes "wf_store c H db" "heights_below db n" "n \<le> 2 ^ 63" "one_genesis G db" "index_at db (ci_ID i) = Some i" "ci_ID i \<noteq> 0"
  shows "\<exists>path. descends db i path \<lparr>ci_Height = 0, ci_ID = G\<rparr> \<and> length path = unat (ci_Height i)"
proof -
  obtain path where path: "descends db i path before_genesis" "length path = unat (ci_Height i + 1)"
    using stored_descends [OF assms(1-3,5)] by blast
  have "path \<noteq> []" using path(1) assms(6) by auto
  then obtain xs x where xs: "path = xs @ [x]" by (cases path rule: rev_cases) auto
  with path(1) have x: "descends db i xs x" "parent_index db x = Some before_genesis" by (simp_all add: descends_snoc)
  then have "x = \<lparr>ci_Height = 0, ci_ID = G\<rparr>"
    using assms(4) by (cases x) (auto simp: parent_index_def one_genesis_def split: option.splits)
  moreover have "length xs = unat (ci_Height i)"
    using path(2) xs by (cases "ci_Height i + 1 = 0") (simp_all add: unat_Suc)
  ultimately show ?thesis using x(1) by blast
qed

lemma tracked_reorgPath:
  assumes free: "collision_free c H" and tracked: "tracked c H G n m" and n: "2 * n \<le> MaxInt"
    and b: "index_at (m_store m) (ci_ID b) = Some b" "ci_ID b \<noteq> 0"
  obtains revert app r where "reorgPath (m_store m) (Tip m) b MaxInt = Ok (revert, app)"
    "descends (m_store m) (Tip m) revert r" "descends (m_store m) b (rev app) r"
    "revert \<noteq> [] \<Longrightarrow> app \<noteq> [] \<Longrightarrow> last revert \<noteq> hd app"
proof -
  let ?db = "m_store m" and ?g = "\<lparr>ci_Height = 0, ci_ID = G\<rparr>"
  from tracked obtain path where wf: "wf_store c H ?db" and low: "heights_below ?db n" and one: "one_genesis G ?db"
    and best: "best_chain m path" by (auto simp: tracked_def)
  have tip: "index_at ?db (ci_ID (Tip m)) = Some (Tip m)" "descends ?db (Tip m) path before_genesis"
    using best by (simp_all add: best_chain_def)
  have n63: "n \<le> 2 ^ 63" using n by (simp add: MaxInt_def)
  have below: "unat (ci_Height i) < n" if "index_at ?db (ci_ID i) = Some i" "ci_ID i \<noteq> 0" for i
  proof -
    have h: "unat (ci_Height i + 1) < n" using low that(1) unfolding heights_below_def by blast
    from stored_from_genesis [OF wf low n63 one that] obtain zs where "length zs = unat (ci_Height i)" "descends ?db i zs ?g" by blast
    with h show ?thesis using unat_Suc [of "ci_Height i"] stored_descends [OF wf low n63 that(1)]
      by (cases "ci_Height i + 1 = 0") (use that(2) in force)+
  qed
  from stored_from_genesis [OF wf low n63 one tip(1) tracked_Tip [OF free tracked]] obtain rs where
    rs: "descends ?db (Tip m) rs ?g" "length rs = unat (ci_Height (Tip m))" by blast
  from stored_from_genesis [OF wf low n63 one b] obtain ps where
    ps: "descends ?db b ps ?g" "length ps = unat (ci_Height b)" by blast
  have "length rs + length ps \<le> MaxInt"
    using below [OF tip(1) tracked_Tip [OF free tracked]] below [OF b] n rs(2) ps(2) by simp
  from reorgPath_complete [OF no_zero_ancestor [OF free wf tip(2)] rs(1) _ ps(1) _ this] rs(2) ps(2)
  obtain revert app where path: "reorgPath ?db (Tip m) b MaxInt = Ok (revert, app)" by auto
  from reorgPath_sound [OF this no_zero_ancestor [OF free wf tip(2)]] that [OF path] show thesis by metis
qed

end
