(* ===== verification/SampleManager.thy ===== *)
theory SampleManager
  imports ManagedChain SampleChain
begin

text \<open>A manager of the sample network whose chain has an empty genesis block.\<close>

definition sample_genesis :: Block where
  "sample_genesis = \<lparr>blk_ParentID = 0, blk_Nonce = 200, blk_Timestamp = 1788998400 * second, blk_MinerPayouts = [],
     blk_Transactions = [], blk_V2 = None\<rparr>"

definition sample_genesis_state :: State where
  "sample_genesis_state = (case GenesisState sample_network of Ok s \<Rightarrow> s)"

lemma of_le_bytes_zeros: "of_le_bytes (replicate n 0) = 0"
  by (induction n) simp_all

lemma sample_target: "n_InitialTarget sample_network = 2 ^ 236"
  by (simp add: sample_network_def manifest_network_def hash_of_bytes_def of_be_bytes_def of_le_bytes_append
    of_le_bytes_zeros Let_def)

lemma uint_minus_1: "uint (-1 :: hash256) = 2 ^ 256 - 1"
  by (simp add: unsigned_minus_1_eq_mask mask_eq_exp_minus_1)

lemma uint_target: "uint (2 ^ 236 :: hash256) = 2 ^ 236"
  by simp

lemma sample_targets:
  "mulTargetFrac (-1) 1000 995 = Ok (-1)"
  "addTarget (-1) (2 ^ 236) = Ok (110427836236457785573754702810273263530737356117519804496434295247667200)"
  "\<exists>w. invTarget (2 ^ 236) = Ok w" "\<exists>w. invTarget (-1) = Ok w" "intToTarget maxTarget = -1"
  "\<exists>w. invTarget (110427836236457785573754702810273263530737356117519804496434295247667200) = Ok w"
proof -
  have m: "word_of_int maxTarget = (-1 :: hash256)" by (simp add: maxTarget_def)
  show "mulTargetFrac (-1) 1000 995 = Ok (-1)"
    unfolding mulTargetFrac_def uint_minus_1 big_Div_def intToTarget_def m by simp
  show "addTarget (-1) (2 ^ 236) = Ok (110427836236457785573754702810273263530737356117519804496434295247667200)"
    unfolding addTarget_def uint_minus_1 uint_target big_Div_def intToTarget_def by simp
  show "intToTarget maxTarget = -1" unfolding intToTarget_def m by (simp add: maxTarget_def)
  show "\<exists>w. invTarget (2 ^ 236) = Ok w" unfolding invTarget_def uint_target big_Div_def by simp
  show "\<exists>w. invTarget (-1) = Ok w" unfolding invTarget_def uint_minus_1 big_Div_def by simp
  show "\<exists>w. invTarget (110427836236457785573754702810273263530737356117519804496434295247667200) = Ok w"
    unfolding invTarget_def big_Div_def by simp
qed

lemma sample_GenesisState: "GenesisState sample_network = Ok sample_genesis_state"
  "s_Index sample_genesis_state = before_genesis" "s_Network sample_genesis_state = sample_network"
  "s_OakTarget sample_genesis_state = -1" "s_ChildTarget sample_genesis_state = 2 ^ 236"
  "s_Elements sample_genesis_state = empty_Accumulator"
proof -
  obtain w d where "invTarget (2 ^ 236) = Ok d" "invTarget (-1) = Ok w" using sample_targets(3,4) by blast
  note g = GenesisState_def [of sample_network, unfolded sample_target sample_targets(5) this]
  show "GenesisState sample_network = Ok sample_genesis_state" "s_Index sample_genesis_state = before_genesis"
    "s_Network sample_genesis_state = sample_network" "s_OakTarget sample_genesis_state = -1"
    "s_ChildTarget sample_genesis_state = 2 ^ 236" "s_Elements sample_genesis_state = empty_Accumulator"
    by (simp_all add: sample_genesis_state_def g)
qed

lemma sample_genesis_oak:
  assumes "s_Index s = before_genesis" "s_Network s = sample_network" "s_OakTarget s = -1" "s_ChildTarget s = 2 ^ 236"
  shows "\<exists>r. updateOakWork s = Ok r"
proof -
  have h: "childHeight s = 0" by (simp add: childHeight_def assms)
  have n: "n_ASIC_Height sample_network = 0" "n_V2_AllowHeight sample_network = 1"
    by (simp_all add: sample_network_def manifest_network_def Let_def)
  have "updateOakTarget s = Ok 110427836236457785573754702810273263530737356117519804496434295247667200"
    unfolding updateOakTarget_def h assms(2-4) n sample_targets(1) rbind.simps sample_targets(2) by simp
  with sample_targets(6) show ?thesis unfolding updateOakWork_def h assms(2) n by auto
qed

lemma sample_genesis_applies:
  obtains s' au where "ApplyBlock sc sample_genesis_state sample_genesis \<lparr>bs_Transactions = [], bs_ExpiringFileContracts = []\<rparr> 0 = Ok (s', au)"
    "ms_sces (au_ms au) = [] \<and> ms_sfes (au_ms au) = [] \<and> ms_fces (au_ms au) = []"
proof -
  let ?bs = "\<lparr>bs_Transactions = [], bs_ExpiringFileContracts = []\<rparr>" and ?bid = "Block_ID sc sample_genesis"
  have net: "n_Qday sample_network = Some sample_params" by (simp add: sample_network_def manifest_network_def Let_def)
  define ms where "ms = (NewMidState sample_genesis_state)\<lparr>ms_cie := \<lparr>cie_ID = ?bid, cie_StateElement = unassigned,
    cie_ChainIndex = \<lparr>ci_Height = 0, ci_ID = ?bid\<rparr>\<rparr>\<rparr>"
  have run: "MidState_ApplyBlock sc sample_genesis ?bs (NewMidState sample_genesis_state) = Ok ms"
    by (simp add: MidState_ApplyBlock_def sample_genesis_def Block_V2Transactions_def enum_res_def create_immature_def
      FoundationSubsidy_def NewMidState_def sample_GenesisState net childHeight_def ms_def Let_def)
  have few: "few_leaves ms" "cie_StateElement (ms_cie ms) = unassigned" "ms_sces ms = []" "ms_sfes ms = []" "ms_fces ms = []"
    by (simp_all add: ms_def NewMidState_def few_leaves_def)
  let ?upd = "filter (\<lambda>l. el_LeafIndex l \<noteq> UnassignedLeafIndex) (forEachAppliedElement sc ms)"
  obtain ts where "updateLeaves sc ?upd = Ok ts"
    using updateLeaves_single [of ?upd sc] few_applied [OF few(1,2), of sc] by auto
  then obtain acc eau added where acc: "ElementAccumulator_applyBlock sc (s_Elements sample_genesis_state) ?upd
      (filter (\<lambda>l. el_LeafIndex l = UnassignedLeafIndex) (forEachAppliedElement sc ms)) = Ok (acc, eau, added)"
    by (simp add: ElementAccumulator_applyBlock_def Let_def)
  let ?s = "sample_genesis_state\<lparr>s_SiafundTaxRevenue := ms_siafundTaxRevenue ms,
    s_Attestations := s_Attestations sample_genesis_state + word_of_nat (length (ms_aes ms)),
    s_FoundationSubsidyAddress := ms_foundationSubsidy ms, s_FoundationManagementAddress := ms_foundationManagement ms, s_Elements := acc\<rparr>"
  obtain r where "updateOakWork ?s = Ok r" using sample_genesis_oak [of ?s] by (auto simp: sample_GenesisState)
  then obtain s' where "ApplyHeader sc ?s (Block_Header sc sample_genesis) 0 = Ok s'"
    by (cases r) (simp add: ApplyHeader_def header_fields_def sample_GenesisState sample_genesis_def Block_Header_def Let_def)
  then obtain s2 where "ApplyBlock sc sample_genesis_state sample_genesis ?bs 0 =
      Ok (s2, \<lparr>au_ms = put_elements (concat (eau_updated eau) @ added) ms, au_eau = eau\<rparr>)"
    using run acc by (simp add: ApplyBlock_def sample_GenesisState sample_genesis_def Let_def)
  then show thesis by (rule that) (simp add: few put_elements_def put_from_def Let_def)
qed

lemma db_n_nodes: "db_n (fold put_node nds db) = db_n db"
  by (induction nds arbitrary: db) (simp_all add: put_node_def)

lemma sample_NewDBStore: obtains db cs where "NewDBStore sc sample_network sample_genesis = Ok (db, cs)"
    "s_Network cs = sample_network" "db_n db = sample_network"
proof -
  let ?bs = "\<lparr>bs_Transactions = [], bs_ExpiringFileContracts = []\<rparr>"
  obtain s1 au where s1: "ApplyBlock sc sample_genesis_state sample_genesis ?bs 0 = Ok (s1, au)"
    and au: "ms_sces (au_ms au) = [] \<and> ms_sfes (au_ms au) = [] \<and> ms_fces (au_ms au) = []"
    using sample_genesis_applies .
  define db0 where "db0 = putState s1 (putBlock sc (Block_Header sc sample_genesis) (Some sample_genesis) (Some ?bs)
    (putState sample_genesis_state (empty_DBStore sample_network)))"
  obtain db where db: "Store_ApplyBlock sc s1 au db0 = Ok db" "db_n db = sample_network"
  proof (cases "ci_Height (s_Index s1) \<le> n_V2_RequireHeight sample_network")
    case True
    show thesis by (rule that [of "fold put_node (ApplyUpdate_ForEachTreeNode sc au) (applyState s1 db0)"])
      (use True au in \<open>simp_all add: Store_ApplyBlock_def applyElements_def db_n_nodes applyState_def putHeight_def putBestIndex_def
        db0_def putState_def putBlock_def empty_DBStore_def Let_def\<close>)
  next
    case False
    show thesis by (rule that [of "applyState s1 db0"])
      (use False in \<open>simp_all add: Store_ApplyBlock_def applyState_def putHeight_def putBestIndex_def
        db0_def putState_def putBlock_def empty_DBStore_def Let_def\<close>)
  qed
  have txns: "blk_Transactions sample_genesis = []" by (simp add: sample_genesis_def)
  have "NewDBStore sc sample_network sample_genesis = Ok (db, fst (getState db (ci_ID (fst (BestIndex db (getHeight db))))))"
    using s1 db(1) by (simp add: NewDBStore_def sample_GenesisState(1) txns db0_def Let_def)
  moreover have "s_Network (fst (getState db bid)) = sample_network" for bid
    by (simp add: getState_def db(2) zero_State_def split: option.split)
  ultimately show thesis using that db(2) by blast
qed

definition sample_manager :: Manager where
  "sample_manager = (case NewDBStore sc sample_network sample_genesis of Ok (db, cs) \<Rightarrow> NewManager db cs Map.empty)"

definition sample_headers :: "BlockHeader set" where
  "sample_headers = {Block_Header sc sample_genesis}"

lemma nonce_ID:
  assumes "blk_Nonce b = 200 \<or> blk_Nonce b = 201"
  shows "200 \<le> unat (Block_ID sc b)"
proof -
  have id: "Block_ID sc b = byte_sum (hash_bytes (blk_ParentID b) @ le64 (blk_Nonce b) @
      le64 (uint64 (Time_Unix (blk_Timestamp b))) @ hash_bytes (bh_Commitment (Block_Header sc b)))"
    by (simp add: Block_ID_def BlockHeader_ID_def Block_Header_def HashBytes_def) (simp add: sample_crypto_def)
  have "(200 :: byte) \<in> set (le64 200)" "(201 :: byte) \<in> set (le64 201)"
    using le_bytes.simps(2) [of 7 200] le_bytes.simps(2) [of 7 201] by (simp_all add: le64_def)
  then obtain x where "x \<in> set (le64 (blk_Nonce b))" "200 \<le> unat (x :: byte)" using assms by fastforce
  moreover from this(1) have "unat x \<le> unat (Block_ID sc b)" unfolding id by (intro byte_sum_ge) simp_all
  ultimately show ?thesis by simp
qed

lemma sample_genesis_ID: "Block_ID sc sample_genesis \<noteq> 0" "Block_ID sc sample_genesis \<noteq> 5"
  using nonce_ID [of sample_genesis] by (auto simp: sample_genesis_def)

lemma sample_free: "collision_free sc sample_headers"
  using sample_genesis_ID(1) by (simp add: collision_free_def sample_headers_def Block_ID_def)

lemma sample_genesis_parent: "blk_ParentID sample_genesis = 0"
  by (simp add: sample_genesis_def)

lemma sample_managed: "Block_Header sc sample_genesis \<in> H \<Longrightarrow> managed sc H (Block_ID sc sample_genesis) 2 sample_manager"
  "s_Network (m_tipState sample_manager) = sample_network" "db_n (m_store sample_manager) = sample_network" "m_txpool sample_manager = empty_txpool"
proof -
  obtain db cs where db: "NewDBStore sc sample_network sample_genesis = Ok (db, cs)" "s_Network cs = sample_network"
      "db_n db = sample_network"
    using sample_NewDBStore .
  show "managed sc H (Block_ID sc sample_genesis) 2 sample_manager" if "Block_Header sc sample_genesis \<in> H"
    using managed_new [OF db(1) _ that, of "Block_ID sc sample_genesis"] sample_genesis_parent
    by (simp add: sample_manager_def db(1))
  show "s_Network (m_tipState sample_manager) = sample_network" "db_n (m_store sample_manager) = sample_network"
    "m_txpool sample_manager = empty_txpool"
    using db by (simp_all add: sample_manager_def NewManager_def)
qed

lemma sample_core:
  obtains s0 s1 bs where "s_Index s0 = before_genesis" "s_Index s1 = \<lparr>ci_Height = 0, ci_ID = Block_ID sc sample_genesis\<rparr>"
    "db_States (m_store sample_manager) = [0 \<mapsto> s0, Block_ID sc sample_genesis \<mapsto> s1]"
    "db_Blocks (m_store sample_manager) = [Block_ID sc sample_genesis \<mapsto>
       \<lparr>sb_Header = Block_Header sc sample_genesis, sb_Block = Some sample_genesis, sb_Supplement = Some bs\<rparr>]"
    "Tip sample_manager = \<lparr>ci_Height = 0, ci_ID = Block_ID sc sample_genesis\<rparr>"
proof -
  obtain db cs where db: "NewDBStore sc sample_network sample_genesis = Ok (db, cs)" using sample_NewDBStore .
  have m: "sample_manager = NewManager db cs Map.empty" by (simp add: sample_manager_def db)
  obtain s0 s1 bs where core: "s_Index s0 = before_genesis" "s_Index s1 = \<lparr>ci_Height = 0, ci_ID = Block_ID sc sample_genesis\<rparr>"
    "db_States db = [0 \<mapsto> s0, Block_ID sc sample_genesis \<mapsto> s1]"
    "db_Blocks db = [Block_ID sc sample_genesis \<mapsto>
       \<lparr>sb_Header = Block_Header sc sample_genesis, sb_Block = Some sample_genesis, sb_Supplement = Some bs\<rparr>]"
    "s_Index cs = \<lparr>ci_Height = 0, ci_ID = Block_ID sc sample_genesis\<rparr>"
    using NewDBStore_core [OF db sample_genesis_parent sample_genesis_ID(1)] by metis
  show thesis by (rule that [OF core(1,2)]) (use core in \<open>simp_all add: m NewManager_def Tip_def\<close>)
qed

lemma sample_tip: "Tip sample_manager = \<lparr>ci_Height = 0, ci_ID = Block_ID sc sample_genesis\<rparr>"
  using sample_core by metis

lemma sample_child: "childHeight (m_tipState sample_manager) = 1"
  using sample_tip by (simp add: childHeight_def Tip_def)

section \<open>Other blocks\<close>

text \<open>A block whose parent is unknown, and another block without a parent.\<close>

definition sample_orphan :: Block where
  "sample_orphan = sample_genesis\<lparr>blk_ParentID := 5\<rparr>"

definition second_genesis :: Block where
  "second_genesis = sample_genesis\<lparr>blk_Nonce := 201\<rparr>"

definition some_headers :: "BlockHeader set" where
  "some_headers = Block_Header sc ` {sample_genesis, sample_orphan, second_genesis}"

lemma byte_sum_append: "byte_sum (xs @ ys) = byte_sum xs + byte_sum ys"
  by (simp add: byte_sum_def)

lemma le_bytes_0: "le_bytes k 0 = replicate k 0"
  by (induction k) simp_all

lemma byte_sum_small:
  "byte_sum (le64 200) = 200" "byte_sum (le64 201) = 201" "byte_sum (hash_bytes 0) = 0" "byte_sum (hash_bytes 5) = 5"
  using le_bytes.simps(2) [of 7 200] le_bytes.simps(2) [of 7 201] le_bytes.simps(2) [of 31 5]
  by (simp_all add: byte_sum_def le64_def hash_bytes_def be_bytes_def le_bytes_0 map_replicate sum_list_replicate)

lemma sample_IDs:
  "Block_ID sc sample_orphan = Block_ID sc sample_genesis + 5" "Block_ID sc second_genesis = Block_ID sc sample_genesis + 1"
proof -
  have "Block_ID sc b = byte_sum (hash_bytes (blk_ParentID b)) + byte_sum (le64 (blk_Nonce b)) +
      byte_sum (le64 (uint64 (Time_Unix (blk_Timestamp b)))) + byte_sum (hash_bytes (bh_Commitment (Block_Header sc b)))" for b
    by (simp add: Block_ID_def BlockHeader_ID_def Block_Header_def HashBytes_def)
      (simp add: sample_crypto_def byte_sum_append)
  then show "Block_ID sc sample_orphan = Block_ID sc sample_genesis + 5" "Block_ID sc second_genesis = Block_ID sc sample_genesis + 1"
    by (simp_all add: sample_orphan_def second_genesis_def sample_genesis_def Block_Header_def byte_sum_small)
qed

lemma some_headers_free: "collision_free sc some_headers"
proof -
  let ?x = "Block_ID sc sample_genesis"
  have "?x + 5 \<noteq> ?x" "?x + 1 \<noteq> ?x" "?x + 5 \<noteq> ?x + 1" by simp_all
  then have "inj_on (BlockHeader_ID sc) some_headers"
    unfolding some_headers_def using sample_IDs by (auto simp: inj_on_def Block_ID_def)
  moreover have "Block_ID sc sample_orphan \<noteq> 0" "Block_ID sc second_genesis \<noteq> 0"
    using nonce_ID [of sample_orphan] nonce_ID [of second_genesis]
    by (auto simp: sample_orphan_def second_genesis_def sample_genesis_def)
  ultimately show ?thesis using sample_genesis_ID by (auto simp: collision_free_def some_headers_def Block_ID_def)
qed

lemma some_managed: "managed sc some_headers (Block_ID sc sample_genesis) 2 sample_manager"
  by (rule sample_managed(1)) (simp add: some_headers_def)

end
