(* ===== verification/ManagerProperties.thy ===== *)
theory ManagerProperties
  imports SampleManager
begin

text \<open>What the chain manager guarantees: its best chain, its reorganisations and its transaction pool.\<close>

section \<open>The best chain\<close>

text \<open>C7: In every manager that a node reaches, the height index of the store holds a chain of blocks
  from the genesis block to the tip: it has the genesis block at height 0, the tip at the height of the
  tip and nothing above, and the parent of the block at each height is the block at the height below.\<close>

theorem best_chain_is_linked:
  assumes "collision_free c H" "managed c H G n m" "n \<le> 2 ^ 63"
  shows "BestIndex (m_store m) 0 = (\<lparr>ci_Height = 0, ci_ID = G\<rparr>, True)
    \<and> BestIndex (m_store m) (ci_Height (Tip m)) = (Tip m, True)
    \<and> (0 < h \<and> h \<le> ci_Height (Tip m) \<longrightarrow>
        (\<exists>bh. getBlockHeader (m_store m) (ci_ID (fst (BestIndex (m_store m) h))) = Some bh
           \<and> BestIndex (m_store m) (h - 1) = (\<lparr>ci_Height = h - 1, ci_ID = bh_ParentID bh\<rparr>, True)))
    \<and> (ci_Height (Tip m) < h \<longrightarrow> \<not> snd (BestIndex (m_store m) h))"
proof -
  note linked = tracked_linked [OF managed_tracked [OF assms]]
  have "\<exists>bh. getBlockHeader (m_store m) (ci_ID (fst (BestIndex (m_store m) h))) = Some bh
      \<and> BestIndex (m_store m) (h - 1) = (\<lparr>ci_Height = h - 1, ci_ID = bh_ParentID bh\<rparr>, True)"
    if h: "0 < h" "h \<le> ci_Height (Tip m)"
  proof -
    have low: "snd (BestIndex (m_store m) (h - 1))"
    proof (cases "h - 1 = 0")
      case True
      with linked(1) show ?thesis by simp
    next
      case False
      then have "0 < h - 1" by (simp add: word_gt_0)
      moreover have "h - 1 \<le> ci_Height (Tip m)"
        using h unat_minus_one [of h] by (auto simp: word_le_nat_alt word_gt_0)
      ultimately show ?thesis using linked(3) by blast
    qed
    have "ci_Height (fst (BestIndex (m_store m) k)) = k" for k by (simp add: BestIndex_def split: option.split)
    then show ?thesis using linked(3) [OF h] low
      by (cases "BestIndex (m_store m) (h - 1)") (auto simp: parent_index_def split: option.splits)
  qed
  with linked(1,2,4) show ?thesis by blast
qed

lemma sample_chain_facts: "collision_free sc sample_headers" "managed sc sample_headers (Block_ID sc sample_genesis) 2 sample_manager"
  using sample_free sample_managed(1) by (simp_all add: sample_headers_def)

theorem best_chain_is_linked_witness:
  "collision_free sc sample_headers \<and> managed sc sample_headers (Block_ID sc sample_genesis) 2 sample_manager \<and>
   BestIndex (m_store sample_manager) 0 = (\<lparr>ci_Height = 0, ci_ID = Block_ID sc sample_genesis\<rparr>, True)"
  using best_chain_is_linked [OF sample_chain_facts, of 0] sample_chain_facts by simp

text \<open>C8: on every reached manager \<^verbatim>\<open>AddBlocks\<close> follows the heavier chain. When it returns no error, all blocks
  were added, the state computed for the last of them is the one the store then holds for it, and the tip
  becomes that block exactly when this state is sufficiently heavier than the state of the old tip;
  otherwise the tip stays. When it returns an error the tip is the one before, also when a reorganisation
  failed halfway, unless going back failed as well. The headers that were known stay known.\<close>

theorem AddBlocks_follows_heavier_chain:
  assumes "collision_free c H" "managed c H G n m" "Block_Header c ` set blocks \<subseteq> H" "n + length blocks \<le> 2 ^ 63"
    "AddBlocks c now blocks m = (r, m')" "\<not> panics r"
  shows "getBlockHeader (m_store m) \<subseteq>\<^sub>m getBlockHeader (m_store m') \<and> (case r of
      Ok _ \<Rightarrow> if blocks = [] then m' = m else
        (\<exists>cs m1. add_blocks c now blocks (m_tipState m) m = (Ok cs, m1) \<and> ci_ID (s_Index cs) = Block_ID c (last blocks) \<and>
          getState (m_store m1) (Block_ID c (last blocks)) = (cs\<lparr>s_Network := db_n (m_store m1)\<rparr>, True) \<and>
          Tip m' = (if SufficientlyHeavierThan cs (m_tipState m) = Ok True then s_Index cs else Tip m))
    | Err e \<Rightarrow> Tip m' = Tip m \<or> e = ''failed to revert failed reorg''
    | Panic _ \<Rightarrow> True)"
proof -
  have "tracked c H G n m" using managed_tracked [OF assms(1,2)] assms(4) by simp
  note best = AddBlocks_best [OF assms(1) this assms(3-6)]
  moreover have "m' = m" if "blocks = []" using that assms(5) by (simp add: AddBlocks_def)
  moreover have "Tip m' = Tip m \<or> e = ''failed to revert failed reorg''" if "r = Err e" for e using best that by blast
  ultimately show ?thesis by (cases r; cases "blocks = []") simp_all
qed

theorem AddBlocks_follows_heavier_chain_witness:
  "\<exists>m'. AddBlocks sc 0 [sample_orphan] sample_manager = (Err ''missing parent state for block'', m') \<and>
    collision_free sc some_headers \<and> managed sc some_headers (Block_ID sc sample_genesis) 2 sample_manager \<and>
    Tip m' = Tip sample_manager"
proof -
  obtain s0 s1 bs where core: "db_States (m_store sample_manager) = [0 \<mapsto> s0, Block_ID sc sample_genesis \<mapsto> s1]"
    "db_Blocks (m_store sample_manager) = [Block_ID sc sample_genesis \<mapsto>
       \<lparr>sb_Header = Block_Header sc sample_genesis, sb_Block = Some sample_genesis, sb_Supplement = Some bs\<rparr>]"
    using sample_core by metis
  have ids: "Block_ID sc sample_orphan \<noteq> Block_ID sc sample_genesis" "blk_ParentID sample_orphan = 5"
    using sample_IDs by (simp_all add: sample_orphan_def)
  have unknown: "Store_Block (m_store sample_manager) (Block_ID sc sample_orphan) = None"
    using core(2) ids(1) by (simp add: Store_Block_def getBlock_def)
  have five: "Block_ID sc sample_genesis \<noteq> 5" by (rule sample_genesis_ID(2))
  have "Store_State (m_store sample_manager) 5 = None"
    using core(1) five by (simp add: Store_State_def getState_def)
  then have run: "AddBlocks sc 0 [sample_orphan] sample_manager = (Err ''missing parent state for block'', sample_manager)"
    using unknown ids five sample_tip by (simp add: AddBlocks_def add_block_def Tip_def Let_def)
  have "Block_Header sc ` set [sample_orphan] \<subseteq> some_headers" by (simp add: some_headers_def)
  with AddBlocks_follows_heavier_chain [OF some_headers_free some_managed _ _ run] run some_headers_free some_managed
  show ?thesis by simp
qed

text \<open>C9: From the tip of a reached manager, the search for the path to any stored block ends with a
  path: the blocks to revert lead from the tip down to a common ancestor, the blocks to apply lead from
  there up to the block, and the two paths part at that ancestor.\<close>

theorem reorgPath_finds_the_fork:
  assumes "collision_free c H" "managed c H G n m" "2 * n \<le> MaxInt"
    and "index_at (m_store m) (ci_ID b) = Some b" "ci_ID b \<noteq> 0"
  shows "\<exists>revert app r. reorgPath (m_store m) (Tip m) b MaxInt = Ok (revert, app) \<and>
    descends (m_store m) (Tip m) revert r \<and> descends (m_store m) b (rev app) r \<and>
    (revert = [] \<or> app = [] \<or> last revert \<noteq> hd app)"
proof -
  have "n \<le> 2 ^ 63" using assms(3) by (simp add: MaxInt_def)
  from tracked_reorgPath [OF assms(1) managed_tracked [OF assms(1,2) this] assms(3-5)] show ?thesis by metis
qed

theorem reorgPath_finds_the_fork_witness:
  "\<exists>revert app r. reorgPath (m_store sample_manager) (Tip sample_manager) (Tip sample_manager) MaxInt = Ok (revert, app) \<and>
    descends (m_store sample_manager) (Tip sample_manager) revert r \<and>
    descends (m_store sample_manager) (Tip sample_manager) (rev app) r"
proof -
  have tracked: "tracked sc sample_headers (Block_ID sc sample_genesis) 2 sample_manager"
    using managed_tracked [OF sample_chain_facts] by simp
  then have "index_at (m_store sample_manager) (ci_ID (Tip sample_manager)) = Some (Tip sample_manager)"
    by (auto simp: tracked_def best_chain_def)
  from reorgPath_finds_the_fork [OF sample_chain_facts _ this tracked_Tip [OF sample_free tracked]] show ?thesis
    by (auto simp: MaxInt_def)
qed

text \<open>C39: A second genesis block panics. On a QDAY network, a block other than the genesis block that names no
  parent, has no payouts, no transactions and no v2 data and whose timestamp is not too far in the future is
  not rejected with an error by \<^verbatim>\<open>AddBlocks\<close>, whatever its nonce and so its work: adding it panics, since the median
  of no timestamps is taken before the work is checked.\<close>

theorem second_genesis_panics:
  assumes "collision_free c H" "managed c H G n m" "n \<le> 2 ^ 63" "Block_Header c b \<in> H" "Block_ID c b \<noteq> G"
    and "blk_ParentID b = 0" "blk_MinerPayouts b = []" "blk_Transactions b = []" "blk_V2 b = None"
    and "n_Qday (db_n (m_store m)) \<noteq> None" "blk_Timestamp b \<le> Time_Add now (3 * 3600 * second)"
  shows "AddBlocks c now [b] m = (Panic ''index out of range'', m)"
proof -
  have tracked: "tracked c H G n m" using managed_tracked [OF assms(1-3)] .
  then have wf: "wf_store c H (m_store m)" and one: "one_genesis G (m_store m)" by (simp_all add: tracked_def)
  have "Store_Block (m_store m) (Block_ID c b) = None"
  proof (cases "db_Blocks (m_store m) (Block_ID c b)")
    case (Some sb)
    from wf_store_block [OF wf Some] have "sb_Header sb = Block_Header c b"
      using assms(1,4) by (auto simp: wf_block_def collision_free_def Block_ID_def dest: inj_onD)
    with Some one assms(5,6) show ?thesis by (auto simp: one_genesis_def getBlockHeader_map)
  qed (simp add: Store_Block_def getBlock_def)
  moreover obtain s where s: "Store_State (m_store m) 0 = Some s" "s_Index s = before_genesis" "n_Qday (s_Network s) \<noteq> None"
    using wf assms(10) by (auto simp: wf_store_def index_at_def Store_State_def getState_def)
  moreover have "ValidateOrphan c s b = Panic ''index out of range''"
    using s(2,3) assms(6-9) by (auto simp: ValidateOrphan_def Block_V2Transactions_def validateMinerPayouts_def BlockReward_def
      ValidateHeader_def medianTimestamp_def numTimestamps_def childHeight_def MaxBlockWeight_def)
  moreover have "\<not> MaxFutureTimestamp s now < blk_Timestamp b"
    using s(2) assms(11) by (simp add: MaxFutureTimestamp_def childHeight_def)
  ultimately show ?thesis using tracked_Tip [OF assms(1) tracked] assms(6)
    by (simp add: AddBlocks_def add_block_def Tip_def Let_def)
qed

theorem second_genesis_panics_witness:
  "AddBlocks sc (1788998400 * second) [second_genesis] sample_manager = (Panic ''index out of range'', sample_manager)"
proof (rule second_genesis_panics [OF some_headers_free some_managed])
  show "Block_ID sc second_genesis \<noteq> Block_ID sc sample_genesis" using sample_IDs(2) by simp
  show "n_Qday (db_n (m_store sample_manager)) \<noteq> None"
    by (simp add: sample_managed(3) sample_network_def manifest_network_def Let_def)
  show "blk_Timestamp second_genesis \<le> Time_Add (1788998400 * second) (3 * 3600 * second)"
    by (simp add: second_genesis_def sample_genesis_def Time_Add_def second_def)
qed (simp_all add: some_headers_def second_genesis_def sample_genesis_def)

section \<open>The transaction pool\<close>

text \<open>A manager whose pool has one transaction to be validated.\<close>

definition sample_pool_manager :: Manager where
  "sample_pool_manager = (NewManager (empty_DBStore sample_network) sample_parent Map.empty)
     \<lparr>m_txpool := empty_txpool\<lparr>tp_v2txns := [canary_proof]\<rparr>\<rparr>"

lemma sample_pool:
  obtains ms m' where "revalidatePool sc id sample_pool_manager = Ok m'" "tp_v2txns (m_txpool m') = [canary_proof]"
    "tp_txns (m_txpool m') = []" "tp_indices (m_txpool m') = [V2Transaction_ID sc canary_proof \<mapsto> 0]"
    "tp_ms (m_txpool m') = Some ms" "tp_weight (m_txpool m') = 8222"
proof -
  let ?ms = "NewMidState sample_parent"
  have net: "n_Qday (s_Network (ms_base ?ms)) \<noteq> None" "n_Qday (s_Network sample_parent) \<noteq> None" by (simp_all add: NewMidState_def)
  obtain ms where ms: "ApplyV2Transaction sc canary_proof ?ms = Ok ms"
    using apply_transfer [OF wf_NewMidState supported(2) net(1), of sc] by metis
  have valid: "ValidateV2Transaction sc ?ms canary_proof = Ok ()"
    by (rule canary_proof_valid) (simp_all add: NewMidState_def)
  have heights: "updateQdayEphemeralHeights h [canary_proof] = [canary_proof]" for h
    by (simp add: updateQdayEphemeralHeights_def canary_proof_fields(1) sample_coin_def UnassignedLeafIndex_def)
  have "revalidatePool sc id sample_pool_manager = Ok (sample_pool_manager\<lparr>m_txpool := empty_txpool\<lparr>tp_v2txns := [canary_proof],
      tp_indices := [V2Transaction_ID sc canary_proof \<mapsto> 0], tp_weight := 8222, tp_ms := Some ms\<rparr>\<rparr>)"
    using net(2) by (simp add: revalidatePool_def sample_pool_manager_def NewManager_def empty_txpool_def heights
      readd_v2txn_def valid ms on_err_def weights txpoolMaxWeight_def MaxBlockWeight_def Let_def)
  then show thesis by (rule that) (simp_all add: empty_txpool_def)
qed

lemma sample_pool_read: obtains m' where "V2PoolTransactions sc id sample_pool_manager = Ok ([canary_proof], m')"
proof -
  obtain m' where "revalidatePool sc id sample_pool_manager = Ok m'" "tp_v2txns (m_txpool m') = [canary_proof]"
    using sample_pool by metis
  then show thesis using that by (simp add: V2PoolTransactions_def)
qed

lemma sample_pool_v2_only: "v2_only sample_pool_manager" "tp_ms (m_txpool sample_pool_manager) = None"
  by (simp_all add: v2_only_def sample_pool_manager_def NewManager_def empty_txpool_def childHeight_def)

text \<open>C10: When version 1 transactions are no longer allowed, every prefix of the transactions that
  \<^verbatim>\<open>V2PoolTransactions\<close> returns is a valid set: each transaction passes \<^verbatim>\<open>ValidateV2Transaction\<close> on top of
  the ones before it and of the state of the tip. This holds after any sequence of operations on the
  pool since the last reorganisation, which clears the midstate of the pool.\<close>

theorem pool_prefixes_are_valid:
  assumes "v2_only m0" "tp_ms (m_txpool m0) = None" "pool_run c m0 m" "V2PoolTransactions c perm m = Ok (txns, m')"
  shows "\<exists>ms. fold_res (add_v2txn c) (take k txns) (NewMidState (m_tipState m0)) = Ok ms"
proof -
  note ok = pool_run_ok [OF assms(3,1,2)]
  then have "v2_only m" using assms(1) by (simp add: v2_only_def)
  from V2PoolTransactions_ok [OF assms(4) this] ok obtain ms where
    "fold_res (add_v2txn c) txns (NewMidState (m_tipState m0)) = Ok ms" by auto
  from prefix_ok [OF this] show ?thesis .
qed

theorem pool_prefixes_are_valid_witness:
  "\<exists>ms m'. V2PoolTransactions sc id sample_pool_manager = Ok ([canary_proof], m') \<and>
     fold_res (add_v2txn sc) (take 1 [canary_proof]) (NewMidState (m_tipState sample_pool_manager)) = Ok ms"
proof -
  obtain m' where "V2PoolTransactions sc id sample_pool_manager = Ok ([canary_proof], m')" using sample_pool_read .
  with pool_prefixes_are_valid [OF sample_pool_v2_only pool_start this, of 1] show ?thesis by blast
qed

text \<open>C19: The index of a pool of version 2 transactions is exact whenever the pool has a midstate: no two of its
  transactions have the same ID, the index maps an ID to a position exactly if the transaction there has
  that ID, and the weight of the pool is the sum of the weights of its transactions.\<close>

theorem pool_index_is_exact:
  assumes "v2_only m0" "tp_ms (m_txpool m0) = None" "pool_run c m0 m" "revalidatePool c perm m = Ok m'"
  shows "distinct (map (V2Transaction_ID c) (tp_v2txns (m_txpool m'))) \<and>
    (tp_indices (m_txpool m') txid = Some i \<longleftrightarrow>
       i < length (tp_v2txns (m_txpool m')) \<and> V2Transaction_ID c (tp_v2txns (m_txpool m') ! i) = txid) \<and>
    tp_weight (m_txpool m') = sum_list (map V2TransactionWeight (tp_v2txns (m_txpool m')))"
proof -
  note ok = pool_run_ok [OF assms(3,1,2)]
  then have "v2_only m" "pool_ok c m" using assms(1) by (simp_all add: v2_only_def)
  from revalidatePool_ok [OF assms(4) this] obtain ms where st: "pool_state c (m_tipState m) ms (m_txpool m')" .
  then have index: "tp_indices (m_txpool m') txid = Some i \<longleftrightarrow>
      i < length (tp_v2txns (m_txpool m')) \<and> V2Transaction_ID c (tp_v2txns (m_txpool m') ! i) = txid" for txid i
    by (simp add: pool_state_def)
  have "distinct (map (V2Transaction_ID c) (tp_v2txns (m_txpool m')))"
    unfolding distinct_conv_nth using index by (auto simp: nth_map) (metis option.inject)
  then show ?thesis using st index by (simp add: pool_state_def)
qed

theorem pool_index_is_exact_witness:
  "\<exists>m'. revalidatePool sc id sample_pool_manager = Ok m' \<and> tp_indices (m_txpool m') (V2Transaction_ID sc canary_proof) = Some 0"
proof -
  obtain ms m' where m': "revalidatePool sc id sample_pool_manager = Ok m'" "tp_v2txns (m_txpool m') = [canary_proof]"
    using sample_pool by metis
  from pool_index_is_exact [OF sample_pool_v2_only pool_start m'(1), of "V2Transaction_ID sc canary_proof" 0] m'
  show ?thesis by simp
qed

text \<open>C11: When \<^verbatim>\<open>AddV2PoolTransactions\<close> returns an error, the pool holds exactly what it held after
  revalidation: the same transactions in the same order, the same index and the same weight. At most its
  midstate is cleared, so that the next operation revalidates it.\<close>

theorem AddV2PoolTransactions_is_atomic:
  assumes "revalidatePool c perm m = Ok m1" "AddV2PoolTransactions c perm basis txns m = (Err e, m')"
  shows "m' = m1 \<or> m' = m1\<lparr>m_txpool := (m_txpool m1)\<lparr>tp_ms := None\<rparr>\<rparr>"
proof (cases "m' = m1")
  case False
  note run = assms(2) [unfolded AddV2PoolTransactions_def change_def assms(1) attempt_def res.case]
  from run False obtain txns' where
    "for_each_s (pool_add_v2txn c (length (tp_v2txns (m_txpool m1))) (tp_weight (m_txpool m1))) txns' m1 = (Err e, m')"
    by (auto simp: sbind_def split: if_splits res.splits prod.splits)
  moreover have "grown c (m_txpool m1) (m_txpool m1)" by (auto simp: grown_def intro!: exI [of _ "[]"])
  ultimately show ?thesis using add_v2txns_undo [of c m1 m1] by simp
qed simp

theorem AddV2PoolTransactions_is_atomic_witness:
  "\<exists>m1 m'. revalidatePool sc id sample_pool_manager = Ok m1 \<and>
     AddV2PoolTransactions sc id zero_index [] sample_pool_manager = (Err ''couldn't find state for basis'', m') \<and>
     tp_v2txns (m_txpool m') = [canary_proof]"
proof -
  obtain m1 where m1: "revalidatePool sc id sample_pool_manager = Ok m1" "tp_v2txns (m_txpool m1) = [canary_proof]"
    using sample_pool by metis
  have "m_store m1 = empty_DBStore sample_network"
    using revalidatePool_same [OF m1(1)] by (simp add: same_chain_def sample_pool_manager_def NewManager_def)
  then have run: "AddV2PoolTransactions sc id zero_index [] sample_pool_manager = (Err ''couldn't find state for basis'', m1)"
    by (simp add: AddV2PoolTransactions_def change_def m1(1) updateV2TransactionProofs_def Store_State_def getState_def
      empty_DBStore_def)
  from AddV2PoolTransactions_is_atomic [OF m1(1) run] m1 run show ?thesis by auto
qed

text \<open>C40: Both lookups by ID use the same index: looking up the ID of a version 2 transaction of the pool
  with \<^verbatim>\<open>PoolTransaction\<close> panics when there are no version 1 transactions, as on a QDAY network.\<close>

theorem PoolTransaction_panics_on_v2_ID:
  assumes "v2_only m" "pool_ok c m" "V2PoolTransactions c perm m = Ok (txns, m')" "txn \<in> set txns"
  shows "PoolTransaction c perm (V2Transaction_ID c txn) m = Panic ''index out of range''"
proof -
  from assms(3) have run: "revalidatePool c perm m = Ok m'" by (auto simp: V2PoolTransactions_def res_simps)
  obtain ms where pool: "tp_txns (m_txpool m') = []" "tp_v2txns (m_txpool m') = txns" "pool_state c (m_tipState m) ms (m_txpool m')"
    using V2PoolTransactions_ok [OF assms(3,1,2)] .
  from assms(4) obtain i where "i < length txns" "txns ! i = txn" by (auto simp: in_set_conv_nth)
  then have "tp_indices (m_txpool m') (V2Transaction_ID c txn) = Some i" using pool by (simp add: pool_state_def)
  with run pool(1) show ?thesis by (simp add: PoolTransaction_def index_res_def)
qed

theorem PoolTransaction_panics_on_v2_ID_witness:
  "PoolTransaction sc id (V2Transaction_ID sc canary_proof) sample_pool_manager = Panic ''index out of range''"
proof -
  obtain m' where "V2PoolTransactions sc id sample_pool_manager = Ok ([canary_proof], m')" using sample_pool_read .
  moreover have "pool_ok sc sample_pool_manager" using sample_pool_v2_only(2) by (simp add: pool_ok_def)
  ultimately show ?thesis using PoolTransaction_panics_on_v2_ID [OF sample_pool_v2_only(1)] by simp
qed

end
