(* ===== verification/ChainExtension.thy ===== *)
theory ChainExtension
  imports SampleManager
begin

text \<open>
  How an accepted block becomes the tip: the way of a child of the tip through \<^verbatim>\<open>AddBlocks\<close>, from its header
  to the new best chain.
\<close>

section \<open>The steps\<close>

lemma child_is_heavier:
  assumes "work_bounds s" "unat (s_TotalWork cs) = unat (s_TotalWork s) + unat (s_Difficulty s)"
  shows "SufficientlyHeavierThan cs s = Ok True"
proof -
  have D: "0 < unat (s_Difficulty s)" "unat (s_Difficulty s) < 2 ^ 190" "unat (s_TotalWork s) < 2 ^ 255"
    using assms(1) by (auto simp: work_bounds_def word_less_nat_alt)
  define d where "d = (word_of_nat (unat (s_Difficulty s) div 5) :: Work)"
  have d: "Work_div64 (s_Difficulty s) 5 = Ok d" "unat d = unat (s_Difficulty s) div 5"
    by (simp_all add: Work_div64_eq d_def div_fits)
  have "unat (s_TotalWork s) + unat d < 2 ^ 256" using D d(2) by simp
  then obtain w where w: "Work_add (s_TotalWork s) d = Ok w" "unat w = unat (s_TotalWork s) + unat d"
    using work.add_total by blast
  have "unat (s_Difficulty s) div 5 < unat (s_Difficulty s)" using D(1) by simp
  then show ?thesis using d w assms(2) by (simp add: SufficientlyHeavierThan_def Work_Cmp_nat)
qed

lemma child_path:
  assumes "getBlockHeader db (ci_ID idx) = Some bh" "bh_ParentID bh = ci_ID tip" "ci_Height idx = ci_Height tip + 1"
    "ci_Height tip < ci_Height idx" "tip \<noteq> zero_index"
  shows "reorgPath db tip idx MaxInt = Ok ([], [idx])"
proof -
  have step: "rewind db MaxInt (Suc 0) idx = Ok tip" using assms by (cases tip) (simp add: rewind_def MaxInt_def)
  have "(ci_Height idx < ci_Height tip) = False" using order.asym assms(4) by blast
  then have "rewind_to db MaxInt 0 (ci_Height idx) [] tip = Ok ([], tip)" by (subst rewind_to.simps) simp
  moreover have "rewind_to db MaxInt 0 (ci_Height tip) [idx] tip = Ok ([idx], tip)"
    by (subst rewind_to.simps) simp
  then have "rewind_to db MaxInt 0 (ci_Height tip) [] idx = Ok ([idx], tip)"
    using assms(4) step by (subst rewind_to.simps) simp
  moreover have "rewind_both db MaxInt [] [idx] tip tip = Ok ([], [idx])" by (subst rewind_both.simps) simp
  ultimately show ?thesis using assms(5) by (simp add: reorgPath_def)
qed

lemma empty_pool_update: "tp_v2txns pool = [] \<Longrightarrow> applyPoolUpdate c cau cs pool = Ok pool"
  by (simp add: applyPoolUpdate_def update_pool_proofs_def)

text \<open>
  A manager whose tip is stored with its state, on a chain beyond the heights of the old rules, with an
  empty pool.
\<close>

definition ready :: "Manager \<Rightarrow> bool" where
  "ready m \<longleftrightarrow> db_States (m_store m) (ci_ID (Tip m)) = Some (m_tipState m) \<and> getBlock (m_store m) (ci_ID (Tip m)) \<noteq> None \<and>
     getHeight (m_store m) = ci_Height (Tip m) \<and> db_n (m_store m) = s_Network (m_tipState m) \<and>
     n_V2_RequireHeight (db_n (m_store m)) \<le> ci_Height (Tip m) \<and> n_Oak_Height (db_n (m_store m)) < ci_Height (Tip m) \<and>
     unat (ci_Height (Tip m)) + 1 < 2 ^ 64 \<and> tp_v2txns (m_txpool m) = []"

lemma ready_child:
  assumes "ready m"
  shows "ci_Height (Tip m) < childHeight (m_tipState m)" "ci_Height (Tip m) \<noteq> 0"
    "\<not> childHeight (m_tipState m) \<le> n_V2_RequireHeight (db_n (m_store m))"
proof -
  have "unat (childHeight (m_tipState m)) = unat (ci_Height (Tip m)) + 1"
    using assms unat_add_lem [of "ci_Height (Tip m)" 1] by (simp add: ready_def childHeight_def Tip_def)
  then show "ci_Height (Tip m) < childHeight (m_tipState m)" "\<not> childHeight (m_tipState m) \<le> n_V2_RequireHeight (db_n (m_store m))"
    using assms by (auto simp: ready_def word_less_nat_alt word_le_nat_alt)
  show "ci_Height (Tip m) \<noteq> 0" using assms by (auto simp: ready_def)
qed

lemma add_child:
  assumes "ready m" "getBlock (m_store m) (Block_ID c b) = None" "ValidateOrphan c (m_tipState m) b = Ok ()"
    "blk_ParentID b = ci_ID (Tip m)" "blk_Timestamp b \<le> MaxFutureTimestamp (m_tipState m) now"
    "ApplyHeader c (m_tipState m) (Block_Header c b) 0 = Ok cs"
  shows "add_block c now b (m_store m, m_tipState m) = Ok (AddBlock c b None (putState cs (m_store m)), cs)"
proof -
  have "AncestorTimestamp (m_store m) (ci_ID (Tip m)) = Some 0"
    using assms(1) by (auto simp: AncestorTimestamp_def getState_def ready_def Tip_def Let_def)
  then show ?thesis using assms(2-6)
    by (simp add: add_block_def Let_def Store_Block_def Tip_def not_less)
qed

lemma apply_child:
  assumes "ready m" "getBlock (m_store m) (Block_ID c b) = None" "blk_ParentID b = ci_ID (Tip m)" "blk_Transactions b = []"
    "ValidateBlock c (m_tipState m) b empty_supplement = Ok ()" "ApplyBlock c (m_tipState m) b empty_supplement 0 = Ok (s', au)"
    "m_expiringFileContractOrder m (Block_ID c b) = None" "s_Index cs = \<lparr>ci_Height = childHeight (m_tipState m), ci_ID = Block_ID c b\<rparr>"
    "s_Index s' = s_Index cs" and m1: "m1 = m\<lparr>m_store := AddBlock c b None (putState cs (m_store m))\<rparr>"
  obtains m' where "applyTip c (s_Index cs) m1 = (Ok (), m')" "m_tipState m' = s'" "m_txpool m' = m_txpool m"
    "BestIndex (m_store m') (childHeight (m_tipState m)) = (s_Index cs, True)"
proof -
  have new: "Block_ID c b \<noteq> ci_ID (Tip m)" using assms(1,2) by (auto simp: ready_def)
  have block: "Store_Block (m_store m1) (Block_ID c b) = Some (b, None)"
    by (simp add: m1 Store_Block_def getBlock_def AddBlock_def putBlock_def Block_ID_def)
  have "AncestorTimestamp (m_store m1) (ci_ID (Tip m)) = Some 0"
    using assms(1,8) new
    by (auto simp: m1 AncestorTimestamp_def getState_def ready_def Tip_def AddBlock_def putBlock_def putState_def Let_def)
  moreover have "SupplementTipBlock (m_store m1) b = Ok empty_supplement"
    using assms(1,4) by (auto simp: m1 SupplementTipBlock_def ready_def AddBlock_def putBlock_def putState_def getHeight_def
      empty_supplement_def)
  moreover have "overwriteExpirations c (m_expiringFileContractOrder m1) b empty_supplement = Ok empty_supplement"
    using assms(7) by (simp add: m1 overwriteExpirations_def)
  moreover have tip: "Tip m1 = Tip m" "m_tipState m1 = m_tipState m" by (simp_all add: m1 Tip_def)
  ultimately have "applied_block c m1 (s_Index cs) = Ok (AddBlock c b (Some empty_supplement) (putState s' (m_store m1)), s', au)"
    using assms(3,5,6,8) block by (simp add: applied_block_def)
  moreover have "Store_ApplyBlock c s' au (AddBlock c b (Some empty_supplement) (putState s' (m_store m1))) =
      Ok (applyState s' (AddBlock c b (Some empty_supplement) (putState s' (m_store m1))))"
    using ready_child(3) [OF assms(1)] assms(8,9)
    by (simp add: Store_ApplyBlock_def m1 applyState_def putHeight_def putBestIndex_def AddBlock_def putBlock_def putState_def)
  moreover have "applyPoolUpdate c au s' (m_txpool m1) = Ok (m_txpool m1)"
    using assms(1) by (intro empty_pool_update) (simp add: m1 ready_def)
  ultimately show thesis
    using that assms(8,9)
    by (simp add: applyTip_def m1 BestIndex_def applyState_def putHeight_def putBestIndex_def AddBlock_def putBlock_def putState_def)
qed

section \<open>Accepted blocks become the tip\<close>

text \<open>C12: accepted blocks become the tip. Take a manager of a running QDAY chain whose tip is stored with its
  state, is beyond the heights of the old rules and below the last height, and whose pool has no v2
  transactions, the work of the chain being in the bounds in which the difficulty rule cannot overflow. A
  block that is not in the store, has no configured order of expirations and a timestamp that is not too far in
  the future, that \<^verbatim>\<open>ValidateBlock\<close> accepts on the state of the tip and that \<^verbatim>\<open>ApplyBlock\<close> applies to it is added by
  \<^verbatim>\<open>AddBlocks\<close> without an error: the state of the tip is the state after the block and the best chain has the
  block at the next height.\<close>

theorem accepted_block_becomes_tip:
  assumes "running (m_tipState m) p" "work_bounds (m_tipState m)" "ready m" "getBlock (m_store m) (Block_ID c b) = None"
    "m_expiringFileContractOrder m (Block_ID c b) = None" "blk_Timestamp b \<le> MaxFutureTimestamp (m_tipState m) now"
    "ValidateBlock c (m_tipState m) b empty_supplement = Ok ()" "ApplyBlock c (m_tipState m) b empty_supplement 0 = Ok (s', au)"
  shows "\<exists>m'. AddBlocks c now [b] m = (Ok (), m') \<and> m_tipState m' = s' \<and>
    Tip m' = \<lparr>ci_Height = ci_Height (Tip m) + 1, ci_ID = Block_ID c b\<rparr> \<and>
    BestIndex (m_store m') (ci_Height (Tip m) + 1) = (Tip m', True)"
proof -
  let ?s = "m_tipState m" and ?bh = "Block_Header c b"
  have q: "qday_state ?s p" using assms(1) by (simp add: running_def)
  have parent: "bh_ParentID ?bh = ci_ID (s_Index ?s)" by (rule accepted_txns(1) [OF assms(7) q])
  have nz: "bh_ParentID ?bh \<noteq> 0" using parent assms(1) by (simp add: running_def)
  have no_v1: "blk_Transactions b = []" using accepted_block [OF assms(7) q] by metis
  have orphan: "ValidateOrphan c ?s b = Ok ()" using assms(7) by (auto simp: ValidateBlock_def res_simps)
  have pid: "blk_ParentID b = ci_ID (Tip m)" using parent by (simp add: Block_Header_def Tip_def)
  from header_total [OF assms(2) _ _ parent [symmetric] nz, of c 0] obtain cs where
    cs: "ApplyHeader c ?s ?bh 0 = Ok cs" "unat (s_TotalWork cs) = unat (s_TotalWork ?s) + unat (s_Difficulty ?s)"
      "s_Index cs = \<lparr>ci_Height = childHeight ?s, ci_ID = Block_ID c b\<rparr>"
    using assms(1) by (metis running_def Block_ID_def)
  have s': "s_Index s' = s_Index cs" using accepted_step(2) [OF assms(7,8,1)] cs(3) by simp
  define m1 where "m1 = m\<lparr>m_store := AddBlock c b None (putState cs (m_store m))\<rparr>"
  have tip: "Tip m1 = Tip m" "m_tipState m1 = ?s" by (simp_all add: m1_def Tip_def)
  have added: "add_blocks c now [b] ?s m = (Ok cs, m1)"
    using add_child [OF assms(3,4) orphan pid assms(6) cs(1)] by (simp add: m1_def)
  obtain m2 where m2: "applyTip c (s_Index cs) m1 = (Ok (), m2)" "m_tipState m2 = s'" "m_txpool m2 = m_txpool m"
      "BestIndex (m_store m2) (childHeight ?s) = (s_Index cs, True)"
    using apply_child [OF assms(3,4) pid no_v1 assms(7,8,5) cs(3) s' m1_def] .
  have "getBlockHeader (m_store m1) (Block_ID c b) = Some ?bh"
    by (simp add: m1_def getBlockHeader_def AddBlock_def putBlock_def Block_ID_def)
  moreover have not_zero: "Tip m \<noteq> zero_index" using ready_child(2) [OF assms(3)] by auto
  ultimately have "reorgPath (m_store m1) (Tip m) (s_Index cs) MaxInt = Ok ([], [s_Index cs])"
    using child_path [of "m_store m1" "s_Index cs" ?bh "Tip m"] ready_child [OF assms(3)] parent not_zero
    by (auto simp: cs(3) Tip_def childHeight_def)
  then have "reorgTo c (s_Index cs) m1 = (Ok (), m2\<lparr>m_txpool := (m_txpool m2)\<lparr>tp_ms := None, tp_medianFee := None\<rparr>\<rparr>)"
    using m2(1) by (simp add: reorgTo_def tip sbind_def remember_reverted_def)
  then have "AddBlocks c now [b] m = (Ok (), m2\<lparr>m_txpool := (m_txpool m2)\<lparr>tp_ms := None, tp_medianFee := None\<rparr>\<rparr>)"
    using added child_is_heavier [OF assms(2) cs(2)] by (simp add: AddBlocks_def sbind_def reorg_if_heavier_def tip)
  then show ?thesis using m2(2,4) s' cs(3) by (simp add: Tip_def childHeight_def)
qed

text \<open>A manager whose tip is the parent of the sample block.\<close>

definition ready_manager :: Manager where
  "ready_manager = NewManager ((empty_DBStore (s_Network sample_parent))\<lparr>
     db_States := [5 \<mapsto> sample_parent], db_Height := Some 100, db_MainChain := [100 \<mapsto> 5],
     db_Blocks := [5 \<mapsto> \<lparr>sb_Header = Block_Header sc sample_genesis, sb_Block = None, sb_Supplement = None\<rparr>]\<rparr>) sample_parent Map.empty"

lemma node_hash_nonzero: "SumPair sc x y \<noteq> 0"
proof -
  have "SumPair sc x y = byte_sum (1 # hash_bytes x @ hash_bytes y)"
    by (simp add: SumPair_def hashBlockGeneric_def) (simp add: sample_crypto_def)
  then show ?thesis using byte_sum_nonzero [of 1] by simp
qed

lemma byte_sum_hash_nonzero: "h \<noteq> 0 \<Longrightarrow> byte_sum (le64 a @ le64 b @ hash_bytes h) \<noteq> 0"
proof -
  assume "h \<noteq> 0"
  have "hash_bytes 0 = replicate 32 0" by (simp add: hash_bytes_def be_bytes_def le_bytes_0)
  then have "hash_bytes h \<noteq> replicate (length (hash_bytes h)) 0" using \<open>h \<noteq> 0\<close> hash_bytes_inject [of h 0] by simp
  then obtain x where "x \<in> set (hash_bytes h)" "x \<noteq> 0" using replicate_eqI [of "hash_bytes h" _ 0] by metis
  then show "byte_sum (le64 a @ le64 b @ hash_bytes h) \<noteq> 0" by (intro byte_sum_nonzero) auto
qed

lemma sample_block_new: "Block_ID sc sample_block \<noteq> 5"
proof -
  let ?comm = "Commitment sc sample_parent (QdayKeys_Address sc sample_pair) [] [coinbase_marker, canary_proof]"
  have "represents sc (AddLeaf sc empty_Accumulator x) [x]" for x using represents_AddLeaf [OF represents_empty, of sc x] by simp
  from represents_AddLeaf [OF this] have "represents sc (AddLeaf sc (AddLeaf sc empty_Accumulator x) y) [x, y]" for x y by simp
  from represents_AddLeaf [OF this]
  have rep: "represents sc (AddLeaf sc (AddLeaf sc (AddLeaf sc empty_Accumulator x) y) z) [x, y, z]" for x y z by simp
  have "tree_hash sc ([x, y] @ [z]) = SumPair sc (tree_hash sc [x, y]) (tree_hash sc [z])" for x y z
    using tree_hash_split [of "[x, y]" 1 "[z]"] by simp
  then have "?comm \<noteq> 0" using node_hash_nonzero by (simp add: Commitment_def Let_def Root_represents [OF rep])
  moreover have "Block_ID sc sample_block = 5 + byte_sum (le64 0 @ le64 (uint64 (Time_Unix 0)) @ hash_bytes ?comm)"
    by (simp add: Block_ID_def BlockHeader_ID_def Block_Header_def sample_block_def HashBytes_def)
      (simp add: sample_crypto_def byte_sum_append byte_sum_small)
  ultimately show ?thesis using byte_sum_hash_nonzero [of ?comm] by simp
qed

theorem accepted_block_becomes_tip_witness:
  "\<exists>m'. AddBlocks sc 0 [sample_block] ready_manager = (Ok (), m') \<and> Tip m' = \<lparr>ci_Height = 101, ci_ID = Block_ID sc sample_block\<rparr>"
proof -
  obtain s' au where applied: "ApplyBlock sc sample_parent sample_block empty_supplement 0 = Ok (s', au)" using sample_block_applies .
  have tip: "m_tipState ready_manager = sample_parent" "Tip ready_manager = \<lparr>ci_Height = 100, ci_ID = 5\<rparr>"
    by (simp_all add: ready_manager_def NewManager_def Tip_def)
  have "ready ready_manager"
    unfolding ready_def tip
    by (simp add: ready_manager_def NewManager_def empty_DBStore_def getBlock_def getHeight_def empty_txpool_def)
      (simp add: sample_parent_def sample_state_def sample_network_def manifest_network_def Let_def)
  moreover have "getBlock (m_store ready_manager) (Block_ID sc sample_block) = None"
    using sample_block_new by (simp add: ready_manager_def NewManager_def empty_DBStore_def getBlock_def)
  moreover have "work_bounds sample_parent" by (simp add: work_bounds_def sample_parent_def sample_state_def)
  moreover have "blk_Timestamp sample_block \<le> MaxFutureTimestamp sample_parent 0"
    by (simp add: MaxFutureTimestamp_def sample_block_def Time_Add_def second_def)
  moreover have "m_expiringFileContractOrder ready_manager = Map.empty" by (simp add: ready_manager_def NewManager_def)
  ultimately show ?thesis
    using accepted_block_becomes_tip [of ready_manager sample_params sc sample_block 0 s' au] sample_running
      sample_block_accepted applied by (simp add: tip) blast
qed

end
