(* ===== verification/Miner.thy ===== *)
theory Miner
  imports PoolOperations
begin

text \<open>
  Block candidates, the search for a nonce and the signing of transactions: \<^verbatim>\<open>coreutils/qday/miner.go\<close> and
  \<^verbatim>\<open>coreutils/miner.go\<close>. The loops that run until a nonce is found or the context is cancelled take the
  number of rounds before the cancellation as an argument; the random bytes and the clock are arguments.
\<close>

section \<open>Candidates\<close>

text \<open>\<^verbatim>\<open>timestamp.UTC().Truncate(time.Second)\<close>\<close>

definition truncate_second :: "Time \<Rightarrow> Time" where
  "truncate_second t = t - t mod second"

definition marker_txn :: "QdayKeys \<Rightarrow> u64 \<Rightarrow> V2Transaction" where
  "marker_txn miner markerNonce = empty_V2Transaction\<lparr>v2_ArbitraryData := QdayEnvelope_Encode
     \<lparr>env_Kind = QdayCoinbase, env_Nonce = markerNonce, env_Keys = [miner], env_Witness = 0\<rparr>\<rparr>"

definition work_txn :: "u64 \<Rightarrow> V2Transaction" where
  "work_txn markerNonce = empty_V2Transaction\<lparr>v2_ArbitraryData := QdayEnvelope_Encode
     \<lparr>env_Kind = QdayMiningWork, env_Nonce = markerNonce, env_Keys = [], env_Witness = 0\<rparr>\<rparr>"

text \<open>The state of the loop: the midstate, the weight, the transactions of the block and its payout.\<close>

type_synonym candidate = "MidState \<times> u64 \<times> V2Transaction list \<times> Currency"

definition candidate_step :: "crypto \<Rightarrow> V2Transaction \<Rightarrow> candidate \<Rightarrow> candidate res" where
  "candidate_step c txn = (\<lambda>(ms, weight, txns, payout).
     let w = V2TransactionWeight txn in
     if MaxBlockWeight < weight + w then Ok (ms, weight, txns, payout)
     else case ValidateV2Transaction c ms txn of
         Err _ \<Rightarrow> Ok (ms, weight, txns, payout)
       | Panic p \<Rightarrow> Panic p
       | Ok _ \<Rightarrow>
           rbind (ApplyV2Transaction c txn ms) (\<lambda>ms.
           rbind (Currency_Add payout (v2_MinerFee txn)) (\<lambda>payout.
           Ok (ms, weight + w, txns @ [txn], payout))))"

definition CandidateWithNonce ::
    "crypto \<Rightarrow> State \<Rightarrow> QdayKeys \<Rightarrow> V2Transaction list \<Rightarrow> Time \<Rightarrow> u64 \<Rightarrow> Block res" where
  "CandidateWithNonce c s miner txns timestamp markerNonce =
     (let marker = marker_txn miner markerNonce; addr = QdayKeys_Address c miner in
      rbind (BlockReward s) (\<lambda>reward.
      rbind (fold_res (candidate_step c) txns (NewMidState s, V2TransactionWeight marker + 128, [marker], reward))
        (\<lambda>(ms, weight, txns, payout).
      let txns = (if QdayV1Active s (ci_Height (s_Index s) + 1) then txns @ [work_txn markerNonce] else txns) in
      Ok \<lparr>blk_ParentID = ci_ID (s_Index s), blk_Nonce = 0, blk_Timestamp = truncate_second timestamp,
          blk_MinerPayouts = [\<lparr>sco_Value = payout, sco_Address = addr\<rparr>], blk_Transactions = [],
          blk_V2 = Some \<lparr>bd_Height = ci_Height (s_Index s) + 1, bd_Commitment = Commitment c s addr [] txns,
            bd_Transactions = txns\<rparr>\<rparr>)))"

definition Candidate :: "crypto \<Rightarrow> byte list \<Rightarrow> State \<Rightarrow> QdayKeys \<Rightarrow> V2Transaction list \<Rightarrow> Time \<Rightarrow> Block res" where
  "Candidate c entropy s miner txns timestamp = CandidateWithNonce c s miner txns timestamp (of_le64 entropy)"

section \<open>The search for a nonce\<close>

fun mine_worker :: "crypto \<Rightarrow> BlockID \<Rightarrow> u64 \<Rightarrow> nat \<Rightarrow> BlockHeader \<Rightarrow> u64 option" where
  "mine_worker c target stride 0 bh = None"
| "mine_worker c target stride (Suc n) bh =
     (if 0 \<le> BlockID_CmpWork (BlockHeader_ID c bh) target then Some (bh_Nonce bh)
      else mine_worker c target stride n (bh\<lparr>bh_Nonce := bh_Nonce bh + stride\<rparr>))"

text \<open>
  A worker computes \<open>rounds worker\<close> hashes unless it finds a nonce before. The channel keeps the nonce of the
  worker that comes first in the \<open>order\<close> in which they finish.
\<close>

definition Mine :: "crypto \<Rightarrow> (nat \<Rightarrow> nat) \<Rightarrow> nat list \<Rightarrow> State \<Rightarrow> Block \<Rightarrow> int \<Rightarrow> Block res" where
  "Mine c rounds order s b threads =
     (if threads < 1 \<or> 256 < threads then Err ''threads must be 1..256''
      else
        rbind (PoWTarget s) (\<lambda>target.
        let factor = NonceFactor s;
            start = (\<lambda>worker. (Block_Header c b)\<lparr>bh_Nonce := word_of_nat worker * factor\<rparr>);
            nonces = List.map_filter (\<lambda>worker.
              mine_worker c target (word_of_int threads * factor) (rounds worker) (start worker)) order in
        case nonces of
          [] \<Rightarrow> Err ''context canceled''
        | nonce # _ \<Rightarrow> Ok (b\<lparr>blk_Nonce := nonce\<rparr>)))"

text \<open>\<^verbatim>\<open>FindBlockNonce\<close> is the search of one worker, which ends after a timeout.\<close>

definition FindBlockNonce :: "crypto \<Rightarrow> nat \<Rightarrow> State \<Rightarrow> Block \<Rightarrow> (Block \<times> bool) res" where
  "FindBlockNonce c rounds cs b =
     rbind (PoWTarget cs) (\<lambda>target.
     Ok (case mine_worker c target (NonceFactor cs) rounds ((Block_Header c b)\<lparr>bh_Nonce := 0\<rparr>) of
         None \<Rightarrow> (b, False)
       | Some nonce \<Rightarrow> (b\<lparr>blk_Nonce := nonce\<rparr>, True)))"

text \<open>The transactions that are taken until the weight of a block is exceeded, with the weight and the payout.\<close>

fun fill_block :: "('a \<Rightarrow> u64) \<Rightarrow> ('a \<Rightarrow> Currency) \<Rightarrow> 'a list \<Rightarrow> u64 \<times> 'a list \<times> Currency
    \<Rightarrow> (u64 \<times> 'a list \<times> Currency) res" where
  "fill_block w fee [] st = Ok st"
| "fill_block w fee (txn # rest) (weight, txns, payout) =
     (if MaxBlockWeight < weight + w txn then Ok (weight + w txn, txns, payout)
      else rbind (Currency_Add payout (fee txn)) (\<lambda>payout.
        fill_block w fee rest (weight + w txn, txns @ [txn], payout)))"

definition MineBlock :: "crypto \<Rightarrow> (feeTxn list \<Rightarrow> feeTxn list) \<Rightarrow> byte list \<Rightarrow> Time \<Rightarrow> nat \<Rightarrow> Manager \<Rightarrow> Address
    \<Rightarrow> (Block \<times> bool) res" where
  "MineBlock c perm entropy now rounds m addr =
     rbind (PoolTransactions c perm m) (\<lambda>(txns, m).
     rbind (V2PoolTransactions c perm m) (\<lambda>(v2Txns, m).
     let cs = m_tipState m; childHeight = ci_Height (s_Index cs) + 1 in
     rbind (BlockReward cs) (\<lambda>reward.
     rbind (fill_block TransactionWeight Transaction_TotalFees txns (0, [], reward)) (\<lambda>(weight, txns, payout).
     rbind (if n_V2_AllowHeight (s_Network cs) \<le> childHeight
            then fill_block V2TransactionWeight v2_MinerFee v2Txns
              (weight, [empty_V2Transaction\<lparr>v2_ArbitraryData := entropy\<rparr>], payout)
            else Ok (weight, [], payout)) (\<lambda>(weight, v2Txns, payout).
     FindBlockNonce c rounds cs
       \<lparr>blk_ParentID = ci_ID (s_Index cs), blk_Nonce = 0, blk_Timestamp = now,
        blk_MinerPayouts = [\<lparr>sco_Value = payout, sco_Address = addr\<rparr>], blk_Transactions = txns,
        blk_V2 = (if n_V2_AllowHeight (s_Network cs) \<le> childHeight
          then Some \<lparr>bd_Height = childHeight, bd_Commitment = Commitment c cs addr txns v2Txns, bd_Transactions = v2Txns\<rparr>
          else None)\<rparr>)))))"

section \<open>Signing\<close>

fun defend_search :: "crypto \<Rightarrow> hash256 \<Rightarrow> u8 \<Rightarrow> nat \<Rightarrow> u64 \<Rightarrow> u64 option" where
  "defend_search c intent bits 0 nonce = None"
| "defend_search c intent bits (Suc n) nonce =
     (if QdayWorkValid c intent nonce bits then Some nonce else defend_search c intent bits n (nonce + 1))"

definition PrepareTransactionWork :: "crypto \<Rightarrow> nat \<Rightarrow> State \<Rightarrow> V2Transaction \<Rightarrow> V2Transaction res" where
  "PrepareTransactionWork c rounds s txn =
     rbind (ParseQdayEnvelope (v2_ArbitraryData txn)) (\<lambda>e.
     if QdayActive s (ci_Height (s_Index s) + 1)
     then rbind (QdayWorkIntent c s txn) (\<lambda>intent.
       case n_Qday (s_Network s) of
         None \<Rightarrow> Panic ''nil pointer dereference''
       | Some p \<Rightarrow> (case defend_search c intent (qd_DefendBits p) rounds (env_Nonce e) of
             None \<Rightarrow> Err ''context canceled''
           | Some nonce \<Rightarrow> Ok (txn\<lparr>v2_ArbitraryData := QdayEnvelope_Encode (e\<lparr>env_Nonce := nonce\<rparr>)\<rparr>)))
     else Ok txn)"

text \<open>\<open>cancelled\<close> tells whether the context is cancelled when the work is done.\<close>

definition SignTransfer :: "crypto \<Rightarrow> nat \<Rightarrow> bool \<Rightarrow> State \<Rightarrow> V2Transaction \<Rightarrow> QdayPrivateKeys \<Rightarrow> V2Transaction res" where
  "SignTransfer c rounds cancelled s txn keys =
     rbind (PrepareTransactionWork c rounds s txn) (\<lambda>txn.
     if cancelled then Err ''context canceled''
     else rbind (QdayPrivateKeys_Sign c keys (InputSigHash c s txn)) (\<lambda>sp.
       Ok (txn\<lparr>v2_SiacoinInputs := map (\<lambda>i. i\<lparr>v2sci_SatisfiedPolicy := sp\<rparr>) (v2_SiacoinInputs txn)\<rparr>)))"

definition SignAtomicSwapClaim :: "crypto \<Rightarrow> nat \<Rightarrow> State \<Rightarrow> V2Transaction \<Rightarrow> QdayAtomicSwap \<Rightarrow> QdayPrivateKeys option \<Rightarrow> hash256
    \<Rightarrow> V2Transaction res" where
  "SignAtomicSwapClaim c rounds s txn swap keys secret =
     (if length (v2_SiacoinInputs txn) \<noteq> 1 then Err ''atomic-swap claim must spend exactly one input''
      else rbind (PrepareTransactionWork c rounds s txn) (\<lambda>txn.
        rbind (swap_Claim c swap (InputSigHash c s txn) keys secret) (\<lambda>w.
        Ok (txn\<lparr>v2_SiacoinInputs := [(hd (v2_SiacoinInputs txn))\<lparr>v2sci_SatisfiedPolicy := w\<rparr>]\<rparr>))))"

definition SignAtomicSwapRefund :: "crypto \<Rightarrow> nat \<Rightarrow> State \<Rightarrow> V2Transaction \<Rightarrow> QdayAtomicSwap \<Rightarrow> QdayPrivateKeys option
    \<Rightarrow> V2Transaction res" where
  "SignAtomicSwapRefund c rounds s txn swap keys =
     (if length (v2_SiacoinInputs txn) \<noteq> 1 then Err ''atomic-swap refund must spend exactly one input''
      else rbind (PrepareTransactionWork c rounds s txn) (\<lambda>txn.
        rbind (swap_RefundSpend c swap (InputSigHash c s txn) keys) (\<lambda>w.
        Ok (txn\<lparr>v2_SiacoinInputs := [(hd (v2_SiacoinInputs txn))\<lparr>v2sci_SatisfiedPolicy := w\<rparr>]\<rparr>))))"

end
