(* ===== verification/MinerProperties.thy ===== *)
theory MinerProperties
  imports Miner BlockRules SampleChain
begin

text \<open>
  What a miner gets: candidates that validate once a nonce is found, a search that skips no nonce, and signed
  transactions that carry the work and the signatures the network asks for.
\<close>

section \<open>The markers\<close>

lemma marker_fields:
  "v2_SiacoinInputs (marker_txn k n) = []" "v2_SiacoinOutputs (marker_txn k n) = []"
  "v2_MinerFee (marker_txn k n) = ZeroCurrency" "\<not> qdayUnsupported (marker_txn k n)"
  "v2_SiacoinInputs (work_txn n) = []" "v2_SiacoinOutputs (work_txn n) = []"
  "v2_MinerFee (work_txn n) = ZeroCurrency" "\<not> qdayUnsupported (work_txn n)"
  by (simp_all add: marker_txn_def work_txn_def empty_V2Transaction_def qdayUnsupported_def)

lemma marker_envelopes:
  "QdayKeys_Validate k = Ok () \<Longrightarrow> ParseQdayEnvelope (v2_ArbitraryData (marker_txn k n)) =
     Ok \<lparr>env_Kind = QdayCoinbase, env_Nonce = n, env_Keys = [k], env_Witness = 0\<rparr>"
  "ParseQdayEnvelope (v2_ArbitraryData (work_txn n)) =
     Ok \<lparr>env_Kind = QdayMiningWork, env_Nonce = n, env_Keys = [], env_Witness = 0\<rparr>"
  by (simp_all add: marker_txn_def work_txn_def Parse_Encode wf_envelope_def kind_defs)

lemma marker_weights: "V2TransactionWeight (marker_txn k n) = 80" "V2TransactionWeight (work_txn n) = 16"
  by (simp_all add: V2TransactionWeight_def marker_txn_def work_txn_def empty_V2Transaction_def
      QdayEnvelope_Encode_def kind_defs QdayKeys_Bytes_def)

lemma apply_marker:
  "QdayKeys_Validate k = Ok () \<Longrightarrow> ApplyV2Transaction c (marker_txn k n) ms = Ok ms"
  "ApplyV2Transaction c (work_txn n) ms = Ok ms"
  by (simp_all add: ApplyV2Transaction_def marker_envelopes marker_fields supported_fields [OF marker_fields(4)]
      supported_fields [OF marker_fields(8)] create_siacoins_def enum_res_def kind_defs Let_def)

section \<open>The candidate\<close>

text \<open>The transactions that the loop has added, the weight that is reserved with them and the payout.\<close>

definition candidate_ok :: "crypto \<Rightarrow> State \<Rightarrow> V2Transaction \<Rightarrow> Currency \<Rightarrow> candidate \<Rightarrow> bool" where
  "candidate_ok c s marker reward = (\<lambda>(ms, weight, txns, payout). \<exists>added. txns = marker # added \<and>
     fold_res (add_v2txn c) added (NewMidState s) = Ok ms \<and>
     weight = 208 + sum_list (map V2TransactionWeight added) \<and> 208 \<le> weight \<and> weight \<le> MaxBlockWeight \<and>
     cval payout = cval reward + sum_list (map (\<lambda>txn. cval (v2_MinerFee txn)) added))"

lemma valid_weight: "ValidateV2Transaction c ms txn = Ok () \<Longrightarrow> V2TransactionWeight txn \<le> MaxBlockWeight"
  by (auto simp: ValidateV2Transaction_def res_simps split: if_splits)

lemma candidate_step_ok:
  assumes "candidate_step c txn st = Ok st'" "candidate_ok c s marker reward st"
  shows "candidate_ok c s marker reward st'"
proof -
  obtain ms weight txns payout where st: "st = (ms, weight, txns, payout)" by (cases st) auto
  obtain added where added: "txns = marker # added" "fold_res (add_v2txn c) added (NewMidState s) = Ok ms"
      "weight = 208 + sum_list (map V2TransactionWeight added)" "208 \<le> weight" "weight \<le> MaxBlockWeight"
      "cval payout = cval reward + sum_list (map (\<lambda>txn. cval (v2_MinerFee txn)) added)"
    using assms(2) unfolding st candidate_ok_def by auto
  show ?thesis
  proof (cases "st' = st")
    case False
    let ?w = "V2TransactionWeight txn"
    from False obtain ms' payout' where run: "\<not> MaxBlockWeight < weight + ?w" "ValidateV2Transaction c ms txn = Ok ()"
        "ApplyV2Transaction c txn ms = Ok ms'" "Currency_Add payout (v2_MinerFee txn) = Ok payout'"
        "st' = (ms', weight + ?w, txns @ [txn], payout')"
      using assms(1) unfolding st candidate_step_def Let_def prod.case
      by (auto simp: res_simps split: if_splits res.splits)
    have "weight \<le> weight + ?w"
      using added(5) valid_weight [OF run(2)] by (simp add: MaxBlockWeight_def word_le_nat_alt unat_word_ariths(1))
    then have "208 \<le> weight + ?w" "weight + ?w \<le> MaxBlockWeight" using added(4) run(1) by simp_all
    moreover have "fold_res (add_v2txn c) (added @ [txn]) (NewMidState s) = Ok ms'"
      using added(2) run(2,3) by (simp add: fold_res_append add_v2txn_def)
    moreover have "cval payout' = cval payout + cval (v2_MinerFee txn)" using run(4) by (simp add: cur.add_iff)
    ultimately show ?thesis
      unfolding run(5) candidate_ok_def using added by (intro exI [of _ "added @ [txn]"] prod.case [THEN iffD2]) simp
  qed (use assms(2) in simp)
qed

lemma candidate_steps:
  assumes "fold_res (candidate_step c) txns st = Ok st'" "candidate_ok c s marker reward st"
  shows "candidate_ok c s marker reward st'"
  using fold_res_invariant [where P = "candidate_ok c s marker reward"] candidate_step_ok assms by blast

lemma candidate_start:
  "candidate_ok c s (marker_txn k n) reward (NewMidState s, V2TransactionWeight (marker_txn k n) + 128, [marker_txn k n], reward)"
  by (simp add: candidate_ok_def marker_weights MaxBlockWeight_def)

lemma check_between_markers:
  assumes "\<forall>i. k \<le> i \<and> i < k + length txns \<longrightarrow> \<not> is_marker s n i"
  shows "fold_res (\<lambda>(i, txn). check_step c s n i txn) (List.enumerate k txns) ms = fold_res (add_v2txn c) txns ms"
  using assms
proof (induction txns arbitrary: k ms)
  case (Cons txn txns)
  have "check_step c s n k txn ms = add_v2txn c txn ms" for ms
    using Cons.prems by (simp add: check_step_def add_v2txn_def)
  moreover have "\<forall>i. Suc k \<le> i \<and> i < Suc k + length txns \<longrightarrow> \<not> is_marker s n i" using Cons.prems by simp
  ultimately show ?case using Cons.IH by (cases "add_v2txn c txn ms") simp_all
qed simp

text \<open>The transactions of the block: the marker, what was added and, once version 1 is active, the work marker.\<close>

definition candidate_txns :: "State \<Rightarrow> QdayKeys \<Rightarrow> u64 \<Rightarrow> V2Transaction list \<Rightarrow> V2Transaction list" where
  "candidate_txns s k n added = marker_txn k n # added @ (if QdayV1Active s (childHeight s) then [work_txn n] else [])"

lemma check_candidate:
  assumes "fold_res (add_v2txn c) added (NewMidState s) = Ok ms" "QdayKeys_Validate k = Ok ()" "n_Qday (s_Network s) \<noteq> None"
  shows "check_v2_transactions c s (candidate_txns s k n added) (NewMidState s) = Ok ms"
proof -
  let ?len = "length (candidate_txns s k n added)"
  have first: "check_step c s ?len 0 (marker_txn k n) (NewMidState s) = Ok (NewMidState s)"
    using assms(2,3) by (simp add: check_step_def is_marker_def apply_marker)
  have "\<forall>i. 1 \<le> i \<and> i < 1 + length added \<longrightarrow> \<not> is_marker s ?len i"
    by (auto simp: is_marker_def candidate_txns_def)
  from check_between_markers [OF this, of c "NewMidState s"] assms(1)
  have middle: "fold_res (\<lambda>(i, txn). check_step c s ?len i txn) (List.enumerate (Suc 0) added) (NewMidState s) = Ok ms" by simp
  have lastly: "check_step c s ?len (Suc (length added)) (work_txn n) ms = Ok ms" if "QdayV1Active s (childHeight s)"
    using that assms(3) by (simp add: check_step_def is_marker_def apply_marker candidate_txns_def)
  show ?thesis
    unfolding check_v2_transactions_eq using first middle lastly
    by (simp add: candidate_txns_def enumerate_append_eq fold_res_append)
qed

lemma fold_fees_Ok:
  "cval t' = cval t + sum_list (map (\<lambda>x. cval (f x)) txns) \<Longrightarrow> fold_res (\<lambda>txn. add_fee msg (f txn)) txns t = Ok t'"
proof (induction txns arbitrary: t)
  case (Cons txn txns)
  obtain r o1 where r: "Currency_AddWithOverflow t (f txn) = (r, o1)" by fastforce
  have "cval t + cval (f txn) < 2 ^ 128" using Cons.prems cval_less [of t'] by simp
  then have "add_fee msg (f txn) t = Ok r" "cval r = cval t + cval (f txn)"
    using AddWithOverflow_cval [OF r] by (auto simp: add_fee_def r split: if_splits)
  then show ?case using Cons by simp
qed (simp add: cval_inject)

lemma candidate_fields:
  assumes "CandidateWithNonce c s k txns t n = Ok b"
  obtains reward payout added ms where "BlockReward s = Ok reward" "fold_res (add_v2txn c) added (NewMidState s) = Ok ms"
    "208 + sum_list (map V2TransactionWeight added) \<le> MaxBlockWeight" "208 \<le> 208 + sum_list (map V2TransactionWeight added)"
    "cval payout = cval reward + sum_list (map (\<lambda>txn. cval (v2_MinerFee txn)) added)"
    "b = \<lparr>blk_ParentID = ci_ID (s_Index s), blk_Nonce = 0, blk_Timestamp = truncate_second t,
       blk_MinerPayouts = [\<lparr>sco_Value = payout, sco_Address = QdayKeys_Address c k\<rparr>], blk_Transactions = [],
       blk_V2 = Some \<lparr>bd_Height = childHeight s,
         bd_Commitment = Commitment c s (QdayKeys_Address c k) [] (candidate_txns s k n added),
         bd_Transactions = candidate_txns s k n added\<rparr>\<rparr>"
proof -
  let ?start = "\<lambda>reward. (NewMidState s, V2TransactionWeight (marker_txn k n) + 128, [marker_txn k n], reward)"
  from assms obtain reward ms weight list payout where run: "BlockReward s = Ok reward"
      "fold_res (candidate_step c) txns (?start reward) = Ok (ms, weight, list, payout)"
      "b = \<lparr>blk_ParentID = ci_ID (s_Index s), blk_Nonce = 0, blk_Timestamp = truncate_second t,
       blk_MinerPayouts = [\<lparr>sco_Value = payout, sco_Address = QdayKeys_Address c k\<rparr>], blk_Transactions = [],
       blk_V2 = Some \<lparr>bd_Height = childHeight s,
         bd_Commitment = Commitment c s (QdayKeys_Address c k) []
           (if QdayV1Active s (childHeight s) then list @ [work_txn n] else list),
         bd_Transactions = (if QdayV1Active s (childHeight s) then list @ [work_txn n] else list)\<rparr>\<rparr>"
    unfolding CandidateWithNonce_def Let_def rbind_Ok_iff childHeight_def by fastforce
  from candidate_steps [OF run(2) candidate_start] obtain added where
    "list = marker_txn k n # added" "fold_res (add_v2txn c) added (NewMidState s) = Ok ms"
    "208 + sum_list (map V2TransactionWeight added) \<le> MaxBlockWeight" "208 \<le> 208 + sum_list (map V2TransactionWeight added)"
    "cval payout = cval reward + sum_list (map (\<lambda>txn. cval (v2_MinerFee txn)) added)"
    unfolding candidate_ok_def by blast
  then show thesis using that [OF run(1)] run(3) by (simp add: candidate_txns_def split: if_splits)
qed

lemma candidate_weight:
  assumes "208 + w \<le> MaxBlockWeight" "208 \<le> 208 + w" "w = sum_list (map V2TransactionWeight added)"
  shows "sum_list (map V2TransactionWeight (candidate_txns s k n added)) \<le> MaxBlockWeight"
proof -
  have "unat (208 + w) = 208 + unat w" using assms(2) no_olen_add_nat [of 208 w] unat_add_lem [of 208 w] by simp
  then have "unat w \<le> 2000000 - 208" using assms(1) by (simp add: MaxBlockWeight_def word_le_nat_alt)
  then show ?thesis
    by (simp add: candidate_txns_def marker_weights assms(3) [symmetric] MaxBlockWeight_def word_le_nat_alt unat_word_ariths(1))
qed

section \<open>The search for a nonce\<close>

lemma mine_worker_Some:
  "mine_worker c target stride n bh = Some nonce \<Longrightarrow>
    0 \<le> BlockID_CmpWork (BlockHeader_ID c (bh\<lparr>bh_Nonce := nonce\<rparr>)) target \<and>
    (\<exists>i < n. nonce = bh_Nonce bh + word_of_nat i * stride)"
proof (induction n arbitrary: bh)
  case (Suc n)
  show ?case
  proof (cases "0 \<le> BlockID_CmpWork (BlockHeader_ID c bh) target")
    case True
    then have "nonce = bh_Nonce bh" using Suc.prems by simp
    then show ?thesis using True by (auto intro: exI [of _ 0])
  next
    case False
    with Suc obtain i where "0 \<le> BlockID_CmpWork (BlockHeader_ID c (bh\<lparr>bh_Nonce := nonce\<rparr>)) target" "i < n"
      "nonce = bh_Nonce bh + stride + word_of_nat i * stride" by fastforce
    then show ?thesis by (auto intro!: exI [of _ "Suc i"] simp: algebra_simps)
  qed
qed simp

lemma mine_worker_None:
  "mine_worker c target stride n bh = None \<longleftrightarrow>
    (\<forall>i < n. BlockID_CmpWork (BlockHeader_ID c (bh\<lparr>bh_Nonce := bh_Nonce bh + word_of_nat i * stride\<rparr>)) target < 0)"
proof (induction n arbitrary: bh)
  case (Suc n)
  have "(\<forall>i < Suc n. P i) \<longleftrightarrow> P 0 \<and> (\<forall>i < n. P (Suc i))" for P using less_Suc_eq_0_disj by auto
  then show ?case using Suc.IH [of "bh\<lparr>bh_Nonce := bh_Nonce bh + stride\<rparr>"] by (auto simp: algebra_simps)
qed simp

lemma Mine_Ok:
  assumes "Mine c rounds order s b threads = Ok b'"
  obtains target nonce where "PoWTarget s = Ok target" "b' = b\<lparr>blk_Nonce := nonce\<rparr>"
    "0 \<le> BlockID_CmpWork (Block_ID c b') target"
proof -
  let ?found = "\<lambda>target. List.map_filter (\<lambda>worker. mine_worker c target (word_of_int threads * NonceFactor s) (rounds worker)
     ((Block_Header c b)\<lparr>bh_Nonce := word_of_nat worker * NonceFactor s\<rparr>)) order"
  obtain target where target: "PoWTarget s = Ok target"
      "(case ?found target of [] \<Rightarrow> Err ''context canceled'' | nonce # _ \<Rightarrow> Ok (b\<lparr>blk_Nonce := nonce\<rparr>)) = Ok b'"
    using assms unfolding Mine_def Let_def by (auto simp: rbind_Ok_iff split: if_splits)
  then obtain nonce rest where found: "?found target = nonce # rest" and b': "b' = b\<lparr>blk_Nonce := nonce\<rparr>"
    by (cases "?found target") simp_all
  have "nonce \<in> set (?found target)" using found by simp
  then obtain worker where "mine_worker c target (word_of_int threads * NonceFactor s) (rounds worker)
      ((Block_Header c b)\<lparr>bh_Nonce := word_of_nat worker * NonceFactor s\<rparr>) = Some nonce"
    by (auto simp: List.map_filter_def)
  from mine_worker_Some [OF this] have "0 \<le> BlockID_CmpWork (BlockHeader_ID c ((Block_Header c b)\<lparr>bh_Nonce := nonce\<rparr>)) target"
    by simp
  moreover have "(Block_Header c b)\<lparr>bh_Nonce := nonce\<rparr> = Block_Header c b'" by (simp add: Block_Header_def b' split: option.split)
  ultimately show thesis using that target(1) b' by (simp add: Block_ID_def)
qed

lemma candidate_markers:
  assumes "QdayKeys_Validate k = Ok ()" "blk_V2 b = Some v2" "bd_Transactions v2 = candidate_txns s k n added"
    "blk_Transactions b = []" "blk_MinerPayouts b = [mp]" "sco_Address mp = QdayKeys_Address c k"
  shows "validateQdayBlockMarkers c s b = Ok ()"
  using assms by (simp add: validateQdayBlockMarkers_def candidate_txns_def marker_envelopes marker_fields IsZero_iff)

lemma candidate_payouts:
  assumes "BlockReward s = Ok reward" "blk_V2 b = Some v2" "bd_Transactions v2 = candidate_txns s k n added"
    "blk_Transactions b = []" "blk_MinerPayouts b = [mp]" "n_Qday (s_Network s) \<noteq> None"
    "cval (sco_Value mp) = cval reward + sum_list (map (\<lambda>txn. cval (v2_MinerFee txn)) added)"
  shows "validateMinerPayouts s b = Ok ()"
proof -
  have "fold_res (\<lambda>txn. add_fee m (v2_MinerFee txn)) (candidate_txns s k n added) reward = Ok (sco_Value mp)" for m
    by (rule fold_fees_Ok) (simp add: assms(7) candidate_txns_def marker_fields)
  moreover have "add_fee m (sco_Value mp) ZeroCurrency = Ok (sco_Value mp)" for m by (simp add: add_fee_Ok)
  ultimately show ?thesis using assms by (simp add: validateMinerPayouts_def)
qed

section \<open>Mined candidates\<close>

lemma mined_block_validates:
  assumes "qday_state s p" "QdayKeys_Validate miner = Ok ()" "NonceFactor s = 1"
    and "medianTimestamp s = Ok mt" "mt \<le> truncate_second timestamp"
    and "CandidateWithNonce c s miner txns timestamp markerNonce = Ok b" "Mine c rounds order s b threads = Ok b'"
  shows "ValidateBlock c s b' empty_supplement = Ok ()"
proof -
  have net: "n_Qday (s_Network s) \<noteq> None" "0 < childHeight s" "n_V2_RequireHeight (s_Network s) \<le> childHeight s"
    using assms(1) by (auto simp: qday_state_def)
  from candidate_fields [OF assms(6)] obtain reward payout added ms where cand: "BlockReward s = Ok reward"
    "fold_res (add_v2txn c) added (NewMidState s) = Ok ms"
    "208 + sum_list (map V2TransactionWeight added) \<le> MaxBlockWeight" "208 \<le> 208 + sum_list (map V2TransactionWeight added)"
    "cval payout = cval reward + sum_list (map (\<lambda>txn. cval (v2_MinerFee txn)) added)"
    "b = \<lparr>blk_ParentID = ci_ID (s_Index s), blk_Nonce = 0, blk_Timestamp = truncate_second timestamp,
       blk_MinerPayouts = [\<lparr>sco_Value = payout, sco_Address = QdayKeys_Address c miner\<rparr>], blk_Transactions = [],
       blk_V2 = Some \<lparr>bd_Height = childHeight s,
         bd_Commitment = Commitment c s (QdayKeys_Address c miner) [] (candidate_txns s miner markerNonce added),
         bd_Transactions = candidate_txns s miner markerNonce added\<rparr>\<rparr>" .
  from Mine_Ok [OF assms(7)] obtain target nonce where mined: "PoWTarget s = Ok target" "b' = b\<lparr>blk_Nonce := nonce\<rparr>"
    "0 \<le> BlockID_CmpWork (Block_ID c b') target" .
  have hdr: "ValidateHeader c s (Block_Header c b') = Ok ()"
    using mined assms(3-5) unfolding Block_ID_def by (simp add: ValidateHeader_def mined(2) cand(6) Block_Header_def)
  have "validateQdayBlockMarkers c s b' = Ok ()" "validateMinerPayouts s b' = Ok ()"
    using candidate_markers [OF assms(2)] candidate_payouts [OF cand(1)] cand(5) net(1) by (simp_all add: mined(2) cand(6))
  moreover have "ValidateOrphan c s b' = Ok ()"
    using hdr calculation(2) candidate_weight [OF cand(3,4) refl, of s miner markerNonce]
    by (simp add: ValidateOrphan_def mined(2) cand(6) Block_V2Transactions_def childHeight_def)
  moreover have "validateSupplement c s b' empty_supplement = Ok ()"
    by (simp add: validateSupplement_def empty_supplement_def mined(2) cand(6))
  ultimately show ?thesis
    using check_candidate [OF cand(2) assms(2) net(1), of markerNonce] net
    by (simp add: ValidateBlock_def mined(2) cand(6) enum_res_def index_res_def Block_V2Transactions_def)
qed

text \<open>C13: A block that \<^verbatim>\<open>CandidateWithNonce\<close> builds from any list of transactions and for which \<^verbatim>\<open>Mine\<close> finds a
  nonce passes \<^verbatim>\<open>ValidateBlock\<close>, if the keys of the miner are valid, the nonce factor is one and the time is not before
  the median of the previous ones: the markers, the
  weight, the payout with all fees, the commitment, the work and every transaction that was kept are right.\<close>

theorem mined_candidates_validate:
  assumes "qday_state s p" "QdayKeys_Validate miner = Ok ()" "NonceFactor s = 1"
    and "medianTimestamp s = Ok mt" "mt \<le> truncate_second timestamp"
    and "CandidateWithNonce c s miner txns timestamp markerNonce = Ok b" "Mine c rounds order s b threads = Ok b'"
  shows "ValidateBlock c s b' empty_supplement = Ok ()"
  by (rule mined_block_validates [OF assms])

lemma sample_candidate:
  obtains b where "CandidateWithNonce sc sample_parent sample_pair [canary_proof] 0 7 = Ok b" "blk_MinerPayouts b = [sample_payout]"
proof -
  let ?ms = "NewMidState sample_parent"
  have base: "ms_base ?ms = sample_parent" "dom (ms_spends ?ms) = {}" "\<not> ms_qdayProved ?ms" by (simp_all add: NewMidState_def)
  have "n_Qday (s_Network (ms_base ?ms)) \<noteq> None" by (simp add: base)
  from apply_transfer [OF wf_NewMidState supported(2) this, of sc] obtain ms where ms: "ApplyV2Transaction sc canary_proof ?ms = Ok ms" .
  have reward: "BlockReward sample_parent = Ok (NewCurrency 16030113641655173120 433680)"
    by (simp add: BlockReward_def sample_params_def)
  have "Currency_Add (NewCurrency 16030113641655173120 433680) (v2_MinerFee canary_proof) = Ok (sco_Value sample_payout)"
    by (simp add: cur.add_iff canary_proof_fields sample_payout_def)
  then have "candidate_step sc canary_proof (?ms, 208, [marker_txn sample_pair 7], NewCurrency 16030113641655173120 433680)
      = Ok (ms, 8430, [marker_txn sample_pair 7, canary_proof], sco_Value sample_payout)"
    using canary_proof_valid [OF base] ms by (simp add: candidate_step_def weights MaxBlockWeight_def)
  then show thesis using that
    by (simp add: CandidateWithNonce_def reward marker_weights Let_def sample_payout_def)
qed

lemma sample_search:
  obtains b' where "Mine sc (\<lambda>_. 1) [0] sample_parent b 1 = Ok b'" "blk_MinerPayouts b' = blk_MinerPayouts b"
proof -
  have "PoWTarget sample_parent = Ok (- 1)" by (simp add: PoWTarget_def invTarget_eq)
  then show thesis using that by (simp add: Mine_def Let_def List.map_filter_def BlockID_CmpWork_def)
qed

theorem mined_candidates_validate_witness:
  "\<exists>b b'. CandidateWithNonce sc sample_parent sample_pair [canary_proof] 0 7 = Ok b \<and> Mine sc (\<lambda>_. 1) [0] sample_parent b 1 = Ok b' \<and>
     blk_MinerPayouts b' = [sample_payout] \<and> ValidateBlock sc sample_parent b' empty_supplement = Ok ()"
proof -
  obtain b where b: "CandidateWithNonce sc sample_parent sample_pair [canary_proof] 0 7 = Ok b" "blk_MinerPayouts b = [sample_payout]"
    using sample_candidate .
  obtain b' where b': "Mine sc (\<lambda>_. 1) [0] sample_parent b 1 = Ok b'" "blk_MinerPayouts b' = blk_MinerPayouts b"
    using sample_search .
  have "medianTimestamp sample_parent = Ok 0" "NonceFactor sample_parent = 1" "QdayKeys_Validate sample_pair = Ok ()"
    by (simp_all add: sample_keys_def QdayKeys_Validate_def)
  from mined_candidates_validate [OF sample_qday_state this(3,2,1) _ b(1) b'(1)] b b' show ?thesis
    by (simp add: truncate_second_def)
qed

text \<open>The nonces of the workers, numbered by the round and the worker.\<close>

lemma worker_nonce:
  assumes "0 \<le> threads"
  shows "word_of_nat worker * f + word_of_nat i * (word_of_int threads * f) = (word_of_nat (worker + i * nat threads) * f :: u64)"
  using assms by (simp add: algebra_simps of_nat_nat)

lemma nonce_header: "(Block_Header c b)\<lparr>bh_Nonce := nonce\<rparr> = Block_Header c (b\<lparr>blk_Nonce := nonce\<rparr>)"
  by (simp add: Block_Header_def split: option.split)

lemma worker_index: "(\<exists>worker < t. \<exists>i < n. j = worker + i * t) \<longleftrightarrow> j < t * (n :: nat)"
proof
  assume "j < t * n"
  moreover from this have "0 < t" by (cases t) simp_all
  ultimately have "j mod t < t" "j div t < n" "j = j mod t + j div t * t"
    by (simp_all add: less_mult_imp_div_less mult.commute)
  then show "\<exists>worker < t. \<exists>i < n. j = worker + i * t" by blast
next
  assume "\<exists>worker < t. \<exists>i < n. j = worker + i * t"
  then obtain worker i where j: "j = worker + i * t" "worker < t" "i < n" by blast
  then have "j < (i + 1) * t" by simp
  also have "\<dots> \<le> t * n" using j(3) by (metis Suc_eq_plus1 Suc_leI mult.commute mult_le_mono1)
  finally show "j < t * n" .
qed

text \<open>C20: The threads of \<^verbatim>\<open>Mine\<close> share the nonces without leaving one out: when each of them has computed \<open>n\<close>
  hashes, in whatever order, the search has failed exactly if no multiple of the nonce factor below the
  number of threads times \<open>n\<close> meets the target, and a nonce that it returns is one that does.\<close>

theorem Mine_leaves_no_nonce_out:
  assumes "PoWTarget s = Ok target" "1 \<le> threads" "threads \<le> 256" "set order = {..<nat threads}"
  shows "case Mine c (\<lambda>_. n) order s b threads of
      Ok b' \<Rightarrow> 0 \<le> BlockID_CmpWork (Block_ID c b') target \<and>
        (\<exists>i < nat threads * n. b' = b\<lparr>blk_Nonce := word_of_nat i * NonceFactor s\<rparr>)
    | Err e \<Rightarrow> \<forall>i < nat threads * n. BlockID_CmpWork (Block_ID c (b\<lparr>blk_Nonce := word_of_nat i * NonceFactor s\<rparr>)) target < 0
    | Panic _ \<Rightarrow> False"
proof -
  let ?f = "NonceFactor s" and ?t = "nat threads"
  let ?work = "\<lambda>j. BlockID_CmpWork (Block_ID c (b\<lparr>blk_Nonce := word_of_nat j * ?f\<rparr>)) target"
  let ?run = "\<lambda>worker. mine_worker c target (word_of_int threads * ?f) n ((Block_Header c b)\<lparr>bh_Nonce := word_of_nat worker * ?f\<rparr>)"
  have nonce: "word_of_nat worker * ?f + word_of_nat i * (word_of_int threads * ?f) = word_of_nat (worker + i * ?t) * ?f" for worker i
    using assms(2) by (intro worker_nonce) simp
  have none: "?run worker = None \<longleftrightarrow> (\<forall>i < n. ?work (worker + i * ?t) < 0)" for worker
    unfolding mine_worker_None Block_ID_def nonce_header [symmetric] by (simp add: nonce del: of_nat_add of_nat_mult)
  show ?thesis
  proof (cases "List.map_filter ?run order")
    case Nil
    then have "\<forall>worker < ?t. ?run worker = None" using assms(4) by (auto simp: List.map_filter_def filter_empty_conv)
    then have "\<forall>j < ?t * n. ?work j < 0" unfolding none worker_index [symmetric] by blast
    then show ?thesis using assms(1-3) Nil by (simp add: Mine_def Let_def)
  next
    case (Cons nonce rest)
    then have "nonce \<in> set (List.map_filter ?run order)" by simp
    then obtain worker where w: "?run worker = Some nonce" "worker < ?t" using assms(4) by (auto simp: List.map_filter_def)
    from mine_worker_Some [OF w(1)] obtain i where "i < n" "nonce = word_of_nat (worker + i * ?t) * ?f"
      "0 \<le> BlockID_CmpWork (Block_ID c (b\<lparr>blk_Nonce := nonce\<rparr>)) target"
      unfolding Block_ID_def nonce_header [symmetric] by (auto simp: nonce simp del: of_nat_add of_nat_mult)
    moreover have "worker + i * ?t < ?t * n" using w(2) \<open>i < n\<close> worker_index by blast
    ultimately show ?thesis using assms(1-3) Cons by (auto simp: Mine_def Let_def)
  qed
qed

theorem Mine_leaves_no_nonce_out_witness:
  "0 \<le> BlockID_CmpWork (Block_ID sc sample_block) (-1) \<and>
   (case Mine sc (\<lambda>_. 2) [1, 0] sample_parent sample_block 2 of
      Ok b' \<Rightarrow> 0 \<le> BlockID_CmpWork (Block_ID sc b') (-1) | Err e \<Rightarrow> False | Panic _ \<Rightarrow> False)"
proof -
  have pow: "PoWTarget sample_parent = Ok (- 1)" by (simp add: PoWTarget_def invTarget_eq)
  have "\<exists>b'. Mine sc (\<lambda>_. 2) [1, 0] sample_parent sample_block 2 = Ok b'"
    by (simp add: Mine_def Let_def List.map_filter_def pow BlockID_CmpWork_def numeral_2_eq_2)
  then obtain b' where b': "Mine sc (\<lambda>_. 2) [1, 0] sample_parent sample_block 2 = Ok b'" by blast
  have "set [1, 0] = {..<nat 2}" by auto
  from Mine_leaves_no_nonce_out [OF pow _ _ this, of sc 2 sample_block] b' show ?thesis by (simp add: BlockID_CmpWork_def)
qed

end
