(* ===== verification/SignedTransfers.thy ===== *)
theory SignedTransfers
  imports MinerProperties
begin

text \<open>
  Transfers that are signed by \<^verbatim>\<open>SignTransfer\<close>: what it changes, and that \<^verbatim>\<open>ValidateV2Transaction\<close> accepts a
  well-formed transfer of coins of the accumulator once it is signed.
\<close>

section \<open>Work and signatures\<close>

lemma defend_search_Some: "defend_search c intent bits n nonce = Some nonce' \<Longrightarrow> QdayWorkValid c intent nonce' bits"
  by (induction n arbitrary: nonce) (auto split: if_splits)

text \<open>The transaction with another nonce of its envelope and another witness on every input.\<close>

definition resign :: "QdayEnvelope \<Rightarrow> u64 \<Rightarrow> SatisfiedPolicy \<Rightarrow> V2Transaction \<Rightarrow> V2Transaction" where
  "resign e nonce w txn = txn\<lparr>v2_ArbitraryData := QdayEnvelope_Encode (e\<lparr>env_Nonce := nonce\<rparr>),
     v2_SiacoinInputs := map (\<lambda>i. i\<lparr>v2sci_SatisfiedPolicy := w\<rparr>) (v2_SiacoinInputs txn)\<rparr>"

lemma resign_fields [simp]:
  "v2_SiacoinOutputs (resign e nonce w txn) = v2_SiacoinOutputs txn" "v2_MinerFee (resign e nonce w txn) = v2_MinerFee txn"
  "v2_SiacoinInputs (resign e nonce w txn) = map (\<lambda>i. i\<lparr>v2sci_SatisfiedPolicy := w\<rparr>) (v2_SiacoinInputs txn)"
  "qdayUnsupported (resign e nonce w txn) = qdayUnsupported txn" "input_ids (resign e nonce w txn) = input_ids txn"
  by (simp_all add: resign_def qdayUnsupported_def input_ids_def comp_def)

lemma coin_value_witness [simp]: "coin_value s h \<circ> (\<lambda>i. i\<lparr>v2sci_SatisfiedPolicy := w\<rparr>) = coin_value s h"
  by (simp add: coin_value_def fun_eq_iff)

lemma InputSigHash_witness:
  "InputSigHash c s (txn\<lparr>v2_SiacoinInputs := map (\<lambda>i. i\<lparr>v2sci_SatisfiedPolicy := w\<rparr>) (v2_SiacoinInputs txn)\<rparr>) = InputSigHash c s txn"
proof -
  have "V2TransactionSemantics_EncodeTo (txn\<lparr>v2_SiacoinInputs := map (\<lambda>i. i\<lparr>v2sci_SatisfiedPolicy := w\<rparr>) (v2_SiacoinInputs txn)\<rparr>)
      = V2TransactionSemantics_EncodeTo txn"
    by (simp add: V2TransactionSemantics_EncodeTo_def EncodeSlice_def comp_def)
  then show ?thesis by (simp add: InputSigHash_def split: option.split)
qed

lemma SignTransfer_Ok:
  assumes "SignTransfer c rounds cancelled s txn k = Ok txn'"
  obtains e nonce w where "ParseQdayEnvelope (v2_ArbitraryData txn) = Ok e" "txn' = resign e nonce w txn"
    "ParseQdayEnvelope (v2_ArbitraryData txn') = Ok (e\<lparr>env_Nonce := nonce\<rparr>)"
    "QdayPrivateKeys_Sign c k (InputSigHash c s txn') = Ok w"
    "QdayActive s (childHeight s) \<Longrightarrow> \<exists>p intent. n_Qday (s_Network s) = Some p \<and> QdayWorkIntent c s txn' = Ok intent \<and>
       QdayWorkValid c intent nonce (qd_DefendBits p)"
proof -
  from assms obtain txn1 w where run: "PrepareTransactionWork c rounds s txn = Ok txn1"
      "QdayPrivateKeys_Sign c k (InputSigHash c s txn1) = Ok w"
      "txn' = txn1\<lparr>v2_SiacoinInputs := map (\<lambda>i. i\<lparr>v2sci_SatisfiedPolicy := w\<rparr>) (v2_SiacoinInputs txn1)\<rparr>"
    by (auto simp: SignTransfer_def res_simps split: if_splits)
  from run(1) obtain e where e: "ParseQdayEnvelope (v2_ArbitraryData txn) = Ok e"
    by (auto simp: PrepareTransactionWork_def res_simps)
  note wf = Encode_Parse [OF e]
  have sig: "InputSigHash c s txn' = InputSigHash c s txn1" unfolding run(3) by (rule InputSigHash_witness)
  obtain nonce where nonce: "txn1 = txn\<lparr>v2_ArbitraryData := QdayEnvelope_Encode (e\<lparr>env_Nonce := nonce\<rparr>)\<rparr>"
    "QdayActive s (childHeight s) \<Longrightarrow> \<exists>p intent. n_Qday (s_Network s) = Some p \<and> QdayWorkIntent c s txn = Ok intent \<and>
       QdayWorkValid c intent nonce (qd_DefendBits p)"
  proof (cases "QdayActive s (childHeight s)")
    case True
    then obtain p where p: "n_Qday (s_Network s) = Some p" by (auto simp: QdayActive_def)
    from run(1) [unfolded PrepareTransactionWork_def e rbind.simps p option.case] True obtain intent where
      intent: "QdayWorkIntent c s txn = Ok intent"
      "(case defend_search c intent (qd_DefendBits p) rounds (env_Nonce e) of None \<Rightarrow> Err ''context canceled''
        | Some nonce \<Rightarrow> Ok (txn\<lparr>v2_ArbitraryData := QdayEnvelope_Encode (e\<lparr>env_Nonce := nonce\<rparr>)\<rparr>)) = Ok txn1"
      by (auto simp: childHeight_def rbind_Ok_iff)
    then show thesis using that p
      by (cases "defend_search c intent (qd_DefendBits p) rounds (env_Nonce e)") (auto dest: defend_search_Some)
  next
    case False
    then show thesis using run(1) e that [of "env_Nonce e"] wf by (simp add: PrepareTransactionWork_def childHeight_def)
  qed
  have txn': "txn' = resign e nonce w txn" by (simp add: run(3) nonce(1) resign_def)
  moreover have "QdayWorkIntent c s txn' = QdayWorkIntent c s txn" unfolding txn' resign_def by (rule intent_invariant [OF e])
  moreover have "wf_envelope (e\<lparr>env_Nonce := nonce\<rparr>)" using wf by (simp add: wf_envelope_def)
  then have "ParseQdayEnvelope (v2_ArbitraryData txn') = Ok (e\<lparr>env_Nonce := nonce\<rparr>)"
    using Parse_Encode by (simp add: txn' resign_def)
  ultimately show thesis using that [OF e] run(2) nonce(2) sig by simp
qed

lemma signed_native:
  assumes "QdayPrivateKeys_Sign c k h = Ok w"
    and ed: "\<And>m. ed25519_Verify c (qk_Classical (qp_Public k)) m (ed25519_Sign c (qp_Classical k) m)"
    and slh: "\<And>m sig ctx. slhdsa_SignDeterministic c (qp_Reserve k) m ctx = Some sig \<Longrightarrow>
        slhdsa_Verify c (qk_Reserve (qp_Public k)) m sig ctx"
  shows "sat_Policy w = QdayKeys_Policy (qp_Public k)"
    "Policy_Verify c (sat_Policy w) height mt h (sat_Signatures w) (sat_Preimages w) = Ok ()"
proof -
  obtain sig where sig: "slhdsa_SignDeterministic c (qp_Reserve k) (hash_bytes h) qdaySignatureContext = Some sig"
      "length sig = QdaySignatureSize"
      "w = \<lparr>sat_Policy = QdayKeys_Policy (qp_Public k), sat_Signatures = [PrivateKey_SignHash c (qp_Classical k) h],
         sat_Preimages = map (chunk sig) [0..<QdaySignatureChunks]\<rparr>"
    using assms(1) by (auto simp: QdayPrivateKeys_Sign_def split: option.splits if_splits)
  show "sat_Policy w = QdayKeys_Policy (qp_Public k)" by (simp add: sig(3))
  show "Policy_Verify c (sat_Policy w) height mt h (sat_Signatures w) (sat_Preimages w) = Ok ()"
    using ed slh [OF sig(1)] verifyQdayReserve_chunks [OF sig(2)]
    by (simp add: sig(3) Policy_Verify_native hybrid_signed_def PublicKey_VerifyHash_def PrivateKey_SignHash_def)
qed

section \<open>Sums\<close>

lemma input_sum_Ok:
  assumes "\<forall>i \<in> set ins. \<exists>v. QdayValue s (v2sci_Parent i) h = Ok v" "cval z + sum_list (map (coin_value s h) ins) < 2 ^ 128"
  shows "\<exists>t. fold_res (\<lambda>sci tot. rbind (QdayValue s (v2sci_Parent sci) h) (\<lambda>v. Currency_Add tot v)) ins z = Ok t \<and>
    cval t = cval z + sum_list (map (coin_value s h) ins)"
  using assms
proof (induction ins arbitrary: z)
  case (Cons i ins)
  then obtain v where v: "QdayValue s (v2sci_Parent i) h = Ok v" "coin_value s h i = cval v" by (auto simp: coin_value_def)
  then obtain r where r: "Currency_Add z v = Ok r" "cval r = cval z + cval v" using cur.add_total [of z v] Cons.prems(2) by auto
  then show ?case using Cons.IH [of r] Cons.prems v by (simp add: add.assoc)
qed simp

lemma output_sum_Ok:
  assumes "\<forall>sco \<in> set outs. 0 < cval (sco_Value sco)" "cval z + sum_list (map (\<lambda>sco. cval (sco_Value sco)) outs) < 2 ^ 128"
  shows "\<exists>t. fold_res (\<lambda>out tot. if Currency_IsZero (sco_Value out) then Err msg else Currency_Add tot (sco_Value out)) outs z = Ok t \<and>
    cval t = cval z + sum_list (map (\<lambda>sco. cval (sco_Value sco)) outs) \<and> add_outputs outs (z, False) = (t, False)"
  using assms
proof (induction outs arbitrary: z)
  case (Cons out outs)
  then obtain r where r: "Currency_Add z (sco_Value out) = Ok r" "cval r = cval z + cval (sco_Value out)"
    using cur.add_total [of z "sco_Value out"] by auto
  moreover have "\<not> Currency_IsZero (sco_Value out)" using Cons.prems(1) by (simp add: IsZero_iff)
  ultimately show ?case using Cons.IH [of r] Cons.prems Add_no_overflow [OF r(1)]
    by (simp add: add.assoc add_outputs_def add_checked_def)
qed (simp add: add_outputs_def)

lemma check_inputs_Ok:
  assumes "distinct (map (\<lambda>i. sce_ID (v2sci_Parent i)) ins)"
    "(\<lambda>i. sce_ID (v2sci_Parent i)) ` set ins \<inter> (spent \<union> dom (ms_spends ms)) = {}"
    "\<forall>i \<in> set ins. sce_MaturityHeight (v2sci_Parent i) \<le> childHeight (ms_base ms) \<and>
       se_LeafIndex (sce_StateElement (v2sci_Parent i)) \<noteq> UnassignedLeafIndex \<and>
       containsUnspentSiacoinElement c (s_Elements (ms_base ms)) (v2sci_Parent i) \<and>
       validateV2SpendPolicy c ms h (v2sci_SatisfiedPolicy i) (sco_Address (sce_SiacoinOutput (v2sci_Parent i))) = Ok ()"
  shows "\<exists>spent'. fold_res (check_siacoin_input c ms h) ins spent = Ok spent'"
  using assms
proof (induction ins arbitrary: spent)
  case (Cons i ins)
  have "check_siacoin_input c ms h i spent = Ok (insert (sce_ID (v2sci_Parent i)) spent)"
    using Cons.prems by (auto simp: check_siacoin_input_def Let_def isSpent_def not_less)
  moreover have "\<exists>spent'. fold_res (check_siacoin_input c ms h) ins (insert (sce_ID (v2sci_Parent i)) spent) = Ok spent'"
    using Cons.prems by (intro Cons.IH) auto
  ultimately show ?case by simp
qed simp

section \<open>Signed transfers\<close>

text \<open>A transfer of mature, unspent coins of one key pair that are in the accumulator, whose value covers the outputs and the fee.\<close>

definition plain_transfer :: "crypto \<Rightarrow> MidState \<Rightarrow> QdayKeys \<Rightarrow> V2Transaction \<Rightarrow> bool" where
  "plain_transfer c ms k txn \<longleftrightarrow> \<not> qdayUnsupported txn \<and>
     (case ParseQdayEnvelope (v2_ArbitraryData txn) of Ok e \<Rightarrow> env_Kind e = QdayTransfer \<and> env_Keys e = [] | _ \<Rightarrow> False) \<and>
     v2_SiacoinInputs txn \<noteq> [] \<and> length (v2_SiacoinInputs txn) \<le> 128 \<and>
     v2_SiacoinOutputs txn \<noteq> [] \<and> length (v2_SiacoinOutputs txn) \<le> 128 \<and>
     distinct (input_ids txn) \<and> set (input_ids txn) \<inter> dom (ms_spends ms) = {} \<and>
     list_all (\<lambda>i. sco_Address (sce_SiacoinOutput (v2sci_Parent i)) = QdayKeys_Address c k \<and>
       se_LeafIndex (sce_StateElement (v2sci_Parent i)) \<noteq> UnassignedLeafIndex \<and>
       sce_MaturityHeight (v2sci_Parent i) \<le> childHeight (ms_base ms) \<and>
       containsUnspentSiacoinElement c (s_Elements (ms_base ms)) (v2sci_Parent i)) (v2_SiacoinInputs txn) \<and>
     list_all (\<lambda>sco. 0 < cval (sco_Value sco)) (v2_SiacoinOutputs txn) \<and>
     (let worth = sum_list (map (coin_value (ms_base ms) (childHeight (ms_base ms))) (v2_SiacoinInputs txn))
      in outputs_value txn + cval (v2_MinerFee txn) \<le> worth \<and> worth < 2 ^ 128)"

lemma transfer_siacoins_Ok:
  assumes plain: "plain_transfer c ms k txn" and p: "n_Qday (s_Network (ms_base ms)) = Some p" and valid: "QdayParams_Validate c p = Ok ()"
    and witness: "\<forall>i \<in> set (v2_SiacoinInputs txn). validateV2SpendPolicy c ms (InputSigHash c (ms_base ms) txn)
      (v2sci_SatisfiedPolicy i) (sco_Address (sce_SiacoinOutput (v2sci_Parent i))) = Ok ()"
  shows "validateV2Siacoins c ms txn = Ok ()" "validateV2CurrencyOverflow txn = Ok ()"
proof -
  let ?h = "InputSigHash c (ms_base ms) txn" and ?s = "ms_base ms"
  note plain' = plain [unfolded plain_transfer_def Let_def list_all_iff]
  have unsup: "\<not> qdayUnsupported txn" using plain' by simp
  obtain spent where spent: "fold_res (check_siacoin_input c ms ?h) (v2_SiacoinInputs txn) {} = Ok spent"
    using check_inputs_Ok [of "v2_SiacoinInputs txn" "{}" ms c ?h] plain' witness by (auto simp: input_ids_def)
  have "\<forall>i \<in> set (v2_SiacoinInputs txn). \<exists>v. QdayValue ?s (v2sci_Parent i) (childHeight ?s) = Ok v"
    using QdayValue_remaining [OF p valid] by blast
  from input_sum_Ok [OF this, of ZeroCurrency] obtain t where t: "v2_input_sum ms txn = Ok t"
      "cval t = sum_list (map (coin_value ?s (childHeight ?s)) (v2_SiacoinInputs txn))"
    using plain' by (auto simp: v2_input_sum_def)
  have small: "outputs_value txn + cval (v2_MinerFee txn) < 2 ^ 128" using plain' by linarith
  then obtain u where u: "v2_output_sum txn = Ok u" "cval u = outputs_value txn"
      "add_outputs (v2_SiacoinOutputs txn) (ZeroCurrency, False) = (u, False)"
    using output_sum_Ok [of "v2_SiacoinOutputs txn" ZeroCurrency "''siacoin output has zero value''"] plain' by (auto simp: v2_output_sum_def outputs_value_def)
  obtain r where r: "Currency_Add u (v2_MinerFee txn) = Ok r" "cval r = outputs_value txn + cval (v2_MinerFee txn)"
    using cur.add_total [of u "v2_MinerFee txn"] u(2) small by auto
  have "\<not> Currency_Cmp t r < 0" using plain' t(2) r(2) by (auto simp: Cmp_simps)
  then show "validateV2Siacoins c ms txn = Ok ()"
    using spent t(1) u(1) r(1) p by (simp add: validateV2Siacoins_def Let_def supported_fields [OF unsup])
  show "validateV2CurrencyOverflow txn = Ok ()"
    using u(3) Add_no_overflow [OF r(1)]
    by (simp add: validateV2CurrencyOverflow_def supported_fields [OF unsup] add_checked_def)
qed

text \<open>The checks of \<^verbatim>\<open>ValidateV2Transaction\<close> on a signed transfer, one by one.\<close>

lemma signed_transfer_valid:
  assumes "qday_state (ms_base ms) p" "QdayParams_Validate c p = Ok ()" "medianTimestamp (ms_base ms) = Ok mt"
    "n_V2_AllowHeight (s_Network (ms_base ms)) \<le> childHeight (ms_base ms)" "plain_transfer c ms (qp_Public k) txn"
    and ed: "\<And>m. ed25519_Verify c (qk_Classical (qp_Public k)) m (ed25519_Sign c (qp_Classical k) m)"
    and slh: "\<And>m sig ctx. slhdsa_SignDeterministic c (qp_Reserve k) m ctx = Some sig \<Longrightarrow>
        slhdsa_Verify c (qk_Reserve (qp_Public k)) m sig ctx"
    and "SignTransfer c rounds cancelled (ms_base ms) txn k = Ok txn'"
    and "V2TransactionWeight txn' \<noteq> 0" "V2TransactionWeight txn' \<le> MaxBlockWeight"
  shows "ValidateV2Transaction c ms txn' = Ok ()"
proof -
  let ?s = "ms_base ms"
  have p: "n_Qday (s_Network ?s) = Some p" using assms(1) by (simp add: qday_state_def)
  from SignTransfer_Ok [OF assms(8)] obtain e nonce w where e: "ParseQdayEnvelope (v2_ArbitraryData txn) = Ok e"
    and txn': "txn' = resign e nonce w txn" and e': "ParseQdayEnvelope (v2_ArbitraryData txn') = Ok (e\<lparr>env_Nonce := nonce\<rparr>)"
    and sign: "QdayPrivateKeys_Sign c k (InputSigHash c ?s txn') = Ok w"
    and work: "QdayActive ?s (childHeight ?s) \<Longrightarrow> \<exists>p intent. n_Qday (s_Network ?s) = Some p \<and> QdayWorkIntent c ?s txn' = Ok intent \<and>
       QdayWorkValid c intent nonce (qd_DefendBits p)" by blast
  note w = signed_native [OF sign ed slh]
  have kind: "env_Kind e = QdayTransfer" "env_Keys e = []" using assms(5) e by (simp_all add: plain_transfer_def)
  have plain: "plain_transfer c ms (qp_Public k) txn'"
    using assms(5) e e' kind
    by (simp add: plain_transfer_def txn' list_all_iff outputs_value_def)
  have "\<forall>i \<in> set (v2_SiacoinInputs txn'). validateV2SpendPolicy c ms (InputSigHash c ?s txn') (v2sci_SatisfiedPolicy i)
      (sco_Address (sce_SiacoinOutput (v2sci_Parent i))) = Ok ()"
    using assms(3,5) w by (auto simp: txn' validateV2SpendPolicy_def plain_transfer_def list_all_iff QdayKeys_Address_def)
  note coins = transfer_siacoins_Ok [OF plain p assms(2) this]
  have "\<forall>i \<in> set (v2_SiacoinInputs txn'). IsQdayNativePolicy (sat_Policy (v2sci_SatisfiedPolicy i))"
    using w(1) by (auto simp: txn' IsQdayNativePolicy_iff)
  then have "validateQdayTransaction c ms txn' = Ok ()"
    using plain kind work p unfolding validateQdayTransaction_def e' rbind.simps Let_def p option.case
    by (auto simp: plain_transfer_def kind_defs list_ex_iff)
  moreover have "\<not> qdayUnsupported txn'" using plain by (simp add: plain_transfer_def)
  ultimately show ?thesis using coins p assms(4,9,10)
    by (simp add: ValidateV2Transaction_def validateV2Siafunds_def validateV2FileContracts_def validateAttestations_def
        validateFoundationUpdate_def supported_fields [of txn'] not_less)
qed

text \<open>C14: A transfer that is signed by \<^verbatim>\<open>SignTransfer\<close> is accepted. For a transfer of mature, unspent coins of
  one key pair whose value covers the outputs and the fee, with signature schemes that accept their own
  signatures, \<^verbatim>\<open>ValidateV2Transaction\<close> accepts what \<^verbatim>\<open>SignTransfer\<close> returns, before and after the activation of the
  decay, as long as its weight fits in a block.\<close>

theorem signed_transfers_are_accepted:
  assumes "qday_state (ms_base ms) p" "QdayParams_Validate c p = Ok ()" "medianTimestamp (ms_base ms) = Ok mt"
    "n_V2_AllowHeight (s_Network (ms_base ms)) \<le> childHeight (ms_base ms)" "plain_transfer c ms (qp_Public k) txn"
    and ed: "\<And>m. ed25519_Verify c (qk_Classical (qp_Public k)) m (ed25519_Sign c (qp_Classical k) m)"
    and slh: "\<And>m sig ctx. slhdsa_SignDeterministic c (qp_Reserve k) m ctx = Some sig \<Longrightarrow>
        slhdsa_Verify c (qk_Reserve (qp_Public k)) m sig ctx"
    and "SignTransfer c rounds cancelled (ms_base ms) txn k = Ok txn'"
    and "V2TransactionWeight txn' \<noteq> 0" "V2TransactionWeight txn' \<le> MaxBlockWeight"
  shows "ValidateV2Transaction c ms txn' = Ok ()"
  by (rule signed_transfer_valid [OF assms])

text \<open>A transfer of the whole sample coin.\<close>

definition coin_transfer :: "SatisfiedPolicy \<Rightarrow> u64 \<Rightarrow> Address \<Rightarrow> V2Transaction" where
  "coin_transfer w nonce a = empty_V2Transaction\<lparr>
     v2_SiacoinInputs := [\<lparr>v2sci_Parent = sample_coin, v2sci_SatisfiedPolicy = w\<rparr>],
     v2_SiacoinOutputs := [\<lparr>sco_Value = NewCurrency 4007528410413793280 108420, sco_Address = a\<rparr>],
     v2_ArbitraryData := QdayEnvelope_Encode \<lparr>env_Kind = QdayTransfer, env_Nonce = nonce, env_Keys = [], env_Witness = 0\<rparr>\<rparr>"

lemma coin_transfer_plain: "plain_transfer sc (NewMidState sample_parent) sample_pair (coin_transfer w nonce a)"
proof -
  have "ParseQdayEnvelope (QdayEnvelope_Encode \<lparr>env_Kind = QdayTransfer, env_Nonce = nonce, env_Keys = [], env_Witness = 0\<rparr>)
      = Ok \<lparr>env_Kind = QdayTransfer, env_Nonce = nonce, env_Keys = [], env_Witness = 0\<rparr>"
    by (rule Parse_Encode) (simp add: wf_envelope_def kind_defs)
  moreover have "sce_MaturityHeight sample_coin = 50" "se_LeafIndex (sce_StateElement sample_coin) = 0"
      "sco_Address (sce_SiacoinOutput sample_coin) = QdayKeys_Address sc sample_pair"
    by (simp_all add: sample_coin_def)
  ultimately show ?thesis
    using sample_contained sample_coin_value
    by (simp add: plain_transfer_def coin_transfer_def empty_V2Transaction_def qdayUnsupported_def input_ids_def
        NewMidState_def UnassignedLeafIndex_def coin_value_def outputs_value_def)
qed

lemma sample_signs:
  obtains w where "QdayPrivateKeys_Sign sc sample_keys h = Ok w" "sat_Policy w = QdayKeys_Policy sample_pair"
    "length (sat_Signatures w) = 1" "length (sat_Preimages w) = QdaySignatureChunks"
proof -
  define sig where "sig = hash_bytes h @ replicate (QdaySignatureSize - 32) 0"
  have "slhdsa_SignDeterministic sc (qp_Reserve sample_keys) (hash_bytes h) qdaySignatureContext = Some sig"
    by (simp add: sample_crypto_def sig_def)
  moreover have "length sig = QdaySignatureSize" by (simp add: sig_def QdaySignatureSize_def)
  ultimately show thesis using that by (simp add: QdayPrivateKeys_Sign_def)
qed

lemma coin_transfer_signed:
  obtains w' where "SignTransfer sc rounds False sample_parent (coin_transfer w nonce a) sample_keys = Ok (coin_transfer w' nonce a)"
    "V2TransactionWeight (coin_transfer w' nonce a) = 8190" "length (V2Transaction_EncodeTo (coin_transfer w' nonce a)) \<le> 10000"
proof -
  let ?txn = "coin_transfer w nonce a"
  obtain w' where w': "QdayPrivateKeys_Sign sc sample_keys (InputSigHash sc sample_parent ?txn) = Ok w'"
      "sat_Policy w' = QdayKeys_Policy sample_pair" "length (sat_Signatures w') = 1" "length (sat_Preimages w') = QdaySignatureChunks"
    by (rule sample_signs)
  have "ParseQdayEnvelope (v2_ArbitraryData ?txn) = Ok \<lparr>env_Kind = QdayTransfer, env_Nonce = nonce, env_Keys = [], env_Witness = 0\<rparr>"
    unfolding coin_transfer_def by (simp add: Parse_Encode wf_envelope_def kind_defs)
  then have "PrepareTransactionWork sc rounds sample_parent ?txn = Ok ?txn" by (simp add: PrepareTransactionWork_def)
  then have "SignTransfer sc rounds False sample_parent ?txn sample_keys = Ok (coin_transfer w' nonce a)"
    using w'(1) by (simp add: SignTransfer_def) (simp add: coin_transfer_def)
  moreover obtain sig where "sat_Signatures w' = [sig]" using w'(3) by (auto simp: length_Suc_conv)
  then have "V2TransactionWeight (coin_transfer w' nonce a) = 8190"
    using w'(2,4)
    by (simp add: V2TransactionWeight_def coin_transfer_def empty_V2Transaction_def weigh_sci_def weigh_defs o_def
      sum_list_triv QdaySignatureChunks_def QdaySignatureSize_def QdayKeys_Policy_def WriteUint64_def WriteUint8_def
      length_concat no_proof_def)
  moreover have "length (V2Transaction_EncodeTo (coin_transfer w' nonce a)) \<le> 10000"
    using w'(2,4) \<open>sat_Signatures w' = [sig]\<close>
    by (simp add: V2Transaction_EncodeTo_def Let_def enc_if_def WriteBytes_def coin_transfer_def empty_V2Transaction_def weigh_defs o_def
      sum_list_triv QdaySignatureChunks_def QdaySignatureSize_def QdayKeys_Policy_def WriteUint64_def WriteUint8_def
      length_concat sample_coin_def)
  ultimately show thesis using that by blast
qed

lemma coin_transfer_valid:
  assumes "SignTransfer sc rounds False sample_parent (coin_transfer w nonce a) sample_keys = Ok (coin_transfer w' nonce a)"
    "V2TransactionWeight (coin_transfer w' nonce a) = 8190"
  shows "ValidateV2Transaction sc (NewMidState sample_parent) (coin_transfer w' nonce a) = Ok ()"
proof (rule signed_transfer_valid [where mt = 0 and p = sample_params and k = sample_keys and txn = "coin_transfer w nonce a"])
  show "QdayParams_Validate sc sample_params = Ok ()" by (rule sample_params_valid)
  show "ed25519_Verify sc (qk_Classical sample_pair) m (ed25519_Sign sc (qp_Classical sample_keys) m)" for m
    by (simp add: sample_crypto_def)
  show "slhdsa_Verify sc (qk_Reserve sample_pair) m sig ctx"
    if "slhdsa_SignDeterministic sc (qp_Reserve sample_keys) m ctx = Some sig" for m sig ctx
    using that by (simp add: sample_crypto_def)
qed (use coin_transfer_plain sample_qday_state assms in \<open>simp_all add: NewMidState_def MaxBlockWeight_def\<close>)

abbreviation sample_transfer :: V2Transaction where
  "sample_transfer \<equiv> coin_transfer \<lparr>sat_Policy = AnyoneCanSpend, sat_Signatures = [], sat_Preimages = []\<rparr> 3 8"

theorem signed_transfers_are_accepted_witness:
  "\<exists>txn'. SignTransfer sc 1 False sample_parent sample_transfer sample_keys = Ok txn' \<and>
     plain_transfer sc (NewMidState sample_parent) sample_pair sample_transfer \<and>
     ValidateV2Transaction sc (NewMidState sample_parent) txn' = Ok ()"
proof -
  obtain txn' where txn': "SignTransfer sc 1 False sample_parent sample_transfer sample_keys = Ok txn'"
    "V2TransactionWeight txn' = 8190" by (rule coin_transfer_signed)
  have "ValidateV2Transaction sc (NewMidState sample_parent) txn' = Ok ()"
  proof (rule signed_transfers_are_accepted [where mt = 0 and p = sample_params and k = sample_keys and txn = sample_transfer])
    show "QdayParams_Validate sc sample_params = Ok ()" by (rule sample_params_valid)
    show "ed25519_Verify sc (qk_Classical sample_pair) m (ed25519_Sign sc (qp_Classical sample_keys) m)" for m
      by (simp add: sample_crypto_def)
    show "slhdsa_Verify sc (qk_Reserve sample_pair) m sig ctx"
      if "slhdsa_SignDeterministic sc (qp_Reserve sample_keys) m ctx = Some sig" for m sig ctx
      using that by (simp add: sample_crypto_def)
  qed (use coin_transfer_plain sample_qday_state txn' in \<open>simp_all add: NewMidState_def MaxBlockWeight_def\<close>)
  then show ?thesis using txn'(1) coin_transfer_plain by blast
qed

end
