(* ===== verification/Outline.thy ===== *)
theory Outline
  imports BlockRules
begin

text \<open>
  Block outlines (\<^verbatim>\<open>core/gateway/outline.go\<close>): a block in which some transactions are replaced by their hashes,
  as nodes send it to peers that probably have those transactions. The lemmas show that an outline of an
  accepted block is completed to that very block as soon as the omitted transactions are found.
\<close>

section \<open>Outlines\<close>

record OutlineTransaction =
  ot_Hash :: hash256
  ot_Transaction :: "Transaction option"
  ot_V2Transaction :: "V2Transaction option"

record V2BlockOutline =
  bo_Height :: u64
  bo_ParentID :: BlockID
  bo_Nonce :: u64
  bo_Timestamp :: Time
  bo_MinerAddress :: Address
  bo_Transactions :: "OutlineTransaction list"

definition outline_commitment :: "crypto \<Rightarrow> State \<Rightarrow> V2BlockOutline \<Rightarrow> hash256" where
  "outline_commitment c cs bo =
     (let acc = AddLeaf c empty_Accumulator (State_MerkleLeafHash c cs (bo_MinerAddress bo))
      in Root c (fold (\<lambda>txn acc. AddLeaf c acc (ot_Hash txn)) (bo_Transactions bo) acc))"

definition Outline_ID :: "crypto \<Rightarrow> State \<Rightarrow> V2BlockOutline \<Rightarrow> BlockID" where
  "Outline_ID c cs bo = BlockHeader_ID c
     \<lparr>bh_ParentID = bo_ParentID bo, bh_Nonce = bo_Nonce bo, bh_Timestamp = bo_Timestamp bo,
      bh_Commitment = outline_commitment c cs bo\<rparr>"

definition absent :: "OutlineTransaction \<Rightarrow> bool" where
  "absent txn \<longleftrightarrow> ot_Transaction txn = None \<and> ot_V2Transaction txn = None"

definition Missing :: "V2BlockOutline \<Rightarrow> hash256 list" where
  "Missing bo = map ot_Hash (filter absent (bo_Transactions bo))"

text \<open>The maps \<^verbatim>\<open>v1hashes\<close> and \<^verbatim>\<open>v2hashes\<close>; a later transaction overwrites an earlier one.\<close>

definition by_hash :: "('a \<Rightarrow> hash256) \<Rightarrow> 'a list \<Rightarrow> hash256 \<rightharpoonup> 'a" where
  "by_hash leaf txns = map_of (rev (map (\<lambda>txn. (leaf txn, txn)) txns))"

definition fill_outline :: "crypto \<Rightarrow> Transaction list \<Rightarrow> V2Transaction list \<Rightarrow> OutlineTransaction \<Rightarrow> OutlineTransaction" where
  "fill_outline c txns v2txns ptxn =
     (if absent ptxn
      then ptxn\<lparr>ot_Transaction := by_hash (Transaction_MerkleLeafHash c) txns (ot_Hash ptxn),
                ot_V2Transaction := by_hash (V2Transaction_MerkleLeafHash c) v2txns (ot_Hash ptxn)\<rparr>
      else ptxn)"

text \<open>The transactions and the payout of the block so far.\<close>

definition append_filled :: "OutlineTransaction \<Rightarrow> Transaction list \<times> V2Transaction list \<times> Currency
    \<Rightarrow> (Transaction list \<times> V2Transaction list \<times> Currency) res" where
  "append_filled ptxn = (\<lambda>(txns, v2txns, payout). case ot_Transaction ptxn of
       Some txn \<Rightarrow> rbind (Currency_Add payout (Transaction_TotalFees txn)) (\<lambda>payout. Ok (txns @ [txn], v2txns, payout))
     | None \<Rightarrow> (case ot_V2Transaction ptxn of
           Some txn \<Rightarrow> rbind (Currency_Add payout (v2_MinerFee txn)) (\<lambda>payout. Ok (txns, v2txns @ [txn], payout))
         | None \<Rightarrow> Ok (txns, v2txns, payout)))"

definition Complete :: "crypto \<Rightarrow> State \<Rightarrow> Transaction list \<Rightarrow> V2Transaction list \<Rightarrow> V2BlockOutline
    \<Rightarrow> (Block \<times> hash256 list \<times> V2BlockOutline) res" where
  "Complete c cs txns v2txns bo =
     rbind (BlockReward cs) (\<lambda>reward.
     let bo' = bo\<lparr>bo_Transactions := map (fill_outline c txns v2txns) (bo_Transactions bo)\<rparr> in
     rbind (fold_res append_filled (bo_Transactions bo') ([], [], reward)) (\<lambda>(txns, v2txns, payout).
     Ok (\<lparr>blk_ParentID = bo_ParentID bo, blk_Nonce = bo_Nonce bo, blk_Timestamp = bo_Timestamp bo,
          blk_MinerPayouts = [\<lparr>sco_Value = payout, sco_Address = bo_MinerAddress bo\<rparr>], blk_Transactions = txns,
          blk_V2 = Some \<lparr>bd_Height = bo_Height bo, bd_Commitment = outline_commitment c cs bo, bd_Transactions = v2txns\<rparr>\<rparr>,
         Missing bo', bo')))"

definition RemoveTransactions :: "crypto \<Rightarrow> Transaction list \<Rightarrow> V2Transaction list \<Rightarrow> V2BlockOutline \<Rightarrow> V2BlockOutline" where
  "RemoveTransactions c txns v2txns bo =
     (let remove = Transaction_MerkleLeafHash c ` set txns \<union> V2Transaction_MerkleLeafHash c ` set v2txns
      in bo\<lparr>bo_Transactions := map (\<lambda>txn. if ot_Hash txn \<in> remove
           then txn\<lparr>ot_Transaction := None, ot_V2Transaction := None\<rparr> else txn) (bo_Transactions bo)\<rparr>)"

definition OutlineBlock :: "crypto \<Rightarrow> Block \<Rightarrow> Transaction list \<Rightarrow> V2Transaction list \<Rightarrow> V2BlockOutline res" where
  "OutlineBlock c b txns v2txns = (case blk_V2 b of
      None \<Rightarrow> Panic ''nil pointer dereference''
    | Some v2 \<Rightarrow> rbind (index_res (blk_MinerPayouts b) 0) (\<lambda>mp.
        Ok (RemoveTransactions c txns v2txns
          \<lparr>bo_Height = bd_Height v2, bo_ParentID = blk_ParentID b, bo_Nonce = blk_Nonce b, bo_Timestamp = blk_Timestamp b,
           bo_MinerAddress = sco_Address mp,
           bo_Transactions =
             map (\<lambda>txn. \<lparr>ot_Hash = Transaction_MerkleLeafHash c txn, ot_Transaction = Some txn, ot_V2Transaction = None\<rparr>)
               (blk_Transactions b) @
             map (\<lambda>txn. \<lparr>ot_Hash = V2Transaction_MerkleLeafHash c txn, ot_Transaction = None, ot_V2Transaction = Some txn\<rparr>)
               (bd_Transactions v2)\<rparr>)))"

section \<open>Outlines of a block\<close>

text \<open>The entry of a transaction: its hash, with or without the transaction.\<close>

definition outlines_txn :: "crypto \<Rightarrow> V2Transaction \<Rightarrow> OutlineTransaction \<Rightarrow> bool" where
  "outlines_txn c txn ot \<longleftrightarrow> ot_Hash ot = V2Transaction_MerkleLeafHash c txn \<and> ot_Transaction ot = None \<and>
     ot_V2Transaction ot \<in> {None, Some txn}"

definition outlines :: "crypto \<Rightarrow> Block \<Rightarrow> V2BlockOutline \<Rightarrow> bool" where
  "outlines c b bo \<longleftrightarrow> (\<exists>v2 mp. blk_V2 b = Some v2 \<and> blk_MinerPayouts b = [mp] \<and> blk_Transactions b = [] \<and>
     bo_Height bo = bd_Height v2 \<and> bo_ParentID bo = blk_ParentID b \<and> bo_Nonce bo = blk_Nonce b \<and>
     bo_Timestamp bo = blk_Timestamp b \<and> bo_MinerAddress bo = sco_Address mp \<and>
     list_all2 (outlines_txn c) (bd_Transactions v2) (bo_Transactions bo))"

lemma OutlineBlock_outlines:
  assumes "blk_V2 b = Some v2" "blk_MinerPayouts b = [mp]" "blk_Transactions b = []"
  obtains bo where "OutlineBlock c b txns v2txns = Ok bo" "outlines c b bo"
  using that assms
  by (auto simp: OutlineBlock_def index_res_def outlines_def RemoveTransactions_def Let_def list_all2_conv_all_nth outlines_txn_def)

lemma outlines_RemoveTransactions: "outlines c b bo \<Longrightarrow> outlines c b (RemoveTransactions c txns v2txns bo)"
  by (fastforce simp: outlines_def RemoveTransactions_def Let_def list_all2_conv_all_nth outlines_txn_def)

lemma outline_hashes:
  "list_all2 (outlines_txn c) txns ots \<Longrightarrow> map ot_Hash ots = map (V2Transaction_MerkleLeafHash c) txns"
  by (induction rule: list_all2_induct) (auto simp: outlines_txn_def)

lemma fold_AddLeaf: "fold (\<lambda>x acc. AddLeaf c acc (f x)) xs = fold (\<lambda>h acc. AddLeaf c acc h) (map f xs)"
  by (simp add: fold_map comp_def)

lemma commitment_of_outline:
  assumes "outlines c b bo" "blk_V2 b = Some v2" "blk_MinerPayouts b = [mp]"
  shows "outline_commitment c cs bo = Commitment c cs (sco_Address mp) [] (bd_Transactions v2)"
  using assms outline_hashes [of c "bd_Transactions v2" "bo_Transactions bo"]
  by (auto simp: outlines_def outline_commitment_def Commitment_def Let_def
    fold_AddLeaf [where f = ot_Hash] fold_AddLeaf [where f = "V2Transaction_MerkleLeafHash c"])

section \<open>Completing an outline\<close>

text \<open>
  No transaction at hand has the hash of another transaction of the block: what collision resistance of the
  hash function means for the transactions that take part.
\<close>

definition no_collision :: "crypto \<Rightarrow> V2Transaction list \<Rightarrow> Transaction list \<Rightarrow> V2Transaction list \<Rightarrow> bool" where
  "no_collision c block txns v2txns \<longleftrightarrow> (\<forall>txn \<in> set block.
     (\<forall>txn' \<in> set v2txns. V2Transaction_MerkleLeafHash c txn' = V2Transaction_MerkleLeafHash c txn \<longrightarrow> txn' = txn) \<and>
     (\<forall>txn' \<in> set txns. Transaction_MerkleLeafHash c txn' \<noteq> V2Transaction_MerkleLeafHash c txn))"

lemma by_hash_None: "by_hash leaf txns h = None \<longleftrightarrow> h \<notin> leaf ` set txns"
  by (force simp: by_hash_def map_of_eq_None_iff)

lemma by_hash_Some: "by_hash leaf txns h = Some txn \<Longrightarrow> txn \<in> set txns \<and> leaf txn = h"
  unfolding by_hash_def by (drule map_of_SomeD) auto

lemma fill_outlines_txn:
  assumes "outlines_txn c txn ot" "no_collision c block txns v2txns" "txn \<in> set block"
  shows "outlines_txn c txn (fill_outline c txns v2txns ot)"
    "absent (fill_outline c txns v2txns ot) \<longleftrightarrow> absent ot \<and> txn \<notin> set v2txns"
proof -
  let ?h = "V2Transaction_MerkleLeafHash c"
  have v1: "by_hash (Transaction_MerkleLeafHash c) txns (?h txn) = None"
    using assms(2,3) by (force simp: no_collision_def by_hash_None)
  have v2: "by_hash ?h v2txns (?h txn) = (if txn \<in> set v2txns then Some txn else None)"
  proof (cases "by_hash ?h v2txns (?h txn)")
    case None
    then show ?thesis by (auto simp: by_hash_None)
  next
    case (Some txn')
    then have "txn' = txn" using by_hash_Some [OF Some] assms(2,3) by (auto simp: no_collision_def)
    then show ?thesis using by_hash_Some [OF Some] Some by simp
  qed
  show "outlines_txn c txn (fill_outline c txns v2txns ot)"
      "absent (fill_outline c txns v2txns ot) \<longleftrightarrow> absent ot \<and> txn \<notin> set v2txns"
    using assms(1) v1 v2 by (auto simp: outlines_txn_def fill_outline_def absent_def)
qed

text \<open>The transactions that an outline contains.\<close>

definition present :: "V2Transaction list \<Rightarrow> OutlineTransaction list \<Rightarrow> V2Transaction list" where
  "present txns ots = map fst (filter (\<lambda>(txn, ot). \<not> absent ot) (zip txns ots))"

definition fees :: "V2Transaction list \<Rightarrow> nat" where
  "fees txns = sum_list (map (\<lambda>txn. cval (v2_MinerFee txn)) txns)"

lemma append_filled_present:
  assumes "list_all2 (outlines_txn c) txns ots" "cval z + fees txns < 2 ^ 128"
  shows "\<exists>pay. fold_res append_filled ots (v1, acc, z) = Ok (v1, acc @ present txns ots, pay) \<and>
    cval pay = cval z + fees (present txns ots)"
  using assms
proof (induction arbitrary: acc z rule: list_all2_induct)
  case (Cons txn txns ot ots)
  show ?case
  proof (cases "absent ot")
    case True
    then show ?thesis using Cons.IH [of z acc] Cons.prems
      by (simp add: append_filled_def absent_def present_def fees_def)
  next
    case False
    then have ot: "ot_Transaction ot = None" "ot_V2Transaction ot = Some txn"
      using Cons.hyps(1) by (auto simp: outlines_txn_def absent_def)
    obtain r where r: "Currency_Add z (v2_MinerFee txn) = Ok r" "cval r = cval z + cval (v2_MinerFee txn)"
      using cur.add_total [of z "v2_MinerFee txn"] Cons.prems by (auto simp: fees_def)
    then show ?thesis using Cons.IH [of r "acc @ [txn]"] Cons.prems ot False
      by (auto simp: append_filled_def present_def fees_def)
  qed
qed (simp add: present_def fees_def)

text \<open>The transactions that an outline leaves out.\<close>

definition omitted :: "V2Transaction list \<Rightarrow> OutlineTransaction list \<Rightarrow> V2Transaction list" where
  "omitted txns ots = map fst (filter (\<lambda>(txn, ot). absent ot) (zip txns ots))"

lemma omitted_present: "length txns = length ots \<Longrightarrow> omitted txns ots = [] \<Longrightarrow> present txns ots = txns"
  by (induction txns ots rule: list_induct2) (auto simp: present_def omitted_def split: if_splits)

lemma omitted_hashes:
  "list_all2 (outlines_txn c) txns ots \<Longrightarrow>
    map ot_Hash (filter absent ots) = map (V2Transaction_MerkleLeafHash c) (omitted txns ots)"
  by (induction rule: list_all2_induct) (simp_all add: omitted_def outlines_txn_def)

lemma fill_outlines:
  assumes "list_all2 (outlines_txn c) txns ots" "no_collision c block pool v2pool" "set txns \<subseteq> set block"
  shows "list_all2 (outlines_txn c) txns (map (fill_outline c pool v2pool) ots) \<and>
    omitted txns (map (fill_outline c pool v2pool) ots) = filter (\<lambda>txn. txn \<notin> set v2pool) (omitted txns ots)"
  using assms
proof (induction rule: list_all2_induct)
  case (Cons txn txns ot ots)
  note ot = fill_outlines_txn [OF Cons.hyps(1) Cons.prems(1)]
  show ?case using Cons.IH Cons.prems ot by (simp add: omitted_def)
qed (simp add: omitted_def)

text \<open>The transactions of a block that an outline of it leaves out.\<close>

definition left_out :: "Block \<Rightarrow> V2BlockOutline \<Rightarrow> V2Transaction list" where
  "left_out b bo = omitted (Block_V2Transactions b) (bo_Transactions bo)"

lemma Missing_left_out: "outlines c b bo \<Longrightarrow> Missing bo = map (V2Transaction_MerkleLeafHash c) (left_out b bo)"
  by (auto simp: outlines_def left_out_def Missing_def Block_V2Transactions_def omitted_hashes)

lemma outline_block_id:
  assumes "ValidateBlock c s b bs = Ok ()" "qday_state s p" "outlines c b bo"
  shows "Outline_ID c s bo = Block_ID c b"
  using accepted_block [OF assms(1,2)] assms(3) commitment_of_outline [OF assms(3)]
  by (smt (verit) outlines_def Outline_ID_def Block_ID_def Block_Header_def option.case option.inject)

lemma Complete_outlines:
  assumes "ValidateBlock c s b bs = Ok ()" "qday_state s p" "outlines c b bo"
    "no_collision c (Block_V2Transactions b) txns v2txns"
  obtains b' bo' where "Complete c s txns v2txns bo = Ok (b', Missing bo', bo')" "outlines c b bo'"
    "left_out b bo' = filter (\<lambda>txn. txn \<notin> set v2txns) (left_out b bo)"
    "Block_ID c b' = Block_ID c b" "Missing bo' = [] \<Longrightarrow> b' = b"
proof -
  obtain v2 mp reward where b: "blk_V2 b = Some v2" "blk_Transactions b = []" "blk_MinerPayouts b = [mp]" "BlockReward s = Ok reward"
      "cval (sco_Value mp) = cval reward + fees (bd_Transactions v2)"
      "bd_Commitment v2 = Commitment c s (sco_Address mp) [] (bd_Transactions v2)"
    using accepted_block [OF assms(1,2)] unfolding fees_def by metis
  define ots where "ots = map (fill_outline c txns v2txns) (bo_Transactions bo)"
  define bo' where "bo' = bo\<lparr>bo_Transactions := ots\<rparr>"
  have v2: "Block_V2Transactions b = bd_Transactions v2" by (simp add: Block_V2Transactions_def b(1))
  have all: "list_all2 (outlines_txn c) (bd_Transactions v2) (bo_Transactions bo)"
    using assms(3) b(1) by (auto simp: outlines_def)
  note filled' = fill_outlines [OF all assms(4), folded ots_def, unfolded v2, OF order_refl]
  note filled = conjunct1 [OF filled'] conjunct2 [OF filled']
  have outl: "outlines c b bo'" using assms(3) filled(1) b(1) by (auto simp: outlines_def bo'_def)
  have left: "left_out b bo' = filter (\<lambda>txn. txn \<notin> set v2txns) (left_out b bo)"
    using filled(2) by (simp add: left_out_def v2 bo'_def)
  have "cval reward + fees (bd_Transactions v2) < 2 ^ 128" using b(5) cval_less [of "sco_Value mp"] by simp
  from append_filled_present [OF filled(1) this] obtain pay where
    pay: "fold_res append_filled ots ([], [], reward) = Ok ([], present (bd_Transactions v2) ots, pay)"
      "cval pay = cval reward + fees (present (bd_Transactions v2) ots)" by (metis append_Nil)
  define b' where "b' = \<lparr>blk_ParentID = bo_ParentID bo, blk_Nonce = bo_Nonce bo, blk_Timestamp = bo_Timestamp bo,
     blk_MinerPayouts = [\<lparr>sco_Value = pay, sco_Address = bo_MinerAddress bo\<rparr>], blk_Transactions = [],
     blk_V2 = Some \<lparr>bd_Height = bo_Height bo, bd_Commitment = outline_commitment c s bo,
       bd_Transactions = present (bd_Transactions v2) ots\<rparr>\<rparr>"
  have run: "Complete c s txns v2txns bo = Ok (b', Missing bo', bo')"
    using b(4) pay(1) by (simp add: Complete_def Let_def b'_def bo'_def ots_def)
  have bo: "bo_Height bo = bd_Height v2" "bo_ParentID bo = blk_ParentID b" "bo_Nonce bo = blk_Nonce b"
      "bo_Timestamp bo = blk_Timestamp b" "bo_MinerAddress bo = sco_Address mp" "outline_commitment c s bo = bd_Commitment v2"
    using assms(3) b commitment_of_outline [OF assms(3) b(1,3)] by (auto simp: outlines_def)
  have "Block_ID c b' = Block_ID c b" by (simp add: Block_ID_def Block_Header_def b'_def bo b(1))
  moreover have "b' = b" if "Missing bo' = []"
  proof -
    have "present (bd_Transactions v2) ots = bd_Transactions v2"
      using that Missing_left_out [OF outl] omitted_present list_all2_lengthD [OF filled(1)]
      by (simp add: left_out_def v2 bo'_def)
    moreover from this have "pay = sco_Value mp" using pay(2) b(5) by (simp flip: cval_inject)
    ultimately show ?thesis using bo b(1-3) by (cases b; cases v2; cases mp) (simp add: b'_def)
  qed
  ultimately show thesis using that run outl left by blast
qed

end
