(* ===== verification/Relay.thy ===== *)
theory Relay
  imports Outline PoolOperations Reorg
begin

text \<open>
  The handlers of the peer protocol that read or change the chain (\<^verbatim>\<open>handleRPC\<close> of \<^verbatim>\<open>coreutils/syncer/peer.go\<close>) and
  the limits on concurrent requests (\<^verbatim>\<open>coreutils/syncer/relay_budget.go\<close>, \<^verbatim>\<open>coreutils/syncer/syncer.go\<close>). A request
  is a decoded object, the response a value, and what a handler does to its peers is a list of actions. The
  handlers that share peer addresses are left out.
\<close>

section \<open>Requests and responses\<close>

datatype rpc =
    RPCSendHeaders ChainIndex u64
  | RPCSendV2Blocks "BlockID list" u64
  | RPCSendTransactions ChainIndex "hash256 list"
  | RPCSendCheckpoint ChainIndex
  | RPCRelayV2Header BlockHeader
  | RPCRelayV2BlockOutline V2BlockOutline
  | RPCRelayV2TransactionSet ChainIndex "V2Transaction list"

datatype rpc_response =
    NoResponse
  | Headers_response "BlockHeader list" u64
  | V2Blocks_response "Block list" u64
  | Transactions_response "Transaction list" "V2Transaction list"
  | Checkpoint_response Block State

text \<open>\<^verbatim>\<open>resync\<close>, \<^verbatim>\<open>ban\<close> and the relays to the other peers.\<close>

datatype rpc_action =
    Resync string
  | Ban string
  | RelayHeader BlockHeader
  | RelayOutline V2BlockOutline
  | RelayTransactionSet ChainIndex "V2Transaction list"

type_synonym rpc_state = "Manager \<times> rpc_action list"

definition act :: "rpc_action \<Rightarrow> rpc_state \<Rightarrow> rpc_response res \<times> rpc_state" where
  "act a = (\<lambda>(m, acts). (Ok NoResponse, (m, acts @ [a])))"

record syncer_config =
  cfg_MaxSendHeaders :: u64
  cfg_MaxSendBlocks :: u64

section \<open>Queries\<close>

definition send_headers :: "syncer_config \<Rightarrow> ChainIndex \<Rightarrow> u64 \<Rightarrow> Manager \<Rightarrow> rpc_response res" where
  "send_headers cfg index maxn m =
     rbind (Headers m index (if cfg_MaxSendHeaders cfg < maxn then cfg_MaxSendHeaders cfg else maxn)) (\<lambda>(headers, remaining).
     Ok (Headers_response headers remaining))"

definition send_v2_blocks :: "syncer_config \<Rightarrow> BlockID list \<Rightarrow> u64 \<Rightarrow> Manager \<Rightarrow> rpc_response res" where
  "send_v2_blocks cfg history maxn m =
     rbind (BlocksForHistory m history (if cfg_MaxSendBlocks cfg < maxn then cfg_MaxSendBlocks cfg else maxn)) (\<lambda>(blocks, remaining).
     Ok (V2Blocks_response blocks remaining))"

text \<open>A request may take \<^verbatim>\<open>8 + 32 + 8 + 100*32\<close> bytes, so reading one with more than 100 hashes fails.\<close>

definition maxTransactionHashes :: nat where
  "maxTransactionHashes = 100"

definition send_transactions ::
    "crypto \<Rightarrow> (feeTxn list \<Rightarrow> feeTxn list) \<Rightarrow> ChainIndex \<Rightarrow> hash256 list \<Rightarrow> Manager \<Rightarrow> (Transaction list \<times> V2Transaction list \<times> Manager) res" where
  "send_transactions c perm index hashes m =
     (if maxTransactionHashes < length hashes then Err ''unexpected EOF''
      else case Store_Block (m_store m) (ci_ID index) of
          Some (b, _) \<Rightarrow>
            Ok (filter (\<lambda>txn. Transaction_MerkleLeafHash c txn \<in> set hashes) (blk_Transactions b),
                filter (\<lambda>txn. V2Transaction_MerkleLeafHash c txn \<in> set hashes) (Block_V2Transactions b), m)
        | None \<Rightarrow> TransactionsForPartialBlock c perm hashes m)"

definition send_checkpoint :: "ChainIndex \<Rightarrow> Manager \<Rightarrow> rpc_response res" where
  "send_checkpoint index m = (case Store_Block (m_store m) (ci_ID index) of
      None \<Rightarrow> Err ''checkpoint not found''
    | Some (b, _) \<Rightarrow> (case Store_State (m_store m) (blk_ParentID b) of
          None \<Rightarrow> Err ''checkpoint not found''
        | Some cs \<Rightarrow> Ok (Checkpoint_response b cs)))"

section \<open>Relays\<close>

definition relay_header :: "crypto \<Rightarrow> BlockHeader \<Rightarrow> rpc_state \<Rightarrow> rpc_response res \<times> rpc_state" where
  "relay_header c bh st = (case st of (m, _) \<Rightarrow>
     case Store_State (m_store m) (bh_ParentID bh) of
       None \<Rightarrow> act (Resync ''peer relayed a v2 header with unknown parent'') st
     | Some cs \<Rightarrow>
         let bid = BlockHeader_ID c bh in
         if Store_State (m_store m) bid \<noteq> None then (Ok NoResponse, st)
         else attempt (PoWTarget cs) (\<lambda>target.
           if BlockID_CmpWork bid target < 0 then act (Ban ''peer sent v2 header with insufficient work'')
           else if bh_ParentID bh \<noteq> ci_ID (Tip m) then act (Resync ''peer relayed a v2 header that does not attach to our tip'')
           else act (RelayHeader bh)) st)"

text \<open>What the handler does with a complete block; \<open>txns\<close> and \<open>v2txns\<close> are those that were in the pool.\<close>

definition add_relayed :: "crypto \<Rightarrow> Time \<Rightarrow> Transaction list \<Rightarrow> V2Transaction list \<Rightarrow> Block \<Rightarrow> V2BlockOutline
    \<Rightarrow> rpc_state \<Rightarrow> rpc_response res \<times> rpc_state" where
  "add_relayed c now txns v2txns b bo = (\<lambda>(m, acts). case AddBlocks c now [b] m of
       (Ok _, m) \<Rightarrow> act (RelayOutline (RemoveTransactions c txns v2txns bo)) (m, acts)
     | (Err e, m) \<Rightarrow> act (Ban e) (m, acts)
     | (Panic p, m) \<Rightarrow> (Panic p, (m, acts)))"

text \<open>\<open>send index hashes\<close> is what the peer writes in answer to \<^verbatim>\<open>SendTransactions\<close>, an error when it closes the
  stream. The caller reads at most \<^verbatim>\<open>5e6\<close> bytes of it.\<close>

definition transactions_response_len :: "Transaction list \<Rightarrow> V2Transaction list \<Rightarrow> nat" where
  "transactions_response_len txns v2txns =
     length (EncodeSlice Transaction_EncodeTo txns @ EncodeSlice V2Transaction_EncodeTo v2txns)"

definition maxTransactionsResponse :: nat where
  "maxTransactionsResponse = 5000000"

definition SendTransactions :: "(ChainIndex \<Rightarrow> hash256 list \<Rightarrow> (Transaction list \<times> V2Transaction list) res)
    \<Rightarrow> ChainIndex \<Rightarrow> hash256 list \<Rightarrow> (Transaction list \<times> V2Transaction list) res" where
  "SendTransactions send index hashes =
     rbind (send index hashes) (\<lambda>(txns, v2txns).
     if maxTransactionsResponse < transactions_response_len txns v2txns then Err ''couldn't read response''
     else Ok (txns, v2txns))"

definition relay_outline :: "crypto \<Rightarrow> (feeTxn list \<Rightarrow> feeTxn list) \<Rightarrow> Time
    \<Rightarrow> (ChainIndex \<Rightarrow> hash256 list \<Rightarrow> (Transaction list \<times> V2Transaction list) res)
    \<Rightarrow> V2BlockOutline \<Rightarrow> rpc_state \<Rightarrow> rpc_response res \<times> rpc_state" where
  "relay_outline c perm now send bo st = (case st of (m, acts) \<Rightarrow>
     case Store_State (m_store m) (bo_ParentID bo) of
       None \<Rightarrow> act (Resync ''peer relayed a v2 outline with unknown parent'') st
     | Some cs \<Rightarrow>
         let bid = Outline_ID c cs bo in
         if Store_State (m_store m) bid \<noteq> None then (Ok NoResponse, st)
         else attempt (PoWTarget cs) (\<lambda>target.
           if BlockID_CmpWork bid target < 0 then act (Ban ''peer sent v2 outline with insufficient work'')
           else if bo_ParentID bo \<noteq> ci_ID (Tip m) then act (Resync ''peer relayed a v2 outline that does not attach to our tip'')
           else attempt (TransactionsForPartialBlock c perm (Missing bo) m) (\<lambda>(txns, v2txns, m) _.
             attempt (Complete c cs txns v2txns bo) (\<lambda>(b, missing, bo).
               if missing = [] then add_relayed c now txns v2txns b bo
               else case SendTransactions send \<lparr>ci_Height = bo_Height bo, ci_ID = bid\<rparr> missing of
                   Err e \<Rightarrow> act (Resync ''failed to retrieve missing v2 transactions for block from peer'')
                 | Panic p \<Rightarrow> (\<lambda>st. (Panic p, st))
                 | Ok (ptxns, pv2txns) \<Rightarrow> attempt (Complete c cs ptxns pv2txns bo) (\<lambda>(b, missing, bo).
                     if missing \<noteq> [] then act (Ban ''peer sent wrong missing transactions for a block it relayed'')
                     else add_relayed c now txns v2txns b bo)) (m, acts))) st)"

definition relay_transaction_set :: "crypto \<Rightarrow> (feeTxn list \<Rightarrow> feeTxn list) \<Rightarrow> ChainIndex \<Rightarrow> V2Transaction list
    \<Rightarrow> rpc_state \<Rightarrow> rpc_response res \<times> rpc_state" where
  "relay_transaction_set c perm index txns st = (case st of (m, acts) \<Rightarrow>
     if Store_Block (m_store m) (ci_ID index) = None
     then act (Resync ''peer relayed a v2 transaction set with unknown basis'') st
     else if txns = [] then act (Ban ''peer sent an empty transaction set'') st
     else case AddV2PoolTransactions c perm index txns m of
         (Ok True, m) \<Rightarrow> (Ok NoResponse, (m, acts))
       | (Ok False, m) \<Rightarrow> act (RelayTransactionSet index txns) (m, acts)
       | (Err e, m) \<Rightarrow> (Ok NoResponse, (m, acts))
       | (Panic p, m) \<Rightarrow> (Panic p, (m, acts)))"

fun rpc_switch :: "crypto \<Rightarrow> (feeTxn list \<Rightarrow> feeTxn list) \<Rightarrow> syncer_config \<Rightarrow> Time
    \<Rightarrow> (ChainIndex \<Rightarrow> hash256 list \<Rightarrow> (Transaction list \<times> V2Transaction list) res)
    \<Rightarrow> rpc \<Rightarrow> rpc_state \<Rightarrow> rpc_response res \<times> rpc_state" where
  "rpc_switch c perm cfg now send (RPCSendHeaders index maxn) st = (send_headers cfg index maxn (fst st), st)"
| "rpc_switch c perm cfg now send (RPCSendV2Blocks history maxn) st = (send_v2_blocks cfg history maxn (fst st), st)"
| "rpc_switch c perm cfg now send (RPCSendTransactions index hashes) st =
     attempt (send_transactions c perm index hashes (fst st)) (\<lambda>(txns, v2txns, m) st.
       (Ok (Transactions_response txns v2txns), (m, snd st))) st"
| "rpc_switch c perm cfg now send (RPCSendCheckpoint index) st = (send_checkpoint index (fst st), st)"
| "rpc_switch c perm cfg now send (RPCRelayV2Header bh) st = relay_header c bh st"
| "rpc_switch c perm cfg now send (RPCRelayV2BlockOutline bo) st = relay_outline c perm now send bo st"
| "rpc_switch c perm cfg now send (RPCRelayV2TransactionSet index txns) st = relay_transaction_set c perm index txns st"

text \<open>The handler recovers from a panic of the case: it is logged, and what was done before stays.\<close>

definition handleRPC :: "crypto \<Rightarrow> (feeTxn list \<Rightarrow> feeTxn list) \<Rightarrow> syncer_config \<Rightarrow> Time
    \<Rightarrow> (ChainIndex \<Rightarrow> hash256 list \<Rightarrow> (Transaction list \<times> V2Transaction list) res)
    \<Rightarrow> rpc \<Rightarrow> rpc_state \<Rightarrow> rpc_response res \<times> rpc_state" where
  "handleRPC c perm cfg now send r st = (case rpc_switch c perm cfg now send r st of
      (Panic _, st) \<Rightarrow> (Ok NoResponse, st)
    | result \<Rightarrow> result)"

end
