(* ===== verification/RelayProperties.thy ===== *)
theory RelayProperties
  imports Relay MinerProperties ChainExtension
begin

text \<open>
  What the relay of blocks guarantees: an outline of an accepted block that an honest peer relays makes the
  receiver add exactly that block, whatever part of it was left out.
\<close>

section \<open>Transactions of the pool\<close>

lemma take_wanted_subset: "set (fst (take_wanted leaf txns want)) \<subseteq> set txns"
proof (induction txns arbitrary: want)
  case (Cons txn txns)
  show ?case using Cons.IH [of want] Cons.IH [of "want - {leaf txn}"]
    by (cases "take_wanted leaf txns (want - {leaf txn})") (auto simp: Let_def)
qed simp

lemma TransactionsForPartialBlock_subset:
  assumes "TransactionsForPartialBlock c perm missing m = Ok (txns, v2txns, m')"
  shows "set txns \<subseteq> set (tp_txns (m_txpool m'))" "set v2txns \<subseteq> set (tp_v2txns (m_txpool m'))"
proof -
  from assms obtain m1 where m1: "revalidatePool c perm m = Ok m1" by (auto simp: TransactionsForPartialBlock_def res_simps)
  obtain hits want finished where hits:
    "take_wanted (Transaction_MerkleLeafHash c) (tp_txns (m_txpool m1)) (set missing) = (hits, want, finished)" by (cases rule: prod_cases3)
  note run = assms [unfolded TransactionsForPartialBlock_def m1 rbind.simps hits prod.case]
  have "set hits \<subseteq> set (tp_txns (m_txpool m1))" using take_wanted_subset by (metis hits fst_conv)
  moreover have "set (fst (take_wanted (V2Transaction_MerkleLeafHash c) (tp_v2txns (m_txpool m1)) want)) \<subseteq> set (tp_v2txns (m_txpool m1))"
    by (rule take_wanted_subset)
  ultimately show "set txns \<subseteq> set (tp_txns (m_txpool m'))" "set v2txns \<subseteq> set (tp_v2txns (m_txpool m'))"
    using run by (auto split: if_splits)
qed

lemma no_collision_subset:
  "no_collision c block txns v2txns \<Longrightarrow> set txns' \<subseteq> set txns \<Longrightarrow> set v2txns' \<subseteq> set v2txns \<Longrightarrow> no_collision c block txns' v2txns'"
  by (auto simp: no_collision_def)

section \<open>Relayed outlines\<close>

text \<open>The answer of a peer whose chain manager is \<open>mp\<close>; it closes the stream when its handler fails or panics.\<close>

definition peer_answer :: "crypto \<Rightarrow> (feeTxn list \<Rightarrow> feeTxn list) \<Rightarrow> Manager \<Rightarrow> ChainIndex \<Rightarrow> hash256 list
    \<Rightarrow> (Transaction list \<times> V2Transaction list) res" where
  "peer_answer c perm mp index hashes =
     (case send_transactions c perm index hashes mp of
        Ok (txns, v2txns, _) \<Rightarrow> Ok (txns, v2txns)
      | _ \<Rightarrow> Err ''unexpected EOF'')"

lemma left_out_in_block: "set (left_out b bo) \<subseteq> set (Block_V2Transactions b)"
  by (auto simp: left_out_def omitted_def dest: set_zip_leftD)

text \<open>What the peer is asked for, and whether it fits into one exchange: a request names at most 100 hashes and
  a response takes at most \<^verbatim>\<open>5e6\<close> bytes.\<close>

definition requested :: "crypto \<Rightarrow> Block \<Rightarrow> V2Transaction list \<Rightarrow> V2BlockOutline \<Rightarrow> hash256 list" where
  "requested c b v2txns bo = map (V2Transaction_MerkleLeafHash c) (filter (\<lambda>txn. txn \<notin> set v2txns) (left_out b bo))"

definition sent :: "crypto \<Rightarrow> Block \<Rightarrow> hash256 list \<Rightarrow> V2Transaction list" where
  "sent c b hashes = filter (\<lambda>txn. V2Transaction_MerkleLeafHash c txn \<in> set hashes) (Block_V2Transactions b)"

definition one_exchange :: "crypto \<Rightarrow> Block \<Rightarrow> hash256 list \<Rightarrow> bool" where
  "one_exchange c b hashes \<longleftrightarrow> length hashes \<le> 100 \<and> transactions_response_len [] (sent c b hashes) \<le> 5000000"

lemma one_exchange_nothing: "one_exchange c b []"
  by (simp add: one_exchange_def sent_def transactions_response_len_def EncodeSlice_def WriteUint64_def)

lemma peer_answers:
  assumes "Store_Block (m_store mp) bid = Some (b, bs)" "blk_Transactions b = []"
  shows "SendTransactions (peer_answer c perm mp) \<lparr>ci_Height = h, ci_ID = bid\<rparr> hashes =
    (if one_exchange c b hashes then Ok ([], sent c b hashes)
     else Err (if 100 < length hashes then ''unexpected EOF'' else ''couldn't read response''))"
  using assms
  by (simp add: SendTransactions_def peer_answer_def send_transactions_def maxTransactionHashes_def one_exchange_def
      maxTransactionsResponse_def flip: sent_def)

text \<open>C15: a relayed outline becomes the block. A peer that has a block relays an outline of it, whatever
  transactions the outline leaves out; the block is valid on the tip of the receiver, which does not have it,
  the pool of the receiver revalidates, and no two different transactions of the block and the pool have the
  same leaf hash. The receiver completes the outline from its pool and from the answer of the peer. When what
  its pool lacks fits into one exchange, at most 100 transactions of at most 5e6 bytes together, exactly
  that block is given to \<^verbatim>\<open>AddBlocks\<close>; if it is added, what is relayed further is again an outline of the block,
  and the peer is banned only when the chain manager rejects the block. When it does not fit, the receiver
  synchronises with the peer instead and neither adds nor bans.\<close>

theorem relayed_outlines_become_blocks:
  assumes "ValidateBlock c s b bs = Ok ()" "qday_state s p" "Store_State (m_store m) (blk_ParentID b) = Some s"
    "blk_ParentID b = ci_ID (Tip m)" "Store_State (m_store m) (Block_ID c b) = None"
    and "OutlineBlock c b otxns ov2txns = Ok bo"
    and "TransactionsForPartialBlock c perm (Missing bo) m = Ok (txns, v2txns, m1)"
    and "no_collision c (Block_V2Transactions b) (tp_txns (m_txpool m1)) (tp_v2txns (m_txpool m1))"
    and "no_collision c (Block_V2Transactions b) [] (Block_V2Transactions b)"
    and "Store_Block (m_store mp) (Block_ID c b) = Some (b, bs')"
  shows "\<exists>bo'. outlines c b bo' \<and>
    handleRPC c perm cfg now (peer_answer c perm' mp) (RPCRelayV2BlockOutline bo) (m, acts) =
      (if one_exchange c b (requested c b v2txns bo) then
         (case AddBlocks c now [b] m1 of
            (Ok _, m2) \<Rightarrow> (Ok NoResponse, (m2, acts @ [RelayOutline bo']))
          | (Err e, m2) \<Rightarrow> (Ok NoResponse, (m2, acts @ [Ban e]))
          | (Panic e, m2) \<Rightarrow> (Ok NoResponse, (m2, acts)))
       else (Ok NoResponse, (m1, acts @ [Resync ''failed to retrieve missing v2 transactions for block from peer''])))"
proof -
  let ?h = "V2Transaction_MerkleLeafHash c"
  obtain v2 mp0 where b: "blk_V2 b = Some v2" "blk_MinerPayouts b = [mp0]" "blk_Transactions b = []"
    and hdr: "ValidateHeader c s (Block_Header c b) = Ok ()"
    using accepted_block [OF assms(1,2)] by metis
  have out: "outlines c b bo" using OutlineBlock_outlines [OF b] assms(6) by (metis res.inject(1))
  have parent: "bo_ParentID bo = blk_ParentID b" using out by (auto simp: outlines_def)
  obtain target where target: "PoWTarget s = Ok target" "\<not> BlockID_CmpWork (Block_ID c b) target < 0"
    using hdr by (auto simp: ValidateHeader_def Block_ID_def res_simps split: if_splits)
  have pool: "no_collision c (Block_V2Transactions b) txns v2txns"
    using no_collision_subset [OF assms(8)] TransactionsForPartialBlock_subset [OF assms(7)] by blast
  from Complete_outlines [OF assms(1,2) out pool] obtain b1 bo1 where
    first: "Complete c s txns v2txns bo = Ok (b1, Missing bo1, bo1)" "outlines c b bo1"
      "left_out b bo1 = filter (\<lambda>txn. txn \<notin> set v2txns) (left_out b bo)" "Missing bo1 = [] \<Longrightarrow> b1 = b" by metis
  have req: "requested c b v2txns bo = Missing bo1"
    using Missing_left_out [OF first(2)] first(3) by (simp add: requested_def)
  note answer = peer_answers [OF assms(10) b(3), of c perm' _ "Missing bo1"]
  let ?ptxns = "sent c b (Missing bo1)"
  have "no_collision c (Block_V2Transactions b) [] ?ptxns" by (rule no_collision_subset [OF assms(9)]) (auto simp: sent_def)
  from Complete_outlines [OF assms(1,2) first(2) this] obtain b2 bo2 where
    second: "Complete c s [] ?ptxns bo1 = Ok (b2, Missing bo2, bo2)" "outlines c b bo2"
      "left_out b bo2 = filter (\<lambda>txn. txn \<notin> set ?ptxns) (left_out b bo1)" "Missing bo2 = [] \<Longrightarrow> b2 = b" by metis
  have "left_out b bo2 = []"
    using left_out_in_block [of b bo1] Missing_left_out [OF first(2)] by (auto simp: second(3) sent_def filter_empty_conv)
  then have fin: "Missing bo2 = []" "b2 = b" using Missing_left_out [OF second(2)] second(4) by simp_all
  have "rpc_switch c perm cfg now (peer_answer c perm' mp) (RPCRelayV2BlockOutline bo) (m, acts) =
      (if one_exchange c b (Missing bo1) then add_relayed c now txns v2txns b (if Missing bo1 = [] then bo1 else bo2) (m1, acts)
       else act (Resync ''failed to retrieve missing v2 transactions for block from peer'') (m1, acts))"
    using assms(3-5,7) target first(1,4) answer second(1) fin one_exchange_nothing
    by (simp add: relay_outline_def parent outline_block_id [OF assms(1,2) out] Let_def)
  then show ?thesis
    using outlines_RemoveTransactions [OF first(2)] outlines_RemoveTransactions [OF second(2)]
    by (intro exI [of _ "RemoveTransactions c txns v2txns (if Missing bo1 = [] then bo1 else bo2)"])
      (auto simp: handleRPC_def add_relayed_def act_def req split: prod.split res.split)
qed

text \<open>A block with nothing but its marker.\<close>

lemma marker_block:
  obtains b where "ValidateBlock sc sample_parent b empty_supplement = Ok ()" "blk_ParentID b = 5" "Block_ID sc b \<noteq> 5"
    "Block_V2Transactions b = [marker_txn sample_pair 7]"
proof -
  define comm where "comm = Commitment sc sample_parent (QdayKeys_Address sc sample_pair) [] [marker_txn sample_pair 7]"
  have reward: "BlockReward sample_parent = Ok (NewCurrency 16030113641655173120 433680)"
    by (simp add: BlockReward_def sample_params_def)
  define b where "b = \<lparr>blk_ParentID = 5, blk_Nonce = 0, blk_Timestamp = 0,
    blk_MinerPayouts = [\<lparr>sco_Value = NewCurrency 16030113641655173120 433680, sco_Address = QdayKeys_Address sc sample_pair\<rparr>],
    blk_Transactions = [], blk_V2 = Some \<lparr>bd_Height = 101, bd_Commitment = comm, bd_Transactions = [marker_txn sample_pair 7]\<rparr>\<rparr>"
  have cand: "CandidateWithNonce sc sample_parent sample_pair [] 0 7 = Ok b"
    by (simp add: CandidateWithNonce_def reward Let_def b_def comm_def truncate_second_def)
  have "PoWTarget sample_parent = Ok (- 1)" by (simp add: PoWTarget_def invTarget_eq)
  then have mine: "Mine sc (\<lambda>_. 1) [0] sample_parent b 1 = Ok b"
    by (simp add: Mine_def Let_def List.map_filter_def BlockID_CmpWork_def b_def Block_Header_def)
  have "medianTimestamp sample_parent = Ok 0" "NonceFactor sample_parent = 1" "QdayKeys_Validate sample_pair = Ok ()"
    by (simp_all add: sample_keys_def QdayKeys_Validate_def)
  from mined_block_validates [OF sample_qday_state this(3,2,1) _ cand mine]
  have "ValidateBlock sc sample_parent b empty_supplement = Ok ()" by (simp add: truncate_second_def)
  moreover have "Block_ID sc b \<noteq> 5"
  proof -
    have rep: "represents sc (AddLeaf sc (AddLeaf sc empty_Accumulator x) y) [x, y]" for x y
      using represents_AddLeaf [OF represents_AddLeaf [OF represents_empty, of sc x], of y] by simp
    have "tree_hash sc ([x] @ [y]) = SumPair sc (tree_hash sc [x]) (tree_hash sc [y])" for x y
      using tree_hash_split [of "[x]" 0 "[y]"] by simp
    then have "comm \<noteq> 0" using node_hash_nonzero by (simp add: comm_def Commitment_def Let_def Root_represents [OF rep])
    moreover have "Block_ID sc b = 5 + byte_sum (le64 0 @ le64 (uint64 (Time_Unix 0)) @ hash_bytes comm)"
      by (simp add: Block_ID_def BlockHeader_ID_def Block_Header_def b_def HashBytes_def)
        (simp add: sample_crypto_def byte_sum_append byte_sum_small)
    ultimately show ?thesis using byte_sum_hash_nonzero [of comm] by simp
  qed
  ultimately show thesis using that by (simp add: b_def Block_V2Transactions_def)
qed

text \<open>A peer that has the block.\<close>

definition block_peer :: "Block \<Rightarrow> Manager" where
  "block_peer b = ready_manager\<lparr>m_store := AddBlock sc b None (m_store ready_manager)\<rparr>"

lemma marker_txn_size: "length (V2Transaction_EncodeTo (marker_txn k n)) \<le> 200"
proof -
  have "length (enc_if b bs) \<le> length bs" for b bs by (simp add: enc_if_def)
  moreover have "length (QdayEnvelope_Encode \<lparr>env_Kind = QdayCoinbase, env_Nonce = n, env_Keys = [k], env_Witness = 0\<rparr>) = 80"
    by (simp add: QdayEnvelope_Encode_def QdayKeys_Bytes_def envelope_magic_def ascii_def QdayCoinbase_def QdayCanaryProof_def)
  ultimately show ?thesis
    by (simp add: V2Transaction_EncodeTo_def Let_def marker_txn_def empty_V2Transaction_def EncodeSlice_def WriteBytes_def
        WriteUint64_def WriteUint8_def V2Currency_EncodeTo_def enc_if_def)
qed

theorem relayed_outlines_become_blocks_witness:
  "\<exists>b bo bo' m1. ValidateBlock sc sample_parent b empty_supplement = Ok () \<and>
     OutlineBlock sc b [] (Block_V2Transactions b) = Ok bo \<and> length (Missing bo) = 1 \<and> outlines sc b bo' \<and>
     one_exchange sc b (requested sc b [] bo) \<and>
     handleRPC sc id \<lparr>cfg_MaxSendHeaders = 1, cfg_MaxSendBlocks = 1\<rparr> 0 (peer_answer sc id (block_peer b))
       (RPCRelayV2BlockOutline bo) (ready_manager, []) =
      (case AddBlocks sc 0 [b] m1 of
         (Ok _, m2) \<Rightarrow> (Ok NoResponse, (m2, [RelayOutline bo']))
       | (Err e, m2) \<Rightarrow> (Ok NoResponse, (m2, [Ban e]))
       | (Panic e, m2) \<Rightarrow> (Ok NoResponse, (m2, [])))"
proof -
  obtain b where b: "ValidateBlock sc sample_parent b empty_supplement = Ok ()" "blk_ParentID b = 5" "Block_ID sc b \<noteq> 5"
    "Block_V2Transactions b = [marker_txn sample_pair 7]" using marker_block .
  obtain v2 mp where v2: "blk_V2 b = Some v2" "blk_MinerPayouts b = [mp]" "blk_Transactions b = []"
    using accepted_block [OF b(1) sample_qday_state] by metis
  obtain bo where bo: "OutlineBlock sc b [] (Block_V2Transactions b) = Ok bo" "outlines sc b bo" using OutlineBlock_outlines [OF v2] .
  have txns: "bd_Transactions v2 = [marker_txn sample_pair 7]" using b(4) v2(1) by (simp add: Block_V2Transactions_def)
  have missing: "length (Missing bo) = 1"
    using bo(1) v2 txns by (auto simp: OutlineBlock_def index_res_def RemoveTransactions_def Missing_def absent_def b(4))
  have "length (left_out b bo) = 1" using missing Missing_left_out [OF bo(2)] by simp
  then have "length (requested sc b [] bo) = 1" by (simp add: requested_def)
  then have fits: "one_exchange sc b (requested sc b [] bo)"
    using marker_txn_size [of sample_pair 7]
    by (simp add: one_exchange_def sent_def transactions_response_len_def EncodeSlice_def b(4) WriteUint64_def)
  define m1 where "m1 = ready_manager\<lparr>m_txpool := (m_txpool ready_manager)\<lparr>tp_ms := Some (NewMidState sample_parent), tp_indices := Map.empty,
    tp_weight := 0, tp_txns := [], tp_v2txns := []\<rparr>\<rparr>"
  have pool: "TransactionsForPartialBlock sc id (Missing bo) ready_manager = Ok ([], [], m1)"
    by (simp add: TransactionsForPartialBlock_def revalidatePool_def ready_manager_def NewManager_def empty_txpool_def m1_def
      txpoolMaxWeight_def MaxBlockWeight_def updateQdayEphemeralHeights_def Let_def)
  have tip: "Tip ready_manager = \<lparr>ci_Height = 100, ci_ID = 5\<rparr>" "Store_State (m_store ready_manager) 5 = Some sample_parent"
      "Store_State (m_store ready_manager) (Block_ID sc b) = None"
    using b(3) by (simp_all add: ready_manager_def NewManager_def Tip_def Store_State_def getState_def empty_DBStore_def)
  have "Store_Block (m_store (block_peer b)) (Block_ID sc b) = Some (b, None)"
    by (simp add: block_peer_def Store_Block_def AddBlock_def putBlock_def getBlock_def Block_ID_def)
  moreover have "no_collision sc (Block_V2Transactions b) [] (Block_V2Transactions b)"
      "no_collision sc (Block_V2Transactions b) (tp_txns (m_txpool m1)) (tp_v2txns (m_txpool m1))"
    by (simp_all add: b(4) no_collision_def m1_def)
  ultimately obtain bo' where "outlines sc b bo'"
    "handleRPC sc id \<lparr>cfg_MaxSendHeaders = 1, cfg_MaxSendBlocks = 1\<rparr> 0 (peer_answer sc id (block_peer b))
       (RPCRelayV2BlockOutline bo) (ready_manager, []) =
      (case AddBlocks sc 0 [b] m1 of
         (Ok _, m2) \<Rightarrow> (Ok NoResponse, (m2, [] @ [RelayOutline bo']))
       | (Err e, m2) \<Rightarrow> (Ok NoResponse, (m2, [] @ [Ban e]))
       | (Panic e, m2) \<Rightarrow> (Ok NoResponse, (m2, [])))"
    using relayed_outlines_become_blocks [OF b(1) sample_qday_state _ _ _ bo(1) pool, of "block_peer b" None
        "\<lparr>cfg_MaxSendHeaders = 1, cfg_MaxSendBlocks = 1\<rparr>" 0 id "[]"] b(2) tip fits
    by (simp only: ChainIndex.select_convs simp_thms if_True) blast
  then show ?thesis unfolding append_Nil using b(1) bo(1) missing fits by blast
qed

end
