(* ===== verification/RelayPlan.thy ===== *)
theory RelayPlan
  imports Hashing
begin

text \<open>
  How a node packs its transaction pool into requests for a peer (\<^verbatim>\<open>coreutils/syncer/txpool_relay.go\<close>). The
  lemmas show that every request is a transaction set of its own, with the unconfirmed parents of a
  transaction before it, that it respects the size limit, and that only transactions whose unconfirmed
  ancestors do not fit in one request are left out.
\<close>

section \<open>The plan\<close>

record txpoolRelaySet =
  rs_basis :: ChainIndex
  rs_txns :: "V2Transaction list"

text \<open>What \<^verbatim>\<open>encodedByteCount\<close> counts.\<close>

definition encoded_size :: "V2Transaction \<Rightarrow> int" where
  "encoded_size txn = int (length (V2Transaction_EncodeTo txn))"

definition unconfirmed_ids :: "V2Transaction \<Rightarrow> SiacoinOutputID list" where
  "unconfirmed_ids txn = map (\<lambda>sci. sce_ID (v2sci_Parent sci))
     (filter (\<lambda>sci. se_LeafIndex (sce_StateElement (v2sci_Parent sci)) = UnassignedLeafIndex) (v2_SiacoinInputs txn))"

definition created_ids :: "crypto \<Rightarrow> V2Transaction \<Rightarrow> SiacoinOutputID list" where
  "created_ids c txn = map (V2Transaction_SiacoinOutputID c (V2Transaction_ID c txn)) [0..<length (v2_SiacoinOutputs txn)]"

text \<open>The loop over the inputs of a transaction.\<close>

fun lookup_parents :: "(SiacoinOutputID \<rightharpoonup> nat) \<Rightarrow> SiacoinOutputID list \<Rightarrow> (nat list) res" where
  "lookup_parents outputs [] = Ok []"
| "lookup_parents outputs (oid # ids) = (case outputs oid of
      None \<Rightarrow> Err ''transaction pool snapshot is missing an unconfirmed parent''
    | Some parent \<Rightarrow> rbind (lookup_parents outputs ids) (\<lambda>ps. Ok (parent # ps)))"

text \<open>The first loop: the parents of every transaction, with the transaction that created an output.\<close>

fun scan_parents :: "crypto \<Rightarrow> nat \<Rightarrow> V2Transaction list \<Rightarrow> (SiacoinOutputID \<rightharpoonup> nat) \<Rightarrow> (nat list list) res" where
  "scan_parents c i [] outputs = Ok []"
| "scan_parents c i (txn # txns) outputs =
     rbind (lookup_parents outputs (unconfirmed_ids txn)) (\<lambda>ps.
     rbind (scan_parents c (Suc i) txns (outputs ++ map_of (map (\<lambda>oid. (oid, i)) (created_ids c txn)))) (\<lambda>parents.
     Ok (ps # parents)))"

lemma card_remaining: "j < n \<Longrightarrow> j \<notin> A \<Longrightarrow> card ({..<n} - insert j A) < card ({..<n} - A)" for n :: nat
  by (intro psubset_card_mono) auto

text \<open>The search for the ancestors of a transaction that are not in the packet.\<close>

function find_needed :: "int list \<Rightarrow> nat list list \<Rightarrow> int \<Rightarrow> nat set \<Rightarrow> nat list \<Rightarrow> nat set \<Rightarrow> int \<Rightarrow> (nat set \<times> int) res" where
  "find_needed sizes parents limit inPacket stack needed bytes =
     (if stack = [] \<or> limit < bytes then Ok (needed, bytes)
      else let j = last stack; stack = butlast stack in
        if j \<in> inPacket \<or> j \<in> needed then find_needed sizes parents limit inPacket stack needed bytes
        else if length sizes \<le> j \<or> length parents \<le> j then Panic ''index out of range''
        else find_needed sizes parents limit inPacket (stack @ parents ! j) (insert j needed) (bytes + sizes ! j))"
  by pat_completeness auto
termination
proof (relation "measures [\<lambda>(sizes, parents, limit, inPacket, stack, needed, bytes). card ({..<length sizes} - needed),
    \<lambda>(sizes, parents, limit, inPacket, stack, needed, bytes). length stack]", goal_cases)
  case 1
  show ?case by (rule wf_measures)
next
  case (2 sizes parents limit inPacket stack needed bytes j stack')
  then have "length stack' < length stack" by simp
  then show ?case by (simp only: in_measures prod.case if_True simp_thms)
next
  case (3 sizes parents limit inPacket stack needed bytes j stack')
  then have "j < length sizes" "j \<notin> needed" by simp_all
  from card_remaining [OF this] show ?case by (simp only: in_measures prod.case simp_thms)
qed

declare find_needed.simps [simp del]

text \<open>The state of the second loop: the finished sets, the packet, the transactions in it and its bytes.\<close>

type_synonym plan_state = "txpoolRelaySet list \<times> V2Transaction list \<times> nat set \<times> int"

definition flush_packet :: "ChainIndex \<Rightarrow> plan_state \<Rightarrow> plan_state" where
  "flush_packet basis = (\<lambda>(sets, packet, inPacket, packetBytes).
     (if packet \<noteq> [] then sets @ [\<lparr>rs_basis = basis, rs_txns = packet\<rparr>] else sets, [], {}, 0))"

function plan_txn :: "ChainIndex \<Rightarrow> V2Transaction list \<Rightarrow> int list \<Rightarrow> nat list list \<Rightarrow> int \<Rightarrow> nat \<Rightarrow> plan_state \<Rightarrow> plan_state res" where
  "plan_txn basis txns sizes parents limit i (sets, packet, inPacket, packetBytes) =
     rbind (find_needed sizes parents limit inPacket [i] {} 0) (\<lambda>(needed, bytes).
       if limit < packetBytes + bytes \<and> packet \<noteq> []
       then plan_txn basis txns sizes parents limit i (flush_packet basis (sets, packet, inPacket, packetBytes))
       else if limit < bytes then Ok (sets, packet, inPacket, packetBytes)
       else Ok (sets, packet @ map ((!) txns) (sorted_list_of_set needed), inPacket \<union> needed, packetBytes + bytes))"
  by pat_completeness auto
termination
  by (relation "measure (\<lambda>(basis, txns, sizes, parents, limit, i, sets, packet, inPacket, packetBytes). length packet)")
    (auto simp: flush_packet_def)

declare plan_txn.simps [simp del]

definition qdayPoolRelayPlan :: "crypto \<Rightarrow> ChainIndex \<Rightarrow> V2Transaction list \<Rightarrow> int \<Rightarrow> (txpoolRelaySet list) res" where
  "qdayPoolRelayPlan c basis txns maxRequestBytes =
     (let limit = maxRequestBytes - (8 + 32 + 8) in
      rbind (scan_parents c 0 txns Map.empty) (\<lambda>parents.
      rbind (fold_res (plan_txn basis txns (map encoded_size txns) parents limit) [0..<length txns] ([], [], {}, 0)) (\<lambda>st.
      Ok (fst (flush_packet basis st)))))"

section \<open>Parents\<close>

text \<open>Every unconfirmed output that a transaction of the list spends is created by an earlier one.\<close>

definition parents_first :: "crypto \<Rightarrow> V2Transaction list \<Rightarrow> bool" where
  "parents_first c txns \<longleftrightarrow> (\<forall>k < length txns. \<forall>oid \<in> set (unconfirmed_ids (txns ! k)). \<exists>p < k. oid \<in> set (created_ids c (txns ! p)))"

definition creates :: "crypto \<Rightarrow> V2Transaction list \<Rightarrow> (SiacoinOutputID \<rightharpoonup> nat) \<Rightarrow> bool" where
  "creates c txns outputs \<longleftrightarrow>
     (\<forall>oid p. outputs oid = Some p \<longrightarrow> p < length txns \<and> oid \<in> set (created_ids c (txns ! p))) \<and>
     (\<forall>p < length txns. \<forall>oid \<in> set (created_ids c (txns ! p)). outputs oid \<noteq> None)"

lemma creates_snoc:
  assumes "creates c txns outputs"
  shows "creates c (txns @ [txn]) (outputs ++ map_of (map (\<lambda>oid. (oid, length txns)) (created_ids c txn)))"
proof -
  have new: "map_of (map (\<lambda>oid. (oid, length txns)) ids) oid = (if oid \<in> set ids then Some (length txns) else None)"
    for ids :: "SiacoinOutputID list" and oid by (induction ids) auto
  show ?thesis unfolding creates_def
  proof (intro conjI allI impI ballI)
    fix oid p
    assume "(outputs ++ map_of (map (\<lambda>oid. (oid, length txns)) (created_ids c txn))) oid = Some p"
    then have "oid \<in> set (created_ids c txn) \<and> p = length txns \<or> outputs oid = Some p" by (auto simp: map_add_def new split: if_splits)
    moreover from assms have "p < length txns \<and> oid \<in> set (created_ids c (txns ! p))" if "outputs oid = Some p"
      using that by (simp add: creates_def)
    ultimately show "p < length (txns @ [txn])" "oid \<in> set (created_ids c ((txns @ [txn]) ! p))"
      by (auto simp: nth_append)
  next
    fix p oid
    assume "p < length (txns @ [txn])" "oid \<in> set (created_ids c ((txns @ [txn]) ! p))"
    then show "(outputs ++ map_of (map (\<lambda>oid. (oid, length txns)) (created_ids c txn))) oid \<noteq> None"
      using assms unfolding creates_def by (cases "p < length txns") (auto simp: map_add_def new nth_append)
  qed
qed

lemma lookup_parents_Ok:
  "\<forall>oid \<in> set ids. outputs oid \<noteq> None \<Longrightarrow> lookup_parents outputs ids = Ok (map (\<lambda>oid. the (outputs oid)) ids)"
  by (induction ids) auto

lemma lookup_parents_Err: "lookup_parents outputs ids = Ok ps \<Longrightarrow> \<forall>oid \<in> set ids. outputs oid \<noteq> None"
  by (induction ids arbitrary: ps) (auto simp: res_simps split: option.splits)

text \<open>The parents that the first loop finds: \<open>before\<close> are the transactions that were scanned already.\<close>

definition parents_of :: "crypto \<Rightarrow> V2Transaction list \<Rightarrow> nat \<Rightarrow> nat list \<Rightarrow> bool" where
  "parents_of c txns k ps \<longleftrightarrow> (\<forall>p \<in> set ps. p < k) \<and>
     (\<forall>oid \<in> set (unconfirmed_ids (txns ! k)). \<exists>p \<in> set ps. oid \<in> set (created_ids c (txns ! p)))"

lemma scan_parents_Ok:
  assumes "scan_parents c (length before) txns outputs = Ok parents" "creates c before outputs"
  shows "length parents = length txns \<and> (\<forall>k < length txns. parents_of c (before @ txns) (length before + k) (parents ! k))"
  using assms
proof (induction txns arbitrary: before outputs parents)
  case (Cons txn txns)
  from Cons.prems(1) obtain ps rest where run: "lookup_parents outputs (unconfirmed_ids txn) = Ok ps"
      "scan_parents c (Suc (length before)) txns (outputs ++ map_of (map (\<lambda>oid. (oid, length before)) (created_ids c txn))) = Ok rest"
      "parents = ps # rest" by (auto simp: res_simps)
  have known: "\<forall>oid \<in> set (unconfirmed_ids txn). outputs oid \<noteq> None" using lookup_parents_Err run(1) .
  then have ps: "ps = map (\<lambda>oid. the (outputs oid)) (unconfirmed_ids txn)" using lookup_parents_Ok run(1) by (metis res.inject(1))
  have "the (outputs oid) < length before \<and> oid \<in> set (created_ids c (before ! the (outputs oid)))"
    if "oid \<in> set (unconfirmed_ids txn)" for oid
  proof -
    from known that obtain p where "outputs oid = Some p" by blast
    then show ?thesis using Cons.prems(2) by (simp add: creates_def)
  qed
  then have first: "parents_of c (before @ txn # txns) (length before) ps"
    by (auto simp: parents_of_def ps nth_append)
  have rest: "length rest = length txns"
      "\<forall>k < length txns. parents_of c (before @ txn # txns) (length before + Suc k) (rest ! k)"
    using Cons.IH [OF _ creates_snoc [OF Cons.prems(2), of txn], of rest] run(2) by simp_all
  have "parents_of c (before @ txn # txns) (length before + k) (parents ! k)" if "k < length (txn # txns)" for k
    using that first rest by (cases k) (simp_all add: run(3))
  then show ?case using rest(1) by (simp add: run(3))
qed simp

lemma scan_parents_total:
  assumes "creates c before outputs"
    and "\<forall>k < length txns. \<forall>oid \<in> set (unconfirmed_ids (txns ! k)). \<exists>p < length before + k. oid \<in> set (created_ids c ((before @ txns) ! p))"
  shows "\<exists>parents. scan_parents c (length before) txns outputs = Ok parents"
  using assms
proof (induction txns arbitrary: before outputs)
  case (Cons txn txns)
  have "\<forall>oid \<in> set (unconfirmed_ids txn). outputs oid \<noteq> None"
  proof
    fix oid
    assume "oid \<in> set (unconfirmed_ids txn)"
    then obtain p where "p < length before" "oid \<in> set (created_ids c (before ! p))" using Cons.prems(2) by (force simp: nth_append)
    then show "outputs oid \<noteq> None" using Cons.prems(1) by (auto simp: creates_def)
  qed
  moreover have "\<exists>parents. scan_parents c (length (before @ [txn])) txns
      (outputs ++ map_of (map (\<lambda>oid. (oid, length before)) (created_ids c txn))) = Ok parents"
  proof (rule Cons.IH)
    show "creates c (before @ [txn]) (outputs ++ map_of (map (\<lambda>oid. (oid, length before)) (created_ids c txn)))"
      by (rule creates_snoc [OF Cons.prems(1)])
    show "\<forall>k < length txns. \<forall>oid \<in> set (unconfirmed_ids (txns ! k)). \<exists>p < length (before @ [txn]) + k.
        oid \<in> set (created_ids c (((before @ [txn]) @ txns) ! p))"
    proof (intro allI impI ballI)
      fix k oid
      assume "k < length txns" "oid \<in> set (unconfirmed_ids (txns ! k))"
      then show "\<exists>p < length (before @ [txn]) + k. oid \<in> set (created_ids c (((before @ [txn]) @ txns) ! p))"
        using Cons.prems(2) [rule_format, of "Suc k" oid] by simp
    qed
  qed
  then obtain parents where "scan_parents c (Suc (length before)) txns
      (outputs ++ map_of (map (\<lambda>oid. (oid, length before)) (created_ids c txn))) = Ok parents" by auto
  ultimately show ?case by (simp add: lookup_parents_Ok)
qed simp

section \<open>The search for ancestors\<close>

definition wf_parents :: "int list \<Rightarrow> nat list list \<Rightarrow> bool" where
  "wf_parents sizes parents \<longleftrightarrow> length sizes = length parents \<and> (\<forall>k < length parents. \<forall>p \<in> set (parents ! k). p < k) \<and>
     (\<forall>x \<in> set sizes. 0 \<le> x)"

definition parent_rel :: "nat list list \<Rightarrow> (nat \<times> nat) set" where
  "parent_rel parents = {(p, k). k < length parents \<and> p \<in> set (parents ! k)}"

text \<open>A transaction and its unconfirmed ancestors.\<close>

definition ancestors :: "nat list list \<Rightarrow> nat \<Rightarrow> nat set" where
  "ancestors parents i = {j. (j, i) \<in> (parent_rel parents)\<^sup>*}"

definition total_size :: "int list \<Rightarrow> nat set \<Rightarrow> int" where
  "total_size sizes js = (\<Sum>j\<in>js. sizes ! j)"

lemma ancestors_step: "j \<in> ancestors parents i \<Longrightarrow> j < length parents \<Longrightarrow> p \<in> set (parents ! j) \<Longrightarrow> p \<in> ancestors parents i"
  unfolding ancestors_def parent_rel_def by (auto intro: converse_rtrancl_into_rtrancl)

lemma ancestors_le:
  assumes "wf_parents sizes parents" "j \<in> ancestors parents i"
  shows "j \<le> i"
proof -
  have "(j, i) \<in> (parent_rel parents)\<^sup>*" using assms(2) by (simp add: ancestors_def)
  then show ?thesis
    by (induction rule: converse_rtrancl_induct) (use assms(1) in \<open>fastforce simp: wf_parents_def parent_rel_def\<close>)+
qed

lemma finite_ancestors: "wf_parents sizes parents \<Longrightarrow> finite (ancestors parents i)"
  using ancestors_le by (metis finite_nat_set_iff_bounded_le)

lemma total_size_mono:
  assumes "wf_parents sizes parents" "A \<subseteq> B" "\<forall>j \<in> B. j < length sizes" "finite B"
  shows "total_size sizes A \<le> total_size sizes B"
  unfolding total_size_def using assms by (intro sum_mono2) (auto simp: wf_parents_def)

text \<open>What the search for the ancestors of \<open>i\<close> keeps true.\<close>

definition search_inv :: "int list \<Rightarrow> nat list list \<Rightarrow> nat set \<Rightarrow> nat \<Rightarrow> nat list \<Rightarrow> nat set \<Rightarrow> int \<Rightarrow> bool" where
  "search_inv sizes parents inPacket i stack needed bytes \<longleftrightarrow>
     set stack \<union> needed \<subseteq> ancestors parents i \<and> i \<in> needed \<union> inPacket \<union> set stack \<and>
     (\<forall>j \<in> needed. set (parents ! j) \<subseteq> needed \<union> inPacket \<union> set stack) \<and>
     needed \<inter> inPacket = {} \<and> bytes = total_size sizes needed"

lemma search_skip:
  assumes "search_inv sizes parents inPacket i stack needed bytes" "stack \<noteq> []" "last stack \<in> inPacket \<union> needed"
  shows "search_inv sizes parents inPacket i (butlast stack) needed bytes"
proof -
  have "set stack = insert (last stack) (set (butlast stack))"
    using assms(2) by (metis append_butlast_last_id set_append Un_insert_right empty_set list.simps(15) sup_bot.right_neutral)
  then show ?thesis using assms(1,3) by (auto simp: search_inv_def)
qed

lemma search_visit:
  assumes "search_inv sizes parents inPacket i stack needed bytes" "stack \<noteq> []" "last stack \<notin> inPacket \<union> needed"
    "last stack < length parents" "finite needed"
  shows "search_inv sizes parents inPacket i (butlast stack @ parents ! last stack) (insert (last stack) needed) (bytes + sizes ! last stack)"
proof -
  have stack: "set stack = insert (last stack) (set (butlast stack))"
    using assms(2) by (metis append_butlast_last_id set_append Un_insert_right empty_set list.simps(15) sup_bot.right_neutral)
  have "last stack \<in> ancestors parents i" using assms(1) stack by (auto simp: search_inv_def)
  then have "set (parents ! last stack) \<subseteq> ancestors parents i" using ancestors_step assms(4) by blast
  moreover have "total_size sizes (insert (last stack) needed) = total_size sizes needed + sizes ! last stack"
    using assms(3,5) by (simp add: total_size_def)
  ultimately show ?thesis using assms(1,3) stack by (auto simp: search_inv_def)
qed

lemma find_needed_Ok:
  assumes "wf_parents sizes parents" "i < length parents" "search_inv sizes parents inPacket i stack needed bytes"
  shows "\<exists>needed' bytes'. find_needed sizes parents limit inPacket stack needed bytes = Ok (needed', bytes') \<and>
    (search_inv sizes parents inPacket i [] needed' bytes' \<or>
     limit < bytes' \<and> needed' \<subseteq> ancestors parents i \<and> bytes' = total_size sizes needed')"
  using assms
proof (induction sizes parents limit inPacket stack needed bytes rule: find_needed.induct)
  case (1 sizes parents limit inPacket stack needed bytes)
  note wf = "1.prems"(1) and inv = "1.prems"(3)
  show ?case
  proof (cases "stack = [] \<or> limit < bytes")
    case True
    then show ?thesis using inv by (cases "stack = []") (simp_all add: find_needed.simps, simp add: search_inv_def)
  next
    case False
    then have nonempty: "stack \<noteq> []" by simp
    show ?thesis
    proof (cases "last stack \<in> inPacket \<or> last stack \<in> needed")
      case True
      then have "search_inv sizes parents inPacket i (butlast stack) needed bytes" by (intro search_skip [OF inv nonempty]) simp
      from "1.IH"(1) [OF False refl refl True wf "1.prems"(2) this] show ?thesis
        using False True by (simp add: find_needed.simps [of sizes parents limit inPacket stack])
    next
      case visit: False
      have "last stack \<in> ancestors parents i" using inv nonempty by (auto simp: search_inv_def)
      then have j: "last stack < length parents" using ancestors_le [OF wf] "1.prems"(2) by fastforce
      have "finite needed" using inv finite_ancestors [OF wf] by (auto simp: search_inv_def intro: finite_subset)
      then have next_inv: "search_inv sizes parents inPacket i (butlast stack @ parents ! last stack) (insert (last stack) needed) (bytes + sizes ! last stack)"
        using visit by (intro search_visit [OF inv nonempty _ j]) auto
      have range: "\<not> (length sizes \<le> last stack \<or> length parents \<le> last stack)" using j wf by (simp add: wf_parents_def)
      from "1.IH"(2) [OF False refl refl visit range wf "1.prems"(2) next_inv] show ?thesis
        using False visit range by (simp add: find_needed.simps [of sizes parents limit inPacket stack] Let_def)
    qed
  qed
qed

section \<open>The packets\<close>

text \<open>Indices of a packet: none twice, and the parents of each before it.\<close>

definition standalone :: "nat list list \<Rightarrow> nat list \<Rightarrow> bool" where
  "standalone parents ixs \<longleftrightarrow> distinct ixs \<and> (\<forall>k < length ixs. ixs ! k < length parents \<and> set (parents ! (ixs ! k)) \<subseteq> set (take k ixs))"

lemma sorted_take:
  fixes xs :: "nat list"
  assumes "sorted xs" "y \<in> set xs" "k < length xs" "y < xs ! k"
  shows "y \<in> set (take k xs)"
proof -
  obtain m where m: "m < length xs" "xs ! m = y" using assms(2) by (auto simp: in_set_conv_nth)
  then have "m < k" using sorted_nth_mono [OF assms(1), of k m] assms(4) by fastforce
  then show ?thesis using m(2) assms(3) by (auto simp: in_set_conv_nth)
qed

lemma standalone_append:
  assumes "wf_parents sizes parents" "i < length parents" "standalone parents ixs" "search_inv sizes parents (set ixs) i [] needed bytes"
  shows "standalone parents (ixs @ sorted_list_of_set needed)"
proof -
  let ?new = "sorted_list_of_set needed"
  have needed: "needed \<subseteq> ancestors parents i" "needed \<inter> set ixs = {}" "\<forall>j \<in> needed. set (parents ! j) \<subseteq> needed \<union> set ixs"
    using assms(4) by (auto simp: search_inv_def)
  have fin: "finite needed" using finite_subset [OF needed(1) finite_ancestors [OF assms(1)]] .
  have range: "j < length parents" if "j \<in> needed" for j
    using ancestors_le [OF assms(1)] needed(1) assms(2) that by (meson le_less_trans subsetD)
  have "?new ! k < length parents \<and> set (parents ! (?new ! k)) \<subseteq> set ixs \<union> set (take k ?new)" if k: "k < length ?new" for k
  proof -
    have in_needed: "?new ! k \<in> needed" using k fin by (metis nth_mem set_sorted_list_of_set)
    have "p \<in> set (take k ?new)" if p: "p \<in> set (parents ! (?new ! k))" "p \<notin> set ixs" for p
    proof (rule sorted_take)
      show "p \<in> set ?new" using needed(3) in_needed p fin by auto
      show "p < ?new ! k" using assms(1) range [OF in_needed] p(1) by (simp add: wf_parents_def)
    qed (use k in simp_all)
    then show ?thesis using range [OF in_needed] by blast
  qed
  then show ?thesis
    using assms(3) needed(2) fin unfolding standalone_def by (auto simp: nth_append)
qed

text \<open>A packet of the transactions with indices \<open>ixs\<close> that is not too large.\<close>

definition packet_of :: "V2Transaction list \<Rightarrow> int list \<Rightarrow> nat list list \<Rightarrow> int \<Rightarrow> nat list \<Rightarrow> V2Transaction list \<Rightarrow> bool" where
  "packet_of txns sizes parents limit ixs packet \<longleftrightarrow> packet = map ((!) txns) ixs \<and> standalone parents ixs \<and>
     (ixs \<noteq> [] \<longrightarrow> total_size sizes (set ixs) \<le> limit)"

definition planned :: "plan_state \<Rightarrow> V2Transaction set" where
  "planned = (\<lambda>(sets, packet, inPacket, packetBytes). set packet \<union> (\<Union>s \<in> set sets. set (rs_txns s)))"

definition plan_inv :: "ChainIndex \<Rightarrow> V2Transaction list \<Rightarrow> int list \<Rightarrow> nat list list \<Rightarrow> int \<Rightarrow> nat \<Rightarrow> plan_state \<Rightarrow> bool" where
  "plan_inv basis txns sizes parents limit i st \<longleftrightarrow> (case st of (sets, packet, inPacket, packetBytes) \<Rightarrow>
     (\<exists>ixs. packet_of txns sizes parents limit ixs packet \<and> inPacket = set ixs \<and> packetBytes = total_size sizes (set ixs)) \<and>
     (\<forall>s \<in> set sets. rs_basis s = basis \<and> (\<exists>ixs. ixs \<noteq> [] \<and> packet_of txns sizes parents limit ixs (rs_txns s))) \<and>
     (\<forall>j < i. total_size sizes (ancestors parents j) \<le> limit \<longrightarrow> txns ! j \<in> planned st))"

lemma plan_inv_flush:
  assumes "plan_inv basis txns sizes parents limit i st"
  shows "plan_inv basis txns sizes parents limit i (flush_packet basis st)" "planned (flush_packet basis st) = planned st"
proof -
  obtain sets packet inPacket packetBytes where st: "st = (sets, packet, inPacket, packetBytes)" by (cases st)
  show planned: "planned (flush_packet basis st) = planned st" by (auto simp: st flush_packet_def planned_def)
  have "packet_of txns sizes parents limit [] []" by (simp add: packet_of_def standalone_def)
  moreover have "total_size sizes {} = 0" by (simp add: total_size_def)
  ultimately show "plan_inv basis txns sizes parents limit i (flush_packet basis st)"
    using assms planned unfolding plan_inv_def st by (auto simp: flush_packet_def packet_of_def split: if_splits)
qed

lemma ancestors_self: "i \<in> ancestors parents i"
  by (simp add: ancestors_def)

lemma search_start: "search_inv sizes parents inPacket i [i] {} 0"
  by (simp add: search_inv_def ancestors_self total_size_def)

text \<open>The transaction joins the packet when what it needs still fits.\<close>

lemma plan_inv_join:
  assumes "wf_parents sizes parents" "length txns = length parents" "i < length parents"
    "plan_inv basis txns sizes parents limit i (sets, packet, inPacket, packetBytes)"
    "search_inv sizes parents inPacket i [] needed bytes" "packetBytes + bytes \<le> limit"
  shows "plan_inv basis txns sizes parents limit (Suc i)
    (sets, packet @ map ((!) txns) (sorted_list_of_set needed), inPacket \<union> needed, packetBytes + bytes)"
proof -
  obtain ixs where ixs: "packet_of txns sizes parents limit ixs packet" "inPacket = set ixs" "packetBytes = total_size sizes (set ixs)"
    using assms(4) by (auto simp: plan_inv_def)
  have fin: "finite needed" using assms(5) finite_ancestors [OF assms(1)] by (auto simp: search_inv_def intro: finite_subset)
  let ?ixs = "ixs @ sorted_list_of_set needed"
  have set_ixs: "set ?ixs = inPacket \<union> needed" using fin ixs(2) by simp
  have "set ixs \<inter> needed = {}" "bytes = total_size sizes needed" using assms(5) ixs(2) by (auto simp: search_inv_def)
  then have bytes: "packetBytes + bytes = total_size sizes (set ?ixs)"
    using fin by (simp add: ixs(3) total_size_def sum.union_disjoint)
  have "standalone parents ?ixs"
    using standalone_append [OF assms(1,3)] ixs(1,2) assms(5) by (simp add: packet_of_def)
  then have packet: "packet_of txns sizes parents limit ?ixs (packet @ map ((!) txns) (sorted_list_of_set needed))"
    using ixs(1) bytes assms(6) by (simp add: packet_of_def)
  have "i \<in> inPacket \<union> needed" using assms(5) by (auto simp: search_inv_def)
  then have "txns ! i \<in> (!) txns ` set ?ixs" unfolding set_ixs by blast
  then have here: "txns ! i \<in> set (packet @ map ((!) txns) (sorted_list_of_set needed))"
    using packet by (simp only: packet_of_def set_map)
  show ?thesis
    unfolding plan_inv_def prod.case
  proof (intro conjI exI [of _ ?ixs])
    show "\<forall>j < Suc i. total_size sizes (ancestors parents j) \<le> limit \<longrightarrow>
        txns ! j \<in> planned (sets, packet @ map ((!) txns) (sorted_list_of_set needed), inPacket \<union> needed, packetBytes + bytes)"
      using assms(4) here by (auto simp: plan_inv_def planned_def less_Suc_eq)
  qed (use packet set_ixs bytes assms(4) in \<open>simp_all add: plan_inv_def\<close>)
qed

lemma search_result:
  assumes "wf_parents sizes parents" "i < length parents"
  obtains needed bytes where "find_needed sizes parents limit inPacket [i] {} 0 = Ok (needed, bytes)"
    "bytes \<le> limit \<longrightarrow> search_inv sizes parents inPacket i [] needed bytes"
    "bytes \<le> total_size sizes (ancestors parents i)"
proof -
  obtain needed bytes where found: "find_needed sizes parents limit inPacket [i] {} 0 = Ok (needed, bytes)"
      "search_inv sizes parents inPacket i [] needed bytes \<or>
       limit < bytes \<and> needed \<subseteq> ancestors parents i \<and> bytes = total_size sizes needed"
    using find_needed_Ok [OF assms search_start] by metis
  then have "needed \<subseteq> ancestors parents i" "bytes = total_size sizes needed" by (auto simp: search_inv_def)
  moreover have "\<forall>j \<in> ancestors parents i. j < length sizes"
    using ancestors_le [OF assms(1)] assms by (fastforce simp: wf_parents_def)
  ultimately have "bytes \<le> total_size sizes (ancestors parents i)"
    using total_size_mono [OF assms(1) _ _ finite_ancestors [OF assms(1)]] by simp
  then show thesis using that found by auto
qed

lemma plan_inv_skip:
  "plan_inv basis txns sizes parents limit i st \<Longrightarrow> limit < total_size sizes (ancestors parents i) \<Longrightarrow>
    plan_inv basis txns sizes parents limit (Suc i) st"
  by (auto simp: plan_inv_def less_Suc_eq)

lemma plan_txn_empty:
  assumes "wf_parents sizes parents" "length txns = length parents" "i < length parents"
    "plan_inv basis txns sizes parents limit i (sets, [], inPacket, packetBytes)"
  shows "\<exists>st. plan_txn basis txns sizes parents limit i (sets, [], inPacket, packetBytes) = Ok st \<and>
    plan_inv basis txns sizes parents limit (Suc i) st"
proof -
  obtain needed bytes where found: "find_needed sizes parents limit inPacket [i] {} 0 = Ok (needed, bytes)"
    "bytes \<le> limit \<longrightarrow> search_inv sizes parents inPacket i [] needed bytes" "bytes \<le> total_size sizes (ancestors parents i)"
    using search_result [OF assms(1,3), of limit inPacket] .
  have "packetBytes = 0" using assms(4) by (auto simp: plan_inv_def packet_of_def total_size_def)
  show ?thesis
  proof (cases "limit < bytes")
    case True
    then show ?thesis using found(1,3) plan_inv_skip [OF assms(4)] by (simp add: plan_txn.simps)
  next
    case False
    then show ?thesis
      using found(1) plan_inv_join [OF assms(1-4), of needed bytes] found(2) \<open>packetBytes = 0\<close> by (simp add: plan_txn.simps)
  qed
qed

lemma plan_txn_Ok:
  assumes "wf_parents sizes parents" "length txns = length parents" "i < length parents"
    "plan_inv basis txns sizes parents limit i st"
  shows "\<exists>st'. plan_txn basis txns sizes parents limit i st = Ok st' \<and> plan_inv basis txns sizes parents limit (Suc i) st'"
proof -
  obtain sets packet inPacket packetBytes where st: "st = (sets, packet, inPacket, packetBytes)" by (cases st)
  note inv = assms(4) [unfolded st]
  obtain needed bytes where found: "find_needed sizes parents limit inPacket [i] {} 0 = Ok (needed, bytes)"
    "bytes \<le> limit \<longrightarrow> search_inv sizes parents inPacket i [] needed bytes"
    using search_result [OF assms(1,3)] by metis
  show ?thesis
  proof (cases "packet = [] \<or> limit < packetBytes + bytes")
    case True
    show ?thesis
    proof (cases "packet = []")
      case True
      then show ?thesis using plan_txn_empty [OF assms(1-3)] inv by (simp add: st)
    next
      case False
      then have "plan_txn basis txns sizes parents limit i st = plan_txn basis txns sizes parents limit i (flush_packet basis st)"
        using True found(1) by (simp add: st plan_txn.simps [of _ _ _ _ _ _ sets packet])
      moreover have "flush_packet basis st = (fst (flush_packet basis st), [], {}, 0)" by (simp add: st flush_packet_def)
      ultimately show ?thesis
        using plan_txn_empty [OF assms(1-3)] plan_inv_flush(1) [OF assms(4)] by metis
    qed
  next
    case False
    then obtain ixs where ixs: "standalone parents ixs" "packetBytes = total_size sizes (set ixs)"
      using inv by (auto simp: plan_inv_def packet_of_def)
    then have "set ixs \<subseteq> {..<length sizes}" using assms(1) by (auto simp: standalone_def in_set_conv_nth wf_parents_def)
    then have "0 \<le> packetBytes" using assms(1) unfolding ixs(2) total_size_def wf_parents_def by (intro sum_nonneg) auto
    then show ?thesis
      using False found plan_inv_join [OF assms(1-3) inv, of needed bytes] by (simp add: st plan_txn.simps)
  qed
qed

section \<open>What the plan promises\<close>

lemma plan_loop:
  assumes "wf_parents sizes parents" "length txns = length parents" "k \<le> length parents"
  shows "\<exists>st. fold_res (plan_txn basis txns sizes parents limit) [0..<k] ([], [], {}, 0) = Ok st \<and>
    plan_inv basis txns sizes parents limit k st"
  using assms(3)
proof (induction k)
  case 0
  have "packet_of txns sizes parents limit [] []" by (simp add: packet_of_def standalone_def)
  then show ?case by (auto simp: plan_inv_def total_size_def)
next
  case (Suc k)
  then obtain st where st: "fold_res (plan_txn basis txns sizes parents limit) [0..<k] ([], [], {}, 0) = Ok st"
    "plan_inv basis txns sizes parents limit k st" by auto
  moreover from plan_txn_Ok [OF assms(1,2) _ st(2)] Suc.prems obtain st' where
    "plan_txn basis txns sizes parents limit k st = Ok st'" "plan_inv basis txns sizes parents limit (Suc k) st'" by auto
  ultimately show ?case by (intro exI [of _ st']) (simp add: fold_res_append)
qed

lemma packet_parents_first:
  assumes "\<forall>k < length txns. parents_of c txns k (parents ! k)" "length parents = length txns"
    "packet_of txns sizes parents limit ixs packet"
  shows "parents_first c packet"
  unfolding parents_first_def
proof (intro allI impI ballI)
  fix k oid
  assume k: "k < length packet" and oid: "oid \<in> set (unconfirmed_ids (packet ! k))"
  have packet: "packet = map ((!) txns) ixs" and ixs: "\<forall>k < length ixs. ixs ! k < length parents \<and> set (parents ! (ixs ! k)) \<subseteq> set (take k ixs)"
    using assms(3) by (auto simp: packet_of_def standalone_def)
  have len: "k < length ixs" using k packet by simp
  then have "oid \<in> set (unconfirmed_ids (txns ! (ixs ! k)))" "ixs ! k < length txns" using oid packet ixs assms(2) by auto
  then obtain p where p: "p \<in> set (parents ! (ixs ! k))" "oid \<in> set (created_ids c (txns ! p))"
    using assms(1) unfolding parents_of_def by blast
  then have "p \<in> set (take k ixs)" using ixs len by blast
  then obtain m where "m < k" "ixs ! m = p" using len by (auto simp: in_set_conv_nth)
  then show "\<exists>p < k. oid \<in> set (created_ids c (packet ! p))" using p(2) len packet by (intro exI [of _ m]) simp
qed

lemma packet_size:
  assumes "packet_of txns (map encoded_size txns) parents limit ixs packet" "ixs \<noteq> []" "length parents = length txns"
  shows "sum_list (map encoded_size packet) \<le> limit"
proof -
  have ixs: "distinct ixs" "set ixs \<subseteq> {..<length txns}" "packet = map ((!) txns) ixs"
    using assms(1,3) by (auto simp: packet_of_def standalone_def in_set_conv_nth)
  then have "sum_list (map encoded_size packet) = (\<Sum>j \<in> set ixs. encoded_size (txns ! j))"
    by (simp add: comp_def sum_list_distinct_conv_sum_set)
  also have "\<dots> = total_size (map encoded_size txns) (set ixs)"
    unfolding total_size_def using ixs(2) by (intro sum.cong) auto
  finally show ?thesis using assms(1,2) by (simp add: packet_of_def)
qed

lemma relay_plan:
  assumes "parents_first c txns"
  obtains sets parents where "qdayPoolRelayPlan c basis txns maxRequestBytes = Ok sets" "scan_parents c 0 txns Map.empty = Ok parents"
    "\<forall>s \<in> set sets. rs_basis s = basis \<and> rs_txns s \<noteq> [] \<and> parents_first c (rs_txns s) \<and>
       sum_list (map encoded_size (rs_txns s)) + 48 \<le> maxRequestBytes"
    "\<forall>i < length txns. total_size (map encoded_size txns) (ancestors parents i) + 48 \<le> maxRequestBytes \<longrightarrow>
       (\<exists>s \<in> set sets. txns ! i \<in> set (rs_txns s))"
proof -
  let ?sizes = "map encoded_size txns" and ?limit = "maxRequestBytes - 48"
  have start: "creates c [] Map.empty" by (simp add: creates_def)
  obtain parents where scan: "scan_parents c 0 txns Map.empty = Ok parents"
    using scan_parents_total [OF start, of txns] assms by (auto simp: parents_first_def)
  have parents: "length parents = length txns" "\<forall>k < length txns. parents_of c txns k (parents ! k)"
    using scan_parents_Ok [OF _ start, of txns parents] scan by simp_all
  have wf: "wf_parents ?sizes parents" using parents by (auto simp: wf_parents_def parents_of_def encoded_size_def)
  obtain st where st: "fold_res (plan_txn basis txns ?sizes parents ?limit) [0..<length txns] ([], [], {}, 0) = Ok st"
      "plan_inv basis txns ?sizes parents ?limit (length txns) st"
    using plan_loop [OF wf parents(1) [symmetric], of "length txns" basis ?limit] parents(1) by auto
  obtain sets where flushed: "flush_packet basis st = (sets, [], {}, 0)" by (cases st) (simp add: flush_packet_def)
  have inv: "plan_inv basis txns ?sizes parents ?limit (length txns) (sets, [], {}, 0)"
    using plan_inv_flush(1) [OF st(2)] by (simp add: flushed)
  show thesis
  proof (rule that)
    show "qdayPoolRelayPlan c basis txns maxRequestBytes = Ok sets"
      using scan st(1) flushed by (simp add: qdayPoolRelayPlan_def)
    show "\<forall>s \<in> set sets. rs_basis s = basis \<and> rs_txns s \<noteq> [] \<and> parents_first c (rs_txns s) \<and>
        sum_list (map encoded_size (rs_txns s)) + 48 \<le> maxRequestBytes"
    proof
      fix s
      assume "s \<in> set sets"
      then obtain ixs where s: "rs_basis s = basis" "ixs \<noteq> []" "packet_of txns ?sizes parents ?limit ixs (rs_txns s)"
        using inv by (auto simp: plan_inv_def)
      then show "rs_basis s = basis \<and> rs_txns s \<noteq> [] \<and> parents_first c (rs_txns s) \<and>
          sum_list (map encoded_size (rs_txns s)) + 48 \<le> maxRequestBytes"
        using packet_parents_first [OF parents(2,1) s(3)] packet_size [OF s(3,2) parents(1)] by (simp add: packet_of_def)
    qed
    show "\<forall>i < length txns. total_size ?sizes (ancestors parents i) + 48 \<le> maxRequestBytes \<longrightarrow>
        (\<exists>s \<in> set sets. txns ! i \<in> set (rs_txns s))"
      using inv by (auto simp: plan_inv_def planned_def)
  qed (rule scan)
qed

end
