(* ===== verification/RelayPlanProperties.thy ===== *)
theory RelayPlanProperties
  imports RelayPlan ManagerProperties
begin

text \<open>
  The plan by which a node offers its transaction pool to a peer, applied to the pool of the chain manager.
\<close>

lemma created_in_ids: "created_in c s txns oid sce \<Longrightarrow> \<exists>p < length txns. oid \<in> set (created_ids c (txns ! p))"
  by (fastforce simp: created_in_def created_ids_def in_set_conv_nth [of _ txns])

text \<open>The transactions of a list that was validated one after the other spend only earlier outputs.\<close>

lemma validated_parents_first:
  assumes "fold_res (add_v2txn c) txns (NewMidState s) = Ok ms" "n_Qday (s_Network s) = Some p"
    "n_V2_EphemeralOutputHeight (s_Network s) \<le> childHeight s"
  shows "parents_first c txns"
proof -
  have "transfer_ok c s p (before @ take i txns) (txns ! i)"
    if "fold_res (add_v2txn c) txns ms0 = Ok ms" "wf_ms ms0" "ms_base ms0 = s" "fresh_coins c before ms0" "i < length txns"
    for i before ms0 txns
    using that
  proof (induction txns arbitrary: before ms0 i)
    case (Cons txn txns)
    from Cons.prems(1) obtain ms1 where ms1: "add_v2txn c txn ms0 = Ok ms1" "fold_res (add_v2txn c) txns ms1 = Ok ms"
      by (auto simp: res_simps)
    have "check_step c s 3 1 txn ms0 = Ok ms1" "\<not> is_marker s 3 1" using ms1(1) by (simp_all add: check_step_def is_marker_def add_v2txn_def)
    note st = check_step_Ok [OF this(1) Cons.prems(2,3) assms(2,3) Cons.prems(4)]
    show ?case using Cons.IH [OF ms1(2), of "before @ [txn]"] st \<open>\<not> is_marker s 3 1\<close> Cons.prems(5) by (cases i) simp_all
  qed simp
  from this [OF assms(1) wf_NewMidState, of "[]"] have ok: "transfer_ok c s p (take k txns) (txns ! k)" if "k < length txns" for k
    using that fresh_NewMidState by (simp add: NewMidState_def)
  show ?thesis
    unfolding parents_first_def
  proof (intro allI impI ballI)
    fix k oid
    assume k: "k < length txns" and "oid \<in> set (unconfirmed_ids (txns ! k))"
    then obtain sci where "sci \<in> set (v2_SiacoinInputs (txns ! k))" "oid = sce_ID (v2sci_Parent sci)"
      "se_LeafIndex (sce_StateElement (v2sci_Parent sci)) = UnassignedLeafIndex" by (auto simp: unconfirmed_ids_def)
    moreover from this(1) have "spendable_input c s (take k txns) sci" using ok [OF k] by (simp add: transfer_ok_def)
    ultimately obtain sce where "created_in c s (take k txns) oid sce" by (auto simp: spendable_input_def Let_def)
    from created_in_ids [OF this] show "\<exists>p < k. oid \<in> set (created_ids c (txns ! p))" using k by auto
  qed
qed

text \<open>C16: the pool reaches a peer. Whatever transaction sets the pool was built from, the plan for its
  transactions exists. Every request of it names the tip, is not larger than allowed and is a set of its own:
  each transaction spends confirmed outputs or outputs of transactions before it in the same request. Every
  transaction whose unconfirmed ancestors, as the parent scan finds them, fit into one request together with it is
  in some request.\<close>

theorem relay_plan_covers_pool:
  assumes "v2_only m0" "tp_ms (m_txpool m0) = None" "pool_run c m0 m" "V2PoolTransactions c perm m = Ok (txns, m')"
    "n_Qday (s_Network (m_tipState m0)) = Some p"
    "n_V2_EphemeralOutputHeight (s_Network (m_tipState m0)) \<le> childHeight (m_tipState m0)"
  shows "\<exists>sets parents. qdayPoolRelayPlan c (Tip m) txns maxRequestBytes = Ok sets \<and>
    scan_parents c 0 txns Map.empty = Ok parents \<and>
    (\<forall>s \<in> set sets. rs_basis s = Tip m \<and> rs_txns s \<noteq> [] \<and> parents_first c (rs_txns s) \<and>
       sum_list (map encoded_size (rs_txns s)) + 48 \<le> maxRequestBytes) \<and>
    (\<forall>i < length txns. total_size (map encoded_size txns) (ancestors parents i) + 48 \<le> maxRequestBytes \<longrightarrow>
       (\<exists>s \<in> set sets. txns ! i \<in> set (rs_txns s)))"
proof -
  note ok = pool_run_ok [OF assms(3,1,2)]
  then have "v2_only m" using assms(1) by (simp add: v2_only_def)
  from V2PoolTransactions_ok [OF assms(4) this] ok obtain ms where
    "fold_res (add_v2txn c) txns (NewMidState (m_tipState m0)) = Ok ms" by auto
  from validated_parents_first [OF this assms(5,6)] have "parents_first c txns" .
  from relay_plan [OF this] show ?thesis by metis
qed

theorem relay_plan_covers_pool_witness:
  "\<exists>m' sets. V2PoolTransactions sc id sample_pool_manager = Ok ([canary_proof], m') \<and>
     qdayPoolRelayPlan sc (Tip sample_pool_manager) [canary_proof] (total_size [encoded_size canary_proof] {0} + 48) = Ok sets \<and>
     canary_proof \<in> (\<Union>s \<in> set sets. set (rs_txns s))"
proof -
  obtain m' where pool: "V2PoolTransactions sc id sample_pool_manager = Ok ([canary_proof], m')" using sample_pool_read .
  have tip: "m_tipState sample_pool_manager = sample_parent" by (simp add: sample_pool_manager_def NewManager_def)
  have "n_V2_EphemeralOutputHeight (s_Network sample_parent) \<le> childHeight sample_parent"
    using sample_qday_state by (simp add: qday_state_def)
  from relay_plan_covers_pool [OF sample_pool_v2_only pool_start pool, where p = sample_params
      and maxRequestBytes = "total_size [encoded_size canary_proof] {0} + 48"] this
  obtain sets parents where plan: "qdayPoolRelayPlan sc (Tip sample_pool_manager) [canary_proof]
      (total_size [encoded_size canary_proof] {0} + 48) = Ok sets" "scan_parents sc 0 [canary_proof] Map.empty = Ok parents"
    "total_size [encoded_size canary_proof] (ancestors parents 0) + 48 \<le> total_size [encoded_size canary_proof] {0} + 48 \<longrightarrow>
       (\<exists>s \<in> set sets. canary_proof \<in> set (rs_txns s))"
    unfolding tip by auto
  have "unconfirmed_ids canary_proof = []"
    by (simp add: unconfirmed_ids_def canary_proof_fields sample_coin_def UnassignedLeafIndex_def)
  then have "parents = [[]]" using plan(2) by simp
  then have "ancestors parents 0 = {0}" by (auto simp: ancestors_def parent_rel_def elim: rtranclE)
  then show ?thesis using pool plan(1,3) by auto
qed

end
