(* ===== verification/RelayBudget.thy ===== *)
theory RelayBudget
  imports Prelude "HOL-Library.Multiset"
begin

text \<open>
  The limits on requests that are handled at the same time: \<^verbatim>\<open>coreutils/syncer/relay_budget.go\<close> for large
  payloads, \<^verbatim>\<open>acquireInflight\<close> and \<^verbatim>\<open>releaseInflight\<close> of \<^verbatim>\<open>coreutils/syncer/syncer.go\<close> for the requests of a
  subnet. Both are counters of slots; the interface of such counters and what a client may rely on are
  stated once.
\<close>

section \<open>The counters\<close>

definition maxRelayPayloads :: int where
  "maxRelayPayloads = 8"

definition maxPeerRelayPayloads :: int where
  "maxPeerRelayPayloads = 2"

text \<open>A peer is a pointer; a missing key of a map reads as 0.\<close>

record 'p relayPayloadBudget =
  rb_active :: int
  rb_peers :: "'p \<rightharpoonup> int"

definition count_of :: "('k \<rightharpoonup> int) \<Rightarrow> 'k \<Rightarrow> int" where
  "count_of m k = (case m k of Some n \<Rightarrow> n | None \<Rightarrow> 0)"

definition budget_acquire :: "'p \<Rightarrow> 'p relayPayloadBudget \<Rightarrow> bool \<times> 'p relayPayloadBudget" where
  "budget_acquire p b =
     (if maxRelayPayloads \<le> rb_active b \<or> maxPeerRelayPayloads \<le> count_of (rb_peers b) p then (False, b)
      else (True, b\<lparr>rb_peers := (rb_peers b)(p \<mapsto> count_of (rb_peers b) p + 1), rb_active := rb_active b + 1\<rparr>))"

definition budget_release :: "'p \<Rightarrow> 'p relayPayloadBudget \<Rightarrow> 'p relayPayloadBudget" where
  "budget_release p b =
     (let n = count_of (rb_peers b) p - 1
      in b\<lparr>rb_active := rb_active b - 1, rb_peers := (if n = 0 then (rb_peers b)(p := None) else (rb_peers b)(p \<mapsto> n))\<rparr>)"

definition acquireInflight :: "int \<Rightarrow> string \<Rightarrow> (string \<rightharpoonup> int) \<Rightarrow> bool \<times> (string \<rightharpoonup> int)" where
  "acquireInflight limit key inflight =
     (if key = [] \<or> limit \<le> 0 then (True, inflight)
      else if limit \<le> count_of inflight key then (False, inflight)
      else (True, inflight(key \<mapsto> count_of inflight key + 1)))"

definition releaseInflight :: "int \<Rightarrow> string \<Rightarrow> (string \<rightharpoonup> int) \<Rightarrow> (string \<rightharpoonup> int)" where
  "releaseInflight limit key inflight =
     (if key = [] \<or> limit \<le> 0 then inflight
      else let n = count_of inflight key - 1
        in if n \<le> 0 then inflight(key := None) else inflight(key \<mapsto> n))"

section \<open>The interface\<close>

datatype 'k slot_event = Acquire 'k | Release 'k

text \<open>
  A sequence of events with the slots that are held. A handler releases a slot only if it was granted one.
\<close>

fun slot_run :: "('k \<Rightarrow> 's \<Rightarrow> bool \<times> 's) \<Rightarrow> ('k \<Rightarrow> 's \<Rightarrow> 's) \<Rightarrow> 'k slot_event list \<Rightarrow> 's \<times> 'k multiset \<Rightarrow> 's \<times> 'k multiset" where
  "slot_run acquire release [] st = st"
| "slot_run acquire release (Acquire k # es) (s, held) =
     slot_run acquire release es (case acquire k s of (granted, s) \<Rightarrow> (s, if granted then add_mset k held else held))"
| "slot_run acquire release (Release k # es) (s, held) =
     slot_run acquire release es (if k \<in># held then (release k s, held - {#k#}) else (s, held))"

text \<open>\<open>counts s held\<close>: the counters of \<open>s\<close> are those of the slots \<open>held\<close>; \<open>room held k\<close>: another slot may be granted to \<open>k\<close>.\<close>

locale slot_counter =
  fixes acquire :: "'k \<Rightarrow> 's \<Rightarrow> bool \<times> 's" and release :: "'k \<Rightarrow> 's \<Rightarrow> 's"
    and counts :: "'s \<Rightarrow> 'k multiset \<Rightarrow> bool" and room :: "'k multiset \<Rightarrow> 'k \<Rightarrow> bool"
  assumes grants: "counts s held \<Longrightarrow> fst (acquire k s) = room held k"
    and acquired: "counts s held \<Longrightarrow> room held k \<Longrightarrow> counts (snd (acquire k s)) (add_mset k held)"
    and refused: "counts s held \<Longrightarrow> \<not> room held k \<Longrightarrow> counts (snd (acquire k s)) held"
    and released: "counts s held \<Longrightarrow> k \<in># held \<Longrightarrow> counts (release k s) (held - {#k#})"
begin

lemma run_counts:
  assumes "counts s held" "slot_run acquire release es (s, held) = (s', held')"
  shows "counts s' held'"
  using assms
proof (induction es arbitrary: s held)
  case (Cons e es)
  show ?case
  proof (cases e)
    case (Acquire k)
    obtain granted t where t: "acquire k s = (granted, t)" by (cases "acquire k s")
    have "counts t (if granted then add_mset k held else held)"
      using grants [OF Cons.prems(1), of k] acquired [OF Cons.prems(1), of k] refused [OF Cons.prems(1), of k] t by simp
    with Cons.IH show ?thesis using Cons.prems(2) by (simp add: Acquire t)
  next
    case (Release k)
    with Cons.IH Cons.prems released [OF Cons.prems(1), of k] show ?thesis by (auto split: if_splits)
  qed
qed simp

end

section \<open>Large payloads\<close>

definition budget_counts :: "'p relayPayloadBudget \<Rightarrow> 'p multiset \<Rightarrow> bool" where
  "budget_counts b held \<longleftrightarrow> rb_active b = int (size held) \<and> rb_active b \<le> maxRelayPayloads \<and>
     (\<forall>p. rb_peers b p = (if count held p = 0 then None else Some (int (count held p))) \<and> int (count held p) \<le> maxPeerRelayPayloads)"

definition budget_room :: "'p multiset \<Rightarrow> 'p \<Rightarrow> bool" where
  "budget_room held p \<longleftrightarrow> int (size held) < maxRelayPayloads \<and> int (count held p) < maxPeerRelayPayloads"

lemma budget_count_of: "budget_counts b held \<Longrightarrow> count_of (rb_peers b) p = int (count held p)"
  by (simp add: budget_counts_def count_of_def)

lemma budget_active: "budget_counts b held \<Longrightarrow> rb_active b = int (size held)"
  by (simp add: budget_counts_def)

interpretation budget: slot_counter budget_acquire budget_release budget_counts budget_room
proof (unfold_locales, goal_cases)
  case (1 s held k)
  then show ?case by (auto simp: budget_acquire_def budget_room_def budget_count_of budget_active)
next
  case (2 s held k)
  then have "snd (budget_acquire k s) =
      s\<lparr>rb_peers := (rb_peers s)(k \<mapsto> int (count held k) + 1), rb_active := int (size held) + 1\<rparr>"
    by (simp add: budget_acquire_def budget_room_def budget_count_of budget_active)
  with 2 show ?case by (auto simp: budget_counts_def budget_room_def not_in_iff)
next
  case (3 s held k)
  then show ?case by (auto simp: budget_acquire_def budget_room_def budget_count_of budget_active)
next
  case (4 s held k)
  then obtain n where n: "count held k = Suc n" by (metis not0_implies_Suc not_in_iff)
  have "size (held - {#k#}) = size held - 1" "0 < size held"
    using 4(2) by (auto simp: size_Diff_singleton nonempty_has_size [symmetric])
  moreover have "int (Suc n) \<le> maxPeerRelayPayloads" using 4(1) n unfolding budget_counts_def by metis
  moreover have "budget_release k s = s\<lparr>rb_active := rb_active s - 1,
      rb_peers := (if n = 0 then (rb_peers s)(k := None) else (rb_peers s)(k \<mapsto> int n))\<rparr>"
    by (simp add: budget_release_def Let_def budget_count_of [OF 4(1)] n)
  ultimately show ?case using 4(1) n by (auto simp: budget_counts_def not_in_iff)
qed

section \<open>Requests of a subnet\<close>

definition inflight_counts :: "int \<Rightarrow> (string \<rightharpoonup> int) \<Rightarrow> string multiset \<Rightarrow> bool" where
  "inflight_counts limit inflight held \<longleftrightarrow> (\<forall>key.
     inflight key = (if key = [] \<or> limit \<le> 0 \<or> count held key = 0 then None else Some (int (count held key))) \<and>
     (key \<noteq> [] \<longrightarrow> 0 < limit \<longrightarrow> int (count held key) \<le> limit))"

definition inflight_room :: "int \<Rightarrow> string multiset \<Rightarrow> string \<Rightarrow> bool" where
  "inflight_room limit held key \<longleftrightarrow> key = [] \<or> limit \<le> 0 \<or> int (count held key) < limit"

lemma inflight_count_of:
  "inflight_counts limit inflight held \<Longrightarrow> key \<noteq> [] \<Longrightarrow> 0 < limit \<Longrightarrow> count_of inflight key = int (count held key)"
  by (simp add: inflight_counts_def count_of_def)

interpretation inflight: slot_counter "acquireInflight limit" "releaseInflight limit" "inflight_counts limit" "inflight_room limit"
  for limit :: int
proof (unfold_locales, goal_cases)
  case (1 s held k)
  then show ?case by (auto simp: acquireInflight_def inflight_room_def inflight_count_of)
next
  case (2 s held k)
  then show ?case by (auto simp: acquireInflight_def inflight_room_def inflight_count_of) (auto simp: inflight_counts_def not_in_iff)
next
  case (3 s held k)
  then show ?case by (auto simp: acquireInflight_def inflight_room_def inflight_count_of)
next
  case (4 s held k)
  show ?case
  proof (cases "k = [] \<or> limit \<le> 0")
    case True
    with 4 show ?thesis by (auto simp: releaseInflight_def inflight_counts_def in_diff_count)
  next
    case False
    then have "count_of s k = int (count held k)" using inflight_count_of 4(1) by fastforce
    with 4 False show ?thesis
      by (auto simp: releaseInflight_def Let_def inflight_counts_def in_diff_count not_in_iff of_nat_diff)
  qed
qed

section \<open>Properties\<close>

text \<open>C33: large payloads are bounded. In whatever order peers send transaction sets and block outlines and
  handlers finish, at most 8 are handled at the same time and at most 2 of one peer; the counters are
  exactly the slots that are held, and a request is refused only when one of the limits is reached.\<close>

theorem relay_payloads_are_bounded:
  assumes "slot_run budget_acquire budget_release es (\<lparr>rb_active = 0, rb_peers = Map.empty\<rparr>, {#}) = (b, held)"
  shows "rb_active b = int (size held) \<and> size held \<le> 8 \<and> count held p \<le> 2 \<and> count_of (rb_peers b) p = int (count held p) \<and>
    (fst (budget_acquire p b) \<longleftrightarrow> size held < 8 \<and> count held p < 2)"
proof -
  have "budget_counts \<lparr>rb_active = 0, rb_peers = Map.empty\<rparr> {#}"
    by (simp add: budget_counts_def maxRelayPayloads_def maxPeerRelayPayloads_def)
  note counts = budget.run_counts [OF this assms]
  have "rb_active b \<le> 8" "int (count held p) \<le> 2"
    using counts by (auto simp: budget_counts_def maxRelayPayloads_def maxPeerRelayPayloads_def)
  then show ?thesis
    using budget_active [OF counts] budget_count_of [OF counts, of p] budget.grants [OF counts, of p]
    by (auto simp: budget_room_def maxRelayPayloads_def maxPeerRelayPayloads_def)
qed

theorem relay_payloads_are_bounded_witness:
  "\<exists>b. slot_run budget_acquire budget_release [Acquire (1 :: nat), Acquire 1, Acquire 1, Acquire 2, Release 1]
      (\<lparr>rb_active = 0, rb_peers = Map.empty\<rparr>, {#}) = (b, {#1, 2#}) \<and> rb_active b = 2 \<and> count_of (rb_peers b) 1 = 1"
proof -
  obtain b where b: "slot_run budget_acquire budget_release [Acquire (1 :: nat), Acquire 1, Acquire 1, Acquire 2, Release 1]
      (\<lparr>rb_active = 0, rb_peers = Map.empty\<rparr>, {#}) = (b, {#1, 2#})"
    by (simp add: budget_acquire_def maxRelayPayloads_def maxPeerRelayPayloads_def count_of_def)
  with relay_payloads_are_bounded [OF b, of 1] show ?thesis by auto
qed

end
