(* ===== verification/Amounts.thy ===== *)
theory Amounts
  imports Complex_Main Bech32 QdayNetwork
begin

text \<open>
  Amounts as text: printing and parsing of \<^verbatim>\<open>Currency\<close> (\<^verbatim>\<open>core/types/currency.go\<close>), the decimal amounts of the wallet
  and the canonical atomic integers of its programming interface (\<^verbatim>\<open>node/qday/service.go\<close>,
  \<^verbatim>\<open>node/qday/pool_payout.go\<close>). Go strings are byte lists. The parser of rational numbers of \<^verbatim>\<open>math/big\<close> is a
  parameter: only amounts with a unit suffix reach it.
\<close>

section \<open>Decimal numerals\<close>

definition digit :: "nat \<Rightarrow> byte" where
  "digit n = 48 + word_of_nat n"

definition is_digit :: "byte \<Rightarrow> bool" where
  "is_digit b \<longleftrightarrow> 48 \<le> b \<and> b \<le> 57"

definition digit_value :: "byte \<Rightarrow> nat" where
  "digit_value b = unat (b - 48)"

text \<open>\<^verbatim>\<open>String\<close> of a natural \<^verbatim>\<open>big.Int\<close>.\<close>

fun decimal :: "nat \<Rightarrow> byte list" where
  "decimal n = (if n < 10 then [digit n] else decimal (n div 10) @ [digit (n mod 10)])"

declare decimal.simps [simp del]

definition numeral_value :: "byte list \<Rightarrow> nat" where
  "numeral_value s = foldl (\<lambda>n b. 10 * n + digit_value b) 0 s"

definition is_numeral :: "byte list \<Rightarrow> bool" where
  "is_numeral s \<longleftrightarrow> s \<noteq> [] \<and> list_all is_digit s"

text \<open>\<^verbatim>\<open>SetString\<close> of a \<^verbatim>\<open>big.Int\<close> in base 10: an optional sign and digits.\<close>

definition int_SetString :: "byte list \<Rightarrow> int option" where
  "int_SetString s = (case s of
      [] \<Rightarrow> None
    | b # rest \<Rightarrow>
        if b = 45 then (if is_numeral rest then Some (- int (numeral_value rest)) else None)
        else if b = 43 then (if is_numeral rest then Some (int (numeral_value rest)) else None)
        else if is_numeral s then Some (int (numeral_value s)) else None)"

definition int_String :: "int \<Rightarrow> byte list" where
  "int_String i = (if i < 0 then 45 # decimal (nat (- i)) else decimal (nat i))"

section \<open>Currency as text\<close>

definition ExactString :: "Currency \<Rightarrow> byte list" where
  "ExactString v = decimal (cval v)"

definition trim_right_zeros :: "byte list \<Rightarrow> byte list" where
  "trim_right_zeros s = rev (dropWhile (\<lambda>b. b = 48) (rev s))"

definition currency_suffixes :: "byte list list" where
  "currency_suffixes = map ascii [''pS'', ''nS'', ''uS'', ''mS'', ''SC'', ''KS'', ''MS'', ''GS'', ''TS'']"

definition Currency_String :: "Currency \<Rightarrow> byte list" where
  "Currency_String c =
     (if Currency_IsZero c then ascii ''0 SC''
      else let s = decimal (cval c); u = (length s - 1) div 3 in
        if u < 4 then s @ ascii '' H''
        else let u = min u 12;
                 mant = take (length s - u * 3) s;
                 frac = trim_right_zeros (drop (length s - u * 3) s);
                 mant = (if frac \<noteq> [] then mant @ [46] @ frac else mant)
          in mant @ [32] @ currency_suffixes ! (u - 4))"

definition parseHastings :: "byte list \<Rightarrow> Currency res" where
  "parseHastings s = (case int_SetString s of
      None \<Rightarrow> Err ''not an integer''
    | Some i \<Rightarrow>
        if i < 0 then Err ''value cannot be negative''
        else if 2 ^ 128 \<le> i then Err ''value overflows Currency representation''
        else Ok (NewCurrency (word_of_int i) (word_of_int (i div 2 ^ 64))))"

text \<open>The white space of \<^verbatim>\<open>unicode.IsSpace\<close> in UTF-8.\<close>

definition white_space :: "byte list list" where
  "white_space = map (\<lambda>b. [b]) [9, 10, 11, 12, 13, 32] @ [[0xc2, 0x85], [0xc2, 0xa0], [0xe1, 0x9a, 0x80]] @
     map (\<lambda>b. [0xe2, 0x80, b]) [0x80, 0x81, 0x82, 0x83, 0x84, 0x85, 0x86, 0x87, 0x88, 0x89, 0x8a, 0xa8, 0xa9, 0xaf] @
     [[0xe2, 0x81, 0x9f], [0xe3, 0x80, 0x80]]"

fun trim_left :: "byte list \<Rightarrow> byte list" where
  "trim_left [] = []"
| "trim_left (a # s) =
     (if [a] \<in> set white_space then trim_left s
      else case s of
          b # t \<Rightarrow>
            if [a, b] \<in> set white_space then trim_left t
            else (case t of
                c # u \<Rightarrow> if [a, b, c] \<in> set white_space then trim_left u else a # s
              | [] \<Rightarrow> a # s)
        | [] \<Rightarrow> a # s)"

fun trim_right_rev :: "byte list \<Rightarrow> byte list" where
  "trim_right_rev [] = []"
| "trim_right_rev (a # s) =
     (if [a] \<in> set white_space then trim_right_rev s
      else case s of
          b # t \<Rightarrow>
            if [b, a] \<in> set white_space then trim_right_rev t
            else (case t of
                c # u \<Rightarrow> if [c, b, a] \<in> set white_space then trim_right_rev u else a # s
              | [] \<Rightarrow> a # s)
        | [] \<Rightarrow> a # s)"

definition TrimSpace :: "byte list \<Rightarrow> byte list" where
  "TrimSpace s = rev (trim_right_rev (rev (trim_left s)))"

definition currency_unit :: "byte list \<Rightarrow> nat option" where
  "currency_unit s = map_of (zip currency_suffixes (map (\<lambda>e. 10 ^ e) [12, 15, 18, 21, 24, 27, 30, 33, 36])) s"

text \<open>The number ends at the last digit or point of \<open>s\<close>.\<close>

definition number_part :: "byte list \<Rightarrow> byte list \<times> byte list" where
  "number_part s = (let rest = takeWhile (\<lambda>b. \<not> (is_digit b \<or> b = 46)) (rev s)
     in (take (length s - length rest) s, rev rest))"

definition ParseCurrency :: "(byte list \<Rightarrow> rat option) \<Rightarrow> byte list \<Rightarrow> Currency res" where
  "ParseCurrency rat_SetString s = (case number_part s of (n, rest) \<Rightarrow>
     if n = [] then Err ''not a number''
     else let unit = TrimSpace rest in
       if unit = [] \<or> unit = ascii ''H'' then parseHastings n
       else case rat_SetString n of
           None \<Rightarrow> Err ''not a number''
         | Some r \<Rightarrow> (case currency_unit unit of
               None \<Rightarrow> Err ''invalid unit''
             | Some u \<Rightarrow>
                 let r = r * of_nat u in
                 if snd (quotient_of r) \<noteq> 1 then Err ''not an integer'' else parseHastings (int_String (fst (quotient_of r)))))"

section \<open>Amounts of the wallet\<close>

text \<open>\<^verbatim>\<open>strings.Repeat\<close> of a zero: panics when the count is negative.\<close>

definition repeat_zero :: "int \<Rightarrow> (byte list) res" where
  "repeat_zero n = (if n < 0 then Panic ''strings: negative Repeat count'' else Ok (replicate (nat n) 48))"

definition FormatAmount :: "Currency \<Rightarrow> Currency \<Rightarrow> (byte list) res" where
  "FormatAmount v unit =
     (if cval unit = 0 then Panic ''division by zero''
      else let q = cval v div cval unit; r = cval v mod cval unit in
        if r = 0 then Ok (decimal q)
        else let decimals = int (length (ExactString unit)) - 1 in
          rbind (repeat_zero (decimals - int (length (decimal r)))) (\<lambda>zeros.
          Ok (decimal q @ [46] @ trim_right_zeros (zeros @ decimal r))))"

text \<open>\<^verbatim>\<open>strings.Split(str, ".")\<close>\<close>

fun split_dots :: "byte list \<Rightarrow> byte list list" where
  "split_dots [] = [[]]"
| "split_dots (b # s) = (if b = 46 then [] # split_dots s
     else case split_dots s of p # ps \<Rightarrow> (b # p) # ps | [] \<Rightarrow> [[b]])"

definition ParseAmount :: "(byte list \<Rightarrow> rat option) \<Rightarrow> byte list \<Rightarrow> Currency \<Rightarrow> Currency res" where
  "ParseAmount rat_SetString str unit =
     (let decimals = int (length (ExactString unit)) - 1; p = split_dots str in
      if 2 < length p \<or> 80 < length str \<or> hd p = [] then Err ''invalid amount''
      else let frac = (if length p = 2 then p ! 1 else []) in
        if decimals < int (length frac) then Err ''too many decimal places''
        else rbind (repeat_zero (decimals - int (length frac))) (\<lambda>zeros.
          let digits = hd p @ frac @ zeros in
          if \<not> list_all is_digit digits then Err ''invalid amount''
          else ParseCurrency rat_SetString digits))"

definition canonicalAtomic :: "(byte list \<Rightarrow> rat option) \<Rightarrow> byte list \<Rightarrow> bool \<Rightarrow> Currency res" where
  "canonicalAtomic rat_SetString value allowZero =
     (if value = [] \<or> 80 < length value then Err ''must be a canonical atomic integer''
      else case ParseCurrency rat_SetString value of
          Panic p \<Rightarrow> Panic p
        | Err _ \<Rightarrow> Err ''must be a canonical atomic integer''
        | Ok amount \<Rightarrow>
            if ExactString amount \<noteq> value then Err ''must be a canonical atomic integer''
            else if \<not> allowZero \<and> Currency_IsZero amount then Err ''must be positive''
            else Ok amount)"

record SupplyAmount =
  sa_QDAY :: "byte list"
  sa_Atomic :: "byte list"

definition supplyAmount :: "Currency \<Rightarrow> Currency \<Rightarrow> SupplyAmount res" where
  "supplyAmount v unit = rbind (FormatAmount v unit) (\<lambda>q. Ok \<lparr>sa_QDAY = q, sa_Atomic = ExactString v\<rparr>)"

section \<open>Numerals and their values\<close>

lemma digit_bounds: "n < 10 \<Longrightarrow> is_digit (digit n)" "n < 10 \<Longrightarrow> digit_value (digit n) = n"
proof -
  assume n: "n < 10"
  then have "n \<in> {0, 1, 2, 3, 4, 5, 6, 7, 8, 9}" by auto
  then show "is_digit (digit n)" by (auto simp: is_digit_def digit_def)
  show "digit_value (digit n) = n" using n by (simp add: digit_value_def digit_def unat_of_nat)
qed

lemma is_digit_range: "is_digit b \<Longrightarrow> b \<noteq> 43 \<and> b \<noteq> 45 \<and> b \<noteq> 46"
  by (auto simp: is_digit_def)

lemma numeral_value_Nil [simp]: "numeral_value [] = 0"
  by (simp add: numeral_value_def)

lemma foldl_numeral: "foldl (\<lambda>n b. 10 * n + digit_value b) a s = a * 10 ^ length s + numeral_value s"
proof (induction s arbitrary: a)
  case (Cons b s)
  show ?case using Cons.IH [of "10 * a + digit_value b"] Cons.IH [of "digit_value b"]
    by (simp add: numeral_value_def algebra_simps)
qed (simp add: numeral_value_def)

lemma numeral_value_append: "numeral_value (s @ t) = numeral_value s * 10 ^ length t + numeral_value t"
proof -
  have "numeral_value (s @ t) = foldl (\<lambda>n b. 10 * n + digit_value b) (numeral_value s) t" by (simp add: numeral_value_def)
  then show ?thesis by (simp only: foldl_numeral)
qed

lemma numeral_value_digit: "n < 10 \<Longrightarrow> numeral_value [digit n] = n"
  by (simp add: numeral_value_def digit_bounds)

lemma numeral_value_zeros [simp]: "numeral_value (replicate n 48) = 0"
  by (induction n) (simp_all add: numeral_value_def digit_value_def)

lemma decimal_numeral: "is_numeral (decimal n)" "numeral_value (decimal n) = n"
proof (induction n rule: decimal.induct)
  case (1 n)
  {
    case 1
    then show ?case using "1.IH"(1) by (cases "n < 10") (auto simp: decimal.simps [of n] is_numeral_def digit_bounds)
  next
    case 2
    then show ?case using "1.IH"(2)
      by (cases "n < 10") (auto simp: decimal.simps [of n] numeral_value_append numeral_value_digit)
  }
qed

lemma length_decimal: "n < 10 ^ Suc k \<Longrightarrow> length (decimal n) \<le> Suc k"
proof (induction k arbitrary: n)
  case 0
  then show ?case by (simp add: decimal.simps)
next
  case (Suc k)
  then have "n div 10 < 10 ^ Suc k" by (simp add: less_mult_imp_div_less mult.commute)
  from Suc.IH [OF this] show ?case by (subst decimal.simps) simp
qed

lemma length_decimal_power: "length (decimal (10 ^ k)) = Suc k"
proof (induction k)
  case 0
  show ?case by (simp add: decimal.simps)
next
  case (Suc k)
  have "\<not> (10 :: nat) ^ Suc k < 10" by simp
  with Suc show ?case by (subst decimal.simps) simp
qed

lemma cval_small: "cval v < 10 ^ 39"
  using cval_less [of v] by simp

section \<open>Parsing numerals\<close>

lemma parseHastings_numeral:
  assumes "is_numeral s" "numeral_value s < 2 ^ 128"
  obtains v where "parseHastings s = Ok v" "cval v = numeral_value s"
proof -
  define n where "n = numeral_value s"
  have n: "n < 2 ^ 128" using assms(2) by (simp only: n_def)
  have "int_SetString s = Some (int n)"
    using assms(1) by (cases s) (auto simp: int_SetString_def is_numeral_def n_def dest: is_digit_range)
  moreover have "int n < int (2 ^ 128)" using n by (simp only: of_nat_less_iff)
  ultimately have run: "parseHastings s = Ok (NewCurrency (word_of_int (int n)) (word_of_int (int n div 2 ^ 64)))"
    by (simp add: parseHastings_def)
  have "int n div 2 ^ 64 = int (n div 2 ^ 64)" by (simp add: zdiv_int)
  moreover have "n div 2 ^ 64 < 2 ^ 64" using n by (simp add: less_mult_imp_div_less)
  ultimately have "cval (NewCurrency (word_of_int (int n)) (word_of_int (int n div 2 ^ 64))) = n mod 2 ^ 64 + 2 ^ 64 * (n div 2 ^ 64)"
    by (simp add: cval_def NewCurrency_def unat_of_nat)
  then show thesis using that run by (simp add: n_def)
qed

lemma ParseCurrency_numeral:
  assumes "is_numeral s"
  shows "ParseCurrency rat_SetString s = parseHastings s"
proof -
  have "takeWhile (\<lambda>b. \<not> (is_digit b \<or> b = 46)) (rev s) = []"
    using assms by (cases s rule: rev_cases) (auto simp: is_numeral_def)
  then show ?thesis using assms by (simp add: ParseCurrency_def number_part_def is_numeral_def TrimSpace_def)
qed

lemma ParseCurrency_value:
  assumes "is_numeral s" "ParseCurrency rat_SetString s = Ok v"
  shows "cval v = numeral_value s"
proof (cases "numeral_value s < 2 ^ 128")
  case True
  with parseHastings_numeral [OF assms(1)] assms ParseCurrency_numeral show ?thesis by (metis res.inject(1))
next
  case False
  then have "int (2 ^ 128) \<le> int (numeral_value s)" by (simp only: of_nat_le_iff not_less)
  moreover have "int_SetString s = Some (int (numeral_value s))"
    using assms(1) by (cases s) (auto simp: int_SetString_def is_numeral_def dest: is_digit_range)
  ultimately show ?thesis using assms(2) by (simp add: ParseCurrency_numeral [OF assms(1)] parseHastings_def)
qed

lemma ParseCurrency_decimal: "ParseCurrency rat_SetString (decimal (cval v)) = Ok v"
proof -
  have "numeral_value (decimal (cval v)) < 2 ^ 128" using cval_less [of v] by (simp add: decimal_numeral)
  from parseHastings_numeral [OF decimal_numeral(1) this] obtain w where
    "parseHastings (decimal (cval v)) = Ok w" "cval w = cval v" by (metis decimal_numeral(2))
  then show ?thesis by (simp add: ParseCurrency_numeral [OF decimal_numeral(1)] cval_inject)
qed

section \<open>Splitting an amount\<close>

lemma split_dots_numeral: "list_all is_digit s \<Longrightarrow> split_dots s = [s]"
  by (induction s) (auto dest: is_digit_range)

lemma split_dots_point: "list_all is_digit s \<Longrightarrow> split_dots (s @ 46 # t) = s # split_dots t"
  by (induction s) (auto dest: is_digit_range split: list.split)

lemma split_dots_nonempty: "split_dots s \<noteq> []"
  by (induction s) (auto split: list.split)

lemma split_dots_one: "split_dots s = [p] \<Longrightarrow> s = p"
  by (induction s arbitrary: p) (auto simp: split_dots_nonempty split: if_splits list.splits)

lemma split_dots_two: "split_dots s = [p, q] \<Longrightarrow> s = p @ 46 # q"
  by (induction s arbitrary: p) (auto dest: split_dots_one split: if_splits list.splits)

lemma trim_right_zeros: "\<exists>m. s = trim_right_zeros s @ replicate m 48"
proof -
  have "rev s = takeWhile (\<lambda>b. b = 48) (rev s) @ dropWhile (\<lambda>b. b = 48) (rev s)" by simp
  moreover have "takeWhile (\<lambda>b. b = 48) (rev s) = replicate (length (takeWhile (\<lambda>b. b = 48) (rev s))) 48"
    by (rule replicate_eqI [OF refl]) (auto dest: set_takeWhileD)
  ultimately have "s = rev (dropWhile (\<lambda>b. b = 48) (rev s)) @ rev (replicate (length (takeWhile (\<lambda>b. b = 48) (rev s))) 48)"
    by (metis rev_append rev_rev_ident)
  then show ?thesis unfolding trim_right_zeros_def by (metis rev_replicate)
qed

text \<open>An amount in units of \<open>10\<^sup>d\<close>: the text is cut after the digits of the quotient.\<close>

definition power_unit :: "Currency \<Rightarrow> nat \<Rightarrow> bool" where
  "power_unit unit d \<longleftrightarrow> cval unit = 10 ^ d \<and> d \<le> 40"

lemma QdayUnits_power: "QdayUnits s h = Ok unit \<Longrightarrow> \<exists>d. power_unit unit d"
proof -
  assume units: "QdayUnits s h = Ok unit"
  obtain q where "Currency_Div64 HastingsPerSiacoin 1000000 = Ok q" "cval q = cval HastingsPerSiacoin div unat (1000000 :: u64)"
    using Div64_total [of 1000000 HastingsPerSiacoin] by auto
  then have "Currency_Div64 HastingsPerSiacoin 1000000 = Ok q" "cval q = 10 ^ 18" by (simp_all add: cval_simps)
  moreover have "cval HastingsPerSiacoin = 10 ^ 24" by (simp add: cval_simps)
  ultimately have "cval unit = 10 ^ 18 \<or> cval unit = 10 ^ 24" using units by (auto simp: QdayUnits_def split: if_splits)
  then show ?thesis
  proof
    assume "cval unit = 10 ^ 18"
    then show ?thesis by (intro exI [of _ 18]) (simp add: power_unit_def)
  next
    assume "cval unit = 10 ^ 24"
    then show ?thesis by (intro exI [of _ 24]) (simp add: power_unit_def)
  qed
qed

lemma ParseAmount_point:
  assumes "power_unit unit d" "list_all is_digit (whole @ fr)" "whole \<noteq> []" "length whole + length fr < 80" "length fr \<le> d"
  shows "ParseAmount rat_SetString (whole @ 46 # fr) unit = ParseCurrency rat_SetString (whole @ fr @ replicate (d - length fr) 48)"
    "fr = [] \<Longrightarrow> ParseAmount rat_SetString whole unit = ParseCurrency rat_SetString (whole @ replicate d 48)"
proof -
  have decimals: "int (length (ExactString unit)) - 1 = int d"
    using assms(1) by (simp add: ExactString_def power_unit_def length_decimal_power)
  have "is_digit 48" by (simp add: is_digit_def)
  then have zeros: "list_all is_digit (replicate n 48)" for n by (induction n) simp_all
  have cut: "nat (int d - int (length fr)) = d - length fr" by simp
  show "ParseAmount rat_SetString (whole @ 46 # fr) unit = ParseCurrency rat_SetString (whole @ fr @ replicate (d - length fr) 48)"
    using assms(2-5) zeros by (simp add: ParseAmount_def decimals split_dots_point split_dots_numeral repeat_zero_def Let_def cut)
  show "fr = [] \<Longrightarrow> ParseAmount rat_SetString whole unit = ParseCurrency rat_SetString (whole @ replicate d 48)"
    using assms(2-5) zeros by (simp add: ParseAmount_def decimals split_dots_numeral repeat_zero_def Let_def)
qed

lemma FormatAmount_text:
  assumes "power_unit unit d"
  obtains whole fr where "FormatAmount v unit = Ok (if fr = [] then whole else whole @ 46 # fr)" "is_numeral whole" "list_all is_digit fr"
    "length whole \<le> 39" "length fr \<le> d" "numeral_value (whole @ fr @ replicate (d - length fr) 48) = cval v"
proof -
  have unit: "cval unit = 10 ^ d" using assms by (simp add: power_unit_def)
  define q r where "q = cval v div 10 ^ d" and "r = cval v mod 10 ^ d"
  have "q \<le> cval v" unfolding q_def by (rule div_le_dividend)
  then have "q < 10 ^ Suc 38" using cval_small [of v] by simp
  then have whole: "is_numeral (decimal q)" "length (decimal q) \<le> 39" using decimal_numeral(1) length_decimal [of q 38] by simp_all
  have split: "q * 10 ^ d + r = cval v" unfolding q_def r_def by (rule div_mult_mod_eq)
  show thesis
  proof (cases "r = 0")
    case True
    then have "FormatAmount v unit = Ok (decimal q)" by (simp add: FormatAmount_def unit q_def r_def)
    then show thesis using that [of "[]" "decimal q"] whole split True by (simp add: numeral_value_append decimal_numeral(2))
  next
    case False
    have "r < 10 ^ d" by (simp add: r_def)
    then have d: "d \<noteq> 0" using False by (cases d) auto
    with \<open>r < 10 ^ d\<close> have len: "length (decimal r) \<le> d" using length_decimal [of r "d - 1"] by simp
    define z where "z = replicate (d - length (decimal r)) 48 @ decimal r"
    have z: "length z = d" "numeral_value z = r" "list_all is_digit z"
      using len decimal_numeral [of r] by (auto simp: z_def numeral_value_append is_numeral_def list_all_iff is_digit_def)
    obtain m where m: "z = trim_right_zeros z @ replicate m 48" using trim_right_zeros by blast
    have "trim_right_zeros z \<noteq> []"
    proof
      assume "trim_right_zeros z = []"
      then have "numeral_value z = 0" using m by (metis append_Nil numeral_value_zeros)
      then show False using z(2) False by simp
    qed
    moreover have "int (length (ExactString unit)) - 1 = int d" by (simp add: ExactString_def unit length_decimal_power)
    then have "FormatAmount v unit = Ok (decimal q @ 46 # trim_right_zeros z)"
      using False len by (simp add: FormatAmount_def unit q_def [symmetric] r_def [symmetric] Let_def repeat_zero_def z_def nat_diff_distrib)
    moreover have cut: "length (trim_right_zeros z) + m = d" using m z(1) by (metis length_append length_replicate)
    moreover have "list_all is_digit (trim_right_zeros z)" using z(3) m by (metis list_all_append)
    moreover from cut have "d - length (trim_right_zeros z) = m" by simp
    then have "numeral_value (decimal q @ trim_right_zeros z @ replicate (d - length (trim_right_zeros z)) 48) = cval v"
      using m [symmetric] z(1,2) split by (simp add: numeral_value_append [of "decimal q"] decimal_numeral(2))
    ultimately show thesis using that [of "trim_right_zeros z" "decimal q"] whole by simp
  qed
qed

section \<open>Properties\<close>

text \<open>C31: amounts are exact. Whatever the denomination at a height is, the text of an amount is read back as
  that amount. A text that is read as an amount consists of digits, with at most one point and at most as
  many digits after it as the denomination has, and the amount is exactly what the digits say; nothing is
  rounded.\<close>

theorem amount_text_exact:
  assumes "QdayUnits s h = Ok unit"
  shows "(\<exists>str. FormatAmount v unit = Ok str \<and> ParseAmount rat_SetString str unit = Ok v) \<and>
    (ParseAmount rat_SetString input unit = Ok w \<longrightarrow>
      (\<exists>whole fr d. (input = whole \<and> fr = [] \<or> input = whole @ 46 # fr) \<and> whole \<noteq> [] \<and> list_all is_digit (whole @ fr) \<and>
        cval unit = 10 ^ d \<and> length fr \<le> d \<and> cval w = numeral_value whole * 10 ^ d + numeral_value fr * 10 ^ (d - length fr)))"
proof (intro conjI impI)
  obtain d where d: "power_unit unit d" using QdayUnits_power [OF assms] by blast
  obtain whole fr where str: "FormatAmount v unit = Ok (if fr = [] then whole else whole @ 46 # fr)" "is_numeral whole" "list_all is_digit fr"
    "length whole \<le> 39" "length fr \<le> d" "numeral_value (whole @ fr @ replicate (d - length fr) 48) = cval v"
    using FormatAmount_text [OF d, of v] .
  have small: "length whole + length fr < 80" "d \<le> 40" using str(4,5) d by (simp_all add: power_unit_def)
  have digits: "is_numeral (whole @ fr @ replicate (d - length fr) 48)"
    using str(2,3) by (auto simp: is_numeral_def list_all_iff is_digit_def)
  obtain v' where "ParseCurrency rat_SetString (whole @ fr @ replicate (d - length fr) 48) = Ok v'" "cval v' = cval v"
    using parseHastings_numeral [OF digits] str(6) cval_less [of v] ParseCurrency_numeral [OF digits] by metis
  moreover have "list_all is_digit (whole @ fr)" "whole \<noteq> []" using str(2,3) by (simp_all add: is_numeral_def)
  note ParseAmount_point [OF d this small(1) str(5), of rat_SetString]
  ultimately show "\<exists>str. FormatAmount v unit = Ok str \<and> ParseAmount rat_SetString str unit = Ok v"
    using str(1) by (auto simp: cval_inject split: if_splits)
next
  assume parsed: "ParseAmount rat_SetString input unit = Ok w"
  obtain d where d: "power_unit unit d" using QdayUnits_power [OF assms] by blast
  have decimals: "int (length (ExactString unit)) - 1 = int d"
    using d by (simp add: ExactString_def power_unit_def length_decimal_power)
  define fr where "fr = (if length (split_dots input) = 2 then split_dots input ! 1 else [])"
  from parsed obtain zeros where run: "\<not> 2 < length (split_dots input)" "hd (split_dots input) \<noteq> []" "length fr \<le> d"
      "zeros = replicate (d - length fr) 48" "list_all is_digit (hd (split_dots input) @ fr @ zeros)"
      "ParseCurrency rat_SetString (hd (split_dots input) @ fr @ zeros) = Ok w"
    unfolding ParseAmount_def decimals Let_def fr_def [symmetric]
    by (auto simp: repeat_zero_def res_simps nat_diff_distrib split: if_splits)
  obtain whole where whole: "hd (split_dots input) = whole" "input = whole \<and> fr = [] \<or> input = whole @ 46 # fr"
  proof (cases "split_dots input")
    case Nil
    then show thesis using split_dots_nonempty by blast
  next
    case (Cons p ps)
    then show thesis using that run(1) split_dots_one [of input p] split_dots_two [of input p] by (cases ps) (auto simp: fr_def)
  qed
  have "is_numeral (whole @ fr @ zeros)" using run(2,5) whole(1) by (simp add: is_numeral_def)
  from ParseCurrency_value [OF this] run(6) have "cval w = numeral_value (whole @ fr @ zeros)" by (simp add: whole(1))
  then have "cval w = numeral_value whole * 10 ^ d + numeral_value fr * 10 ^ (d - length fr)"
    using run(3) by (simp add: numeral_value_append run(4))
  then show "\<exists>whole fr d. (input = whole \<and> fr = [] \<or> input = whole @ 46 # fr) \<and> whole \<noteq> [] \<and> list_all is_digit (whole @ fr) \<and>
      cval unit = 10 ^ d \<and> length fr \<le> d \<and> cval w = numeral_value whole * 10 ^ d + numeral_value fr * 10 ^ (d - length fr)"
    using whole run(2,3,5) d by (intro exI [of _ whole] exI [of _ fr] exI [of _ d]) (simp add: power_unit_def)
qed

theorem amount_text_exact_witness:
  "QdayUnits (sample_state 0) 1 = Ok HastingsPerSiacoin \<and>
   (\<exists>str. FormatAmount (NewCurrency64 5) HastingsPerSiacoin = Ok str \<and>
      ParseAmount (\<lambda>_. None) str HastingsPerSiacoin = Ok (NewCurrency64 5))"
proof -
  have unit: "QdayUnits (sample_state 0) 1 = Ok HastingsPerSiacoin"
    by (simp add: QdayUnits_def QdayActive_def sample_state_def)
  from amount_text_exact [OF unit, of "NewCurrency64 5" "\<lambda>_. None"] show ?thesis using unit by blast
qed

text \<open>There is nothing to trim in a text of visible ASCII characters.\<close>

lemma TrimSpace_visible:
  assumes "list_all (\<lambda>b. 33 \<le> b \<and> b \<le> 126) s"
  shows "TrimSpace s = s"
proof -
  have ws: "[a] \<notin> set white_space" "[a, b] \<notin> set white_space" "[b, a] \<notin> set white_space"
      "[a, b, d] \<notin> set white_space" "[d, b, a] \<notin> set white_space" if "33 \<le> a \<and> a \<le> 126" for a b d :: byte
    using that by (auto simp: white_space_def)
  have "trim_left s = s" using assms by (cases s) (simp_all add: ws split: list.split)
  moreover have "trim_right_rev (rev s) = rev s" using assms by (cases s rule: rev_cases) (simp_all add: ws split: list.split)
  ultimately show ?thesis by (simp add: TrimSpace_def)
qed

lemma canonicalAtomic_decimal:
  assumes "allowZero \<or> cval v \<noteq> 0"
  shows "canonicalAtomic rat_SetString (decimal (cval v)) allowZero = Ok v"
proof -
  have "decimal (cval v) \<noteq> []" "length (decimal (cval v)) \<le> 39"
    using decimal_numeral(1) [of "cval v"] length_decimal [of "cval v" 38] cval_small [of v] by (auto simp: is_numeral_def)
  then show ?thesis
    using assms ParseCurrency_decimal [of rat_SetString v] by (auto simp: canonicalAtomic_def ExactString_def IsZero_iff)
qed

text \<open>C32: atomic integers are canonical. The interface for payouts and swaps accepts a text as an atomic amount
  if and only if it is the decimal numeral of that amount without sign, leading zeros, unit or space, and
  zero only where it is allowed, whatever the parser of rational numbers does.\<close>

theorem atomic_text_canonical:
  "canonicalAtomic rat_SetString input allowZero = Ok v \<longleftrightarrow> input = decimal (cval v) \<and> (allowZero \<or> cval v \<noteq> 0)"
proof
  assume "canonicalAtomic rat_SetString input allowZero = Ok v"
  then show "input = decimal (cval v) \<and> (allowZero \<or> cval v \<noteq> 0)"
    by (auto simp: canonicalAtomic_def ExactString_def IsZero_iff split: if_splits res.splits)
next
  assume "input = decimal (cval v) \<and> (allowZero \<or> cval v \<noteq> 0)"
  then show "canonicalAtomic rat_SetString input allowZero = Ok v" using canonicalAtomic_decimal by auto
qed

theorem atomic_text_canonical_witness:
  "canonicalAtomic (\<lambda>_. None) (decimal (cval (NewCurrency64 7))) False = Ok (NewCurrency64 7)"
  by (rule iffD2 [OF atomic_text_canonical]) simp

end
