(* ===== verification/Rebroadcast.thy ===== *)
theory Rebroadcast
  imports PoolOperations Reorg Amounts "HOL-Library.Mapping" "HOL-Library.List_Lexorder"
begin

text \<open>
  The state of the node service (\<^verbatim>\<open>Service\<close> of \<^verbatim>\<open>node/qday/service.go\<close>) as far as it concerns payments, and the signed
  transactions that it keeps and offers again until they expire (\<^verbatim>\<open>node/qday/rebroadcast.go\<close>). The contents of a
  file is the value its JSON denotes; the number of bytes of that JSON is a parameter. What the world answers to one
  call of the service, the clock, the file system, the peers, is in a record \<open>env\<close>.
\<close>

section \<open>Files\<close>

text \<open>
  A file is written to a temporary file, synced, renamed, and then the directory is synced. A failure before or at
  the renaming leaves the old file; when only the last step fails, the new file is there but may be lost in a
  crash.
\<close>

datatype save_outcome = Saved | NotSaved string | Unsynced string

record 'a stored_file =
  fl_visible :: "'a option"
  fl_durable :: "'a option"

fun replace_file :: "save_outcome \<Rightarrow> 'a \<Rightarrow> 'a stored_file \<Rightarrow> unit res \<times> 'a stored_file" where
  "replace_file Saved x f = (Ok (), f\<lparr>fl_visible := Some x, fl_durable := Some x\<rparr>)"
| "replace_file (NotSaved e) x f = (Err e, f)"
| "replace_file (Unsynced e) x f = (Err e, f\<lparr>fl_visible := Some x\<rparr>)"

section \<open>The state of the service\<close>

record pendingBroadcast =
  pb_Basis :: ChainIndex
  pb_BroadcastedAt :: Time
  pb_Transactions :: "V2Transaction list"
  pb_confirmedAt :: ChainIndex

record storedPendingBroadcast =
  spb_Basis :: ChainIndex
  spb_BroadcastedAt :: Time
  spb_Transactions :: "byte list list"

record poolPayoutRecord =
  pr_RequestID :: "byte list"
  pr_Digest :: "byte list"
  pr_Basis :: ChainIndex
  pr_TransactionID :: TransactionID
  pr_Transaction :: "byte list"
  pr_Outputs :: nat
  pr_Status :: string
  pr_ConfirmedAt :: ChainIndex
  pr_CreatedAt :: Time

text \<open>\<open>sv_sent\<close> are the sets that were given to \<^verbatim>\<open>BroadcastV2TransactionSet\<close>, in order.\<close>

record Service =
  sv_CM :: Manager
  sv_keys :: "QdayPrivateKeys option"
  sv_rebroadcasts :: "(TransactionID, pendingBroadcast) mapping"
  sv_rebroadcastFile :: "storedPendingBroadcast list stored_file"
  sv_poolPayouts :: "(byte list, poolPayoutRecord) mapping"
  sv_poolPayoutFile :: "poolPayoutRecord list stored_file"
  sv_lastError :: string
  sv_lastRelayError :: string
  sv_sent :: "(ChainIndex \<times> V2Transaction list) list"

text \<open>
  What one call of the service meets: the clock, the iterations before the context of the service is cancelled, how
  the pool and the wallet order equal entries, the answers of the wallet index for successive pages (after them it
  has nothing left), the rounds of the DEFEND search, whether the context of the request is found cancelled at its \<open>n\<close>-th check, what happens to the
  chain while a transaction is signed, the outcomes of writing the two files, the sizes of their JSON, and the
  error of the relay.
\<close>

record env =
  en_now :: Time
  en_iterations :: nat
  en_perm :: "feeTxn list \<Rightarrow> feeTxn list"
  en_order :: "SiacoinElement list \<Rightarrow> SiacoinElement list"
  en_pages :: "Address \<Rightarrow> ((SiacoinElement list \<times> ChainIndex) res) list"
  en_rounds :: nat
  en_cancelled :: "nat \<Rightarrow> bool"
  en_meanwhile :: "Manager \<Rightarrow> Manager"
  en_saveBroadcasts :: save_outcome
  en_broadcastsSize :: "storedPendingBroadcast list \<Rightarrow> nat"
  en_saveNewPayout :: save_outcome
  en_savePayout :: save_outcome
  en_payoutsSize :: "poolPayoutRecord list \<Rightarrow> nat"
  en_relayError :: string

text \<open>\<^verbatim>\<open>errors.Is(err, syncer.ErrNoPeers)\<close> holds for no error that reaches \<^verbatim>\<open>setError\<close> here.\<close>

definition setError :: "string \<Rightarrow> Service \<Rightarrow> Service" where
  "setError e s = s\<lparr>sv_lastError := e\<rparr>"

text \<open>\<^verbatim>\<open>setRelayError(s.Syncer.BroadcastV2TransactionSet(basis, txns))\<close>; no error is the empty text.\<close>

definition broadcast :: "env \<Rightarrow> ChainIndex \<Rightarrow> V2Transaction list \<Rightarrow> Service \<Rightarrow> Service" where
  "broadcast e basis txns s = s\<lparr>sv_sent := sv_sent s @ [(basis, txns)], sv_lastRelayError := en_relayError e\<rparr>"

section \<open>Pending transactions\<close>

definition maxRebroadcastPeriod :: Duration where "maxRebroadcastPeriod = 48 * 3600 * second"

definition maxRebroadcastFile :: nat where "maxRebroadcastFile = 64 * 2 ^ 20"

definition maxRebroadcastSets :: nat where "maxRebroadcastSets = 1024"

definition encodePendingTransaction :: "V2Transaction \<Rightarrow> byte list" where
  "encodePendingTransaction txn = V2Transaction_EncodeTo txn"

definition decodePendingTransaction :: "byte list \<Rightarrow> V2Transaction res" where
  "decodePendingTransaction b =
     (if b = [] \<or> 4 * 2 ^ 20 < length b then Err ''invalid pending transaction size''
      else case V2Transaction_DecodeFrom (NewBufDecoder b) of (txn, d) \<Rightarrow>
        case d_err d of
          Some e \<Rightarrow> Err e
        | None \<Rightarrow> if b \<noteq> encodePendingTransaction txn then Err ''non-canonical pending transaction'' else Ok txn)"

fun map_res :: "('a \<Rightarrow> 'b res) \<Rightarrow> 'a list \<Rightarrow> 'b list res" where
  "map_res f [] = Ok []"
| "map_res f (x # xs) = rbind (f x) (\<lambda>y. rbind (map_res f xs) (\<lambda>ys. Ok (y # ys)))"

text \<open>\<open>id\<close> of a set: the ID of its last transaction.\<close>

definition load_set :: "crypto \<Rightarrow> Time \<Rightarrow> storedPendingBroadcast \<Rightarrow> (TransactionID, pendingBroadcast) mapping
    \<Rightarrow> (TransactionID, pendingBroadcast) mapping res" where
  "load_set c now stored sets =
     (if spb_BroadcastedAt stored = 0 \<or> maxRebroadcastPeriod < Time_Sub now (spb_BroadcastedAt stored) \<or> spb_Transactions stored = []
      then Ok sets
      else rbind (map_res decodePendingTransaction (spb_Transactions stored)) (\<lambda>txns.
        Ok (Mapping.update (V2Transaction_ID c (last txns))
          \<lparr>pb_Basis = spb_Basis stored, pb_BroadcastedAt = spb_BroadcastedAt stored, pb_Transactions = txns,
           pb_confirmedAt = \<lparr>ci_Height = 0, ci_ID = 0\<rparr>\<rparr> sets)))"

definition loadPendingBroadcasts :: "crypto \<Rightarrow> env \<Rightarrow> Service \<Rightarrow> Service res" where
  "loadPendingBroadcasts c e s = (case fl_visible (sv_rebroadcastFile s) of
      None \<Rightarrow> Ok s
    | Some stored \<Rightarrow>
        if maxRebroadcastFile < en_broadcastsSize e stored then Err ''pending transaction file is too large''
        else if maxRebroadcastSets < length stored then Err ''invalid pending transaction file''
        else rbind (fold_res (load_set c (en_now e)) stored (sv_rebroadcasts s)) (\<lambda>sets. Ok (s\<lparr>sv_rebroadcasts := sets\<rparr>)))"

definition stored_set :: "pendingBroadcast \<Rightarrow> storedPendingBroadcast" where
  "stored_set b = \<lparr>spb_Basis = pb_Basis b, spb_BroadcastedAt = pb_BroadcastedAt b,
     spb_Transactions = map encodePendingTransaction (pb_Transactions b)\<rparr>"

text \<open>The order of the hexadecimal texts of the IDs is the order of the IDs.\<close>

definition savePendingBroadcasts :: "env \<Rightarrow> Service \<Rightarrow> unit res \<times> Service" where
  "savePendingBroadcasts e s =
     (let ids = Mapping.ordered_keys (sv_rebroadcasts s);
          stored = map (\<lambda>k. stored_set (the (Mapping.lookup (sv_rebroadcasts s) k))) ids in
      if maxRebroadcastFile < en_broadcastsSize e stored \<or> maxRebroadcastSets < length ids
      then (Err ''pending transaction storage limit reached'', s)
      else case replace_file (en_saveBroadcasts e) stored (sv_rebroadcastFile s) of
        (r, f) \<Rightarrow> (r, s\<lparr>sv_rebroadcastFile := f\<rparr>))"

definition rememberBroadcast :: "crypto \<Rightarrow> env \<Rightarrow> ChainIndex \<Rightarrow> V2Transaction list \<Rightarrow> Service \<Rightarrow> unit res \<times> Service" where
  "rememberBroadcast c e basis txns s =
     (if txns = [] then (Ok (), s)
      else savePendingBroadcasts e (s\<lparr>sv_rebroadcasts := Mapping.update (V2Transaction_ID c (last txns))
        \<lparr>pb_Basis = basis, pb_BroadcastedAt = en_now e, pb_Transactions = txns, pb_confirmedAt = \<lparr>ci_Height = 0, ci_ID = 0\<rparr>\<rparr>
        (sv_rebroadcasts s)\<rparr>))"

text \<open>\<^verbatim>\<open>setError\<close> on the error of \<^verbatim>\<open>rememberBroadcast\<close> or \<^verbatim>\<open>savePendingBroadcastsLocked\<close>.\<close>

definition report :: "string \<Rightarrow> unit res \<times> Service \<Rightarrow> Service" where
  "report what = (\<lambda>(r, s). case r of Err e \<Rightarrow> setError (what @ e) s | _ \<Rightarrow> s)"

section \<open>Moving proofs to the tip\<close>

definition update_step :: u64 where "update_step = 72"

definition on_best :: "Manager \<Rightarrow> ChainIndex \<Rightarrow> bool" where
  "on_best m index \<longleftrightarrow> BestIndex (m_store m) (ci_Height index) = (index, True)"

text \<open>The way back from an old branch, at most \<open>n\<close> blocks.\<close>

fun walk_back :: "Manager \<Rightarrow> ChainIndex \<Rightarrow> nat \<Rightarrow> ChainIndex \<Rightarrow> ChainIndex res" where
  "walk_back m to 0 next = Ok next"
| "walk_back m to (Suc n) next =
     (if ci_Height next = 0 then Err ''pending transaction basis is outside this chain''
      else case Store_Block (m_store m) (ci_ID next) of
        None \<Rightarrow> Err ''pending transaction basis is not available yet''
      | Some (b, _) \<Rightarrow>
          let next = \<lparr>ci_Height = ci_Height next - 1, ci_ID = blk_ParentID b\<rparr> in
          if on_best m next \<and> ci_Height next \<le> ci_Height to then Ok next else walk_back m to n next)"

definition next_basis :: "Manager \<Rightarrow> ChainIndex \<Rightarrow> ChainIndex \<Rightarrow> ChainIndex res" where
  "next_basis m from to =
     (if on_best m from \<and> ci_Height from < ci_Height to
      then case BestIndex (m_store m) (min (ci_Height from + update_step) (ci_Height to)) of
          (next, True) \<Rightarrow> Ok next
        | (_, False) \<Rightarrow> Err ''pending transaction is waiting for chain synchronization''
      else if on_best m from \<and> ci_Height from = ci_Height to then Ok to
      else walk_back m to (unat update_step) from)"

text \<open>The context of the service is cancelled after \<open>n\<close> iterations.\<close>

fun updatePendingProofs :: "crypto \<Rightarrow> Manager \<Rightarrow> nat \<Rightarrow> V2Transaction list \<Rightarrow> ChainIndex \<Rightarrow> ChainIndex \<Rightarrow> V2Transaction list res" where
  "updatePendingProofs c m n txns from to =
     (if from = to then Ok txns
      else case n of
        0 \<Rightarrow> Err ''context canceled''
      | Suc n \<Rightarrow> rbind (next_basis m from to) (\<lambda>next.
          rbind (UpdateV2TransactionSet c m txns from next) (\<lambda>txns.
          if txns = [] then Ok []
          else if \<not> on_best m to then Err ''chain changed while updating pending transaction proofs''
          else updatePendingProofs c m n txns next to)))"

declare updatePendingProofs.simps [simp del]

section \<open>Offering pending transactions again\<close>

text \<open>
  One set of \<^verbatim>\<open>rebroadcastPending\<close>, with the flag \<open>changed\<close>. A panic ends the node; it is kept as the result.
\<close>

definition rebroadcast_set :: "crypto \<Rightarrow> env \<Rightarrow> ChainIndex \<Rightarrow> TransactionID \<times> pendingBroadcast \<Rightarrow> bool \<Rightarrow> Service \<Rightarrow> bool res \<times> Service" where
  "rebroadcast_set c e tip = (\<lambda>(k, b) changed s.
     if maxRebroadcastPeriod < Time_Sub (en_now e) (pb_BroadcastedAt b)
     then (Ok True, s\<lparr>sv_rebroadcasts := Mapping.delete k (sv_rebroadcasts s)\<rparr>)
     else if pb_confirmedAt b \<noteq> \<lparr>ci_Height = 0, ci_ID = 0\<rparr> \<and> on_best (sv_CM s) (pb_confirmedAt b) then (Ok changed, s)
     else case updatePendingProofs c (sv_CM s) (en_iterations e) (pb_Transactions b) (pb_Basis b) tip of
         Panic p \<Rightarrow> (Panic p, s)
       | Err _ \<Rightarrow> (Ok changed, s)
       | Ok updated \<Rightarrow>
           if updated = [] then (Ok changed, s\<lparr>sv_rebroadcasts := Mapping.update k (b\<lparr>pb_confirmedAt := tip\<rparr>) (sv_rebroadcasts s)\<rparr>)
           else case AddV2PoolTransactions c (en_perm e) tip updated (sv_CM s) of
               (Panic p, m) \<Rightarrow> (Panic p, s\<lparr>sv_CM := m\<rparr>)
             | (Err _, m) \<Rightarrow> (Ok changed, s\<lparr>sv_CM := m\<rparr>)
             | (Ok _, m) \<Rightarrow> (Ok True, broadcast e tip updated (s\<lparr>sv_CM := m, sv_rebroadcasts := Mapping.update k
                 (b\<lparr>pb_Basis := tip, pb_Transactions := updated, pb_confirmedAt := \<lparr>ci_Height = 0, ci_ID = 0\<rparr>\<rparr>) (sv_rebroadcasts s)\<rparr>)))"

fun rebroadcast_sets :: "crypto \<Rightarrow> env \<Rightarrow> ChainIndex \<Rightarrow> (TransactionID \<times> pendingBroadcast) list \<Rightarrow> bool \<Rightarrow> Service \<Rightarrow> bool res \<times> Service" where
  "rebroadcast_sets c e tip [] changed s = (Ok changed, s)"
| "rebroadcast_sets c e tip (b # bs) changed s =
     sbind (rebroadcast_set c e tip b changed) (rebroadcast_sets c e tip bs) s"

text \<open>The sets of the table in the order \<open>sets\<close> in which the map is walked.\<close>

definition rebroadcastPending :: "crypto \<Rightarrow> env \<Rightarrow> TransactionID list \<Rightarrow> Service \<Rightarrow> unit res \<times> Service" where
  "rebroadcastPending c e ids s =
     sbind (rebroadcast_sets c e (Tip (sv_CM s)) (map (\<lambda>k. (k, the (Mapping.lookup (sv_rebroadcasts s) k))) ids) False)
       (\<lambda>changed s. (Ok (), if changed then report ''failed to update pending transactions: '' (savePendingBroadcasts e s) else s)) s"

end
