(* ===== verification/WalletService.thy ===== *)
theory WalletService
  imports Rebroadcast Miner AddressText
begin

text \<open>
  Payments of the node's wallet (\<^verbatim>\<open>node/qday/service.go\<close>): the confirmed outputs that the pool does not spend, the choice
  of inputs, and the construction, signing and publication of transfers, burns, DEFEND renewals and canary proofs.
\<close>

section \<open>Outputs\<close>

definition errNothingToDefend :: string where "errNothingToDefend = ''no outputs need DEFEND yet''"

definition errWalletSyncing :: string where "errWalletSyncing = ''wallet is synchronizing; retry shortly''"

definition pool_spends :: "V2Transaction list \<Rightarrow> SiacoinOutputID set" where
  "pool_spends pool = set (concat (map (\<lambda>txn. map (\<lambda>i. sce_ID (v2sci_Parent i)) (v2_SiacoinInputs txn)) pool))"

text \<open>The loop over the pages of 500 outputs.\<close>

fun read_pages :: "ChainIndex \<Rightarrow> SiacoinOutputID set \<Rightarrow> (SiacoinElement list \<times> ChainIndex) res list \<Rightarrow> SiacoinElement list res" where
  "read_pages index spent [] = Ok []"
| "read_pages index spent (p # ps) = rbind p (\<lambda>(page, basis).
     if basis \<noteq> index then Err errWalletSyncing
     else let kept = filter (\<lambda>e. sce_ID e \<notin> spent) page in
       if length page < 500 then Ok kept
       else rbind (read_pages index spent ps) (\<lambda>rest. Ok (kept @ rest)))"

definition outputsAtPool :: "env \<Rightarrow> State \<Rightarrow> Address \<Rightarrow> V2Transaction list \<Rightarrow> Service \<Rightarrow> SiacoinElement list res" where
  "outputsAtPool e cs pub pool s =
     rbind (read_pages (s_Index cs) (pool_spends pool) (en_pages e pub)) (\<lambda>result.
     if Tip (sv_CM s) \<noteq> s_Index cs then Err errWalletSyncing else Ok result)"

text \<open>\<^verbatim>\<open>V2PoolTransactions\<close> revalidates the pool first.\<close>

definition pool_of :: "crypto \<Rightarrow> env \<Rightarrow> Service \<Rightarrow> V2Transaction list res \<times> Service" where
  "pool_of c e s = attempt (V2PoolTransactions c (en_perm e) (sv_CM s)) (\<lambda>(pool, m) s. (Ok pool, s\<lparr>sv_CM := m\<rparr>)) s"

definition outputs_op :: "crypto \<Rightarrow> env \<Rightarrow> State \<Rightarrow> Address \<Rightarrow> Service \<Rightarrow> SiacoinElement list res \<times> Service" where
  "outputs_op c e cs pub = sbind (pool_of c e) (\<lambda>pool s. (outputsAtPool e cs pub pool s, s))"

section \<open>The choice of inputs\<close>

datatype submitMode = submitTransfer | submitDefend | submitBurn | submitProof

text \<open>The value two blocks ahead, by which outputs are chosen.\<close>

definition value_ahead :: "State \<Rightarrow> SiacoinElement \<Rightarrow> Currency res" where
  "value_ahead cs out = QdayValue cs out (ci_Height (s_Index cs) + 2)"

text \<open>
  \<^verbatim>\<open>sort.Slice(outs, ...)\<close>: by falling value, then by rising maturity height; only by the latter to DEFEND. Sorting a
  list of two or more outputs compares each of them, and a single output is valued by the loop that follows.
\<close>

definition sort_outputs :: "submitMode \<Rightarrow> State \<Rightarrow> SiacoinElement list \<Rightarrow> SiacoinElement list res" where
  "sort_outputs mode cs outs =
     (if mode = submitDefend then Ok (sort_key sce_MaturityHeight outs)
      else rbind (map_res (\<lambda>out. rbind (value_ahead cs out) (\<lambda>v. Ok (out, v))) outs) (\<lambda>valued.
        Ok (map fst (sort_key (\<lambda>(out, v). - int (cval v)) (sort_key (\<lambda>(out, v). sce_MaturityHeight out) valued)))))"

text \<open>Whether an output is due for renewal; the sums wrap around.\<close>

definition defend_due :: "State \<Rightarrow> QdayParams \<Rightarrow> SiacoinElement \<Rightarrow> bool" where
  "defend_due cs p out \<longleftrightarrow>
     max (sce_MaturityHeight out) (s_QdayHeight cs) + qd_ShieldBlocks p
       \<le> ci_Height (s_Index cs) + max 2 (qd_ShieldBlocks p div 4)"

definition considered :: "submitMode \<Rightarrow> State \<Rightarrow> SiacoinElement \<Rightarrow> bool res" where
  "considered mode cs out =
     (if mode \<noteq> submitDefend then Ok True
      else if \<not> QdayActive cs (ci_Height (s_Index cs) + 1) then Err errNothingToDefend
      else case n_Qday (s_Network cs) of None \<Rightarrow> Panic ''nil pointer dereference'' | Some p \<Rightarrow> Ok (defend_due cs p out))"

fun select_inputs :: "submitMode \<Rightarrow> State \<Rightarrow> SpendPolicy \<Rightarrow> Currency \<Rightarrow> SiacoinElement list \<Rightarrow> Currency \<times> V2SiacoinInput list
    \<Rightarrow> (Currency \<times> V2SiacoinInput list) res" where
  "select_inputs mode cs policy required [] acc = Ok acc"
| "select_inputs mode cs policy required (out # outs) (worth, inputs) =
     rbind (value_ahead cs out) (\<lambda>v.
     if Currency_IsZero v then select_inputs mode cs policy required outs (worth, inputs)
     else rbind (considered mode cs out) (\<lambda>due.
       if \<not> due then select_inputs mode cs policy required outs (worth, inputs)
       else rbind (Currency_Add worth v) (\<lambda>worth.
         let inputs = inputs @ [\<lparr>v2sci_Parent = out,
               v2sci_SatisfiedPolicy = \<lparr>sat_Policy = policy, sat_Signatures = [], sat_Preimages = []\<rparr>\<rparr>] in
         if length inputs = 128 \<or> mode \<noteq> submitDefend \<and> \<not> Currency_Cmp worth required < 0 then Ok (worth, inputs)
         else select_inputs mode cs policy required outs (worth, inputs))))"

section \<open>Construction of a transaction\<close>

definition with_change :: "Currency \<Rightarrow> Address \<Rightarrow> SiacoinOutput list \<Rightarrow> SiacoinOutput list" where
  "with_change v addr outs = (if Currency_IsZero v then outs else outs @ [\<lparr>sco_Value = v, sco_Address = addr\<rparr>])"

definition insufficient :: string where
  "insufficient = ''insufficient confirmed spendable balance (including fee)''"

text \<open>The outputs and the envelope for the inputs worth \<open>worth\<close>.\<close>

definition payment_outputs :: "crypto \<Rightarrow> submitMode \<Rightarrow> QdayKeys \<Rightarrow> QdayAddress \<Rightarrow> Currency \<Rightarrow> Currency \<Rightarrow> Currency \<Rightarrow> Currency
    \<Rightarrow> SiacoinOutput list res" where
  "payment_outputs c mode k to amount fee required worth =
     (case mode of
        submitProof \<Rightarrow>
          if Currency_Cmp worth fee < 0 then Err ''insufficient confirmed balance to pay the proof fee''
          else rbind (Currency_Sub worth fee) (\<lambda>change. Ok (with_change change (QdayKeys_Address c k) []))
      | submitDefend \<Rightarrow>
          if Currency_Cmp worth fee \<le> 0 then Err errNothingToDefend
          else rbind (Currency_Sub worth fee) (\<lambda>v. Ok [\<lparr>sco_Value = v, sco_Address = QdayKeys_Address c k\<rparr>])
      | submitBurn \<Rightarrow>
          if Currency_IsZero amount then Err ''burn amount must be positive''
          else if Currency_Cmp worth required < 0 then Err insufficient
          else rbind (Currency_Sub worth amount) (\<lambda>rest. rbind (Currency_Sub rest fee) (\<lambda>change.
            Ok (with_change change (QdayKeys_Address c k) [\<lparr>sco_Value = amount, sco_Address = VoidAddress\<rparr>])))
      | submitTransfer \<Rightarrow>
          rbind (QdayAddress_Validate to) (\<lambda>_.
          if Currency_IsZero amount then Err ''amount must be positive''
          else if Currency_Cmp worth required < 0 then Err insufficient
          else rbind (Currency_Sub worth amount) (\<lambda>rest. rbind (Currency_Sub rest fee) (\<lambda>change.
            Ok (with_change change (QdayKeys_Address c k) [\<lparr>sco_Value = amount, sco_Address = to\<rparr>])))))"

definition payment_envelope :: "submitMode \<Rightarrow> hash256 option \<Rightarrow> QdayEnvelope" where
  "payment_envelope mode witness =
     (if mode = submitProof
      then \<lparr>env_Kind = QdayCanaryProof, env_Nonce = 0, env_Keys = [], env_Witness = (case witness of Some w \<Rightarrow> w | None \<Rightarrow> 0)\<rparr>
      else \<lparr>env_Kind = QdayTransfer, env_Nonce = 0, env_Keys = [], env_Witness = 0\<rparr>)"

definition build_payment :: "crypto \<Rightarrow> env \<Rightarrow> submitMode \<Rightarrow> hash256 option \<Rightarrow> State \<Rightarrow> QdayKeys \<Rightarrow> QdayAddress \<Rightarrow> Currency \<Rightarrow> Currency
    \<Rightarrow> SiacoinElement list \<Rightarrow> V2Transaction res" where
  "build_payment c e mode witness cs k to amount fee outs =
     rbind (sort_outputs mode cs (en_order e outs)) (\<lambda>outs.
     case Currency_AddWithOverflow amount fee of
       (_, True) \<Rightarrow> Err ''amount plus fee overflows''
     | (required, False) \<Rightarrow>
         rbind (select_inputs mode cs (QdayKeys_Policy k) required outs (ZeroCurrency, [])) (\<lambda>(worth, inputs).
         rbind (payment_outputs c mode k to amount fee required worth) (\<lambda>outputs.
         Ok (empty_V2Transaction\<lparr>v2_SiacoinInputs := inputs, v2_SiacoinOutputs := outputs, v2_MinerFee := fee,
           v2_ArbitraryData := QdayEnvelope_Encode (payment_envelope mode witness)\<rparr>))))"

section \<open>Submission\<close>

definition checkUnit :: "byte list \<Rightarrow> State \<Rightarrow> unit res" where
  "checkUnit unit cs =
     (if unit = [] then Ok ()
      else rbind (QdayUnits cs (ci_Height (s_Index cs))) (\<lambda>u.
        fail_if (unit \<noteq> ExactString u) ''QDAY denomination changed; review the amount and fee again''))"

definition payment_fee :: "(byte list \<Rightarrow> rat option) \<Rightarrow> submitMode \<Rightarrow> State \<Rightarrow> byte list \<Rightarrow> Currency res" where
  "payment_fee rat_SetString mode cs customFee =
     rbind (Currency_Div64 HastingsPerSiacoin 1000) (\<lambda>standard.
     rbind (if mode = submitProof
            then (case n_Qday (s_Network cs) of None \<Rightarrow> Panic ''nil pointer dereference'' | Some p \<Rightarrow> Ok (qd_ProofFee p))
            else Ok standard) (\<lambda>fee.
     rbind (if customFee = [] then Ok fee
            else rbind (QdayUnits cs (ci_Height (s_Index cs))) (\<lambda>u. ParseAmount rat_SetString customFee u)) (\<lambda>fee.
     if mode = submitProof \<and> (case n_Qday (s_Network cs) of None \<Rightarrow> False | Some p \<Rightarrow> Currency_Cmp fee (qd_ProofFee p) < 0)
     then Err ''fee is below the minimum proof publication fee'' else Ok fee)))"

definition is_proof_txn :: "V2Transaction \<Rightarrow> bool" where
  "is_proof_txn txn = (case ParseQdayEnvelope (v2_ArbitraryData txn) of Ok e \<Rightarrow> env_Kind e = QdayCanaryProof | _ \<Rightarrow> False)"

text \<open>\<^verbatim>\<open>pendingProof\<close>: the ID of the first canary proof in the pool.\<close>

definition pendingProof :: "crypto \<Rightarrow> env \<Rightarrow> Service \<Rightarrow> TransactionID option res \<times> Service" where
  "pendingProof c e = sbind (pool_of c e) (\<lambda>pool s. (Ok (map_option (V2Transaction_ID c) (List.find is_proof_txn pool)), s))"

definition check_proof :: "crypto \<Rightarrow> env \<Rightarrow> State \<Rightarrow> hash256 option \<Rightarrow> Service \<Rightarrow> unit res \<times> Service" where
  "check_proof c e cs witness s = (case witness of
      None \<Rightarrow> (Err ''missing QDAY proof'', s)
    | Some w \<Rightarrow>
        if s_QdayHeight cs \<noteq> 0 then (Err ''a QDAY proof is already confirmed'', s)
        else (case n_Qday (s_Network cs) of
            None \<Rightarrow> (Panic ''nil pointer dereference'', s)
          | Some p \<Rightarrow>
              if \<not> VerifyQdayProof c (qd_Canary p) w then (Err ''solution does not solve this network's challenge'', s)
              else sbind (pendingProof c e) (\<lambda>pending s.
                (fail_if (pending \<noteq> None) ''a QDAY proof is already in the local mempool'', s)) s))"

text \<open>\<^verbatim>\<open>submitReviewed\<close> from the signed transaction on.\<close>

definition publish :: "crypto \<Rightarrow> env \<Rightarrow> byte list \<Rightarrow> State \<Rightarrow> V2Transaction \<Rightarrow> Service \<Rightarrow> TransactionID res \<times> Service" where
  "publish c e unit cs txn s0 =
     (let s = s0\<lparr>sv_CM := en_meanwhile e (sv_CM s0)\<rparr>; current = m_tipState (sv_CM s); basis = s_Index current in
      attempt (checkUnit unit current) (\<lambda>_.
      attempt (UpdateV2TransactionSet c (sv_CM s) [txn] (s_Index cs) basis) (\<lambda>txns s.
      case AddV2PoolTransactions c (en_perm e) basis txns (sv_CM s) of
        (Ok _, m) \<Rightarrow> (Ok (V2Transaction_ID c txn),
          report ''failed to save pending transaction for rebroadcast: '' (rememberBroadcast c e basis txns (s\<lparr>sv_CM := m\<rparr>)))
      | (Err err, m) \<Rightarrow> (Err err, s\<lparr>sv_CM := m\<rparr>)
      | (Panic p, m) \<Rightarrow> (Panic p, s\<lparr>sv_CM := m\<rparr>))) s)"

definition submitReviewed :: "crypto \<Rightarrow> (byte list \<Rightarrow> rat option) \<Rightarrow> env \<Rightarrow> byte list \<Rightarrow> byte list \<Rightarrow> byte list \<Rightarrow> QdayAddress \<Rightarrow> Currency
    \<Rightarrow> submitMode \<Rightarrow> hash256 option \<Rightarrow> Service \<Rightarrow> TransactionID res \<times> Service" where
  "submitReviewed c rat_SetString e from unit customFee to amount mode witness s = (if en_cancelled e 0 then (Err ''context canceled'', s) else case sv_keys s of
      None \<Rightarrow> (Err ''unlock your wallet first'', s)
    | Some keys \<Rightarrow>
        let k = qp_Public keys; cs = m_tipState (sv_CM s) in
        attempt (QdayAddress_String (QdayKeys_Address c k)) (\<lambda>own.
        if from \<noteq> [] \<and> from \<noteq> own then (\<lambda>s. (Err ''the active wallet changed; review the transaction again'', s))
        else attempt (checkUnit unit cs) (\<lambda>_.
        attempt (payment_fee rat_SetString mode cs customFee) (\<lambda>fee.
        sbind (if mode = submitProof then check_proof c e cs witness else (\<lambda>s. (Ok (), s))) (\<lambda>_.
        sbind (outputs_op c e cs (QdayKeys_Address c k)) (\<lambda>outs.
        attempt (build_payment c e mode witness cs k to amount fee outs) (\<lambda>txn.
        attempt (SignTransfer c (en_rounds e) (en_cancelled e 1) cs txn keys) (\<lambda>txn.
        if en_cancelled e 2 then (\<lambda>s. (Err ''context canceled'', s)) else publish c e unit cs txn))))))) s)"

definition Transfer :: "crypto \<Rightarrow> (byte list \<Rightarrow> rat option) \<Rightarrow> env \<Rightarrow> QdayAddress \<Rightarrow> Currency \<Rightarrow> bool \<Rightarrow> Service \<Rightarrow> TransactionID res \<times> Service" where
  "Transfer c rat_SetString e to amount defend =
     submitReviewed c rat_SetString e [] [] [] to amount (if defend then submitDefend else submitTransfer) None"

definition Burn :: "crypto \<Rightarrow> (byte list \<Rightarrow> rat option) \<Rightarrow> env \<Rightarrow> Currency \<Rightarrow> Service \<Rightarrow> TransactionID res \<times> Service" where
  "Burn c rat_SetString e amount = submitReviewed c rat_SetString e [] [] [] 0 amount submitBurn None"

definition PublishProof :: "crypto \<Rightarrow> (byte list \<Rightarrow> rat option) \<Rightarrow> env \<Rightarrow> hash256 \<Rightarrow> Service \<Rightarrow> TransactionID res \<times> Service" where
  "PublishProof c rat_SetString e witness = submitReviewed c rat_SetString e [] [] [] 0 ZeroCurrency submitProof (Some witness)"

end
