(* ===== verification/PoolPayout.thy ===== *)
theory PoolPayout
  imports WalletService
begin

text \<open>
  Payouts of a mining pool (\<^verbatim>\<open>node/qday/pool_payout.go\<close>): requests with an identifier chosen by the caller, the table of
  payouts and its file, and the payment of a request at most once.
\<close>

section \<open>Requests\<close>

definition maxPoolPayoutFile :: nat where "maxPoolPayoutFile = 128 * 2 ^ 20"

definition maxPoolPayoutRecords :: nat where "maxPoolPayoutRecords = 100000"

definition maxPoolPayoutOutputs :: nat where "maxPoolPayoutOutputs = 127"

definition poolPayoutFinality :: u64 where "poolPayoutFinality = 6"

record PoolPayoutOutput =
  po_Address :: "byte list"
  po_AmountAtomic :: "byte list"

record PoolPayoutRequest =
  pq_RequestID :: "byte list"
  pq_FromAddress :: "byte list"
  pq_ExpectedUnitAtomic :: "byte list"
  pq_FeeAtomic :: "byte list"
  pq_Outputs :: "PoolPayoutOutput list"

record PoolPayoutResponse =
  ps_RequestID :: "byte list"
  ps_Transaction :: TransactionID
  ps_Outputs :: nat
  ps_Status :: string

record validatedPoolPayoutOutput =
  vo_Address :: QdayAddress
  vo_Amount :: Currency

record validatedPoolPayout =
  vp_RequestID :: "byte list"
  vp_FromAddress :: "byte list"
  vp_ExpectedUnitAtomic :: "byte list"
  vp_Fee :: Currency
  vp_Outputs :: "validatedPoolPayoutOutput list"
  vp_Digest :: "byte list"

text \<open>\<^verbatim>\<open>json.Marshal\<close> of a string of printable ASCII characters.\<close>

fun json_escape :: "byte list \<Rightarrow> byte list" where
  "json_escape [] = []"
| "json_escape (b # bs) =
     (if b = 34 then [92, 34] else if b = 92 then [92, 92]
      else if b = 60 then ascii (CHR 0x5C # ''u003c'') else if b = 62 then ascii (CHR 0x5C # ''u003e'')
      else if b = 38 then ascii (CHR 0x5C # ''u0026'') else [b]) @ json_escape bs"

definition json_string :: "byte list \<Rightarrow> byte list" where
  "json_string s = [34] @ json_escape s @ [34]"

definition json_member :: "string \<Rightarrow> byte list \<Rightarrow> byte list" where
  "json_member name v = json_string (ascii name) @ [58] @ v"

fun json_commas :: "byte list list \<Rightarrow> byte list" where
  "json_commas [] = []"
| "json_commas [v] = v"
| "json_commas (v # vs) = v @ [44] @ json_commas vs"

definition json_object :: "byte list list \<Rightarrow> byte list" where
  "json_object members = [123] @ json_commas members @ [125]"

definition json_array :: "byte list list \<Rightarrow> byte list" where
  "json_array vs = [91] @ json_commas vs @ [93]"

definition json_output :: "PoolPayoutOutput \<Rightarrow> byte list" where
  "json_output out = json_object [json_member ''address'' (json_string (po_Address out)),
     json_member ''amountAtomic'' (json_string (po_AmountAtomic out))]"

definition json_request :: "PoolPayoutRequest \<Rightarrow> byte list" where
  "json_request req = json_object [
     json_member ''requestID'' (json_string (pq_RequestID req)),
     json_member ''fromAddress'' (json_string (pq_FromAddress req)),
     json_member ''expectedUnitAtomic'' (json_string (pq_ExpectedUnitAtomic req)),
     json_member ''feeAtomic'' (json_string (pq_FeeAtomic req)),
     json_member ''outputs'' (json_array (map json_output (pq_Outputs req)))]"

definition hex_encode :: "byte list \<Rightarrow> byte list" where
  "hex_encode b = concat (map (\<lambda>x. [ascii ''0123456789abcdef'' ! unat (x div 16), ascii ''0123456789abcdef'' ! unat (x mod 16)]) b)"

definition printable :: "byte \<Rightarrow> bool" where
  "printable b \<longleftrightarrow> 0x21 \<le> b \<and> b \<le> 0x7e"

definition validate_output :: "crypto \<Rightarrow> (byte list \<Rightarrow> rat option) \<Rightarrow> PoolPayoutOutput \<Rightarrow> validatedPoolPayoutOutput list
    \<Rightarrow> validatedPoolPayoutOutput list res" where
  "validate_output c rat_SetString output outputs =
     rbind (ParseQdayAddress c (TrimSpace (po_Address output))) (\<lambda>address.
     if address \<in> vo_Address ` set outputs then Err ''output repeats address''
     else rbind (canonicalAtomic rat_SetString (po_AmountAtomic output) False) (\<lambda>amount.
       Ok (outputs @ [\<lparr>vo_Address = address, vo_Amount = amount\<rparr>])))"

text \<open>\<^verbatim>\<open>sort.Slice\<close> by the texts of the addresses, which are all different, so that there is one sorted list.\<close>

definition canonical_output :: "validatedPoolPayoutOutput \<Rightarrow> PoolPayoutOutput res" where
  "canonical_output out = rbind (QdayAddress_String (vo_Address out)) (\<lambda>a. Ok \<lparr>po_Address = a, po_AmountAtomic = ExactString (vo_Amount out)\<rparr>)"

definition sort_payouts :: "validatedPoolPayoutOutput list \<Rightarrow> (PoolPayoutOutput \<times> validatedPoolPayoutOutput) list res" where
  "sort_payouts outputs = rbind (map_res canonical_output outputs) (\<lambda>texts. Ok (sort_key (\<lambda>(t, out). po_Address t) (zip texts outputs)))"

definition validatePoolPayoutRequest :: "crypto \<Rightarrow> (byte list \<Rightarrow> rat option) \<Rightarrow> PoolPayoutRequest \<Rightarrow> validatedPoolPayout res" where
  "validatePoolPayoutRequest c rat_SetString req =
     (let rid = TrimSpace (pq_RequestID req) in
      if rid = [] \<or> 128 < length rid \<or> \<not> list_all printable rid then Err ''requestID must contain 1..128 printable ASCII characters''
      else rbind (ParseQdayAddress c (TrimSpace (pq_FromAddress req))) (\<lambda>from.
        rbind (canonicalAtomic rat_SetString (pq_ExpectedUnitAtomic req) False) (\<lambda>unit.
        rbind (canonicalAtomic rat_SetString (pq_FeeAtomic req) True) (\<lambda>fee.
        if pq_Outputs req = [] \<or> maxPoolPayoutOutputs < length (pq_Outputs req) then Err ''outputs must contain 1..127 payments''
        else rbind (fold_res (validate_output c rat_SetString) (pq_Outputs req) []) (\<lambda>outputs.
        rbind (sort_payouts outputs) (\<lambda>sorted.
        rbind (QdayAddress_String from) (\<lambda>fromText.
        let canonical = \<lparr>pq_RequestID = rid, pq_FromAddress = fromText, pq_ExpectedUnitAtomic = ExactString unit,
              pq_FeeAtomic = ExactString fee, pq_Outputs = map fst sorted\<rparr> in
        Ok \<lparr>vp_RequestID = rid, vp_FromAddress = fromText, vp_ExpectedUnitAtomic = ExactString unit, vp_Fee = fee,
            vp_Outputs = map snd sorted, vp_Digest = hex_encode (hash_bytes (sha256_Sum256 c (json_request canonical)))\<rparr>)))))))"

section \<open>The table of payouts\<close>

definition valid_status :: "string \<Rightarrow> bool" where
  "valid_status st \<longleftrightarrow> st = ''queued'' \<or> st = ''confirming'' \<or> st = ''confirmed''"

definition load_record :: "crypto \<Rightarrow> poolPayoutRecord \<Rightarrow> Service \<Rightarrow> Service res" where
  "load_record c record s =
     (if pr_RequestID record = [] \<or> pr_Digest record = [] \<or> pr_CreatedAt record = 0 \<or> \<not> valid_status (pr_Status record)
      then Err ''invalid pool payout record''
      else rbind (if pr_Status record = ''confirmed''
        then if pr_Transaction record \<noteq> [] \<or> pr_TransactionID record = 0 then Err ''invalid confirmed pool payout record'' else Ok s
        else rbind (decodePendingTransaction (pr_Transaction record)) (\<lambda>txn.
          if V2Transaction_ID c txn \<noteq> pr_TransactionID record then Err ''pool payout transaction ID mismatch''
          else Ok (if Mapping.lookup (sv_rebroadcasts s) (V2Transaction_ID c txn) \<noteq> None then s
            else s\<lparr>sv_rebroadcasts := Mapping.update (V2Transaction_ID c txn)
              \<lparr>pb_Basis = pr_Basis record, pb_BroadcastedAt = pr_CreatedAt record, pb_Transactions = [txn],
               pb_confirmedAt = \<lparr>ci_Height = 0, ci_ID = 0\<rparr>\<rparr> (sv_rebroadcasts s)\<rparr>))) (\<lambda>s.
        if Mapping.lookup (sv_poolPayouts s) (pr_RequestID record) \<noteq> None then Err ''duplicate pool payout requestID''
        else Ok (s\<lparr>sv_poolPayouts := Mapping.update (pr_RequestID record) record (sv_poolPayouts s)\<rparr>)))"

definition loadPoolPayouts :: "crypto \<Rightarrow> env \<Rightarrow> Service \<Rightarrow> Service res" where
  "loadPoolPayouts c e s = (case fl_visible (sv_poolPayoutFile s) of
      None \<Rightarrow> Ok s
    | Some records \<Rightarrow>
        if maxPoolPayoutFile < en_payoutsSize e records then Err ''pool payout file is too large''
        else if maxPoolPayoutRecords < length records then Err ''invalid pool payout file''
        else fold_res (load_record c) records s)"

definition savePoolPayouts :: "env \<Rightarrow> save_outcome \<Rightarrow> Service \<Rightarrow> unit res \<times> Service" where
  "savePoolPayouts e outcome s =
     (let ids = Mapping.ordered_keys (sv_poolPayouts s);
          records = map (\<lambda>k. the (Mapping.lookup (sv_poolPayouts s) k)) ids in
      if maxPoolPayoutFile < en_payoutsSize e records \<or> maxPoolPayoutRecords < length ids
      then (Err ''pool payout storage limit reached'', s)
      else case replace_file outcome records (sv_poolPayoutFile s) of (r, f) \<Rightarrow> (r, s\<lparr>sv_poolPayoutFile := f\<rparr>))"

definition savePoolPayoutRecord :: "env \<Rightarrow> save_outcome \<Rightarrow> poolPayoutRecord \<Rightarrow> Service \<Rightarrow> poolPayoutRecord res \<times> Service" where
  "savePoolPayoutRecord e outcome record s =
     (let rid = pr_RequestID record; previous = Mapping.lookup (sv_poolPayouts s) rid in
      if previous = None \<and> maxPoolPayoutRecords \<le> Mapping.size (sv_poolPayouts s) then (Err ''pool payout storage limit reached'', s)
      else case savePoolPayouts e outcome (s\<lparr>sv_poolPayouts := Mapping.update rid record (sv_poolPayouts s)\<rparr>) of
          (Ok _, s) \<Rightarrow> (Ok record, s)
        | (Err err, s) \<Rightarrow> (Err err, s\<lparr>sv_poolPayouts := (case previous of
              Some r \<Rightarrow> Mapping.update rid r (sv_poolPayouts s)
            | None \<Rightarrow> Mapping.delete rid (sv_poolPayouts s))\<rparr>)
        | (Panic p, s) \<Rightarrow> (Panic p, s))"

section \<open>Payment of a request\<close>

text \<open>The part of \<^verbatim>\<open>ensurePoolPayout\<close> that finds the payment confirmed at a block of the best chain.\<close>

definition finish_payout :: "env \<Rightarrow> poolPayoutRecord \<Rightarrow> Service \<Rightarrow> poolPayoutRecord res \<times> Service" where
  "finish_payout e record s =
     (if ci_Height (Tip (sv_CM s)) < ci_Height (pr_ConfirmedAt record) + poolPayoutFinality - 1 then (Ok record, s)
      else let record = record\<lparr>pr_Status := ''confirmed'', pr_Transaction := []\<rparr> in
        sbind (savePendingBroadcasts e) (\<lambda>_. savePoolPayoutRecord e (en_savePayout e) record)
          (s\<lparr>sv_rebroadcasts := Mapping.delete (pr_TransactionID record) (sv_rebroadcasts s)\<rparr>))"

text \<open>The rest of it: the payment is moved to the tip, offered to the pool and to the peers, and recorded.\<close>

definition offer_payout :: "crypto \<Rightarrow> env \<Rightarrow> poolPayoutRecord \<Rightarrow> Service \<Rightarrow> poolPayoutRecord res \<times> Service" where
  "offer_payout c e record s =
     (let tip = Tip (sv_CM s) in
      attempt (decodePendingTransaction (pr_Transaction record)) (\<lambda>txn s.
      attempt (updatePendingProofs c (sv_CM s) (en_iterations e) [txn] (pr_Basis record) tip) (\<lambda>updated s.
      if updated = [] then savePoolPayoutRecord e (en_savePayout e) (record\<lparr>pr_Status := ''confirming'', pr_ConfirmedAt := tip\<rparr>) s
      else case AddV2PoolTransactions c (en_perm e) tip updated (sv_CM s) of
          (Err err, m) \<Rightarrow> (Err err, s\<lparr>sv_CM := m\<rparr>)
        | (Panic p, m) \<Rightarrow> (Panic p, s\<lparr>sv_CM := m\<rparr>)
        | (Ok _, m) \<Rightarrow>
            let s = broadcast e tip updated (report ''failed to save pool payout for rebroadcast: ''
                  (rememberBroadcast c e tip updated (s\<lparr>sv_CM := m\<rparr>))) in
            savePoolPayoutRecord e (en_savePayout e) (record\<lparr>pr_Basis := tip, pr_Transaction := encodePendingTransaction (hd updated),
              pr_TransactionID := V2Transaction_ID c (hd updated), pr_Status := ''queued''\<rparr>) s) s) s)"

definition ensurePoolPayout :: "crypto \<Rightarrow> env \<Rightarrow> poolPayoutRecord \<Rightarrow> Service \<Rightarrow> poolPayoutRecord res \<times> Service" where
  "ensurePoolPayout c e record s =
     (if pr_Status record = ''confirmed'' then (Ok record, s)
      else if pr_ConfirmedAt record = \<lparr>ci_Height = 0, ci_ID = 0\<rparr> then offer_payout c e record s
      else if on_best (sv_CM s) (pr_ConfirmedAt record) then finish_payout e record s
      else offer_payout c e (record\<lparr>pr_ConfirmedAt := \<lparr>ci_Height = 0, ci_ID = 0\<rparr>, pr_Status := ''queued''\<rparr>) s)"

definition payout_response :: "poolPayoutRecord \<Rightarrow> PoolPayoutResponse" where
  "payout_response record = \<lparr>ps_RequestID = pr_RequestID record, ps_Transaction = pr_TransactionID record,
     ps_Outputs = pr_Outputs record, ps_Status = pr_Status record\<rparr>"

definition empty_response :: PoolPayoutResponse where
  "empty_response = \<lparr>ps_RequestID = [], ps_Transaction = 0, ps_Outputs = 0, ps_Status = []\<rparr>"

text \<open>The sum of the payments.\<close>

fun add_payouts :: "validatedPoolPayoutOutput list \<Rightarrow> Currency \<Rightarrow> Currency res" where
  "add_payouts [] required = Ok required"
| "add_payouts (out # outs) required = (case Currency_AddWithOverflow required (vo_Amount out) of
      (_, True) \<Rightarrow> Err ''pool payout amount overflows''
    | (r, False) \<Rightarrow> add_payouts outs r)"

definition payout_required :: "validatedPoolPayout \<Rightarrow> Currency res" where
  "payout_required v = rbind (add_payouts (vp_Outputs v) ZeroCurrency) (\<lambda>required.
     case Currency_AddWithOverflow required (vp_Fee v) of
       (_, True) \<Rightarrow> Err ''pool payout amount plus fee overflows''
     | (r, False) \<Rightarrow> Ok r)"

text \<open>The unsigned transaction; its inputs are chosen like those of a transfer.\<close>

definition build_payout :: "crypto \<Rightarrow> env \<Rightarrow> State \<Rightarrow> QdayKeys \<Rightarrow> validatedPoolPayout \<Rightarrow> Currency \<Rightarrow> SiacoinElement list \<Rightarrow> V2Transaction res" where
  "build_payout c e cs k v required outs =
     rbind (sort_outputs submitTransfer cs (en_order e outs)) (\<lambda>outs.
     rbind (select_inputs submitTransfer cs (QdayKeys_Policy k) required outs (ZeroCurrency, [])) (\<lambda>(worth, inputs).
     if Currency_Cmp worth required < 0 then Err ''insufficient confirmed spendable balance for pool payout''
     else rbind (Currency_Sub worth required) (\<lambda>change.
       Ok (empty_V2Transaction\<lparr>v2_SiacoinInputs := inputs, v2_MinerFee := vp_Fee v,
         v2_SiacoinOutputs := with_change change (QdayKeys_Address c k)
           (map (\<lambda>out. \<lparr>sco_Value = vo_Amount out, sco_Address = vo_Address out\<rparr>) (vp_Outputs v)),
         v2_ArbitraryData := QdayEnvelope_Encode (payment_envelope submitTransfer None)\<rparr>))))"

definition checkPayoutUnit :: "string \<Rightarrow> validatedPoolPayout \<Rightarrow> State \<Rightarrow> unit res" where
  "checkPayoutUnit err v cs = rbind (QdayUnits cs (ci_Height (s_Index cs))) (\<lambda>u. fail_if (ExactString u \<noteq> vp_ExpectedUnitAtomic v) err)"

text \<open>
  \<^verbatim>\<open>PoolPayout\<close> after the transaction is signed. When the update of the proofs returns no error but not exactly one
  transaction, the call returns an empty response without an error.
\<close>

definition record_payout :: "crypto \<Rightarrow> env \<Rightarrow> State \<Rightarrow> validatedPoolPayout \<Rightarrow> V2Transaction \<Rightarrow> Service \<Rightarrow> PoolPayoutResponse res \<times> Service" where
  "record_payout c e cs v txn s0 =
     (let s = s0\<lparr>sv_CM := en_meanwhile e (sv_CM s0)\<rparr>; current = m_tipState (sv_CM s) in
      attempt (checkPayoutUnit ''QDAY denomination changed while signing; rebuild the pool payout'' v current) (\<lambda>_ s.
      attempt (UpdateV2TransactionSet c (sv_CM s) [txn] (s_Index cs) (s_Index current)) (\<lambda>updated s. case updated of
          [txn] \<Rightarrow>
            let record = \<lparr>pr_RequestID = vp_RequestID v, pr_Digest = vp_Digest v, pr_Basis = s_Index current,
                  pr_TransactionID = V2Transaction_ID c txn, pr_Transaction = encodePendingTransaction txn,
                  pr_Outputs = length (vp_Outputs v), pr_Status = ''queued'', pr_ConfirmedAt = \<lparr>ci_Height = 0, ci_ID = 0\<rparr>,
                  pr_CreatedAt = en_now e\<rparr> in
            sbind (savePoolPayoutRecord e (en_saveNewPayout e) record) (\<lambda>_.
            sbind (ensurePoolPayout c e record) (\<lambda>record s. (Ok (payout_response record), s))) s
        | _ \<Rightarrow> (Ok empty_response, s)) s) s)"

definition new_payout :: "crypto \<Rightarrow> env \<Rightarrow> validatedPoolPayout \<Rightarrow> Service \<Rightarrow> PoolPayoutResponse res \<times> Service" where
  "new_payout c e v s = (case sv_keys s of
      None \<Rightarrow> (Err ''unlock your wallet first'', s)
    | Some keys \<Rightarrow>
        let k = qp_Public keys; cs = m_tipState (sv_CM s) in
        attempt (QdayAddress_String (QdayKeys_Address c k)) (\<lambda>own.
        if vp_FromAddress v \<noteq> own then (\<lambda>s. (Err ''the active wallet changed; review the pool payout again'', s))
        else attempt (checkPayoutUnit ''QDAY denomination changed; rebuild the pool payout'' v cs) (\<lambda>_.
        attempt (payout_required v) (\<lambda>required.
        sbind (outputs_op c e cs (QdayKeys_Address c k)) (\<lambda>outs.
        attempt (build_payout c e cs k v required outs) (\<lambda>txn.
        attempt (SignTransfer c (en_rounds e) (en_cancelled e 0) cs txn keys) (record_payout c e cs v)))))) s)"

definition PoolPayout :: "crypto \<Rightarrow> (byte list \<Rightarrow> rat option) \<Rightarrow> env \<Rightarrow> PoolPayoutRequest \<Rightarrow> Service \<Rightarrow> PoolPayoutResponse res \<times> Service" where
  "PoolPayout c rat_SetString e req =
     attempt (validatePoolPayoutRequest c rat_SetString req) (\<lambda>v s.
     case Mapping.lookup (sv_poolPayouts s) (vp_RequestID v) of
       Some record \<Rightarrow>
         if pr_Digest record \<noteq> vp_Digest v then (Err ''requestID was already used for a different pool payout'', s)
         else sbind (ensurePoolPayout c e record) (\<lambda>record s. (Ok (payout_response record), s)) s
     | None \<Rightarrow> new_payout c e v s)"

text \<open>\<^verbatim>\<open>PoolDefend\<close>: no transaction is due when the wallet has nothing to defend.\<close>

definition PoolDefend :: "crypto \<Rightarrow> (byte list \<Rightarrow> rat option) \<Rightarrow> env \<Rightarrow> Service \<Rightarrow> TransactionID option res \<times> Service" where
  "PoolDefend c rat_SetString e s = (case Transfer c rat_SetString e 0 ZeroCurrency True s of
      (Err err, s) \<Rightarrow> (if err = errNothingToDefend then Ok None else Err err, s)
    | (Ok txid, s) \<Rightarrow> (Ok (Some txid), s)
    | (Panic p, s) \<Rightarrow> (Panic p, s))"

section \<open>Starting the service\<close>

text \<open>
  A service that starts over the files that are visible. After a crash the directory may be as it was at its last
  sync: then \<open>lost\<close> is set and the durable file is the one that is there.
\<close>

definition after_crash :: "bool \<Rightarrow> 'a stored_file \<Rightarrow> 'a stored_file" where
  "after_crash lost f = (let x = (if lost then fl_durable f else fl_visible f) in \<lparr>fl_visible = x, fl_durable = x\<rparr>)"

definition NewService :: "crypto \<Rightarrow> env \<Rightarrow> Manager \<Rightarrow> storedPendingBroadcast list stored_file \<Rightarrow> poolPayoutRecord list stored_file
    \<Rightarrow> Service res" where
  "NewService c e cm broadcasts payouts =
     rbind (loadPendingBroadcasts c e \<lparr>sv_CM = cm, sv_keys = None, sv_rebroadcasts = Mapping.empty, sv_rebroadcastFile = broadcasts,
       sv_poolPayouts = Mapping.empty, sv_poolPayoutFile = payouts, sv_lastError = [], sv_lastRelayError = [], sv_sent = []\<rparr>)
     (loadPoolPayouts c e)"

end
