(* ===== verification/PendingRules.thy ===== *)
theory PendingRules
  imports PoolPayout SignedTransfers
begin

text \<open>
  What the node keeps of a signed payment: moving it to another block changes nothing but the proofs of its inputs,
  so its ID and its signatures stay, and the bytes in a file are read back as the same transaction.
\<close>

section \<open>Updates change only proofs\<close>

text \<open>A transaction without the parts of its coins that depend on the block at which it is looked at.\<close>

definition bare_input :: "V2SiacoinInput \<Rightarrow> V2SiacoinInput" where
  "bare_input i = i\<lparr>v2sci_Parent := (v2sci_Parent i)\<lparr>sce_StateElement := \<lparr>se_LeafIndex = 0, se_MerkleProof = []\<rparr>,
     sce_MaturityHeight := 0\<rparr>\<rparr>"

definition bare :: "V2Transaction \<Rightarrow> V2Transaction" where
  "bare txn = txn\<lparr>v2_SiacoinInputs := map bare_input (v2_SiacoinInputs txn)\<rparr>"

lemma update_each_keeps:
  assumes "\<And>x v y v'. f x v = Ok (y, v') \<Longrightarrow> g y = g x"
  shows "update_each f xs v = Ok (ys, v') \<Longrightarrow> map g ys = map g xs"
  by (induction xs arbitrary: v ys v') (auto simp: res_simps dest: assms)

lemma updateTxnProofs_bare:
  assumes "\<not> qdayUnsupported txn" "updateTxnProofs f n txn = Ok (txn', v)"
  shows "bare txn' = bare txn"
proof -
  from assms(2) obtain scis v' where scis: "update_each (\<lambda>sci v. rbind (update_proof f n (sce_StateElement (v2sci_Parent sci)) v) (\<lambda>(e, v).
          Ok (sci\<lparr>v2sci_Parent := (v2sci_Parent sci)\<lparr>sce_StateElement := e\<rparr>\<rparr>, v))) (v2_SiacoinInputs txn) True = Ok (scis, v')"
      and txn': "txn' = txn\<lparr>v2_SiacoinInputs := scis\<rparr>"
    by (auto simp: updateTxnProofs_def Let_def res_simps supported_fields [OF assms(1)])
  have "map bare_input scis = map bare_input (v2_SiacoinInputs txn)"
    by (rule update_each_keeps [OF _ scis]) (auto simp: res_simps bare_input_def)
  then show ?thesis by (simp add: bare_def txn')
qed

lemma bare_fields:
  "v2_SiacoinInputs (bare txn) = map bare_input (v2_SiacoinInputs txn)"
  "v2_SiacoinOutputs (bare txn) = v2_SiacoinOutputs txn"
  "v2_SiafundInputs (bare txn) = v2_SiafundInputs txn"
  "v2_SiafundOutputs (bare txn) = v2_SiafundOutputs txn"
  "v2_FileContracts (bare txn) = v2_FileContracts txn"
  "v2_FileContractRevisions (bare txn) = v2_FileContractRevisions txn"
  "v2_FileContractResolutions (bare txn) = v2_FileContractResolutions txn"
  "v2_Attestations (bare txn) = v2_Attestations txn"
  "v2_ArbitraryData (bare txn) = v2_ArbitraryData txn"
  "v2_NewFoundationAddress (bare txn) = v2_NewFoundationAddress txn"
  "v2_MinerFee (bare txn) = v2_MinerFee txn"
  by (simp_all add: bare_def)

lemma bare_eq:
  assumes "bare txn' = bare txn"
  shows "map bare_input (v2_SiacoinInputs txn') = map bare_input (v2_SiacoinInputs txn)" "v2_SiacoinOutputs txn' = v2_SiacoinOutputs txn"
    "v2_SiafundInputs txn' = v2_SiafundInputs txn" "v2_SiafundOutputs txn' = v2_SiafundOutputs txn"
    "v2_FileContracts txn' = v2_FileContracts txn" "v2_FileContractRevisions txn' = v2_FileContractRevisions txn"
    "v2_FileContractResolutions txn' = v2_FileContractResolutions txn" "v2_Attestations txn' = v2_Attestations txn"
    "v2_ArbitraryData txn' = v2_ArbitraryData txn" "v2_NewFoundationAddress txn' = v2_NewFoundationAddress txn"
    "v2_MinerFee txn' = v2_MinerFee txn"
  using arg_cong [OF assms, of v2_SiacoinInputs]
    arg_cong [OF assms, of v2_SiacoinOutputs]
    arg_cong [OF assms, of v2_SiafundInputs]
    arg_cong [OF assms, of v2_SiafundOutputs]
    arg_cong [OF assms, of v2_FileContracts]
    arg_cong [OF assms, of v2_FileContractRevisions]
    arg_cong [OF assms, of v2_FileContractResolutions]
    arg_cong [OF assms, of v2_Attestations]
    arg_cong [OF assms, of v2_ArbitraryData]
    arg_cong [OF assms, of v2_NewFoundationAddress]
    arg_cong [OF assms, of v2_MinerFee]
  by (simp_all only: bare_fields)

lemma bare_unsupported:
  assumes "bare txn' = bare txn"
  shows "qdayUnsupported txn' = qdayUnsupported txn"
  by (simp only: qdayUnsupported_def bare_eq [OF assms])

lemma bare_map:
  assumes "bare txn' = bare txn" and "\<And>i. g (bare_input i) = g i"
  shows "map g (v2_SiacoinInputs txn') = map g (v2_SiacoinInputs txn)"
proof -
  have "map g (map bare_input (v2_SiacoinInputs txn')) = map g (map bare_input (v2_SiacoinInputs txn))"
    using bare_eq(1) [OF assms(1)] by simp
  then show ?thesis by (simp add: assms(2) comp_def)
qed

lemma bare_ID: "bare txn' = bare txn \<Longrightarrow> V2Transaction_ID c txn' = V2Transaction_ID c txn"
proof -
  assume eq: "bare txn' = bare txn"
  have inputs: "map (\<lambda>i. Hash256_EncodeTo (sce_ID (v2sci_Parent i))) (v2_SiacoinInputs txn')
      = map (\<lambda>i. Hash256_EncodeTo (sce_ID (v2sci_Parent i))) (v2_SiacoinInputs txn)"
    by (rule bare_map [OF eq]) (simp add: bare_input_def)
  moreover from bare_eq(1) [OF eq] have "length (v2_SiacoinInputs txn') = length (v2_SiacoinInputs txn)"
    by (rule map_eq_imp_length_eq)
  ultimately show ?thesis
    by (simp only: V2Transaction_ID_def V2TransactionSemantics_EncodeTo_def EncodeSlice_def bare_eq [OF eq])
qed

text \<open>The transactions that are left, in order, are the given ones with other proofs.\<close>

definition reproved :: "V2Transaction list \<Rightarrow> V2Transaction list \<Rightarrow> bool" where
  "reproved txns txns' \<longleftrightarrow> length txns' \<le> length txns \<and> (\<forall>t' \<in> set txns'. \<exists>t \<in> set txns. bare t' = bare t)"

lemma reproved_refl: "reproved txns txns"
  by (auto simp: reproved_def)

lemma reproved_trans: "reproved a b \<Longrightarrow> reproved b d \<Longrightarrow> reproved a d"
  unfolding reproved_def by (metis le_trans)

lemma reproved_supported: "reproved txns txns' \<Longrightarrow> \<forall>t \<in> set txns. \<not> qdayUnsupported t \<Longrightarrow> \<forall>t \<in> set txns'. \<not> qdayUnsupported t"
  unfolding reproved_def using bare_unsupported by blast

lemma fold_reproved:
  assumes "\<And>x txns txns'. \<lbrakk>f x txns = Ok txns'; \<forall>t \<in> set txns. \<not> qdayUnsupported t\<rbrakk> \<Longrightarrow> reproved txns txns'"
  shows "fold_res f xs txns = Ok txns' \<Longrightarrow> \<forall>t \<in> set txns. \<not> qdayUnsupported t \<Longrightarrow> reproved txns txns'"
proof (induction xs arbitrary: txns)
  case Nil
  then show ?case by (simp add: reproved_refl)
next
  case (Cons x xs)
  then obtain txns1 where 1: "f x txns = Ok txns1" "fold_res f xs txns1 = Ok txns'" by (auto simp: res_simps)
  from assms [OF 1(1) Cons.prems(2)] Cons.IH [OF 1(2)] Cons.prems(2) show ?case
    using reproved_supported reproved_trans by blast
qed

lemma collect_reproved:
  assumes "\<And>t rem rem'. \<lbrakk>f t rem = Ok rem'; \<not> qdayUnsupported t\<rbrakk> \<Longrightarrow> rem' = rem \<or> (\<exists>t'. rem' = rem @ [t'] \<and> bare t' = bare t)"
  shows "fold_res f txns rem = Ok rem' \<Longrightarrow> \<forall>t \<in> set txns. \<not> qdayUnsupported t \<Longrightarrow>
    \<exists>txns'. rem' = rem @ txns' \<and> reproved txns txns'"
proof (induction txns arbitrary: rem)
  case Nil
  then show ?case by (simp add: reproved_refl)
next
  case (Cons t txns)
  then obtain rem1 where 1: "f t rem = Ok rem1" "fold_res f txns rem1 = Ok rem'" by (auto simp: res_simps)
  obtain txns' where txns': "rem' = rem1 @ txns'" "reproved txns txns'" using Cons.IH [OF 1(2)] Cons.prems(2) by auto
  have "\<not> qdayUnsupported t" using Cons.prems(2) by simp
  with assms [OF 1(1)] consider "rem1 = rem" | t' where "rem1 = rem @ [t']" "bare t' = bare t" by blast
  then show ?case
  proof cases
    case 1
    with txns' show ?thesis by (intro exI [of _ txns']) (auto simp: reproved_def)
  next
    case 2
    with txns' show ?thesis by (intro exI [of _ "t' # txns'"]) (auto simp: reproved_def)
  qed
qed

lemma update_valid_bare: "update_valid f n txn = Ok txn' \<Longrightarrow> \<not> qdayUnsupported txn \<Longrightarrow> bare txn' = bare txn"
  by (auto simp: update_valid_def res_simps split: if_splits dest: updateTxnProofs_bare)

lemma revert_step:
  "rbind (update_valid f n t) (\<lambda>txn. Ok (rem @ [txn])) = Ok rem' \<Longrightarrow> \<not> qdayUnsupported t \<Longrightarrow>
    rem' = rem \<or> (\<exists>t'. rem' = rem @ [t'] \<and> bare t' = bare t)"
  by (auto simp: res_simps dest: update_valid_bare)

lemma revert_proofs_reproved:
  assumes "revert_proofs c m index txns = Ok txns'" "\<forall>t \<in> set txns. \<not> qdayUnsupported t"
  shows "reproved txns txns'"
proof -
  from assms(1) obtain f n where "fold_res (\<lambda>txn updated. rbind (update_valid f n txn) (\<lambda>txn. Ok (updated @ [txn]))) txns [] = Ok txns'"
    by (auto simp: revert_proofs_def res_simps)
  from collect_reproved [OF revert_step this assms(2)] show ?thesis by auto
qed

lemma confirm_inputs_bare: "\<not> qdayUnsupported txn \<Longrightarrow> bare (confirm_inputs cs confirmed txn) = bare txn"
  by (simp add: bare_def confirm_inputs_def bare_input_def Let_def supported_fields(1) comp_def split: option.splits)

lemma apply_step:
  assumes "(if ID t \<in> confirmedTxns then Ok rem
       else rbind (update_valid f n (confirm_inputs cs confirmed t)) (\<lambda>txn. Ok (rem @ [txn]))) = Ok rem'" "\<not> qdayUnsupported t"
  shows "rem' = rem \<or> (\<exists>t'. rem' = rem @ [t'] \<and> bare t' = bare t)"
proof (cases "ID t \<in> confirmedTxns")
  case False
  with assms(1) obtain t' where "update_valid f n (confirm_inputs cs confirmed t) = Ok t'" "rem' = rem @ [t']" by (auto simp: res_simps)
  then show ?thesis using update_valid_bare bare_unsupported confirm_inputs_bare assms(2) by metis
qed (use assms in simp)

lemma apply_proofs_reproved:
  assumes "apply_proofs c m index txns = Ok txns'" "\<forall>t \<in> set txns. \<not> qdayUnsupported t"
  shows "reproved txns txns'"
proof -
  from assms(1) obtain f n confirmedTxns cs confirmed where "fold_res (\<lambda>txn rem.
       if V2Transaction_ID c txn \<in> confirmedTxns then Ok rem
       else rbind (update_valid f n (confirm_inputs cs confirmed txn)) (\<lambda>txn. Ok (rem @ [txn]))) txns [] = Ok txns'"
    by (auto simp: apply_proofs_def res_simps Let_def)
  from collect_reproved [OF apply_step this assms(2)] show ?thesis by auto
qed

lemma ephemeral_heights_reproved: "reproved txns (updateQdayEphemeralHeights h txns)"
proof -
  have "bare (txn\<lparr>v2_SiacoinInputs := map (\<lambda>sci.
     if se_LeafIndex (sce_StateElement (v2sci_Parent sci)) = UnassignedLeafIndex
     then sci\<lparr>v2sci_Parent := (v2sci_Parent sci)\<lparr>sce_MaturityHeight := h\<rparr>\<rparr> else sci) (v2_SiacoinInputs txn)\<rparr>) = bare txn" for txn
    by (simp add: bare_def bare_input_def comp_def)
  then show ?thesis by (auto simp: reproved_def updateQdayEphemeralHeights_def)
qed

lemma UpdateV2TransactionSet_reproved:
  assumes "UpdateV2TransactionSet c m txns from to = Ok txns'" "\<forall>t \<in> set txns. \<not> qdayUnsupported t"
  shows "reproved txns txns'"
proof (cases "from = to")
  case True
  then show ?thesis using assms(1) by (simp add: UpdateV2TransactionSet_def reproved_refl)
next
  case False
  with assms(1) obtain revert app u1 u2 where u: "fold_res (revert_proofs c m) revert txns = Ok u1" "fold_res (apply_proofs c m) app u1 = Ok u2"
      "txns' = u2 \<or> txns' = updateQdayEphemeralHeights (ci_Height to + 1) u2"
    by (auto simp: UpdateV2TransactionSet_def updateV2TransactionProofs_def res_simps split: option.splits if_splits)
  have 1: "reproved txns u1" by (rule fold_reproved [OF revert_proofs_reproved u(1) assms(2)])
  have 2: "reproved u1 u2" by (rule fold_reproved [OF apply_proofs_reproved u(2) reproved_supported [OF 1 assms(2)]])
  show ?thesis using 1 2 u(3) ephemeral_heights_reproved reproved_trans by blast
qed

lemma updatePendingProofs_reproved:
  "updatePendingProofs c m n txns basis to = Ok txns' \<Longrightarrow> \<forall>t \<in> set txns. \<not> qdayUnsupported t \<Longrightarrow> reproved txns txns'"
proof (induction n arbitrary: txns basis)
  case 0
  then show ?case by (auto simp: updatePendingProofs.simps reproved_refl split: if_splits)
next
  case (Suc n)
  show ?case
  proof (cases "basis = to")
    case True
    then show ?thesis using Suc.prems(1) by (simp add: updatePendingProofs.simps reproved_refl)
  next
    case False
    with Suc.prems(1) obtain next' txns1 where 1: "UpdateV2TransactionSet c m txns basis next' = Ok txns1"
        "txns1 = [] \<and> txns' = [] \<or> updatePendingProofs c m n txns1 next' to = Ok txns'"
      by (auto simp: updatePendingProofs.simps [of c m "Suc n"] res_simps split: if_splits)
    have "reproved txns txns1" by (rule UpdateV2TransactionSet_reproved [OF 1(1) Suc.prems(2)])
    with 1(2) Suc.IH Suc.prems(2) show ?thesis using reproved_supported reproved_trans by blast
  qed
qed

end
