(* ===== verification/PayoutRules.thy ===== *)
theory PayoutRules
  imports PendingRules
begin

text \<open>
  Payouts are paid once: the transaction of a request is recorded in the file before it is offered to anyone, and
  from then on every transaction that is sent for the request has the recorded ID, whatever fails, whatever happens
  to the chain, and across restarts.
\<close>

section \<open>Bytes of a payment\<close>

text \<open>What is true of every payment that the service signs, and does not depend on proofs.\<close>

definition payment_shape :: "V2Transaction \<Rightarrow> bool" where
  "payment_shape txn \<longleftrightarrow> \<not> qdayUnsupported txn \<and> list_all (\<lambda>i. wf_SpendPolicy (sat_Policy (v2sci_SatisfiedPolicy i))) (v2_SiacoinInputs txn)"

lemma payment_shape_bare:
  assumes "bare txn' = bare txn"
  shows "payment_shape txn' = payment_shape txn"
proof -
  let ?wf = "\<lambda>i. wf_SpendPolicy (sat_Policy (v2sci_SatisfiedPolicy i))"
  have "map ?wf (v2_SiacoinInputs txn') = map ?wf (v2_SiacoinInputs txn)"
    by (rule bare_map [OF assms]) (simp add: bare_input_def)
  then have "list_all (\<lambda>b. b) (map ?wf (v2_SiacoinInputs txn')) = list_all (\<lambda>b. b) (map ?wf (v2_SiacoinInputs txn))" by (rule arg_cong)
  then have "list_all ?wf (v2_SiacoinInputs txn') = list_all ?wf (v2_SiacoinInputs txn)" by (simp only: list.pred_map comp_def)
  then show ?thesis using bare_unsupported [OF assms] by (simp add: payment_shape_def)
qed

lemma length_enc_if: "length (enc_if b bs) \<le> n \<Longrightarrow> b \<Longrightarrow> length bs \<le> n"
  by (simp add: enc_if_def)

lemma length_concat_member: "x \<in> set xs \<Longrightarrow> length (f x) \<le> length (concat (map f xs))"
  by (induction xs) auto

text \<open>A list is not longer than the bytes of its slice.\<close>

lemma slice_member: "x \<in> set xs \<Longrightarrow> length (f x) \<le> length (EncodeSlice f xs)"
  using length_concat_member [of x xs f] by (simp add: EncodeSlice_def)

lemma input_wf:
  assumes "length (V2SiacoinInput_EncodeTo i) < 2 ^ 64" "wf_SpendPolicy (sat_Policy (v2sci_SatisfiedPolicy i))"
  shows "wf_V2SiacoinInput i"
proof -
  let ?sp = "v2sci_SatisfiedPolicy i"
  have "length (se_MerkleProof (sce_StateElement (v2sci_Parent i))) < 2 ^ 64"
    using assms(1) hash.length_items [of "se_MerkleProof (sce_StateElement (v2sci_Parent i))"]
    by (simp add: V2SiacoinInput_EncodeTo_def SiacoinElement_EncodeTo_def StateElement_EncodeTo_def EncodeSlice_def)
  moreover have "length (sat_Signatures ?sp) < 2 ^ 64" "length (sat_Preimages ?sp) < 2 ^ 64"
    using assms(1) signature.length_items [of "sat_Signatures ?sp"] hash.length_items [of "sat_Preimages ?sp"]
    by (simp_all add: V2SiacoinInput_EncodeTo_def SatisfiedPolicy_EncodeTo_def EncodeSlice_def)
  ultimately show ?thesis using assms(2)
    by (simp add: wf_V2SiacoinInput_def wf_SiacoinElement_def wf_StateElement_def wf_SatisfiedPolicy_def fits_def)
qed

lemma payment_wf:
  assumes "payment_shape txn" "length (V2Transaction_EncodeTo txn) < 2 ^ 64"
  shows "wf_V2Transaction txn"
proof -
  have sup: "\<not> qdayUnsupported txn" using assms(1) by (simp add: payment_shape_def)
  have part: "length (EncodeSlice V2SiacoinInput_EncodeTo (v2_SiacoinInputs txn)) < 2 ^ 64 \<or> v2_SiacoinInputs txn = []"
      "length (EncodeSlice V2SiacoinOutput_EncodeTo (v2_SiacoinOutputs txn)) < 2 ^ 64 \<or> v2_SiacoinOutputs txn = []"
      "length (WriteBytes (v2_ArbitraryData txn)) < 2 ^ 64 \<or> v2_ArbitraryData txn = []"
    using assms(2) by (auto simp: V2Transaction_EncodeTo_def Let_def v2txn_has_field enc_if_def)
  have "wf_V2SiacoinInput i" if "i \<in> set (v2_SiacoinInputs txn)" for i
  proof (rule input_wf)
    show "length (V2SiacoinInput_EncodeTo i) < 2 ^ 64"
      using slice_member [OF that, of V2SiacoinInput_EncodeTo] part(1) that by auto
    show "wf_SpendPolicy (sat_Policy (v2sci_SatisfiedPolicy i))" using assms(1) that by (simp add: payment_shape_def list_all_iff)
  qed
  moreover have "length (v2_SiacoinInputs txn) < 2 ^ 64"
    using part(1) v2sci.length_items [of "v2_SiacoinInputs txn"] by (auto simp: EncodeSlice_def)
  moreover have "length (v2_SiacoinOutputs txn) < 2 ^ 64"
    using part(2) v2sco.length_items [of "v2_SiacoinOutputs txn"] by (auto simp: EncodeSlice_def)
  moreover have "length (v2_ArbitraryData txn) < 2 ^ 64" using part(3) by (auto simp: WriteBytes_def)
  ultimately show ?thesis
    by (simp add: wf_V2Transaction_def fits_def list_all_iff supported_fields [OF sup])
qed

text \<open>What the service reads back from a file is what it wrote.\<close>

lemma decode_canonical:
  assumes "decodePendingTransaction b = Ok txn"
  shows "length b \<le> 4 * 2 ^ 20" "fst (V2Transaction_DecodeFrom (NewBufDecoder b)) = txn"
  using assms unfolding decodePendingTransaction_def prod.case_eq_if by (simp_all split: if_split_asm option.split_asm)

lemma pending_decode_encode:
  assumes "payment_shape txn" "decodePendingTransaction (encodePendingTransaction txn) = Ok txn'"
  shows "txn' = txn"
proof -
  note dec = decode_canonical [OF assms(2), unfolded encodePendingTransaction_def]
  from dec(1) have "length (V2Transaction_EncodeTo txn) < 2 ^ 64" by simp
  from v2txn.buf_roundtrip [OF payment_wf [OF assms(1) this]] dec(2) show ?thesis by (metis fst_conv)
qed

text \<open>Signing keeps the shape.\<close>

lemma native_policy_wf: "wf_SpendPolicy (QdayKeys_Policy k)"
  by (simp add: wf_SpendPolicy_def QdayKeys_Policy_def maxPolicyDepth_def)

lemma signed_shape:
  assumes "SignTransfer c rounds cancelled s txn k = Ok txn'" "\<not> qdayUnsupported txn"
  shows "payment_shape txn'"
proof -
  from SignTransfer_Ok [OF assms(1)] obtain e nonce w where txn': "txn' = resign e nonce w txn"
      and w: "QdayPrivateKeys_Sign c k (InputSigHash c s txn') = Ok w" by blast
  from w have "wf_SpendPolicy (sat_Policy w)"
    by (auto simp: QdayPrivateKeys_Sign_def native_policy_wf split: option.splits if_splits)
  moreover have "qdayUnsupported txn' = qdayUnsupported txn" by (simp add: txn' qdayUnsupported_def resign_def)
  ultimately show ?thesis using assms(2) by (simp add: payment_shape_def txn' list_all_iff)
qed

section \<open>The table of payouts and its file\<close>

text \<open>
  The bytes of a record, if they can be read, are the payment with the recorded ID, and it pays the outputs and the fee of a
  request with the digest of the record, besides at most one output of change.
\<close>

definition payout_outputs :: "validatedPoolPayout \<Rightarrow> SiacoinOutput list" where
  "payout_outputs v = map (\<lambda>out. \<lparr>sco_Value = vo_Amount out, sco_Address = vo_Address out\<rparr>) (vp_Outputs v)"

definition pays_request :: "crypto \<Rightarrow> byte list \<Rightarrow> byte list \<Rightarrow> V2Transaction \<Rightarrow> bool" where
  "pays_request c rid d txn \<longleftrightarrow> (\<exists>rat_SetString req v change. validatePoolPayoutRequest c rat_SetString req = Ok v \<and>
     vp_RequestID v = rid \<and> vp_Digest v = d \<and> v2_MinerFee txn = vp_Fee v \<and>
     v2_SiacoinOutputs txn = payout_outputs v @ change \<and> length change \<le> 1)"

definition offered :: "crypto \<Rightarrow> poolPayoutRecord \<Rightarrow> V2Transaction \<Rightarrow> bool" where
  "offered c r txn \<longleftrightarrow> V2Transaction_ID c txn = pr_TransactionID r \<and> pays_request c (pr_RequestID r) (pr_Digest r) txn"

definition good_record :: "crypto \<Rightarrow> poolPayoutRecord \<Rightarrow> bool" where
  "good_record c r \<longleftrightarrow> (\<forall>txn. decodePendingTransaction (pr_Transaction r) = Ok txn \<longrightarrow> payment_shape txn \<and> offered c r txn)"

lemma offered_eq: "offered c r = (\<lambda>txn. V2Transaction_ID c txn = pr_TransactionID r \<and> pays_request c (pr_RequestID r) (pr_Digest r) txn)"
  by (rule ext) (simp add: offered_def)

lemma offered_update [simp]:
  "offered c (r\<lparr>pr_Status := st\<rparr>) = offered c r" "offered c (r\<lparr>pr_ConfirmedAt := i\<rparr>) = offered c r"
  by (simp_all add: offered_eq)

lemma offered_bare: "bare txn' = bare txn \<Longrightarrow> offered c r txn \<Longrightarrow> offered c r txn'"
  using bare_ID [of txn' txn c] bare_eq(2,11) [of txn' txn] unfolding offered_def pays_request_def by metis

definition same_payout :: "poolPayoutRecord \<Rightarrow> poolPayoutRecord \<Rightarrow> bool" where
  "same_payout r r' \<longleftrightarrow> pr_RequestID r' = pr_RequestID r \<and> pr_Digest r' = pr_Digest r \<and> pr_TransactionID r' = pr_TransactionID r"

lemma same_payout_refl [simp]: "same_payout r r"
  by (simp add: same_payout_def)

lemma same_payout_trans: "same_payout a b \<Longrightarrow> same_payout b d \<Longrightarrow> same_payout a d"
  by (simp add: same_payout_def)

definition in_file :: "poolPayoutRecord \<Rightarrow> poolPayoutRecord list option \<Rightarrow> bool" where
  "in_file r f = (case f of None \<Rightarrow> False | Some rs \<Rightarrow> list_ex (same_payout r) rs)"

definition good_file :: "crypto \<Rightarrow> poolPayoutRecord list option \<Rightarrow> bool" where
  "good_file c f = (case f of None \<Rightarrow> True | Some rs \<Rightarrow> list_all (good_record c) rs)"

text \<open>Every payout of the table is in the file that is visible and in the one that survives a crash.\<close>

definition payouts_ok :: "crypto \<Rightarrow> Service \<Rightarrow> bool" where
  "payouts_ok c s \<longleftrightarrow> finite (Mapping.keys (sv_poolPayouts s)) \<and>
     (\<forall>rid r. Mapping.lookup (sv_poolPayouts s) rid = Some r \<longrightarrow> pr_RequestID r = rid \<and> good_record c r \<and>
        in_file r (fl_visible (sv_poolPayoutFile s)) \<and> in_file r (fl_durable (sv_poolPayoutFile s))) \<and>
     good_file c (fl_visible (sv_poolPayoutFile s)) \<and> good_file c (fl_durable (sv_poolPayoutFile s))"

lemma payouts_okI:
  assumes "finite (Mapping.keys (sv_poolPayouts s))"
    and "\<And>rid r. Mapping.lookup (sv_poolPayouts s) rid = Some r \<Longrightarrow> pr_RequestID r = rid \<and> good_record c r \<and>
        in_file r (fl_visible (sv_poolPayoutFile s)) \<and> in_file r (fl_durable (sv_poolPayoutFile s))"
    and "good_file c (fl_visible (sv_poolPayoutFile s))" "good_file c (fl_durable (sv_poolPayoutFile s))"
  shows "payouts_ok c s"
  unfolding payouts_ok_def using assms by blast

lemma payouts_okD:
  assumes "payouts_ok c s" "Mapping.lookup (sv_poolPayouts s) rid = Some r"
  shows "pr_RequestID r = rid" "good_record c r"
    "in_file r (fl_visible (sv_poolPayoutFile s))" "in_file r (fl_durable (sv_poolPayoutFile s))"
  using assms unfolding payouts_ok_def by blast+

definition keeps_payouts :: "Service \<Rightarrow> Service \<Rightarrow> bool" where
  "keeps_payouts s s' \<longleftrightarrow> (\<forall>rid r. Mapping.lookup (sv_poolPayouts s) rid = Some r \<longrightarrow>
     (\<exists>r'. Mapping.lookup (sv_poolPayouts s') rid = Some r' \<and> same_payout r r'))"

lemma keeps_payouts_refl: "sv_poolPayouts s' = sv_poolPayouts s \<Longrightarrow> keeps_payouts s s'"
  by (auto simp: keeps_payouts_def)

lemma keeps_payouts_trans: "keeps_payouts a b \<Longrightarrow> keeps_payouts b d \<Longrightarrow> keeps_payouts a d"
  unfolding keeps_payouts_def using same_payout_trans by meson

lemma payouts_ok_cong:
  "sv_poolPayouts s' = sv_poolPayouts s \<Longrightarrow> sv_poolPayoutFile s' = sv_poolPayoutFile s \<Longrightarrow> payouts_ok c s' = payouts_ok c s"
  by (simp add: payouts_ok_def)

lemma in_file_same: "in_file r f \<Longrightarrow> same_payout r r' \<Longrightarrow> in_file r' f"
  by (auto simp: in_file_def list_ex_iff same_payout_def split: option.splits)

text \<open>The records of a table are exactly what is written.\<close>

definition table_records :: "(byte list, poolPayoutRecord) mapping \<Rightarrow> poolPayoutRecord list" where
  "table_records tab = map (\<lambda>k. the (Mapping.lookup tab k)) (Mapping.ordered_keys tab)"

lemma set_table_records:
  assumes "finite (Mapping.keys tab)"
  shows "set (table_records tab) = {r. \<exists>rid. Mapping.lookup tab rid = Some r}"
proof -
  have "set (Mapping.ordered_keys tab) = {k. Mapping.lookup tab k \<noteq> None}"
    using assms by (simp add: Mapping.ordered_keys_def keys_dom_lookup dom_def)
  then show ?thesis unfolding table_records_def by force
qed

lemma written_file:
  assumes "finite (Mapping.keys tab)" "\<forall>rid r. Mapping.lookup tab rid = Some r \<longrightarrow> good_record c r"
  shows "good_file c (Some (table_records tab))" "Mapping.lookup tab rid = Some r \<Longrightarrow> in_file r (Some (table_records tab))"
  using assms set_table_records [OF assms(1)] by (auto simp: good_file_def in_file_def list_all_iff list_ex_iff intro: same_payout_refl)

lemma savePoolPayouts_cases:
  assumes "savePoolPayouts e outcome s = (r, s')"
  obtains err where "s' = s" "r = Err err"
  | err where "s' = s\<lparr>sv_poolPayoutFile := (sv_poolPayoutFile s)\<lparr>fl_visible := Some (table_records (sv_poolPayouts s))\<rparr>\<rparr>" "r = Err err"
  | "s' = s\<lparr>sv_poolPayoutFile := (sv_poolPayoutFile s)\<lparr>fl_visible := Some (table_records (sv_poolPayouts s)),
       fl_durable := Some (table_records (sv_poolPayouts s))\<rparr>\<rparr>" "r = Ok ()"
  using assms
  by (cases outcome) (auto simp: savePoolPayouts_def Let_def table_records_def split: if_splits)

lemma restored_table:
  "(case Mapping.lookup tab k of Some r \<Rightarrow> Mapping.update k r (Mapping.update k x tab) | None \<Rightarrow> Mapping.delete k (Mapping.update k x tab)) = tab"
proof (rule mapping_eqI)
  fix j
  show "Mapping.lookup (case Mapping.lookup tab k of Some r \<Rightarrow> Mapping.update k r (Mapping.update k x tab)
      | None \<Rightarrow> Mapping.delete k (Mapping.update k x tab)) j = Mapping.lookup tab j"
    by (cases "j = k"; cases "Mapping.lookup tab k") (simp_all add: lookup_update' lookup_delete_neq)
qed

lemma same_table [simp]: "s\<lparr>sv_poolPayouts := sv_poolPayouts s\<rparr> = s"
  by simp

text \<open>A record is saved, or the table is as before; the files have the payouts of the table in any case.\<close>

lemma savePoolPayoutRecord_ok:
  assumes ok: "payouts_ok c s" and good: "good_record c record"
    and same: "\<And>r. Mapping.lookup (sv_poolPayouts s) (pr_RequestID record) = Some r \<Longrightarrow> same_payout r record"
    and run: "savePoolPayoutRecord e outcome record s = (res, s')"
  shows "payouts_ok c s' \<and> keeps_payouts s s' \<and> sv_sent s' = sv_sent s \<and>
    (\<forall>r. res = Ok r \<longrightarrow> r = record \<and> Mapping.lookup (sv_poolPayouts s') (pr_RequestID record) = Some record)"
proof (cases "Mapping.lookup (sv_poolPayouts s) (pr_RequestID record) = None \<and> maxPoolPayoutRecords \<le> Mapping.size (sv_poolPayouts s)")
  case True
  with run ok show ?thesis by (auto simp: savePoolPayoutRecord_def Let_def keeps_payouts_refl)
next
  case False
  let ?tab = "Mapping.update (pr_RequestID record) record (sv_poolPayouts s)"
  obtain r s1 where save: "savePoolPayouts e outcome (s\<lparr>sv_poolPayouts := ?tab\<rparr>) = (r, s1)" by fastforce
  have fin: "finite (Mapping.keys ?tab)" using ok by (simp add: payouts_ok_def)
  have "\<forall>rid r. Mapping.lookup ?tab rid = Some r \<longrightarrow> good_record c r"
    using ok good by (auto simp: payouts_ok_def lookup_update')
  note written = written_file [OF fin this]
  have old: "in_file r (Some (table_records ?tab))" if "Mapping.lookup (sv_poolPayouts s) rid = Some r" for rid r
  proof (cases "rid = pr_RequestID record")
    case True
    from written(2) [of rid "record"] have "in_file record (Some (table_records ?tab))" by (simp add: True)
    moreover have "same_payout r record" by (rule same) (use that True in simp)
    then have "same_payout record r" by (simp add: same_payout_def)
    ultimately show ?thesis by (rule in_file_same)
  next
    case False
    with that written(2) [of rid r] show ?thesis by (simp add: lookup_update')
  qed
  note run' = run [unfolded savePoolPayoutRecord_def Let_def if_not_P [OF False] save prod.case]
  have tab1: "sv_poolPayouts s1 = ?tab" by (cases rule: savePoolPayouts_cases [OF save]) simp_all
  note run'' = run' [unfolded tab1 restored_table]
  show ?thesis
  proof (cases rule: savePoolPayouts_cases [OF save])
    case (1 err)
    with run'' have "s' = s \<and> res = Err err" by simp
    then show ?thesis using ok by (simp add: keeps_payouts_refl)
  next
    case (2 err)
    with run'' have "s' = s\<lparr>sv_poolPayoutFile := (sv_poolPayoutFile s)\<lparr>fl_visible := Some (table_records ?tab)\<rparr>\<rparr> \<and> res = Err err"
      by simp
    moreover from this have "payouts_ok c s'" using ok old written(1) unfolding payouts_ok_def by simp
    ultimately show ?thesis by (simp add: keeps_payouts_refl)
  next
    case 3
    with run'' have s': "s' = s\<lparr>sv_poolPayouts := ?tab, sv_poolPayoutFile := (sv_poolPayoutFile s)\<lparr>fl_visible := Some (table_records ?tab),
        fl_durable := Some (table_records ?tab)\<rparr>\<rparr>" "res = Ok record"
      by simp_all
    have entry: "pr_RequestID r = rid \<and> good_record c r" if r: "Mapping.lookup ?tab rid = Some r" for rid r
    proof (cases "rid = pr_RequestID record")
      case True
      with r good show ?thesis by simp
    next
      case False
      with r have "Mapping.lookup (sv_poolPayouts s) rid = Some r" by (simp add: lookup_update')
      with ok show ?thesis unfolding payouts_ok_def by blast
    qed
    have "payouts_ok c s'"
    proof (rule payouts_okI)
      fix rid r
      assume "Mapping.lookup (sv_poolPayouts s') rid = Some r"
      then have r: "Mapping.lookup ?tab rid = Some r" by (simp add: s'(1))
      show "pr_RequestID r = rid \<and> good_record c r \<and> in_file r (fl_visible (sv_poolPayoutFile s')) \<and>
          in_file r (fl_durable (sv_poolPayoutFile s'))"
        using entry [OF r] written(2) [OF r] by (simp add: s'(1))
    qed (use fin written(1) in \<open>simp_all add: s'(1)\<close>)
    moreover have "keeps_payouts s s'" unfolding keeps_payouts_def
    proof (intro allI impI)
      fix rid r
      assume r: "Mapping.lookup (sv_poolPayouts s) rid = Some r"
      show "\<exists>r'. Mapping.lookup (sv_poolPayouts s') rid = Some r' \<and> same_payout r r'"
        using r same [of r] by (cases "rid = pr_RequestID record") (simp_all add: s'(1) lookup_update')
    qed
    ultimately show ?thesis by (simp add: s')
  qed
qed

section \<open>Offering a payment\<close>

text \<open>The parts of the state that the bookkeeping of pending transactions leaves alone.\<close>

definition same_payouts :: "Service \<Rightarrow> Service \<Rightarrow> bool" where
  "same_payouts s s' \<longleftrightarrow> sv_poolPayouts s' = sv_poolPayouts s \<and> sv_poolPayoutFile s' = sv_poolPayoutFile s \<and> sv_sent s' = sv_sent s"

lemma savePendingBroadcasts_same: "savePendingBroadcasts e s = (r, s') \<Longrightarrow> same_payouts s s'"
  by (auto simp: savePendingBroadcasts_def same_payouts_def Let_def split: if_splits prod.splits)

lemma rememberBroadcast_same: "rememberBroadcast c e basis txns s = (r, s') \<Longrightarrow> same_payouts s s'"
  by (auto simp: rememberBroadcast_def same_payouts_def split: if_splits dest!: savePendingBroadcasts_same)

lemma report_same: "same_payouts s (snd x) \<Longrightarrow> same_payouts s (report what x)"
  by (cases x; cases "fst x") (auto simp: report_def same_payouts_def setError_def)

text \<open>A step that keeps the payouts and sends nothing but transactions that satisfy \<open>Q\<close>.\<close>

definition payout_step :: "crypto \<Rightarrow> (V2Transaction \<Rightarrow> bool) \<Rightarrow> Service \<Rightarrow> Service \<Rightarrow> bool" where
  "payout_step c Q s s' \<longleftrightarrow> payouts_ok c s' \<and> keeps_payouts s s' \<and>
     (\<exists>new. sv_sent s' = sv_sent s @ new \<and> list_all (\<lambda>(b, txns). list_all Q txns) new)"

lemma same_payouts_step: "payouts_ok c s \<Longrightarrow> same_payouts s s' \<Longrightarrow> payout_step c Q s s'"
  by (auto simp: payout_step_def same_payouts_def keeps_payouts_refl payouts_ok_cong [of s' s])

lemma payout_step_trans: "payout_step c Q s s1 \<Longrightarrow> payout_step c Q s1 s2 \<Longrightarrow> payout_step c Q s s2"
  unfolding payout_step_def using keeps_payouts_trans by force

lemma savePoolPayoutRecord_step:
  assumes "payouts_ok c s" "good_record c record" "savePoolPayoutRecord e outcome record s = (res, s')"
    and "\<And>r. Mapping.lookup (sv_poolPayouts s) (pr_RequestID record) = Some r \<Longrightarrow> same_payout r record"
  shows "payout_step c Q s s'" "res = Ok r \<Longrightarrow> r = record \<and> Mapping.lookup (sv_poolPayouts s') (pr_RequestID record) = Some record"
  using savePoolPayoutRecord_ok [OF assms(1,2,4,3)] by (simp_all add: payout_step_def)

text \<open>A record that the table has, possibly with another status or other proofs.\<close>

definition listed :: "crypto \<Rightarrow> Service \<Rightarrow> poolPayoutRecord \<Rightarrow> bool" where
  "listed c s record \<longleftrightarrow> payouts_ok c s \<and> good_record c record \<and>
     (\<exists>r. Mapping.lookup (sv_poolPayouts s) (pr_RequestID record) = Some r \<and> same_payout r record)"

lemma listed_cong: "listed c s record \<Longrightarrow> sv_poolPayouts s' = sv_poolPayouts s \<Longrightarrow> sv_poolPayoutFile s' = sv_poolPayoutFile s \<Longrightarrow> listed c s' record"
  by (auto simp: listed_def payouts_ok_cong [of s' s])

lemma listed_save:
  assumes "listed c s record" "good_record c record'" "same_payout record record'"
    and "savePoolPayoutRecord e outcome record' s = (res, s')"
  shows "payout_step c Q s s'"
proof (rule savePoolPayoutRecord_step(1) [OF _ assms(2,4)])
  show "payouts_ok c s" using assms(1) by (simp add: listed_def)
  fix r
  assume r: "Mapping.lookup (sv_poolPayouts s) (pr_RequestID record') = Some r"
  obtain r0 where "Mapping.lookup (sv_poolPayouts s) (pr_RequestID record) = Some r0" "same_payout r0 record"
    using assms(1) by (auto simp: listed_def)
  with r assms(3) show "same_payout r record'" by (simp add: same_payout_def)
qed

lemma decode_empty: "decodePendingTransaction [] \<noteq> Ok txn"
  by (simp add: decodePendingTransaction_def)

lemma finish_payout_step:
  assumes "listed c s record" "finish_payout e record s = (res, s')"
  shows "payout_step c Q s s'"
proof (cases "ci_Height (Tip (sv_CM s)) < ci_Height (pr_ConfirmedAt record) + poolPayoutFinality - 1")
  case True
  then show ?thesis using assms by (auto simp: finish_payout_def listed_def payout_step_def keeps_payouts_refl)
next
  case False
  let ?s = "s\<lparr>sv_rebroadcasts := Mapping.delete (pr_TransactionID record) (sv_rebroadcasts s)\<rparr>"
    and ?r = "record\<lparr>pr_Status := ''confirmed'', pr_Transaction := []\<rparr>"
  obtain r s1 where save: "savePendingBroadcasts e ?s = (r, s1)" by fastforce
  note same = savePendingBroadcasts_same [OF save]
  have listed: "listed c s1 record" using listed_cong [OF assms(1)] same by (simp add: same_payouts_def)
  have step: "payout_step c Q s s1" using same assms(1) by (intro same_payouts_step) (simp_all add: listed_def same_payouts_def)
  have run: "(case r of Ok _ \<Rightarrow> savePoolPayoutRecord e (en_savePayout e) ?r s1 | Err err \<Rightarrow> (Err err, s1) | Panic p \<Rightarrow> (Panic p, s1)) = (res, s')"
    using assms(2) False save by (cases r) (simp_all add: finish_payout_def Let_def)
  show ?thesis
  proof (cases r)
    case (Ok u)
    with run have save': "savePoolPayoutRecord e (en_savePayout e) ?r s1 = (res, s')" by simp
    have "payout_step c Q s1 s'"
      by (rule listed_save [OF listed _ _ save']) (simp_all add: good_record_def decode_empty same_payout_def)
    with step show ?thesis by (rule payout_step_trans)
  qed (use run step in auto)
qed

lemma reproved_single:
  assumes "reproved [txn] updated" "updated \<noteq> []"
  obtains t where "updated = [t]" "bare t = bare txn"
  using assms by (cases updated) (auto simp: reproved_def)

lemma encoded_record:
  assumes "payment_shape t" "pr_Transaction r = encodePendingTransaction t" "offered c r t"
  shows "good_record c r"
  unfolding good_record_def using assms pending_decode_encode [OF assms(1)] by metis

text \<open>What is offered for a record: one transaction, the recorded one with other proofs.\<close>

lemma offered_transaction:
  assumes "listed c s record" "decodePendingTransaction (pr_Transaction record) = Ok txn"
    "updatePendingProofs c m n [txn] basis tip = Ok updated" "updated \<noteq> []"
  obtains t where "updated = [t]" "payment_shape t" "offered c record t"
proof -
  have txn: "payment_shape txn" "offered c record txn"
    using assms(1,2) by (auto simp: listed_def good_record_def)
  have "reproved [txn] updated"
    by (rule updatePendingProofs_reproved [OF assms(3)]) (use txn(1) in \<open>simp add: payment_shape_def\<close>)
  then obtain t where t: "updated = [t]" "bare t = bare txn" using assms(4) by (rule reproved_single)
  show ?thesis by (rule that [OF t(1)]) (use txn payment_shape_bare [OF t(2)] offered_bare [OF t(2)] in simp_all)
qed

lemma broadcast_step:
  assumes "listed c s record" "offered c record t"
  shows "payout_step c (offered c record) s (broadcast e tip [t] (report what (rememberBroadcast c e tip [t] (s\<lparr>sv_CM := m\<rparr>))))"
    "listed c (broadcast e tip [t] (report what (rememberBroadcast c e tip [t] (s\<lparr>sv_CM := m\<rparr>)))) record"
proof -
  obtain r s1 where save: "rememberBroadcast c e tip [t] (s\<lparr>sv_CM := m\<rparr>) = (r, s1)" by fastforce
  have "same_payouts (s\<lparr>sv_CM := m\<rparr>) (report what (r, s1))" by (rule report_same) (simp add: rememberBroadcast_same [OF save])
  then have same: "same_payouts s (report what (r, s1))" by (simp add: same_payouts_def)
  then show "listed c (broadcast e tip [t] (report what (rememberBroadcast c e tip [t] (s\<lparr>sv_CM := m\<rparr>)))) record"
    unfolding save by (intro listed_cong [OF assms(1)]) (simp_all add: broadcast_def same_payouts_def)
  then show "payout_step c (offered c record) s (broadcast e tip [t] (report what (rememberBroadcast c e tip [t] (s\<lparr>sv_CM := m\<rparr>))))"
    using same assms(2) unfolding save by (simp add: payout_step_def listed_def broadcast_def same_payouts_def keeps_payouts_refl)
qed

lemma offer_payout_step:
  assumes listed: "listed c s record" and run: "offer_payout c e record s = (res, s')"
  shows "payout_step c (offered c record) s s'"
proof -
  let ?tip = "Tip (sv_CM s)" and ?x = "offered c record"
  have ok: "payouts_ok c s" using listed by (simp add: listed_def)
  have same: "payout_step c ?x s (s\<lparr>sv_CM := m\<rparr>)" for m by (rule same_payouts_step [OF ok]) (simp add: same_payouts_def)
  have self: "payout_step c ?x s s" by (rule same_payouts_step [OF ok]) (simp add: same_payouts_def)
  show ?thesis
  proof (cases "decodePendingTransaction (pr_Transaction record)")
    case (Ok txn)
    note dec = Ok
    show ?thesis
    proof (cases "updatePendingProofs c (sv_CM s) (en_iterations e) [txn] (pr_Basis record) ?tip")
      case (Ok updated)
      note run' = run [unfolded offer_payout_def Let_def dec change_simps Ok]
      show ?thesis
      proof (cases "updated = []")
        case True
        show ?thesis
          by (rule listed_save [OF listed _ _ run' [unfolded if_P [OF True]]])
            (use listed in \<open>simp_all add: listed_def good_record_def same_payout_def\<close>)
      next
        case False
        from offered_transaction [OF listed dec Ok False] obtain t where t: "updated = [t]" "payment_shape t" "offered c record t" .
        obtain a m where add: "AddV2PoolTransactions c (en_perm e) ?tip updated (sv_CM s) = (a, m)" by fastforce
        note run'' = run' [unfolded if_not_P [OF False] add prod.case]
        show ?thesis
        proof (cases a)
          case (Ok known)
          note sent = broadcast_step [OF listed t(3), of e ?tip "''failed to save pool payout for rebroadcast: ''" m]
          from run'' [unfolded Ok res.case t(1)] have "payout_step c ?x
              (broadcast e ?tip [t] (report ''failed to save pool payout for rebroadcast: '' (rememberBroadcast c e ?tip [t] (s\<lparr>sv_CM := m\<rparr>)))) s'"
            by (rule listed_save [OF sent(2), rotated 2]) (use t in \<open>auto simp: same_payout_def offered_def intro!: encoded_record [OF t(2)]\<close>)
          with sent(1) show ?thesis by (rule payout_step_trans)
        qed (use run'' same in auto)
      qed
    qed (use run dec self in \<open>simp_all add: offer_payout_def Let_def\<close>)
  qed (use run self in \<open>simp_all add: offer_payout_def Let_def\<close>)
qed

lemma ensurePoolPayout_step:
  assumes "listed c s record" "ensurePoolPayout c e record s = (res, s')"
  shows "payout_step c (offered c record) s s'"
proof -
  have self: "payout_step c (offered c record) s s"
    using assms(1) by (intro same_payouts_step) (simp_all add: listed_def same_payouts_def)
  have "listed c s (record\<lparr>pr_ConfirmedAt := \<lparr>ci_Height = 0, ci_ID = 0\<rparr>, pr_Status := ''queued''\<rparr>)"
    using assms(1) by (simp add: listed_def good_record_def same_payout_def)
  note again = offer_payout_step [OF this]
  show ?thesis
    using assms(2) self again offer_payout_step [OF assms(1)] finish_payout_step [OF assms(1)]
    unfolding ensurePoolPayout_def by (auto split: if_splits)
qed

section \<open>Requests\<close>

text \<open>What a call for the request \<open>rid\<close> with the digest \<open>d\<close> does: what it sends has one ID, which is the one of the record.\<close>

definition pays :: "crypto \<Rightarrow> byte list \<Rightarrow> byte list \<Rightarrow> Service \<Rightarrow> Service \<Rightarrow> bool" where
  "pays c rid d s s' \<longleftrightarrow> (\<exists>x. payout_step c (\<lambda>t. V2Transaction_ID c t = x \<and> pays_request c rid d t) s s' \<and>
     (sv_sent s' \<noteq> sv_sent s \<longrightarrow>
       (\<exists>r. Mapping.lookup (sv_poolPayouts s') rid = Some r \<and> pr_Digest r = d \<and> pr_TransactionID r = x)))"

lemma pays_nothing: "payouts_ok c s \<Longrightarrow> same_payouts s s' \<Longrightarrow> pays c rid d s s'"
  unfolding pays_def using same_payouts_step [of c s s'] by (auto simp: same_payouts_def)

lemma pays_after: "same_payouts s s1 \<Longrightarrow> pays c rid d s1 s' \<Longrightarrow> pays c rid d s s'"
  by (simp add: pays_def payout_step_def same_payouts_def keeps_payouts_def)

lemma pays_listed:
  assumes "Mapping.lookup (sv_poolPayouts s) (pr_RequestID record) = Some r" "same_payout r record" "payout_step c (offered c record) s s'"
  shows "pays c (pr_RequestID record) (pr_Digest record) s s'"
proof -
  from assms(3) have "keeps_payouts s s'" by (simp add: payout_step_def)
  with assms(1) obtain r' where "Mapping.lookup (sv_poolPayouts s') (pr_RequestID record) = Some r'" "same_payout r r'"
    unfolding keeps_payouts_def by blast
  with assms(2) have "Mapping.lookup (sv_poolPayouts s') (pr_RequestID record) = Some r' \<and> pr_Digest r' = pr_Digest record \<and>
      pr_TransactionID r' = pr_TransactionID record" by (simp add: same_payout_def)
  with assms(3) show ?thesis unfolding pays_def offered_eq by blast
qed

lemma ensure_pays:
  assumes "listed c s record" "sbind (ensurePoolPayout c e record) (\<lambda>record s. (Ok (payout_response record), s)) s = (res, s')"
  shows "pays c (pr_RequestID record) (pr_Digest record) s s'" "payout_step c (offered c record) s s'"
proof -
  obtain res2 s2 where ens: "ensurePoolPayout c e record s = (res2, s2)" by fastforce
  with assms(2) have "s' = s2" by (cases res2) (simp_all add: ens)
  then show step: "payout_step c (offered c record) s s'" using ensurePoolPayout_step [OF assms(1) ens] by simp
  from assms(1) obtain r where "Mapping.lookup (sv_poolPayouts s) (pr_RequestID record) = Some r" "same_payout r record"
    unfolding listed_def by blast
  from pays_listed [OF this step] show "pays c (pr_RequestID record) (pr_Digest record) s s'" .
qed

text \<open>A new record is offered only after it was saved.\<close>

lemma save_and_offer_pays:
  assumes ok: "payouts_ok c s" and new: "Mapping.lookup (sv_poolPayouts s) (pr_RequestID r) = None" and good: "good_record c r"
    and run: "sbind (savePoolPayoutRecord e outcome r) (\<lambda>_. sbind (ensurePoolPayout c e r) (\<lambda>record s. (Ok (payout_response record), s))) s = (res, s')"
  shows "pays c (pr_RequestID r) (pr_Digest r) s s'"
proof -
  obtain res1 s1 where save: "savePoolPayoutRecord e outcome r s = (res1, s1)" by fastforce
  have step: "payouts_ok c s1 \<and> keeps_payouts s s1 \<and> sv_sent s1 = sv_sent s \<and>
      (\<forall>r'. res1 = Ok r' \<longrightarrow> r' = r \<and> Mapping.lookup (sv_poolPayouts s1) (pr_RequestID r) = Some r)"
    by (rule savePoolPayoutRecord_ok [OF ok good _ save]) (simp add: new)
  show ?thesis
  proof (cases res1)
    case (Ok r')
    with step have listed: "listed c s1 r" using good by (simp add: listed_def)
    from run save Ok have "sbind (ensurePoolPayout c e r) (\<lambda>record s. (Ok (payout_response record), s)) s1 = (res, s')"
      by (simp only: sbind_def prod.case res.case)
    note ens = ensure_pays [OF listed this]
    have "payout_step c (offered c r) s s1" using step by (simp add: payout_step_def)
    then have "payout_step c (offered c r) s s'" using ens(2) by (rule payout_step_trans)
    moreover obtain r' where "Mapping.lookup (sv_poolPayouts s') (pr_RequestID r) = Some r'" "same_payout r r'"
      using ens(2) step Ok unfolding payout_step_def keeps_payouts_def by blast
    ultimately show ?thesis unfolding pays_def offered_eq same_payout_def by blast
  qed (use run save step in \<open>auto simp: pays_def payout_step_def\<close>)
qed

lemma record_payout_pays:
  assumes ok: "payouts_ok c s0" and new: "Mapping.lookup (sv_poolPayouts s0) (vp_RequestID v) = None"
    and shape: "payment_shape txn" and req: "pays_request c (vp_RequestID v) (vp_Digest v) txn" and run: "record_payout c e cs v txn s0 = (res, s')"
  shows "pays c (vp_RequestID v) (vp_Digest v) s0 s'"
proof -
  define s where "s = s0\<lparr>sv_CM := en_meanwhile e (sv_CM s0)\<rparr>"
  have same: "same_payouts s0 s" and ok': "payouts_ok c s" using ok by (simp_all add: s_def same_payouts_def payouts_ok_def)
  have new': "Mapping.lookup (sv_poolPayouts s) (vp_RequestID v) = None" using new by (simp add: s_def)
  let ?unit = "checkPayoutUnit ''QDAY denomination changed while signing; rebuild the pool payout'' v (m_tipState (sv_CM s))"
    and ?upd = "UpdateV2TransactionSet c (sv_CM s) [txn] (s_Index cs) (s_Index (m_tipState (sv_CM s)))"
  note run' = run [unfolded record_payout_def Let_def s_def [symmetric]]
  have idle: "pays c (vp_RequestID v) (vp_Digest v) s s" by (rule pays_nothing [OF ok']) (simp add: same_payouts_def)
  have "pays c (vp_RequestID v) (vp_Digest v) s s'"
  proof (cases ?unit)
    case (Ok u)
    note unit = Ok
    show ?thesis
    proof (cases ?upd)
      case (Ok updated)
      note run'' = run' [unfolded unit change_simps(1) Ok]
      show ?thesis
      proof (cases "\<exists>t. updated = [t]")
        case True
        then obtain t where t: "updated = [t]" by blast
        have "reproved [txn] [t]" by (rule UpdateV2TransactionSet_reproved [OF Ok [unfolded t]]) (use shape in \<open>simp add: payment_shape_def\<close>)
        then have bare: "bare t = bare txn" by (simp add: reproved_def)
        have tshape: "payment_shape t" using payment_shape_bare [OF bare] shape by simp
        have "pays_request c (vp_RequestID v) (vp_Digest v) t" using req bare_eq(2,11) [OF bare] by (simp add: pays_request_def)
        then show ?thesis using save_and_offer_pays [OF ok' _ _ run'' [unfolded t list.case]] new' encoded_record [OF tshape]
          by (simp add: offered_def)
      next
        case False
        with run'' have s': "s' = s" by (auto split: list.splits)
        show ?thesis unfolding s' by (rule idle)
      qed
    qed (use run' unit idle in auto)
  qed (use run' idle in auto)
  with same show ?thesis by (rule pays_after)
qed

end
