(* ===== verification/PayoutRuns.thy ===== *)
theory PayoutRuns
  imports PayoutRules
begin

text \<open>
  Calls of the payout interface, the other operations of the service, and restarts, one after the other: what any such
  sequence sends for a request.
\<close>

section \<open>Calls\<close>

lemma attempt_cases:
  assumes "attempt r g s = (res, s')"
  obtains x where "r = Ok x" "g x s = (res, s')" | "s' = s"
  using assms by (cases r) auto

lemma sbind_cases:
  assumes "sbind f g s = (res, s')"
  obtains x s1 where "f s = (Ok x, s1)" "g x s1 = (res, s')" | r where "f s = (r, s')"
  using assms by (cases "f s"; cases "fst (f s)") auto

lemma pool_of_same: "pool_of c e s = (r, s') \<Longrightarrow> same_payouts s s'"
  unfolding pool_of_def by (erule attempt_cases) (auto simp: same_payouts_def)

lemma outputs_op_same:
  assumes "outputs_op c e cs pub s = (r, s')"
  shows "same_payouts s s'"
  using assms unfolding outputs_op_def by (elim sbind_cases) (auto dest: pool_of_same)

lemma same_payouts_trans: "same_payouts s s1 \<Longrightarrow> same_payouts s1 s2 \<Longrightarrow> same_payouts s s2"
  by (simp add: same_payouts_def)

text \<open>The transaction of a new payout has the outputs and the fee of the request.\<close>

lemma build_payout_fields:
  assumes "build_payout c e cs k v required outs = Ok txn"
  obtains change where "\<not> qdayUnsupported txn" "v2_MinerFee txn = vp_Fee v"
    "v2_SiacoinOutputs txn = payout_outputs v @ change" "length change \<le> 1"
proof -
  from assms obtain inputs change where txn: "txn = empty_V2Transaction\<lparr>v2_SiacoinInputs := inputs, v2_MinerFee := vp_Fee v,
         v2_SiacoinOutputs := with_change change (QdayKeys_Address c k) (payout_outputs v),
         v2_ArbitraryData := QdayEnvelope_Encode (payment_envelope submitTransfer None)\<rparr>"
    by (auto simp: build_payout_def res_simps payout_outputs_def split: if_splits)
  show ?thesis
    by (rule that [of "with_change change (QdayKeys_Address c k) []"])
      (simp_all add: txn qdayUnsupported_def empty_V2Transaction_def with_change_def)
qed

lemma signed_payout:
  assumes "validatePoolPayoutRequest c rat_SetString req = Ok v" "build_payout c e cs k v required outs = Ok txn"
    "SignTransfer c rounds cancelled cs txn keys = Ok txn'"
  shows "payment_shape txn'" "pays_request c (vp_RequestID v) (vp_Digest v) txn'"
proof -
  from build_payout_fields [OF assms(2)] obtain change where txn: "\<not> qdayUnsupported txn" "v2_MinerFee txn = vp_Fee v"
      "v2_SiacoinOutputs txn = payout_outputs v @ change" "length change \<le> 1" .
  show "payment_shape txn'" by (rule signed_shape [OF assms(3) txn(1)])
  from SignTransfer_Ok [OF assms(3)] obtain en nonce w where "txn' = resign en nonce w txn" by blast
  with txn assms(1) show "pays_request c (vp_RequestID v) (vp_Digest v) txn'" unfolding pays_request_def by auto
qed

lemma new_payout_cases:
  assumes "new_payout c e v s = (res, s')"
  obtains "same_payouts s s'"
  | keys required outs txn txn' s1 where "same_payouts s s1"
    "build_payout c e (m_tipState (sv_CM s)) (qp_Public keys) v required outs = Ok txn"
    "SignTransfer c (en_rounds e) (en_cancelled e 0) (m_tipState (sv_CM s)) txn keys = Ok txn'"
    "record_payout c e (m_tipState (sv_CM s)) v txn' s1 = (res, s')"
proof (cases "sv_keys s")
  case None
  then show ?thesis using assms that(1) by (auto simp: new_payout_def same_payouts_def)
next
  case (Some keys)
  let ?cs = "m_tipState (sv_CM s)" and ?k = "qp_Public keys"
  have refl: "same_payouts s s" by (simp add: same_payouts_def)
  note run = assms [unfolded new_payout_def Let_def Some option.case]
  show ?thesis
  proof (rule attempt_cases [OF run])
    fix own
    assume "(if vp_FromAddress v \<noteq> own then \<lambda>s. (Err ''the active wallet changed; review the pool payout again'', s)
      else attempt (checkPayoutUnit ''QDAY denomination changed; rebuild the pool payout'' v ?cs) (\<lambda>_. attempt (payout_required v) (\<lambda>required.
        sbind (outputs_op c e ?cs (QdayKeys_Address c ?k)) (\<lambda>outs. attempt (build_payout c e ?cs ?k v required outs) (\<lambda>txn.
          attempt (SignTransfer c (en_rounds e) (en_cancelled e 0) ?cs txn keys) (record_payout c e ?cs v)))))) s = (res, s')"
    then consider "s' = s" | "attempt (checkPayoutUnit ''QDAY denomination changed; rebuild the pool payout'' v ?cs) (\<lambda>_. attempt (payout_required v) (\<lambda>required.
        sbind (outputs_op c e ?cs (QdayKeys_Address c ?k)) (\<lambda>outs. attempt (build_payout c e ?cs ?k v required outs) (\<lambda>txn.
          attempt (SignTransfer c (en_rounds e) (en_cancelled e 0) ?cs txn keys) (record_payout c e ?cs v))))) s = (res, s')"
      by (cases "vp_FromAddress v = own") (auto simp only: simp_thms if_False if_True prod.inject not_True_eq_False)
    then show thesis
    proof cases
      case 2
      then show ?thesis
        by (elim attempt_cases sbind_cases) (use that refl outputs_op_same in blast)+
    qed (use that(1) refl in simp)
  qed (use that(1) refl in simp)
qed

lemma new_payout_pays:
  assumes ok: "payouts_ok c s" and new: "Mapping.lookup (sv_poolPayouts s) (vp_RequestID v) = None"
    and v: "validatePoolPayoutRequest c rat_SetString req = Ok v" and run: "new_payout c e v s = (res, s')"
  shows "pays c (vp_RequestID v) (vp_Digest v) s s'"
  using run
proof (cases rule: new_payout_cases)
  case 1
  then show ?thesis by (rule pays_nothing [OF ok])
next
  case (2 keys required outs txn txn' s1)
  have "payouts_ok c s1" "Mapping.lookup (sv_poolPayouts s1) (vp_RequestID v) = None"
    using ok new 2(1) payouts_ok_cong [of s1 s c] by (simp_all add: same_payouts_def)
  from record_payout_pays [OF this signed_payout [OF v 2(2,3)] 2(4)] 2(1) show ?thesis by (rule pays_after [rotated])
qed

lemma PoolPayout_pays:
  assumes ok: "payouts_ok c s" and v: "validatePoolPayoutRequest c rat_SetString req = Ok v"
    and run: "PoolPayout c rat_SetString e req s = (res, s')"
  shows "pays c (vp_RequestID v) (vp_Digest v) s s'"
proof (cases "Mapping.lookup (sv_poolPayouts s) (vp_RequestID v)")
  case None
  with run v have "new_payout c e v s = (res, s')" by (simp add: PoolPayout_def)
  from new_payout_pays [OF ok None v this] show ?thesis .
next
  case (Some r)
  note rec = payouts_okD(1,2) [OF ok Some]
  show ?thesis
  proof (cases "pr_Digest r = vp_Digest v")
    case True
    have listed: "listed c s r" using ok rec Some by (auto simp: listed_def)
    have "sbind (ensurePoolPayout c e r) (\<lambda>record s. (Ok (payout_response record), s)) s = (res, s')"
      using run v Some True by (simp add: PoolPayout_def)
    from ensure_pays(1) [OF listed this] show ?thesis by (simp add: rec(1) True)
  next
    case False
    with run v Some have "s' = s" by (simp add: PoolPayout_def)
    then show ?thesis using pays_nothing [OF ok] by (simp add: same_payouts_def)
  qed
qed

section \<open>Starting the service\<close>

lemma load_record_fields:
  assumes "load_record c r s = Ok s'"
  shows "Mapping.lookup (sv_poolPayouts s) (pr_RequestID r) = None" "sv_poolPayouts s' = Mapping.update (pr_RequestID r) r (sv_poolPayouts s)"
    "sv_poolPayoutFile s' = sv_poolPayoutFile s"
  using assms by (auto simp: load_record_def res_simps split: if_splits)

lemma load_records:
  assumes "fold_res (load_record c) rs s = Ok s'"
  shows "(\<forall>r \<in> set rs. Mapping.lookup (sv_poolPayouts s') (pr_RequestID r) = Some r) \<and>
    (\<forall>rid r. Mapping.lookup (sv_poolPayouts s) rid = Some r \<longrightarrow> Mapping.lookup (sv_poolPayouts s') rid = Some r) \<and>
    (\<forall>rid r. Mapping.lookup (sv_poolPayouts s') rid = Some r \<longrightarrow>
       Mapping.lookup (sv_poolPayouts s) rid = Some r \<or> r \<in> set rs \<and> pr_RequestID r = rid) \<and>
    (finite (Mapping.keys (sv_poolPayouts s)) \<longrightarrow> finite (Mapping.keys (sv_poolPayouts s'))) \<and>
    sv_poolPayoutFile s' = sv_poolPayoutFile s"
  using assms
proof (induction rs arbitrary: s)
  case (Cons r rs)
  then obtain s1 where s1: "load_record c r s = Ok s1" "fold_res (load_record c) rs s1 = Ok s'" by (auto simp: res_simps)
  note tab = load_record_fields [OF s1(1)]
  note IH = Cons.IH [OF s1(2)]
  have "Mapping.lookup (sv_poolPayouts s') (pr_RequestID r) = Some r" using IH by (simp add: tab(2))
  moreover have "Mapping.lookup (sv_poolPayouts s') rid = Some r'" if "Mapping.lookup (sv_poolPayouts s) rid = Some r'" for rid r'
  proof -
    from that tab(1) have "rid \<noteq> pr_RequestID r" by auto
    then show ?thesis using IH that by (simp add: tab(2) lookup_update')
  qed
  moreover have "Mapping.lookup (sv_poolPayouts s) rid = Some r' \<or> r' \<in> set (r # rs) \<and> pr_RequestID r' = rid"
    if "Mapping.lookup (sv_poolPayouts s') rid = Some r'" for rid r'
  proof -
    from IH that have "Mapping.lookup (sv_poolPayouts s1) rid = Some r' \<or> r' \<in> set rs \<and> pr_RequestID r' = rid" by blast
    then show ?thesis by (auto simp: tab(2) lookup_update' split: if_splits)
  qed
  ultimately show ?case using IH by (auto simp: tab)
qed simp

lemma loadPendingBroadcasts_same: "loadPendingBroadcasts c e s = Ok s' \<Longrightarrow> same_payouts s s'"
  by (auto simp: loadPendingBroadcasts_def same_payouts_def res_simps split: option.splits if_splits)

text \<open>A started service has exactly the payouts of its file.\<close>

lemma NewService_payouts:
  assumes "NewService c e cm broadcasts \<lparr>fl_visible = f, fl_durable = f\<rparr> = Ok s" "good_file c f"
  shows "payouts_ok c s" "\<And>r. in_file r f \<Longrightarrow> \<exists>r'. Mapping.lookup (sv_poolPayouts s) (pr_RequestID r) = Some r' \<and> same_payout r r'"
proof -
  from assms(1) obtain s1 where s1: "sv_poolPayouts s1 = Mapping.empty" "sv_poolPayoutFile s1 = \<lparr>fl_visible = f, fl_durable = f\<rparr>"
      "loadPoolPayouts c e s1 = Ok s"
    by (auto simp: NewService_def res_simps same_payouts_def dest!: loadPendingBroadcasts_same)
  show "payouts_ok c s"
  proof (cases f)
    case None
    with s1 show ?thesis by (simp add: loadPoolPayouts_def payouts_ok_def good_file_def)
  next
    case (Some rs)
    with s1 have "fold_res (load_record c) rs s1 = Ok s" by (simp add: loadPoolPayouts_def split: if_splits)
    note load = load_records [OF this]
    show ?thesis
    proof (rule payouts_okI)
      fix rid r
      assume "Mapping.lookup (sv_poolPayouts s) rid = Some r"
      then have "r \<in> set rs" "pr_RequestID r = rid" using load s1(1) by auto
      then show "pr_RequestID r = rid \<and> good_record c r \<and> in_file r (fl_visible (sv_poolPayoutFile s)) \<and>
          in_file r (fl_durable (sv_poolPayoutFile s))"
        using assms(2) load s1(2) Some by (auto simp: good_file_def in_file_def list_all_iff list_ex_iff intro: bexI [of _ r])
    qed (use load s1 assms(2) in simp_all)
  qed
  fix r
  assume "in_file r f"
  then obtain rs r' where r': "f = Some rs" "r' \<in> set rs" "same_payout r r'"
    by (auto simp: in_file_def list_ex_iff split: option.splits)
  with s1 have "fold_res (load_record c) rs s1 = Ok s" by (simp add: loadPoolPayouts_def split: if_splits)
  from load_records [OF this] r'(2) have "Mapping.lookup (sv_poolPayouts s) (pr_RequestID r') = Some r'" by blast
  with r'(3) show "\<exists>r'. Mapping.lookup (sv_poolPayouts s) (pr_RequestID r) = Some r' \<and> same_payout r r'"
    by (auto simp: same_payout_def)
qed

section \<open>The other operations\<close>

lemma publish_same: "publish c e unit cs txn s = (res, s') \<Longrightarrow> same_payouts s s'"
proof -
  assume run: "publish c e unit cs txn s = (res, s')"
  define s0 where "s0 = s\<lparr>sv_CM := en_meanwhile e (sv_CM s)\<rparr>"
  have s0: "same_payouts s s0" by (simp add: s0_def same_payouts_def)
  have "same_payouts s0 s'"
    using run unfolding publish_def Let_def s0_def [symmetric]
  proof (elim attempt_cases)
    fix txns
    assume add: "(case AddV2PoolTransactions c (en_perm e) (s_Index (m_tipState (sv_CM s0))) txns (sv_CM s0) of
        (Ok _, m) \<Rightarrow> (Ok (V2Transaction_ID c txn), report ''failed to save pending transaction for rebroadcast: ''
          (rememberBroadcast c e (s_Index (m_tipState (sv_CM s0))) txns (s0\<lparr>sv_CM := m\<rparr>)))
      | (Err err, m) \<Rightarrow> (Err err, s0\<lparr>sv_CM := m\<rparr>) | (Panic p, m) \<Rightarrow> (Panic p, s0\<lparr>sv_CM := m\<rparr>)) = (res, s')"
    have "same_payouts s0 (report what (rememberBroadcast c e basis txns (s0\<lparr>sv_CM := m\<rparr>)))" for what basis m
    proof (rule report_same)
      have "same_payouts (s0\<lparr>sv_CM := m\<rparr>) (snd (rememberBroadcast c e basis txns (s0\<lparr>sv_CM := m\<rparr>)))"
        by (rule rememberBroadcast_same [OF prod.collapse [symmetric]])
      then show "same_payouts s0 (snd (rememberBroadcast c e basis txns (s0\<lparr>sv_CM := m\<rparr>)))" by (simp add: same_payouts_def)
    qed
    then show "same_payouts s0 s'" using add by (auto simp: same_payouts_def split: prod.splits res.splits)
  qed (simp_all add: same_payouts_def)
  with s0 show "same_payouts s s'" by (rule same_payouts_trans)
qed

text \<open>Operations that neither change the payouts nor send anything.\<close>

definition quiet :: "(Service \<Rightarrow> 'a res \<times> Service) \<Rightarrow> bool" where
  "quiet f \<longleftrightarrow> (\<forall>s r s'. f s = (r, s') \<longrightarrow> same_payouts s s')"

lemma quietD: "quiet f \<Longrightarrow> f s = (r, s') \<Longrightarrow> same_payouts s s'"
  by (simp add: quiet_def)

lemma quiet_return [intro]: "quiet (Pair r)"
  by (auto simp: quiet_def same_payouts_def)

lemma quiet_attempt [intro]: "(\<And>x. r = Ok x \<Longrightarrow> quiet (g x)) \<Longrightarrow> quiet (attempt r g)"
  by (cases r) (auto simp: quiet_def same_payouts_def)

lemma quiet_sbind [intro]:
  assumes "quiet f" "\<And>x. quiet (g x)"
  shows "quiet (sbind f g)"
  unfolding quiet_def by (blast elim: sbind_cases intro: quietD [OF assms(1)] quietD [OF assms(2)] same_payouts_trans)

lemma quiet_if [intro]: "quiet f \<Longrightarrow> quiet g \<Longrightarrow> quiet (if b then f else g)"
  by simp

lemma quiet_pool_of [intro]: "quiet (pool_of c e)"
  by (simp add: quiet_def pool_of_same)

lemma quiet_outputs [intro]: "quiet (outputs_op c e cs pub)"
  by (simp add: quiet_def outputs_op_same)

lemma quiet_publish [intro]: "quiet (publish c e unit cs txn)"
  by (simp add: quiet_def publish_same)

lemma quiet_check_proof [intro]: "quiet (check_proof c e cs w)"
proof -
  have "quiet (sbind (pendingProof c e) (\<lambda>pending. Pair (fail_if (pending \<noteq> None) err)))" for err
    unfolding pendingProof_def by (intro quiet_sbind quiet_pool_of quiet_return)
  then show ?thesis unfolding quiet_def check_proof_def
    by (auto simp: same_payouts_def simp del: change_simps split: option.splits if_splits)
qed

lemma submitReviewed_same: "submitReviewed c rat_SetString e src unit customFee to amount mode witness s = (res, s') \<Longrightarrow> same_payouts s s'"
proof (cases "sv_keys s")
  case None
  assume "submitReviewed c rat_SetString e src unit customFee to amount mode witness s = (res, s')"
  with None show ?thesis by (simp add: submitReviewed_def same_payouts_def split: if_splits)
next
  case (Some keys)
  assume run: "submitReviewed c rat_SetString e src unit customFee to amount mode witness s = (res, s')"
  show ?thesis
  proof (cases "en_cancelled e 0")
    case True
    with run show ?thesis by (simp add: submitReviewed_def same_payouts_def)
  next
    case False
    from run [unfolded submitReviewed_def Let_def if_not_P [OF False] Some option.case] show ?thesis
      by (rule quietD [rotated]) (intro quiet_attempt quiet_sbind quiet_if quiet_return quiet_check_proof quiet_outputs quiet_publish)
  qed
qed

text \<open>Offering pending transactions again leaves the payouts alone.\<close>

lemma rebroadcast_set_keeps:
  assumes "rebroadcast_set c e tip b changed s = (r, s')"
  shows "sv_poolPayouts s' = sv_poolPayouts s \<and> sv_poolPayoutFile s' = sv_poolPayoutFile s"
  using assms by (cases b) (auto simp: rebroadcast_set_def broadcast_def split: if_splits res.splits prod.splits)

lemma rebroadcast_sets_keeps:
  "rebroadcast_sets c e tip bs changed s = (r, s') \<Longrightarrow> sv_poolPayouts s' = sv_poolPayouts s \<and> sv_poolPayoutFile s' = sv_poolPayoutFile s"
proof (induction bs arbitrary: changed s)
  case (Cons b bs)
  from Cons.prems [unfolded rebroadcast_sets.simps] show ?case
    by (elim sbind_cases) (use Cons.IH rebroadcast_set_keeps in metis)+
qed simp

lemma rebroadcastPending_keeps:
  assumes "rebroadcastPending c e ids s = (r, s')"
  shows "sv_poolPayouts s' = sv_poolPayouts s \<and> sv_poolPayoutFile s' = sv_poolPayoutFile s"
  using assms unfolding rebroadcastPending_def
proof (elim sbind_cases)
  fix changed s1
  assume sets: "rebroadcast_sets c e (Tip (sv_CM s)) (map (\<lambda>k. (k, the (Mapping.lookup (sv_rebroadcasts s) k))) ids) False s = (Ok changed, s1)"
    and fin: "(Ok (), if changed then report ''failed to update pending transactions: '' (savePendingBroadcasts e s1) else s1) = (r, s')"
  have "same_payouts s1 (report what (savePendingBroadcasts e s1))" for what
    by (rule report_same) (rule savePendingBroadcasts_same [OF prod.collapse [symmetric]])
  with fin have "same_payouts s1 s'" by (auto simp: same_payouts_def split: if_splits)
  with rebroadcast_sets_keeps [OF sets] show ?thesis by (simp add: same_payouts_def)
qed (use rebroadcast_sets_keeps in blast)

section \<open>Runs\<close>

text \<open>The transactions that a call sends.\<close>

definition sent_since :: "Service \<Rightarrow> Service \<Rightarrow> V2Transaction list" where
  "sent_since s s' = concat (map snd (drop (length (sv_sent s)) (sv_sent s')))"

text \<open>
  A service that was started without files, then called, changed and restarted in any order. The log has what the
  calls of the payout interface sent, with the request and its digest. A crash in the middle of a call is a call in which
  the writes that did not happen fail, followed by a restart.
\<close>

inductive payout_run :: "crypto \<Rightarrow> Service \<Rightarrow> (byte list \<times> byte list \<times> V2Transaction) list \<Rightarrow> bool" for c where
  start: "NewService c e cm \<lparr>fl_visible = None, fl_durable = None\<rparr> \<lparr>fl_visible = None, fl_durable = None\<rparr> = Ok s \<Longrightarrow> payout_run c s []"
| call: "payout_run c s lg \<Longrightarrow> validatePoolPayoutRequest c rat_SetString req = Ok v \<Longrightarrow> PoolPayout c rat_SetString e req s = (res, s') \<Longrightarrow>
    payout_run c s' (lg @ map (\<lambda>t. (vp_RequestID v, vp_Digest v, t)) (sent_since s s'))"
| payment: "payout_run c s lg \<Longrightarrow> submitReviewed c rat_SetString e src unit customFee to amount mode witness s = (res', s') \<Longrightarrow> payout_run c s' lg"
| rebroadcast: "payout_run c s lg \<Longrightarrow> rebroadcastPending c e ids s = (res'', s') \<Longrightarrow> payout_run c s' lg"
| chain: "payout_run c s lg \<Longrightarrow> payout_run c (s\<lparr>sv_CM := m\<rparr>) lg"
| keys: "payout_run c s lg \<Longrightarrow> payout_run c (s\<lparr>sv_keys := k\<rparr>) lg"
| restart: "payout_run c s lg \<Longrightarrow> NewService c e cm (after_crash lost (sv_rebroadcastFile s)) (after_crash lost' (sv_poolPayoutFile s)) = Ok s' \<Longrightarrow>
    payout_run c s' lg"

inductive_cases payout_runE: "payout_run c s lg"

text \<open>Everything that was sent is a payment of its request with the ID that the table has for it.\<close>

definition log_ok :: "crypto \<Rightarrow> Service \<Rightarrow> (byte list \<times> byte list \<times> V2Transaction) list \<Rightarrow> bool" where
  "log_ok c s lg \<longleftrightarrow> (\<forall>rid d t. (rid, d, t) \<in> set lg \<longrightarrow> pays_request c rid d t \<and> (\<exists>r. Mapping.lookup (sv_poolPayouts s) rid = Some r \<and>
     pr_Digest r = d \<and> pr_TransactionID r = V2Transaction_ID c t))"

lemma log_ok_keeps: "log_ok c s lg \<Longrightarrow> keeps_payouts s s' \<Longrightarrow> log_ok c s' lg"
  unfolding log_ok_def keeps_payouts_def same_payout_def by metis

lemma pays_log:
  assumes "pays c rid d s s'" "log_ok c s lg"
  shows "log_ok c s' (lg @ map (\<lambda>t. (rid, d, t)) (sent_since s s'))"
proof -
  from assms(1) obtain x new where step: "keeps_payouts s s'" "sv_sent s' = sv_sent s @ new"
      "list_all (\<lambda>(b, txns). list_all (\<lambda>t. V2Transaction_ID c t = x \<and> pays_request c rid d t) txns) new"
      "sv_sent s' \<noteq> sv_sent s \<longrightarrow> (\<exists>r. Mapping.lookup (sv_poolPayouts s') rid = Some r \<and> pr_Digest r = d \<and> pr_TransactionID r = x)"
    unfolding pays_def payout_step_def by blast
  have "pays_request c rid d t \<and> (\<exists>r. Mapping.lookup (sv_poolPayouts s') rid = Some r \<and> pr_Digest r = d \<and>
      pr_TransactionID r = V2Transaction_ID c t)" if "t \<in> set (sent_since s s')" for t
  proof -
    from that have "t \<in> set (concat (map snd new))" by (simp add: sent_since_def step(2))
    then obtain b txns where "(b, txns) \<in> set new" "t \<in> set txns" by auto
    with step(3) have "V2Transaction_ID c t = x" "pays_request c rid d t" "new \<noteq> []" by (auto simp: list_all_iff)
    with step(2,4) show ?thesis by simp
  qed
  with log_ok_keeps [OF assms(2) step(1)] show ?thesis by (auto simp: log_ok_def)
qed

lemma restart_ok:
  assumes ok: "payouts_ok c s" "log_ok c s lg"
    and run: "NewService c e cm b (after_crash lost (sv_poolPayoutFile s)) = Ok s'"
  shows "payouts_ok c s' \<and> log_ok c s' lg"
proof -
  define f where "f = (if lost then fl_durable (sv_poolPayoutFile s) else fl_visible (sv_poolPayoutFile s))"
  have "good_file c f" using ok(1) by (simp add: f_def payouts_ok_def)
  note new = NewService_payouts [OF run [unfolded after_crash_def Let_def f_def [symmetric]] this]
  have "keeps_payouts s s'" unfolding keeps_payouts_def
  proof (intro allI impI)
    fix rid r
    assume "Mapping.lookup (sv_poolPayouts s) rid = Some r"
    note r = payouts_okD [OF ok(1) this]
    then have "in_file r f" by (simp add: f_def)
    from new(2) [OF this] show "\<exists>r'. Mapping.lookup (sv_poolPayouts s') rid = Some r' \<and> same_payout r r'" by (simp add: r(1))
  qed
  with new(1) log_ok_keeps [OF ok(2)] show ?thesis by blast
qed

lemma payout_run_ok: "payout_run c s lg \<Longrightarrow> payouts_ok c s \<and> log_ok c s lg"
proof (induction rule: payout_run.induct)
  case (start e cm s)
  have "payouts_ok c s" by (rule NewService_payouts(1) [OF start]) (simp add: good_file_def)
  then show ?case by (simp add: log_ok_def)
next
  case (call s lg rat_SetString req v e res s')
  then have "pays c (vp_RequestID v) (vp_Digest v) s s'" using PoolPayout_pays by blast
  moreover from this have "payouts_ok c s'" unfolding pays_def payout_step_def by blast
  ultimately show ?case using call pays_log by blast
next
  case (payment s lg rat_SetString e src unit customFee to amount mode witness res' s')
  from submitReviewed_same [OF payment(2)] payment show ?case
    by (simp add: same_payouts_def log_ok_def payouts_ok_cong [of s' s])
next
  case (rebroadcast s lg e ids res'' s')
  from rebroadcastPending_keeps [OF rebroadcast(2)] rebroadcast show ?case
    by (simp add: log_ok_def payouts_ok_cong [of s' s])
next
  case (restart s lg e cm lost lost' s')
  then show ?case using restart_ok by blast
qed (simp_all add: payouts_ok_def log_ok_def)

end
