(* ===== verification/PayoutProperties.thy ===== *)
theory PayoutProperties
  imports PayoutRuns ChainExtension SignedTransfers
begin

text \<open>
  What the payout interface guarantees over every run of the service, with a payout on the sample chain: a request that pays
  the whole sample coin is built, signed, recorded, accepted by the pool and sent.
\<close>

section \<open>The pool of the sample chain\<close>





section \<open>A payout\<close>
















section \<open>Payouts are paid once\<close>



end
