(* ===== verification/Spec2Isabelle.thy ===== *)
theory Spec2Isabelle
  imports AddressText BlockProperties ManagerProperties ChainExtension SignedTransfers
    RelayProperties RelayPlanProperties RelayBudget PayoutProperties
begin

text \<open>
  A verification development for the QDAY node: a block chain whose coins are spent with two signatures, one
  of Ed25519 and one of SLH-DSA, and whose unprotected value decays once a proof that a canary key was broken is
  published. All paths are below \<^verbatim>\<open>src\<close>.

  \<^bold>\<open>The program.\<close> \<^verbatim>\<open>core/types\<close> has the data, its wire format, hashes, spend policies and addresses;
  \<^verbatim>\<open>core/consensus\<close> the chain state and the rules by which a block is validated, applied and reverted;
  \<^verbatim>\<open>core/gateway\<close> the messages of the peer protocol; \<^verbatim>\<open>coreutils/chain\<close> the store of blocks and the chain
  manager with its transaction pool; \<^verbatim>\<open>coreutils/qday\<close> the miner and the signing of transactions;
  \<^verbatim>\<open>coreutils/syncer\<close> the handlers of peer requests; \<^verbatim>\<open>node/qday\<close> the wallet, the mining interface and
  the payouts of a node. A block goes from a peer or the miner to \<^verbatim>\<open>AddBlocks\<close>, which validates it on the state
  of its parent, stores it and moves the tip if its chain is heavier; a transaction goes from the wallet or a
  peer to \<^verbatim>\<open>AddV2PoolTransactions\<close>, from the pool to the candidates of the miner and to other peers.

  \<^bold>\<open>Conventions.\<close> A Go call has the value \<^verbatim>\<open>Ok x\<close>, \<^verbatim>\<open>Err e\<close> for a returned error or \<^verbatim>\<open>Panic p\<close>
  (type \<^verbatim>\<open>res\<close> of \<^verbatim>\<open>Prelude\<close>); index and nil panics of the source are branches of the model. Machine integers
  are words of their width, a 32-byte array is a 256-bit word, a byte slice or Go string a list of 8-bit words, a
  struct a record whose fields carry a prefix. Operations of the chain manager return a result and the new
  manager, also when they fail. Cryptographic primitives (blake2b, sha256, Ed25519, SLH-DSA, the curve of the canary)
  are the fields of the record \<^verbatim>\<open>crypto\<close>, a parameter of every definition that uses them; what a theorem needs of
  them is a hypothesis, and the sample objects show that it can hold. \<^verbatim>\<open>sort.Slice\<close>, which is not stable, is an
  arbitrary permutation \<^verbatim>\<open>perm\<close> followed by a stable sort. A \<^verbatim>\<open>for\<close> loop with a cancelled context takes
  the number of rounds before the cancellation as an argument; every other loop is a total function with a
  termination proof, so no fuel is chosen anywhere else.

  \<^bold>\<open>Data and encodings.\<close>
  \<^item> \<^verbatim>\<open>Prelude\<close>: machine types, \<^verbatim>\<open>math/bits\<close>, \<^verbatim>\<open>encoding/binary\<close>, folds over results and the interface
    \<^verbatim>\<open>checked_nat\<close> of checked arithmetic.
  \<^item> \<^verbatim>\<open>Currency\<close>, \<^verbatim>\<open>Amounts\<close>: \<^verbatim>\<open>core/types/currency.go\<close>, arithmetic and text, and the amounts of
    \<^verbatim>\<open>node/qday/service.go\<close>. Arithmetic is exact or panics, except that \<^verbatim>\<open>Mul\<close> misses overflows; printed amounts
    are read back exactly.
  \<^item> \<^verbatim>\<open>Types\<close>, \<^verbatim>\<open>Codec\<close>, \<^verbatim>\<open>Encoding\<close>, \<^verbatim>\<open>EncodingV2\<close>: \<^verbatim>\<open>core/types/types.go\<close> and
    \<^verbatim>\<open>core/types/encoding.go\<close>. The interfaces \<^verbatim>\<open>codec\<close> and \<^verbatim>\<open>slice_codec\<close> state what a pair of
    \<^verbatim>\<open>EncodeTo\<close> and \<^verbatim>\<open>DecodeFrom\<close> promises; each type interprets them, so slices, pointers and structs of decodable
    types are decodable.
  \<^item> \<^verbatim>\<open>Hashing\<close>, \<^verbatim>\<open>MerkleTree\<close>: \<^verbatim>\<open>core/blake2b/blake2b.go\<close>, \<^verbatim>\<open>core/types/hash.go\<close> and the identifiers. The
    incremental accumulator refines the tree hash of RFC 6962.
  \<^item> \<^verbatim>\<open>Policy\<close>: \<^verbatim>\<open>core/types/policy.go\<close>, \<^verbatim>\<open>core/types/qday.go\<close>, \<^verbatim>\<open>core/types/qday_swap.go\<close>. Which witnesses native
    and atomic-swap policies accept, and that signing produces such witnesses.
  \<^item> \<^verbatim>\<open>Bech32\<close>, \<^verbatim>\<open>AddressText\<close>: \<^verbatim>\<open>core/types/qday_address.go\<close>. Round trip, canonical form and detection of a
    wrong character.

  \<^bold>\<open>Consensus.\<close>
  \<^item> \<^verbatim>\<open>Work\<close>, \<^verbatim>\<open>ElementAccumulator\<close>, \<^verbatim>\<open>ChainState\<close>, \<^verbatim>\<open>Qday\<close>, \<^verbatim>\<open>QdayNetwork\<close>, \<^verbatim>\<open>MidState\<close>: work,
    \<^verbatim>\<open>core/consensus/merkle.go\<close>, \<^verbatim>\<open>core/consensus/state.go\<close>, \<^verbatim>\<open>core/consensus/qday.go\<close>, \<^verbatim>\<open>coreutils/chain/qday.go\<close>.
  \<^item> \<^verbatim>\<open>Application\<close>, \<^verbatim>\<open>ValidationV1\<close>, \<^verbatim>\<open>Validation\<close>: \<^verbatim>\<open>core/consensus/application.go\<close> and
    \<^verbatim>\<open>core/consensus/validation.go\<close>.
  \<^item> \<^verbatim>\<open>Difficulty\<close>, \<^verbatim>\<open>MidStateRules\<close>, \<^verbatim>\<open>BlockRules\<close>, \<^verbatim>\<open>Chain\<close>, \<^verbatim>\<open>BlockProperties\<close>: what an accepted block
    satisfies (value conserved up to decay, every coin spent once, both signatures, exact payout) and what a chain of
    accepted blocks, the relation \<^verbatim>\<open>qday_chain\<close>, keeps (work, height, activation of the decay).

  \<^bold>\<open>Chain manager and pool.\<close>
  \<^item> \<^verbatim>\<open>ChainStore\<close>, \<^verbatim>\<open>ChainManager\<close>, \<^verbatim>\<open>Reorg\<close>: \<^verbatim>\<open>coreutils/chain/db.go\<close> over maps instead of buckets, and the
    queries, reorganisations and additions of \<^verbatim>\<open>coreutils/chain/manager.go\<close>.
  \<^item> \<^verbatim>\<open>TxPool\<close>, \<^verbatim>\<open>PoolOperations\<close>, \<^verbatim>\<open>PoolRules\<close>: the pool of \<^verbatim>\<open>coreutils/chain/manager.go\<close>; its transactions
    validate in order on the tip (relation \<^verbatim>\<open>pool_run\<close>).
  \<^item> \<^verbatim>\<open>ReorgRules\<close>, \<^verbatim>\<open>BestChain\<close>, \<^verbatim>\<open>ChainReorg\<close>, \<^verbatim>\<open>ManagedChain\<close>, \<^verbatim>\<open>ManagerProperties\<close>, \<^verbatim>\<open>ChainExtension\<close>: every
    reachable manager (relation \<^verbatim>\<open>managed\<close>, with the obligation \<^verbatim>\<open>validated\<close> of the callers of \<^verbatim>\<open>AddValidatedV2Blocks\<close>) has a
    linked best chain, exactly heavier chains move the tip, an accepted block does.
  \<^item> \<^verbatim>\<open>Miner\<close>, \<^verbatim>\<open>MinerProperties\<close>, \<^verbatim>\<open>SignedTransfers\<close>: \<^verbatim>\<open>coreutils/qday/miner.go\<close> and \<^verbatim>\<open>coreutils/miner.go\<close>;
    mined candidates and signed transfers are accepted.

  \<^bold>\<open>Peers.\<close>
  \<^item> \<^verbatim>\<open>Outline\<close>, \<^verbatim>\<open>Relay\<close>, \<^verbatim>\<open>RelayProperties\<close>: \<^verbatim>\<open>core/gateway/outline.go\<close> and the handlers of
    \<^verbatim>\<open>coreutils/syncer/peer.go\<close>; what a handler does to its peers is a list of actions, and its panics are recovered. A
    relayed outline becomes its block.
  \<^item> \<^verbatim>\<open>RelayPlan\<close>, \<^verbatim>\<open>RelayPlanProperties\<close>: \<^verbatim>\<open>coreutils/syncer/txpool_relay.go\<close>; the plan covers the pool.
  \<^item> \<^verbatim>\<open>RelayBudget\<close>: \<^verbatim>\<open>coreutils/syncer/relay_budget.go\<close> and the slots of \<^verbatim>\<open>coreutils/syncer/syncer.go\<close>, two
    instances of the interface \<^verbatim>\<open>slot_counter\<close>.

  \<^bold>\<open>Node service.\<close>
  \<^item> \<^verbatim>\<open>Rebroadcast\<close>: the state of the service and \<^verbatim>\<open>node/qday/rebroadcast.go\<close>. The record \<^verbatim>\<open>env\<close> has what one call meets:
    clock, file system, wallet index, relay and the changes of the chain in the meantime.
  \<^item> \<^verbatim>\<open>WalletService\<close>: the payments of \<^verbatim>\<open>node/qday/service.go\<close>, from the choice of inputs to the pool.
  \<^item> \<^verbatim>\<open>PoolPayout\<close>: \<^verbatim>\<open>node/qday/pool_payout.go\<close>.
  \<^item> \<^verbatim>\<open>PendingRules\<close>: moving a transaction to another block changes only the proofs of its inputs, so its ID stays.
  \<^item> \<^verbatim>\<open>PayoutRules\<close>, \<^verbatim>\<open>PayoutRuns\<close>, \<^verbatim>\<open>PayoutProperties\<close>: the table of payouts and its file over the runs of the service
    (relation \<^verbatim>\<open>payout_run\<close>), with failing writes, crashes and restarts; a payout is paid once.

  \<^bold>\<open>Sample objects.\<close> \<^verbatim>\<open>SampleBlock\<close>, \<^verbatim>\<open>SampleChain\<close> and \<^verbatim>\<open>SampleManager\<close> have a concrete network, coin, accepted
  block, chain and manager, over a concrete \<^verbatim>\<open>crypto\<close>, on which the witnesses of the properties are evaluated.

  \<^bold>\<open>Not modelled.\<close>
  \<^item> Input and output: HTTP handlers, command lines, SQL tables, sockets, the framing and handshake of the peer protocol,
    port mapping. Goroutines and mutexes: an operation that holds a lock is one step.
  \<^item> JSON forms and the textual grammar of policies, which no consensus rule reads; the JSON of the network manifest is
    hashed into the domain, which is a parameter.
  \<^item> The buckets under the store with their cache, migrations and the start at a checkpoint; entries are kept as values,
    so the loss of fractions of a second in stored times does not show, and flushing, with its error at the end of
    \<^verbatim>\<open>reorgTo\<close>, is left out. The multiproof form of blocks on the wire.
  \<^item> The inherited renter-host protocols and storage wallets, which transactions of the QDAY network cannot use.
  \<^item> Logging, metrics, listeners and counters of hashes.
\<close>

end
